(* ===== verification/Prelude.thy ===== *)
theory Prelude
  imports Complex_Main "HOL-Library.AList"
begin

section \<open>Shared vocabulary of the models\<close>

text \<open>
  What every component of the model uses: numbers and time stamps, the JavaScript
  conventions the source relies on (\<open>??\<close>, truthiness, \<open>Math.round\<close>, \<open>toFixed\<close>,
  insertion-ordered \<open>Map\<close> objects), the third-party operations the source calls, and the
  generic lemmas about them.

  \<^bold>\<open>Numbers.\<close> A finite JavaScript number, and a value of the decimal library, is its
  value as a rational. Every rounding step the source writes down (\<open>toFixed\<close>, \<open>floor\<close>,
  \<open>round\<close>, \<open>Math.round\<close>) is in the model; the rounding of binary floating point itself is
  not. \<open>NaN\<close> and \<open>undefined\<close> are \<open>None\<close> wherever the source produces or tests them.

  \<^bold>\<open>Time.\<close> A time stamp is the number of milliseconds since the epoch, also where the
  source stores its ISO string; \<open>Date.now()\<close> is an argument of the operation.
\<close>

named_theorems js_simps "computation rules of the JavaScript conventions"
named_theorems lib_exact "what a third-party operation computes under its documented law"

type_synonym number = rat
type_synonym ms = int

subsection \<open>Optional values\<close>

text \<open>\<open>a ?? b\<close> with a plain and with an optional right operand, and truthiness of an
  optional number (\<open>undefined\<close> and 0 are falsy).\<close>

definition coalesce :: "'a option \<Rightarrow> 'a \<Rightarrow> 'a" where
  "coalesce a d = (case a of None \<Rightarrow> d | Some x \<Rightarrow> x)"

definition orElse :: "'a option \<Rightarrow> 'a option \<Rightarrow> 'a option" where
  "orElse a b = (case a of None \<Rightarrow> b | Some x \<Rightarrow> Some x)"

definition truthy :: "number option \<Rightarrow> bool" where
  "truthy a = (case a of None \<Rightarrow> False | Some x \<Rightarrow> x \<noteq> 0)"

lemma coalesce_simps [simp, js_simps]:
  "coalesce None d = d" "coalesce (Some x) d = x"
  by (simp_all add: coalesce_def)

lemma orElse_simps [simp, js_simps]:
  "orElse None b = b" "orElse (Some x) b = Some x"
  by (simp_all add: orElse_def)

lemma truthy_simps [simp, js_simps]:
  "truthy None = False" "truthy (Some x) = (x \<noteq> 0)"
  by (simp_all add: truthy_def)

lemma orElse_eq_None [simp]: "orElse a b = None \<longleftrightarrow> a = None \<and> b = None"
  by (simp add: orElse_def split: option.splits)

lemma truthyD: "truthy a \<Longrightarrow> \<exists>x. a = Some x \<and> x \<noteq> 0"
  by (cases a) auto

subsection \<open>Rounding\<close>

text \<open>\<open>Math.round\<close> rounds halves up; \<open>toFixed\<close> and the decimal library round halves away
  from zero. \<open>Number(x.toFixed(p))\<close> returns \<open>x\<close> itself from \<open>1e21\<close> on, where every JavaScript
  number is an integer, so that the rounding to the grid is the identity there too.\<close>

definition math_round :: "number \<Rightarrow> int" where
  "math_round x = \<lfloor>x + 1 / 2\<rfloor>"

definition round_away :: "number \<Rightarrow> int" where
  "round_away x = (if 0 \<le> x then \<lfloor>x + 1 / 2\<rfloor> else - \<lfloor>1 / 2 - x\<rfloor>)"

definition grid :: "nat \<Rightarrow> number \<Rightarrow> number" where
  "grid p x = of_int (round_away (x * 10 ^ p)) / 10 ^ p"

definition toFixed :: "nat \<Rightarrow> number \<Rightarrow> number" where
  "toFixed p x = grid p x"

lemma floor_fraction [simp]:
  "\<lfloor>numeral a / numeral b :: rat\<rfloor> = numeral a div numeral b"
  "\<lfloor>1 / numeral b :: rat\<rfloor> = 1 div numeral b"
  "\<lfloor>- (numeral a / numeral b) :: rat\<rfloor> = - numeral a div numeral b"
  "\<lfloor>- (1 / numeral b) :: rat\<rfloor> = - 1 div numeral b"
  using floor_divide_of_int_eq [of "numeral a" "numeral b", where ?'a = rat]
    floor_divide_of_int_eq [of 1 "numeral b", where ?'a = rat]
    floor_divide_of_int_eq [of "- numeral a" "numeral b", where ?'a = rat]
    floor_divide_of_int_eq [of "- 1" "numeral b", where ?'a = rat]
  by simp_all

lemma round_away_0 [simp]: "round_away 0 = 0"
  by (simp add: round_away_def)

lemma round_away_of_int [simp]: "round_away (of_int n) = n"
proof (cases "0 \<le> n")
  case True
  then show ?thesis by (simp add: round_away_def)
next
  case False
  have "\<lfloor>1 / 2 - (of_int n :: rat)\<rfloor> = - n"
    by (rule floor_unique) auto
  with False show ?thesis by (simp add: round_away_def)
qed

lemma round_away_uminus: "round_away (- x) = - round_away x"
  by (cases "x = 0") (auto simp: round_away_def add.commute)

lemma round_away_mono: "x \<le> y \<Longrightarrow> round_away x \<le> round_away y"
proof -
  assume le: "x \<le> y"
  consider "0 \<le> x" | "x < 0" "0 \<le> y" | "y < 0" using le by linarith
  then show ?thesis
  proof cases
    case 1
    with le show ?thesis by (simp add: round_away_def floor_mono)
  next
    case 2
    then have "0 \<le> \<lfloor>1 / 2 - x\<rfloor>" "0 \<le> \<lfloor>y + 1 / 2\<rfloor>" by simp_all
    then have "- \<lfloor>1 / 2 - x\<rfloor> \<le> \<lfloor>y + 1 / 2\<rfloor>" by linarith
    with 2 show ?thesis by (simp add: round_away_def)
  next
    case 3
    with le have "\<lfloor>1 / 2 - y\<rfloor> \<le> \<lfloor>1 / 2 - x\<rfloor>" by (intro floor_mono) simp
    with 3 le show ?thesis by (simp add: round_away_def)
  qed
qed

lemma round_away_error: "\<bar>of_int (round_away x) - x\<bar> \<le> 1 / 2"
proof (cases "0 \<le> x")
  case True
  have "of_int \<lfloor>x + 1 / 2\<rfloor> \<le> x + 1 / 2" "x + 1 / 2 < of_int \<lfloor>x + 1 / 2\<rfloor> + 1"
    by linarith+
  moreover from True have "round_away x = \<lfloor>x + 1 / 2\<rfloor>" by (simp add: round_away_def)
  ultimately show ?thesis by (simp only: abs_le_iff) linarith
next
  case False
  have "of_int \<lfloor>1 / 2 - x\<rfloor> \<le> 1 / 2 - x" "1 / 2 - x < of_int \<lfloor>1 / 2 - x\<rfloor> + 1"
    by linarith+
  moreover from False have "round_away x = - \<lfloor>1 / 2 - x\<rfloor>" by (simp add: round_away_def)
  ultimately show ?thesis by (simp only: abs_le_iff of_int_minus) linarith
qed

text \<open>The laws of a rounding operation that the components rely on: it is monotone, odd and
  keeps what it has already rounded. \<open>step\<close> bounds its error.\<close>

locale rounding =
  fixes rnd :: "number \<Rightarrow> number" and step :: number
  assumes rnd_mono: "x \<le> y \<Longrightarrow> rnd x \<le> rnd y"
    and rnd_uminus: "rnd (- x) = - rnd x"
    and rnd_idem: "rnd (rnd x) = rnd x"
    and rnd_error: "\<bar>rnd x - x\<bar> \<le> step"
begin

lemma rnd_zero: "rnd 0 = 0"
  using rnd_uminus [of 0] by simp

lemma rnd_nonneg: "0 \<le> x \<Longrightarrow> 0 \<le> rnd x"
  using rnd_mono [of 0 x] by (simp add: rnd_zero)

lemma rnd_nonpos: "x \<le> 0 \<Longrightarrow> rnd x \<le> 0"
  using rnd_mono [of x 0] by (simp add: rnd_zero)

lemma rnd_le_fixed: "x \<le> y \<Longrightarrow> rnd y = y \<Longrightarrow> rnd x \<le> y"
  using rnd_mono [of x y] by simp

lemma rnd_ge_fixed: "y \<le> x \<Longrightarrow> rnd y = y \<Longrightarrow> y \<le> rnd x"
  using rnd_mono [of y x] by simp

lemma rnd_between:
  "lo \<le> x \<Longrightarrow> x \<le> hi \<Longrightarrow> rnd lo = lo \<Longrightarrow> rnd hi = hi \<Longrightarrow> lo \<le> rnd x \<and> rnd x \<le> hi"
  by (simp add: rnd_le_fixed rnd_ge_fixed)

lemma rnd_bounds: "x - step \<le> rnd x" "rnd x \<le> x + step"
  using rnd_error [of x] by linarith+

lemma step_nonneg: "0 \<le> step"
  using rnd_error [of 0] by linarith

end

lemma grid_fixed_iff: "grid p x = x \<longleftrightarrow> (\<exists>n::int. x = of_int n / 10 ^ p)"
proof
  assume "grid p x = x"
  then show "\<exists>n::int. x = of_int n / 10 ^ p" by (metis grid_def)
next
  assume "\<exists>n::int. x = of_int n / 10 ^ p"
  then show "grid p x = x" by (auto simp: grid_def)
qed

lemma grid_mono: "x \<le> y \<Longrightarrow> grid p x \<le> grid p y"
  by (simp add: grid_def divide_right_mono round_away_mono mult_right_mono)

lemma grid_error: "\<bar>grid p x - x\<bar> \<le> 1 / (2 * 10 ^ p)"
proof -
  have "grid p x - x = (of_int (round_away (x * 10 ^ p)) - x * 10 ^ p) / 10 ^ p"
    by (simp add: grid_def diff_divide_distrib)
  then have "\<bar>grid p x - x\<bar> = \<bar>of_int (round_away (x * 10 ^ p)) - x * 10 ^ p\<bar> / 10 ^ p"
    by simp
  also have "\<dots> \<le> (1 / 2) / 10 ^ p"
    by (rule divide_right_mono [OF round_away_error]) simp
  finally show ?thesis by simp
qed

interpretation grd: rounding "grid p" "1 / (2 * 10 ^ p)" for p
proof unfold_locales
  show "grid p (grid p x) = grid p x" for x
    by (metis grid_def grid_fixed_iff)
  show "grid p (- x) = - grid p x" for x
    by (simp add: grid_def round_away_uminus)
qed (auto simp: grid_mono grid_error)

interpretation fxd: rounding "toFixed p" "1 / (2 * 10 ^ p)" for p
  unfolding toFixed_def by (rule grd.rounding_axioms)

text \<open>Numbers with at most \<open>p\<close> decimals: what \<open>toFixed\<close> produces and leaves alone.\<close>

definition decimals :: "nat \<Rightarrow> number \<Rightarrow> bool" where
  "decimals p x \<longleftrightarrow> toFixed p x = x"

lemma decimals_iff: "decimals p x \<longleftrightarrow> (\<exists>n::int. x = of_int n / 10 ^ p)"
  by (simp add: decimals_def toFixed_def grid_fixed_iff)

lemma decimals_toFixed [simp]: "decimals p (toFixed p x)"
  by (simp add: decimals_def fxd.rnd_idem)

lemma toFixed_decimals [simp]: "decimals p x \<Longrightarrow> toFixed p x = x"
  by (simp add: decimals_def)

lemma decimals_0 [simp]: "decimals p 0"
  by (simp add: decimals_def fxd.rnd_zero)

lemma decimals_add [simp]: "decimals p x \<Longrightarrow> decimals p y \<Longrightarrow> decimals p (x + y)"
  unfolding decimals_iff by (metis add_divide_distrib of_int_add)

lemma decimals_uminus [simp]: "decimals p (- x) = decimals p x"
  by (auto simp: decimals_def fxd.rnd_uminus)

lemma decimals_diff [simp]: "decimals p x \<Longrightarrow> decimals p y \<Longrightarrow> decimals p (x - y)"
  using decimals_add [of p x "- y"] by simp

lemma decimals_mono: "decimals p x \<Longrightarrow> p \<le> q \<Longrightarrow> decimals q x"
  unfolding decimals_iff
proof (elim exE)
  fix n :: int
  assume n: "x = of_int n / 10 ^ p" and "p \<le> q"
  then have "(10 :: rat) ^ q = 10 ^ p * 10 ^ (q - p)" by (simp flip: power_add)
  then show "\<exists>n::int. x = of_int n / 10 ^ q"
    unfolding n by (intro exI [of _ "n * 10 ^ (q - p)"]) simp
qed

subsection \<open>Integers in template strings\<close>

text \<open>The decimal numeral of an integer, as a template string prints it.\<close>

function showNat :: "nat \<Rightarrow> string" where
  "showNat n = (if n < 10 then [char_of (48 + n)] else showNat (n div 10) @ [char_of (48 + n mod 10)])"
  by pat_completeness auto
termination by (relation "measure id") auto

declare showNat.simps [simp del]

definition showInt :: "int \<Rightarrow> string" where
  "showInt n = (if n < 0 then ''-'' @ showNat (nat (- n)) else showNat (nat n))"

subsection \<open>JavaScript maps\<close>

text \<open>A \<open>Map\<close> iterates in insertion order; setting an existing key keeps its place. That is
  an association list with the library's \<open>AList.update\<close> and \<open>AList.delete\<close>.\<close>

type_synonym ('k, 'v) jsmap = "('k \<times> 'v) list"

definition mget :: "('k, 'v) jsmap \<Rightarrow> 'k \<Rightarrow> 'v option" where
  "mget m k = map_of m k"

definition mset :: "'k \<Rightarrow> 'v \<Rightarrow> ('k, 'v) jsmap \<Rightarrow> ('k, 'v) jsmap" where
  "mset k v m = AList.update k v m"

definition mdel :: "'k \<Rightarrow> ('k, 'v) jsmap \<Rightarrow> ('k, 'v) jsmap" where
  "mdel k m = AList.delete k m"

definition mkeys :: "('k, 'v) jsmap \<Rightarrow> 'k list" where
  "mkeys m = List.map fst m"

definition mvals :: "('k, 'v) jsmap \<Rightarrow> 'v list" where
  "mvals m = List.map snd m"

text \<open>Mutating the object stored under a key.\<close>

definition mupd :: "'k \<Rightarrow> ('v \<Rightarrow> 'v) \<Rightarrow> ('k, 'v) jsmap \<Rightarrow> ('k, 'v) jsmap" where
  "mupd k f m = (case mget m k of None \<Rightarrow> m | Some v \<Rightarrow> mset k (f v) m)"

text \<open>What a store promises its client, whatever represents it.\<close>

locale keyed_store =
  fixes get :: "'m \<Rightarrow> 'k \<Rightarrow> 'v option"
    and put :: "'k \<Rightarrow> 'v \<Rightarrow> 'm \<Rightarrow> 'm"
    and drop :: "'k \<Rightarrow> 'm \<Rightarrow> 'm"
  assumes get_put: "get (put k v m) j = (if j = k then Some v else get m j)"
    and get_drop: "get (drop k m) j = (if j = k then None else get m j)"
begin

lemma put_all:
  assumes "\<And>j w. get m j = Some w \<Longrightarrow> P j w" and "P k v"
  shows "get (put k v m) j = Some w \<Longrightarrow> P j w"
  using assms by (auto simp: get_put split: if_splits)

lemma drop_all:
  assumes "\<And>j w. get m j = Some w \<Longrightarrow> P j w"
  shows "get (drop k m) j = Some w \<Longrightarrow> P j w"
  using assms by (auto simp: get_drop split: if_splits)

lemma get_fold_put:
  "get (fold (\<lambda>k. put k (g k)) ks m) j = (if j \<in> set ks then Some (g j) else get m j)"
  by (induction ks arbitrary: m) (auto simp: get_put)

lemma get_fold_drop:
  "get (fold drop ks m) j = (if j \<in> set ks then None else get m j)"
  by (induction ks arbitrary: m) (auto simp: get_drop)

end

lemma mget_mset [simp]: "mget (mset k v m) j = (if j = k then Some v else mget m j)"
  by (simp add: mget_def mset_def update_conv')

lemma mget_mdel [simp]: "mget (mdel k m) j = (if j = k then None else mget m j)"
  by (simp add: mget_def mdel_def delete_conv')

interpretation js: keyed_store mget mset mdel
  by unfold_locales simp_all

lemma mget_Nil [simp]: "mget [] k = None"
  by (simp add: mget_def)

lemma mget_mupd [simp]: "mget (mupd k f m) j = (if j = k then map_option f (mget m k) else mget m j)"
  by (auto simp: mupd_def split: option.splits)

lemma mkeys_mset: "mkeys (mset k v m) = (if k \<in> set (mkeys m) then mkeys m else mkeys m @ [k])"
  by (simp add: mkeys_def mset_def update_keys)

lemma mget_None_iff: "mget m k = None \<longleftrightarrow> k \<notin> set (mkeys m)"
  by (simp add: mget_def mkeys_def map_of_eq_None_iff)

lemma mget_Some_key: "mget m k = Some v \<Longrightarrow> k \<in> set (mkeys m)"
  using mget_None_iff [of m k] by auto

lemma mkeys_mset_present [simp]: "mget m k = Some w \<Longrightarrow> mkeys (mset k v m) = mkeys m"
  by (simp add: mkeys_mset mget_Some_key)

lemma mkeys_mupd [simp]: "mkeys (mupd k f m) = mkeys m"
  by (auto simp: mupd_def split: option.splits)

lemma distinct_mset [simp]: "distinct (mkeys m) \<Longrightarrow> distinct (mkeys (mset k v m))"
  by (simp add: mkeys_mset)

lemma distinct_mdel: "distinct (mkeys m) \<Longrightarrow> distinct (mkeys (mdel k m))"
  by (simp add: mkeys_def mdel_def distinct_delete)

lemma mget_in_mvals: "mget m k = Some v \<Longrightarrow> v \<in> set (mvals m)"
  by (metis image_eqI map_of_SomeD mget_def mvals_def set_map snd_conv)

lemma mvals_in_mget: "distinct (mkeys m) \<Longrightarrow> v \<in> set (mvals m) \<Longrightarrow> \<exists>k. mget m k = Some v"
  by (auto simp: mget_def mvals_def mkeys_def)

subsection \<open>Exceptions and loops\<close>

text \<open>An operation that may throw returns \<open>Inl\<close> of the message and the state at the throw,
  or \<open>Inr\<close> of its result.\<close>

type_synonym ('s, 'a) outcome = "(string \<times> 's) + 'a"

definition bindR :: "('s, 'a) outcome \<Rightarrow> ('a \<Rightarrow> ('s, 'b) outcome) \<Rightarrow> ('s, 'b) outcome" where
  "bindR r f = (case r of Inl e \<Rightarrow> Inl e | Inr x \<Rightarrow> f x)"

lemma bindR_simps [simp]: "bindR (Inl e) f = Inl e" "bindR (Inr x) f = f x"
  by (simp_all add: bindR_def)

lemma bindR_eq_Inr: "bindR r f = Inr y \<longleftrightarrow> (\<exists>x. r = Inr x \<and> f x = Inr y)"
  by (cases r) auto

lemma bindR_eq_Inl: "bindR r f = Inl e \<longleftrightarrow> r = Inl e \<or> (\<exists>x. r = Inr x \<and> f x = Inl e)"
  by (cases r) auto

fun foldR :: "('x \<Rightarrow> 's \<Rightarrow> ('s, 's) outcome) \<Rightarrow> 'x list \<Rightarrow> 's \<Rightarrow> ('s, 's) outcome" where
  "foldR f [] s = Inr s"
| "foldR f (x # xs) s = bindR (f x s) (foldR f xs)"

text \<open>The state an outcome leaves behind, thrown or not, and facts that hold of it.\<close>

definition left :: "('s, 's) outcome \<Rightarrow> 's" where
  "left r = (case r of Inl (_, s) \<Rightarrow> s | Inr s \<Rightarrow> s)"

lemma left_simps [simp]: "left (Inl (msg, s)) = s" "left (Inr s) = s"
  by (simp_all add: left_def)

lemma left_bindR:
  assumes "\<And>s. r = Inr s \<Longrightarrow> P (left (f s))" and "\<And>msg s. r = Inl (msg, s) \<Longrightarrow> P s"
  shows "P (left (bindR r f))"
  using assms by (cases r) auto

lemma left_foldR:
  assumes "\<And>x s. x \<in> set xs \<Longrightarrow> P s \<Longrightarrow> P (left (f x s))" and "P s"
  shows "P (left (foldR f xs s))"
  using assms
proof (induction xs arbitrary: s)
  case Nil
  then show ?case by simp
next
  case (Cons x xs)
  have "P (left (f x s))" using Cons.prems by simp
  then show ?case
    using Cons.IH Cons.prems(1) by (cases "f x s") auto
qed

lemma foldR_Inr:
  assumes "\<And>x s. x \<in> set xs \<Longrightarrow> P s \<Longrightarrow> \<exists>s'. f x s = Inr s' \<and> P s'" and "P s"
  shows "\<exists>s'. foldR f xs s = Inr s' \<and> P s'"
  using assms
proof (induction xs arbitrary: s)
  case Nil
  then show ?case by simp
next
  case (Cons x xs)
  obtain s' where "f x s = Inr s'" "P s'" using Cons.prems by force
  then show ?case using Cons.IH [of s'] Cons.prems(1) by auto
qed

subsection \<open>Components as transition systems\<close>

text \<open>A component is a total step function on its state and an invariant that every admitted
  step (\<open>ok\<close>) keeps. The invariant then holds after any sequence of admitted operations.\<close>

locale guarded_component =
  fixes step :: "'op \<Rightarrow> 's \<Rightarrow> 's" and inv :: "'s \<Rightarrow> bool" and ok :: "'op \<Rightarrow> bool"
  assumes inv_guarded: "inv s \<Longrightarrow> ok x \<Longrightarrow> inv (step x s)"
begin

lemma inv_guarded_run: "inv s \<Longrightarrow> list_all ok xs \<Longrightarrow> inv (fold step xs s)"
  by (induction xs arbitrary: s) (auto intro: inv_guarded)

end

text \<open>A component whose every operation is admitted.\<close>

locale component =
  fixes step :: "'op \<Rightarrow> 's \<Rightarrow> 's" and inv :: "'s \<Rightarrow> bool"
  assumes inv_step: "inv s \<Longrightarrow> inv (step x s)"
begin

lemma inv_run: "inv s \<Longrightarrow> inv (fold step xs s)"
  by (induction xs arbitrary: s) (auto intro: inv_step)

sublocale guarded_component step inv "\<lambda>_. True"
  by unfold_locales (rule inv_step)

end

text \<open>A quantity that every admitted step (\<open>ok\<close>) moves by a known amount moves by the sum over
  a run of such steps.\<close>

locale accounting =
  fixes step :: "'op \<Rightarrow> 's \<Rightarrow> 's" and measure :: "'s \<Rightarrow> number" and gain :: "'op \<Rightarrow> number"
    and inv :: "'s \<Rightarrow> bool" and ok :: "'op \<Rightarrow> bool"
  assumes acc_inv: "inv s \<Longrightarrow> inv (step x s)"
    and acc_step: "inv s \<Longrightarrow> ok x \<Longrightarrow> measure (step x s) = measure s + gain x"
begin

sublocale component step inv
  by unfold_locales (rule acc_inv)

lemma acc_run:
  "inv s \<Longrightarrow> list_all ok xs \<Longrightarrow> measure (fold step xs s) = measure s + sum_list (map gain xs)"
  by (induction xs arbitrary: s) (auto simp: acc_step acc_inv)

end

end
