(* ===== verification/Broker_Types.thy ===== *)
theory Broker_Types
  imports Prelude
begin

section \<open>The broker's data model (src/broker/types.ts)\<close>

text \<open>
  The string-literal unions of \<open>types.ts\<close> as datatypes and its interfaces as records, one
  field per property, with a prefix per interface (\<open>o_\<close> order, \<open>p_\<close> position, \<open>m_\<close> market
  state, \<open>i_\<close> instrument, \<open>c_\<close> order command, \<open>f_\<close> fill, \<open>a_\<close> account, \<open>r_\<close> risk limits).
  An optional property is an \<open>option\<close>; an ISO time stamp is its millisecond value; the
  decimal strings of an instrument are the numbers they denote.
\<close>

subsection \<open>Literal unions\<close>

datatype orderSide = BUY | SELL

datatype orderType =
  MARKET | LIMIT | STOP_MARKET | TAKE_PROFIT_MARKET | STOP | TRAILING_STOP_MARKET

datatype orderStatus = NEW | PARTIALLY_FILLED | FILLED | CANCELED | REJECTED | EXPIRED

datatype timeInForce = GTC | IOC | FOK | GTD

datatype liquidity = MAKER | TAKER

datatype positionSide = BOTH | LONG_SIDE | SHORT_SIDE

datatype marginType = CROSSED | ISOLATED

datatype workingType = MARK_PRICE | CONTRACT_PRICE

datatype positionStatus = OPEN | CLOSED

datatype dataQuality = VALID | STALE | INVALID | MISSING | DUPLICATE | OUT_OF_ORDER

subsection \<open>Instruments and markets\<close>

record instrument =
  i_symbol :: string
  i_tickSize :: number
  i_stepSize :: number
  i_minQty :: "number option"
  i_maxQty :: "number option"
  i_minNotional :: "number option"
  i_pricePrecision :: nat
  i_quantityPrecision :: nat
  i_maintenanceMarginRate :: "number option"

text \<open>The derivatives statistics of \<open>MarketState\<close> (open interest, long/short ratios, taker
  volumes) are read by no component modelled here and are left out.\<close>

record marketState =
  m_symbol :: string
  m_bid :: "number option"
  m_ask :: "number option"
  m_bidQty :: "number option"
  m_askQty :: "number option"
  m_spread :: "number option"
  m_last :: "number option"
  m_lastQty :: "number option"
  m_mark :: "number option"
  m_index :: "number option"
  m_fundingRate :: "number option"
  m_exchangeTsUtc :: "ms option"
  m_localTsUtc :: ms
  m_latencyMs :: "ms option"
  m_stale :: bool
  m_lastQualityStatus :: "dataQuality option"

text \<open>A \<open>Partial<MarketState>\<close> is the list of the properties it carries; spreading it over an
  object assigns them in order, an explicit \<open>undefined\<close> included.\<close>

datatype marketField =
    Bid "number option" | Ask "number option" | BidQty "number option" | AskQty "number option"
  | Spread "number option" | Last "number option" | LastQty "number option"
  | Mark "number option" | Index "number option" | FundingRate "number option"
  | ExchangeTs "ms option" | LatencyMs "ms option" | QualityStatus "dataQuality option"

fun assignField :: "marketField \<Rightarrow> marketState \<Rightarrow> marketState" where
  "assignField (Bid x) m = m\<lparr>m_bid := x\<rparr>"
| "assignField (Ask x) m = m\<lparr>m_ask := x\<rparr>"
| "assignField (BidQty x) m = m\<lparr>m_bidQty := x\<rparr>"
| "assignField (AskQty x) m = m\<lparr>m_askQty := x\<rparr>"
| "assignField (Spread x) m = m\<lparr>m_spread := x\<rparr>"
| "assignField (Last x) m = m\<lparr>m_last := x\<rparr>"
| "assignField (LastQty x) m = m\<lparr>m_lastQty := x\<rparr>"
| "assignField (Mark x) m = m\<lparr>m_mark := x\<rparr>"
| "assignField (Index x) m = m\<lparr>m_index := x\<rparr>"
| "assignField (FundingRate x) m = m\<lparr>m_fundingRate := x\<rparr>"
| "assignField (ExchangeTs x) m = m\<lparr>m_exchangeTsUtc := x\<rparr>"
| "assignField (LatencyMs x) m = m\<lparr>m_latencyMs := x\<rparr>"
| "assignField (QualityStatus x) m = m\<lparr>m_lastQualityStatus := x\<rparr>"

definition emptyMarket :: "string \<Rightarrow> ms \<Rightarrow> marketState" where
  "emptyMarket s now = \<lparr>m_symbol = s, m_bid = None, m_ask = None, m_bidQty = None,
     m_askQty = None, m_spread = None, m_last = None, m_lastQty = None, m_mark = None,
     m_index = None, m_fundingRate = None, m_exchangeTsUtc = None, m_localTsUtc = now,
     m_latencyMs = None, m_stale = True, m_lastQualityStatus = None\<rparr>"

subsection \<open>Orders, fills, positions, accounts\<close>

record orderCommand =
  c_clientOrderId :: "string option"
  c_symbol :: string
  c_side :: orderSide
  c_type :: orderType
  c_quantity :: number
  c_price :: "number option"
  c_stopPrice :: "number option"
  c_activationPrice :: "number option"
  c_callbackRate :: "number option"
  c_leverage :: "number option"
  c_marginType :: "marginType option"
  c_reduceOnly :: "bool option"
  c_postOnly :: "bool option"
  c_closePosition :: "bool option"
  c_timeInForce :: "timeInForce option"
  c_workingType :: "workingType option"
  c_strategyId :: "string option"
  c_signalId :: "string option"

record order =
  o_id :: string
  o_clientOrderId :: string
  o_accountId :: string
  o_symbol :: string
  o_strategyId :: "string option"
  o_signalId :: "string option"
  o_side :: orderSide
  o_type :: orderType
  o_timeInForce :: timeInForce
  o_status :: orderStatus
  o_positionSide :: positionSide
  o_quantity :: number
  o_filledQty :: number
  o_limitPrice :: "number option"
  o_stopPrice :: "number option"
  o_activationPrice :: "number option"
  o_callbackRate :: "number option"
  o_avgFillPrice :: number
  o_leverage :: number
  o_marginType :: "marginType option"
  o_reduceOnly :: bool
  o_postOnly :: bool
  o_closePosition :: bool
  o_workingType :: "workingType option"
  o_rejectReason :: "string option"
  o_submittedAtUtc :: ms
  o_updatedAtUtc :: ms

record fill =
  f_id :: string
  f_orderId :: string
  f_accountId :: string
  f_symbol :: string
  f_strategyId :: "string option"
  f_signalId :: "string option"
  f_side :: orderSide
  f_quantity :: number
  f_price :: number
  f_notional :: number
  f_fee :: number
  f_feeAsset :: string
  f_liquidity :: liquidity
  f_realizedPnl :: number
  f_positionQtyBefore :: number
  f_positionQtyAfter :: number
  f_positionEntryBefore :: "number option"
  f_positionEntryAfter :: "number option"
  f_marketBid :: "number option"
  f_marketAsk :: "number option"
  f_marketLast :: "number option"
  f_marketMark :: "number option"
  f_expectedPrice :: "number option"
  f_slippageBps :: "number option"
  f_fillTsUtc :: ms

record position =
  p_accountId :: string
  p_symbol :: string
  p_positionSide :: positionSide
  p_status :: positionStatus
  p_qty :: number
  p_entryPrice :: number
  p_markPrice :: "number option"
  p_unrealizedPnl :: number
  p_realizedPnl :: number
  p_leverage :: number
  p_initialMargin :: number
  p_maintenanceMargin :: number
  p_maintenanceMarginRate :: number
  p_totalFees :: number
  p_totalFunding :: number
  p_openedAtUtc :: "ms option"
  p_updatedAtUtc :: ms
  p_closedAtUtc :: "ms option"

record accountState =
  a_walletBalance :: number
  a_unrealizedPnl :: number
  a_equity :: number
  a_initialMargin :: number
  a_maintenanceMargin :: number
  a_availableBalance :: number
  a_marginRatio :: "number option"
  a_totalFees :: number
  a_totalFunding :: number
  a_totalRealizedPnl :: number
  a_openPositionsCount :: nat
  a_openOrdersCount :: nat
  a_dailyRealizedPnl :: "number option"
  a_peakEquity :: "number option"
  a_drawdown :: "number option"
  a_liquidations :: nat

record riskLimits =
  r_maxLeverage :: number
  r_maxOrderNotional :: number
  r_maxPositionNotional :: number
  r_maxDailyLoss :: number
  r_maxOpenOrders :: nat
  r_allowMarketOrders :: bool
  r_allowLimitOrders :: bool
  r_allowStopOrders :: bool
  r_staleMarketMaxAgeMs :: ms

subsection \<open>Records the broker hands to its event log and persister\<close>

datatype orderEventKind =
    ORDER_RECEIVED | ORDER_REJECTED | ORDER_PARTIALLY_FILLED | ORDER_FILLED | ORDER_CANCELED

record orderEvent =
  oe_eventType :: orderEventKind
  oe_orderId :: string
  oe_accountId :: string
  oe_symbol :: string
  oe_newStatus :: orderStatus
  oe_filledQty :: number
  oe_executionPrice :: "number option"
  oe_reason :: "string option"
  oe_createdAtUtc :: ms

datatype positionEventKind = OPEN_EV | INCREASE_EV | REDUCE_EV | CLOSE_EV | FLIP_EV | FUNDING_EV

record positionEvent =
  pe_id :: string
  pe_accountId :: string
  pe_symbol :: string
  pe_positionSide :: positionSide
  pe_eventType :: positionEventKind
  pe_qtyBefore :: number
  pe_qtyAfter :: number
  pe_price :: "number option"
  pe_createdAtUtc :: ms

datatype ledgerDirection = DEBIT | CREDIT

datatype ledgerEventType = FEE | REALIZED_PNL | FUNDING

datatype accountCode =
    EXPENSE_TRADING_FEES | REVENUE_TRADING_REALIZED_PNL | EXPENSE_TRADING_REALIZED_LOSS
  | EXPENSE_TRADING_FUNDING | REVENUE_TRADING_FUNDING

record ledgerEntry =
  l_id :: string
  l_accountId :: string
  l_eventId :: string
  l_eventType :: ledgerEventType
  l_accountCode :: accountCode
  l_direction :: ledgerDirection
  l_amount :: number
  l_balanceAfter :: number
  l_relatedOrderId :: "string option"
  l_relatedFillId :: "string option"
  l_relatedPositionSymbol :: "string option"
  l_createdAtUtc :: ms

record fundingPayment =
  fp_id :: string
  fp_accountId :: string
  fp_symbol :: string
  fp_positionSide :: positionSide
  fp_qty :: number
  fp_markPrice :: number
  fp_fundingRate :: number
  fp_payment :: number
  fp_walletBalanceAfter :: number
  fp_fundingTimeUtc :: ms

datatype transactionType = OPEN_POSITION | CLOSE_POSITION | FUNDING_FEE

record transactionRecord =
  t_id :: string
  t_accountId :: string
  t_positionId :: "string option"
  t_orderId :: "string option"
  t_fillId :: "string option"
  t_transactionType :: transactionType
  t_amount :: number
  t_fee :: number
  t_grossPnl :: number
  t_netPnl :: number
  t_balanceAfter :: number
  t_createdAtUtc :: ms

text \<open>A call to a method of the event log or of the persister, in the order of the calls.\<close>

datatype effect =
    SaveOrder order | AppendOrderEvent orderEvent
  | SavePosition position | AppendPositionEvent positionEvent
  | AppendFill fill | SaveFill fill
  | SaveLedgerEntry ledgerEntry | SaveTransaction transactionRecord
  | AppendFundingPayment fundingPayment | SaveFundingPayment fundingPayment
  | ResetAccountData string

subsection \<open>Derived notions\<close>

definition isOpen :: "order \<Rightarrow> bool" where
  "isOpen ord \<longleftrightarrow> o_status ord = NEW \<or> o_status ord = PARTIALLY_FILLED"

fun signed :: "orderSide \<Rightarrow> number \<Rightarrow> number" where
  "signed BUY q = q"
| "signed SELL q = - q"

lemma abs_signed [simp]: "\<bar>signed s q\<bar> = \<bar>q\<bar>"
  by (cases s) auto

lemma signed_eq_0 [simp]: "signed s q = 0 \<longleftrightarrow> q = 0"
  by (cases s) auto

end
