(* ===== verification/Paper_Broker.thy ===== *)
theory Paper_Broker
  imports Broker_Types
begin

section \<open>The paper broker (src/broker/PaperBroker.ts)\<close>

text \<open>
  The state of a \<open>PaperBroker\<close> object and its operations, in the order of the class. The
  order and position objects are the entries of the two maps: a local variable of the code
  that refers to such an object is re-read from the map (\<open>cur\<close>) after a call that may have
  mutated it, so the aliasing of the code is kept. \<open>effects\<close> is the sequence of calls made
  to the event log and the persister (both taken as present), \<open>ulids\<close> the number of calls
  of \<open>ulid()\<close> so far.
\<close>

subsection \<open>Third-party operations\<close>

text \<open>
  \<open>decimal.js\<close> and \<open>ulid\<close> are parameters of the model. \<open>decimal_exact\<close> is the documented
  arithmetic of \<open>decimal.js\<close> on operands whose results fit its precision: exact sums,
  products and (non-zero) quotients, \<open>floor\<close>, and \<open>round\<close>/\<open>toFixed\<close> with halves away from
  zero. \<open>ulid_fresh\<close> says that identifiers do not repeat.
\<close>

record lib =
  x_add :: "number \<Rightarrow> number \<Rightarrow> number"
  x_sub :: "number \<Rightarrow> number \<Rightarrow> number"
  x_mul :: "number \<Rightarrow> number \<Rightarrow> number"
  x_div :: "number \<Rightarrow> number \<Rightarrow> number"
  x_floor :: "number \<Rightarrow> number"
  x_round :: "number \<Rightarrow> number"
  x_toFixed :: "nat \<Rightarrow> number \<Rightarrow> number"
  x_ulid :: "nat \<Rightarrow> string"

definition decimal_exact :: "lib \<Rightarrow> bool" where
  "decimal_exact L \<longleftrightarrow>
     (\<forall>x y. x_add L x y = x + y) \<and> (\<forall>x y. x_sub L x y = x - y) \<and>
     (\<forall>x y. x_mul L x y = x * y) \<and> (\<forall>x y. y \<noteq> 0 \<longrightarrow> x_div L x y = x / y) \<and>
     (\<forall>x. x_floor L x = of_int \<lfloor>x\<rfloor>) \<and> (\<forall>x. x_round L x = of_int (round_away x)) \<and>
     (\<forall>p x. x_toFixed L p x = grid p x)"

definition ulid_fresh :: "lib \<Rightarrow> bool" where
  "ulid_fresh L \<longleftrightarrow> inj (x_ulid L)"

lemma decimal_exactD [lib_exact]:
  assumes "decimal_exact L"
  shows "x_add L x y = x + y" "x_sub L x y = x - y" "x_mul L x y = x * y"
    "y \<noteq> 0 \<Longrightarrow> x_div L x y = x / y" "x_floor L x = of_int \<lfloor>x\<rfloor>"
    "x_round L x = of_int (round_away x)" "x_toFixed L p x = grid p x"
  using assms by (simp_all add: decimal_exact_def)

subsection \<open>State\<close>

record broker =
  instruments :: "(string, instrument) jsmap"
  orders :: "(string, order) jsmap"
  positions :: "(string, position) jsmap"
  fills :: "fill list"
  localMarkets :: "(string, marketState) jsmap"
  marketProvider :: "string \<Rightarrow> marketState option"
  onFill :: "(fill \<Rightarrow> string option) option"
  walletBalance :: number
  totalFees :: number
  totalFunding :: number
  totalRealizedPnl :: number
  liquidations :: nat
  account :: accountState
  takerFeeRate :: number
  makerFeeRate :: number
  marketSlippageBps :: number
  risk :: riskLimits
  dayStartEquity :: number
  peakEquity :: number
  currentUtcDay :: int
  isLiquidating :: bool
  accountId :: string
  ulids :: nat
  effects :: "effect list"

type_synonym 'a brokerM = "(broker, 'a) outcome"

definition emit :: "effect \<Rightarrow> broker \<Rightarrow> broker" where
  "emit e b = b\<lparr>effects := effects b @ [e]\<rparr>"

definition nextUlid :: "lib \<Rightarrow> broker \<Rightarrow> string \<times> broker" where
  "nextUlid L b = (x_ulid L (ulids b), b\<lparr>ulids := Suc (ulids b)\<rparr>)"

definition setOrder :: "order \<Rightarrow> broker \<Rightarrow> broker" where
  "setOrder ord b = b\<lparr>orders := mset (o_id ord) ord (orders b)\<rparr>"

definition setPosition :: "position \<Rightarrow> broker \<Rightarrow> broker" where
  "setPosition pos b = b\<lparr>positions := mset (p_symbol pos) pos (positions b)\<rparr>"

definition cur :: "broker \<Rightarrow> order \<Rightarrow> order" where
  "cur b ord = coalesce (mget (orders b) (o_id ord)) ord"

definition utcDay :: "ms \<Rightarrow> int" where
  "utcDay now = now div 86400000"

definition roundStep :: "lib \<Rightarrow> number \<Rightarrow> number \<Rightarrow> number" where
  "roundStep L value stepSize = x_mul L (x_floor L (x_div L value stepSize)) stepSize"

definition roundTick :: "lib \<Rightarrow> number \<Rightarrow> number \<Rightarrow> number" where
  "roundTick L value tickSize = x_mul L (x_round L (x_div L value tickSize)) tickSize"

text \<open>\<open>parseNum\<close> of a numeric string: \<open>None\<close> is a string that is no finite number.\<close>

definition parseNum :: "number option \<Rightarrow> number" where
  "parseNum s = coalesce s 0"

definition symbolFilter :: "string option \<Rightarrow> string \<Rightarrow> bool" where
  "symbolFilter sy s = (case sy of None \<Rightarrow> True | Some x \<Rightarrow> x = [] \<or> s = x)"

definition getMarket :: "broker \<Rightarrow> string \<Rightarrow> marketState option" where
  "getMarket b s = orElse (marketProvider b s) (mget (localMarkets b) s)"

definition getOpenOrders :: "string option \<Rightarrow> broker \<Rightarrow> order list" where
  "getOpenOrders sy b = filter (\<lambda>ord. isOpen ord \<and> symbolFilter sy (o_symbol ord)) (mvals (orders b))"

definition getFills :: "string option \<Rightarrow> broker \<Rightarrow> fill list" where
  "getFills sy b = filter (\<lambda>f. symbolFilter sy (f_symbol f)) (fills b)"

definition isMarketStale :: "ms \<Rightarrow> string \<Rightarrow> broker \<Rightarrow> bool" where
  "isMarketStale now s b = (case getMarket b s of None \<Rightarrow> True
     | Some m \<Rightarrow> m_stale m \<or> now - m_localTsUtc m > r_staleMarketMaxAgeMs (risk b))"

subsection \<open>Events\<close>

definition emitOrderEvent ::
  "ms \<Rightarrow> orderEventKind \<Rightarrow> order \<Rightarrow> number option \<Rightarrow> string option \<Rightarrow> broker \<Rightarrow> broker" where
  "emitOrderEvent now ev ord price reason b =
     emit (AppendOrderEvent \<lparr>oe_eventType = ev, oe_orderId = o_id ord,
        oe_accountId = o_accountId ord, oe_symbol = o_symbol ord, oe_newStatus = o_status ord,
        oe_filledQty = o_filledQty ord, oe_executionPrice = price, oe_reason = reason,
        oe_createdAtUtc = now\<rparr>)
       (emit (SaveOrder ord) b)"

definition emitPositionEvent ::
  "lib \<Rightarrow> ms \<Rightarrow> positionEventKind \<Rightarrow> position \<Rightarrow> number \<Rightarrow> number \<Rightarrow> number option \<Rightarrow> broker \<Rightarrow> broker" where
  "emitPositionEvent L now ev pos before after price b =
     (let (uid, b1) = nextUlid L (emit (SavePosition pos) b) in
      emit (AppendPositionEvent \<lparr>pe_id = uid, pe_accountId = p_accountId pos,
        pe_symbol = p_symbol pos, pe_positionSide = p_positionSide pos, pe_eventType = ev,
        pe_qtyBefore = before, pe_qtyAfter = after, pe_price = price, pe_createdAtUtc = now\<rparr>) b1)"

definition rejectOrder :: "order \<Rightarrow> string \<Rightarrow> ms \<Rightarrow> broker \<Rightarrow> order \<times> broker" where
  "rejectOrder ord reason now b =
     (let ord1 = ord\<lparr>o_status := REJECTED, o_rejectReason := Some reason, o_updatedAtUtc := now\<rparr> in
      (ord1, emitOrderEvent now ORDER_REJECTED ord1 None (Some reason) (setOrder ord1 b)))"

definition cancelOrder :: "string \<Rightarrow> string \<Rightarrow> ms \<Rightarrow> broker \<Rightarrow> order option \<times> broker" where
  "cancelOrder orderId reason now b =
     (case mget (orders b) orderId of
        None \<Rightarrow> (None, b)
      | Some ord \<Rightarrow>
          if \<not> isOpen ord then (Some ord, b)
          else (let ord1 = ord\<lparr>o_status := CANCELED, o_updatedAtUtc := now\<rparr> in
            (Some ord1, emitOrderEvent now ORDER_CANCELED ord1 None (Some reason) (setOrder ord1 b))))"

definition cancelIf :: "(order \<Rightarrow> bool) \<Rightarrow> string \<Rightarrow> ms \<Rightarrow> string \<Rightarrow> broker \<Rightarrow> broker" where
  "cancelIf P reason now k b =
     (case mget (orders b) k of None \<Rightarrow> b
      | Some ord \<Rightarrow> if P ord \<and> isOpen ord then snd (cancelOrder (o_id ord) reason now b) else b)"

definition cancelAllOrders :: "string option \<Rightarrow> ms \<Rightarrow> broker \<Rightarrow> broker" where
  "cancelAllOrders sy now b =
     fold (cancelIf (\<lambda>ord. symbolFilter sy (o_symbol ord)) ''CANCEL_ALL'' now) (mkeys (orders b)) b"

definition isBracket :: "string \<Rightarrow> order \<Rightarrow> bool" where
  "isBracket symbol ord \<longleftrightarrow> o_symbol ord = symbol \<and> o_reduceOnly ord \<and>
     (o_type ord = STOP_MARKET \<or> o_type ord = TAKE_PROFIT_MARKET)"

definition cancelStaleBracketOrders :: "string \<Rightarrow> ms \<Rightarrow> broker \<Rightarrow> broker" where
  "cancelStaleBracketOrders symbol now b =
     fold (cancelIf (isBracket symbol) ''STALE_BRACKET_POSITION_CHANGED'' now) (mkeys (orders b)) b"

subsection \<open>Account, margin and PnL\<close>

definition midPrice :: "lib \<Rightarrow> marketState \<Rightarrow> number option" where
  "midPrice L m =
     (if truthy (m_bid m) \<and> truthy (m_ask m)
      then Some (x_div L (x_add L (the (m_bid m)) (the (m_ask m))) 2) else None)"

definition markFor :: "lib \<Rightarrow> marketState option \<Rightarrow> position \<Rightarrow> number" where
  "markFor L market pos =
     (case market of None \<Rightarrow> p_entryPrice pos
      | Some m \<Rightarrow> coalesce (orElse (m_mark m) (orElse (m_last m) (midPrice L m))) (p_entryPrice pos))"

text \<open>The loop of \<open>calculateAccountState\<close>: the sums so far and the positions it rewrites.\<close>

record accountSums =
  s_unrealizedPnl :: number
  s_initialMargin :: number
  s_maintenanceMargin :: number
  s_openPositionsCount :: nat

definition accountPosition ::
  "lib \<Rightarrow> marketState option \<Rightarrow> position \<Rightarrow> accountSums \<Rightarrow> position \<times> accountSums" where
  "accountPosition L market pos acc =
     (let acc1 = (if p_qty pos \<noteq> 0 then acc\<lparr>s_openPositionsCount := Suc (s_openPositionsCount acc)\<rparr> else acc);
          markPrice = markFor L market pos in
      if markPrice = 0 then (pos, acc1)
      else if p_qty pos = 0 then (pos\<lparr>p_unrealizedPnl := 0\<rparr>, acc1)
      else
        (let unreal = x_mul L (p_qty pos) (x_sub L markPrice (p_entryPrice pos));
             notional = x_mul L \<bar>p_qty pos\<bar> markPrice in
         (pos\<lparr>p_markPrice := Some markPrice, p_unrealizedPnl := unreal\<rparr>,
          acc1\<lparr>s_unrealizedPnl := x_add L (s_unrealizedPnl acc) unreal,
            s_initialMargin := x_add L (s_initialMargin acc) (x_div L notional (p_leverage pos)),
            s_maintenanceMargin := x_add L (s_maintenanceMargin acc)
               (x_mul L notional (p_maintenanceMarginRate pos))\<rparr>)))"

fun accountLoop ::
  "lib \<Rightarrow> broker \<Rightarrow> (string \<times> position) list \<Rightarrow> accountSums \<Rightarrow> (string \<times> position) list \<times> accountSums" where
  "accountLoop L b [] acc = ([], acc)"
| "accountLoop L b ((k, pos) # ps) acc =
     (let (pos1, acc1) = accountPosition L (getMarket b (p_symbol pos)) pos acc;
          (ps1, acc2) = accountLoop L b ps acc1 in
      ((k, pos1) # ps1, acc2))"

definition noSums :: accountSums where
  "noSums = \<lparr>s_unrealizedPnl = 0, s_initialMargin = 0, s_maintenanceMargin = 0,
     s_openPositionsCount = 0\<rparr>"

definition calculateAccountState :: "lib \<Rightarrow> broker \<Rightarrow> accountState \<times> broker" where
  "calculateAccountState L b =
     (let (ps, acc) = accountLoop L b (positions b) noSums;
          equity = x_add L (walletBalance b) (s_unrealizedPnl acc);
          availableBalance = max 0 (x_sub L equity (s_initialMargin acc));
          marginRatio = (if equity > 0 then s_maintenanceMargin acc / equity else 0);
          peak = (if equity > peakEquity b then equity else peakEquity b);
          b1 = b\<lparr>positions := ps, peakEquity := peak\<rparr> in
      (\<lparr>a_walletBalance = walletBalance b, a_unrealizedPnl = s_unrealizedPnl acc,
        a_equity = equity, a_initialMargin = s_initialMargin acc,
        a_maintenanceMargin = s_maintenanceMargin acc, a_availableBalance = availableBalance,
        a_marginRatio = Some marginRatio, a_totalFees = totalFees b,
        a_totalFunding = totalFunding b, a_totalRealizedPnl = totalRealizedPnl b,
        a_openPositionsCount = s_openPositionsCount acc,
        a_openOrdersCount = length (getOpenOrders None b), a_dailyRealizedPnl = None,
        a_peakEquity = Some peak,
        a_drawdown = Some (if peak > 0 then max 0 ((peak - equity) / peak) else 0),
        a_liquidations = liquidations b\<rparr>, b1))"

definition recalculateAccount :: "lib \<Rightarrow> broker \<Rightarrow> broker" where
  "recalculateAccount L b = (let (acct, b1) = calculateAccountState L b in b1\<lparr>account := acct\<rparr>)"

definition rollDailyEquityIfNeeded :: "lib \<Rightarrow> ms \<Rightarrow> broker \<Rightarrow> broker" where
  "rollDailyEquityIfNeeded L now b =
     (if utcDay now \<noteq> currentUtcDay b
      then (let (acct, b1) = calculateAccountState L (b\<lparr>currentUtcDay := utcDay now\<rparr>) in
            b1\<lparr>dayStartEquity := a_equity acct\<rparr>)
      else b)"

subsection \<open>Execution prices\<close>

definition getExecutionPrice :: "lib \<Rightarrow> broker \<Rightarrow> order \<Rightarrow> marketState \<Rightarrow> number option" where
  "getExecutionPrice L b ord m =
     (if o_type ord = MARKET \<or> o_type ord = STOP_MARKET \<or> o_type ord = TAKE_PROFIT_MARKET then
        (let slippage = x_div L (marketSlippageBps b) 10000 in
         if o_side ord = BUY then
           (case orElse (m_ask m) (orElse (m_last m) (m_mark m)) of
              None \<Rightarrow> None
            | Some ask \<Rightarrow> if ask \<le> 0 then None else Some (x_mul L ask (x_add L 1 slippage)))
         else
           (case orElse (m_bid m) (orElse (m_last m) (m_mark m)) of
              None \<Rightarrow> None
            | Some bid \<Rightarrow> if bid \<le> 0 then None else Some (x_mul L bid (x_sub L 1 slippage))))
      else if o_type ord = LIMIT then
        (if \<not> truthy (o_limitPrice ord) then None
         else if o_side ord = BUY then orElse (m_ask m) (o_limitPrice ord)
         else orElse (m_bid m) (o_limitPrice ord))
      else None)"

definition isLimitMarketable :: "order \<Rightarrow> marketState \<Rightarrow> bool" where
  "isLimitMarketable ord m =
     (if \<not> truthy (o_limitPrice ord) then False
      else if o_side ord = BUY then truthy (m_ask m) \<and> the (m_ask m) \<le> the (o_limitPrice ord)
      else truthy (m_bid m) \<and> the (m_bid m) \<ge> the (o_limitPrice ord))"

definition isStopTriggered :: "lib \<Rightarrow> order \<Rightarrow> marketState \<Rightarrow> bool" where
  "isStopTriggered L ord m =
     (if \<not> truthy (o_stopPrice ord) then False
      else
        (let triggerReference = orElse (m_mark m) (orElse (m_last m) (midPrice L m)) in
         if \<not> truthy triggerReference then False
         else if o_type ord = TAKE_PROFIT_MARKET then
           (if o_side ord = SELL then the triggerReference \<ge> the (o_stopPrice ord)
            else the triggerReference \<le> the (o_stopPrice ord))
         else if o_side ord = BUY then the triggerReference \<ge> the (o_stopPrice ord)
         else the triggerReference \<le> the (o_stopPrice ord)))"

definition estimatePrice :: "order \<Rightarrow> marketState \<Rightarrow> number option" where
  "estimatePrice ord m =
     (if o_type ord = LIMIT \<and> truthy (o_limitPrice ord) then o_limitPrice ord
      else if (o_type ord = STOP_MARKET \<or> o_type ord = TAKE_PROFIT_MARKET) \<and> truthy (o_stopPrice ord)
      then o_stopPrice ord
      else if o_side ord = BUY then m_ask m else m_bid m)"

subsection \<open>Risk\<close>

text \<open>The checks of \<open>checkOrderRisk\<close> before the account is computed, in the code's order;
  \<open>None\<close> means that none of them rejects.\<close>

definition riskOfOrder :: "lib \<Rightarrow> order \<Rightarrow> instrument \<Rightarrow> broker \<Rightarrow> number \<Rightarrow> string option" where
  "riskOfOrder L ord instr b estimatedPrice =
     (let notional = x_mul L (o_quantity ord) estimatedPrice;
          currentQty = (case mget (positions b) (o_symbol ord) of None \<Rightarrow> 0 | Some pos \<Rightarrow> p_qty pos);
          newQty = currentQty + signed (o_side ord) (o_quantity ord);
          increases = (\<bar>newQty\<bar> > \<bar>currentQty\<bar>) in
      if i_minNotional instr \<noteq> None \<and> notional < the (i_minNotional instr)
      then Some ''MIN_NOTIONAL_NOT_MET''
      else if \<not> o_reduceOnly ord \<and> notional > r_maxOrderNotional (risk b)
      then Some ''MAX_ORDER_NOTIONAL_EXCEEDED''
      else if o_reduceOnly ord \<and> increases then Some ''REDUCE_ONLY_WOULD_INCREASE''
      else if \<not> o_reduceOnly ord \<and>
        x_add L (x_mul L \<bar>currentQty\<bar> estimatedPrice)
          (if increases then x_mul L (\<bar>newQty\<bar> - \<bar>currentQty\<bar>) estimatedPrice else 0)
          > r_maxPositionNotional (risk b)
      then Some ''MAX_POSITION_NOTIONAL_EXCEEDED''
      else if \<not> o_reduceOnly ord \<and> length (getOpenOrders None b) \<ge> r_maxOpenOrders (risk b)
      then Some ''MAX_OPEN_ORDERS_EXCEEDED''
      else None)"

definition riskOfAccount :: "lib \<Rightarrow> order \<Rightarrow> broker \<Rightarrow> number \<Rightarrow> accountState \<Rightarrow> string option" where
  "riskOfAccount L ord b estimatedPrice acct =
     (let notional = x_mul L (o_quantity ord) estimatedPrice;
          currentQty = (case mget (positions b) (o_symbol ord) of None \<Rightarrow> 0 | Some pos \<Rightarrow> p_qty pos);
          newQty = currentQty + signed (o_side ord) (o_quantity ord) in
      if \<not> o_reduceOnly ord \<and> a_equity acct < dayStartEquity b - r_maxDailyLoss (risk b)
      then Some ''MAX_DAILY_LOSS_EXCEEDED''
      else if \<bar>newQty\<bar> > \<bar>currentQty\<bar> then
        (let requiredMargin = x_div L notional (o_leverage ord);
             feeRate = (if o_type ord = LIMIT then makerFeeRate b else takerFeeRate b);
             estimatedFee = x_mul L notional feeRate in
         if a_availableBalance acct < x_add L requiredMargin estimatedFee
         then Some ''INSUFFICIENT_AVAILABLE_BALANCE'' else None)
      else None)"

definition checkOrderRisk ::
  "lib \<Rightarrow> ms \<Rightarrow> order \<Rightarrow> instrument \<Rightarrow> marketState \<Rightarrow> broker \<Rightarrow> string option \<times> broker" where
  "checkOrderRisk L now ord instr m b0 =
     (let b = rollDailyEquityIfNeeded L now b0; limits = risk b in
      if o_type ord = MARKET \<and> \<not> r_allowMarketOrders limits then (Some ''MARKET_ORDERS_DISABLED'', b)
      else if o_type ord = LIMIT \<and> \<not> r_allowLimitOrders limits then (Some ''LIMIT_ORDERS_DISABLED'', b)
      else if (o_type ord = STOP_MARKET \<or> o_type ord = TAKE_PROFIT_MARKET) \<and> \<not> r_allowStopOrders limits
      then (Some ''STOP_ORDERS_DISABLED'', b)
      else if o_quantity ord \<le> 0 then (Some ''INVALID_QTY'', b)
      else if i_minQty instr \<noteq> None \<and> o_quantity ord < the (i_minQty instr)
      then (Some ''MIN_QTY_NOT_MET'', b)
      else if o_leverage ord > r_maxLeverage limits then (Some ''MAX_LEVERAGE_EXCEEDED'', b)
      else
        (case estimatePrice ord m of
           None \<Rightarrow> (Some ''NO_VALID_PRICE'', b)
         | Some px \<Rightarrow>
             if px \<le> 0 then (Some ''NO_VALID_PRICE'', b)
             else
               (case riskOfOrder L ord instr b px of
                  Some reason \<Rightarrow> (Some reason, b)
                | None \<Rightarrow>
                    (let (acct, b1) = calculateAccountState L b in
                     (riskOfAccount L ord b1 px acct, b1)))))"

subsection \<open>Positions\<close>

definition newPosition :: "string \<Rightarrow> instrument \<Rightarrow> number \<Rightarrow> ms \<Rightarrow> position" where
  "newPosition symbol instr leverage now =
     \<lparr>p_accountId = ''paper-main'', p_symbol = symbol, p_positionSide = BOTH, p_status = OPEN,
      p_qty = 0, p_entryPrice = 0, p_markPrice = None, p_unrealizedPnl = 0, p_realizedPnl = 0,
      p_leverage = leverage, p_initialMargin = 0, p_maintenanceMargin = 0,
      p_maintenanceMarginRate = parseNum (i_maintenanceMarginRate instr), p_totalFees = 0,
      p_totalFunding = 0, p_openedAtUtc = None, p_updatedAtUtc = now, p_closedAtUtc = None\<rparr>"

text \<open>Which branch of \<open>applyPositionFill\<close> runs. The test order is the code's: a fill that the
  rounding to the instrument's precision leaves without effect falls through to \<open>FLIP_EV\<close>.\<close>

definition fillKind :: "number \<Rightarrow> number \<Rightarrow> positionEventKind" where
  "fillKind oldQty newQty =
     (if oldQty = 0 then OPEN_EV
      else if newQty = 0 then CLOSE_EV
      else if sgn oldQty = sgn newQty \<and> \<bar>newQty\<bar> < \<bar>oldQty\<bar> then REDUCE_EV
      else if sgn oldQty = sgn newQty \<and> \<bar>newQty\<bar> > \<bar>oldQty\<bar> then INCREASE_EV
      else FLIP_EV)"

definition realizedOn :: "lib \<Rightarrow> number \<Rightarrow> number \<Rightarrow> number \<Rightarrow> number \<Rightarrow> number" where
  "realizedOn L closedQty price entry direction =
     x_mul L (x_mul L closedQty (x_sub L price entry)) direction"

text \<open>The position after a fill and the PnL it realises (pure part of \<open>applyPositionFill\<close>).\<close>

definition fillPosition ::
  "lib \<Rightarrow> instrument \<Rightarrow> orderSide \<Rightarrow> number \<Rightarrow> number \<Rightarrow> number \<Rightarrow> ms \<Rightarrow> position \<Rightarrow> number \<times> position" where
  "fillPosition L instr side quantity price leverage now pos =
     (let signedQty = signed side quantity;
          oldQty = p_qty pos;
          newQty = x_toFixed L (i_quantityPrecision instr) (x_add L oldQty signedQty);
          direction = (if oldQty > 0 then 1 else - 1) in
      case fillKind oldQty newQty of
        OPEN_EV \<Rightarrow>
          (0, pos\<lparr>p_status := OPEN, p_entryPrice := price, p_qty := newQty, p_leverage := leverage,
             p_maintenanceMarginRate := parseNum (i_maintenanceMarginRate instr),
             p_openedAtUtc := Some now, p_closedAtUtc := None, p_updatedAtUtc := now\<rparr>)
      | CLOSE_EV \<Rightarrow>
          (let realized = realizedOn L \<bar>oldQty\<bar> price (p_entryPrice pos) direction in
           (realized, pos\<lparr>p_qty := 0, p_entryPrice := 0,
             p_realizedPnl := x_add L (p_realizedPnl pos) realized, p_status := CLOSED,
             p_closedAtUtc := Some now, p_updatedAtUtc := now\<rparr>))
      | REDUCE_EV \<Rightarrow>
          (let realized = realizedOn L (\<bar>oldQty\<bar> - \<bar>newQty\<bar>) price (p_entryPrice pos) direction in
           (realized, pos\<lparr>p_qty := newQty,
             p_realizedPnl := x_add L (p_realizedPnl pos) realized, p_updatedAtUtc := now\<rparr>))
      | INCREASE_EV \<Rightarrow>
          (0, pos\<lparr>p_entryPrice := x_toFixed L (i_pricePrecision instr)
               (x_div L (x_add L (x_mul L \<bar>oldQty\<bar> (p_entryPrice pos)) (x_mul L \<bar>signedQty\<bar> price)) \<bar>newQty\<bar>),
             p_qty := newQty, p_leverage := leverage, p_updatedAtUtc := now\<rparr>)
      | _ \<Rightarrow>
          (let realized = realizedOn L \<bar>oldQty\<bar> price (p_entryPrice pos) direction in
           (realized, pos\<lparr>p_qty := newQty, p_entryPrice := price, p_leverage := leverage,
             p_realizedPnl := x_add L (p_realizedPnl pos) realized, p_updatedAtUtc := now\<rparr>)))"

definition applyPositionFill ::
  "lib \<Rightarrow> string \<Rightarrow> orderSide \<Rightarrow> number \<Rightarrow> number \<Rightarrow> number \<Rightarrow> ms \<Rightarrow> broker \<Rightarrow> (number \<times> broker) brokerM" where
  "applyPositionFill L symbol side quantity price leverage now b =
     (case mget (instruments b) symbol of
        None \<Rightarrow> Inl (''Unknown instrument: '' @ symbol, b)
      | Some instr \<Rightarrow>
          (let pos = coalesce (mget (positions b) symbol) (newPosition symbol instr leverage now);
               (realized, pos1) = fillPosition L instr side quantity price leverage now pos;
               kind = fillKind (p_qty pos)
                 (x_toFixed L (i_quantityPrecision instr) (x_add L (p_qty pos) (signed side quantity)));
               b1 = emitPositionEvent L now kind pos1 (p_qty pos) (p_qty pos1) (Some price)
                 (b\<lparr>positions := mset symbol pos1 (positions b)\<rparr>) in
           Inr (realized,
             if kind = CLOSE_EV \<or> kind = FLIP_EV then cancelStaleBracketOrders symbol now b1 else b1)))"

subsection \<open>Fills\<close>

definition postLedger ::
  "lib \<Rightarrow> ms \<Rightarrow> string \<Rightarrow> string \<Rightarrow> ledgerEventType \<Rightarrow> accountCode \<Rightarrow> ledgerDirection \<Rightarrow> number \<Rightarrow>
   string option \<Rightarrow> string option \<Rightarrow> string option \<Rightarrow> broker \<Rightarrow> broker" where
  "postLedger L now acctId eventId ev code dir amount relOrder relFill relSymbol b =
     (let (uid, b1) = nextUlid L b in
      emit (SaveLedgerEntry \<lparr>l_id = uid, l_accountId = acctId, l_eventId = eventId,
        l_eventType = ev, l_accountCode = code, l_direction = dir, l_amount = amount,
        l_balanceAfter = walletBalance b, l_relatedOrderId = relOrder, l_relatedFillId = relFill,
        l_relatedPositionSymbol = relSymbol, l_createdAtUtc = now\<rparr>) b1)"

definition notifyFill :: "ms \<Rightarrow> order \<Rightarrow> fill \<Rightarrow> broker \<Rightarrow> broker" where
  "notifyFill now ord fl b =
     (case onFill b of
        None \<Rightarrow> b
      | Some listener \<Rightarrow>
          (case listener fl of
             None \<Rightarrow> b
           | Some message \<Rightarrow>
               emitOrderEvent now ORDER_FILLED (cur b ord) None (Some (''onFill listener threw: '' @ message)) b))"

text \<open>The first half of \<open>executeFill\<close>: fee, position, wallet, order. The second half records
  the fill and its ledger postings.\<close>

definition settleFill ::
  "lib \<Rightarrow> order \<Rightarrow> number \<Rightarrow> number \<Rightarrow> liquidity \<Rightarrow> ms \<Rightarrow> broker \<Rightarrow> (number \<times> number \<times> broker) brokerM" where
  "settleFill L ord quantity price liq now b =
     (let feeRate = (if liq = MAKER then makerFeeRate b else takerFeeRate b);
          notional = x_mul L quantity price;
          fee = x_mul L notional feeRate;
          b1 = b\<lparr>walletBalance := x_sub L (walletBalance b) fee, totalFees := x_add L (totalFees b) fee\<rparr> in
      bindR (applyPositionFill L (o_symbol ord) (o_side ord) quantity price (o_leverage ord) now b1)
        (\<lambda>(realizedPnl, b2).
          (let b3 = (case mget (positions b2) (o_symbol ord) of
                 None \<Rightarrow> b2
               | Some pos \<Rightarrow>
                   (let pos1 = pos\<lparr>p_totalFees := x_add L (p_totalFees pos) fee\<rparr> in
                    emit (SavePosition pos1) (b2\<lparr>positions := mset (o_symbol ord) pos1 (positions b2)\<rparr>)));
               b4 = b3\<lparr>walletBalance := x_add L (walletBalance b3) realizedPnl,
                 totalRealizedPnl := x_add L (totalRealizedPnl b3) realizedPnl\<rparr>;
               o1 = cur b4 ord;
               filled = x_add L (o_filledQty o1) quantity;
               avg = (if filled = 0 then 0
                 else x_div L (x_add L (x_mul L (o_avgFillPrice o1) (filled - quantity)) (x_mul L price quantity)) filled) in
           Inr (realizedPnl, fee, setOrder (o1\<lparr>o_filledQty := filled, o_avgFillPrice := avg\<rparr>) b4))))"

definition makeFill ::
  "lib \<Rightarrow> order \<Rightarrow> number \<Rightarrow> number \<Rightarrow> liquidity \<Rightarrow> ms \<Rightarrow> broker \<Rightarrow> number \<Rightarrow> number \<Rightarrow> broker \<Rightarrow> string \<Rightarrow> fill" where
  "makeFill L ord quantity price liq now b realizedPnl fee b2 fid =
     (let before = mget (positions b) (o_symbol ord);
          after = mget (positions b2) (o_symbol ord);
          market = getMarket b2 (o_symbol ord);
          qtyBefore = (case before of None \<Rightarrow> 0 | Some pos \<Rightarrow> p_qty pos) in
      \<lparr>f_id = fid, f_orderId = o_id ord, f_accountId = o_accountId ord, f_symbol = o_symbol ord,
       f_strategyId = o_strategyId ord, f_signalId = o_signalId ord, f_side = o_side ord,
       f_quantity = quantity, f_price = price, f_notional = x_mul L quantity price, f_fee = fee,
       f_feeAsset = ''USDT'', f_liquidity = liq, f_realizedPnl = realizedPnl,
       f_positionQtyBefore = qtyBefore,
       f_positionQtyAfter = (case after of None \<Rightarrow> qtyBefore | Some pos \<Rightarrow> p_qty pos),
       f_positionEntryBefore = map_option p_entryPrice before,
       f_positionEntryAfter = map_option p_entryPrice after,
       f_marketBid = Option.bind market m_bid, f_marketAsk = Option.bind market m_ask,
       f_marketLast = Option.bind market m_last, f_marketMark = Option.bind market m_mark,
       f_expectedPrice = Some (coalesce (o_limitPrice ord) price),
       f_slippageBps = (if o_type ord = MARKET \<or> o_type ord = STOP_MARKET
         then Some (marketSlippageBps b) else None),
       f_fillTsUtc = now\<rparr>)"

definition recordFill :: "lib \<Rightarrow> order \<Rightarrow> fill \<Rightarrow> ms \<Rightarrow> broker \<Rightarrow> broker" where
  "recordFill L ord fl now b =
     (let fee = f_fee fl; realizedPnl = f_realizedPnl fl;
          b1 = emit (SaveFill fl) (emit (AppendFill fl) (b\<lparr>fills := fills b @ [fl]\<rparr>));
          b2 = (if fee > 0 then
                  postLedger L now (o_accountId ord) (f_id fl) FEE EXPENSE_TRADING_FEES DEBIT fee
                    (Some (o_id ord)) (Some (f_id fl)) (Some (o_symbol ord)) b1
                else b1);
          b3 = (if realizedPnl \<noteq> 0 then
                  postLedger L now (o_accountId ord) (f_id fl) REALIZED_PNL
                    (if realizedPnl > 0 then REVENUE_TRADING_REALIZED_PNL else EXPENSE_TRADING_REALIZED_LOSS)
                    (if realizedPnl > 0 then CREDIT else DEBIT) \<bar>realizedPnl\<bar>
                    (Some (o_id ord)) (Some (f_id fl)) (Some (o_symbol ord)) b2
                else b2);
          isClosing = (realizedPnl \<noteq> 0 \<or> o_reduceOnly ord \<or> o_closePosition ord);
          (uid, b4) = nextUlid L b3 in
      recalculateAccount L (emit (SaveTransaction \<lparr>t_id = uid, t_accountId = o_accountId ord,
        t_positionId = map_option p_symbol (mget (positions b) (o_symbol ord)),
        t_orderId = Some (o_id ord), t_fillId = Some (f_id fl),
        t_transactionType = (if isClosing then CLOSE_POSITION else OPEN_POSITION),
        t_amount = f_notional fl, t_fee = fee, t_grossPnl = realizedPnl,
        t_netPnl = x_sub L realizedPnl fee, t_balanceAfter = walletBalance b3,
        t_createdAtUtc = now\<rparr>) b4))"

definition executeFill ::
  "lib \<Rightarrow> order \<Rightarrow> number \<Rightarrow> number \<Rightarrow> liquidity \<Rightarrow> ms \<Rightarrow> broker \<Rightarrow> broker brokerM" where
  "executeFill L ord quantity price liq now b =
     bindR (settleFill L ord quantity price liq now b)
       (\<lambda>(realizedPnl, fee, b1).
         (let (fid, b2) = nextUlid L b1;
              fl = makeFill L (cur b2 ord) quantity price liq now b realizedPnl fee b2 fid in
          Inr (notifyFill now ord fl (recordFill L (cur b2 ord) fl now b2))))"

definition fillOrder :: "lib \<Rightarrow> order \<Rightarrow> marketState \<Rightarrow> liquidity \<Rightarrow> ms \<Rightarrow> broker \<Rightarrow> broker brokerM" where
  "fillOrder L ord m liq now b =
     (let remaining = x_sub L (o_quantity ord) (o_filledQty ord) in
      if remaining \<le> 0 then Inr (setOrder (ord\<lparr>o_status := FILLED\<rparr>) b)
      else
        (case getExecutionPrice L b ord m of
           None \<Rightarrow> Inr (snd (rejectOrder ord ''INVALID_EXECUTION_PRICE'' now b))
         | Some price \<Rightarrow>
             if price \<le> 0 then Inr (snd (rejectOrder ord ''INVALID_EXECUTION_PRICE'' now b))
             else bindR (executeFill L ord remaining price liq now b)
               (\<lambda>b1.
                 (let o1 = cur b1 ord;
                      full = (o_filledQty o1 \<ge> o_quantity o1);
                      o2 = o1\<lparr>o_status := (if full then FILLED else PARTIALLY_FILLED)\<rparr>;
                      b2 = emitOrderEvent now (if full then ORDER_FILLED else ORDER_PARTIALLY_FILLED)
                        o2 (Some price) None (setOrder o2 b1) in
                  Inr (setOrder (o2\<lparr>o_updatedAtUtc := now\<rparr>) b2)))))"

subsection \<open>Matching and liquidation\<close>

definition evaluateOrder :: "lib \<Rightarrow> string \<Rightarrow> marketState \<Rightarrow> ms \<Rightarrow> string \<Rightarrow> broker \<Rightarrow> broker brokerM" where
  "evaluateOrder L symbol m now k b =
     (case mget (orders b) k of
        None \<Rightarrow> Inr b
      | Some ord \<Rightarrow>
          if o_symbol ord \<noteq> symbol then Inr b
          else if \<not> isOpen ord then Inr b
          else if o_type ord = LIMIT then
            (if isLimitMarketable ord m then fillOrder L ord m MAKER now b else Inr b)
          else if o_type ord = STOP_MARKET \<or> o_type ord = TAKE_PROFIT_MARKET then
            (if isStopTriggered L ord m then fillOrder L ord m TAKER now b else Inr b)
          else Inr b)"

definition evaluateOpenOrders :: "lib \<Rightarrow> string \<Rightarrow> ms \<Rightarrow> broker \<Rightarrow> broker brokerM" where
  "evaluateOpenOrders L symbol now b =
     (case getMarket b symbol of
        None \<Rightarrow> Inr b
      | Some m \<Rightarrow> foldR (evaluateOrder L symbol m now) (mkeys (orders b)) b)"

definition liquidationOrder :: "position \<Rightarrow> string \<Rightarrow> string \<Rightarrow> ms \<Rightarrow> order" where
  "liquidationOrder pos oid cid now =
     \<lparr>o_id = oid, o_clientOrderId = ''liq-'' @ cid, o_accountId = p_accountId pos,
      o_symbol = p_symbol pos, o_strategyId = Some ''LIQUIDATION'', o_signalId = None,
      o_side = (if p_qty pos > 0 then SELL else BUY), o_type = MARKET, o_timeInForce = GTC,
      o_status = NEW, o_positionSide = p_positionSide pos, o_quantity = \<bar>p_qty pos\<bar>,
      o_filledQty = 0, o_limitPrice = None, o_stopPrice = None, o_activationPrice = None,
      o_callbackRate = None, o_avgFillPrice = 0, o_leverage = p_leverage pos,
      o_marginType = None, o_reduceOnly = True, o_postOnly = False, o_closePosition = True,
      o_workingType = None, o_rejectReason = None, o_submittedAtUtc = now, o_updatedAtUtc = now\<rparr>"

definition liquidatePosition :: "lib \<Rightarrow> ms \<Rightarrow> string \<Rightarrow> broker \<Rightarrow> broker brokerM" where
  "liquidatePosition L now k b =
     (case mget (positions b) k of
        None \<Rightarrow> Inr b
      | Some pos \<Rightarrow>
          if p_qty pos = 0 then Inr b
          else
            (case Option.bind (getMarket b (p_symbol pos)) m_mark of
               None \<Rightarrow> Inr b
             | Some mark \<Rightarrow>
                 if mark = 0 then Inr b
                 else
                   (let (oid, b1) = nextUlid L b; (cid, b2) = nextUlid L b1;
                        ord = liquidationOrder pos oid cid now in
                    bindR (executeFill L ord \<bar>p_qty pos\<bar> mark TAKER now (setOrder ord b2))
                      (\<lambda>b3.
                        (let o1 = (cur b3 ord)\<lparr>o_status := FILLED, o_updatedAtUtc := now\<rparr> in
                         Inr (emitOrderEvent now ORDER_FILLED o1 (Some mark) (Some ''LIQUIDATION'')
                           (setOrder o1 b3)))))))"

definition checkLiquidation :: "lib \<Rightarrow> ms \<Rightarrow> broker \<Rightarrow> broker brokerM" where
  "checkLiquidation L now b =
     (if isLiquidating b then Inr b
      else
        (let (acct, b1) = calculateAccountState L b in
         if a_maintenanceMargin acct \<le> 0 then Inr b1
         else if a_equity acct > a_maintenanceMargin acct then Inr b1
         else bindR (foldR (liquidatePosition L now) (mkeys (positions b1))
                (b1\<lparr>isLiquidating := True, liquidations := Suc (liquidations b1)\<rparr>))
              (\<lambda>b2. Inr ((recalculateAccount L b2)\<lparr>isLiquidating := False\<rparr>))))"

definition onMarket :: "lib \<Rightarrow> string \<Rightarrow> marketField list \<Rightarrow> ms \<Rightarrow> broker \<Rightarrow> broker brokerM" where
  "onMarket L symbol update now b =
     (case mget (instruments b) symbol of
        None \<Rightarrow> Inr b
      | Some _ \<Rightarrow>
          (let existing = coalesce (mget (localMarkets b) symbol) (emptyMarket symbol now);
               m = (fold assignField update existing)\<lparr>m_symbol := symbol, m_localTsUtc := now, m_stale := False\<rparr>;
               b1 = b\<lparr>localMarkets := mset symbol m (localMarkets b)\<rparr> in
           bindR (evaluateOpenOrders L symbol now b1)
             (\<lambda>b2. checkLiquidation L now (recalculateAccount L b2))))"

subsection \<open>Order submission\<close>

text \<open>The quantity an order is submitted with: rounded to the step, and for a reduce-only
  order clamped to the position it reduces.\<close>

definition submitQuantity :: "lib \<Rightarrow> orderCommand \<Rightarrow> instrument \<Rightarrow> broker \<Rightarrow> number" where
  "submitQuantity L c instr b =
     (let rounded = roundStep L (c_quantity c) (i_stepSize instr) in
      if coalesce (c_reduceOnly c) False then
        (let openQty = (case mget (positions b) (c_symbol c) of None \<Rightarrow> 0 | Some pos \<Rightarrow> \<bar>p_qty pos\<bar>) in
         if rounded > openQty then roundStep L openQty (i_stepSize instr) else rounded)
      else rounded)"

definition buildOrder :: "lib \<Rightarrow> orderCommand \<Rightarrow> instrument \<Rightarrow> ms \<Rightarrow> broker \<Rightarrow> order \<times> broker" where
  "buildOrder L c instr now b =
     (let (oid, b1) = nextUlid L b;
          (cid, b2) = (case c_clientOrderId c of Some x \<Rightarrow> (x, b1) | None \<Rightarrow> nextUlid L b1) in
      (\<lparr>o_id = oid, o_clientOrderId = cid, o_accountId = ''paper-main'', o_symbol = c_symbol c,
        o_strategyId = c_strategyId c, o_signalId = c_signalId c, o_side = c_side c,
        o_type = c_type c, o_timeInForce = coalesce (c_timeInForce c) GTC, o_status = NEW,
        o_positionSide = BOTH, o_quantity = submitQuantity L c instr b, o_filledQty = 0,
        o_limitPrice = map_option (\<lambda>p. roundTick L p (i_tickSize instr)) (c_price c),
        o_stopPrice = map_option (\<lambda>p. roundTick L p (i_tickSize instr)) (c_stopPrice c),
        o_activationPrice = c_activationPrice c, o_callbackRate = c_callbackRate c,
        o_avgFillPrice = 0, o_leverage = coalesce (c_leverage c) 5,
        o_marginType = c_marginType c, o_reduceOnly = coalesce (c_reduceOnly c) False,
        o_postOnly = coalesce (c_postOnly c) False,
        o_closePosition = coalesce (c_closePosition c) False,
        o_workingType = c_workingType c, o_rejectReason = None, o_submittedAtUtc = now,
        o_updatedAtUtc = now\<rparr>, b2))"

definition fillNow :: "lib \<Rightarrow> order \<Rightarrow> marketState \<Rightarrow> ms \<Rightarrow> broker \<Rightarrow> (order \<times> broker) brokerM" where
  "fillNow L ord m now b =
     bindR (fillOrder L ord m TAKER now b) (\<lambda>b1. Inr (cur b1 ord, b1))"

text \<open>What \<open>submitOrder\<close> does with an order that passed the risk check.\<close>

definition routeOrder :: "lib \<Rightarrow> order \<Rightarrow> marketState \<Rightarrow> ms \<Rightarrow> broker \<Rightarrow> (order \<times> broker) brokerM" where
  "routeOrder L ord m now b =
     (case o_type ord of
        MARKET \<Rightarrow> fillNow L ord m now b
      | LIMIT \<Rightarrow>
          if \<not> truthy (o_limitPrice ord) then Inr (rejectOrder ord ''MISSING_LIMIT_PRICE'' now b)
          else if o_postOnly ord \<and> isLimitMarketable ord m
          then Inr (rejectOrder ord ''POST_ONLY_WOULD_FILL'' now b)
          else if isLimitMarketable ord m then fillNow L ord m now b
          else if o_timeInForce ord = IOC then
            (let (canceled, b1) = cancelOrder (o_id ord) ''IOC_NOT_MARKETABLE'' now b in
             Inr (coalesce canceled ord, b1))
          else if o_timeInForce ord = FOK then Inr (rejectOrder ord ''FOK_CANNOT_FILL_FULLY'' now b)
          else Inr (ord, b)
      | STOP_MARKET \<Rightarrow>
          if \<not> truthy (o_stopPrice ord) then Inr (rejectOrder ord ''MISSING_STOP_PRICE'' now b)
          else if isStopTriggered L ord m then fillNow L ord m now b else Inr (ord, b)
      | TAKE_PROFIT_MARKET \<Rightarrow>
          if \<not> truthy (o_stopPrice ord) then Inr (rejectOrder ord ''MISSING_STOP_PRICE'' now b)
          else if isStopTriggered L ord m then fillNow L ord m now b else Inr (ord, b)
      | _ \<Rightarrow> Inr (rejectOrder ord ''UNSUPPORTED_ORDER_TYPE'' now b))"

definition submitOrder :: "lib \<Rightarrow> orderCommand \<Rightarrow> ms \<Rightarrow> broker \<Rightarrow> (order \<times> broker) brokerM" where
  "submitOrder L c now b =
     (case mget (instruments b) (c_symbol c) of
        None \<Rightarrow> Inl (''Unknown instrument: '' @ c_symbol c, b)
      | Some instr \<Rightarrow>
          (let market = getMarket b (c_symbol c);
               (ord, b1) = buildOrder L c instr now b;
               b2 = emitOrderEvent now ORDER_RECEIVED ord None None (setOrder ord b1) in
           case market of
             None \<Rightarrow> Inr (rejectOrder ord ''NO_MARKET_STATE'' now b2)
           | Some m \<Rightarrow>
               if isMarketStale now (c_symbol c) b2
               then Inr (rejectOrder ord ''STALE_MARKET_DATA'' now b2)
               else
                 (case checkOrderRisk L now ord instr m b2 of
                    (Some reason, b3) \<Rightarrow> Inr (rejectOrder ord reason now b3)
                  | (None, b3) \<Rightarrow> routeOrder L ord m now b3)))"

subsection \<open>Funding and account operations\<close>

definition fundPosition :: "lib \<Rightarrow> ms \<Rightarrow> string \<Rightarrow> broker \<Rightarrow> broker" where
  "fundPosition L now k b =
     (case mget (positions b) k of
        None \<Rightarrow> b
      | Some pos \<Rightarrow>
          if p_qty pos = 0 then b
          else
            (case getMarket b (p_symbol pos) of
               None \<Rightarrow> b
             | Some m \<Rightarrow>
                 if \<not> truthy (m_mark m) \<or> m_fundingRate m = None then b
                 else
                   (let mark = the (m_mark m);
                        payment = x_mul L (x_mul L (p_qty pos) mark) (the (m_fundingRate m));
                        b1 = b\<lparr>walletBalance := x_sub L (walletBalance b) payment,
                               totalFunding := x_add L (totalFunding b) payment\<rparr>;
                        pos1 = pos\<lparr>p_totalFunding := x_add L (p_totalFunding pos) payment\<rparr>;
                        b2 = b1\<lparr>positions := mset k pos1 (positions b1)\<rparr>;
                        (fid, b3) = nextUlid L b2;
                        fp = \<lparr>fp_id = fid, fp_accountId = p_accountId pos, fp_symbol = p_symbol pos,
                              fp_positionSide = p_positionSide pos, fp_qty = p_qty pos,
                              fp_markPrice = mark, fp_fundingRate = the (m_fundingRate m),
                              fp_payment = payment, fp_walletBalanceAfter = walletBalance b3,
                              fp_fundingTimeUtc = now\<rparr>;
                        b4 = emit (SavePosition pos1) (emit (SaveFundingPayment fp)
                               (emit (AppendFundingPayment fp) b3));
                        b5 = (if payment \<noteq> 0 then
                                (let bl = postLedger L now (p_accountId pos) fid FUNDING
                                       (if payment > 0 then EXPENSE_TRADING_FUNDING else REVENUE_TRADING_FUNDING)
                                       (if payment > 0 then DEBIT else CREDIT) \<bar>payment\<bar>
                                       None None (Some (p_symbol pos)) b4;
                                     (tid, bt) = nextUlid L bl in
                                 emit (SaveTransaction \<lparr>t_id = tid, t_accountId = p_accountId pos,
                                   t_positionId = Some (p_symbol pos), t_orderId = None, t_fillId = None,
                                   t_transactionType = FUNDING_FEE, t_amount = payment, t_fee = 0,
                                   t_grossPnl = 0, t_netPnl = - payment,
                                   t_balanceAfter = walletBalance bt, t_createdAtUtc = now\<rparr>) bt)
                              else b4) in
                    emitPositionEvent L now FUNDING_EV pos1 (p_qty pos1) (p_qty pos1) (Some mark) b5)))"

definition applyFunding :: "lib \<Rightarrow> ms \<Rightarrow> broker \<Rightarrow> broker" where
  "applyFunding L now b = recalculateAccount L (fold (fundPosition L now) (mkeys (positions b)) b)"

definition adjustWalletBalance :: "lib \<Rightarrow> number \<Rightarrow> broker \<Rightarrow> number \<times> broker" where
  "adjustWalletBalance L delta b =
     (let b1 = recalculateAccount L (b\<lparr>walletBalance := x_add L (walletBalance b) delta\<rparr>) in
      (walletBalance b1, b1))"

definition getPositions :: "lib \<Rightarrow> broker \<Rightarrow> position list \<times> broker" where
  "getPositions L b = (let b1 = recalculateAccount L b in (mvals (positions b1), b1))"

definition resetAccount :: "lib \<Rightarrow> number option \<Rightarrow> ms \<Rightarrow> broker \<Rightarrow> accountState \<times> broker" where
  "resetAccount L startingUsdt now b =
     (let startBalance = coalesce startingUsdt 10000;
          b1 = cancelAllOrders None now b;
          b2 = b1\<lparr>positions := [], orders := [], fills := [], walletBalance := startBalance,
                 totalFees := 0, totalFunding := 0, totalRealizedPnl := 0, liquidations := 0,
                 dayStartEquity := startBalance, peakEquity := startBalance,
                 currentUtcDay := utcDay now, isLiquidating := False\<rparr>;
          b3 = recalculateAccount L (emit (ResetAccountData (accountId b2)) b2) in
      (account b3, b3))"

subsection \<open>Construction from persisted state\<close>

text \<open>\<open>None\<close> means that the persister lacks the optional load method. \<open>drawn\<close> counts the
  identifiers drawn before this object was constructed.\<close>

record persisted =
  ps_positions :: "position list option"
  ps_orders :: "order list option"
  ps_fills :: "fill list option"
  ps_fundingPayments :: "fundingPayment list option"

record brokerConfig =
  cfg_accountId :: string
  cfg_startingUsdt :: number
  cfg_instruments :: "instrument list"
  cfg_takerFeeRate :: "number option"
  cfg_makerFeeRate :: "number option"
  cfg_marketSlippageBps :: "number option"
  cfg_risk :: "riskLimits \<Rightarrow> riskLimits"
  cfg_marketState :: "string \<Rightarrow> marketState option"
  cfg_onFill :: "(fill \<Rightarrow> string option) option"

definition defaultRisk :: riskLimits where
  "defaultRisk = \<lparr>r_maxLeverage = 10, r_maxOrderNotional = 10000, r_maxPositionNotional = 20000,
     r_maxDailyLoss = 3500, r_maxOpenOrders = 50, r_allowMarketOrders = True,
     r_allowLimitOrders = True, r_allowStopOrders = True, r_staleMarketMaxAgeMs = 5000\<rparr>"

definition emptyAccount :: accountState where
  "emptyAccount = \<lparr>a_walletBalance = 0, a_unrealizedPnl = 0, a_equity = 0, a_initialMargin = 0,
     a_maintenanceMargin = 0, a_availableBalance = 0, a_marginRatio = None, a_totalFees = 0,
     a_totalFunding = 0, a_totalRealizedPnl = 0, a_openPositionsCount = 0, a_openOrdersCount = 0,
     a_dailyRealizedPnl = None, a_peakEquity = None, a_drawdown = None, a_liquidations = 0\<rparr>"

definition healPosition :: "lib \<Rightarrow> (string, instrument) jsmap \<Rightarrow> position \<Rightarrow> position" where
  "healPosition L instrs pos =
     (case mget instrs (p_symbol pos) of
        None \<Rightarrow> pos
      | Some instr \<Rightarrow> pos\<lparr>p_qty := x_toFixed L (i_quantityPrecision instr) (p_qty pos),
          p_entryPrice := x_toFixed L (i_pricePrecision instr) (p_entryPrice pos)\<rparr>)"

definition newBroker :: "lib \<Rightarrow> brokerConfig \<Rightarrow> persisted \<Rightarrow> nat \<Rightarrow> ms \<Rightarrow> broker" where
  "newBroker L cfg ps drawn now =
     (let instrs = fold (\<lambda>i. mset (i_symbol i) i) (cfg_instruments cfg) [];
          poss = fold (\<lambda>p. mset (p_symbol p) (healPosition L instrs p)) (coalesce (ps_positions ps) []) [];
          ords = fold (\<lambda>ord. mset (o_id ord) ord) (coalesce (ps_orders ps) []) [];
          fls = coalesce (ps_fills ps) [];
          realizedPnlSum = fold (\<lambda>f acc. x_add L acc (f_realizedPnl f)) fls 0;
          feesSum = fold (\<lambda>f acc. x_add L acc (f_fee f)) fls 0;
          fundingSum = fold (\<lambda>fp acc. x_add L acc (fp_payment fp)) (coalesce (ps_fundingPayments ps) []) 0 in
      recalculateAccount L
       \<lparr>instruments = instrs, orders = ords, positions = poss, fills = fls, localMarkets = [],
        marketProvider = cfg_marketState cfg, onFill = cfg_onFill cfg,
        walletBalance = x_sub L (x_sub L (x_add L (cfg_startingUsdt cfg) realizedPnlSum) feesSum) fundingSum,
        totalFees = feesSum, totalFunding = fundingSum, totalRealizedPnl = realizedPnlSum,
        liquidations = 0, account = emptyAccount,
        takerFeeRate = coalesce (cfg_takerFeeRate cfg) (4 / 10000),
        makerFeeRate = coalesce (cfg_makerFeeRate cfg) (2 / 10000),
        marketSlippageBps = coalesce (cfg_marketSlippageBps cfg) 2,
        risk = cfg_risk cfg defaultRisk, dayStartEquity = cfg_startingUsdt cfg,
        peakEquity = cfg_startingUsdt cfg, currentUtcDay = utcDay now, isLiquidating = False,
        accountId = cfg_accountId cfg, ulids = drawn, effects = []\<rparr>)"

subsection \<open>The broker as a transition system\<close>

text \<open>The public operations that change state, each with the time it runs at. \<open>Feed\<close> is not an
  operation of the class: it is the market state provider changing its answers.\<close>

datatype brokerOp =
    Submit orderCommand | Cancel string string | CancelAll "string option"
  | Market string "marketField list" | ApplyFunding | Adjust number | GetPositions
  | Reset "number option" | Feed "string \<Rightarrow> marketState option"

definition afterSubmit :: "(order \<times> broker) brokerM \<Rightarrow> broker" where
  "afterSubmit r = (case r of Inl (_, b) \<Rightarrow> b | Inr (_, b) \<Rightarrow> b)"

fun perform :: "lib \<Rightarrow> brokerOp \<times> ms \<Rightarrow> broker \<Rightarrow> broker" where
  "perform L (Submit c, now) b = afterSubmit (submitOrder L c now b)"
| "perform L (Cancel oid reason, now) b = snd (cancelOrder oid reason now b)"
| "perform L (CancelAll sy, now) b = cancelAllOrders sy now b"
| "perform L (Market s upd, now) b = left (onMarket L s upd now b)"
| "perform L (ApplyFunding, now) b = applyFunding L now b"
| "perform L (Adjust d, now) b = snd (adjustWalletBalance L d b)"
| "perform L (GetPositions, now) b = snd (getPositions L b)"
| "perform L (Reset s, now) b = snd (resetAccount L s now b)"
| "perform L (Feed f, now) b = b\<lparr>marketProvider := f\<rparr>"

end
