(* ===== verification/Broker_Instances.thy ===== *)
theory Broker_Instances
  imports Paper_Broker
begin

section \<open>Concrete instances of the paper broker\<close>

text \<open>The decimal library computed exactly, an instrument, a configuration, a fresh broker and
  commands: the inputs on which the properties are run.\<close>

definition exactLib :: lib where
  "exactLib = \<lparr>x_add = (+), x_sub = (-), x_mul = (*), x_div = (/), x_floor = (\<lambda>x. of_int \<lfloor>x\<rfloor>),
     x_round = (\<lambda>x. of_int (round_away x)), x_toFixed = grid, x_ulid = (\<lambda>n. replicate n (CHR ''u''))\<rparr>"

lemma exactLib_exact [simp]: "decimal_exact exactLib"
  by (simp add: exactLib_def decimal_exact_def)

lemma exactLib_fresh [simp]: "ulid_fresh exactLib"
  by (auto simp: exactLib_def ulid_fresh_def inj_def dest: arg_cong [where f = length])

definition btcPerp :: instrument where
  "btcPerp = \<lparr>i_symbol = ''BTC'', i_tickSize = 1 / 2, i_stepSize = 1 / 100, i_minQty = Some (1 / 100),
     i_maxQty = None, i_minNotional = Some 5, i_pricePrecision = 2, i_quantityPrecision = 2,
     i_maintenanceMarginRate = Some (1 / 200)\<rparr>"

definition freshConfig :: brokerConfig where
  "freshConfig = \<lparr>cfg_accountId = ''paper-main'', cfg_startingUsdt = 10000, cfg_instruments = [btcPerp],
     cfg_takerFeeRate = None, cfg_makerFeeRate = None, cfg_marketSlippageBps = None,
     cfg_risk = (\<lambda>r. r), cfg_marketState = (\<lambda>s. None), cfg_onFill = None\<rparr>"

definition nothingSaved :: persisted where
  "nothingSaved = \<lparr>ps_positions = None, ps_orders = None, ps_fills = None, ps_fundingPayments = None\<rparr>"

definition freshBroker :: broker where
  "freshBroker = newBroker exactLib freshConfig nothingSaved 0 0"

definition marketBuy :: "number \<Rightarrow> orderCommand" where
  "marketBuy q = \<lparr>c_clientOrderId = None, c_symbol = ''BTC'', c_side = BUY, c_type = MARKET,
     c_quantity = q, c_price = None, c_stopPrice = None, c_activationPrice = None,
     c_callbackRate = None, c_leverage = None, c_marginType = None, c_reduceOnly = None,
     c_postOnly = None, c_closePosition = None, c_timeInForce = None, c_workingType = None,
     c_strategyId = None, c_signalId = None\<rparr>"

lemma marketBuy_symbol [simp]: "c_symbol (marketBuy q) = ''BTC''"
  by (simp add: marketBuy_def)

text \<open>A market, a position of \<open>q\<close> contracts entered at 100, and the fresh broker holding it.\<close>

definition btcMarket :: "number \<Rightarrow> number \<Rightarrow> number \<Rightarrow> marketState" where
  "btcMarket bid ask mark = (emptyMarket ''BTC'' 0)\<lparr>m_bid := Some bid, m_ask := Some ask,
     m_mark := Some mark, m_fundingRate := Some (1 / 10000), m_stale := False\<rparr>"

definition btcPosition :: "number \<Rightarrow> position" where
  "btcPosition q = (newPosition ''BTC'' btcPerp 5 0)\<lparr>p_qty := q, p_entryPrice := 100\<rparr>"

definition holdingBroker :: "number \<Rightarrow> marketState \<Rightarrow> broker" where
  "holdingBroker q m = freshBroker\<lparr>positions := [(''BTC'', btcPosition q)], localMarkets := [(''BTC'', m)]\<rparr>"

definition marketSell :: "number \<Rightarrow> orderCommand" where
  "marketSell q = (marketBuy q)\<lparr>c_side := SELL, c_reduceOnly := Some True\<rparr>"

lemma freshBroker_fields [simp]:
  "orders freshBroker = []" "positions freshBroker = []" "fills freshBroker = []" "localMarkets freshBroker = []"
  "instruments freshBroker = [(''BTC'', btcPerp)]" "walletBalance freshBroker = 10000"
  "marketProvider freshBroker = (\<lambda>s. None)" "isLiquidating freshBroker = False" "risk freshBroker = defaultRisk"
  "ulids freshBroker = 0" "currentUtcDay freshBroker = 0" "onFill freshBroker = None" "effects freshBroker = []"
  "totalFees freshBroker = 0" "totalFunding freshBroker = 0" "totalRealizedPnl freshBroker = 0"
  "takerFeeRate freshBroker = 4 / 10000" "makerFeeRate freshBroker = 2 / 10000" "marketSlippageBps freshBroker = 2"
  by (simp_all add: freshBroker_def newBroker_def freshConfig_def nothingSaved_def Let_def exactLib_def
      recalculateAccount_def calculateAccountState_def mset_def btcPerp_def utcDay_def)

lemma holdingBroker_fields [simp]:
  "orders (holdingBroker q m) = []" "positions (holdingBroker q m) = [(''BTC'', btcPosition q)]"
  "fills (holdingBroker q m) = []" "localMarkets (holdingBroker q m) = [(''BTC'', m)]"
  "instruments (holdingBroker q m) = [(''BTC'', btcPerp)]" "walletBalance (holdingBroker q m) = 10000"
  "marketProvider (holdingBroker q m) = (\<lambda>s. None)" "isLiquidating (holdingBroker q m) = False"
  "risk (holdingBroker q m) = defaultRisk" "ulids (holdingBroker q m) = 0" "onFill (holdingBroker q m) = None"
  "currentUtcDay (holdingBroker q m) = 0" "takerFeeRate (holdingBroker q m) = 4 / 10000"
  "makerFeeRate (holdingBroker q m) = 2 / 10000" "marketSlippageBps (holdingBroker q m) = 2"
  by (simp_all add: holdingBroker_def)

lemma btcPosition_fields [simp]:
  "p_symbol (btcPosition q) = ''BTC''" "p_qty (btcPosition q) = q" "p_entryPrice (btcPosition q) = 100"
  "p_leverage (btcPosition q) = 5" "p_maintenanceMarginRate (btcPosition q) = 1 / 200"
  by (simp_all add: btcPosition_def newPosition_def parseNum_def btcPerp_def)

lemma btcMarket_fields [simp]:
  "m_bid (btcMarket bid ask mark) = Some bid" "m_ask (btcMarket bid ask mark) = Some ask"
  "m_mark (btcMarket bid ask mark) = Some mark" "m_stale (btcMarket bid ask mark) = False"
  "m_fundingRate (btcMarket bid ask mark) = Some (1 / 10000)" "m_localTsUtc (btcMarket bid ask mark) = 0"
  by (simp_all add: btcMarket_def emptyMarket_def)

lemma btcPerp_fields [simp]:
  "i_stepSize btcPerp = 1 / 100" "i_quantityPrecision btcPerp = 2" "i_pricePrecision btcPerp = 2"
  "i_minQty btcPerp = Some (1 / 100)" "i_minNotional btcPerp = Some 5" "i_tickSize btcPerp = 1 / 2"
  by (simp_all add: btcPerp_def)

lemma mget_single [simp]: "mget [(k, v)] k = Some v"
  by (simp add: mget_def)

lemma getMarket_holding [simp]: "getMarket (holdingBroker q m) ''BTC'' = Some m"
  by (simp add: getMarket_def)

lemma marketSell_fields [simp]:
  "c_symbol (marketSell q) = ''BTC''" "c_reduceOnly (marketSell q) = Some True" "c_side (marketSell q) = SELL"
  by (simp_all add: marketSell_def marketBuy_def)

definition limitBuy :: "number \<Rightarrow> number \<Rightarrow> orderCommand" where
  "limitBuy q p = (marketBuy q)\<lparr>c_type := LIMIT, c_price := Some p\<rparr>"

definition limitOrder :: "number \<Rightarrow> number \<Rightarrow> order" where
  "limitOrder q p = fst (buildOrder exactLib (limitBuy q p) btcPerp 0 freshBroker)"

lemma limitOrder_fields [simp]:
  "o_type (limitOrder q p) = LIMIT" "o_side (limitOrder q p) = BUY" "o_symbol (limitOrder q p) = ''BTC''"
  "o_filledQty (limitOrder q p) = 0" "o_quantity (limitOrder q p) = of_int \<lfloor>q * 100\<rfloor> / 100"
  "o_limitPrice (limitOrder q p) = Some (of_int (round_away (p * 2)) / 2)" "o_postOnly (limitOrder q p) = False"
  by (simp_all add: limitOrder_def buildOrder_def limitBuy_def marketBuy_def Let_def nextUlid_def
      submitQuantity_def roundStep_def roundTick_def exactLib_def)

end
