(* ===== verification/Paper_Broker_Frames.thy ===== *)
theory Paper_Broker_Frames
  imports Broker_Instances
begin

section \<open>What the paper broker's helpers leave alone\<close>

text \<open>
  One lemma per helper of the broker, with an equation for every field of the state that the
  helper does not write. They are simplification rules: the proofs about whole operations
  read a field through the helpers without unfolding them.
\<close>

lemma emit_frame [simp]:
  shows "instruments (emit e b) = instruments b" "orders (emit e b) = orders b"
    "positions (emit e b) = positions b" "fills (emit e b) = fills b"
    "localMarkets (emit e b) = localMarkets b" "marketProvider (emit e b) = marketProvider b"
    "onFill (emit e b) = onFill b" "walletBalance (emit e b) = walletBalance b"
    "totalFees (emit e b) = totalFees b" "totalFunding (emit e b) = totalFunding b"
    "totalRealizedPnl (emit e b) = totalRealizedPnl b" "liquidations (emit e b) = liquidations b"
    "account (emit e b) = account b" "takerFeeRate (emit e b) = takerFeeRate b"
    "makerFeeRate (emit e b) = makerFeeRate b"
    "marketSlippageBps (emit e b) = marketSlippageBps b" "risk (emit e b) = risk b"
    "dayStartEquity (emit e b) = dayStartEquity b" "peakEquity (emit e b) = peakEquity b"
    "currentUtcDay (emit e b) = currentUtcDay b" "isLiquidating (emit e b) = isLiquidating b"
    "accountId (emit e b) = accountId b" "ulids (emit e b) = ulids b"
  by (simp_all add: emit_def)

lemma nextUlid_frame [simp]:
  shows "instruments (snd (nextUlid L b)) = instruments b"
    "orders (snd (nextUlid L b)) = orders b" "positions (snd (nextUlid L b)) = positions b"
    "fills (snd (nextUlid L b)) = fills b" "localMarkets (snd (nextUlid L b)) = localMarkets b"
    "marketProvider (snd (nextUlid L b)) = marketProvider b"
    "onFill (snd (nextUlid L b)) = onFill b"
    "walletBalance (snd (nextUlid L b)) = walletBalance b"
    "totalFees (snd (nextUlid L b)) = totalFees b"
    "totalFunding (snd (nextUlid L b)) = totalFunding b"
    "totalRealizedPnl (snd (nextUlid L b)) = totalRealizedPnl b"
    "liquidations (snd (nextUlid L b)) = liquidations b"
    "account (snd (nextUlid L b)) = account b"
    "takerFeeRate (snd (nextUlid L b)) = takerFeeRate b"
    "makerFeeRate (snd (nextUlid L b)) = makerFeeRate b"
    "marketSlippageBps (snd (nextUlid L b)) = marketSlippageBps b"
    "risk (snd (nextUlid L b)) = risk b" "dayStartEquity (snd (nextUlid L b)) = dayStartEquity b"
    "peakEquity (snd (nextUlid L b)) = peakEquity b"
    "currentUtcDay (snd (nextUlid L b)) = currentUtcDay b"
    "isLiquidating (snd (nextUlid L b)) = isLiquidating b"
    "accountId (snd (nextUlid L b)) = accountId b" "effects (snd (nextUlid L b)) = effects b"
  by (simp_all add: nextUlid_def)

lemma setOrder_frame [simp]:
  shows "instruments (setOrder ord b) = instruments b" "positions (setOrder ord b) = positions b"
    "fills (setOrder ord b) = fills b" "localMarkets (setOrder ord b) = localMarkets b"
    "marketProvider (setOrder ord b) = marketProvider b" "onFill (setOrder ord b) = onFill b"
    "walletBalance (setOrder ord b) = walletBalance b" "totalFees (setOrder ord b) = totalFees b"
    "totalFunding (setOrder ord b) = totalFunding b"
    "totalRealizedPnl (setOrder ord b) = totalRealizedPnl b"
    "liquidations (setOrder ord b) = liquidations b" "account (setOrder ord b) = account b"
    "takerFeeRate (setOrder ord b) = takerFeeRate b"
    "makerFeeRate (setOrder ord b) = makerFeeRate b"
    "marketSlippageBps (setOrder ord b) = marketSlippageBps b" "risk (setOrder ord b) = risk b"
    "dayStartEquity (setOrder ord b) = dayStartEquity b"
    "peakEquity (setOrder ord b) = peakEquity b"
    "currentUtcDay (setOrder ord b) = currentUtcDay b"
    "isLiquidating (setOrder ord b) = isLiquidating b" "accountId (setOrder ord b) = accountId b"
    "ulids (setOrder ord b) = ulids b" "effects (setOrder ord b) = effects b"
  by (simp_all add: setOrder_def)

lemma nextUlid_eq: "nextUlid L b = (x_ulid L (ulids b), b\<lparr>ulids := Suc (ulids b)\<rparr>)"
  by (simp add: nextUlid_def)

lemma orders_setOrder [simp]: "orders (setOrder ord b) = mset (o_id ord) ord (orders b)"
  by (simp add: setOrder_def)

lemma emitOrderEvent_frame [simp]:
  shows "instruments (emitOrderEvent now ev ord price reason b) = instruments b"
    "orders (emitOrderEvent now ev ord price reason b) = orders b"
    "positions (emitOrderEvent now ev ord price reason b) = positions b"
    "fills (emitOrderEvent now ev ord price reason b) = fills b"
    "localMarkets (emitOrderEvent now ev ord price reason b) = localMarkets b"
    "marketProvider (emitOrderEvent now ev ord price reason b) = marketProvider b"
    "onFill (emitOrderEvent now ev ord price reason b) = onFill b"
    "walletBalance (emitOrderEvent now ev ord price reason b) = walletBalance b"
    "totalFees (emitOrderEvent now ev ord price reason b) = totalFees b"
    "totalFunding (emitOrderEvent now ev ord price reason b) = totalFunding b"
    "totalRealizedPnl (emitOrderEvent now ev ord price reason b) = totalRealizedPnl b"
    "liquidations (emitOrderEvent now ev ord price reason b) = liquidations b"
    "account (emitOrderEvent now ev ord price reason b) = account b"
    "takerFeeRate (emitOrderEvent now ev ord price reason b) = takerFeeRate b"
    "makerFeeRate (emitOrderEvent now ev ord price reason b) = makerFeeRate b"
    "marketSlippageBps (emitOrderEvent now ev ord price reason b) = marketSlippageBps b"
    "risk (emitOrderEvent now ev ord price reason b) = risk b"
    "dayStartEquity (emitOrderEvent now ev ord price reason b) = dayStartEquity b"
    "peakEquity (emitOrderEvent now ev ord price reason b) = peakEquity b"
    "currentUtcDay (emitOrderEvent now ev ord price reason b) = currentUtcDay b"
    "isLiquidating (emitOrderEvent now ev ord price reason b) = isLiquidating b"
    "accountId (emitOrderEvent now ev ord price reason b) = accountId b"
    "ulids (emitOrderEvent now ev ord price reason b) = ulids b"
  by (simp_all add: emitOrderEvent_def)

lemma emitPositionEvent_frame [simp]:
  shows "instruments (emitPositionEvent L now ev pos q1 q2 price b) = instruments b"
    "orders (emitPositionEvent L now ev pos q1 q2 price b) = orders b"
    "positions (emitPositionEvent L now ev pos q1 q2 price b) = positions b"
    "fills (emitPositionEvent L now ev pos q1 q2 price b) = fills b"
    "localMarkets (emitPositionEvent L now ev pos q1 q2 price b) = localMarkets b"
    "marketProvider (emitPositionEvent L now ev pos q1 q2 price b) = marketProvider b"
    "onFill (emitPositionEvent L now ev pos q1 q2 price b) = onFill b"
    "walletBalance (emitPositionEvent L now ev pos q1 q2 price b) = walletBalance b"
    "totalFees (emitPositionEvent L now ev pos q1 q2 price b) = totalFees b"
    "totalFunding (emitPositionEvent L now ev pos q1 q2 price b) = totalFunding b"
    "totalRealizedPnl (emitPositionEvent L now ev pos q1 q2 price b) = totalRealizedPnl b"
    "liquidations (emitPositionEvent L now ev pos q1 q2 price b) = liquidations b"
    "account (emitPositionEvent L now ev pos q1 q2 price b) = account b"
    "takerFeeRate (emitPositionEvent L now ev pos q1 q2 price b) = takerFeeRate b"
    "makerFeeRate (emitPositionEvent L now ev pos q1 q2 price b) = makerFeeRate b"
    "marketSlippageBps (emitPositionEvent L now ev pos q1 q2 price b) = marketSlippageBps b"
    "risk (emitPositionEvent L now ev pos q1 q2 price b) = risk b"
    "dayStartEquity (emitPositionEvent L now ev pos q1 q2 price b) = dayStartEquity b"
    "peakEquity (emitPositionEvent L now ev pos q1 q2 price b) = peakEquity b"
    "currentUtcDay (emitPositionEvent L now ev pos q1 q2 price b) = currentUtcDay b"
    "isLiquidating (emitPositionEvent L now ev pos q1 q2 price b) = isLiquidating b"
    "accountId (emitPositionEvent L now ev pos q1 q2 price b) = accountId b"
  by (simp_all add: emitPositionEvent_def nextUlid_eq)

lemma rejectOrder_frame [simp]:
  shows "instruments (snd (rejectOrder ord reason now b)) = instruments b"
    "positions (snd (rejectOrder ord reason now b)) = positions b"
    "fills (snd (rejectOrder ord reason now b)) = fills b"
    "localMarkets (snd (rejectOrder ord reason now b)) = localMarkets b"
    "marketProvider (snd (rejectOrder ord reason now b)) = marketProvider b"
    "onFill (snd (rejectOrder ord reason now b)) = onFill b"
    "walletBalance (snd (rejectOrder ord reason now b)) = walletBalance b"
    "totalFees (snd (rejectOrder ord reason now b)) = totalFees b"
    "totalFunding (snd (rejectOrder ord reason now b)) = totalFunding b"
    "totalRealizedPnl (snd (rejectOrder ord reason now b)) = totalRealizedPnl b"
    "liquidations (snd (rejectOrder ord reason now b)) = liquidations b"
    "account (snd (rejectOrder ord reason now b)) = account b"
    "takerFeeRate (snd (rejectOrder ord reason now b)) = takerFeeRate b"
    "makerFeeRate (snd (rejectOrder ord reason now b)) = makerFeeRate b"
    "marketSlippageBps (snd (rejectOrder ord reason now b)) = marketSlippageBps b"
    "risk (snd (rejectOrder ord reason now b)) = risk b"
    "dayStartEquity (snd (rejectOrder ord reason now b)) = dayStartEquity b"
    "peakEquity (snd (rejectOrder ord reason now b)) = peakEquity b"
    "currentUtcDay (snd (rejectOrder ord reason now b)) = currentUtcDay b"
    "isLiquidating (snd (rejectOrder ord reason now b)) = isLiquidating b"
    "accountId (snd (rejectOrder ord reason now b)) = accountId b"
    "ulids (snd (rejectOrder ord reason now b)) = ulids b"
  by (simp_all add: rejectOrder_def Let_def)

lemma cancelOrder_frame [simp]:
  shows "instruments (snd (cancelOrder k reason now b)) = instruments b"
    "positions (snd (cancelOrder k reason now b)) = positions b"
    "fills (snd (cancelOrder k reason now b)) = fills b"
    "localMarkets (snd (cancelOrder k reason now b)) = localMarkets b"
    "marketProvider (snd (cancelOrder k reason now b)) = marketProvider b"
    "onFill (snd (cancelOrder k reason now b)) = onFill b"
    "walletBalance (snd (cancelOrder k reason now b)) = walletBalance b"
    "totalFees (snd (cancelOrder k reason now b)) = totalFees b"
    "totalFunding (snd (cancelOrder k reason now b)) = totalFunding b"
    "totalRealizedPnl (snd (cancelOrder k reason now b)) = totalRealizedPnl b"
    "liquidations (snd (cancelOrder k reason now b)) = liquidations b"
    "account (snd (cancelOrder k reason now b)) = account b"
    "takerFeeRate (snd (cancelOrder k reason now b)) = takerFeeRate b"
    "makerFeeRate (snd (cancelOrder k reason now b)) = makerFeeRate b"
    "marketSlippageBps (snd (cancelOrder k reason now b)) = marketSlippageBps b"
    "risk (snd (cancelOrder k reason now b)) = risk b"
    "dayStartEquity (snd (cancelOrder k reason now b)) = dayStartEquity b"
    "peakEquity (snd (cancelOrder k reason now b)) = peakEquity b"
    "currentUtcDay (snd (cancelOrder k reason now b)) = currentUtcDay b"
    "isLiquidating (snd (cancelOrder k reason now b)) = isLiquidating b"
    "accountId (snd (cancelOrder k reason now b)) = accountId b"
    "ulids (snd (cancelOrder k reason now b)) = ulids b"
  by (simp_all add: cancelOrder_def Let_def split: option.split)

lemma cancelIf_frame [simp]:
  shows "instruments (cancelIf P reason now k b) = instruments b"
    "positions (cancelIf P reason now k b) = positions b"
    "fills (cancelIf P reason now k b) = fills b"
    "localMarkets (cancelIf P reason now k b) = localMarkets b"
    "marketProvider (cancelIf P reason now k b) = marketProvider b"
    "onFill (cancelIf P reason now k b) = onFill b"
    "walletBalance (cancelIf P reason now k b) = walletBalance b"
    "totalFees (cancelIf P reason now k b) = totalFees b"
    "totalFunding (cancelIf P reason now k b) = totalFunding b"
    "totalRealizedPnl (cancelIf P reason now k b) = totalRealizedPnl b"
    "liquidations (cancelIf P reason now k b) = liquidations b"
    "account (cancelIf P reason now k b) = account b"
    "takerFeeRate (cancelIf P reason now k b) = takerFeeRate b"
    "makerFeeRate (cancelIf P reason now k b) = makerFeeRate b"
    "marketSlippageBps (cancelIf P reason now k b) = marketSlippageBps b"
    "risk (cancelIf P reason now k b) = risk b"
    "dayStartEquity (cancelIf P reason now k b) = dayStartEquity b"
    "peakEquity (cancelIf P reason now k b) = peakEquity b"
    "currentUtcDay (cancelIf P reason now k b) = currentUtcDay b"
    "isLiquidating (cancelIf P reason now k b) = isLiquidating b"
    "accountId (cancelIf P reason now k b) = accountId b"
    "ulids (cancelIf P reason now k b) = ulids b"
  by (simp_all add: cancelIf_def split: option.split)

lemma fold_cancelIf_frame [simp]:
  shows "instruments (fold (cancelIf P reason now) ks b) = instruments b"
    "positions (fold (cancelIf P reason now) ks b) = positions b"
    "fills (fold (cancelIf P reason now) ks b) = fills b"
    "localMarkets (fold (cancelIf P reason now) ks b) = localMarkets b"
    "marketProvider (fold (cancelIf P reason now) ks b) = marketProvider b"
    "onFill (fold (cancelIf P reason now) ks b) = onFill b"
    "walletBalance (fold (cancelIf P reason now) ks b) = walletBalance b"
    "totalFees (fold (cancelIf P reason now) ks b) = totalFees b"
    "totalFunding (fold (cancelIf P reason now) ks b) = totalFunding b"
    "totalRealizedPnl (fold (cancelIf P reason now) ks b) = totalRealizedPnl b"
    "liquidations (fold (cancelIf P reason now) ks b) = liquidations b"
    "account (fold (cancelIf P reason now) ks b) = account b"
    "takerFeeRate (fold (cancelIf P reason now) ks b) = takerFeeRate b"
    "makerFeeRate (fold (cancelIf P reason now) ks b) = makerFeeRate b"
    "marketSlippageBps (fold (cancelIf P reason now) ks b) = marketSlippageBps b"
    "risk (fold (cancelIf P reason now) ks b) = risk b"
    "dayStartEquity (fold (cancelIf P reason now) ks b) = dayStartEquity b"
    "peakEquity (fold (cancelIf P reason now) ks b) = peakEquity b"
    "currentUtcDay (fold (cancelIf P reason now) ks b) = currentUtcDay b"
    "isLiquidating (fold (cancelIf P reason now) ks b) = isLiquidating b"
    "accountId (fold (cancelIf P reason now) ks b) = accountId b"
    "ulids (fold (cancelIf P reason now) ks b) = ulids b"
  by (induction ks arbitrary: b) simp_all

lemma cancelAllOrders_frame [simp]:
  shows "instruments (cancelAllOrders sy now b) = instruments b"
    "positions (cancelAllOrders sy now b) = positions b"
    "fills (cancelAllOrders sy now b) = fills b"
    "localMarkets (cancelAllOrders sy now b) = localMarkets b"
    "marketProvider (cancelAllOrders sy now b) = marketProvider b"
    "onFill (cancelAllOrders sy now b) = onFill b"
    "walletBalance (cancelAllOrders sy now b) = walletBalance b"
    "totalFees (cancelAllOrders sy now b) = totalFees b"
    "totalFunding (cancelAllOrders sy now b) = totalFunding b"
    "totalRealizedPnl (cancelAllOrders sy now b) = totalRealizedPnl b"
    "liquidations (cancelAllOrders sy now b) = liquidations b"
    "account (cancelAllOrders sy now b) = account b"
    "takerFeeRate (cancelAllOrders sy now b) = takerFeeRate b"
    "makerFeeRate (cancelAllOrders sy now b) = makerFeeRate b"
    "marketSlippageBps (cancelAllOrders sy now b) = marketSlippageBps b"
    "risk (cancelAllOrders sy now b) = risk b"
    "dayStartEquity (cancelAllOrders sy now b) = dayStartEquity b"
    "peakEquity (cancelAllOrders sy now b) = peakEquity b"
    "currentUtcDay (cancelAllOrders sy now b) = currentUtcDay b"
    "isLiquidating (cancelAllOrders sy now b) = isLiquidating b"
    "accountId (cancelAllOrders sy now b) = accountId b"
    "ulids (cancelAllOrders sy now b) = ulids b"
  by (simp_all add: cancelAllOrders_def)

lemma cancelStale_frame [simp]:
  shows "instruments (cancelStaleBracketOrders symbol now b) = instruments b"
    "positions (cancelStaleBracketOrders symbol now b) = positions b"
    "fills (cancelStaleBracketOrders symbol now b) = fills b"
    "localMarkets (cancelStaleBracketOrders symbol now b) = localMarkets b"
    "marketProvider (cancelStaleBracketOrders symbol now b) = marketProvider b"
    "onFill (cancelStaleBracketOrders symbol now b) = onFill b"
    "walletBalance (cancelStaleBracketOrders symbol now b) = walletBalance b"
    "totalFees (cancelStaleBracketOrders symbol now b) = totalFees b"
    "totalFunding (cancelStaleBracketOrders symbol now b) = totalFunding b"
    "totalRealizedPnl (cancelStaleBracketOrders symbol now b) = totalRealizedPnl b"
    "liquidations (cancelStaleBracketOrders symbol now b) = liquidations b"
    "account (cancelStaleBracketOrders symbol now b) = account b"
    "takerFeeRate (cancelStaleBracketOrders symbol now b) = takerFeeRate b"
    "makerFeeRate (cancelStaleBracketOrders symbol now b) = makerFeeRate b"
    "marketSlippageBps (cancelStaleBracketOrders symbol now b) = marketSlippageBps b"
    "risk (cancelStaleBracketOrders symbol now b) = risk b"
    "dayStartEquity (cancelStaleBracketOrders symbol now b) = dayStartEquity b"
    "peakEquity (cancelStaleBracketOrders symbol now b) = peakEquity b"
    "currentUtcDay (cancelStaleBracketOrders symbol now b) = currentUtcDay b"
    "isLiquidating (cancelStaleBracketOrders symbol now b) = isLiquidating b"
    "accountId (cancelStaleBracketOrders symbol now b) = accountId b"
    "ulids (cancelStaleBracketOrders symbol now b) = ulids b"
  by (simp_all add: cancelStaleBracketOrders_def)

lemma calculateAccountState_frame [simp]:
  shows "instruments (snd (calculateAccountState L b)) = instruments b"
    "orders (snd (calculateAccountState L b)) = orders b"
    "fills (snd (calculateAccountState L b)) = fills b"
    "localMarkets (snd (calculateAccountState L b)) = localMarkets b"
    "marketProvider (snd (calculateAccountState L b)) = marketProvider b"
    "onFill (snd (calculateAccountState L b)) = onFill b"
    "walletBalance (snd (calculateAccountState L b)) = walletBalance b"
    "totalFees (snd (calculateAccountState L b)) = totalFees b"
    "totalFunding (snd (calculateAccountState L b)) = totalFunding b"
    "totalRealizedPnl (snd (calculateAccountState L b)) = totalRealizedPnl b"
    "liquidations (snd (calculateAccountState L b)) = liquidations b"
    "account (snd (calculateAccountState L b)) = account b"
    "takerFeeRate (snd (calculateAccountState L b)) = takerFeeRate b"
    "makerFeeRate (snd (calculateAccountState L b)) = makerFeeRate b"
    "marketSlippageBps (snd (calculateAccountState L b)) = marketSlippageBps b"
    "risk (snd (calculateAccountState L b)) = risk b"
    "dayStartEquity (snd (calculateAccountState L b)) = dayStartEquity b"
    "currentUtcDay (snd (calculateAccountState L b)) = currentUtcDay b"
    "isLiquidating (snd (calculateAccountState L b)) = isLiquidating b"
    "accountId (snd (calculateAccountState L b)) = accountId b"
    "ulids (snd (calculateAccountState L b)) = ulids b"
    "effects (snd (calculateAccountState L b)) = effects b"
  by (simp_all add: calculateAccountState_def Let_def split_beta)

lemma recalculateAccount_frame [simp]:
  shows "instruments (recalculateAccount L b) = instruments b"
    "orders (recalculateAccount L b) = orders b" "fills (recalculateAccount L b) = fills b"
    "localMarkets (recalculateAccount L b) = localMarkets b"
    "marketProvider (recalculateAccount L b) = marketProvider b"
    "onFill (recalculateAccount L b) = onFill b"
    "walletBalance (recalculateAccount L b) = walletBalance b"
    "totalFees (recalculateAccount L b) = totalFees b"
    "totalFunding (recalculateAccount L b) = totalFunding b"
    "totalRealizedPnl (recalculateAccount L b) = totalRealizedPnl b"
    "liquidations (recalculateAccount L b) = liquidations b"
    "takerFeeRate (recalculateAccount L b) = takerFeeRate b"
    "makerFeeRate (recalculateAccount L b) = makerFeeRate b"
    "marketSlippageBps (recalculateAccount L b) = marketSlippageBps b"
    "risk (recalculateAccount L b) = risk b"
    "dayStartEquity (recalculateAccount L b) = dayStartEquity b"
    "currentUtcDay (recalculateAccount L b) = currentUtcDay b"
    "isLiquidating (recalculateAccount L b) = isLiquidating b"
    "accountId (recalculateAccount L b) = accountId b" "ulids (recalculateAccount L b) = ulids b"
    "effects (recalculateAccount L b) = effects b"
  by (simp_all add: recalculateAccount_def calculateAccountState_def Let_def split_beta)

lemma roll_frame [simp]:
  shows "instruments (rollDailyEquityIfNeeded L now b) = instruments b"
    "orders (rollDailyEquityIfNeeded L now b) = orders b"
    "fills (rollDailyEquityIfNeeded L now b) = fills b"
    "localMarkets (rollDailyEquityIfNeeded L now b) = localMarkets b"
    "marketProvider (rollDailyEquityIfNeeded L now b) = marketProvider b"
    "onFill (rollDailyEquityIfNeeded L now b) = onFill b"
    "walletBalance (rollDailyEquityIfNeeded L now b) = walletBalance b"
    "totalFees (rollDailyEquityIfNeeded L now b) = totalFees b"
    "totalFunding (rollDailyEquityIfNeeded L now b) = totalFunding b"
    "totalRealizedPnl (rollDailyEquityIfNeeded L now b) = totalRealizedPnl b"
    "liquidations (rollDailyEquityIfNeeded L now b) = liquidations b"
    "account (rollDailyEquityIfNeeded L now b) = account b"
    "takerFeeRate (rollDailyEquityIfNeeded L now b) = takerFeeRate b"
    "makerFeeRate (rollDailyEquityIfNeeded L now b) = makerFeeRate b"
    "marketSlippageBps (rollDailyEquityIfNeeded L now b) = marketSlippageBps b"
    "risk (rollDailyEquityIfNeeded L now b) = risk b"
    "isLiquidating (rollDailyEquityIfNeeded L now b) = isLiquidating b"
    "accountId (rollDailyEquityIfNeeded L now b) = accountId b"
    "ulids (rollDailyEquityIfNeeded L now b) = ulids b"
    "effects (rollDailyEquityIfNeeded L now b) = effects b"
  by (simp_all add: rollDailyEquityIfNeeded_def calculateAccountState_def Let_def split_beta)

lemma checkOrderRisk_state:
  "snd (checkOrderRisk L now ord instr m b) = rollDailyEquityIfNeeded L now b \<or>
   snd (checkOrderRisk L now ord instr m b) =
     snd (calculateAccountState L (rollDailyEquityIfNeeded L now b))"
  by (simp add: checkOrderRisk_def Let_def split_beta split: option.split)

lemma checkOrderRisk_frame [simp]:
  shows "instruments (snd (checkOrderRisk L now ord instr m b)) = instruments b"
    "orders (snd (checkOrderRisk L now ord instr m b)) = orders b"
    "fills (snd (checkOrderRisk L now ord instr m b)) = fills b"
    "localMarkets (snd (checkOrderRisk L now ord instr m b)) = localMarkets b"
    "marketProvider (snd (checkOrderRisk L now ord instr m b)) = marketProvider b"
    "onFill (snd (checkOrderRisk L now ord instr m b)) = onFill b"
    "walletBalance (snd (checkOrderRisk L now ord instr m b)) = walletBalance b"
    "totalFees (snd (checkOrderRisk L now ord instr m b)) = totalFees b"
    "totalFunding (snd (checkOrderRisk L now ord instr m b)) = totalFunding b"
    "totalRealizedPnl (snd (checkOrderRisk L now ord instr m b)) = totalRealizedPnl b"
    "liquidations (snd (checkOrderRisk L now ord instr m b)) = liquidations b"
    "account (snd (checkOrderRisk L now ord instr m b)) = account b"
    "takerFeeRate (snd (checkOrderRisk L now ord instr m b)) = takerFeeRate b"
    "makerFeeRate (snd (checkOrderRisk L now ord instr m b)) = makerFeeRate b"
    "marketSlippageBps (snd (checkOrderRisk L now ord instr m b)) = marketSlippageBps b"
    "risk (snd (checkOrderRisk L now ord instr m b)) = risk b"
    "isLiquidating (snd (checkOrderRisk L now ord instr m b)) = isLiquidating b"
    "accountId (snd (checkOrderRisk L now ord instr m b)) = accountId b"
    "ulids (snd (checkOrderRisk L now ord instr m b)) = ulids b"
    "effects (snd (checkOrderRisk L now ord instr m b)) = effects b"
  using checkOrderRisk_state [of L now ord instr m b] by (elim disjE; simp)+

lemma postLedger_frame [simp]:
  shows "instruments (postLedger L now aid eid ev code dir amt ro rf rs b) = instruments b"
    "orders (postLedger L now aid eid ev code dir amt ro rf rs b) = orders b"
    "positions (postLedger L now aid eid ev code dir amt ro rf rs b) = positions b"
    "fills (postLedger L now aid eid ev code dir amt ro rf rs b) = fills b"
    "localMarkets (postLedger L now aid eid ev code dir amt ro rf rs b) = localMarkets b"
    "marketProvider (postLedger L now aid eid ev code dir amt ro rf rs b) = marketProvider b"
    "onFill (postLedger L now aid eid ev code dir amt ro rf rs b) = onFill b"
    "walletBalance (postLedger L now aid eid ev code dir amt ro rf rs b) = walletBalance b"
    "totalFees (postLedger L now aid eid ev code dir amt ro rf rs b) = totalFees b"
    "totalFunding (postLedger L now aid eid ev code dir amt ro rf rs b) = totalFunding b"
    "totalRealizedPnl (postLedger L now aid eid ev code dir amt ro rf rs b) = totalRealizedPnl b"
    "liquidations (postLedger L now aid eid ev code dir amt ro rf rs b) = liquidations b"
    "account (postLedger L now aid eid ev code dir amt ro rf rs b) = account b"
    "takerFeeRate (postLedger L now aid eid ev code dir amt ro rf rs b) = takerFeeRate b"
    "makerFeeRate (postLedger L now aid eid ev code dir amt ro rf rs b) = makerFeeRate b"
    "marketSlippageBps (postLedger L now aid eid ev code dir amt ro rf rs b) = marketSlippageBps b"
    "risk (postLedger L now aid eid ev code dir amt ro rf rs b) = risk b"
    "dayStartEquity (postLedger L now aid eid ev code dir amt ro rf rs b) = dayStartEquity b"
    "peakEquity (postLedger L now aid eid ev code dir amt ro rf rs b) = peakEquity b"
    "currentUtcDay (postLedger L now aid eid ev code dir amt ro rf rs b) = currentUtcDay b"
    "isLiquidating (postLedger L now aid eid ev code dir amt ro rf rs b) = isLiquidating b"
    "accountId (postLedger L now aid eid ev code dir amt ro rf rs b) = accountId b"
  by (simp_all add: postLedger_def nextUlid_eq)

lemma notifyFill_frame [simp]:
  shows "instruments (notifyFill now ord fl b) = instruments b"
    "orders (notifyFill now ord fl b) = orders b"
    "positions (notifyFill now ord fl b) = positions b"
    "fills (notifyFill now ord fl b) = fills b"
    "localMarkets (notifyFill now ord fl b) = localMarkets b"
    "marketProvider (notifyFill now ord fl b) = marketProvider b"
    "onFill (notifyFill now ord fl b) = onFill b"
    "walletBalance (notifyFill now ord fl b) = walletBalance b"
    "totalFees (notifyFill now ord fl b) = totalFees b"
    "totalFunding (notifyFill now ord fl b) = totalFunding b"
    "totalRealizedPnl (notifyFill now ord fl b) = totalRealizedPnl b"
    "liquidations (notifyFill now ord fl b) = liquidations b"
    "account (notifyFill now ord fl b) = account b"
    "takerFeeRate (notifyFill now ord fl b) = takerFeeRate b"
    "makerFeeRate (notifyFill now ord fl b) = makerFeeRate b"
    "marketSlippageBps (notifyFill now ord fl b) = marketSlippageBps b"
    "risk (notifyFill now ord fl b) = risk b"
    "dayStartEquity (notifyFill now ord fl b) = dayStartEquity b"
    "peakEquity (notifyFill now ord fl b) = peakEquity b"
    "currentUtcDay (notifyFill now ord fl b) = currentUtcDay b"
    "isLiquidating (notifyFill now ord fl b) = isLiquidating b"
    "accountId (notifyFill now ord fl b) = accountId b"
    "ulids (notifyFill now ord fl b) = ulids b"
  by (simp_all add: notifyFill_def split: option.split)

lemma recordFill_frame [simp]:
  shows "instruments (recordFill L ord fl now b) = instruments b"
    "orders (recordFill L ord fl now b) = orders b"
    "localMarkets (recordFill L ord fl now b) = localMarkets b"
    "marketProvider (recordFill L ord fl now b) = marketProvider b"
    "onFill (recordFill L ord fl now b) = onFill b"
    "walletBalance (recordFill L ord fl now b) = walletBalance b"
    "totalFees (recordFill L ord fl now b) = totalFees b"
    "totalFunding (recordFill L ord fl now b) = totalFunding b"
    "totalRealizedPnl (recordFill L ord fl now b) = totalRealizedPnl b"
    "liquidations (recordFill L ord fl now b) = liquidations b"
    "takerFeeRate (recordFill L ord fl now b) = takerFeeRate b"
    "makerFeeRate (recordFill L ord fl now b) = makerFeeRate b"
    "marketSlippageBps (recordFill L ord fl now b) = marketSlippageBps b"
    "risk (recordFill L ord fl now b) = risk b"
    "dayStartEquity (recordFill L ord fl now b) = dayStartEquity b"
    "currentUtcDay (recordFill L ord fl now b) = currentUtcDay b"
    "isLiquidating (recordFill L ord fl now b) = isLiquidating b"
    "accountId (recordFill L ord fl now b) = accountId b"
  by (simp_all add: recordFill_def Let_def nextUlid_eq)

end
