(* ===== verification/Paper_Broker_Positions.thy ===== *)
theory Paper_Broker_Positions
  imports Paper_Broker_Frames
begin

section \<open>Marking and filling positions\<close>

text \<open>
  What \<open>calculateAccountState\<close> does to the stored positions, and what one fill does to one
  position: the value of a position at the fill price is conserved up to the rounding of the
  entry price, and the branch taken follows the signs of the two quantities.
\<close>

subsection \<open>Marking\<close>

definition remark :: "lib \<Rightarrow> broker \<Rightarrow> position \<Rightarrow> position" where
  "remark L b pos = fst (accountPosition L (getMarket b (p_symbol pos)) pos noSums)"

lemma fst_accountPosition: "fst (accountPosition L m pos acc) = fst (accountPosition L m pos acc')"
  by (simp add: accountPosition_def Let_def)

lemma remark_frame [simp]:
  "p_accountId (remark L b pos) = p_accountId pos" "p_symbol (remark L b pos) = p_symbol pos"
  "p_positionSide (remark L b pos) = p_positionSide pos" "p_status (remark L b pos) = p_status pos"
  "p_qty (remark L b pos) = p_qty pos" "p_entryPrice (remark L b pos) = p_entryPrice pos"
  "p_realizedPnl (remark L b pos) = p_realizedPnl pos" "p_leverage (remark L b pos) = p_leverage pos"
  "p_maintenanceMarginRate (remark L b pos) = p_maintenanceMarginRate pos"
  "p_totalFees (remark L b pos) = p_totalFees pos" "p_totalFunding (remark L b pos) = p_totalFunding pos"
  by (simp_all add: remark_def accountPosition_def Let_def)

lemma accountLoop_positions:
  "fst (accountLoop L b ps acc) = map (\<lambda>(k, pos). (k, remark L b pos)) ps"
proof (induction ps arbitrary: acc)
  case Nil
  then show ?case by simp
next
  case (Cons kp ps)
  obtain k pos where kp: "kp = (k, pos)" by (cases kp)
  show ?case
    by (simp add: kp Let_def split_beta Cons.IH remark_def
        fst_accountPosition [of L _ pos acc noSums])
qed

definition remarkAll :: "lib \<Rightarrow> broker \<Rightarrow> (string, position) jsmap \<Rightarrow> (string, position) jsmap" where
  "remarkAll L b ps = map (\<lambda>(k, pos). (k, remark L b pos)) ps"

lemma mget_remarkAll [simp]: "mget (remarkAll L b ps) k = map_option (remark L b) (mget ps k)"
  by (induction ps) (auto simp: remarkAll_def mget_def)

lemma mkeys_remarkAll [simp]: "mkeys (remarkAll L b ps) = mkeys ps"
  by (induction ps) (auto simp: remarkAll_def mkeys_def)

lemma positions_calculateAccountState [simp]:
  "positions (snd (calculateAccountState L b)) = remarkAll L b (positions b)"
  by (simp add: calculateAccountState_def Let_def split_beta accountLoop_positions remarkAll_def)

lemma positions_recalculateAccount [simp]:
  "positions (recalculateAccount L b) = remarkAll L b (positions b)"
  by (simp add: recalculateAccount_def split_beta)

lemma positions_roll:
  "positions (rollDailyEquityIfNeeded L now b) =
     (if utcDay now = currentUtcDay b then positions b
      else remarkAll L (b\<lparr>currentUtcDay := utcDay now\<rparr>) (positions b))"
  by (simp add: rollDailyEquityIfNeeded_def split_beta)

subsection \<open>Filling\<close>

lemma realizedOn_exact [lib_exact]:
  "decimal_exact L \<Longrightarrow> realizedOn L q price entry dir = q * (price - entry) * dir"
  by (simp add: realizedOn_def lib_exact)

text \<open>The quantity a fill leaves.\<close>

definition filledQuantity :: "instrument \<Rightarrow> orderSide \<Rightarrow> number \<Rightarrow> position \<Rightarrow> number" where
  "filledQuantity instr side quantity pos =
     grid (i_quantityPrecision instr) (p_qty pos + signed side quantity)"

lemma fillPosition_qty:
  assumes "decimal_exact L"
  shows "p_qty (snd (fillPosition L instr side quantity price leverage now pos)) =
    filledQuantity instr side quantity pos"
  using assms
  by (auto simp: fillPosition_def Let_def lib_exact filledQuantity_def fillKind_def
      split: positionEventKind.split if_splits)

text \<open>Value conservation: valued at the fill price, what a position was worth is what it
  realises plus what the rest is worth, but for the rounding of an averaged entry price.\<close>

definition openValue :: "number \<Rightarrow> position \<Rightarrow> number" where
  "openValue price pos = p_qty pos * (price - p_entryPrice pos)"

definition roundingSlack :: "instrument \<Rightarrow> number \<Rightarrow> number" where
  "roundingSlack instr q = \<bar>q\<bar> / (2 * 10 ^ i_pricePrecision instr)"

lemma direction_abs: "(x::number) \<noteq> 0 \<Longrightarrow> \<bar>x\<bar> * c * (if x > 0 then 1 else - 1) = x * c"
  by (auto simp: abs_if)

lemma same_sign_diff:
  fixes x y :: number
  assumes "sgn x = sgn y" and "x \<noteq> 0"
  shows "(\<bar>x\<bar> - \<bar>y\<bar>) * c * (if x > 0 then 1 else - 1) = (x - y) * c"
  using assms by (auto simp: sgn_if abs_if split: if_splits)

lemma fillPosition_value_exact:
  assumes L: "decimal_exact L"
    and kind: "fillKind (p_qty pos) (filledQuantity instr side quantity pos) \<noteq> INCREASE_EV"
    and fp: "fillPosition L instr side quantity price leverage now pos = (realized, pos1)"
  shows "realized + openValue price pos1 = openValue price pos"
proof -
  define new where "new = filledQuantity instr side quantity pos"
  let ?d = "if p_qty pos > 0 then 1 else - 1 :: number"
  have xnew: "x_toFixed L (i_quantityPrecision instr) (x_add L (p_qty pos) (signed side quantity)) = new"
    using L by (simp add: lib_exact new_def filledQuantity_def)
  note unfold_fp = fp [unfolded fillPosition_def Let_def xnew]
  consider "p_qty pos = 0" | "p_qty pos \<noteq> 0" "new = 0"
    | "p_qty pos \<noteq> 0" "new \<noteq> 0" "sgn (p_qty pos) = sgn new" "\<bar>new\<bar> < \<bar>p_qty pos\<bar>"
    | "p_qty pos \<noteq> 0" "new \<noteq> 0" "fillKind (p_qty pos) new = FLIP_EV"
    using kind unfolding new_def [symmetric] fillKind_def by (auto split: if_splits)
  then show ?thesis
  proof cases
    case 1
    with unfold_fp show ?thesis by (auto simp: fillKind_def openValue_def)
  next
    case 2
    then have "realized = p_qty pos * (price - p_entryPrice pos)" "p_qty pos1 = 0"
      using unfold_fp L by (auto simp: fillKind_def lib_exact abs_if split: if_splits)
    then show ?thesis by (simp add: openValue_def)
  next
    case 3
    then have "fillKind (p_qty pos) new = REDUCE_EV" by (simp add: fillKind_def)
    then have r: "realized = (\<bar>p_qty pos\<bar> - \<bar>new\<bar>) * (price - p_entryPrice pos) * ?d"
      and q: "p_qty pos1 = new" "p_entryPrice pos1 = p_entryPrice pos"
      using unfold_fp L by (auto simp: lib_exact)
    show ?thesis
      unfolding r same_sign_diff [OF 3(3) 3(1)] openValue_def q by (simp add: algebra_simps)
  next
    case 4
    then have "realized = p_qty pos * (price - p_entryPrice pos)" "p_entryPrice pos1 = price"
      using unfold_fp L by (auto simp: lib_exact abs_if split: if_splits)
    then show ?thesis by (simp add: openValue_def)
  qed
qed

lemma average_entry_value:
  fixes old s new e p :: number
  assumes "new = old + s" "sgn old = sgn new" "\<bar>new\<bar> > \<bar>old\<bar>"
  shows "new * ((\<bar>old\<bar> * e + \<bar>s\<bar> * p) / \<bar>new\<bar>) = old * e + s * p"
  using assms by (auto simp: sgn_if abs_if field_simps split: if_splits)

lemma fillPosition_value_increase:
  assumes L: "decimal_exact L"
    and kind: "fillKind (p_qty pos) (filledQuantity instr side quantity pos) = INCREASE_EV"
    and on_grid: "filledQuantity instr side quantity pos = p_qty pos + signed side quantity"
    and fp: "fillPosition L instr side quantity price leverage now pos = (realized, pos1)"
  shows "\<bar>realized + openValue price pos1 - openValue price pos\<bar> \<le> roundingSlack instr (p_qty pos1)"
proof -
  define new where "new = p_qty pos + signed side quantity"
  have xnew: "x_toFixed L (i_quantityPrecision instr) (x_add L (p_qty pos) (signed side quantity)) = new"
    using L on_grid by (simp add: lib_exact new_def filledQuantity_def)
  have k: "fillKind (p_qty pos) new = INCREASE_EV" using kind on_grid by (simp add: new_def)
  then have sg: "sgn (p_qty pos) = sgn new" "\<bar>new\<bar> > \<bar>p_qty pos\<bar>" "new \<noteq> 0"
    by (auto simp: fillKind_def split: if_splits)
  define avg where
    "avg = (\<bar>p_qty pos\<bar> * p_entryPrice pos + \<bar>signed side quantity\<bar> * price) / \<bar>new\<bar>"
  have r: "realized = 0" "p_qty pos1 = new" "p_entryPrice pos1 = grid (i_pricePrecision instr) avg"
    using fp L sg(3) unfolding fillPosition_def Let_def xnew k
    by (auto simp: lib_exact avg_def)
  have "new * avg = p_qty pos * p_entryPrice pos + signed side quantity * price"
    unfolding avg_def by (rule average_entry_value [OF new_def sg(1,2)])
  then have "openValue price pos = new * (price - avg)"
    by (simp add: openValue_def new_def algebra_simps)
  then have "realized + openValue price pos1 - openValue price pos =
      new * (avg - grid (i_pricePrecision instr) avg)"
    by (simp add: r openValue_def algebra_simps)
  also have "\<bar>\<dots>\<bar> = \<bar>new\<bar> * \<bar>grid (i_pricePrecision instr) avg - avg\<bar>"
    by (simp add: abs_mult abs_minus_commute)
  also have "\<dots> \<le> \<bar>new\<bar> * (1 / (2 * 10 ^ i_pricePrecision instr))"
    by (rule mult_left_mono [OF grid_error]) simp
  finally show ?thesis by (simp add: roundingSlack_def r)
qed

end
