(* ===== verification/Paper_Broker_Ledger.thy ===== *)
theory Paper_Broker_Ledger
  imports Paper_Broker_Positions
begin

section \<open>The paper broker's books\<close>

text \<open>
  The cash identity (wallet, realised PnL, fees and funding move together), the running
  totals against the recorded fills and funding payments, and what a restart recovers from
  what was persisted.
\<close>

subsection \<open>The cash basis\<close>

definition cashBasis :: "broker \<Rightarrow> number" where
  "cashBasis b = walletBalance b - totalRealizedPnl b + totalFees b + totalFunding b"

definition totalsMatchFills :: "broker \<Rightarrow> bool" where
  "totalsMatchFills b \<longleftrightarrow>
     totalFees b = sum_list (map f_fee (fills b)) \<and>
     totalRealizedPnl b = sum_list (map f_realizedPnl (fills b))"

text \<open>Every stored position is stored under its symbol and its instrument is known.\<close>

definition positionsKnown :: "broker \<Rightarrow> bool" where
  "positionsKnown b \<longleftrightarrow> (\<forall>k pos. mget (positions b) k = Some pos \<longrightarrow>
     p_symbol pos = k \<and> mget (instruments b) k \<noteq> None)"

lemma applyPositionFill_money:
  assumes "applyPositionFill L symbol side quantity price leverage now b = Inr (r, b')"
  shows "walletBalance b' = walletBalance b" "totalFees b' = totalFees b"
    "totalFunding b' = totalFunding b" "totalRealizedPnl b' = totalRealizedPnl b"
    "fills b' = fills b" "instruments b' = instruments b" "marketProvider b' = marketProvider b"
    "localMarkets b' = localMarkets b" "marketSlippageBps b' = marketSlippageBps b"
    "mget (instruments b) symbol \<noteq> None"
  using assms by (auto simp: applyPositionFill_def Let_def split_beta split: option.splits if_splits)

lemma applyPositionFill_positions:
  assumes "applyPositionFill L symbol side quantity price leverage now b = Inr (r, b')"
  obtains instr where "mget (instruments b) symbol = Some instr"
    "positions b' = mset symbol (snd (fillPosition L instr side quantity price leverage now
       (coalesce (mget (positions b) symbol) (newPosition symbol instr leverage now)))) (positions b)"
    "r = fst (fillPosition L instr side quantity price leverage now
       (coalesce (mget (positions b) symbol) (newPosition symbol instr leverage now)))"
  using assms by (auto simp: applyPositionFill_def Let_def split_beta split: option.splits if_splits)

lemma applyPositionFill_Inl:
  assumes "applyPositionFill L symbol side quantity price leverage now b = Inl (msg, b')"
  shows "b' = b" "mget (instruments b) symbol = None"
  using assms by (auto simp: applyPositionFill_def Let_def split_beta split: option.splits)

lemma fillPosition_symbol [simp]:
  "p_symbol (snd (fillPosition L instr side quantity price leverage now pos)) = p_symbol pos"
  by (simp add: fillPosition_def Let_def split: positionEventKind.split)

lemma settleFill_Inr:
  assumes L: "decimal_exact L"
    and s: "settleFill L ord quantity price liq now b = Inr (r, fee, b')"
  shows "walletBalance b' = walletBalance b - fee + r" "totalFees b' = totalFees b + fee"
    "totalRealizedPnl b' = totalRealizedPnl b + r" "totalFunding b' = totalFunding b"
    "fills b' = fills b" "instruments b' = instruments b" "marketProvider b' = marketProvider b"
    "localMarkets b' = localMarkets b" "marketSlippageBps b' = marketSlippageBps b"
proof -
  let ?fee = "x_mul L (x_mul L quantity price) (if liq = MAKER then makerFeeRate b else takerFeeRate b)"
  let ?b1 = "b\<lparr>walletBalance := x_sub L (walletBalance b) ?fee, totalFees := x_add L (totalFees b) ?fee\<rparr>"
  from s obtain b2 where
    ap: "applyPositionFill L (o_symbol ord) (o_side ord) quantity price (o_leverage ord) now ?b1 = Inr (r, b2)"
    and fee: "fee = ?fee"
    by (auto simp: settleFill_def Let_def bindR_eq_Inr)
  note money = applyPositionFill_money [OF ap]
  show "walletBalance b' = walletBalance b - fee + r" "totalFees b' = totalFees b + fee"
    "totalRealizedPnl b' = totalRealizedPnl b + r" "totalFunding b' = totalFunding b"
    "fills b' = fills b" "instruments b' = instruments b" "marketProvider b' = marketProvider b"
    "localMarkets b' = localMarkets b" "marketSlippageBps b' = marketSlippageBps b"
    using s L money ap by (auto simp: settleFill_def Let_def fee lib_exact split: option.splits)
qed

subsection \<open>Operations whose only money effect is recorded fills\<close>

definition fillsOnly :: "broker \<Rightarrow> broker \<Rightarrow> bool" where
  "fillsOnly b b' \<longleftrightarrow> (\<exists>fls. fills b' = fills b @ fls \<and>
     walletBalance b' = walletBalance b + sum_list (map f_realizedPnl fls) - sum_list (map f_fee fls) \<and>
     totalFees b' = totalFees b + sum_list (map f_fee fls) \<and>
     totalRealizedPnl b' = totalRealizedPnl b + sum_list (map f_realizedPnl fls) \<and>
     totalFunding b' = totalFunding b \<and> instruments b' = instruments b)"

lemma fillsOnly_refl [simp]: "fillsOnly b b"
  by (auto simp: fillsOnly_def intro: exI [of _ "[]"])

lemma fillsOnly_trans: "fillsOnly b1 b2 \<Longrightarrow> fillsOnly b2 b3 \<Longrightarrow> fillsOnly b1 b3"
  unfolding fillsOnly_def by (elim exE, rule_tac x = "fls @ flsa" in exI) auto

lemma fillsOnly_same:
  assumes "fills b' = fills b" "walletBalance b' = walletBalance b" "totalFees b' = totalFees b"
    "totalRealizedPnl b' = totalRealizedPnl b" "totalFunding b' = totalFunding b"
    "instruments b' = instruments b"
  shows "fillsOnly b b'"
  unfolding fillsOnly_def using assms by (intro exI [of _ "[]"]) simp

lemma fillsOnly_instruments: "fillsOnly b b' \<Longrightarrow> instruments b' = instruments b"
  by (auto simp: fillsOnly_def)

lemma fillsOnly_cash: "fillsOnly b b' \<Longrightarrow> cashBasis b' = cashBasis b"
  by (auto simp: fillsOnly_def cashBasis_def)

lemma fillsOnly_totals: "fillsOnly b b' \<Longrightarrow> totalsMatchFills b \<Longrightarrow> totalsMatchFills b'"
  by (auto simp: fillsOnly_def totalsMatchFills_def)

lemma positionsKnown_same:
  assumes "instruments b' = instruments b" and "mkeys (positions b') = mkeys (positions b)"
    and "\<And>k. map_option p_symbol (mget (positions b') k) = map_option p_symbol (mget (positions b) k)"
    and "positionsKnown b"
  shows "positionsKnown b'"
  unfolding positionsKnown_def
proof (intro allI impI)
  fix k pos assume "mget (positions b') k = Some pos"
  then obtain pos0 where "mget (positions b) k = Some pos0" "p_symbol pos0 = p_symbol pos"
    using assms(3) [of k] by (cases "mget (positions b) k") auto
  then show "p_symbol pos = k \<and> mget (instruments b') k \<noteq> None"
    using assms(1,4) unfolding positionsKnown_def by fastforce
qed

lemma positionsKnown_remark [simp]:
  "positionsKnown (recalculateAccount L b) = positionsKnown b"
  unfolding positionsKnown_def by simp (metis remark_frame(2))

lemma positionsKnown_cong:
  "instruments b' = instruments b \<Longrightarrow> positions b' = positions b \<Longrightarrow> positionsKnown b' = positionsKnown b"
  by (simp add: positionsKnown_def)

lemma settleFill_positionsKnown:
  assumes s: "settleFill L ord quantity price liq now b = Inr (r, fee, b')"
    and known: "positionsKnown b"
  shows "positionsKnown b'"
proof -
  let ?fee = "x_mul L (x_mul L quantity price) (if liq = MAKER then makerFeeRate b else takerFeeRate b)"
  let ?b1 = "b\<lparr>walletBalance := x_sub L (walletBalance b) ?fee, totalFees := x_add L (totalFees b) ?fee\<rparr>"
  from s obtain b2 where
    ap: "applyPositionFill L (o_symbol ord) (o_side ord) quantity price (o_leverage ord) now ?b1 = Inr (r, b2)"
    by (auto simp: settleFill_def Let_def bindR_eq_Inr)
  note money = applyPositionFill_money [OF ap]
  obtain instr where
    pos: "positions b2 = mset (o_symbol ord) (snd (fillPosition L instr (o_side ord) quantity price (o_leverage ord) now
       (coalesce (mget (positions ?b1) (o_symbol ord)) (newPosition (o_symbol ord) instr (o_leverage ord) now)))) (positions ?b1)"
    using applyPositionFill_positions [OF ap] by blast
  have sym: "p_symbol (coalesce (mget (positions b) (o_symbol ord)) (newPosition (o_symbol ord) instr (o_leverage ord) now)) = o_symbol ord"
    using known by (cases "mget (positions b) (o_symbol ord)") (auto simp: positionsKnown_def newPosition_def)
  have "positionsKnown b2"
    using known money(6) money(10) sym by (auto simp: positionsKnown_def pos split: if_splits)
  moreover have "instruments b' = instruments b2"
    using s ap by (auto simp: settleFill_def Let_def split: option.splits)
  moreover have "map_option p_symbol (mget (positions b') k) = map_option p_symbol (mget (positions b2) k)"
    "mkeys (positions b') = mkeys (positions b2)" for k
    using s ap by (auto simp: settleFill_def Let_def split: option.splits)
  ultimately show ?thesis by (intro positionsKnown_same [of b' b2]) simp_all
qed

lemma executeFill_ok:
  assumes L: "decimal_exact L" and known: "positionsKnown b"
    and instr: "mget (instruments b) (o_symbol ord) \<noteq> None"
  shows "\<exists>b'. executeFill L ord quantity price liq now b = Inr b' \<and> positionsKnown b' \<and> fillsOnly b b'"
proof -
  obtain r fee b1 where s: "settleFill L ord quantity price liq now b = Inr (r, fee, b1)"
    using instr by (fastforce simp: settleFill_def Let_def applyPositionFill_def split_beta
        split: option.splits)
  define b2 where "b2 = snd (nextUlid L b1)"
  define fl where "fl = makeFill L (cur b2 ord) quantity price liq now b r fee b2 (fst (nextUlid L b1))"
  define b' where "b' = notifyFill now ord fl (recordFill L (cur b2 ord) fl now b2)"
  have ex: "executeFill L ord quantity price liq now b = Inr b'"
    by (simp add: executeFill_def s Let_def split_beta b2_def fl_def b'_def)
  note money = settleFill_Inr [OF L s]
  have fl: "f_fee fl = fee" "f_realizedPnl fl = r"
    by (simp_all add: fl_def makeFill_def Let_def)
  have fs: "fills b' = fills b @ [fl]"
    using money(5) by (simp add: b'_def recordFill_def Let_def split_beta b2_def)
  have "fillsOnly b b'"
    unfolding fillsOnly_def using money fs by (intro exI [of _ "[fl]"]) (simp add: fl b'_def b2_def)
  moreover have "positionsKnown b1"
    by (rule settleFill_positionsKnown [OF s known])
  then have "positionsKnown b'"
    by (rule positionsKnown_same [rotated 3]) (auto simp: b'_def b2_def recordFill_def Let_def split_beta option.map_comp comp_def)
  ultimately show ?thesis using ex by blast
qed

lemma quiet_step:
  assumes "positionsKnown b1" "fillsOnly b b1" and "positions b2 = positions b1"
    "fills b2 = fills b1" "walletBalance b2 = walletBalance b1" "totalFees b2 = totalFees b1"
    "totalRealizedPnl b2 = totalRealizedPnl b1" "totalFunding b2 = totalFunding b1"
    "instruments b2 = instruments b1"
  shows "positionsKnown b2 \<and> fillsOnly b b2"
proof
  show "positionsKnown b2" using assms positionsKnown_cong [of b2 b1] by simp
  have "fillsOnly b1 b2" by (rule fillsOnly_same) (simp_all add: assms)
  with assms(2) show "fillsOnly b b2" by (rule fillsOnly_trans)
qed

lemma fillOrder_ok:
  assumes L: "decimal_exact L" and known: "positionsKnown b"
    and instr: "mget (instruments b) (o_symbol ord) \<noteq> None"
  shows "\<exists>b'. fillOrder L ord m liq now b = Inr b' \<and> positionsKnown b' \<and> fillsOnly b b'"
proof -
  have reject: "positionsKnown (snd (rejectOrder ord reason now b)) \<and>
      fillsOnly b (snd (rejectOrder ord reason now b))" for reason
    by (rule quiet_step [OF known fillsOnly_refl]) simp_all
  have full: "positionsKnown (setOrder o1 b) \<and> fillsOnly b (setOrder o1 b)" for o1
    by (rule quiet_step [OF known fillsOnly_refl]) simp_all
  show ?thesis
  proof (cases "x_sub L (o_quantity ord) (o_filledQty ord) \<le> 0")
    case True
    with full show ?thesis by (simp add: fillOrder_def)
  next
    case False
    show ?thesis
    proof (cases "getExecutionPrice L b ord m")
      case None
      with False reject show ?thesis by (simp add: fillOrder_def)
    next
      case (Some price)
      obtain b1 where b1: "executeFill L ord (x_sub L (o_quantity ord) (o_filledQty ord)) price liq now b = Inr b1"
        "positionsKnown b1" "fillsOnly b b1"
        using executeFill_ok [OF L known instr] by blast
      have step: "positionsKnown (setOrder o1 (emitOrderEvent now ev o2 p rs (setOrder o3 b1))) \<and>
          fillsOnly b (setOrder o1 (emitOrderEvent now ev o2 p rs (setOrder o3 b1)))" for o1 ev o2 p rs o3
        by (rule quiet_step [OF b1(2,3)]) simp_all
      show ?thesis
        using False Some b1(1) step reject by (simp add: fillOrder_def Let_def)
    qed
  qed
qed

lemma evaluateOpenOrders_ok:
  assumes L: "decimal_exact L" and known: "positionsKnown b"
    and instr: "mget (instruments b) symbol \<noteq> None"
  shows "\<exists>b'. evaluateOpenOrders L symbol now b = Inr b' \<and> positionsKnown b' \<and> fillsOnly b b'"
proof (cases "getMarket b symbol")
  case None
  with known show ?thesis by (simp add: evaluateOpenOrders_def)
next
  case (Some m)
  have "\<exists>b'. foldR (evaluateOrder L symbol m now) (mkeys (orders b)) b = Inr b' \<and>
      positionsKnown b' \<and> fillsOnly b b'"
  proof (rule foldR_Inr [where P = "\<lambda>b'. positionsKnown b' \<and> fillsOnly b b'"])
    fix k s
    assume s: "positionsKnown s \<and> fillsOnly b s"
    then have "mget (instruments s) symbol \<noteq> None" using instr fillsOnly_instruments by metis
    then have fill: "\<exists>b'. fillOrder L ord m liq now s = Inr b' \<and> positionsKnown b' \<and> fillsOnly b b'"
      if "o_symbol ord = symbol" for ord liq
      using fillOrder_ok [OF L, of s ord m liq now] s that fillsOnly_trans by blast
    show "\<exists>s'. evaluateOrder L symbol m now k s = Inr s' \<and> positionsKnown s' \<and> fillsOnly b s'"
      using s fill by (auto simp: evaluateOrder_def split: option.split)
  qed (use known in simp)
  with Some show ?thesis by (simp add: evaluateOpenOrders_def)
qed

lemma liquidatePosition_ok:
  assumes L: "decimal_exact L" and known: "positionsKnown b"
  shows "\<exists>b'. liquidatePosition L now k b = Inr b' \<and> positionsKnown b' \<and> fillsOnly b b'"
proof (cases "mget (positions b) k")
  case None
  with known show ?thesis by (simp add: liquidatePosition_def)
next
  case (Some pos)
  then have instr: "p_symbol pos = k" "mget (instruments b) k \<noteq> None"
    using known by (auto simp: positionsKnown_def)
  let ?b2 = "snd (nextUlid L (snd (nextUlid L b)))"
  let ?ord = "liquidationOrder pos (fst (nextUlid L b)) (fst (nextUlid L (snd (nextUlid L b)))) now"
  let ?b3 = "setOrder ?ord ?b2"
  have b3: "positionsKnown ?b3 \<and> fillsOnly b ?b3"
    by (rule quiet_step [OF known fillsOnly_refl]) simp_all
  then have known3: "positionsKnown ?b3" and f3: "fillsOnly b ?b3" by simp_all
  have instr3: "mget (instruments ?b3) (o_symbol ?ord) \<noteq> None"
    using instr by (simp add: liquidationOrder_def)
  have ex: "\<exists>b4. executeFill L ?ord \<bar>p_qty pos\<bar> mark TAKER now ?b3 = Inr b4 \<and> positionsKnown b4 \<and> fillsOnly b b4" for mark
    using executeFill_ok [OF L known3 instr3] fillsOnly_trans [OF f3] by blast
  have step: "positionsKnown (emitOrderEvent now ev o2 p rs (setOrder o1 b4)) \<and>
      fillsOnly b (emitOrderEvent now ev o2 p rs (setOrder o1 b4))"
    if "positionsKnown b4" "fillsOnly b b4" for b4 o1 o2 ev p rs
    by (rule quiet_step [OF that]) simp_all
  show ?thesis
  proof (cases "p_qty pos = 0 \<or> Option.bind (getMarket b (p_symbol pos)) m_mark = None \<or>
      Option.bind (getMarket b (p_symbol pos)) m_mark = Some 0")
    case True
    with Some known show ?thesis by (auto simp: liquidatePosition_def split: option.split)
  next
    case False
    then obtain mark where mark: "Option.bind (getMarket b (p_symbol pos)) m_mark = Some mark" "mark \<noteq> 0"
      "p_qty pos \<noteq> 0" by auto
    obtain b5 where b5: "executeFill L ?ord \<bar>p_qty pos\<bar> mark TAKER now ?b3 = Inr b5"
      "positionsKnown b5" "fillsOnly b b5" using ex [of mark] by blast
    show ?thesis
      using Some mark b5(1) step [OF b5(2,3)]
      by (simp add: liquidatePosition_def Let_def split_beta)
  qed
qed

lemma checkLiquidation_ok:
  assumes L: "decimal_exact L" and known: "positionsKnown b"
  shows "\<exists>b'. checkLiquidation L now b = Inr b' \<and> positionsKnown b' \<and> fillsOnly b b'"
proof -
  define b1 where "b1 = snd (calculateAccountState L b)"
  have "positionsKnown b1"
    using known unfolding b1_def positionsKnown_def by simp (metis remark_frame(2))
  moreover have "fillsOnly b b1" unfolding b1_def by (rule fillsOnly_same) simp_all
  ultimately have b1: "positionsKnown b1" "fillsOnly b b1" by simp_all
  let ?b2 = "b1\<lparr>isLiquidating := True, liquidations := Suc (liquidations b1)\<rparr>"
  have b2: "positionsKnown ?b2 \<and> fillsOnly b ?b2" by (rule quiet_step [OF b1]) simp_all
  obtain b3 where b3: "foldR (liquidatePosition L now) (mkeys (positions b1)) ?b2 = Inr b3"
    "positionsKnown b3" "fillsOnly b b3"
    using foldR_Inr [where P = "\<lambda>b'. positionsKnown b' \<and> fillsOnly b b'", OF _ b2, of "mkeys (positions b1)" "liquidatePosition L now"]
      liquidatePosition_ok [OF L] fillsOnly_trans by blast
  define b4 where "b4 = recalculateAccount L b3"
  have "fillsOnly b b4"
    unfolding b4_def by (rule fillsOnly_trans [OF b3(3)], rule fillsOnly_same) simp_all
  moreover have "positionsKnown b4" using b3(2) by (simp add: b4_def)
  ultimately have b5: "positionsKnown (b4\<lparr>isLiquidating := False\<rparr>) \<and> fillsOnly b (b4\<lparr>isLiquidating := False\<rparr>)"
    by (intro quiet_step [of b4]) simp_all
  show ?thesis
    using known b1 b3(1) b5 by (auto simp: checkLiquidation_def Let_def split_beta b1_def b4_def)
qed

lemma onMarket_ok:
  assumes L: "decimal_exact L" and known: "positionsKnown b"
  shows "\<exists>b'. onMarket L symbol update now b = Inr b' \<and> positionsKnown b' \<and> fillsOnly b b'"
proof (cases "mget (instruments b) symbol")
  case None
  with known show ?thesis by (simp add: onMarket_def)
next
  case (Some instr)
  define m where "m = (fold assignField update (coalesce (mget (localMarkets b) symbol) (emptyMarket symbol now)))
    \<lparr>m_symbol := symbol, m_localTsUtc := now, m_stale := False\<rparr>"
  define b1 where "b1 = b\<lparr>localMarkets := mset symbol m (localMarkets b)\<rparr>"
  have b1: "positionsKnown b1 \<and> fillsOnly b b1"
    unfolding b1_def by (rule quiet_step [OF known fillsOnly_refl]) simp_all
  have "mget (instruments b1) symbol \<noteq> None" using Some by (simp add: b1_def)
  then obtain b2 where b2: "evaluateOpenOrders L symbol now b1 = Inr b2" "positionsKnown b2" "fillsOnly b1 b2"
    using evaluateOpenOrders_ok [OF L] b1 by blast
  have f3: "fillsOnly b (recalculateAccount L b2)"
    by (rule fillsOnly_trans [OF conjunct2 [OF b1]], rule fillsOnly_trans [OF b2(3)], rule fillsOnly_same) simp_all
  obtain b4 where b4: "checkLiquidation L now (recalculateAccount L b2) = Inr b4" "positionsKnown b4"
    "fillsOnly (recalculateAccount L b2) b4"
    using checkLiquidation_ok [OF L, of "recalculateAccount L b2"] b2(2) by auto
  have "fillsOnly b b4" by (rule fillsOnly_trans [OF f3 b4(3)])
  with Some b2(1) b4(1,2) show ?thesis
    by (simp add: onMarket_def Let_def m_def [symmetric] b1_def [symmetric])
qed

lemma fillNow_ok:
  assumes "decimal_exact L" "positionsKnown b" "mget (instruments b) (o_symbol ord) \<noteq> None"
  shows "\<exists>o1 b'. fillNow L ord m now b = Inr (o1, b') \<and> positionsKnown b' \<and> fillsOnly b b'"
  using fillOrder_ok [OF assms, of m TAKER now] by (auto simp: fillNow_def)

lemma routeOrder_ok:
  assumes L: "decimal_exact L" and known: "positionsKnown b"
    and instr: "mget (instruments b) (o_symbol ord) \<noteq> None"
  shows "\<exists>o1 b'. routeOrder L ord m now b = Inr (o1, b') \<and> positionsKnown b' \<and> fillsOnly b b'"
proof -
  have rej: "\<exists>o1 b'. (Inr (rejectOrder ord reason now b) :: (order \<times> broker) brokerM) = Inr (o1, b') \<and>
      positionsKnown b' \<and> fillsOnly b b'" for reason
  proof -
    have "positionsKnown (snd (rejectOrder ord reason now b)) \<and> fillsOnly b (snd (rejectOrder ord reason now b))"
      by (rule quiet_step [OF known fillsOnly_refl]) simp_all
    then show ?thesis by (cases "rejectOrder ord reason now b") simp
  qed
  have can: "positionsKnown (snd (cancelOrder k reason now b)) \<and> fillsOnly b (snd (cancelOrder k reason now b))" for k reason
    by (rule quiet_step [OF known fillsOnly_refl]) simp_all
  show ?thesis
    using rej can fillNow_ok [OF L known instr, of m now] known
    by (simp add: routeOrder_def split_beta split: orderType.split)
qed

lemma buildOrder_facts:
  "o_symbol (fst (buildOrder L c instr now b)) = c_symbol c"
  "o_quantity (fst (buildOrder L c instr now b)) = submitQuantity L c instr b"
  "o_side (fst (buildOrder L c instr now b)) = c_side c"
  "o_type (fst (buildOrder L c instr now b)) = c_type c"
  "o_status (fst (buildOrder L c instr now b)) = NEW"
  "o_reduceOnly (fst (buildOrder L c instr now b)) = coalesce (c_reduceOnly c) False"
  "o_id (fst (buildOrder L c instr now b)) = x_ulid L (ulids b)"
  "o_filledQty (fst (buildOrder L c instr now b)) = 0"
  "o_leverage (fst (buildOrder L c instr now b)) = coalesce (c_leverage c) 5"
  "\<exists>n. snd (buildOrder L c instr now b) = b\<lparr>ulids := n\<rparr>"
  by (auto simp: buildOrder_def Let_def split_beta nextUlid_eq split: option.split)

lemma submitOrder_ok:
  assumes L: "decimal_exact L" and known: "positionsKnown b"
    and instr: "mget (instruments b) (c_symbol c) \<noteq> None"
  shows "\<exists>o1 b'. submitOrder L c now b = Inr (o1, b') \<and> positionsKnown b' \<and> fillsOnly b b'"
proof -
  obtain i where i: "mget (instruments b) (c_symbol c) = Some i" using instr by auto
  obtain ord b1 where bo: "buildOrder L c i now b = (ord, b1)" by fastforce
  then obtain n where b1: "b1 = b\<lparr>ulids := n\<rparr>" and osym: "o_symbol ord = c_symbol c"
    using buildOrder_facts(1,10) [of L c i now b] by auto
  define b2 where "b2 = emitOrderEvent now ORDER_RECEIVED ord None None (setOrder ord b1)"
  have b2: "positionsKnown b2 \<and> fillsOnly b b2"
    unfolding b2_def by (rule quiet_step [OF known fillsOnly_refl]) (simp_all add: b1)
  then have b2k: "positionsKnown b2" and b2f: "fillsOnly b b2" by simp_all
  have rej: "positionsKnown (snd (rejectOrder ord reason now b3)) \<and> fillsOnly b (snd (rejectOrder ord reason now b3))"
    if "positionsKnown b3" "fillsOnly b b3" for reason b3
    by (rule quiet_step [OF that]) simp_all
  have risk: "positionsKnown (snd (checkOrderRisk L now ord i m b2)) \<and>
      fillsOnly b (snd (checkOrderRisk L now ord i m b2))" for m
  proof
    have "fillsOnly b2 (snd (checkOrderRisk L now ord i m b2))"
      by (rule fillsOnly_same) simp_all
    then show "fillsOnly b (snd (checkOrderRisk L now ord i m b2))"
      by (rule fillsOnly_trans [OF b2f])
    have roll: "positionsKnown (rollDailyEquityIfNeeded L now b2)"
      using b2k unfolding positionsKnown_def positions_roll by simp (metis remark_frame(2))
    then have "positionsKnown (snd (calculateAccountState L (rollDailyEquityIfNeeded L now b2)))"
      unfolding positionsKnown_def by simp (metis remark_frame(2))
    with roll show "positionsKnown (snd (checkOrderRisk L now ord i m b2))"
      using checkOrderRisk_state [of L now ord i m b2] by auto
  qed
  have rejI: "\<exists>o1 b'. rejectOrder ord reason now b3 = (o1, b') \<and> positionsKnown b' \<and> fillsOnly b b'"
    if "positionsKnown b3" "fillsOnly b b3" for reason b3
    using rej [OF that, of reason] by (cases "rejectOrder ord reason now b3") simp
  show ?thesis
  proof (cases "getMarket b (c_symbol c)")
    case None
    then show ?thesis using i bo rejI [OF b2k b2f]
      by (simp add: submitOrder_def b2_def [symmetric])
  next
    case (Some m)
    obtain r b3 where rk: "checkOrderRisk L now ord i m b2 = (r, b3)" by fastforce
    have b3: "positionsKnown b3" "fillsOnly b b3" using risk [of m] by (simp_all add: rk)
    have "mget (instruments b3) (o_symbol ord) \<noteq> None"
      using fillsOnly_instruments [OF b3(2)] i osym by simp
    then obtain o4 b4 where b4: "routeOrder L ord m now b3 = Inr (o4, b4)" "positionsKnown b4" "fillsOnly b3 b4"
      using routeOrder_ok [OF L b3(1)] by blast
    show ?thesis
      using i bo Some rk rejI [OF b2k b2f] rejI [OF b3] b4(1,2) fillsOnly_trans [OF b3(2) b4(3)]
      by (simp add: submitOrder_def b2_def [symmetric] split: option.split)
  qed
qed

subsection \<open>Funding\<close>

text \<open>What a state change by funding does to the books.\<close>

definition fundingOnly :: "broker \<Rightarrow> broker \<Rightarrow> bool" where
  "fundingOnly b b' \<longleftrightarrow> fills b' = fills b \<and> totalFees b' = totalFees b \<and>
     totalRealizedPnl b' = totalRealizedPnl b \<and> instruments b' = instruments b \<and>
     walletBalance b' - walletBalance b = totalFunding b - totalFunding b' \<and>
     (positionsKnown b \<longrightarrow> positionsKnown b')"

lemma fundingOnly_refl: "fundingOnly b b"
  by (simp add: fundingOnly_def)

lemma fundingOnly_trans: "fundingOnly b1 b2 \<Longrightarrow> fundingOnly b2 b3 \<Longrightarrow> fundingOnly b1 b3"
  unfolding fundingOnly_def by auto

lemma fundPosition_positions:
  "\<exists>f. positions (fundPosition L now k b) = positions b \<or>
     (\<exists>pos. mget (positions b) k = Some pos \<and>
        positions (fundPosition L now k b) = mset k (pos\<lparr>p_totalFunding := f\<rparr>) (positions b))"
  by (auto simp: fundPosition_def Let_def nextUlid_eq split: option.split)

lemma fundPosition_instruments [simp]: "instruments (fundPosition L now k b) = instruments b"
  by (simp add: fundPosition_def Let_def nextUlid_eq split: option.split)

lemma fundPosition_positionsKnown: "positionsKnown b \<Longrightarrow> positionsKnown (fundPosition L now k b)"
  using fundPosition_positions [of L now k b] by (auto simp: positionsKnown_def split: if_splits)

lemma fundPosition_fundingOnly:
  assumes L: "decimal_exact L"
  shows "fundingOnly b (fundPosition L now k b)"
proof -
  have "fills (fundPosition L now k b) = fills b \<and> totalFees (fundPosition L now k b) = totalFees b \<and>
     totalRealizedPnl (fundPosition L now k b) = totalRealizedPnl b \<and>
     walletBalance (fundPosition L now k b) - walletBalance b = totalFunding b - totalFunding (fundPosition L now k b)"
    using L unfolding fundPosition_def
    by (simp add: Let_def nextUlid_eq lib_exact split: option.split)
  then show ?thesis by (simp add: fundingOnly_def fundPosition_positionsKnown)
qed

lemma applyFunding_fundingOnly:
  assumes L: "decimal_exact L"
  shows "fundingOnly b (applyFunding L now b)"
proof -
  have "fundingOnly b (fold (fundPosition L now) ks b)" for ks
  proof (induction ks arbitrary: b)
    case Nil
    then show ?case by (simp add: fundingOnly_refl)
  next
    case (Cons k ks)
    show ?case
      using fundingOnly_trans [OF fundPosition_fundingOnly [OF L] Cons.IH] by simp
  qed
  moreover have "fundingOnly b1 (recalculateAccount L b1)" for b1
    by (simp add: fundingOnly_def)
  ultimately show ?thesis
    unfolding applyFunding_def by (blast intro: fundingOnly_trans)
qed

subsection \<open>All operations\<close>

definition booksInv :: "broker \<Rightarrow> bool" where
  "booksInv b \<longleftrightarrow> positionsKnown b \<and> totalsMatchFills b"

text \<open>The cash an operation brings in from outside.\<close>

fun deposited :: "brokerOp \<times> ms \<Rightarrow> number" where
  "deposited (Adjust d, _) = d"
| "deposited _ = 0"

definition isReset :: "brokerOp \<times> ms \<Rightarrow> bool" where
  "isReset x \<longleftrightarrow> (\<exists>s. fst x = Reset s)"

lemma fillsOnly_booksInv: "fillsOnly b b' \<Longrightarrow> positionsKnown b' \<Longrightarrow> booksInv b \<Longrightarrow> booksInv b'"
  using fillsOnly_totals by (auto simp: booksInv_def)

lemma perform_reset_books: "booksInv (perform L (Reset s, now) b)"
  by (simp add: resetAccount_def Let_def booksInv_def totalsMatchFills_def positionsKnown_def)

lemma perform_reset_cash: "cashBasis (perform L (Reset s, now) b) = coalesce s 10000"
  by (simp add: resetAccount_def Let_def cashBasis_def)

lemma perform_fillsOnly:
  assumes L: "decimal_exact L" and known: "positionsKnown b"
  shows "\<not> isReset x \<Longrightarrow> (\<forall>d. fst x \<noteq> Adjust d) \<Longrightarrow> fst x \<noteq> ApplyFunding \<Longrightarrow>
    positionsKnown (perform L x b) \<and> fillsOnly b (perform L x b)"
proof -
  obtain op now where x: "x = (op, now)" by fastforce
  assume "\<not> isReset x" "\<forall>d. fst x \<noteq> Adjust d" "fst x \<noteq> ApplyFunding"
  then consider (submit) c where "op = Submit c" | (cancel) k r where "op = Cancel k r"
    | (all) sy where "op = CancelAll sy" | (market) s u where "op = Market s u"
    | (get) "op = GetPositions" | (feed) f where "op = Feed f"
    by (cases op) (auto simp: x isReset_def)
  then show ?thesis
  proof cases
    case submit
    show ?thesis
    proof (cases "mget (instruments b) (c_symbol c)")
      case None
      with known show ?thesis by (simp add: x submit submitOrder_def afterSubmit_def)
    next
      case (Some i)
      then obtain o1 b' where "submitOrder L c now b = Inr (o1, b')" "positionsKnown b'" "fillsOnly b b'"
        using submitOrder_ok [OF L known] by blast
      then show ?thesis by (simp add: x submit afterSubmit_def)
    qed
  next
    case market
    then show ?thesis using onMarket_ok [OF L known, of s u now] by (auto simp: x)
  next
    case get
    have "fillsOnly b (recalculateAccount L b)" by (rule fillsOnly_same) simp_all
    with known show ?thesis by (simp add: x get getPositions_def Let_def)
  next
    case cancel
    show ?thesis unfolding x cancel by (rule quiet_step [OF known fillsOnly_refl]) simp_all
  next
    case all
    show ?thesis unfolding x all by (rule quiet_step [OF known fillsOnly_refl]) simp_all
  next
    case feed
    show ?thesis unfolding x feed by (rule quiet_step [OF known fillsOnly_refl]) simp_all
  qed
qed

lemma perform_booksInv:
  assumes L: "decimal_exact L" and inv: "booksInv b"
  shows "booksInv (perform L x b)"
proof -
  have known: "positionsKnown b" using inv by (simp add: booksInv_def)
  obtain op now where x: "x = (op, now)" by fastforce
  show ?thesis
  proof (cases "isReset x \<or> (\<exists>d. op = Adjust d) \<or> op = ApplyFunding")
    case True
    then consider (reset) s where "op = Reset s" | (adjust) d where "op = Adjust d"
      | (funding) "op = ApplyFunding"
      by (auto simp: x isReset_def)
    then show ?thesis
    proof cases
      case reset
      then show ?thesis using perform_reset_books by (simp add: x)
    next
      case adjust
      have "positionsKnown (b\<lparr>walletBalance := w\<rparr>)" for w
        using known positionsKnown_cong [of "b\<lparr>walletBalance := w\<rparr>" b] by simp
      with inv adjust show ?thesis
        by (simp add: x adjustWalletBalance_def Let_def booksInv_def totalsMatchFills_def)
    next
      case funding
      have "fundingOnly b (applyFunding L now b)" by (rule applyFunding_fundingOnly [OF L])
      with inv known funding show ?thesis
        by (simp add: x booksInv_def fundingOnly_def totalsMatchFills_def)
    qed
  next
    case False
    then show ?thesis
      using perform_fillsOnly [OF L known, of x] fillsOnly_booksInv inv by (auto simp: x)
  qed
qed

lemma perform_cash:
  assumes L: "decimal_exact L" and inv: "booksInv b" and x: "\<not> isReset x"
  shows "cashBasis (perform L x b) = cashBasis b + deposited x"
proof -
  have known: "positionsKnown b" using inv by (simp add: booksInv_def)
  obtain op now where xp: "x = (op, now)" by fastforce
  show ?thesis
  proof (cases "(\<exists>d. op = Adjust d) \<or> op = ApplyFunding")
    case True
    then show ?thesis
      using L applyFunding_fundingOnly [OF L, of b now]
      by (auto simp: xp adjustWalletBalance_def Let_def cashBasis_def fundingOnly_def lib_exact)
  next
    case False
    then have "fillsOnly b (perform L x b)" using perform_fillsOnly [OF L known x] by (simp add: xp)
    moreover have "deposited x = 0" using False by (cases op) (auto simp: xp)
    ultimately show ?thesis by (simp add: fillsOnly_cash)
  qed
qed

subsection \<open>The books over any run of operations\<close>

text \<open>The laws of \<open>accounting\<close> hold of the broker's transition system, so its cash basis moves
  by the deposits alone and its books stay consistent.\<close>

interpretation books: accounting "perform L" cashBasis deposited
    "\<lambda>b. decimal_exact L \<and> booksInv b" "\<lambda>x. \<not> isReset x" for L
  by unfold_locales (auto simp: perform_booksInv perform_cash)

lemma freshBroker_books: "booksInv freshBroker"
  by (simp add: freshBroker_def newBroker_def nothingSaved_def Let_def booksInv_def
      totalsMatchFills_def positionsKnown_def)

text \<open>C1. Cash identity: over any run of the broker's operations without an account reset
  (submissions, cancels, market updates with their fills and liquidations, funding, market
  feed changes), wallet balance minus realised PnL plus fees plus funding moves by exactly the
  amounts \<open>adjustWalletBalance\<close> brought in, whether or not an operation throws.\<close>

theorem cash_identity:
  assumes "decimal_exact L" "booksInv b" "list_all (\<lambda>x. \<not> isReset x) xs"
  shows "walletBalance (fold (perform L) xs b) - totalRealizedPnl (fold (perform L) xs b)
       + totalFees (fold (perform L) xs b) + totalFunding (fold (perform L) xs b)
     = walletBalance b - totalRealizedPnl b + totalFees b + totalFunding b
       + sum_list (map deposited xs)"
  using books.acc_run [of L b xs] assms by (simp add: cashBasis_def)

theorem cash_identity_witness:
  "let b = fold (perform exactLib) [(Market ''BTC'' [Bid (Some 100), Ask (Some 101), Mark (Some 100)], 10),
      (Submit (marketBuy 2), 20), (Adjust 50, 30), (ApplyFunding, 40)] freshBroker in
   walletBalance b - totalRealizedPnl b + totalFees b + totalFunding b
     = walletBalance freshBroker - totalRealizedPnl freshBroker + totalFees freshBroker
       + totalFunding freshBroker + 50"
  using cash_identity [OF exactLib_exact freshBroker_books,
      of "[(Market ''BTC'' [Bid (Some 100), Ask (Some 101), Mark (Some 100)], 10),
      (Submit (marketBuy 2), 20), (Adjust 50, 30), (ApplyFunding, 40)]"]
  by (simp add: Let_def isReset_def)

text \<open>The running totals are those of the recorded fills: after any run of operations, resets
  and thrown errors included, total fees and total realised PnL are the sums over \<open>fills\<close>, and
  every stored position belongs to a known instrument under its own symbol.\<close>

theorem totals_match_fills:
  assumes "decimal_exact L" "booksInv b"
  shows "totalFees (fold (perform L) xs b) = sum_list (map f_fee (fills (fold (perform L) xs b)))
       \<and> totalRealizedPnl (fold (perform L) xs b) = sum_list (map f_realizedPnl (fills (fold (perform L) xs b)))
       \<and> positionsKnown (fold (perform L) xs b)"
  using books.inv_run [of L b xs] assms by (simp add: booksInv_def totalsMatchFills_def)

theorem totals_match_fills_witness:
  "let b = fold (perform exactLib) [(Market ''BTC'' [Bid (Some 100), Ask (Some 101), Mark (Some 100)], 10),
      (Submit (marketBuy 2), 20), (Reset None, 30)] freshBroker in
   totalFees b = sum_list (map f_fee (fills b))"
  using totals_match_fills [OF exactLib_exact freshBroker_books] unfolding Let_def by blast

text \<open>A market update never throws and a submission throws only for an unknown instrument,
  while every stored position has a known instrument; both keep that condition.\<close>

theorem market_and_submit_total:
  assumes "decimal_exact L" "positionsKnown b"
  shows "(\<exists>b'. onMarket L symbol update now b = Inr b' \<and> positionsKnown b') \<and>
    (case submitOrder L c now b of
       Inl (msg, b') \<Rightarrow> mget (instruments b) (c_symbol c) = None \<and> b' = b
     | Inr (ord, b') \<Rightarrow> positionsKnown b')"
proof
  show "\<exists>b'. onMarket L symbol update now b = Inr b' \<and> positionsKnown b'"
    using onMarket_ok [OF assms] by blast
  show "case submitOrder L c now b of
       Inl (msg, b') \<Rightarrow> mget (instruments b) (c_symbol c) = None \<and> b' = b
     | Inr (ord, b') \<Rightarrow> positionsKnown b'"
  proof (cases "mget (instruments b) (c_symbol c)")
    case None
    then show ?thesis by (simp add: submitOrder_def)
  next
    case (Some i)
    then show ?thesis using submitOrder_ok [OF assms, of c now] by auto
  qed
qed

theorem market_and_submit_total_witness:
  "(\<exists>b'. onMarket exactLib ''BTC'' [Mark (Some 100)] 5 freshBroker = Inr b' \<and> positionsKnown b') \<and>
   (case submitOrder exactLib (marketBuy 1) 5 freshBroker of
      Inl (msg, b') \<Rightarrow> mget (instruments freshBroker) ''BTC'' = None \<and> b' = freshBroker
    | Inr (ord, b') \<Rightarrow> positionsKnown b')"
  using market_and_submit_total [OF exactLib_exact, of freshBroker "''BTC''" "[Mark (Some 100)]" 5 "marketBuy 1"]
    freshBroker_books unfolding booksInv_def marketBuy_symbol by blast

end
