(* ===== verification/Paper_Broker_Orders.thy ===== *)
theory Paper_Broker_Orders
  imports Paper_Broker_Ledger
begin

section \<open>The life of an order\<close>

text \<open>
  An order that has left \<open>NEW\<close> and \<open>PARTIALLY_FILLED\<close> is never touched again: the relation
  \<open>settled\<close> says so of one state change, apart from the orders the change is about, and it
  composes along the calls of an operation. The last part says what the statuses mean for the
  money: a rejected order moves none, a limit order fills at its limit or better.
\<close>

subsection \<open>Keys\<close>

definition drawn :: "lib \<Rightarrow> broker \<Rightarrow> string \<Rightarrow> bool" where
  "drawn L b k \<longleftrightarrow> (\<exists>n < ulids b. k = x_ulid L n)"

definition ordersKeyed :: "lib \<Rightarrow> broker \<Rightarrow> bool" where
  "ordersKeyed L b \<longleftrightarrow> (\<forall>k ord. mget (orders b) k = Some ord \<longrightarrow> o_id ord = k \<and> drawn L b k)"

definition settled :: "lib \<Rightarrow> string set \<Rightarrow> broker \<Rightarrow> broker \<Rightarrow> bool" where
  "settled L S b b' \<longleftrightarrow> (ordersKeyed L b \<longrightarrow> ordersKeyed L b' \<and> ulids b \<le> ulids b' \<and>
     (\<forall>k ord. mget (orders b) k = Some ord \<longrightarrow> k \<notin> S \<longrightarrow> \<not> isOpen ord \<longrightarrow> mget (orders b') k = Some ord))"

lemma drawn_mono: "drawn L b k \<Longrightarrow> ulids b \<le> ulids b' \<Longrightarrow> drawn L b' k"
  unfolding drawn_def using less_le_trans by blast

lemma drawn_next [simp]: "drawn L (snd (nextUlid L b)) (fst (nextUlid L b))"
  by (auto simp: drawn_def nextUlid_eq)

lemma ordersKeyed_id: "ordersKeyed L b \<Longrightarrow> mget (orders b) k = Some ord \<Longrightarrow> o_id ord = k"
  by (simp add: ordersKeyed_def)

lemma cur_id: "ordersKeyed L b \<Longrightarrow> o_id (cur b ord) = o_id ord"
  by (cases "mget (orders b) (o_id ord)") (auto simp: cur_def dest: ordersKeyed_id)

lemma settled_trans: "settled L S b1 b2 \<Longrightarrow> settled L S b2 b3 \<Longrightarrow> settled L S b1 b3"
  unfolding settled_def by (meson order_trans)

lemma settled_same:
  assumes "orders b' = orders b" "ulids b \<le> ulids b'"
  shows "settled L S b b'"
  using assms drawn_mono [of L b _ b'] by (auto simp: settled_def ordersKeyed_def)

lemma settled_refl [simp]: "settled L S b b"
  by (rule settled_same) simp_all

lemma settled_weaken: "settled L S b b' \<Longrightarrow> S \<subseteq> T \<Longrightarrow> settled L T b b'"
  unfolding settled_def by blast

lemma settled_setOrder:
  assumes "drawn L b (o_id ord)" "o_id ord \<in> S"
  shows "settled L S b (setOrder ord b)"
  using assms by (auto simp: settled_def ordersKeyed_def drawn_def)

text \<open>Only open orders, or orders that did not exist, are the subject of a change.\<close>

lemma settled_open:
  assumes "settled L {k} b b'"
    and "ordersKeyed L b \<Longrightarrow> mget (orders b) k = None \<or> (\<exists>ord. mget (orders b) k = Some ord \<and> isOpen ord)"
  shows "settled L S b b'"
  using assms unfolding settled_def by fastforce

subsection \<open>Helpers\<close>

lemma settled_cancelOrder [simp]: "settled L S b (snd (cancelOrder k reason now b))"
proof (cases "mget (orders b) k")
  case None
  then show ?thesis by (simp add: cancelOrder_def)
next
  case (Some ord)
  show ?thesis
    using Some by (auto simp: cancelOrder_def Let_def settled_def ordersKeyed_def drawn_def)
qed

lemma settled_cancelIf [simp]: "settled L S b (cancelIf P reason now k b)"
  by (simp add: cancelIf_def split: option.split)

lemma settled_fold_cancelIf [simp]: "settled L S b (fold (cancelIf P reason now) ks b)"
  by (induction ks arbitrary: b) (auto intro: settled_trans [OF settled_cancelIf])

lemma settled_cancelAll [simp]: "settled L S b (cancelAllOrders sy now b)"
  by (simp add: cancelAllOrders_def)

lemma settled_cancelStale [simp]: "settled L S b (cancelStaleBracketOrders symbol now b)"
  by (simp add: cancelStaleBracketOrders_def)

lemma settled_applyPositionFill:
  "settled L S b (case applyPositionFill L symbol side quantity price leverage now b of
     Inl (msg, s) \<Rightarrow> s | Inr (r, s) \<Rightarrow> s)"
proof (cases "mget (instruments b) symbol")
  case None
  then show ?thesis by (simp add: applyPositionFill_def)
next
  case (Some instr)
  have ev: "settled L S b (emitPositionEvent L now kind pos q1 q2 p (b\<lparr>positions := ps\<rparr>))" for kind pos q1 q2 p ps
    by (rule settled_same) (simp_all add: emitPositionEvent_def nextUlid_eq)
  show ?thesis
    using Some settled_trans [OF ev settled_cancelStale] ev
    by (simp add: applyPositionFill_def Let_def split_beta)
qed

lemma settled_recordFill [simp]: "settled L S b (recordFill L ord fl now b)"
  by (rule settled_same) (simp_all add: recordFill_def Let_def postLedger_def nextUlid_eq)

lemma settled_notifyFill [simp]: "settled L S b (notifyFill now ord fl b)"
  by (rule settled_same) simp_all

text \<open>Rewriting the order an operation works on.\<close>

lemma settled_setCur:
  assumes "drawn L b (o_id ord)" "\<And>ord1. o_id (f ord1) = o_id ord1"
  shows "settled L {o_id ord} b (setOrder (f (cur b ord)) b)"
proof (cases "ordersKeyed L b")
  case True
  then have "o_id (f (cur b ord)) = o_id ord" using assms(2) cur_id by simp
  with assms(1) show ?thesis by (intro settled_setOrder) simp_all
qed (simp add: settled_def)

lemma settled_emitOrderEvent [simp]: "settled L S b (emitOrderEvent now ev ord p r b)"
  by (rule settled_same) simp_all

subsection \<open>Operations\<close>

lemma settled_ulids: "settled L S b b' \<Longrightarrow> ordersKeyed L b \<Longrightarrow> ulids b \<le> ulids b'"
  by (simp add: settled_def)

lemma settled_drawn: "settled L S b b' \<Longrightarrow> ordersKeyed L b \<Longrightarrow> drawn L b k \<Longrightarrow> drawn L b' k"
  using drawn_mono settled_ulids by blast

lemma settled_keyed: "(ordersKeyed L b \<Longrightarrow> settled L S b b') \<Longrightarrow> settled L S b b'"
  by (auto simp: settled_def)

lemma settled_settleFill:
  assumes d: "drawn L b (o_id ord)"
  shows "settled L {o_id ord} b (case settleFill L ord quantity price liq now b of
     Inl (msg, s) \<Rightarrow> s | Inr (r, fee, s) \<Rightarrow> s)"
proof (rule settled_keyed)
  assume keyed: "ordersKeyed L b"
  let ?fee = "x_mul L (x_mul L quantity price) (if liq = MAKER then makerFeeRate b else takerFeeRate b)"
  let ?b1 = "b\<lparr>walletBalance := x_sub L (walletBalance b) ?fee, totalFees := x_add L (totalFees b) ?fee\<rparr>"
  have s1: "settled L {o_id ord} b ?b1" by (rule settled_same) simp_all
  note ap = settled_applyPositionFill [of L "{o_id ord}" ?b1 "o_symbol ord" "o_side ord" quantity price "o_leverage ord" now]
  show "settled L {o_id ord} b (case settleFill L ord quantity price liq now b of
     Inl (msg, s) \<Rightarrow> s | Inr (r, fee, s) \<Rightarrow> s)"
  proof (cases "applyPositionFill L (o_symbol ord) (o_side ord) quantity price (o_leverage ord) now ?b1")
    case (Inl e)
    then show ?thesis using settled_trans [OF s1 ap] by (cases e) (simp add: settleFill_def Let_def)
  next
    case (Inr rb)
    obtain r b2 where rb: "rb = (r, b2)" by (cases rb)
    have s2: "settled L {o_id ord} b b2" using settled_trans [OF s1 ap] Inr rb by simp
    have step: "settled L {o_id ord} b (setOrder (cur b3 ord\<lparr>o_filledQty := q, o_avgFillPrice := a\<rparr>) b3)"
      if "orders b3 = orders b2" "ulids b3 = ulids b2" for b3 q a
    proof -
      have s3: "settled L {o_id ord} b2 b3" by (rule settled_same) (simp_all add: that)
      note s4 = settled_trans [OF s2 s3]
      show ?thesis
        by (rule settled_trans [OF s4],
            rule settled_setCur [where f = "\<lambda>ord1. ord1\<lparr>o_filledQty := q, o_avgFillPrice := a\<rparr>"])
          (use settled_drawn [OF s4 keyed d] in simp_all)
    qed
    show ?thesis
      using Inr by (auto simp: settleFill_def Let_def rb split: option.split intro: step)
  qed
qed

lemma settled_executeFill:
  assumes d: "drawn L b (o_id ord)"
  shows "settled L {o_id ord} b (left (executeFill L ord quantity price liq now b))"
proof (cases "settleFill L ord quantity price liq now b")
  case (Inl e)
  then show ?thesis
    using settled_settleFill [OF d, of quantity price liq now] by (cases e) (simp add: executeFill_def)
next
  case (Inr x)
  obtain r fee b1 where x: "x = (r, fee, b1)" by (cases x)
  have s1: "settled L {o_id ord} b b1"
    using settled_settleFill [OF d, of quantity price liq now] Inr x by simp
  have s2: "settled L {o_id ord} b1 (snd (nextUlid L b1))"
    by (rule settled_same) (simp_all add: nextUlid_eq)
  show ?thesis
    using settled_trans [OF settled_trans [OF s1 s2] settled_trans [OF settled_recordFill settled_notifyFill]]
    by (simp add: executeFill_def Inr x Let_def split_beta)
qed

lemma settled_set_event:
  assumes "drawn L b (o_id ord)" "\<And>ord1. o_id (f ord1) = o_id ord1" "\<And>ord1. o_id (g ord1) = o_id ord1"
  shows "settled L {o_id ord} b
    (setOrder (g (f (cur b ord))) (emitOrderEvent now ev o2 p rs (setOrder (f (cur b ord)) b)))"
proof (rule settled_keyed)
  assume keyed: "ordersKeyed L b"
  have s1: "settled L {o_id ord} b (emitOrderEvent now ev o2 p rs (setOrder (f (cur b ord)) b))"
    using settled_trans [OF settled_setCur settled_emitOrderEvent] assms(1,2) by blast
  have "o_id (g (f (cur b ord))) = o_id ord" using assms cur_id [OF keyed] by simp
  then have "settled L {o_id ord} (emitOrderEvent now ev o2 p rs (setOrder (f (cur b ord)) b))
      (setOrder (g (f (cur b ord))) (emitOrderEvent now ev o2 p rs (setOrder (f (cur b ord)) b)))"
    using settled_drawn [OF s1 keyed assms(1)] by (intro settled_setOrder) simp_all
  with s1 show "settled L {o_id ord} b
    (setOrder (g (f (cur b ord))) (emitOrderEvent now ev o2 p rs (setOrder (f (cur b ord)) b)))"
    by (rule settled_trans)
qed

lemma settled_rejectOrder:
  assumes "drawn L b (o_id ord)"
  shows "settled L {o_id ord} b (snd (rejectOrder ord reason now b))"
proof -
  have "settled L {o_id ord} b
      (setOrder (ord\<lparr>o_status := REJECTED, o_rejectReason := Some reason, o_updatedAtUtc := now\<rparr>) b)"
    by (rule settled_setOrder) (simp_all add: assms)
  then show ?thesis
    unfolding rejectOrder_def Let_def snd_conv by (rule settled_trans) simp
qed

lemma settled_fillOrder:
  assumes d: "drawn L b (o_id ord)"
  shows "settled L {o_id ord} b (left (fillOrder L ord m liq now b))"
proof (rule settled_keyed)
  assume keyed: "ordersKeyed L b"
  have full: "settled L {o_id ord} b (setOrder (ord\<lparr>o_status := FILLED\<rparr>) b)"
    by (rule settled_setOrder) (simp_all add: d)
  note ex = settled_executeFill [OF d]
  have fin: "settled L {o_id ord} b (setOrder (cur b1 ord\<lparr>o_status := st, o_updatedAtUtc := now\<rparr>)
      (emitOrderEvent now ev o2 p rs (setOrder (cur b1 ord\<lparr>o_status := st\<rparr>) b1)))"
    if "executeFill L ord quantity price liq now b = Inr b1" for b1 quantity price st ev o2 p rs
  proof -
    have s1: "settled L {o_id ord} b b1" using ex [of quantity price liq now] that by simp
    show ?thesis
      by (rule settled_trans [OF s1],
          rule settled_set_event [where f = "\<lambda>x. x\<lparr>o_status := st\<rparr>" and g = "\<lambda>x. x\<lparr>o_updatedAtUtc := now\<rparr>", simplified])
        (rule settled_drawn [OF s1 keyed d])
  qed
  show "settled L {o_id ord} b (left (fillOrder L ord m liq now b))"
  proof (cases "getExecutionPrice L b ord m")
    case None
    then show ?thesis using full settled_rejectOrder [OF d] by (simp add: fillOrder_def Let_def)
  next
    case (Some price)
    show ?thesis
    proof (cases "executeFill L ord (x_sub L (o_quantity ord) (o_filledQty ord)) price liq now b")
      case (Inl e)
      then show ?thesis
        using Some full settled_rejectOrder [OF d] ex [of "x_sub L (o_quantity ord) (o_filledQty ord)" price liq now]
        by (cases e) (simp add: fillOrder_def Let_def)
    next
      case (Inr b1)
      then show ?thesis
        using Some full settled_rejectOrder [OF d] fin [OF Inr] by (simp add: fillOrder_def Let_def)
    qed
  qed
qed

lemma settled_evaluateOrder: "settled L S b (left (evaluateOrder L symbol m now k b))"
proof (rule settled_keyed)
  assume keyed: "ordersKeyed L b"
  show "settled L S b (left (evaluateOrder L symbol m now k b))"
  proof (cases "mget (orders b) k")
    case None
    then show ?thesis by (simp add: evaluateOrder_def)
  next
    case (Some ord)
    then have id: "o_id ord = k" "drawn L b (o_id ord)" using keyed by (auto simp: ordersKeyed_def)
    have "settled L S b (left (fillOrder L ord m liq now b))" if "isOpen ord" for liq
      using settled_open [OF settled_fillOrder [OF id(2), of m liq now], of S] id Some that by simp
    with Some show ?thesis by (simp add: evaluateOrder_def)
  qed
qed

lemma settled_foldR:
  assumes "\<And>x s. settled L S s (left (f x s))"
  shows "settled L S b (left (foldR f xs b))"
  by (rule left_foldR [where P = "settled L S b"]) (auto intro: settled_trans [OF _ assms])

lemma settled_evaluateOpenOrders: "settled L S b (left (evaluateOpenOrders L symbol now b))"
  by (simp add: evaluateOpenOrders_def settled_foldR settled_evaluateOrder split: option.split)

text \<open>An order drawn by the operation itself is new.\<close>

lemma drawn_fresh:
  assumes "ulid_fresh L" "ordersKeyed L b"
  shows "mget (orders b) (x_ulid L (ulids b)) = None"
proof (rule ccontr)
  assume "mget (orders b) (x_ulid L (ulids b)) \<noteq> None"
  then obtain n where "n < ulids b" "x_ulid L (ulids b) = x_ulid L n"
    using assms(2) by (auto simp: ordersKeyed_def drawn_def)
  with assms(1) show False by (auto simp: ulid_fresh_def dest: injD)
qed

lemma settled_calculate: "settled L S b (snd (calculateAccountState L b))"
  by (rule settled_same) simp_all

lemma settled_recalculate [simp]: "settled L S b (recalculateAccount L b)"
  by (rule settled_same) simp_all

lemma settled_liquidatePosition:
  assumes fresh: "ulid_fresh L"
  shows "settled L S b (left (liquidatePosition L now k b))"
proof (rule settled_keyed)
  assume keyed: "ordersKeyed L b"
  show "settled L S b (left (liquidatePosition L now k b))"
  proof (cases "mget (positions b) k")
    case None
    then show ?thesis by (simp add: liquidatePosition_def)
  next
    case (Some pos)
    let ?b2 = "snd (nextUlid L (snd (nextUlid L b)))"
    let ?ord = "liquidationOrder pos (fst (nextUlid L b)) (fst (nextUlid L (snd (nextUlid L b)))) now"
    let ?b3 = "setOrder ?ord ?b2"
    have id: "o_id ?ord = x_ulid L (ulids b)" by (simp add: liquidationOrder_def nextUlid_eq)
    have d2: "drawn L ?b2 (o_id ?ord)" unfolding id drawn_def
      by (rule exI [of _ "ulids b"]) (simp add: nextUlid_eq)
    have s3: "settled L {o_id ?ord} b ?b3"
      by (rule settled_trans [OF settled_same settled_setOrder]) (use d2 in \<open>simp_all add: nextUlid_eq\<close>)
    have d3: "drawn L ?b3 (o_id ?ord)" using d2 by (simp add: drawn_def)
    have ex: "settled L {o_id ?ord} b (left (executeFill L ?ord q p TAKER now ?b3))" for q p
      by (rule settled_trans [OF s3 settled_executeFill [OF d3]])
    have fin: "settled L {o_id ?ord} b (emitOrderEvent now ORDER_FILLED o2 p rs
        (setOrder (cur b4 ?ord\<lparr>o_status := FILLED, o_updatedAtUtc := now\<rparr>) b4))"
      if "executeFill L ?ord q mark TAKER now ?b3 = Inr b4" for b4 q mark p rs o2
    proof -
      have s4: "settled L {o_id ?ord} b b4" using ex [of q mark] that by simp
      have d4: "drawn L b4 (o_id ?ord)"
        using ex [of q mark] that settled_ulids [OF s4 keyed] settled_executeFill [OF d3, of q mark TAKER now]
          drawn_mono [OF d3] settled_ulids s3 keyed by (auto simp: settled_def)
      show ?thesis
        by (rule settled_trans [OF s4], rule settled_trans [OF _ settled_emitOrderEvent],
            rule settled_setCur [where f = "\<lambda>x. x\<lparr>o_status := FILLED, o_updatedAtUtc := now\<rparr>"])
          (use d4 in simp_all)
    qed
    have all: "settled L {o_id ?ord} b (left (liquidatePosition L now k b))"
    proof (cases "Option.bind (getMarket b (p_symbol pos)) m_mark")
      case None
      with Some show ?thesis by (simp add: liquidatePosition_def)
    next
      case mark: (Some mark)
      show ?thesis
      proof (cases "executeFill L ?ord \<bar>p_qty pos\<bar> mark TAKER now ?b3")
        case (Inl e)
        then show ?thesis
          using Some mark ex [of "\<bar>p_qty pos\<bar>" mark]
          by (cases e) (simp add: liquidatePosition_def Let_def split_beta)
      next
        case (Inr b4)
        then show ?thesis
          using Some mark fin [OF Inr] by (simp add: liquidatePosition_def Let_def split_beta)
      qed
    qed
    show ?thesis
      by (rule settled_open [OF all]) (use drawn_fresh [OF fresh keyed] id in simp)
  qed
qed

lemma settled_checkLiquidation:
  assumes "ulid_fresh L"
  shows "settled L S b (left (checkLiquidation L now b))"
proof -
  define b1 where "b1 = snd (calculateAccountState L b)"
  define b2 where "b2 = b1\<lparr>isLiquidating := True, liquidations := Suc (liquidations b1)\<rparr>"
  have s1: "settled L S b b1" by (simp add: b1_def settled_calculate)
  have "settled L S b1 b2" by (rule settled_same) (simp_all add: b2_def)
  with s1 have s2: "settled L S b b2" by (rule settled_trans)
  have s3: "settled L S b (left (foldR (liquidatePosition L now) ks b2))" for ks
    by (rule settled_trans [OF s2 settled_foldR]) (rule settled_liquidatePosition [OF assms])
  have "settled L S b (left (bindR (foldR (liquidatePosition L now) ks b2)
      (\<lambda>b3. Inr ((recalculateAccount L b3)\<lparr>isLiquidating := False\<rparr>))))" for ks
  proof (rule left_bindR)
    fix b3 assume "foldR (liquidatePosition L now) ks b2 = Inr b3"
    then have "settled L S b b3" using s3 [of ks] by simp
    then have s4: "settled L S b (recalculateAccount L b3)" by (rule settled_trans) simp
    have "settled L S (recalculateAccount L b3) ((recalculateAccount L b3)\<lparr>isLiquidating := False\<rparr>)"
      by (rule settled_same) simp_all
    with s4 show "settled L S b (left (Inr ((recalculateAccount L b3)\<lparr>isLiquidating := False\<rparr>)))"
      by (simp add: settled_trans)
  next
    fix msg b3 assume "foldR (liquidatePosition L now) ks b2 = Inl (msg, b3)"
    then show "settled L S b b3" using s3 [of ks] by simp
  qed
  then show ?thesis
    using s1 by (simp add: checkLiquidation_def Let_def split_beta b1_def [symmetric] b2_def [symmetric])
qed

lemma settled_onMarket:
  assumes "ulid_fresh L"
  shows "settled L S b (left (onMarket L symbol update now b))"
proof (cases "mget (instruments b) symbol")
  case None
  then show ?thesis by (simp add: onMarket_def)
next
  case (Some instr)
  define m where "m = (fold assignField update (coalesce (mget (localMarkets b) symbol) (emptyMarket symbol now)))
    \<lparr>m_symbol := symbol, m_localTsUtc := now, m_stale := False\<rparr>"
  define b1 where "b1 = b\<lparr>localMarkets := mset symbol m (localMarkets b)\<rparr>"
  have "settled L S b b1" by (rule settled_same) (simp_all add: b1_def)
  then have s1: "settled L S b (left (evaluateOpenOrders L symbol now b1))"
    by (rule settled_trans [OF _ settled_evaluateOpenOrders])
  have "settled L S b (left (bindR (evaluateOpenOrders L symbol now b1)
      (\<lambda>b2. checkLiquidation L now (recalculateAccount L b2))))"
  proof (rule left_bindR)
    fix b2 assume "evaluateOpenOrders L symbol now b1 = Inr b2"
    then have "settled L S b b2" using s1 by simp
    then show "settled L S b (left (checkLiquidation L now (recalculateAccount L b2)))"
      by (meson assms settled_checkLiquidation settled_recalculate settled_trans)
  next
    fix msg b2 assume "evaluateOpenOrders L symbol now b1 = Inl (msg, b2)"
    then show "settled L S b b2" using s1 by simp
  qed
  with Some show ?thesis by (simp add: onMarket_def Let_def m_def [symmetric] b1_def [symmetric])
qed

lemma settled_routeOrder:
  assumes d: "drawn L b (o_id ord)"
  shows "settled L {o_id ord} b (afterSubmit (routeOrder L ord m now b))"
proof -
  have fill: "settled L {o_id ord} b (afterSubmit (fillNow L ord m now b))"
    using settled_fillOrder [OF d, of m TAKER now]
    by (auto simp: fillNow_def afterSubmit_def bindR_def left_def split: sum.split)
  have rej: "settled L {o_id ord} b (afterSubmit (Inr (rejectOrder ord reason now b)))" for reason
    using settled_rejectOrder [OF d, of reason now] by (simp add: afterSubmit_def split_beta)
  have can: "settled L {o_id ord} b (afterSubmit (Inr (x, snd (cancelOrder k reason now b))))" for x k reason
    by (simp add: afterSubmit_def)
  have noop: "settled L {o_id ord} b (afterSubmit (Inr (x, b)))" for x
    by (simp add: afterSubmit_def)
  show ?thesis
    using fill rej can noop by (simp add: routeOrder_def Let_def split_beta split: orderType.split)
qed

lemma settled_submitOrder:
  assumes fresh: "ulid_fresh L"
  shows "settled L S b (afterSubmit (submitOrder L c now b))"
proof (rule settled_keyed)
  assume keyed: "ordersKeyed L b"
  show "settled L S b (afterSubmit (submitOrder L c now b))"
  proof (cases "mget (instruments b) (c_symbol c)")
    case None
    then show ?thesis by (simp add: submitOrder_def afterSubmit_def)
  next
    case (Some instr)
    obtain ord b1 where bo: "buildOrder L c instr now b = (ord, b1)" by fastforce
    have id: "o_id ord = x_ulid L (ulids b)" using buildOrder_facts(7) [of L c instr now b] bo by simp
    have ul: "ulids b < ulids b1" "orders b1 = orders b"
      using bo by (auto simp: buildOrder_def Let_def split_beta nextUlid_eq split: option.splits)
    define b2 where "b2 = emitOrderEvent now ORDER_RECEIVED ord None None (setOrder ord b1)"
    have d1: "drawn L b1 (o_id ord)" using ul by (auto simp: drawn_def id)
    have s1: "settled L {o_id ord} b b1" by (rule settled_same) (use ul in simp_all)
    have s2: "settled L {o_id ord} b b2"
      unfolding b2_def
      by (rule settled_trans [OF s1], rule settled_trans [OF settled_setOrder settled_emitOrderEvent])
        (simp_all add: d1)
    have d2: "drawn L b2 (o_id ord)" using d1 by (simp add: drawn_def b2_def)
    have s3: "settled L {o_id ord} b b3" "drawn L b3 (o_id ord)"
      if "checkOrderRisk L now ord instr m b2 = (r, b3)" for m r b3
    proof -
      have "orders b3 = orders b2" "ulids b3 = ulids b2"
        using that checkOrderRisk_frame(2,19) [of L now ord instr m b2] by simp_all
      then show "settled L {o_id ord} b b3" "drawn L b3 (o_id ord)"
        using settled_trans [OF s2 settled_same] d2 by (simp_all add: drawn_def)
    qed
    have rej: "settled L {o_id ord} b (afterSubmit (Inr (rejectOrder ord reason now b3)))"
      if "settled L {o_id ord} b b3" "drawn L b3 (o_id ord)" for reason b3
      using settled_trans [OF that(1) settled_rejectOrder [OF that(2)], of reason now]
      by (simp add: afterSubmit_def split_beta)
    have "settled L {o_id ord} b (afterSubmit (submitOrder L c now b))"
    proof (cases "getMarket b (c_symbol c)")
      case None
      then show ?thesis
        using Some bo rej [OF s2 d2] by (simp add: submitOrder_def Let_def b2_def [symmetric])
    next
      case market: (Some m)
      obtain r b3 where rk: "checkOrderRisk L now ord instr m b2 = (r, b3)" by fastforce
      have rt: "settled L {o_id ord} b (afterSubmit (routeOrder L ord m now b3))"
        using settled_trans [OF s3(1) [OF rk] settled_routeOrder [OF s3(2) [OF rk]]] .
      show ?thesis
        using Some bo market rk rt rej [OF s2 d2] rej [OF s3 [OF rk]]
        by (simp add: submitOrder_def Let_def b2_def [symmetric] split: option.split)
    qed
    then show ?thesis
      by (rule settled_open) (use drawn_fresh [OF fresh keyed] id in simp)
  qed
qed

lemma settled_applyFunding: "settled L S b (applyFunding L now b)"
proof -
  have one: "settled L S b (fundPosition L now k b)" for k b
    by (rule settled_same)
      (simp_all add: fundPosition_def Let_def nextUlid_eq emitPositionEvent_def postLedger_def split: option.split)
  have "settled L S b (fold (fundPosition L now) ks b)" for ks
    by (induction ks arbitrary: b) (auto intro: settled_trans [OF one])
  then show ?thesis unfolding applyFunding_def by (rule settled_trans [OF _ settled_recalculate])
qed

lemma settled_perform:
  assumes "ulid_fresh L" "\<not> isReset x"
  shows "settled L S b (perform L x b)"
proof -
  obtain op now where x: "x = (op, now)" by fastforce
  have w: "settled L S b (recalculateAccount L (b\<lparr>walletBalance := d\<rparr>))" for d
    by (rule settled_trans [OF settled_same settled_recalculate]) simp_all
  show ?thesis
    using assms w unfolding x
    by (cases op) (auto simp: settled_submitOrder settled_onMarket settled_applyFunding adjustWalletBalance_def
        getPositions_def Let_def isReset_def intro: settled_same)
qed

text \<open>Once an order has left the open statuses, its record is the broker's last word on it.\<close>

definition isSettled :: "lib \<Rightarrow> string \<Rightarrow> order \<Rightarrow> broker \<Rightarrow> bool" where
  "isSettled L k ord b \<longleftrightarrow> ulid_fresh L \<and> ordersKeyed L b \<and> mget (orders b) k = Some ord \<and> \<not> isOpen ord"

interpretation orderBook: guarded_component "perform L" "isSettled L k ord" "\<lambda>x. \<not> isReset x" for L k ord
proof unfold_locales
  fix b x
  assume b: "isSettled L k ord b" and x: "\<not> isReset x"
  then have "settled L {} b (perform L x b)" by (auto simp: isSettled_def intro: settled_perform)
  with b show "isSettled L k ord (perform L x b)" by (auto simp: isSettled_def settled_def)
qed

end
