(* ===== verification/Paper_Broker_Fills.thy ===== *)
theory Paper_Broker_Fills
  imports Paper_Broker_Orders
begin

section \<open>What a fill does\<close>

text \<open>
  The complete effect of \<open>executeFill\<close> on wallet, positions and fill list, and what follows
  from it: a fill is worth nothing but its fee at its own price, a limit order is filled at its
  limit or better, a reduce-only submission never opens or turns a position, and a liquidation
  closes every position that has a mark price.
\<close>

subsection \<open>The effect of a fill\<close>

definition qtyOf :: "broker \<Rightarrow> string \<Rightarrow> number" where
  "qtyOf b k = (case mget (positions b) k of None \<Rightarrow> 0 | Some pos \<Rightarrow> p_qty pos)"

definition entryOf :: "broker \<Rightarrow> string \<Rightarrow> number" where
  "entryOf b k = (case mget (positions b) k of None \<Rightarrow> 0 | Some pos \<Rightarrow> p_entryPrice pos)"

definition valueAt :: "number \<Rightarrow> broker \<Rightarrow> string \<Rightarrow> number" where
  "valueAt price b k = qtyOf b k * (price - entryOf b k)"

lemma qtyOf_remarked:
  "positions b' = remarkAll L b0 (positions b) \<Longrightarrow> qtyOf b' k = qtyOf b k"
  "positions b' = remarkAll L b0 (positions b) \<Longrightarrow> entryOf b' k = entryOf b k"
  by (cases "mget (positions b) k"; simp add: qtyOf_def entryOf_def)+

lemma qtyOf_same:
  "positions b' = positions b \<Longrightarrow> qtyOf b' k = qtyOf b k"
  "positions b' = positions b \<Longrightarrow> entryOf b' k = entryOf b k"
  by (simp_all add: qtyOf_def entryOf_def)

lemma qtyOf_mset:
  "positions b' = mset s pos (positions b) \<Longrightarrow> qtyOf b' k = (if k = s then p_qty pos else qtyOf b k)"
  "positions b' = mset s pos (positions b) \<Longrightarrow> entryOf b' k = (if k = s then p_entryPrice pos else entryOf b k)"
  by (simp_all add: qtyOf_def entryOf_def)

definition feeOn :: "broker \<Rightarrow> liquidity \<Rightarrow> number \<Rightarrow> number \<Rightarrow> number" where
  "feeOn b liq quantity price = quantity * price * (if liq = MAKER then makerFeeRate b else takerFeeRate b)"

text \<open>The position a fill applies to: the stored one or a new flat one.\<close>

definition basePosition :: "broker \<Rightarrow> order \<Rightarrow> instrument \<Rightarrow> ms \<Rightarrow> position" where
  "basePosition b ord instr now =
     coalesce (mget (positions b) (o_symbol ord)) (newPosition (o_symbol ord) instr (o_leverage ord) now)"

lemma basePosition_simps [simp]:
  "p_qty (basePosition b ord instr now) = qtyOf b (o_symbol ord)"
  "p_entryPrice (basePosition b ord instr now) = entryOf b (o_symbol ord)"
  by (cases "mget (positions b) (o_symbol ord)";
      simp add: basePosition_def qtyOf_def entryOf_def newPosition_def)+

lemma applyPositionFill_live:
  assumes "applyPositionFill L symbol side quantity price leverage now b = Inr (r, b')"
  shows "isLiquidating b' = isLiquidating b" "liquidations b' = liquidations b"
  using assms by (auto simp: applyPositionFill_def Let_def split_beta split: option.splits if_splits)

lemma recordFill_recalculated:
  "\<exists>b0. recordFill L ord fl now b = recalculateAccount L b0 \<and> positions b0 = positions b"
  unfolding recordFill_def Let_def split_beta by (intro exI conjI, rule refl) simp

lemma recordFill_positions: "\<exists>b0. positions (recordFill L ord fl now b) = remarkAll L b0 (positions b)"
  using recordFill_recalculated [of L ord fl now b] by (metis positions_recalculateAccount)

lemma executeFill_effect:
  assumes L: "decimal_exact L" and ex: "executeFill L ord quantity price liq now b = Inr b'"
  obtains instr realized pos1 fl where
    "mget (instruments b) (o_symbol ord) = Some instr"
    "fillPosition L instr (o_side ord) quantity price (o_leverage ord) now (basePosition b ord instr now) = (realized, pos1)"
    "fills b' = fills b @ [fl]" "f_price fl = price" "f_quantity fl = quantity"
    "f_fee fl = feeOn b liq quantity price" "f_realizedPnl fl = realized"
    "walletBalance b' = walletBalance b - feeOn b liq quantity price + realized"
    "\<And>k. qtyOf b' k = (if k = o_symbol ord then p_qty pos1 else qtyOf b k)"
    "\<And>k. entryOf b' k = (if k = o_symbol ord then p_entryPrice pos1 else entryOf b k)"
    "instruments b' = instruments b" "getMarket b' = getMarket b" "isLiquidating b' = isLiquidating b"
    "liquidations b' = liquidations b" "mkeys (positions b') = mkeys (mset (o_symbol ord) pos1 (positions b))"
proof -
  obtain realized fee b1 where s: "settleFill L ord quantity price liq now b = Inr (realized, fee, b1)"
    using ex by (auto simp: executeFill_def bindR_eq_Inr)
  let ?fee = "x_mul L (x_mul L quantity price) (if liq = MAKER then makerFeeRate b else takerFeeRate b)"
  let ?b1 = "b\<lparr>walletBalance := x_sub L (walletBalance b) ?fee, totalFees := x_add L (totalFees b) ?fee\<rparr>"
  from s obtain b2 where
    ap: "applyPositionFill L (o_symbol ord) (o_side ord) quantity price (o_leverage ord) now ?b1 = Inr (realized, b2)"
    and fee: "fee = ?fee"
    by (auto simp: settleFill_def Let_def bindR_eq_Inr)
  obtain instr where instr: "mget (instruments b) (o_symbol ord) = Some instr"
    and pos2: "positions b2 = mset (o_symbol ord) (snd (fillPosition L instr (o_side ord) quantity price (o_leverage ord) now
       (basePosition b ord instr now))) (positions b)"
    and r: "realized = fst (fillPosition L instr (o_side ord) quantity price (o_leverage ord) now (basePosition b ord instr now))"
    using applyPositionFill_positions [OF ap] by (auto simp: basePosition_def)
  define pos1 where "pos1 = snd (fillPosition L instr (o_side ord) quantity price (o_leverage ord) now (basePosition b ord instr now))"
  note money = settleFill_Inr [OF L s]
  have pos_b1: "positions b1 = mset (o_symbol ord) (pos1\<lparr>p_totalFees := x_add L (p_totalFees pos1) fee\<rparr>) (positions b2)"
    and live: "isLiquidating b1 = isLiquidating b" "liquidations b1 = liquidations b"
    using s ap applyPositionFill_live [OF ap] by (auto simp: settleFill_def Let_def pos2 pos1_def fee)
  define nb2 where "nb2 = snd (nextUlid L b1)"
  define fl where "fl = makeFill L (cur nb2 ord) quantity price liq now b realized fee nb2 (fst (nextUlid L b1))"
  have b': "b' = notifyFill now ord fl (recordFill L (cur nb2 ord) fl now nb2)"
    using ex by (simp add: executeFill_def s Let_def split_beta nb2_def fl_def)
  have fl: "f_fee fl = fee" "f_realizedPnl fl = realized" "f_price fl = price" "f_quantity fl = quantity"
    by (simp_all add: fl_def makeFill_def Let_def)
  obtain b0 where pos_b': "positions b' = remarkAll L b0 (positions b1)"
    using recordFill_positions [of L "cur nb2 ord" fl now nb2] by (auto simp: b' nb2_def)
  have q: "qtyOf b' k = (if k = o_symbol ord then p_qty pos1 else qtyOf b k)"
    "entryOf b' k = (if k = o_symbol ord then p_entryPrice pos1 else entryOf b k)" for k
    using qtyOf_remarked [OF pos_b', of k] qtyOf_mset [OF pos_b1, of k] qtyOf_mset [OF pos2, of k]
    by (simp_all add: pos1_def)
  show thesis
  proof (rule that [of instr realized pos1 fl])
    show "fills b' = fills b @ [fl]"
      using money(5) by (simp add: b' recordFill_def Let_def split_beta nb2_def)
    show "walletBalance b' = walletBalance b - feeOn b liq quantity price + realized"
      using money(1) L by (simp add: b' nb2_def fee feeOn_def lib_exact)
    show "f_fee fl = feeOn b liq quantity price" using L by (simp add: fl fee feeOn_def lib_exact)
    show "mkeys (positions b') = mkeys (mset (o_symbol ord) pos1 (positions b))"
      by (simp add: pos_b' pos_b1 pos2 mkeys_mset)
    show "getMarket b' = getMarket b"
      using money(7,8) by (intro ext) (simp add: getMarket_def b' nb2_def)
    show "fillPosition L instr (o_side ord) quantity price (o_leverage ord) now (basePosition b ord instr now) = (realized, pos1)"
      by (simp add: r pos1_def)
  qed (use instr money fl q live in \<open>simp_all add: b' nb2_def\<close>)
qed

text \<open>Valued at the fill's own price, a fill costs its fee and nothing else.\<close>

definition fillSlack :: "broker \<Rightarrow> order \<Rightarrow> number \<Rightarrow> number" where
  "fillSlack b ord quantity =
     (case mget (instruments b) (o_symbol ord) of None \<Rightarrow> 0
      | Some instr \<Rightarrow>
          (let new = qtyOf b (o_symbol ord) + signed (o_side ord) quantity in
           if fillKind (qtyOf b (o_symbol ord)) new = INCREASE_EV then roundingSlack instr new else 0))"

lemma fill_value:
  assumes L: "decimal_exact L" and ex: "executeFill L ord quantity price liq now b = Inr b'"
    and instr: "mget (instruments b) (o_symbol ord) = Some instr"
    and on_grid: "grid (i_quantityPrecision instr) (qtyOf b (o_symbol ord) + signed (o_side ord) quantity)
        = qtyOf b (o_symbol ord) + signed (o_side ord) quantity"
  shows "\<bar>(walletBalance b' + valueAt price b' (o_symbol ord))
      - (walletBalance b + valueAt price b (o_symbol ord) - feeOn b liq quantity price)\<bar>
    \<le> fillSlack b ord quantity"
proof -
  obtain instr' realized pos1 where i: "mget (instruments b) (o_symbol ord) = Some instr'"
    and fp': "fillPosition L instr' (o_side ord) quantity price (o_leverage ord) now (basePosition b ord instr' now) = (realized, pos1)"
    and w: "walletBalance b' = walletBalance b - feeOn b liq quantity price + realized"
    and q': "\<And>k. qtyOf b' k = (if k = o_symbol ord then p_qty pos1 else qtyOf b k)"
      "\<And>k. entryOf b' k = (if k = o_symbol ord then p_entryPrice pos1 else entryOf b k)"
    by (rule executeFill_effect [OF L ex]) (rule that)
  have "instr' = instr" using i instr by simp
  note fp = fp' [unfolded this]
  note q = q' [of "o_symbol ord", simplified]
  let ?pos = "basePosition b ord instr now"
  let ?new = "qtyOf b (o_symbol ord) + signed (o_side ord) quantity"
  have fq: "filledQuantity instr (o_side ord) quantity ?pos = ?new"
    using on_grid by (simp add: filledQuantity_def)
  have v: "valueAt price b' (o_symbol ord) = openValue price pos1"
    "valueAt price b (o_symbol ord) = openValue price ?pos"
    by (simp_all add: valueAt_def openValue_def q)
  have p1: "p_qty pos1 = ?new" using fillPosition_qty [OF L] fp fq by (metis snd_conv)
  show ?thesis
  proof (cases "fillKind (qtyOf b (o_symbol ord)) ?new = INCREASE_EV")
    case True
    then have "\<bar>realized + openValue price pos1 - openValue price ?pos\<bar> \<le> roundingSlack instr ?new"
      using fillPosition_value_increase [OF L _ _ fp] fq p1 by simp
    with True show ?thesis by (simp add: w v fillSlack_def instr Let_def)
  next
    case False
    then have "realized + openValue price pos1 = openValue price ?pos"
      using fillPosition_value_exact [OF L _ fp] fq by simp
    with False show ?thesis by (simp add: w v fillSlack_def instr Let_def)
  qed
qed

end
