(* ===== verification/Paper_Broker_Guarantees.thy ===== *)
theory Paper_Broker_Guarantees
  imports Paper_Broker_Fills
begin

section \<open>Guarantees of submission, matching and liquidation\<close>

text \<open>
  The contract of the broker's order handling towards the account: rejections move no money,
  accepted orders are within the limits, limit prices are respected, reduce-only submissions
  reduce, terminal orders stay as they are, and a liquidation leaves nothing open.
\<close>

subsection \<open>State changes that leave the money alone\<close>

definition moneyKept :: "broker \<Rightarrow> broker \<Rightarrow> bool" where
  "moneyKept b b' \<longleftrightarrow> walletBalance b' = walletBalance b \<and> totalFees b' = totalFees b \<and>
     totalFunding b' = totalFunding b \<and> totalRealizedPnl b' = totalRealizedPnl b \<and>
     fills b' = fills b \<and> (\<forall>k. qtyOf b' k = qtyOf b k \<and> entryOf b' k = entryOf b k)"

lemma moneyKept_refl [simp]: "moneyKept b b"
  by (simp add: moneyKept_def)

lemma moneyKept_trans: "moneyKept b1 b2 \<Longrightarrow> moneyKept b2 b3 \<Longrightarrow> moneyKept b1 b3"
  by (simp add: moneyKept_def)

lemma moneyKept_same:
  assumes "walletBalance b' = walletBalance b" "totalFees b' = totalFees b"
    "totalFunding b' = totalFunding b" "totalRealizedPnl b' = totalRealizedPnl b"
    "fills b' = fills b" "positions b' = positions b"
  shows "moneyKept b b'"
  using assms qtyOf_same [of b' b] by (simp add: moneyKept_def)

lemma moneyKept_remarked:
  assumes "walletBalance b' = walletBalance b" "totalFees b' = totalFees b"
    "totalFunding b' = totalFunding b" "totalRealizedPnl b' = totalRealizedPnl b"
    "fills b' = fills b" "positions b' = remarkAll L b0 (positions b)"
  shows "moneyKept b b'"
  using assms qtyOf_remarked [of b' L b0 b] by (simp add: moneyKept_def)

lemma moneyKept_reject [simp]: "moneyKept b (snd (rejectOrder ord reason now b))"
  by (rule moneyKept_same) simp_all

lemma moneyKept_cancel [simp]: "moneyKept b (snd (cancelOrder k reason now b))"
  by (rule moneyKept_same) simp_all

lemma moneyKept_roll: "moneyKept b (rollDailyEquityIfNeeded L now b)"
  by (cases "utcDay now = currentUtcDay b")
    (rule moneyKept_same moneyKept_remarked; simp add: positions_roll)+

lemma moneyKept_calculate: "moneyKept b (snd (calculateAccountState L b))"
  by (rule moneyKept_remarked) simp_all

lemma moneyKept_risk: "moneyKept b (snd (checkOrderRisk L now ord instr m b))"
  using checkOrderRisk_state [of L now ord instr m b] moneyKept_roll moneyKept_calculate moneyKept_trans
  by metis

subsection \<open>The status of a filled order\<close>

lemma cur_setOrder: "o_id o1 = o_id ord \<Longrightarrow> cur (setOrder o1 b) ord = o1"
  by (simp add: cur_def)

lemma fillOrder_status:
  assumes keyed: "ordersKeyed L b" and d: "drawn L b (o_id ord)"
    and f: "fillOrder L ord m liq now b = Inr b'"
  shows "(o_status (cur b' ord) = REJECTED \<and> moneyKept b b') \<or>
    o_status (cur b' ord) = FILLED \<or> o_status (cur b' ord) = PARTIALLY_FILLED"
proof (cases "getExecutionPrice L b ord m")
  case None
  then show ?thesis
    using f by (auto simp: fillOrder_def Let_def rejectOrder_def cur_def split: if_splits
        intro: moneyKept_same)
next
  case (Some price)
  show ?thesis
  proof (cases "x_sub L (o_quantity ord) (o_filledQty ord) \<le> 0 \<or> price \<le> 0")
    case True
    then show ?thesis
      using f Some by (auto simp: fillOrder_def Let_def rejectOrder_def cur_def split: if_splits
        intro: moneyKept_same)
  next
    case False
    then obtain b1 where b1: "executeFill L ord (x_sub L (o_quantity ord) (o_filledQty ord)) price liq now b = Inr b1"
      using f Some by (auto simp: fillOrder_def Let_def bindR_eq_Inr)
    then have "ordersKeyed L b1"
      using settled_executeFill [OF d, of "x_sub L (o_quantity ord) (o_filledQty ord)" price liq now] keyed
      by (simp add: settled_def)
    then have id: "o_id (cur b1 ord) = o_id ord" by (rule cur_id)
    have "\<exists>st b2. setOrder (cur b1 ord\<lparr>o_status := st, o_updatedAtUtc := now\<rparr>) b2 = b' \<and>
        (st = FILLED \<or> st = PARTIALLY_FILLED)"
      using f Some False b1
      by (cases "o_filledQty (cur b1 ord) \<ge> o_quantity (cur b1 ord)")
        (simp_all add: fillOrder_def Let_def, blast+)
    then show ?thesis by (auto simp: cur_setOrder id)
  qed
qed

lemma routeOrder_rejected:
  assumes keyed: "ordersKeyed L b" and d: "drawn L b (o_id ord)"
    and r: "routeOrder L ord m now b = Inr (ord', b')" and rej: "o_status ord' = REJECTED"
    and new: "o_status ord = NEW"
  shows "moneyKept b b'"
proof -
  have fill: "moneyKept b b'" if "fillNow L ord m now b = Inr (ord', b')"
    using that fillOrder_status [OF keyed d, of m TAKER now] rej
    by (auto simp: fillNow_def bindR_eq_Inr)
  have reject: "moneyKept b b'" if "rejectOrder ord reason now b = (ord', b')" for reason
    using moneyKept_reject [of b ord reason now] that by simp
  have cancel: "moneyKept b b'" if "b' = snd (cancelOrder k reason now b)" for k reason
    using that by simp
  show ?thesis
    using r fill reject cancel new rej
    by (auto simp: routeOrder_def Let_def split_beta split: orderType.splits if_splits)
qed

lemma buildOrder_ulids: "ulids b < ulids (snd (buildOrder L c instr now b))"
  by (auto simp: buildOrder_def Let_def split_beta nextUlid_eq split: option.splits)

text \<open>What \<open>submitOrder\<close> went through when it returns.\<close>

lemma submitOrder_cases:
  assumes fresh: "ulid_fresh L" and keyed: "ordersKeyed L b"
    and s: "submitOrder L c now b = Inr (ord', b')"
  obtains instr ord b2 where "mget (instruments b) (c_symbol c) = Some instr"
    "ord = fst (buildOrder L c instr now b)" "moneyKept b b2" "instruments b2 = instruments b" "risk b2 = risk b"
    "positions b2 = positions b" "mget (orders b2) (o_id ord) = Some ord" "ordersKeyed L b2" "drawn L b2 (o_id ord)"
    "getMarket b2 = getMarket b" "takerFeeRate b2 = takerFeeRate b" "makerFeeRate b2 = makerFeeRate b"
    "orders b2 = mset (o_id ord) ord (orders b)"
    "(o_status ord' = REJECTED \<and> moneyKept b b') \<or>
     (\<exists>m b3. getMarket b (c_symbol c) = Some m \<and> checkOrderRisk L now ord instr m b2 = (None, b3) \<and>
        ordersKeyed L b3 \<and> drawn L b3 (o_id ord) \<and> moneyKept b b3 \<and> routeOrder L ord m now b3 = Inr (ord', b'))"
proof -
  obtain instr where instr: "mget (instruments b) (c_symbol c) = Some instr"
    using s by (auto simp: submitOrder_def split: option.splits)
  obtain ord b1 where bo: "buildOrder L c instr now b = (ord, b1)" by fastforce
  define b2 where "b2 = emitOrderEvent now ORDER_RECEIVED ord None None (setOrder ord b1)"
  obtain n where b1: "b1 = b\<lparr>ulids := n\<rparr>" using buildOrder_facts(10) [of L c instr now b] bo by auto
  have id: "o_id ord = x_ulid L (ulids b)" using buildOrder_facts(7) [of L c instr now b] bo by simp
  have n: "ulids b < n"
    using buildOrder_ulids [of b L c instr now] bo b1 by simp
  have kept: "moneyKept b b2" by (rule moneyKept_same) (simp_all add: b2_def b1)
  have d1: "drawn L b1 (o_id ord)" using n by (auto simp: drawn_def id b1)
  have "settled L {o_id ord} b b2"
    unfolding b2_def
    by (rule settled_trans [OF settled_same [of b1]], rule_tac [3] settled_trans [OF settled_setOrder settled_emitOrderEvent])
      (use n d1 in \<open>simp_all add: b1\<close>)
  then have keyed2: "ordersKeyed L b2" using keyed by (simp add: settled_def)
  have d2: "drawn L b2 (o_id ord)" using d1 by (simp add: drawn_def b2_def)
  have branch: "(o_status ord' = REJECTED \<and> moneyKept b b') \<or>
     (\<exists>m b3. getMarket b (c_symbol c) = Some m \<and> checkOrderRisk L now ord instr m b2 = (None, b3) \<and>
        ordersKeyed L b3 \<and> drawn L b3 (o_id ord) \<and> moneyKept b b3 \<and> routeOrder L ord m now b3 = Inr (ord', b'))"
  proof -
    have rej: "o_status ord' = REJECTED \<and> moneyKept b b'"
      if "rejectOrder ord reason now b3 = (ord', b')" "moneyKept b b3" for reason b3
      using that moneyKept_trans [OF that(2) moneyKept_reject [of b3 ord reason now]]
      by (auto simp: rejectOrder_def Let_def)
    have risk: "moneyKept b b3" "ordersKeyed L b3" "drawn L b3 (o_id ord)"
      if "checkOrderRisk L now ord instr m b2 = (r, b3)" for m r b3
      using that moneyKept_trans [OF kept moneyKept_risk [of b2 L now ord instr m]] keyed2 d2
        checkOrderRisk_frame(2,19) [of L now ord instr m b2]
      by (simp_all add: ordersKeyed_def drawn_def)
    show ?thesis
    proof (cases "getMarket b (c_symbol c)")
      case None
      then show ?thesis using s instr bo rej [OF _ kept]
        by (auto simp: submitOrder_def Let_def b2_def [symmetric])
    next
      case (Some m)
      obtain r b3 where rk: "checkOrderRisk L now ord instr m b2 = (r, b3)" by fastforce
      show ?thesis
        using s instr bo Some rk rej [OF _ kept] rej [OF _ risk(1) [OF rk]] risk [OF rk]
        by (auto simp: submitOrder_def Let_def b2_def [symmetric] split: if_splits option.splits)
    qed
  qed
  show thesis
    by (rule that [OF instr _ kept _ _ _ _ keyed2 d2 _ _ _ _ branch])
      (use bo in \<open>simp_all add: b2_def b1 getMarket_def fun_eq_iff\<close>)
qed

subsection \<open>What submission and matching do to positions\<close>

lemma moneyKept_events [simp]: "moneyKept b (setOrder o1 (emitOrderEvent now ev o2 p r (setOrder o3 b)))"
  by (rule moneyKept_same) simp_all

lemma fillOrder_fill:
  assumes "fillOrder L ord m liq now b = Inr b'"
  shows "moneyKept b b' \<or> (\<exists>price b1. getExecutionPrice L b ord m = Some price \<and>
    executeFill L ord (x_sub L (o_quantity ord) (o_filledQty ord)) price liq now b = Inr b1 \<and> moneyKept b1 b')"
proof (cases "x_sub L (o_quantity ord) (o_filledQty ord) \<le> 0")
  case True
  then show ?thesis using assms by (auto simp: fillOrder_def intro: moneyKept_same)
next
  case rem: False
  show ?thesis
  proof (cases "getExecutionPrice L b ord m")
    case None
    then show ?thesis using assms rem by (auto simp: fillOrder_def)
  next
    case (Some price)
    show ?thesis
    proof (cases "price \<le> 0")
      case True
      then show ?thesis using assms rem Some by (auto simp: fillOrder_def)
    next
      case False
      then show ?thesis
        using assms rem Some by (auto simp: fillOrder_def Let_def bindR_eq_Inr)
    qed
  qed
qed

lemma routeOrder_fill:
  assumes r: "routeOrder L ord m now b = Inr (ord', b')"
  shows "moneyKept b b' \<or>
    ((o_type ord = LIMIT \<longrightarrow> isLimitMarketable ord m) \<and> fillOrder L ord m TAKER now b = Inr b')"
proof -
  have fill: "fillOrder L ord m TAKER now b = Inr b'" if "fillNow L ord m now b = Inr (ord', b')"
    using that by (auto simp: fillNow_def bindR_eq_Inr)
  have reject: "moneyKept b b'" if "rejectOrder ord reason now b = (ord', b')" for reason
    using moneyKept_reject [of b ord reason now] that by simp
  have cancel: "moneyKept b b'" if "b' = snd (cancelOrder k reason now b)" for k reason
    using that by simp
  show ?thesis
    using r fill reject cancel
    by (auto simp: routeOrder_def Let_def split_beta split: orderType.splits if_splits)
qed

lemma evaluateOrder_fill:
  assumes e: "evaluateOrder L symbol m now k b = Inr b'" and k: "mget (orders b) k = Some ord"
  shows "b' = b \<or> (isOpen ord \<and> (o_type ord = LIMIT \<longrightarrow> isLimitMarketable ord m) \<and>
    fillOrder L ord m (if o_type ord = LIMIT then MAKER else TAKER) now b = Inr b')"
  using e k by (auto simp: evaluateOrder_def split: if_splits)

lemma fillOrder_new_fills:
  assumes L: "decimal_exact L" and f: "fillOrder L ord m liq now b = Inr b'"
    and x: "x \<in> set (drop (length (fills b)) (fills b'))"
  shows "getExecutionPrice L b ord m = Some (f_price x)"
proof -
  consider "moneyKept b b'" | price b1 where "getExecutionPrice L b ord m = Some price"
      "executeFill L ord (x_sub L (o_quantity ord) (o_filledQty ord)) price liq now b = Inr b1" "moneyKept b1 b'"
    using fillOrder_fill [OF f] by blast
  then show ?thesis
  proof cases
    case 1
    with x show ?thesis by (simp add: moneyKept_def)
  next
    case 2
    obtain fl where "fills b1 = fills b @ [fl]" "f_price fl = price"
      by (rule executeFill_effect [OF L 2(2)])
    with 2 x show ?thesis by (simp add: moneyKept_def)
  qed
qed

lemma limit_price:
  assumes "o_type ord = LIMIT" "isLimitMarketable ord m" "getExecutionPrice L b ord m = Some price"
  shows "case o_side ord of BUY \<Rightarrow> price \<le> the (o_limitPrice ord) | SELL \<Rightarrow> price \<ge> the (o_limitPrice ord)"
  using assms
  by (cases "o_side ord") (auto simp: isLimitMarketable_def getExecutionPrice_def orElse_def
      split: if_splits option.splits)

text \<open>Limit prices are respected: every fill of a limit order, whether it rests in the book
  and a market update triggers it or it is marketable when it is submitted, is at its limit
  price or better (at most the limit for a buy, at least the limit for a sell).\<close>

theorem limit_never_worse:
  assumes "decimal_exact L" "o_type ord = LIMIT"
    and "(mget (orders b) k = Some ord \<and> evaluateOrder L symbol m now k b = Inr b') \<or>
      routeOrder L ord m now b = Inr (ord', b')"
    and "x \<in> set (drop (length (fills b)) (fills b'))"
  shows "case o_side ord of BUY \<Rightarrow> f_price x \<le> the (o_limitPrice ord)
    | SELL \<Rightarrow> f_price x \<ge> the (o_limitPrice ord)"
proof -
  have "fills b' \<noteq> fills b" using assms(4) by auto
  then have "\<exists>liq. isLimitMarketable ord m \<and> fillOrder L ord m liq now b = Inr b'"
    using assms(2,3) evaluateOrder_fill [of L symbol m now k b b' ord] routeOrder_fill [of L ord m now b ord' b']
    by (auto simp: moneyKept_def)
  then show ?thesis
    using fillOrder_new_fills [OF assms(1) _ assms(4)] limit_price [OF assms(2)] by blast
qed

text \<open>A rejected submission moves no money: when \<open>submitOrder\<close> returns an order with status
  REJECTED, for whatever reason and at whatever stage, wallet, totals, fills and the quantity
  and entry price of every position are as before.\<close>

theorem rejected_moves_nothing:
  assumes "ulid_fresh L" "ordersKeyed L b"
    and "submitOrder L c now b = Inr (ord, b')" "o_status ord = REJECTED"
  shows "walletBalance b' = walletBalance b \<and> totalFees b' = totalFees b \<and> totalFunding b' = totalFunding b
    \<and> totalRealizedPnl b' = totalRealizedPnl b \<and> fills b' = fills b
    \<and> (\<forall>k. qtyOf b' k = qtyOf b k \<and> entryOf b' k = entryOf b k)"
proof -
  obtain instr ord1 where new: "ord1 = fst (buildOrder L c instr now b)"
    and br: "(o_status ord = REJECTED \<and> moneyKept b b') \<or>
     (\<exists>m b3. getMarket b (c_symbol c) = Some m \<and> ordersKeyed L b3 \<and> drawn L b3 (o_id ord1) \<and>
        moneyKept b b3 \<and> routeOrder L ord1 m now b3 = Inr (ord, b'))"
    by (rule submitOrder_cases [OF assms(1-3)]) blast
  have "o_status ord1 = NEW" using new buildOrder_facts(5) by simp
  then have "moneyKept b b'"
    using br routeOrder_rejected assms(4) moneyKept_trans by blast
  then show ?thesis by (simp add: moneyKept_def)
qed

text \<open>A fill that has a price happens.\<close>

lemma fillOrder_fills:
  assumes L: "decimal_exact L" and known: "positionsKnown b"
    and instr: "mget (instruments b) (o_symbol ord) \<noteq> None" and rem: "o_filledQty ord < o_quantity ord"
    and price: "getExecutionPrice L b ord m = Some price" "0 < price"
  shows "\<exists>b' x. fillOrder L ord m liq now b = Inr b' \<and> fills b' = fills b @ [x] \<and> f_price x = price"
proof -
  let ?q = "x_sub L (o_quantity ord) (o_filledQty ord)"
  obtain b1 where ex: "executeFill L ord ?q price liq now b = Inr b1"
    using executeFill_ok [OF L known instr] by blast
  obtain x where "fills b1 = fills b @ [x]" "f_price x = price"
    by (rule executeFill_effect [OF L ex])
  moreover have "\<not> ?q \<le> 0" "\<not> price \<le> 0" using rem price(2) L by (simp_all add: lib_exact)
  ultimately show ?thesis
    using ex price(1) by (simp add: fillOrder_def Let_def)
qed

theorem limit_never_worse_witness:
  "\<exists>ord' b' x. routeOrder exactLib (limitOrder 2 102) (btcMarket 100 101 100) 5
      (holdingBroker 0 (btcMarket 100 101 100)) = Inr (ord', b') \<and> fills b' = [x] \<and> f_price x \<le> 102"
proof -
  let ?m = "btcMarket 100 101 100" and ?o = "limitOrder 2 102"
  let ?b = "holdingBroker 0 ?m"
  have "isLimitMarketable ?o ?m" by (simp add: isLimitMarketable_def round_away_def)
  have "positionsKnown ?b" by (auto simp: positionsKnown_def mget_def)
  then obtain b' x where b': "fillOrder exactLib ?o ?m TAKER 5 ?b = Inr b'" "fills b' = [x]"
    using fillOrder_fills [OF exactLib_exact, of ?b ?o ?m 101 TAKER 5]
    by (auto simp: getExecutionPrice_def round_away_def)
  then have r: "routeOrder exactLib ?o ?m 5 ?b = Inr (cur b' ?o, b')"
    using \<open>isLimitMarketable ?o ?m\<close> by (simp add: routeOrder_def fillNow_def round_away_def)
  have "f_price x \<le> 102"
    using limit_never_worse [OF exactLib_exact, of ?o ?b "[]" "''BTC''" ?m 5 b' "cur b' ?o" x] r b'(2)
    by (simp add: round_away_def)
  with r b'(2) show ?thesis by blast
qed

theorem rejected_moves_nothing_witness:
  "\<exists>ord b'. submitOrder exactLib (marketBuy 2) 5 freshBroker = Inr (ord, b') \<and> o_status ord = REJECTED \<and>
     walletBalance b' = 10000 \<and> fills b' = []"
proof -
  have keyed: "ordersKeyed exactLib freshBroker" by (simp add: ordersKeyed_def)
  obtain ord b' where s: "submitOrder exactLib (marketBuy 2) 5 freshBroker = Inr (ord, b')" "o_status ord = REJECTED"
    by (simp add: submitOrder_def getMarket_def rejectOrder_def Let_def split_beta)
  then show ?thesis
    using rejected_moves_nothing [OF exactLib_fresh keyed s] by auto
qed

subsection \<open>Accepted orders\<close>

lemma mset_new: "mget m k = None \<Longrightarrow> mset k v m = m @ [(k, v)]"
  by (induction m) (auto simp: mget_def mset_def split: if_splits)

lemma mvals_mset_new: "mget m k = None \<Longrightarrow> mvals (mset k v m) = mvals m @ [v]"
  by (simp add: mset_new mvals_def)

lemma checkOrderRisk_accepts:
  assumes "checkOrderRisk L now ord instr m b = (None, b1)"
  obtains px b0 acct where "estimatePrice ord m = Some px" "0 < px" "0 < o_quantity ord"
    "\<forall>q. i_minQty instr = Some q \<longrightarrow> q \<le> o_quantity ord" "o_leverage ord \<le> r_maxLeverage (risk b)"
    "moneyKept b b0" "risk b0 = risk b" "orders b0 = orders b" "riskOfOrder L ord instr b0 px = None"
    "riskOfAccount L ord b1 px acct = None" "acct = fst (calculateAccountState L b0)"
    "moneyKept b b1" "takerFeeRate b1 = takerFeeRate b" "makerFeeRate b1 = makerFeeRate b"
proof -
  let ?b0 = "rollDailyEquityIfNeeded L now b"
  define c0 where "c0 = calculateAccountState L ?b0"
  obtain px where px0: "estimatePrice ord m = Some px"
    using assms by (cases "estimatePrice ord m") (simp_all add: checkOrderRisk_def Let_def split: if_splits)
  have px: "estimatePrice ord m = Some px" "0 < px"
    and ro: "riskOfOrder L ord instr ?b0 px = None"
    and c: "riskOfAccount L ord (snd c0) px (fst c0) = None" "b1 = snd c0"
    and q: "0 < o_quantity ord" "\<forall>q. i_minQty instr = Some q \<longrightarrow> q \<le> o_quantity ord"
      "o_leverage ord \<le> r_maxLeverage (risk b)"
    using assms px0 unfolding checkOrderRisk_def Let_def split_beta c0_def [symmetric]
    by (simp_all split: if_splits option.splits) auto
  have ra: "riskOfAccount L ord b1 px (fst (calculateAccountState L ?b0)) = None"
    and b1: "b1 = snd (calculateAccountState L ?b0)"
    using c by (simp_all add: c0_def)
  show thesis
    by (rule that [OF px q moneyKept_roll _ _ ro ra refl])
      (use b1 moneyKept_trans [OF moneyKept_roll moneyKept_calculate] in auto)
qed

lemma riskOfOrder_accepts:
  assumes L: "decimal_exact L" and ok: "riskOfOrder L ord instr b px = None"
  shows "\<forall>n. i_minNotional instr = Some n \<longrightarrow> n \<le> o_quantity ord * px"
    "\<not> o_reduceOnly ord \<Longrightarrow> o_quantity ord * px \<le> r_maxOrderNotional (risk b)"
    "\<not> o_reduceOnly ord \<Longrightarrow>
       max \<bar>qtyOf b (o_symbol ord)\<bar> \<bar>qtyOf b (o_symbol ord) + signed (o_side ord) (o_quantity ord)\<bar> * px
         \<le> r_maxPositionNotional (risk b)"
    "\<not> o_reduceOnly ord \<Longrightarrow> length (getOpenOrders None b) < r_maxOpenOrders (risk b)"
    "o_reduceOnly ord \<Longrightarrow>
       \<bar>qtyOf b (o_symbol ord) + signed (o_side ord) (o_quantity ord)\<bar> \<le> \<bar>qtyOf b (o_symbol ord)\<bar>"
  using ok L unfolding riskOfOrder_def qtyOf_def [symmetric] Let_def
  by (auto simp: lib_exact max_def algebra_simps split: if_splits)

text \<open>C7. Accepted orders respect the limits: when a submission is not rejected, its rounded
  quantity is positive and at least the instrument's minimum, the leverage is allowed, and
  unless it is reduce-only its notional, the larger of the notionals of the position before and
  after it, and the number of open orders, the new one included, are within the caps, all at
  the positive price the risk check estimates. The cap on open orders is met strictly: of
  \<open>maxOpenOrders\<close> one is never used, because the check counts the order it checks.\<close>

theorem accepted_within_limits:
  assumes "decimal_exact L" "ulid_fresh L" "ordersKeyed L b"
    and "mget (instruments b) (c_symbol c) = Some instr"
    and "submitOrder L c now b = Inr (ord, b')" "o_status ord \<noteq> REJECTED"
  shows "\<exists>m px. getMarket b (c_symbol c) = Some m \<and> 0 < px \<and>
    estimatePrice (fst (buildOrder L c instr now b)) m = Some px \<and>
    0 < submitQuantity L c instr b \<and>
    (\<forall>q. i_minQty instr = Some q \<longrightarrow> q \<le> submitQuantity L c instr b) \<and>
    coalesce (c_leverage c) 5 \<le> r_maxLeverage (risk b) \<and>
    (c_reduceOnly c \<noteq> Some True \<longrightarrow>
       submitQuantity L c instr b * px \<le> r_maxOrderNotional (risk b) \<and>
       max \<bar>qtyOf b (c_symbol c)\<bar>
         \<bar>qtyOf b (c_symbol c) + signed (c_side c) (submitQuantity L c instr b)\<bar> * px
         \<le> r_maxPositionNotional (risk b) \<and>
       Suc (length (getOpenOrders None b)) < r_maxOpenOrders (risk b))"
proof -
  obtain instr' ord1 b2 where i: "mget (instruments b) (c_symbol c) = Some instr'"
    and new: "ord1 = fst (buildOrder L c instr' now b)" and k2: "moneyKept b b2" and r2: "risk b2 = risk b"
    and o2: "orders b2 = mset (o_id ord1) ord1 (orders b)"
    and br: "(o_status ord = REJECTED \<and> moneyKept b b') \<or>
     (\<exists>m b3. getMarket b (c_symbol c) = Some m \<and> checkOrderRisk L now ord1 instr' m b2 = (None, b3))"
    by (rule submitOrder_cases [OF assms(2,3,5)]) blast
  have instr: "instr' = instr" using i assms(4) by simp
  obtain m b3 where m: "getMarket b (c_symbol c) = Some m"
    and ck: "checkOrderRisk L now ord1 instr m b2 = (None, b3)"
    using br assms(6) instr by blast
  note facts = buildOrder_facts [of L c instr now b, folded new [unfolded instr]]
  obtain px b0 where px: "estimatePrice ord1 m = Some px" "0 < px" "0 < o_quantity ord1"
    "\<forall>q. i_minQty instr = Some q \<longrightarrow> q \<le> o_quantity ord1" "o_leverage ord1 \<le> r_maxLeverage (risk b2)"
    and b0: "moneyKept b2 b0" "risk b0 = risk b2" "orders b0 = orders b2"
    and ro: "riskOfOrder L ord1 instr b0 px = None"
    by (rule checkOrderRisk_accepts [OF ck])
  have "mget (orders b) (o_id ord1) = None"
    using drawn_fresh [OF assms(2,3)] facts(7) by simp
  then have "length (getOpenOrders None b0) = Suc (length (getOpenOrders None b))"
    using facts(5) by (simp add: getOpenOrders_def b0(3) o2 mvals_mset_new isOpen_def symbolFilter_def)
  moreover have "qtyOf b0 (c_symbol c) = qtyOf b (c_symbol c)"
    using moneyKept_trans [OF k2 b0(1)] by (simp add: moneyKept_def)
  moreover have "c_reduceOnly c \<noteq> Some True \<Longrightarrow> \<not> o_reduceOnly ord1"
    using facts(6) by (cases "c_reduceOnly c") auto
  ultimately show ?thesis
    using m px riskOfOrder_accepts [OF assms(1) ro] facts r2 b0(2) new instr
    by (intro exI [of _ m] exI [of _ px]) auto
qed

lemma submission_fill:
  assumes "decimal_exact L" "o_filledQty ord1 = 0"
    and "routeOrder L ord1 m now b3 = Inr (ord, b')" "moneyKept b b3"
  shows "moneyKept b b' \<or> (\<exists>price b4.
    executeFill L ord1 (o_quantity ord1) price TAKER now b3 = Inr b4 \<and> moneyKept b4 b')"
proof -
  have "x_sub L (o_quantity ord1) (o_filledQty ord1) = o_quantity ord1"
    using assms(1,2) by (simp add: lib_exact)
  then show ?thesis
    using routeOrder_fill [OF assms(3)] fillOrder_fill [of L ord1 m TAKER now b3 b'] moneyKept_trans [OF assms(4)]
    by auto
qed

lemma roundStep_le:
  assumes "decimal_exact L" "0 < st"
  shows "roundStep L x st \<le> x"
proof -
  have "of_int \<lfloor>x / st\<rfloor> * st \<le> x / st * st" using assms(2) by (intro mult_right_mono) simp_all
  with assms show ?thesis by (simp add: roundStep_def lib_exact)
qed

lemma submitQuantity_clamped:
  assumes "decimal_exact L" "0 < i_stepSize instr" "c_reduceOnly c = Some True"
  shows "submitQuantity L c instr b \<le> \<bar>qtyOf b (c_symbol c)\<bar>"
  using roundStep_le [OF assms(1,2)] assms(3)
  by (cases "mget (positions b) (c_symbol c)") (simp_all add: submitQuantity_def Let_def qtyOf_def not_less)

text \<open>C4. A reduce-only submission only reduces: whatever the side and size asked for, after
  \<open>submitOrder\<close> the symbol's position lies between flat and what it was (it is neither opened,
  grown nor turned), and no other position has changed.\<close>

theorem reduce_only_reduces:
  assumes "decimal_exact L" "ulid_fresh L" "ordersKeyed L b"
    and "mget (instruments b) (c_symbol c) = Some instr" "0 < i_stepSize instr"
    and "grid (i_quantityPrecision instr) (qtyOf b (c_symbol c)) = qtyOf b (c_symbol c)"
    and "c_reduceOnly c = Some True" "submitOrder L c now b = Inr (ord, b')"
  shows "(0 \<le> qtyOf b (c_symbol c) \<longrightarrow> 0 \<le> qtyOf b' (c_symbol c) \<and> qtyOf b' (c_symbol c) \<le> qtyOf b (c_symbol c))
    \<and> (qtyOf b (c_symbol c) \<le> 0 \<longrightarrow> qtyOf b (c_symbol c) \<le> qtyOf b' (c_symbol c) \<and> qtyOf b' (c_symbol c) \<le> 0)
    \<and> (\<forall>k. k \<noteq> c_symbol c \<longrightarrow> qtyOf b' k = qtyOf b k)"
proof -
  obtain instr' ord1 b2 where i: "mget (instruments b) (c_symbol c) = Some instr'"
    and new: "ord1 = fst (buildOrder L c instr' now b)" and k2: "moneyKept b b2"
    and br: "(o_status ord = REJECTED \<and> moneyKept b b') \<or>
     (\<exists>m b3. checkOrderRisk L now ord1 instr' m b2 = (None, b3) \<and> moneyKept b b3 \<and>
        routeOrder L ord1 m now b3 = Inr (ord, b'))"
    and inst2: "instruments b2 = instruments b"
    by (rule submitOrder_cases [OF assms(2,3,8)]) blast
  have instr: "instr' = instr" using i assms(4) by simp
  note facts = buildOrder_facts [of L c instr now b, folded new [unfolded instr]]
  let ?s = "c_symbol c"
  consider "moneyKept b b'" | m b3 price b4 where "checkOrderRisk L now ord1 instr m b2 = (None, b3)" "moneyKept b b3"
      "executeFill L ord1 (o_quantity ord1) price TAKER now b3 = Inr b4" "moneyKept b4 b'"
    using submission_fill [OF assms(1) facts(8)] br unfolding instr by blast
  then show ?thesis
  proof cases
    case 1
    then show ?thesis by (simp add: moneyKept_def)
  next
    case 2
    obtain px b0 where q: "0 < o_quantity ord1" and b0: "moneyKept b2 b0"
      and ro: "riskOfOrder L ord1 instr b0 px = None"
      by (rule checkOrderRisk_accepts [OF 2(1)])
    obtain i3 realized pos1 where i3: "mget (instruments b3) ?s = Some i3"
      and fp: "fillPosition L i3 (c_side c) (o_quantity ord1) price (o_leverage ord1) now (basePosition b3 ord1 i3 now) = (realized, pos1)"
      and q4: "\<And>k. qtyOf b4 k = (if k = ?s then p_qty pos1 else qtyOf b3 k)"
      by (rule executeFill_effect [OF assms(1) 2(3)]) (use facts(1,3) in metis)
    have "instruments b3 = instruments b2" using checkOrderRisk_frame(1) 2(1) by (metis snd_conv)
    then have "i3 = instr" using i3 inst2 assms(4) by simp
    then have p1: "p_qty pos1 = grid (i_quantityPrecision instr) (qtyOf b ?s + signed (c_side c) (o_quantity ord1))"
      using fillPosition_qty [OF assms(1), of i3 "c_side c" "o_quantity ord1" price "o_leverage ord1" now "basePosition b3 ord1 i3 now"]
        fp facts(1) 2(2) by (simp add: filledQuantity_def moneyKept_def)
    have ro': "o_reduceOnly ord1" using facts(6) assms(7) by simp
    have "\<bar>qtyOf b ?s + signed (c_side c) (o_quantity ord1)\<bar> \<le> \<bar>qtyOf b ?s\<bar>"
      using riskOfOrder_accepts(5) [OF assms(1) ro ro'] facts(1,3) moneyKept_trans [OF k2 b0]
      by (simp add: moneyKept_def)
    moreover have "o_quantity ord1 \<le> \<bar>qtyOf b ?s\<bar>"
      using submitQuantity_clamped [OF assms(1,5,7)] facts(2) by simp
    ultimately have "(0 \<le> qtyOf b ?s \<and> 0 \<le> qtyOf b ?s + signed (c_side c) (o_quantity ord1)
          \<and> qtyOf b ?s + signed (c_side c) (o_quantity ord1) \<le> qtyOf b ?s \<and> qtyOf b ?s \<noteq> 0)
      \<or> (qtyOf b ?s < 0 \<and> qtyOf b ?s + signed (c_side c) (o_quantity ord1) \<le> 0
          \<and> qtyOf b ?s \<le> qtyOf b ?s + signed (c_side c) (o_quantity ord1))"
      using q by (cases "c_side c") auto
    then have "(0 \<le> qtyOf b ?s \<and> 0 \<le> p_qty pos1 \<and> p_qty pos1 \<le> qtyOf b ?s \<and> qtyOf b ?s \<noteq> 0)
      \<or> (qtyOf b ?s < 0 \<and> p_qty pos1 \<le> 0 \<and> qtyOf b ?s \<le> p_qty pos1)"
      unfolding p1 using grd.rnd_nonneg grd.rnd_nonpos grd.rnd_le_fixed [OF _ assms(6)] grd.rnd_ge_fixed [OF _ assms(6)]
      by blast
    then show ?thesis
      using q4 2(2,4) by (auto simp: moneyKept_def)
  qed
qed

text \<open>The concrete submissions.\<close>

lemma holding_keyed: "ordersKeyed exactLib (holdingBroker q m)"
  by (simp add: ordersKeyed_def)

lemma holding_known: "positionsKnown (holdingBroker q m)"
  by (auto simp: positionsKnown_def mget_def split: if_splits)

lemma qtyOf_holding [simp]: "qtyOf (holdingBroker q m) ''BTC'' = q" "entryOf (holdingBroker q m) ''BTC'' = 100"
  by (simp_all add: qtyOf_def entryOf_def)

theorem reduce_only_reduces_witness:
  "\<exists>ord b'. submitOrder exactLib (marketSell 5) 5 (holdingBroker 2 (btcMarket 100 101 100)) = Inr (ord, b') \<and>
     0 \<le> qtyOf b' ''BTC'' \<and> qtyOf b' ''BTC'' \<le> 2"
proof -
  let ?b = "holdingBroker 2 (btcMarket 100 101 100)"
  obtain ord b' where s: "submitOrder exactLib (marketSell 5) 5 ?b = Inr (ord, b')"
    using submitOrder_ok [OF exactLib_exact holding_known, of 2 "btcMarket 100 101 100" "marketSell 5" 5] by auto
  have "grid 2 (2 :: number) = 2" by (simp add: grid_def round_away_def)
  then show ?thesis
    using reduce_only_reduces [OF exactLib_exact exactLib_fresh holding_keyed, of _ _ _ btcPerp, OF _ _ _ _ s] s
    by simp
qed

lemma limitBuy_symbol: "c_symbol (limitBuy q p) = ''BTC''"
  by (simp add: limitBuy_def)

lemma resting_buy:
  "\<exists>ord b'. submitOrder exactLib (limitBuy 2 90) 5 (holdingBroker 0 (btcMarket 100 101 100)) = Inr (ord, b') \<and>
     o_status ord = NEW"
proof -
  let ?b = "holdingBroker 0 (btcMarket 100 101 100)"
  define ord where "ord = fst (buildOrder exactLib (limitBuy 2 90) btcPerp 5 ?b)"
  define b2 where "b2 = emitOrderEvent 5 ORDER_RECEIVED ord None None (setOrder ord (snd (buildOrder exactLib (limitBuy 2 90) btcPerp 5 ?b)))"
  have ord: "o_type ord = LIMIT" "o_side ord = BUY" "o_symbol ord = ''BTC''" "o_quantity ord = 2" "o_status ord = NEW"
    "o_limitPrice ord = Some 90" "o_leverage ord = 5" "o_reduceOnly ord = False" "o_postOnly ord = False"
    "o_timeInForce ord = GTC"
    by (simp_all add: ord_def buildOrder_def limitBuy_def marketBuy_def Let_def nextUlid_def
        submitQuantity_def roundStep_def roundTick_def exactLib_def round_away_def)
  have bo: "\<exists>n. snd (buildOrder exactLib (limitBuy 2 90) btcPerp 5 ?b) = ?b\<lparr>ulids := n\<rparr>"
    by (rule buildOrder_facts)
  then have b2: "positions b2 = [(''BTC'', btcPosition 0)]" "risk b2 = defaultRisk" "currentUtcDay b2 = 0"
    "orders b2 = [(o_id ord, ord)]" "walletBalance b2 = 10000" "dayStartEquity b2 = dayStartEquity freshBroker"
    "getMarket b2 ''BTC'' = Some (btcMarket 100 101 100)" "makerFeeRate b2 = 2 / 10000"
    by (auto simp: b2_def mset_def getMarket_def holdingBroker_def)
  have "riskOfOrder exactLib ord btcPerp b2 90 = None"
    by (simp add: riskOfOrder_def Let_def ord b2 exactLib_def defaultRisk_def getOpenOrders_def mvals_def)
  moreover have "riskOfAccount exactLib ord (snd (calculateAccountState exactLib b2)) 90 (fst (calculateAccountState exactLib b2)) = None"
    by (simp add: riskOfAccount_def Let_def ord b2 exactLib_def defaultRisk_def calculateAccountState_def
        noSums_def accountPosition_def markFor_def freshBroker_def newBroker_def nothingSaved_def freshConfig_def
        recalculateAccount_def)
  ultimately have "checkOrderRisk exactLib 5 ord btcPerp (btcMarket 100 101 100) b2 = (None, snd (calculateAccountState exactLib b2))"
    by (simp add: checkOrderRisk_def Let_def ord b2 rollDailyEquityIfNeeded_def utcDay_def defaultRisk_def
        estimatePrice_def split_beta)
  moreover have "submitOrder exactLib (limitBuy 2 90) 5 ?b =
      (case checkOrderRisk exactLib 5 ord btcPerp (btcMarket 100 101 100) b2 of
         (Some reason, b3) \<Rightarrow> Inr (rejectOrder ord reason 5 b3)
       | (None, b3) \<Rightarrow> routeOrder exactLib ord (btcMarket 100 101 100) 5 b3)"
    using b2(7) by (simp add: submitOrder_def limitBuy_symbol Let_def ord_def [symmetric] b2_def [symmetric]
        isMarketStale_def b2 defaultRisk_def split_beta) (unfold ord_def, rule refl)
  ultimately show ?thesis
    by (simp add: routeOrder_def ord isLimitMarketable_def)
qed

theorem accepted_within_limits_witness:
  "\<exists>ord b' px. submitOrder exactLib (limitBuy 2 90) 5 (holdingBroker 0 (btcMarket 100 101 100)) = Inr (ord, b') \<and>
     o_status ord \<noteq> REJECTED \<and> 0 < px \<and> 2 * px \<le> (10000 :: number)"
proof -
  let ?b = "holdingBroker 0 (btcMarket 100 101 100)"
  obtain ord b' where s: "submitOrder exactLib (limitBuy 2 90) 5 ?b = Inr (ord, b')" "o_status ord = NEW"
    using resting_buy by blast
  have "mget (instruments ?b) (c_symbol (limitBuy 2 90)) = Some btcPerp" by (simp add: limitBuy_def marketBuy_def)
  moreover have "submitQuantity exactLib (limitBuy 2 90) btcPerp ?b = 2" "c_reduceOnly (limitBuy 2 90) \<noteq> Some True"
    by (simp_all add: submitQuantity_def Let_def limitBuy_def marketBuy_def roundStep_def exactLib_def)
  ultimately have "\<exists>px. 0 < px \<and> 2 * px \<le> r_maxOrderNotional (risk ?b)"
    using accepted_within_limits [OF exactLib_exact exactLib_fresh holding_keyed _ s(1)] s(2) by auto
  then show ?thesis using s by (auto simp: defaultRisk_def)
qed

end
