(* ===== verification/Paper_Broker_Accounts.thy ===== *)
theory Paper_Broker_Accounts
  imports Paper_Broker_Guarantees
begin

section \<open>Account state, funding and liquidation\<close>

text \<open>
  \<open>calculateAccountState\<close> against the sums it stands for, funding as one sum over the open
  positions, the liquidation loop, and the finality of orders over whole runs.
\<close>

subsection \<open>The account as sums over the positions\<close>

definition markOf :: "lib \<Rightarrow> broker \<Rightarrow> position \<Rightarrow> number" where
  "markOf L b pos = markFor L (getMarket b (p_symbol pos)) pos"

definition isMarked :: "lib \<Rightarrow> broker \<Rightarrow> position \<Rightarrow> bool" where
  "isMarked L b pos \<longleftrightarrow> p_qty pos \<noteq> 0 \<and> markOf L b pos \<noteq> 0"

definition unrealizedOf :: "lib \<Rightarrow> broker \<Rightarrow> position \<Rightarrow> number" where
  "unrealizedOf L b pos = (if isMarked L b pos then p_qty pos * (markOf L b pos - p_entryPrice pos) else 0)"

definition initialMarginOf :: "lib \<Rightarrow> broker \<Rightarrow> position \<Rightarrow> number" where
  "initialMarginOf L b pos = (if isMarked L b pos then \<bar>p_qty pos\<bar> * markOf L b pos / p_leverage pos else 0)"

definition maintenanceMarginOf :: "lib \<Rightarrow> broker \<Rightarrow> position \<Rightarrow> number" where
  "maintenanceMarginOf L b pos =
     (if isMarked L b pos then \<bar>p_qty pos\<bar> * markOf L b pos * p_maintenanceMarginRate pos else 0)"

lemma accountLoop_sums:
  assumes L: "decimal_exact L" and lev: "\<forall>pos \<in> set (mvals ps). p_leverage pos \<noteq> 0"
  shows "s_unrealizedPnl (snd (accountLoop L b ps acc)) =
      s_unrealizedPnl acc + sum_list (map (unrealizedOf L b) (mvals ps))"
    "s_initialMargin (snd (accountLoop L b ps acc)) =
      s_initialMargin acc + sum_list (map (initialMarginOf L b) (mvals ps))"
    "s_maintenanceMargin (snd (accountLoop L b ps acc)) =
      s_maintenanceMargin acc + sum_list (map (maintenanceMarginOf L b) (mvals ps))"
    "s_openPositionsCount (snd (accountLoop L b ps acc)) =
      s_openPositionsCount acc + length (filter (\<lambda>pos. p_qty pos \<noteq> 0) (mvals ps))"
  using lev
proof (induction ps arbitrary: acc)
  case Nil
  { case 1 then show ?case by (simp add: mvals_def) next
    case 2 then show ?case by (simp add: mvals_def) next
    case 3 then show ?case by (simp add: mvals_def) next
    case 4 then show ?case by (simp add: mvals_def) }
next
  case (Cons kp ps)
  obtain k pos where kp: "kp = (k, pos)" by (cases kp)
  have split: "accountLoop L b (kp # ps) acc =
      (let (pos1, acc1) = accountPosition L (getMarket b (p_symbol pos)) pos acc;
           (ps1, acc2) = accountLoop L b ps acc1 in ((k, pos1) # ps1, acc2))" for acc
    by (simp add: kp)
  have mv: "mvals (kp # ps) = pos # mvals ps" by (simp add: mvals_def kp)
  note one = accountPosition_def Let_def isMarked_def markOf_def unrealizedOf_def initialMarginOf_def
    maintenanceMarginOf_def
  have lev': "\<forall>p \<in> set (mvals ps). p_leverage p \<noteq> 0"
    if "\<forall>p \<in> set (mvals (kp # ps)). p_leverage p \<noteq> 0" using that by (simp add: mv)
  { case 1 with L show ?case
      using Cons.IH(1) [OF lev' [OF 1]] by (simp add: split split_beta mv one lib_exact) next
    case 2 with L show ?case
      using Cons.IH(2) [OF lev' [OF 2]] by (simp add: split split_beta mv one lib_exact) next
    case 3 with L show ?case
      using Cons.IH(3) [OF lev' [OF 3]] by (simp add: split split_beta mv one lib_exact) next
    case 4 with L show ?case
      using Cons.IH(4) [OF lev' [OF 4]] by (simp add: split split_beta mv one) }
qed

text \<open>The account state is the sum of its positions: equity is wallet plus the PnL of every
  open position at its mark (mark price, else last price, else mid price, else entry), margins
  are summed the same way, the available balance is what equity leaves above the initial
  margin and never negative, and the peak equity is the running maximum, so that the drawdown
  is between 0 and the fall from the peak.\<close>

theorem account_is_sum_of_positions:
  assumes "decimal_exact L" "\<forall>pos \<in> set (mvals (positions b)). p_leverage pos \<noteq> 0"
  shows "let acct = fst (calculateAccountState L b); b' = snd (calculateAccountState L b);
      equity = walletBalance b + sum_list (map (unrealizedOf L b) (mvals (positions b))) in
    a_walletBalance acct = walletBalance b \<and> a_equity acct = equity \<and>
    a_initialMargin acct = sum_list (map (initialMarginOf L b) (mvals (positions b))) \<and>
    a_maintenanceMargin acct = sum_list (map (maintenanceMarginOf L b) (mvals (positions b))) \<and>
    a_availableBalance acct = max 0 (equity - a_initialMargin acct) \<and>
    a_openPositionsCount acct = length (filter (\<lambda>pos. p_qty pos \<noteq> 0) (mvals (positions b))) \<and>
    peakEquity b' = max (peakEquity b) equity \<and> a_peakEquity acct = Some (peakEquity b') \<and>
    (0 < peakEquity b' \<longrightarrow> a_drawdown acct = Some ((peakEquity b' - equity) / peakEquity b'))"
proof -
  note sums = accountLoop_sums [OF assms, of b noSums]
  show ?thesis
    using assms(1) sums
    by (simp add: calculateAccountState_def Let_def split_beta noSums_def lib_exact max_def divide_nonneg_pos)
qed

subsection \<open>Funding\<close>

text \<open>What one position pays at a funding event; a negative payment is received.\<close>

definition fundingDue :: "broker \<Rightarrow> position \<Rightarrow> number" where
  "fundingDue b pos = (case getMarket b (p_symbol pos) of None \<Rightarrow> 0
     | Some m \<Rightarrow> if truthy (m_mark m) then p_qty pos * the (m_mark m) * coalesce (m_fundingRate m) 0 else 0)"

lemma fundPosition_due:
  assumes L: "decimal_exact L" and pos: "mget (positions b) k = Some pos"
  shows "walletBalance (fundPosition L now k b) = walletBalance b - fundingDue b pos"
    "totalFunding (fundPosition L now k b) = totalFunding b + fundingDue b pos"
proof -
  show "walletBalance (fundPosition L now k b) = walletBalance b - fundingDue b pos"
    using L pos by (cases "getMarket b (p_symbol pos)")
      (auto simp: fundPosition_def fundingDue_def Let_def nextUlid_eq lib_exact coalesce_def split: option.splits)
  then show "totalFunding (fundPosition L now k b) = totalFunding b + fundingDue b pos"
    using fundPosition_fundingOnly [OF L, of b now k] by (simp add: fundingOnly_def)
qed

lemma fundPosition_others:
  "j \<noteq> k \<Longrightarrow> mget (positions (fundPosition L now k b)) j = mget (positions b) j"
  using fundPosition_positions [of L now k b] by auto

lemma fundPosition_getMarket [simp]: "getMarket (fundPosition L now k b) = getMarket b"
  by (intro ext) (simp add: getMarket_def fundPosition_def Let_def nextUlid_eq split: option.split)

lemma fundingDue_fund [simp]: "fundingDue (fundPosition L now k b) = fundingDue b"
  by (intro ext) (simp add: fundingDue_def)

lemma fold_fundPosition:
  assumes L: "decimal_exact L" and "distinct ks" "\<forall>k \<in> set ks. mget (positions b) k \<noteq> None"
  shows "walletBalance (fold (fundPosition L now) ks b) =
      walletBalance b - sum_list (map (\<lambda>k. fundingDue b (the (mget (positions b) k))) ks)"
    "totalFunding (fold (fundPosition L now) ks b) =
      totalFunding b + sum_list (map (\<lambda>k. fundingDue b (the (mget (positions b) k))) ks)"
  using assms(2,3)
proof (induction ks arbitrary: b)
  case Nil
  { case 1 show ?case by simp next case 2 show ?case by simp }
next
  case (Cons k ks)
  have same: "map (\<lambda>j. fundingDue b (the (mget (positions (fundPosition L now k b)) j))) ks =
      map (\<lambda>j. fundingDue b (the (mget (positions b) j))) ks" if "distinct (k # ks)" for b
  proof (rule map_cong)
    fix j assume "j \<in> set ks"
    then have "j \<noteq> k" using that by auto
    then show "fundingDue b (the (mget (positions (fundPosition L now k b)) j)) =
        fundingDue b (the (mget (positions b) j))"
      by (simp add: fundPosition_others)
  qed simp
  have stored: "\<forall>j \<in> set ks. mget (positions (fundPosition L now k b)) j \<noteq> None"
    if "distinct (k # ks)" "\<forall>j \<in> set (k # ks). mget (positions b) j \<noteq> None" for b
    using that fundPosition_others [of _ k L now b] by (metis distinct.simps(2) list.set_intros(2))
  { case 1
    then obtain pos where "mget (positions b) k = Some pos" by auto
    with 1 show ?case
      using Cons.IH(1) [of "fundPosition L now k b"] fundPosition_due(1) [OF L] stored [OF 1] same [OF 1(1)] by simp
  next
    case 2
    then obtain pos where "mget (positions b) k = Some pos" by auto
    with 2 show ?case
      using Cons.IH(2) [of "fundPosition L now k b"] fundPosition_due(2) [OF L] stored [OF 2] same [OF 2(1)] by simp }
qed

lemma mvals_keys: "distinct (mkeys m) \<Longrightarrow> map (\<lambda>k. the (mget m k)) (mkeys m) = mvals m"
  by (simp add: mkeys_def mvals_def mget_def comp_def)
    (metis (no_types, lifting) case_prod_conv map_eq_conv map_of_eq_Some_iff old.prod.exhaust option.sel prod.collapse)

text \<open>Funding charges every open position once: \<open>applyFunding\<close> takes from the wallet, and adds
  to total funding, the sum over the stored positions of quantity times mark price times
  funding rate; a market without a mark price or a funding rate charges nothing, and longs pay
  what shorts of the same size receive.\<close>

theorem funding_is_sum_over_positions:
  assumes "decimal_exact L" "distinct (mkeys (positions b))"
  shows "walletBalance (applyFunding L now b) =
      walletBalance b - sum_list (map (fundingDue b) (mvals (positions b))) \<and>
    totalFunding (applyFunding L now b) =
      totalFunding b + sum_list (map (fundingDue b) (mvals (positions b)))"
proof -
  have "\<forall>k \<in> set (mkeys (positions b)). mget (positions b) k \<noteq> None"
    by (simp add: mget_None_iff)
  moreover have "map (\<lambda>k. fundingDue b (the (mget (positions b) k))) (mkeys (positions b)) =
      map (fundingDue b) (mvals (positions b))"
    using mvals_keys [OF assms(2)] by (metis (no_types, lifting) List.map.compositionality comp_def map_cong)
  ultimately show ?thesis
    using fold_fundPosition [OF assms(1,2)] by (simp add: applyFunding_def)
qed

subsection \<open>Liquidation\<close>

definition marked :: "broker \<Rightarrow> string \<Rightarrow> bool" where
  "marked b k \<longleftrightarrow> truthy (Option.bind (getMarket b k) m_mark)"

lemma qtyOf_step:
  assumes L: "decimal_exact L" and known: "positionsKnown b"
    and l: "liquidatePosition L now k b = Inr b'"
  shows "qtyOf b' j = (if j = k \<and> marked b k then 0 else qtyOf b j)" "getMarket b' = getMarket b"
    "mkeys (positions b') = mkeys (positions b)"
    "isLiquidating b' = isLiquidating b" "liquidations b' = liquidations b"
proof -
  have "(qtyOf b' j = (if j = k \<and> marked b k then 0 else qtyOf b j)) \<and> getMarket b' = getMarket b \<and>
    mkeys (positions b') = mkeys (positions b) \<and>
    isLiquidating b' = isLiquidating b \<and> liquidations b' = liquidations b" for j
  proof (cases "mget (positions b) k")
    case None
    then show ?thesis using l by (auto simp: liquidatePosition_def qtyOf_def)
  next
    case (Some pos)
    then have sy: "p_symbol pos = k" and q: "qtyOf b k = p_qty pos"
      using known by (auto simp: positionsKnown_def qtyOf_def)
    show ?thesis
    proof (cases "p_qty pos = 0 \<or> \<not> marked b k")
      case True
      then have "b' = b"
        using l Some sy by (auto simp: liquidatePosition_def marked_def truthy_def split: option.splits if_splits)
      then show ?thesis using True q by auto
    next
      case False
      then obtain mk where mk: "Option.bind (getMarket b (p_symbol pos)) m_mark = Some mk" "mk \<noteq> 0"
        using sy by (auto simp: marked_def truthy_def split: option.splits)
      let ?b2 = "snd (nextUlid L (snd (nextUlid L b)))"
      let ?ord = "liquidationOrder pos (fst (nextUlid L b)) (fst (nextUlid L (snd (nextUlid L b)))) now"
      let ?b3 = "setOrder ?ord ?b2"
      obtain b4 o1 o2 where ex: "executeFill L ?ord \<bar>p_qty pos\<bar> mk TAKER now ?b3 = Inr b4"
        and b': "b' = emitOrderEvent now ORDER_FILLED o2 (Some mk) (Some ''LIQUIDATION'') (setOrder o1 b4)"
        using l Some False mk by (auto simp: liquidatePosition_def Let_def split_beta bindR_eq_Inr)
      have oq: "o_symbol ?ord = k" "signed (o_side ?ord) \<bar>p_qty pos\<bar> = - p_qty pos"
        using sy by (auto simp: liquidationOrder_def)
      have b3: "positions ?b3 = positions b" "getMarket ?b3 = getMarket b" by (simp_all add: getMarket_def fun_eq_iff)
      have q3: "qtyOf ?b3 i = qtyOf b i" for i using qtyOf_same(1) [OF b3(1)] .
      obtain instr realized pos1 where
        fp: "fillPosition L instr (o_side ?ord) \<bar>p_qty pos\<bar> mk (o_leverage ?ord) now (basePosition ?b3 ?ord instr now) = (realized, pos1)"
        and q4: "\<And>i. qtyOf b4 i = (if i = o_symbol ?ord then p_qty pos1 else qtyOf ?b3 i)"
        and m4: "getMarket b4 = getMarket ?b3" and k4: "mkeys (positions b4) = mkeys (mset (o_symbol ?ord) pos1 (positions ?b3))"
        and l4: "isLiquidating b4 = isLiquidating ?b3" "liquidations b4 = liquidations ?b3"
        by (rule executeFill_effect [OF L ex]) (rule that)
      have "p_qty pos1 = 0"
        using fillPosition_qty [OF L, of instr "o_side ?ord" "\<bar>p_qty pos\<bar>" mk "o_leverage ?ord" now "basePosition ?b3 ?ord instr now"]
          fp oq q3 q by (simp add: filledQuantity_def grd.rnd_zero)
      moreover have "qtyOf b' j = qtyOf b4 j" by (rule qtyOf_same) (simp add: b')
      moreover have "getMarket b' = getMarket b4" by (simp add: b' getMarket_def fun_eq_iff)
      ultimately show ?thesis
        using q4 [of j] m4 b3(2) k4 l4 oq(1) q3 Some False by (simp add: b')
    qed
  qed
  then show "qtyOf b' j = (if j = k \<and> marked b k then 0 else qtyOf b j)" "getMarket b' = getMarket b"
    "mkeys (positions b') = mkeys (positions b)"
    "isLiquidating b' = isLiquidating b" "liquidations b' = liquidations b"
    by blast+
qed

lemma liquidate_all:
  assumes L: "decimal_exact L" and known: "positionsKnown b"
  shows "\<exists>b'. foldR (liquidatePosition L now) ks b = Inr b' \<and>
    (\<forall>k. qtyOf b' k = (if k \<in> set ks \<and> marked b k then 0 else qtyOf b k)) \<and>
    mkeys (positions b') = mkeys (positions b) \<and>
    isLiquidating b' = isLiquidating b \<and> liquidations b' = liquidations b"
  using known
proof (induction ks arbitrary: b)
  case Nil
  then show ?case by simp
next
  case (Cons k ks)
  obtain b1 where b1: "liquidatePosition L now k b = Inr b1" "positionsKnown b1"
    using liquidatePosition_ok [OF L Cons.prems(1)] by blast
  note step = qtyOf_step [OF L Cons.prems(1) b1(1)]
  have "marked b1 = marked b" using step(2) by (simp add: marked_def fun_eq_iff)
  with Cons.IH [OF b1(2)] show ?case
    using b1(1) step(1,3,4,5) by (auto split: if_splits)
qed

text \<open>C5. A liquidation closes everything it can price: when equity is at or below a positive maintenance
  margin, \<open>checkLiquidation\<close> succeeds, closes every position whose market has a mark price, leaves the
  quantities of the others, counts one liquidation and clears its re-entrancy flag. Otherwise it changes no
  balance, total, fill, order or effect, and no quantity or entry price of a position.\<close>

theorem liquidation_flattens:
  assumes "decimal_exact L" "positionsKnown b" "\<not> isLiquidating b"
  shows "\<exists>b'. checkLiquidation L now b = Inr b' \<and> \<not> isLiquidating b' \<and>
    (if 0 < a_maintenanceMargin (fst (calculateAccountState L b)) \<and>
        a_equity (fst (calculateAccountState L b)) \<le> a_maintenanceMargin (fst (calculateAccountState L b))
     then (\<forall>k. qtyOf b' k = (if marked b k then 0 else qtyOf b k)) \<and> liquidations b' = Suc (liquidations b)
     else moneyKept b b' \<and> orders b' = orders b \<and> effects b' = effects b \<and> liquidations b' = liquidations b)"
proof -
  define acct where "acct = fst (calculateAccountState L b)"
  define b1 where "b1 = snd (calculateAccountState L b)"
  define b2 where "b2 = b1\<lparr>isLiquidating := True, liquidations := Suc (liquidations b1)\<rparr>"
  have pos: "positions b1 = remarkAll L b (positions b)" by (simp add: b1_def)
  have q1: "qtyOf b1 k = qtyOf b k" for k by (rule qtyOf_remarked [OF pos])
  have q2: "qtyOf b2 k = qtyOf b k" for k using q1 by (simp add: b2_def qtyOf_def)
  have known: "positionsKnown b2"
    using assms(2) unfolding positionsKnown_def b2_def b1_def by simp (metis remark_frame(2))
  have marks: "marked b2 = marked b" by (simp add: b2_def b1_def getMarket_def marked_def fun_eq_iff)
  have kept: "moneyKept b b1" by (rule moneyKept_remarked [OF _ _ _ _ _ pos]) (simp_all add: b1_def)
  from liquidate_all [OF assms(1) known] obtain b3 where
    b3: "foldR (liquidatePosition L now) (mkeys (positions b1)) b2 = Inr b3"
    "\<forall>k. qtyOf b3 k = (if k \<in> set (mkeys (positions b1)) \<and> marked b2 k then 0 else qtyOf b2 k)"
    "liquidations b3 = liquidations b2"
    by blast
  have "qtyOf b2 k = 0" if "k \<notin> set (mkeys (positions b1))" for k
    using that mget_None_iff [of "positions b1" k] by (simp add: b2_def qtyOf_def)
  then have "qtyOf b3 k = (if marked b k then 0 else qtyOf b k)" for k using b3(2) q2 [of k] marks by auto
  then have "qtyOf ((recalculateAccount L b3)\<lparr>isLiquidating := False\<rparr>) k = (if marked b k then 0 else qtyOf b k)" for k
    using qtyOf_remarked(1) [of "(recalculateAccount L b3)\<lparr>isLiquidating := False\<rparr>" L b3 b3 k] by simp
  then show ?thesis
    using assms(3) kept b3(1,3)
    by (auto simp: checkLiquidation_def Let_def split_beta acct_def [symmetric] b1_def [symmetric] b2_def [symmetric])
      (simp_all add: b1_def b2_def)
qed

subsection \<open>What a fill costs\<close>

text \<open>C3. A fill costs its fee and nothing else: valued at the fill's own price, wallet plus open
  position are worth after \<open>executeFill\<close> what they were worth before it, less the fee. It holds
  for opening, reducing, closing and turning a position exactly, and for growing one up to the
  rounding of the averaged entry price to the instrument's price precision (at most half a
  unit of it per contract held).\<close>

theorem fill_costs_its_fee:
  assumes "decimal_exact L" "positionsKnown b" "mget (instruments b) (o_symbol ord) = Some instr"
    and "grid (i_quantityPrecision instr) (qtyOf b (o_symbol ord) + signed (o_side ord) quantity)
        = qtyOf b (o_symbol ord) + signed (o_side ord) quantity"
  shows "\<exists>b'. executeFill L ord quantity price liq now b = Inr b' \<and>
    \<bar>(walletBalance b' + valueAt price b' (o_symbol ord))
      - (walletBalance b + valueAt price b (o_symbol ord) - feeOn b liq quantity price)\<bar>
    \<le> fillSlack b ord quantity"
proof -
  obtain b' where "executeFill L ord quantity price liq now b = Inr b'"
    using executeFill_ok [OF assms(1,2)] assms(3) by blast
  then show ?thesis using fill_value [OF assms(1) _ assms(3,4)] by blast
qed

theorem fill_costs_its_fee_witness:
  "\<exists>b'. executeFill exactLib (limitOrder 3 102) 3 101 TAKER 5 (holdingBroker (- 2) (btcMarket 100 101 100)) = Inr b' \<and>
    walletBalance b' + valueAt 101 b' ''BTC'' = 10000 - 2 - 303 * (4 / 10000)"
proof -
  have g: "grid 2 (1 :: number) = 1" by (simp add: grid_def round_away_def)
  have "fillSlack (holdingBroker (- 2) (btcMarket 100 101 100)) (limitOrder 3 102) 3 = 0"
    by (simp add: fillSlack_def fillKind_def)
  then show ?thesis
    using fill_costs_its_fee [OF exactLib_exact holding_known, of "- 2" "btcMarket 100 101 100" "limitOrder 3 102"
        btcPerp 3 101 TAKER 5] g by (simp add: valueAt_def feeOn_def)
qed

subsection \<open>Final orders\<close>

text \<open>C6. A terminal order is final: once an order is FILLED, CANCELED, REJECTED or EXPIRED, no
  sequence of submissions, cancels, market updates, liquidations, funding and adjustments
  changes its record in any way; only an account reset removes it.\<close>

theorem terminal_orders_final:
  assumes "ulid_fresh L" "ordersKeyed L b" "mget (orders b) k = Some ord" "\<not> isOpen ord"
    and "list_all (\<lambda>x. \<not> isReset x) xs"
  shows "mget (orders (fold (perform L) xs b)) k = Some ord"
  using orderBook.inv_guarded_run [of L k ord b xs] assms by (simp add: isSettled_def)

subsection \<open>Concrete runs\<close>

theorem terminal_orders_final_witness:
  "\<exists>k ord. o_status ord = REJECTED \<and>
     mget (orders (fold (perform exactLib) [(Submit (marketBuy 1), 5), (CancelAll None, 6),
       (Market ''BTC'' [Bid (Some 100), Ask (Some 101)], 7), (Submit (marketBuy 2), 8)] freshBroker)) k = Some ord"
proof -
  let ?b = "perform exactLib (Submit (marketBuy 1), 5) freshBroker"
  let ?xs = "[(CancelAll None, 6), (Market ''BTC'' [Bid (Some 100), Ask (Some 101)], 7), (Submit (marketBuy 2), 8)]"
  have "ordersKeyed exactLib freshBroker" by (simp add: ordersKeyed_def)
  moreover have "settled exactLib {} freshBroker ?b" by (rule settled_perform) (simp_all add: isReset_def)
  ultimately have keyed: "ordersKeyed exactLib ?b" by (simp add: settled_def)
  define ord where "ord = fst (buildOrder exactLib (marketBuy 1) btcPerp 5 freshBroker)
    \<lparr>o_status := REJECTED, o_rejectReason := Some ''NO_MARKET_STATE'', o_updatedAtUtc := 5\<rparr>"
  have ord: "mget (orders ?b) (o_id ord) = Some ord" "o_status ord = REJECTED"
    by (simp_all add: submitOrder_def getMarket_def rejectOrder_def Let_def split_beta afterSubmit_def ord_def)
  have "mget (orders (fold (perform exactLib) ?xs ?b)) (o_id ord) = Some ord"
    by (rule terminal_orders_final [OF exactLib_fresh keyed ord(1)]) (use ord(2) in \<open>simp_all add: isOpen_def isReset_def\<close>)
  with ord(2) show ?thesis by auto
qed

theorem account_is_sum_of_positions_witness:
  "a_equity (fst (calculateAccountState exactLib (holdingBroker 500 (btcMarket 79 80 80)))) = 0"
proof -
  have "unrealizedOf exactLib (holdingBroker 500 (btcMarket 79 80 80)) (btcPosition 500) = - 10000"
    by (simp add: unrealizedOf_def isMarked_def markOf_def markFor_def)
  then show ?thesis
    using account_is_sum_of_positions [OF exactLib_exact, of "holdingBroker 500 (btcMarket 79 80 80)"]
    by (simp add: mvals_def Let_def)
qed

theorem funding_is_sum_over_positions_witness:
  "walletBalance (applyFunding exactLib 5 (holdingBroker 500 (btcMarket 79 80 80))) = 9996"
  using funding_is_sum_over_positions [OF exactLib_exact, of "holdingBroker 500 (btcMarket 79 80 80)" 5]
  by (simp add: mkeys_def mvals_def fundingDue_def)

theorem liquidation_flattens_witness:
  "\<exists>b'. checkLiquidation exactLib 5 (holdingBroker 500 (btcMarket 79 80 80)) = Inr b' \<and>
     qtyOf b' ''BTC'' = 0 \<and> liquidations b' = Suc (liquidations freshBroker)"
proof -
  let ?b = "holdingBroker 500 (btcMarket 79 80 80)"
  have acct: "a_equity (fst (calculateAccountState exactLib ?b)) = 0"
    "a_maintenanceMargin (fst (calculateAccountState exactLib ?b)) = 200"
    by (simp_all add: calculateAccountState_def accountPosition_def Let_def markFor_def noSums_def exactLib_def)
  have "marked ?b ''BTC''" by (simp add: marked_def truthy_def mget_def getMarket_def)
  then show ?thesis
    using liquidation_flattens [OF exactLib_exact holding_known, of 500 "btcMarket 79 80 80" 5] acct
    by (auto simp: holdingBroker_def)
qed

end
