(* ===== verification/Paper_Broker_Restart.thy ===== *)
theory Paper_Broker_Restart
  imports Paper_Broker_Accounts
begin

section \<open>What the persister is told\<close>

text \<open>
  The broker's durable state is what it hands to the persister. The sequence of these calls
  (\<open>effects\<close>) contains every fill and every funding payment exactly once and in order, and its
  ledger entries account for every change of the wallet. So a broker constructed from what a
  run persisted has the totals of the run.
\<close>

fun savedFills :: "effect list \<Rightarrow> fill list" where
  "savedFills [] = []"
| "savedFills (SaveFill f # es) = f # savedFills es"
| "savedFills (_ # es) = savedFills es"

fun savedPayments :: "effect list \<Rightarrow> fundingPayment list" where
  "savedPayments [] = []"
| "savedPayments (SaveFundingPayment fp # es) = fp # savedPayments es"
| "savedPayments (_ # es) = savedPayments es"

text \<open>Credits less debits of the ledger entries.\<close>

fun ledgerNet :: "effect list \<Rightarrow> number" where
  "ledgerNet [] = 0"
| "ledgerNet (SaveLedgerEntry l # es) =
     (case l_direction l of CREDIT \<Rightarrow> l_amount l | DEBIT \<Rightarrow> - l_amount l) + ledgerNet es"
| "ledgerNet (_ # es) = ledgerNet es"

lemma saved_append [simp]:
  "savedFills (es @ fs) = savedFills es @ savedFills fs"
  "savedPayments (es @ fs) = savedPayments es @ savedPayments fs"
  "ledgerNet (es @ fs) = ledgerNet es + ledgerNet fs"
proof -
  show "savedFills (es @ fs) = savedFills es @ savedFills fs"
    by (induction es rule: savedFills.induct) simp_all
  show "savedPayments (es @ fs) = savedPayments es @ savedPayments fs"
    by (induction es rule: savedPayments.induct) simp_all
  show "ledgerNet (es @ fs) = ledgerNet es + ledgerNet fs"
    by (induction es rule: ledgerNet.induct) simp_all
qed

subsection \<open>Calls that carry no money\<close>

definition quietly :: "broker \<Rightarrow> broker \<Rightarrow> bool" where
  "quietly b b' \<longleftrightarrow> (\<exists>es. effects b' = effects b @ es \<and> savedFills es = [] \<and> savedPayments es = [] \<and> ledgerNet es = 0)"

lemma quietly_same [simp]: "effects b' = effects b \<Longrightarrow> quietly b b'"
  by (auto simp: quietly_def intro: exI [of _ "[]"])

lemma quietly_trans: "quietly b1 b2 \<Longrightarrow> quietly b2 b3 \<Longrightarrow> quietly b1 b3"
  unfolding quietly_def by (elim exE conjE, rule_tac x = "es @ esa" in exI) simp

lemma quietly_events [simp]:
  "quietly b (emitOrderEvent now ev ord p r b)"
  "quietly b (emitPositionEvent L now pev pos q1 q2 p b)"
  by (auto simp: quietly_def emitOrderEvent_def emitPositionEvent_def emit_def nextUlid_eq)

lemma quietly_rejectOrder [simp]: "quietly b (snd (rejectOrder ord reason now b))"
  unfolding rejectOrder_def Let_def snd_conv by (rule quietly_trans [OF quietly_same quietly_events(1)]) simp

lemma quietly_cancelOrder [simp]: "quietly b (snd (cancelOrder k reason now b))"
proof (cases "mget (orders b) k")
  case (Some ord)
  have "quietly b (emitOrderEvent now ORDER_CANCELED o1 None (Some reason) (setOrder o1 b))" for o1
    by (rule quietly_trans [OF quietly_same quietly_events(1)]) simp
  with Some show ?thesis by (simp add: cancelOrder_def Let_def)
qed (simp add: cancelOrder_def)

lemma quietly_cancelIf [simp]: "quietly b (cancelIf P reason now k b)"
  by (simp add: cancelIf_def split: option.split)

lemma quietly_fold_cancelIf [simp]: "quietly b (fold (cancelIf P reason now) ks b)"
  by (induction ks arbitrary: b) (auto intro: quietly_trans [OF quietly_cancelIf])

lemma quietly_cancels [simp]:
  "quietly b (cancelAllOrders sy now b)" "quietly b (cancelStaleBracketOrders symbol now b)"
  by (simp_all add: cancelAllOrders_def cancelStaleBracketOrders_def)

lemma quietly_notifyFill [simp]: "quietly b (notifyFill now ord fl b)"
  by (simp add: notifyFill_def split: option.split)

lemma quietly_applyPositionFill:
  assumes "applyPositionFill L symbol side quantity price leverage now b = Inr (r, b')"
  shows "quietly b b'"
proof -
  have ev: "quietly b (emitPositionEvent L now kind pos q1 q2 p (b\<lparr>positions := ps\<rparr>))" for kind pos q1 q2 p ps
    by (rule quietly_trans [OF quietly_same quietly_events(2)]) simp
  show ?thesis
    using assms ev quietly_trans [OF ev quietly_cancels(2)]
    by (auto simp: applyPositionFill_def Let_def split_beta split: option.splits if_splits)
qed

lemma quietly_settleFill:
  assumes s: "settleFill L ord quantity price liq now b = Inr (r, fee, b')"
  shows "quietly b b'"
proof -
  let ?fee = "x_mul L (x_mul L quantity price) (if liq = MAKER then makerFeeRate b else takerFeeRate b)"
  let ?b1 = "b\<lparr>walletBalance := x_sub L (walletBalance b) ?fee, totalFees := x_add L (totalFees b) ?fee\<rparr>"
  from s obtain b2 where
    ap: "applyPositionFill L (o_symbol ord) (o_side ord) quantity price (o_leverage ord) now ?b1 = Inr (r, b2)"
    by (auto simp: settleFill_def Let_def bindR_eq_Inr)
  have s2: "quietly b b2"
    by (rule quietly_trans [OF quietly_same quietly_applyPositionFill [OF ap]]) simp
  have save: "quietly b2 b3" if "effects b3 = effects b2 @ [SavePosition pos]" for b3 pos
    using that by (auto simp: quietly_def)
  have "quietly b2 b'"
    using s ap by (auto simp: settleFill_def Let_def emit_def split: option.splits intro: save)
  with s2 show ?thesis by (rule quietly_trans)
qed

subsection \<open>Fills and funding payments\<close>

lemma effects_emit [simp]: "effects (emit e b) = effects b @ [e]"
  by (simp add: emit_def)

lemma effects_postLedger:
  "\<exists>l. effects (postLedger L now aid eid ev code dir amt ro rf rs b) = effects b @ [SaveLedgerEntry l] \<and>
     l_direction l = dir \<and> l_amount l = amt"
  by (simp add: postLedger_def nextUlid_eq)

lemma recordFill_told:
  "\<exists>es. effects (recordFill L ord fl now b) = effects b @ es \<and> savedFills es = [fl] \<and> savedPayments es = [] \<and>
     (0 \<le> f_fee fl \<longrightarrow> ledgerNet es = f_realizedPnl fl - f_fee fl)"
proof -
  define b1 where "b1 = emit (SaveFill fl) (emit (AppendFill fl) (b\<lparr>fills := fills b @ [fl]\<rparr>))"
  define b2 where "b2 = (if f_fee fl > 0 then
      postLedger L now (o_accountId ord) (f_id fl) FEE EXPENSE_TRADING_FEES DEBIT (f_fee fl)
        (Some (o_id ord)) (Some (f_id fl)) (Some (o_symbol ord)) b1 else b1)"
  define b3 where "b3 = (if f_realizedPnl fl \<noteq> 0 then
      postLedger L now (o_accountId ord) (f_id fl) REALIZED_PNL
        (if f_realizedPnl fl > 0 then REVENUE_TRADING_REALIZED_PNL else EXPENSE_TRADING_REALIZED_LOSS)
        (if f_realizedPnl fl > 0 then CREDIT else DEBIT) \<bar>f_realizedPnl fl\<bar>
        (Some (o_id ord)) (Some (f_id fl)) (Some (o_symbol ord)) b2 else b2)"
  have e1: "effects b1 = effects b @ [AppendFill fl, SaveFill fl]" by (simp add: b1_def)
  obtain es2 where e2: "effects b2 = effects b1 @ es2" "savedFills es2 = []" "savedPayments es2 = []"
    "0 \<le> f_fee fl \<longrightarrow> ledgerNet es2 = - f_fee fl"
  proof (cases "f_fee fl > 0")
    case True
    with effects_postLedger [of L now "o_accountId ord" "f_id fl" FEE EXPENSE_TRADING_FEES DEBIT "f_fee fl"
        "Some (o_id ord)" "Some (f_id fl)" "Some (o_symbol ord)" b1]
    show thesis by (auto simp: b2_def intro!: that)
  next
    case False
    then show thesis by (intro that [of "[]"]) (auto simp: b2_def)
  qed
  obtain es3 where e3: "effects b3 = effects b2 @ es3" "savedFills es3 = []" "savedPayments es3 = []"
    "ledgerNet es3 = f_realizedPnl fl"
  proof (cases "f_realizedPnl fl = 0")
    case False
    with effects_postLedger [of L now "o_accountId ord" "f_id fl" REALIZED_PNL
        "if f_realizedPnl fl > 0 then REVENUE_TRADING_REALIZED_PNL else EXPENSE_TRADING_REALIZED_LOSS"
        "if f_realizedPnl fl > 0 then CREDIT else DEBIT" "\<bar>f_realizedPnl fl\<bar>"
        "Some (o_id ord)" "Some (f_id fl)" "Some (o_symbol ord)" b2]
    show thesis by (auto simp: b3_def split: if_splits intro!: that)
  next
    case True
    then show thesis by (intro that [of "[]"]) (auto simp: b3_def)
  qed
  have "\<exists>t. effects (recordFill L ord fl now b) = effects b3 @ [SaveTransaction t]"
    unfolding recordFill_def Let_def split_beta b1_def [symmetric] b2_def [symmetric] b3_def [symmetric]
    by (simp add: nextUlid_eq)
  then show ?thesis using e1 e2 e3 by auto
qed

definition reported :: "broker \<Rightarrow> broker \<Rightarrow> bool" where
  "reported b b' \<longleftrightarrow> (\<exists>es. effects b' = effects b @ es \<and> fills b' = fills b @ savedFills es \<and>
     totalFunding b' = totalFunding b + sum_list (map fp_payment (savedPayments es)))"

lemma reported_quiet:
  "quietly b b' \<Longrightarrow> fills b' = fills b \<Longrightarrow> totalFunding b' = totalFunding b \<Longrightarrow> reported b b'"
  unfolding quietly_def reported_def by auto

lemma reported_refl [simp]: "reported b b"
  by (rule reported_quiet) simp_all

lemma reported_trans: "reported b1 b2 \<Longrightarrow> reported b2 b3 \<Longrightarrow> reported b1 b3"
  unfolding reported_def by (elim exE conjE, rule_tac x = "es @ esa" in exI) simp

lemma executeFill_told:
  assumes L: "decimal_exact L" and ex: "executeFill L ord quantity price liq now b = Inr b'"
  shows "\<exists>es fl. effects b' = effects b @ es \<and> savedFills es = [fl] \<and> savedPayments es = [] \<and>
      fills b' = fills b @ [fl] \<and> totalFunding b' = totalFunding b \<and> f_fee fl = feeOn b liq quantity price \<and>
      (0 \<le> feeOn b liq quantity price \<longrightarrow> walletBalance b' = walletBalance b + ledgerNet es)"
proof -
  obtain r fee b1 where s: "settleFill L ord quantity price liq now b = Inr (r, fee, b1)"
    using ex by (auto simp: executeFill_def bindR_eq_Inr)
  define b2 where "b2 = snd (nextUlid L b1)"
  define fl where "fl = makeFill L (cur b2 ord) quantity price liq now b r fee b2 (fst (nextUlid L b1))"
  have b': "b' = notifyFill now ord fl (recordFill L (cur b2 ord) fl now b2)"
    using ex by (simp add: executeFill_def s Let_def split_beta b2_def fl_def)
  note money = settleFill_Inr [OF L s]
  have fl: "f_fee fl = fee" "f_realizedPnl fl = r" by (simp_all add: fl_def makeFill_def Let_def)
  have fee: "fee = feeOn b liq quantity price"
    using s L by (auto simp: settleFill_def Let_def bindR_eq_Inr feeOn_def lib_exact)
  obtain es1 where e1: "effects b1 = effects b @ es1" "savedFills es1 = []" "savedPayments es1 = []" "ledgerNet es1 = 0"
    using quietly_settleFill [OF s] by (auto simp: quietly_def)
  obtain es2 where e2: "effects (recordFill L (cur b2 ord) fl now b2) = effects b2 @ es2" "savedFills es2 = [fl]"
    "savedPayments es2 = []" "0 \<le> f_fee fl \<longrightarrow> ledgerNet es2 = f_realizedPnl fl - f_fee fl"
    using recordFill_told by blast
  obtain es3 where e3: "effects b' = effects (recordFill L (cur b2 ord) fl now b2) @ es3" "savedFills es3 = []"
    "savedPayments es3 = []" "ledgerNet es3 = 0"
    using quietly_notifyFill [of "recordFill L (cur b2 ord) fl now b2" now ord fl] by (auto simp: quietly_def b')
  have e: "effects b' = effects b @ (es1 @ es2 @ es3)" using e1(1) e2(1) e3(1) by (simp add: b2_def)
  have f: "fills b' = fills b @ [fl]"
    using money(5) by (simp add: b' recordFill_def Let_def split_beta b2_def)
  have t: "totalFunding b' = totalFunding b" using money(4) by (simp add: b' b2_def)
  have w: "walletBalance b' = walletBalance b - fee + r" using money(1) by (simp add: b' b2_def)
  show ?thesis
    by (rule exI [of _ "es1 @ es2 @ es3"], rule exI [of _ fl])
      (use e f t w fl fee e1 e2 e3 in simp)
qed

lemma reported_executeFill:
  "decimal_exact L \<Longrightarrow> executeFill L ord quantity price liq now b = Inr b' \<Longrightarrow> reported b b'"
  using executeFill_told unfolding reported_def by fastforce

lemma reported_step:
  assumes "reported b b1" "quietly b1 b2" "fills b2 = fills b1" "totalFunding b2 = totalFunding b1"
  shows "reported b b2"
  using reported_trans [OF assms(1) reported_quiet [OF assms(2-4)]] .

lemma reported_fillOrder:
  assumes L: "decimal_exact L" and f: "fillOrder L ord m liq now b = Inr b'"
  shows "reported b b'"
proof -
  have full: "reported b (setOrder o1 b)" for o1 by (rule reported_quiet) simp_all
  have rej: "reported b (snd (rejectOrder ord reason now b))" for reason by (rule reported_quiet) simp_all
  have fin: "reported b (setOrder o1 (emitOrderEvent now ev o2 p rs (setOrder o3 b1)))"
    if "executeFill L ord q price liq now b = Inr b1" for b1 q price o1 ev o2 p rs o3
  proof -
    have "quietly b1 (setOrder o1 (emitOrderEvent now ev o2 p rs (setOrder o3 b1)))"
      by (rule quietly_trans [OF quietly_same], rule_tac [2] quietly_trans [OF quietly_events(1) quietly_same]) simp_all
    then show ?thesis by (intro reported_step [OF reported_executeFill [OF L that]]) simp_all
  qed
  show ?thesis
    using f full rej fin by (auto simp: fillOrder_def Let_def bindR_eq_Inr split: if_splits option.splits)
qed

lemma reported_foldR:
  assumes "\<And>x s s'. f x s = Inr s' \<Longrightarrow> reported s s'"
  shows "foldR f xs b = Inr b' \<Longrightarrow> reported b b'"
proof (induction xs arbitrary: b)
  case (Cons x xs)
  then obtain s1 where "f x b = Inr s1" "foldR f xs s1 = Inr b'" by (auto simp: bindR_eq_Inr)
  then show ?case using reported_trans [OF assms Cons.IH] by blast
qed simp

lemma reported_evaluateOrder:
  assumes L: "decimal_exact L" and e: "evaluateOrder L symbol m now k b = Inr b'"
  shows "reported b b'"
  using e reported_fillOrder [OF L] by (auto simp: evaluateOrder_def split: if_splits option.splits)

lemma reported_evaluateOpenOrders:
  assumes L: "decimal_exact L" and e: "evaluateOpenOrders L symbol now b = Inr b'"
  shows "reported b b'"
  using e reported_foldR [OF reported_evaluateOrder [OF L]]
  by (auto simp: evaluateOpenOrders_def split: option.splits)

lemma reported_liquidatePosition:
  assumes L: "decimal_exact L" and l: "liquidatePosition L now k b = Inr b'"
  shows "reported b b'"
proof -
  have fin: "reported b (emitOrderEvent now ev o2 p rs (setOrder o1 b4))"
    if "executeFill L ord q mk TAKER now (setOrder ord (snd (nextUlid L (snd (nextUlid L b))))) = Inr b4"
    for ord q mk b4 ev o2 p rs o1
  proof -
    have s1: "reported b (setOrder ord (snd (nextUlid L (snd (nextUlid L b)))))"
      by (rule reported_quiet) simp_all
    have "quietly b4 (emitOrderEvent now ev o2 p rs (setOrder o1 b4))"
      by (rule quietly_trans [OF quietly_same quietly_events(1)]) simp
    then show ?thesis
      by (intro reported_step [OF reported_trans [OF s1 reported_executeFill [OF L that]]]) simp_all
  qed
  show ?thesis
    using l fin by (auto simp: liquidatePosition_def Let_def split_beta bindR_eq_Inr split: if_splits option.splits)
qed

lemma reported_checkLiquidation:
  assumes L: "decimal_exact L" and c: "checkLiquidation L now b = Inr b'"
  shows "reported b b'"
proof -
  define b1 where "b1 = snd (calculateAccountState L b)"
  have s1: "reported b b1" unfolding b1_def by (rule reported_quiet) simp_all
  have s2: "reported b (b1\<lparr>isLiquidating := True, liquidations := n\<rparr>)" for n
    by (rule reported_step [OF s1]) simp_all
  have "reported b ((recalculateAccount L b3)\<lparr>isLiquidating := False\<rparr>)"
    if "foldR (liquidatePosition L now) ks (b1\<lparr>isLiquidating := True, liquidations := n\<rparr>) = Inr b3" for ks n b3
    by (rule reported_step [OF reported_trans [OF s2 reported_foldR [OF reported_liquidatePosition [OF L] that]]]) simp_all
  then show ?thesis
    using c s1 by (auto simp: checkLiquidation_def Let_def split_beta b1_def [symmetric] bindR_eq_Inr split: if_splits)
qed

lemma reported_onMarket:
  assumes L: "decimal_exact L" and m: "onMarket L symbol update now b = Inr b'"
  shows "reported b b'"
proof -
  have "reported b b'"
    if "evaluateOpenOrders L symbol now (b\<lparr>localMarkets := lm\<rparr>) = Inr b2"
      "checkLiquidation L now (recalculateAccount L b2) = Inr b'" for lm b2
  proof -
    have s1: "reported b (b\<lparr>localMarkets := lm\<rparr>)" by (rule reported_quiet) simp_all
    have "reported b (recalculateAccount L b2)"
      by (rule reported_step [OF reported_trans [OF s1 reported_evaluateOpenOrders [OF L that(1)]]]) simp_all
    then show ?thesis by (rule reported_trans [OF _ reported_checkLiquidation [OF L that(2)]])
  qed
  then show ?thesis
    using m by (auto simp: onMarket_def Let_def bindR_eq_Inr split: option.splits)
qed

lemma reported_routeOrder:
  assumes L: "decimal_exact L" and r: "routeOrder L ord m now b = Inr (ord', b')"
  shows "reported b b'"
proof -
  have fill: "reported b b'" if "fillNow L ord m now b = Inr (ord', b')"
    using that reported_fillOrder [OF L] by (auto simp: fillNow_def bindR_eq_Inr)
  have reject: "reported b b'" if "rejectOrder ord reason now b = (ord', b')" for reason
  proof -
    have "b' = snd (rejectOrder ord reason now b)" using that by simp
    then show ?thesis by (intro reported_quiet) simp_all
  qed
  have cancel: "reported b b'" if "b' = snd (cancelOrder k reason now b)" for k reason
    unfolding that by (rule reported_quiet) simp_all
  show ?thesis
    using r fill reject cancel
    by (auto simp: routeOrder_def Let_def split_beta split: orderType.splits if_splits)
qed

lemma reported_submitOrder:
  assumes L: "decimal_exact L" and s: "submitOrder L c now b = Inr (ord', b')"
  shows "reported b b'"
proof -
  obtain instr where instr: "mget (instruments b) (c_symbol c) = Some instr"
    using s by (auto simp: submitOrder_def split: option.splits)
  obtain ord b1 where bo: "buildOrder L c instr now b = (ord, b1)" by fastforce
  then obtain n where b1: "b1 = b\<lparr>ulids := n\<rparr>" using buildOrder_facts(10) [of L c instr now b] by auto
  define b2 where "b2 = emitOrderEvent now ORDER_RECEIVED ord None None (setOrder ord b1)"
  have "quietly b b2"
    unfolding b2_def by (rule quietly_trans [OF quietly_same quietly_events(1)]) (simp add: b1)
  then have s2: "reported b b2" by (rule reported_quiet) (simp_all add: b2_def b1)
  have rej: "reported b b'" if "rejectOrder ord reason now b3 = (ord', b')" "reported b b3" for reason b3
  proof -
    have "b' = snd (rejectOrder ord reason now b3)" using that(1) by simp
    then show ?thesis by (intro reported_step [OF that(2)]) simp_all
  qed
  have s3: "reported b b3" if "checkOrderRisk L now ord instr m b2 = (r, b3)" for m r b3
  proof -
    have "b3 = snd (checkOrderRisk L now ord instr m b2)" using that by simp
    then show ?thesis by (intro reported_step [OF s2]) simp_all
  qed
  show ?thesis
  proof (cases "getMarket b (c_symbol c)")
    case None
    then show ?thesis using s instr bo rej [OF _ s2]
      by (auto simp: submitOrder_def Let_def b2_def [symmetric])
  next
    case (Some m)
    obtain r b3 where rk: "checkOrderRisk L now ord instr m b2 = (r, b3)" by fastforce
    have "reported b b'" if "routeOrder L ord m now b3 = Inr (ord', b')"
      by (rule reported_trans [OF s3 [OF rk] reported_routeOrder [OF L that]])
    then show ?thesis
      using s instr bo Some rk rej [OF _ s2] rej [OF _ s3 [OF rk]]
      by (auto simp: submitOrder_def Let_def b2_def [symmetric] split: if_splits option.splits)
  qed
qed

lemma fundPosition_told:
  assumes L: "decimal_exact L"
  shows "\<exists>es. effects (fundPosition L now k b) = effects b @ es \<and> savedFills es = [] \<and>
      totalFunding (fundPosition L now k b) = totalFunding b + sum_list (map fp_payment (savedPayments es)) \<and>
      walletBalance (fundPosition L now k b) = walletBalance b + ledgerNet es"
proof (cases "mget (positions b) k")
  case None
  then show ?thesis by (auto simp: fundPosition_def intro!: exI [of _ "[]"])
next
  case (Some pos)
  show ?thesis
  proof (cases "p_qty pos = 0 \<or> getMarket b (p_symbol pos) = None \<or>
      \<not> truthy (m_mark (the (getMarket b (p_symbol pos)))) \<or> m_fundingRate (the (getMarket b (p_symbol pos))) = None")
    case True
    then have "fundPosition L now k b = b" using Some by (auto simp: fundPosition_def split: option.splits)
    then show ?thesis by (auto intro!: exI [of _ "[]"])
  next
    case False
    then obtain m rate mk where m: "getMarket b (p_symbol pos) = Some m" "m_mark m = Some mk" "mk \<noteq> 0"
      "m_fundingRate m = Some rate" "p_qty pos \<noteq> 0" using truthyD by fastforce
    show ?thesis
    proof (cases "rate = 0")
      case True
      with L Some m show ?thesis
        by (simp add: fundPosition_def Let_def nextUlid_eq lib_exact emitPositionEvent_def)
    next
      case False
      with L Some m show ?thesis
        by (auto simp: fundPosition_def Let_def nextUlid_eq lib_exact emitPositionEvent_def postLedger_def)
    qed
  qed
qed

lemma reported_applyFunding:
  assumes L: "decimal_exact L"
  shows "reported b (applyFunding L now b)"
proof -
  have one: "reported b (fundPosition L now k b)" for k b
    using fundPosition_told [OF L, of now k b] fundPosition_fundingOnly [OF L, of b now k]
    unfolding reported_def fundingOnly_def by auto
  have "reported b (fold (fundPosition L now) ks b)" for ks
    by (induction ks arbitrary: b) (auto intro: reported_trans [OF one])
  then show ?thesis unfolding applyFunding_def by (rule reported_step) simp_all
qed

lemma reported_perform:
  assumes L: "decimal_exact L" and known: "positionsKnown b" and x: "\<not> isReset x"
  shows "reported b (perform L x b)"
proof -
  obtain op now where xp: "x = (op, now)" by fastforce
  have w: "reported b (recalculateAccount L (b\<lparr>walletBalance := d\<rparr>))" for d
    by (rule reported_quiet) simp_all
  show ?thesis
  proof (cases op)
    case (Submit c)
    show ?thesis
    proof (cases "mget (instruments b) (c_symbol c)")
      case None
      then show ?thesis by (simp add: xp Submit submitOrder_def afterSubmit_def)
    next
      case (Some i)
      then obtain ord b' where "submitOrder L c now b = Inr (ord, b')"
        using submitOrder_ok [OF L known] by blast
      with reported_submitOrder [OF L this] show ?thesis by (simp add: xp Submit afterSubmit_def)
    qed
  next
    case (Market s u)
    obtain b' where "onMarket L s u now b = Inr b'" using onMarket_ok [OF L known] by blast
    with reported_onMarket [OF L this] show ?thesis by (simp add: xp Market)
  next
    case (Reset s)
    with x show ?thesis by (simp add: xp isReset_def)
  qed (use w reported_applyFunding [OF L] in \<open>auto simp: xp adjustWalletBalance_def getPositions_def Let_def
      intro: reported_quiet\<close>)
qed

text \<open>The broker has reported to its persister since a given state, along a whole run.\<close>

definition reportedSince :: "lib \<Rightarrow> broker \<Rightarrow> broker \<Rightarrow> bool" where
  "reportedSince L b0 b \<longleftrightarrow> decimal_exact L \<and> booksInv b \<and> reported b0 b"

interpretation log: guarded_component "perform L" "reportedSince L b0" "\<lambda>x. \<not> isReset x" for L b0
proof unfold_locales
  fix b x
  assume b: "reportedSince L b0 b" and x: "\<not> isReset x"
  then have "reported b (perform L x b)" by (auto simp: reportedSince_def booksInv_def intro: reported_perform)
  with b show "reportedSince L b0 (perform L x b)"
    by (auto simp: reportedSince_def perform_booksInv intro: reported_trans)
qed

subsection \<open>Restart\<close>

lemma fold_add_sum: "fold (\<lambda>x acc. acc + g x) xs a = (a :: number) + sum_list (map g xs)"
  by (induction xs arbitrary: a) simp_all

lemma newBroker_books:
  assumes "decimal_exact L"
  shows "fills (newBroker L cfg ps n0 now) = coalesce (ps_fills ps) []"
    "totalFees (newBroker L cfg ps n0 now) = sum_list (map f_fee (coalesce (ps_fills ps) []))"
    "totalRealizedPnl (newBroker L cfg ps n0 now) = sum_list (map f_realizedPnl (coalesce (ps_fills ps) []))"
    "totalFunding (newBroker L cfg ps n0 now) = sum_list (map fp_payment (coalesce (ps_fundingPayments ps) []))"
    "cashBasis (newBroker L cfg ps n0 now) = cfg_startingUsdt cfg"
    "effects (newBroker L cfg ps n0 now) = []"
  using assms by (simp_all add: newBroker_def Let_def fold_add_sum cashBasis_def lib_exact)

text \<open>C2. A restart recovers the money, except manual deposits: take any run without reset of a
  broker constructed from the persisted state \<open>ps\<close>, and construct a second broker, with the
  same starting balance, from a persisted state that has the fills and funding payments of
  \<open>ps\<close> followed by those the run handed to the persister. It has the same fills, total fees,
  total realised PnL and total funding; its wallet is that of the first broker less exactly the
  sum of the \<open>adjustWalletBalance\<close> amounts, which nothing persists.\<close>

theorem restart_recovers_money:
  assumes "decimal_exact L" "positionsKnown (newBroker L cfg ps n0 now)" "list_all (\<lambda>x. \<not> isReset x) xs"
    and "b = fold (perform L) xs (newBroker L cfg ps n0 now)"
    and "cfg_startingUsdt cfg' = cfg_startingUsdt cfg"
    and "ps_fills ps' = Some (coalesce (ps_fills ps) [] @ savedFills (effects b))"
    and "ps_fundingPayments ps' = Some (coalesce (ps_fundingPayments ps) [] @ savedPayments (effects b))"
  shows "fills (newBroker L cfg' ps' n1 now') = fills b \<and>
    totalFees (newBroker L cfg' ps' n1 now') = totalFees b \<and>
    totalRealizedPnl (newBroker L cfg' ps' n1 now') = totalRealizedPnl b \<and>
    totalFunding (newBroker L cfg' ps' n1 now') = totalFunding b \<and>
    walletBalance (newBroker L cfg' ps' n1 now') = walletBalance b - sum_list (map deposited xs)"
proof -
  define b0 where "b0 = newBroker L cfg ps n0 now"
  define b1 where "b1 = newBroker L cfg' ps' n1 now'"
  note new0 = newBroker_books [OF assms(1), of cfg ps n0 now, folded b0_def]
  note new1 = newBroker_books [OF assms(1), of cfg' ps' n1 now', folded b1_def]
  have books0: "booksInv b0"
    using assms(2) new0 by (simp add: booksInv_def totalsMatchFills_def b0_def)
  have "reportedSince L b0 b"
    unfolding assms(4) b0_def [symmetric]
    by (rule log.inv_guarded_run) (use assms(1,3) books0 in \<open>simp_all add: reportedSince_def\<close>)
  then have books: "booksInv b" and rep: "reported b0 b" by (simp_all add: reportedSince_def)
  have told: "fills b = fills b0 @ savedFills (effects b)"
    "totalFunding b = totalFunding b0 + sum_list (map fp_payment (savedPayments (effects b)))"
    using rep new0(6) by (auto simp: reported_def)
  have basis: "cashBasis b = cashBasis b0 + sum_list (map deposited xs)"
    unfolding assms(4) b0_def [symmetric]
    by (rule books.acc_run) (use assms(1,3) books0 in simp_all)
  have eq: "fills b1 = fills b" "totalFees b1 = totalFees b" "totalRealizedPnl b1 = totalRealizedPnl b"
    "totalFunding b1 = totalFunding b"
    using new0 new1 told books assms(6,7) by (simp_all add: booksInv_def totalsMatchFills_def)
  moreover have "walletBalance b1 = walletBalance b - sum_list (map deposited xs)"
    using basis new0(5) new1(5) eq assms(5) by (simp add: cashBasis_def)
  ultimately show ?thesis by (simp add: b1_def)
qed

theorem restart_recovers_money_witness:
  "\<exists>b. b = fold (perform exactLib) [(Market ''BTC'' [Bid (Some 100), Ask (Some 101), Mark (Some 100)], 10),
      (Submit (marketBuy 2), 20), (Adjust 50, 30)] freshBroker \<and>
    walletBalance (newBroker exactLib freshConfig
      (nothingSaved\<lparr>ps_fills := Some (savedFills (effects b)), ps_fundingPayments := Some (savedPayments (effects b))\<rparr>)
      9 99) = walletBalance b - 50"
proof -
  let ?xs = "[(Market ''BTC'' [Bid (Some 100), Ask (Some 101), Mark (Some 100)], 10), (Submit (marketBuy 2), 20), (Adjust 50, 30)]"
  let ?b = "fold (perform exactLib) ?xs freshBroker"
  let ?ps = "nothingSaved\<lparr>ps_fills := Some (savedFills (effects ?b)), ps_fundingPayments := Some (savedPayments (effects ?b))\<rparr>"
  have "walletBalance (newBroker exactLib freshConfig ?ps 9 99) = walletBalance ?b - sum_list (map deposited ?xs)"
  proof -
    have "positionsKnown (newBroker exactLib freshConfig nothingSaved 0 0)"
      using freshBroker_books by (simp add: booksInv_def freshBroker_def)
    moreover have "list_all (\<lambda>x. \<not> isReset x) ?xs" by (simp add: isReset_def)
    moreover have "?b = fold (perform exactLib) ?xs (newBroker exactLib freshConfig nothingSaved 0 0)"
      by (simp only: freshBroker_def)
    moreover have "ps_fills ?ps = Some (coalesce (ps_fills nothingSaved) [] @ savedFills (effects ?b))"
      "ps_fundingPayments ?ps = Some (coalesce (ps_fundingPayments nothingSaved) [] @ savedPayments (effects ?b))"
      by (simp_all add: nothingSaved_def)
    ultimately show ?thesis
      using restart_recovers_money [OF exactLib_exact, where xs = ?xs and b = ?b and ps' = ?ps] by blast
  qed
  then show ?thesis by (intro exI [of _ ?b]) simp
qed

text \<open>The ledger is complete: the ledger entries a fill posts (its fee as a debit, its
  realised PnL as a credit or a debit) and the entry a funding payment posts add up to exactly
  the change of the wallet, so that replaying the credits less debits reproduces it.\<close>

theorem ledger_explains_wallet:
  assumes "decimal_exact L"
  shows "(executeFill L ord quantity price liq now b = Inr b' \<and> 0 \<le> feeOn b liq quantity price \<longrightarrow>
      (\<exists>es. effects b' = effects b @ es \<and> walletBalance b' = walletBalance b + ledgerNet es)) \<and>
    (\<exists>es. effects (fundPosition L now k b) = effects b @ es \<and>
      walletBalance (fundPosition L now k b) = walletBalance b + ledgerNet es)"
  using executeFill_told [OF assms] fundPosition_told [OF assms] by blast

theorem ledger_explains_wallet_witness:
  "\<exists>b' es. executeFill exactLib (limitOrder 3 102) 3 101 TAKER 5 (holdingBroker (- 2) (btcMarket 100 101 100)) = Inr b' \<and>
     effects b' = effects freshBroker @ es \<and> walletBalance b' = 10000 + ledgerNet es"
proof -
  let ?b = "holdingBroker (- 2) (btcMarket 100 101 100)"
  obtain b' where ex: "executeFill exactLib (limitOrder 3 102) 3 101 TAKER 5 ?b = Inr b'"
    using executeFill_ok [OF exactLib_exact holding_known, of "- 2" "btcMarket 100 101 100" "limitOrder 3 102" 3 101 TAKER 5]
    by auto
  have "0 \<le> feeOn ?b TAKER 3 101" by (simp add: feeOn_def)
  with ledger_explains_wallet [OF exactLib_exact, of "limitOrder 3 102" 3 101 TAKER 5 ?b b' "''BTC''"] ex
  show ?thesis by (auto simp: holdingBroker_def)
qed

subsection \<open>A resting reduce-only order\<close>

text \<open>C8. The reduce-only clamp is applied once, when the order is submitted: a resting reduce-only
  SELL stop that has become larger than the long position it protects is filled at full size
  when it triggers, and leaves a short position.\<close>

theorem resting_reduce_only_turns:
  assumes "decimal_exact L" "positionsKnown b" "mget (instruments b) symbol = Some instr"
    and "mget (orders b) k = Some ord" "o_symbol ord = symbol" "isOpen ord" "o_reduceOnly ord"
    and "o_type ord = STOP_MARKET" "o_side ord = SELL" "isStopTriggered L ord m" "o_filledQty ord = 0"
    and "getExecutionPrice L b ord m = Some price" "0 < price"
    and "0 < qtyOf b symbol" "qtyOf b symbol < o_quantity ord"
    and "grid (i_quantityPrecision instr) (qtyOf b symbol - o_quantity ord) = qtyOf b symbol - o_quantity ord"
  shows "\<exists>b'. evaluateOrder L symbol m now k b = Inr b' \<and> qtyOf b' symbol < 0"
proof -
  obtain b1 where ex: "executeFill L ord (o_quantity ord) price TAKER now b = Inr b1"
    using executeFill_ok [OF assms(1,2)] assms(3,5) by blast
  obtain i realized pos1 where i: "mget (instruments b) (o_symbol ord) = Some i"
    and fp: "fillPosition L i (o_side ord) (o_quantity ord) price (o_leverage ord) now (basePosition b ord i now) = (realized, pos1)"
    and q: "\<And>j. qtyOf b1 j = (if j = o_symbol ord then p_qty pos1 else qtyOf b j)"
    by (rule executeFill_effect [OF assms(1) ex]) (rule that)
  have "i = instr" using i assms(3,5) by simp
  then have "qtyOf b1 symbol = qtyOf b symbol - o_quantity ord"
    using fillPosition_qty [OF assms(1), of i "o_side ord" "o_quantity ord" price "o_leverage ord" now "basePosition b ord i now"]
      fp q assms(5,9,16) by (simp add: filledQuantity_def)
  moreover have "x_sub L (o_quantity ord) (o_filledQty ord) = o_quantity ord" "0 < o_quantity ord"
    using assms(1,11,14,15) by (simp_all add: lib_exact)
  ultimately show ?thesis
    using ex assms(4-6,8,10,12,13,15) by (auto simp: evaluateOrder_def fillOrder_def Let_def qtyOf_def)
qed

definition stopSell :: "number \<Rightarrow> order" where
  "stopSell q = (limitOrder q 90)\<lparr>o_type := STOP_MARKET, o_side := SELL, o_reduceOnly := True,
     o_limitPrice := None, o_stopPrice := Some 90\<rparr>"

theorem resting_reduce_only_turns_witness:
  "\<exists>b'. evaluateOrder exactLib ''BTC'' (btcMarket 89 90 90) 5 (o_id (stopSell 2))
      ((holdingBroker 1 (btcMarket 89 90 90))\<lparr>orders := [(o_id (stopSell 2), stopSell 2)]\<rparr>) = Inr b' \<and>
    qtyOf b' ''BTC'' < 0"
proof -
  let ?m = "btcMarket 89 90 90"
  let ?b = "(holdingBroker 1 ?m)\<lparr>orders := [(o_id (stopSell 2), stopSell 2)]\<rparr>"
  have o: "o_status (stopSell 2) = NEW" "o_symbol (stopSell 2) = ''BTC''" "o_type (stopSell 2) = STOP_MARKET"
    "o_side (stopSell 2) = SELL" "o_stopPrice (stopSell 2) = Some 90" "o_filledQty (stopSell 2) = 0"
    "o_quantity (stopSell 2) = 2" "o_reduceOnly (stopSell 2)"
    by (simp_all add: stopSell_def) (simp add: limitOrder_def buildOrder_facts)
  have known: "positionsKnown ?b"
    by (rule iffD2 [OF positionsKnown_cong holding_known]) simp_all
  have q: "qtyOf ?b ''BTC'' = 1" by (simp add: qtyOf_def)
  have trig: "isStopTriggered exactLib (stopSell 2) ?m" by (simp add: isStopTriggered_def Let_def o)
  have price: "getExecutionPrice exactLib ?b (stopSell 2) ?m = Some (89 * (1 - 2 / 10000))"
    by (simp add: getExecutionPrice_def o exactLib_def)
  have "grid 2 (1 - 2 :: number) = 1 - 2" by (simp add: grid_def round_away_def)
  then show ?thesis
    using resting_reduce_only_turns [OF exactLib_exact known _ _ o(2) _ o(8,3,4) trig o(6) price, of btcPerp] o q
    by (simp add: isOpen_def)
qed

end
