(* ===== verification/Market_Types.thy ===== *)
theory Market_Types
  imports Prelude
begin

section \<open>Candles, market structure and smart-money zones\<close>

text \<open>
  The candle of \<open>strategy/indicators.ts\<close> and the interfaces of \<open>market/structure/types.ts\<close>
  and \<open>market/smc/types.ts\<close>. A record keyed by the analysis time frames is a function from
  them. Left out of the candle: quote volume, trade count, event and receipt time, which no
  modelled code reads. Identifiers are the strings the source builds.
\<close>

subsection \<open>Candles\<close>

record candle =
  k_symbol :: string
  k_interval :: string
  k_openTime :: ms
  k_open :: number
  k_high :: number
  k_low :: number
  k_close :: number
  k_volume :: "number option"
  k_closeTime :: "ms option"
  k_isClosed :: bool

text \<open>\<open>candle.closeTime ?? candle.openTime\<close>, which the detectors use as the confirmation time.\<close>

definition closeOf :: "candle \<Rightarrow> ms" where
  "closeOf k = coalesce (k_closeTime k) (k_openTime k)"

subsection \<open>Analysis time frames\<close>

datatype timeframe = TF_4h | TF_2h | TF_1h | TF_15m | TF_5m

definition CANONICAL_TIMEFRAMES :: "timeframe list" where
  "CANONICAL_TIMEFRAMES = [TF_4h, TF_2h, TF_1h, TF_15m, TF_5m]"

fun tfName :: "timeframe \<Rightarrow> string" where
  "tfName TF_4h = ''4h''"
| "tfName TF_2h = ''2h''"
| "tfName TF_1h = ''1h''"
| "tfName TF_15m = ''15m''"
| "tfName TF_5m = ''5m''"

subsection \<open>Market structure\<close>

datatype swingType = HIGH | LOW

datatype swingClassification = HH | HL | LH | LL | EQUAL_HIGH_C | EQUAL_LOW_C | UNKNOWN_C

datatype structureScope = EXTERNAL | INTERNAL

fun scopeName :: "structureScope \<Rightarrow> string" where
  "scopeName EXTERNAL = ''EXTERNAL''"
| "scopeName INTERNAL = ''INTERNAL''"

datatype marketTrend = BULLISH | BEARISH | RANGE | UNKNOWN

datatype structureForm = HH_HL | LH_LL | MIXED | RANGE_F | UNKNOWN_F

datatype structureEventType =
    SWING_HIGH_CONFIRMED | SWING_LOW_CONFIRMED | BOS_BULLISH | BOS_BEARISH | CHOCH_BULLISH | CHOCH_BEARISH

fun eventName :: "structureEventType \<Rightarrow> string" where
  "eventName SWING_HIGH_CONFIRMED = ''SWING_HIGH_CONFIRMED''"
| "eventName SWING_LOW_CONFIRMED = ''SWING_LOW_CONFIRMED''"
| "eventName BOS_BULLISH = ''BOS_BULLISH''"
| "eventName BOS_BEARISH = ''BOS_BEARISH''"
| "eventName CHOCH_BULLISH = ''CHOCH_BULLISH''"
| "eventName CHOCH_BEARISH = ''CHOCH_BEARISH''"

record swingConfig =
  wc_swingLeftBars :: int
  wc_swingRightBars :: int
  wc_equalTolerancePct :: "number option"

record confirmedSwing =
  cs_id :: string
  cs_symbol :: string
  cs_timeframe :: timeframe
  cs_scope :: structureScope
  cs_type :: swingType
  cs_classification :: swingClassification
  cs_price :: number
  cs_pivotTime :: ms
  cs_confirmationTime :: ms
  cs_candleIndex :: nat

record structureEvent =
  ev_id :: string
  ev_symbol :: string
  ev_timeframe :: timeframe
  ev_scope :: structureScope
  ev_eventType :: structureEventType
  ev_price :: number
  ev_brokenSwingPrice :: "number option"
  ev_brokenSwingTime :: "ms option"
  ev_pivotTime :: ms
  ev_confirmationTime :: ms
  ev_sourceCandleTime :: ms

record timeframeStructure =
  tr_timeframe :: timeframe
  tr_scope :: structureScope
  tr_trend :: marketTrend
  tr_structure :: structureForm
  tr_swings :: "confirmedSwing list"
  tr_events :: "structureEvent list"
  tr_lastConfirmedSwingHigh :: "confirmedSwing option"
  tr_lastConfirmedSwingLow :: "confirmedSwing option"
  tr_previousConfirmedSwingHigh :: "confirmedSwing option"
  tr_previousConfirmedSwingLow :: "confirmedSwing option"
  tr_lastStructureEvent :: "structureEvent option"
  tr_lastStructureEventTime :: "ms option"

type_synonym structureState = "timeframe \<Rightarrow> timeframeStructure"

subsection \<open>Smart-money zones\<close>

datatype liquidityType = BSL | SSL | EQUAL_HIGH | EQUAL_LOW

fun liquidityName :: "liquidityType \<Rightarrow> string" where
  "liquidityName BSL = ''BSL''"
| "liquidityName SSL = ''SSL''"
| "liquidityName EQUAL_HIGH = ''EQUAL_HIGH''"
| "liquidityName EQUAL_LOW = ''EQUAL_LOW''"

datatype liquidityStatus = ACTIVE_L | SWEPT_L | EXPIRED_LL

datatype zoneSide = BULLISH_Z | BEARISH_Z

datatype fvgStatus = ACTIVE_F | PARTIALLY_FILLED_F | MITIGATED_F | INVALIDATED_F

datatype obStatus = ACTIVE_B | MITIGATED_B | INVALIDATED_B

record detectorConfig =
  dc_equalLevelTolerancePct :: number
  dc_fvgMinSizePct :: "number option"
  dc_obDisplacementThresholdPct :: number
  dc_obLookbackBars :: nat

record liquidityLevel =
  ll_id :: string
  ll_symbol :: string
  ll_timeframe :: timeframe
  ll_type :: liquidityType
  ll_price :: number
  ll_sourceSwingIds :: "string list"
  ll_sourceCandleTimes :: "ms list"
  ll_createdAt :: ms
  ll_confirmedAt :: ms
  ll_status :: liquidityStatus

record liquiditySweep =
  lw_id :: string
  lw_symbol :: string
  lw_timeframe :: timeframe
  lw_liquidityId :: string
  lw_liquidityType :: liquidityType
  lw_liquidityPrice :: number
  lw_sweepExtreme :: number
  lw_sweepCandleTime :: ms
  lw_confirmationTime :: ms
  lw_sourceCandleTimes :: "ms list"
  lw_sourceSwingIds :: "string list"

record fairValueGap =
  fg_id :: string
  fg_symbol :: string
  fg_timeframe :: timeframe
  fg_type :: zoneSide
  fg_upperPrice :: number
  fg_lowerPrice :: number
  fg_midpoint :: number
  fg_sourceCandleTimes :: "ms list"
  fg_createdAt :: ms
  fg_confirmedAt :: ms
  fg_status :: fvgStatus
  fg_mitigatedAt :: "ms option"
  fg_mitigationPrice :: "number option"

record orderBlock =
  ob_id :: string
  ob_symbol :: string
  ob_timeframe :: timeframe
  ob_type :: zoneSide
  ob_upperPrice :: number
  ob_lowerPrice :: number
  ob_invalidationPrice :: number
  ob_originCandleTime :: ms
  ob_displacementCandleTime :: ms
  ob_confirmedStructureEventId :: string
  ob_sourceCandleTimes :: "ms list"
  ob_createdAt :: ms
  ob_confirmedAt :: ms
  ob_status :: obStatus
  ob_mitigatedAt :: "ms option"
  ob_invalidatedAt :: "ms option"

record smcTimeframe =
  st_timeframe :: timeframe
  st_liquidityLevels :: "liquidityLevel list"
  st_sweeps :: "liquiditySweep list"
  st_fairValueGaps :: "fairValueGap list"
  st_orderBlocks :: "orderBlock list"
  st_activeLiquidity :: "liquidityLevel list"
  st_activeFvgs :: "fairValueGap list"
  st_activeOrderBlocks :: "orderBlock list"

type_synonym smcContext = "timeframe \<Rightarrow> smcTimeframe"

end
