(* ===== verification/Klines.thy ===== *)
theory Klines
  imports Market_Types "HOL-Library.Sublist"
begin

section \<open>The candle store (market/Klines.ts)\<close>

text \<open>
  \<open>KlineStore\<close>: one series of candles per symbol and interval, kept sorted and bounded, fed
  by historical candles and by live ticks. The two REST fetches are their parsed answers
  followed by \<open>upsertCandle\<close> on each candle. A \<open>NaN\<close> volume is \<open>None\<close>.
\<close>

datatype klineInterval =
  I_1m | I_3m | I_5m | I_15m | I_30m | I_1h | I_2h | I_4h | I_6h | I_8h | I_12h | I_1d

fun intervalName :: "klineInterval \<Rightarrow> string" where
  "intervalName I_1m = ''1m''"
| "intervalName I_3m = ''3m''"
| "intervalName I_5m = ''5m''"
| "intervalName I_15m = ''15m''"
| "intervalName I_30m = ''30m''"
| "intervalName I_1h = ''1h''"
| "intervalName I_2h = ''2h''"
| "intervalName I_4h = ''4h''"
| "intervalName I_6h = ''6h''"
| "intervalName I_8h = ''8h''"
| "intervalName I_12h = ''12h''"
| "intervalName I_1d = ''1d''"

fun INTERVAL_MS :: "klineInterval \<Rightarrow> ms" where
  "INTERVAL_MS I_1m = 60000"
| "INTERVAL_MS I_3m = 180000"
| "INTERVAL_MS I_5m = 300000"
| "INTERVAL_MS I_15m = 900000"
| "INTERVAL_MS I_30m = 1800000"
| "INTERVAL_MS I_1h = 3600000"
| "INTERVAL_MS I_2h = 7200000"
| "INTERVAL_MS I_4h = 14400000"
| "INTERVAL_MS I_6h = 21600000"
| "INTERVAL_MS I_8h = 28800000"
| "INTERVAL_MS I_12h = 43200000"
| "INTERVAL_MS I_1d = 86400000"

lemma INTERVAL_MS_pos [simp]: "0 < INTERVAL_MS i"
  by (cases i) simp_all

definition floorToInterval :: "ms \<Rightarrow> klineInterval \<Rightarrow> ms" where
  "floorToInterval ts i = (ts div INTERVAL_MS i) * INTERVAL_MS i"

record klineStore =
  ks_candles :: "(string, candle list) jsmap"
  ks_maxPerSeries :: int

definition newKlineStore :: "int \<Rightarrow> klineStore" where
  "newKlineStore maxPerSeries = \<lparr>ks_candles = [], ks_maxPerSeries = maxPerSeries\<rparr>"

definition seriesKey :: "string \<Rightarrow> string \<Rightarrow> string" where
  "seriesKey symbol interval = symbol @ '':'' @ interval"

text \<open>\<open>xs.slice(-n)\<close>: the last \<open>n\<close> elements, all of them for 0, and \<open>xs.slice(m)\<close> for \<open>n = -m\<close>.\<close>

definition sliceLast :: "int \<Rightarrow> 'a list \<Rightarrow> 'a list" where
  "sliceLast n xs = (if n > 0 then drop (length xs - nat n) xs else drop (nat (- n)) xs)"

definition getCandles :: "klineStore \<Rightarrow> string \<Rightarrow> string \<Rightarrow> int \<Rightarrow> candle list" where
  "getCandles st symbol interval limit =
     (case mget (ks_candles st) (seriesKey symbol interval) of
        None \<Rightarrow> []
      | Some series \<Rightarrow> sliceLast limit series)"

definition getCandlesAsOf :: "klineStore \<Rightarrow> string \<Rightarrow> string \<Rightarrow> ms \<Rightarrow> int \<Rightarrow> candle list" where
  "getCandlesAsOf st symbol interval asOf limit =
     (case mget (ks_candles st) (seriesKey symbol interval) of
        None \<Rightarrow> []
      | Some series \<Rightarrow> sliceLast limit (filter (\<lambda>c. k_openTime c \<le> asOf) series))"

text \<open>\<open>series[existingIndex] = candle\<close> at the first candle with the same opening time.\<close>

fun replaceCandle :: "candle \<Rightarrow> candle list \<Rightarrow> candle list" where
  "replaceCandle c [] = []"
| "replaceCandle c (x # xs) = (if k_openTime x = k_openTime c then c # xs else x # replaceCandle c xs)"

definition malformed :: "candle \<Rightarrow> bool" where
  "malformed c \<longleftrightarrow> k_high c < k_low c \<or> (case k_volume c of None \<Rightarrow> False | Some v \<Rightarrow> v < 0) \<or> k_openTime c \<le> 0"

definition upsertSeries :: "candle \<Rightarrow> candle list \<Rightarrow> candle list" where
  "upsertSeries c series =
     (if \<exists>x \<in> set series. k_openTime x = k_openTime c then replaceCandle c series
      else sort_key k_openTime (series @ [c]))"

definition upsertCandle :: "candle \<Rightarrow> klineStore \<Rightarrow> klineStore" where
  "upsertCandle c st =
     (if malformed c then st
      else
        (let key = seriesKey (k_symbol c) (k_interval c);
             series = upsertSeries c (coalesce (mget (ks_candles st) key) []) in
         st\<lparr>ks_candles := mset key
              (if int (length series) > ks_maxPerSeries st then sliceLast (ks_maxPerSeries st) series else series)
              (ks_candles st)\<rparr>))"

text \<open>Storing an answer of the REST endpoint, candle by candle.\<close>

definition storeHistorical :: "candle list \<Rightarrow> klineStore \<Rightarrow> klineStore" where
  "storeHistorical cs st = fold upsertCandle cs st"

record tick =
  tk_symbol :: string
  tk_price :: number
  tk_qty :: number
  tk_ts :: ms

definition tickCandle :: "tick \<Rightarrow> klineInterval \<Rightarrow> candle list \<Rightarrow> candle" where
  "tickCandle t i series =
     (let openTime = floorToInterval (tk_ts t) i;
          fresh = \<lparr>k_symbol = tk_symbol t, k_interval = intervalName i, k_openTime = openTime,
            k_open = tk_price t, k_high = tk_price t, k_low = tk_price t, k_close = tk_price t,
            k_volume = Some (tk_qty t), k_closeTime = Some (openTime + INTERVAL_MS i - 1), k_isClosed = False\<rparr> in
      if series = [] then fresh
      else
        (let existing = last series in
         if k_openTime existing = openTime then
           existing\<lparr>k_high := max (k_high existing) (tk_price t), k_low := min (k_low existing) (tk_price t),
             k_close := tk_price t, k_volume := map_option (\<lambda>v. v + tk_qty t) (k_volume existing),
             k_isClosed := False\<rparr>
         else fresh))"

definition applyTick :: "tick \<Rightarrow> klineInterval \<Rightarrow> klineStore \<Rightarrow> candle \<times> klineStore" where
  "applyTick t i st =
     (let series = coalesce (mget (ks_candles st) (seriesKey (tk_symbol t) (intervalName i))) [];
          c = tickCandle t i series in
      (c, upsertCandle c st))"

record gap =
  gp_expectedTime :: ms
  gp_actualTime :: ms
  gp_missingCount :: int

fun gapsOf :: "ms \<Rightarrow> candle list \<Rightarrow> gap list" where
  "gapsOf width (p # c # rest) =
     (let diff = k_openTime c - k_openTime p;
          gs = gapsOf width (c # rest) in
      if diff > width
      then \<lparr>gp_expectedTime = k_openTime p + width, gp_actualTime = k_openTime c,
             gp_missingCount = math_round (of_int diff / of_int width) - 1\<rparr> # gs
      else gs)"
| "gapsOf width _ = []"

definition detectGaps :: "klineStore \<Rightarrow> string \<Rightarrow> klineInterval \<Rightarrow> gap list" where
  "detectGaps st symbol i =
     gapsOf (INTERVAL_MS i) (coalesce (mget (ks_candles st) (seriesKey symbol (intervalName i))) [])"

definition clearStore :: "klineStore \<Rightarrow> klineStore" where
  "clearStore st = st\<lparr>ks_candles := []\<rparr>"

definition storeCount :: "klineStore \<Rightarrow> nat" where
  "storeCount st = length (ks_candles st)"


subsection \<open>The store stays sorted, bounded and well formed\<close>

definition seriesOk :: "int \<Rightarrow> string \<Rightarrow> candle list \<Rightarrow> bool" where
  "seriesOk bound key series \<longleftrightarrow>
     sorted_wrt (<) (map k_openTime series) \<and> int (length series) \<le> bound \<and>
     (\<forall>c \<in> set series. \<not> malformed c \<and> seriesKey (k_symbol c) (k_interval c) = key)"

definition storeOk :: "klineStore \<Rightarrow> bool" where
  "storeOk st \<longleftrightarrow> 0 < ks_maxPerSeries st \<and>
     (\<forall>key series. mget (ks_candles st) key = Some series \<longrightarrow> seriesOk (ks_maxPerSeries st) key series)"

lemma replaceCandle_times [simp]: "map k_openTime (replaceCandle c xs) = map k_openTime xs"
  by (induction xs) auto

lemma replaceCandle_length [simp]: "length (replaceCandle c xs) = length xs"
  by (induction xs) auto

lemma set_replaceCandle: "set (replaceCandle c xs) \<subseteq> insert c (set xs)"
  by (induction xs) auto

lemma replaceCandle_last:
  "k_openTime x = k_openTime c \<Longrightarrow> \<forall>y \<in> set xs. k_openTime y \<noteq> k_openTime c \<Longrightarrow>
   replaceCandle c (xs @ [x]) = xs @ [c]"
  by (induction xs) auto

lemma set_sliceLast: "set (sliceLast n xs) \<subseteq> set xs"
  by (simp add: sliceLast_def set_drop_subset)

lemma sorted_wrt_sliceLast: "sorted_wrt R (map f xs) \<Longrightarrow> sorted_wrt R (map f (sliceLast n xs))"
  by (simp add: sliceLast_def sorted_wrt_drop flip: drop_map)

lemma length_sliceLast: "0 < n \<Longrightarrow> int (length (sliceLast n xs)) \<le> n"
  by (auto simp: sliceLast_def)

lemma sliceLast_all [simp]: "0 < n \<Longrightarrow> int (length xs) \<le> n \<Longrightarrow> sliceLast n xs = xs"
  by (simp add: sliceLast_def)

lemma set_upsertSeries: "set (upsertSeries c xs) \<subseteq> insert c (set xs)"
  using set_replaceCandle [of c xs] by (auto simp: upsertSeries_def)

lemma sorted_upsertSeries:
  assumes "sorted_wrt (<) (map k_openTime xs)"
  shows "sorted_wrt (<) (map k_openTime (upsertSeries c xs))"
proof (cases "\<exists>x \<in> set xs. k_openTime x = k_openTime c")
  case True
  then show ?thesis using assms by (simp add: upsertSeries_def)
next
  case False
  have "distinct (map k_openTime (xs @ [c]))"
    using assms False by (auto simp: strict_sorted_iff)
  then have "distinct (map k_openTime (sort_key k_openTime (xs @ [c])))"
    by (simp only: distinct_map set_sort distinct_sort)
  with False show ?thesis by (simp add: upsertSeries_def strict_sorted_iff)
qed

lemma upsertSeries_append:
  assumes "sorted_wrt (<) (map k_openTime xs)" "\<forall>x \<in> set xs. k_openTime x < k_openTime c"
  shows "upsertSeries c xs = xs @ [c]"
proof -
  have "sorted (map k_openTime (xs @ [c]))"
    using assms by (auto simp: strict_sorted_iff sorted_append intro: less_imp_le)
  then have "sort_key k_openTime (xs @ [c]) = xs @ [c]"
    by (rule sort_key_id_if_sorted)
  with assms(2) show ?thesis by (auto simp: upsertSeries_def)
qed

lemma seriesOk_Nil [simp]: "0 < n \<Longrightarrow> seriesOk n key []"
  by (simp add: seriesOk_def)

lemma storeOk_series:
  "storeOk st \<Longrightarrow> seriesOk (ks_maxPerSeries st) key (coalesce (mget (ks_candles st) key) [])"
  by (cases "mget (ks_candles st) key") (auto simp: storeOk_def)

lemma storeOk_upsertCandle: "storeOk st \<Longrightarrow> storeOk (upsertCandle c st)"
proof (cases "malformed c")
  case True
  then show "storeOk st \<Longrightarrow> ?thesis" by (simp add: upsertCandle_def)
next
  case False
  assume ok: "storeOk st"
  define key where "key = seriesKey (k_symbol c) (k_interval c)"
  define xs where "xs = coalesce (mget (ks_candles st) key) []"
  define ys where "ys = (if int (length (upsertSeries c xs)) > ks_maxPerSeries st
    then sliceLast (ks_maxPerSeries st) (upsertSeries c xs) else upsertSeries c xs)"
  have pos: "0 < ks_maxPerSeries st" using ok by (simp add: storeOk_def)
  have xs: "seriesOk (ks_maxPerSeries st) key xs" unfolding xs_def by (rule storeOk_series [OF ok])
  have "set ys \<subseteq> insert c (set xs)"
    using set_upsertSeries [of c xs] set_sliceLast [of "ks_maxPerSeries st" "upsertSeries c xs"]
    by (auto simp: ys_def split: if_splits)
  moreover have "int (length ys) \<le> ks_maxPerSeries st"
    using length_sliceLast [OF pos, of "upsertSeries c xs"] by (auto simp: ys_def)
  moreover have "sorted_wrt (<) (map k_openTime ys)"
    using xs by (auto simp: ys_def seriesOk_def intro!: sorted_upsertSeries sorted_wrt_sliceLast)
  ultimately have "seriesOk (ks_maxPerSeries st) key ys"
    using xs False by (auto simp: seriesOk_def key_def)
  moreover have "upsertCandle c st = st\<lparr>ks_candles := mset key ys (ks_candles st)\<rparr>"
    using False by (simp add: upsertCandle_def key_def xs_def ys_def Let_def)
  ultimately show ?thesis using ok by (auto simp: storeOk_def)
qed

lemma storeOk_clearStore: "storeOk st \<Longrightarrow> storeOk (clearStore st)"
  by (simp add: storeOk_def clearStore_def)

datatype storeOp = Upsert candle | Tick tick klineInterval | Clear

fun storeStep :: "storeOp \<Rightarrow> klineStore \<Rightarrow> klineStore" where
  "storeStep (Upsert c) st = upsertCandle c st"
| "storeStep (Tick t i) st = snd (applyTick t i st)"
| "storeStep Clear st = clearStore st"

interpretation candles: component storeStep storeOk
proof unfold_locales
  fix st op
  assume "storeOk st"
  then show "storeOk (storeStep op st)"
    by (cases op) (simp_all add: storeOk_upsertCandle storeOk_clearStore applyTick_def Let_def)
qed

lemma storeOk_new: "0 < n \<Longrightarrow> storeOk (newKlineStore n)"
  by (simp add: storeOk_def newKlineStore_def)


subsection \<open>Ticks aggregate into bars\<close>

text \<open>The bar of the ticks of one bucket: open of the first, extremes of all, close of the
  last, total volume.\<close>

definition barOf :: "klineInterval \<Rightarrow> tick list \<Rightarrow> candle" where
  "barOf i ts =
     (let b = floorToInterval (tk_ts (hd ts)) i in
      \<lparr>k_symbol = tk_symbol (hd ts), k_interval = intervalName i, k_openTime = b,
       k_open = tk_price (hd ts), k_high = foldr max (map tk_price ts) (tk_price (hd ts)),
       k_low = foldr min (map tk_price ts) (tk_price (hd ts)), k_close = tk_price (last ts),
       k_volume = Some (sum_list (map tk_qty ts)), k_closeTime = Some (b + INTERVAL_MS i - 1),
       k_isClosed = False\<rparr>)"

definition sameBucket :: "klineInterval \<Rightarrow> string \<Rightarrow> ms \<Rightarrow> tick \<Rightarrow> bool" where
  "sameBucket i symbol b t \<longleftrightarrow>
     tk_symbol t = symbol \<and> floorToInterval (tk_ts t) i = b \<and> 0 \<le> tk_qty t"

lemma foldr_max_snoc: "foldr max (xs @ [y]) (a::number) = max y (foldr max xs a)"
  by (induction xs) (auto simp: max.left_commute max.commute)

lemma foldr_min_snoc: "foldr min (xs @ [y]) (a::number) = min y (foldr min xs a)"
  by (induction xs) (auto simp: min.left_commute min.commute)

lemma foldr_max_ge: "a \<le> foldr max xs (a::number)"
  by (induction xs) (auto simp: le_max_iff_disj)

lemma foldr_min_le: "foldr min xs (a::number) \<le> a"
  by (induction xs) (auto simp: min_le_iff_disj)

lemma barOf_wellformed:
  assumes "ts \<noteq> []" "\<forall>t \<in> set ts. sameBucket i symbol b t" "0 < b"
  shows "\<not> malformed (barOf i ts)"
proof -
  have "0 \<le> sum_list (map tk_qty ts)"
    using assms(2) by (intro sum_list_nonneg) (auto simp: sameBucket_def)
  moreover have "foldr min (map tk_price ts) (tk_price (hd ts)) \<le> foldr max (map tk_price ts) (tk_price (hd ts))"
    by (rule order_trans [OF foldr_min_le foldr_max_ge])
  moreover have "floorToInterval (tk_ts (hd ts)) i = b"
    using assms(1,2) by (simp add: sameBucket_def)
  ultimately show ?thesis
    using assms(3) by (simp add: malformed_def barOf_def Let_def)
qed

lemma tickCandle_first:
  assumes "\<forall>x \<in> set xs. k_openTime x < floorToInterval (tk_ts t) i"
  shows "tickCandle t i xs = barOf i [t]"
proof -
  have "xs \<noteq> [] \<Longrightarrow> k_openTime (last xs) \<noteq> floorToInterval (tk_ts t) i"
    using assms last_in_set [of xs] by fastforce
  then show ?thesis by (auto simp: tickCandle_def barOf_def Let_def)
qed

lemma tickCandle_next:
  assumes "ts \<noteq> []" "floorToInterval (tk_ts t) i = floorToInterval (tk_ts (hd ts)) i"
  shows "tickCandle t i (xs @ [barOf i ts]) = barOf i (ts @ [t])"
  using assms
  by (simp add: tickCandle_def barOf_def Let_def foldr_max_snoc foldr_min_snoc max.commute min.commute
      del: foldr_append)

lemma bar_key:
  assumes "ts \<noteq> []" "\<forall>t \<in> set ts. sameBucket i symbol b t"
  shows "k_symbol (barOf i ts) = symbol" "k_interval (barOf i ts) = intervalName i" "k_openTime (barOf i ts) = b"
  using assms by (auto simp: barOf_def Let_def sameBucket_def)

definition bounded :: "int \<Rightarrow> candle list \<Rightarrow> candle list" where
  "bounded n xs = (if int (length xs) > n then sliceLast n xs else xs)"

lemma bounded_snoc: "0 < n \<Longrightarrow> \<exists>ys. \<forall>x. bounded n (xs @ [x]) = ys @ [x]"
proof -
  assume n: "0 < n"
  show ?thesis
  proof (cases "int (Suc (length xs)) > n")
    case True
    then have "bounded n (xs @ [x]) = drop (Suc (length xs) - nat n) xs @ [x]" for x
      using n by (simp add: bounded_def sliceLast_def)
    then show ?thesis by auto
  next
    case False
    then show ?thesis by (auto simp: bounded_def)
  qed
qed

lemma mget_upsertCandle:
  assumes "\<not> malformed c" "seriesKey (k_symbol c) (k_interval c) = key"
  shows "mget (ks_candles (upsertCandle c st)) key =
    Some (bounded (ks_maxPerSeries st) (upsertSeries c (coalesce (mget (ks_candles st) key) [])))"
  using assms by (simp add: upsertCandle_def Let_def bounded_def)

lemma maxPerSeries_upsertCandle [simp]: "ks_maxPerSeries (upsertCandle c st) = ks_maxPerSeries st"
  by (simp add: upsertCandle_def Let_def)


definition feed :: "klineInterval \<Rightarrow> tick list \<Rightarrow> klineStore \<Rightarrow> klineStore" where
  "feed i ts st = fold (\<lambda>t st. snd (applyTick t i st)) ts st"

lemma feed_snoc: "feed i (ts @ [t]) st = snd (applyTick t i (feed i ts st))"
  by (simp add: feed_def)

lemma feed_step: "feed i ts st = fold storeStep (map (\<lambda>t. Tick t i) ts) st"
  by (induction ts arbitrary: st) (simp_all add: feed_def)

lemma storeOk_feed: "storeOk st \<Longrightarrow> storeOk (feed i ts st)"
  unfolding feed_step by (rule candles.inv_run)

lemma maxPerSeries_feed: "ks_maxPerSeries (feed i ts st) = ks_maxPerSeries st"
  by (induction ts arbitrary: st) (auto simp: feed_def applyTick_def Let_def)

lemma applyTick_series:
  assumes "coalesce (mget (ks_candles st) (seriesKey symbol (intervalName i))) [] = xs"
    and "tickCandle t i xs = c" "\<not> malformed c" "k_symbol c = symbol" "k_interval c = intervalName i"
    and "tk_symbol t = symbol"
  shows "mget (ks_candles (snd (applyTick t i st))) (seriesKey symbol (intervalName i)) =
    Some (bounded (ks_maxPerSeries st) (upsertSeries c xs))"
  using assms by (simp add: applyTick_def Let_def mget_upsertCandle)

lemma feed_bar:
  assumes st: "storeOk st" and b: "0 < b"
    and old: "coalesce (mget (ks_candles st) (seriesKey symbol (intervalName i))) [] = old"
    and older: "\<forall>c \<in> set old. k_openTime c < b"
    and ts: "ts \<noteq> []" "\<forall>t \<in> set ts. sameBucket i symbol b t"
  shows "mget (ks_candles (feed i ts st)) (seriesKey symbol (intervalName i)) =
    Some (bounded (ks_maxPerSeries st) (old @ [barOf i ts]))"
  using ts
proof (induction ts rule: rev_nonempty_induct)
  case (single t)
  then have t: "sameBucket i symbol b t" by simp
  then have first: "tickCandle t i old = barOf i [t]"
    using older by (intro tickCandle_first) (simp add: sameBucket_def)
  have sorted: "sorted_wrt (<) (map k_openTime old)"
    using storeOk_series [OF st, of "seriesKey symbol (intervalName i)"] old by (simp add: seriesOk_def)
  have "upsertSeries (barOf i [t]) old = old @ [barOf i [t]]"
    using sorted older t by (intro upsertSeries_append) (simp_all add: bar_key [where b = b and symbol = symbol])
  moreover have "\<not> malformed (barOf i [t])"
    using barOf_wellformed [OF _ single b] by simp
  then have "mget (ks_candles (snd (applyTick t i st))) (seriesKey symbol (intervalName i)) =
      Some (bounded (ks_maxPerSeries st) (upsertSeries (barOf i [t]) old))"
    using t by (intro applyTick_series [OF old first])
      (simp_all add: bar_key [where b = b and symbol = symbol] sameBucket_def)
  ultimately show ?case by (simp add: feed_def)
next
  case (snoc t ts)
  let ?n = "ks_maxPerSeries st" and ?key = "seriesKey symbol (intervalName i)"
  let ?new = "barOf i (ts @ [t])" and ?st = "feed i ts st"
  have in_bucket: "\<forall>t \<in> set ts. sameBucket i symbol b t" "sameBucket i symbol b t" using snoc.prems by auto
  have n: "0 < ?n" using st by (simp add: storeOk_def)
  obtain ys where ys: "\<And>x. bounded ?n (old @ [x]) = ys @ [x]" using bounded_snoc [OF n] by metis
  have cur: "mget (ks_candles ?st) ?key = Some (ys @ [barOf i ts])"
    using snoc.IH in_bucket ys by simp
  then have okys: "seriesOk ?n ?key (ys @ [barOf i ts])"
    using storeOk_series [OF storeOk_feed [OF st, of i ts], of ?key] by (simp add: maxPerSeries_feed)
  have old_t: "k_openTime (barOf i ts) = b" using bar_key(3) [OF snoc.hyps in_bucket(1)] .
  have new: "k_symbol ?new = symbol" "k_interval ?new = intervalName i" "k_openTime ?new = b"
    by (rule bar_key [OF _ snoc.prems], simp)+
  have tc: "tickCandle t i (ys @ [barOf i ts]) = ?new"
    using snoc.hyps in_bucket by (intro tickCandle_next) (auto simp: sameBucket_def)
  have "upsertSeries ?new (ys @ [barOf i ts]) = ys @ [?new]"
    using okys old_t new(3) by (auto simp: upsertSeries_def seriesOk_def sorted_wrt_append intro!: replaceCandle_last)
  moreover have "mget (ks_candles (snd (applyTick t i ?st))) ?key =
      Some (bounded (ks_maxPerSeries ?st) (upsertSeries ?new (ys @ [barOf i ts])))"
    using cur tc new in_bucket(2) barOf_wellformed [OF _ snoc.prems b]
    by (intro applyTick_series) (simp_all add: sameBucket_def)
  moreover have "bounded ?n (ys @ [?new]) = ys @ [?new]"
    using okys by (simp add: bounded_def seriesOk_def)
  ultimately show ?case by (simp add: feed_snoc maxPerSeries_feed ys)
qed


subsection \<open>Gaps\<close>

lemma math_round_of_int [simp]: "math_round (of_int n) = n"
  by (simp add: math_round_def floor_eq_iff)

lemma math_round_exact: "0 < w \<Longrightarrow> w dvd d \<Longrightarrow> math_round (of_int d / of_int w) = d div w"
  by (auto elim!: dvdE)

lemma gaps_missing:
  assumes "0 < w" "xs \<noteq> []" "sorted_wrt (<) (map k_openTime xs)" "\<forall>c \<in> set xs. w dvd k_openTime c"
  shows "(\<Sum>g\<leftarrow>gapsOf w xs. gp_missingCount g) * w =
    k_openTime (last xs) - k_openTime (hd xs) - w * (int (length xs) - 1)"
  using assms
proof (induction w xs rule: gapsOf.induct)
  case (1 w p c rest)
  have "w dvd k_openTime c - k_openTime p" using "1.prems" by simp
  then obtain m where m: "k_openTime c - k_openTime p = w * m" by (elim dvdE)
  have lt: "k_openTime p < k_openTime c" using "1.prems" by simp
  then have "0 < w * m" using m by simp
  then have pos: "1 \<le> m" using "1.prems"(1) by (simp add: zero_less_mult_iff)
  have round: "math_round (of_int (w * m) / of_int w) = m"
    using "1.prems"(1) by (subst math_round_exact) simp_all
  have IH: "(\<Sum>g\<leftarrow>gapsOf w (c # rest). gp_missingCount g) * w =
      k_openTime (last (c # rest)) - k_openTime c - w * (int (length (c # rest)) - 1)"
    using "1.IH" [OF refl] "1.prems" by simp
  have sum: "(\<Sum>g\<leftarrow>gapsOf w (p # c # rest). gp_missingCount g) =
      (m - 1) + (\<Sum>g\<leftarrow>gapsOf w (c # rest). gp_missingCount g)"
  proof (cases "m = 1")
    case True
    then show ?thesis using m by (simp add: Let_def)
  next
    case False
    then have "w * m > w" using pos "1.prems"(1) by simp
    then show ?thesis using m round by (simp add: Let_def)
  qed
  have "(\<Sum>g\<leftarrow>gapsOf w (p # c # rest). gp_missingCount g) * w =
      w * m - w + (\<Sum>g\<leftarrow>gapsOf w (c # rest). gp_missingCount g) * w"
    unfolding sum by (simp add: algebra_simps)
  then show ?case using IH m by (simp add: algebra_simps del: gapsOf.simps)
qed simp_all


subsection \<open>Properties\<close>

lemma applyTick_late:
  assumes "storeOk st" "mget (ks_candles st) (seriesKey (tk_symbol t) (intervalName i)) = Some (xs @ c # ys)"
    and "ys \<noteq> []" "floorToInterval (tk_ts t) i = k_openTime c" "0 < k_openTime c" "0 \<le> tk_qty t"
  shows "mget (ks_candles (snd (applyTick t i st))) (seriesKey (tk_symbol t) (intervalName i)) =
    Some (xs @ barOf i [t] # ys)"
proof -
  let ?key = "seriesKey (tk_symbol t) (intervalName i)" and ?n = "ks_maxPerSeries st"
  have ok: "seriesOk ?n ?key (xs @ c # ys)" using assms(1,2) by (simp add: storeOk_def)
  have ys: "k_openTime c < k_openTime (last ys)" and xs: "\<forall>x \<in> set xs. k_openTime x < k_openTime c"
    using ok last_in_set [OF assms(3)] by (auto simp: seriesOk_def sorted_wrt_append)
  have bar: "tickCandle t i (xs @ c # ys) = barOf i [t]"
    using ys assms(3,4) by (simp add: tickCandle_def barOf_def Let_def)
  have t: "\<forall>x \<in> set [t]. sameBucket i (tk_symbol t) (k_openTime c) x"
    using assms(4,6) by (simp add: sameBucket_def)
  have key: "k_symbol (barOf i [t]) = tk_symbol t" "k_interval (barOf i [t]) = intervalName i"
    "k_openTime (barOf i [t]) = k_openTime c"
    by (rule bar_key [OF _ t], simp)+
  have "replaceCandle (barOf i [t]) (xs @ c # ys) = xs @ barOf i [t] # ys"
    using xs key(3) by (induction xs) auto
  then have "upsertSeries (barOf i [t]) (xs @ c # ys) = xs @ barOf i [t] # ys"
    using key(3) by (auto simp: upsertSeries_def)
  moreover have "bounded ?n (xs @ barOf i [t] # ys) = xs @ barOf i [t] # ys"
    using ok by (simp add: bounded_def seriesOk_def)
  moreover have "\<not> malformed (barOf i [t])" by (rule barOf_wellformed [OF _ t assms(5)]) simp
  ultimately show ?thesis
    using applyTick_series [of st "tk_symbol t" i "xs @ c # ys" t "barOf i [t]"] assms(2) bar key by simp
qed

text \<open>C20. The candle store keeps its invariant under every operation: after any sequence of
  upserts, ticks and clears from a fresh store, each series is strictly sorted by opening time,
  no longer than the bound, free of malformed candles and holds only its own key.\<close>

theorem kline_store_invariant:
  assumes "0 < n" and "mget (ks_candles (fold storeStep ops (newKlineStore n))) key = Some series"
  shows "sorted_wrt (<) (map k_openTime series) \<and> int (length series) \<le> n \<and>
    (\<forall>c \<in> set series. k_low c \<le> k_high c \<and> 0 < k_openTime c \<and> seriesKey (k_symbol c) (k_interval c) = key)"
proof -
  have max: "ks_maxPerSeries (fold storeStep ops st) = ks_maxPerSeries st" for st
  proof (induction ops arbitrary: st)
    case (Cons op ops)
    then show ?case by (cases op) (simp_all add: applyTick_def Let_def clearStore_def)
  qed simp
  have "storeOk (fold storeStep ops (newKlineStore n))"
    by (rule candles.inv_run) (rule storeOk_new [OF assms(1)])
  then have "seriesOk n key series"
    using assms(2) max [of "newKlineStore n"] by (simp add: storeOk_def newKlineStore_def)
  then show ?thesis by (auto simp: seriesOk_def malformed_def)
qed

definition exampleTick :: "number \<Rightarrow> ms \<Rightarrow> tick" where
  "exampleTick price ts = \<lparr>tk_symbol = ''B'', tk_price = price, tk_qty = 1, tk_ts = ts\<rparr>"

theorem kline_store_invariant_witness:
  "\<exists>series. mget (ks_candles (fold storeStep [Tick (exampleTick 5 60001) I_1m] (newKlineStore 500))) ''B:1m'' = Some series \<and>
     int (length series) \<le> 500"
proof -
  have "\<exists>series. mget (ks_candles (fold storeStep [Tick (exampleTick 5 60001) I_1m] (newKlineStore 500))) ''B:1m'' = Some series"
    by (simp add: applyTick_def upsertCandle_def tickCandle_def newKlineStore_def exampleTick_def Let_def
        seriesKey_def floorToInterval_def malformed_def)
  then obtain series where
    "mget (ks_candles (fold storeStep [Tick (exampleTick 5 60001) I_1m] (newKlineStore 500))) ''B:1m'' = Some series" ..
  with kline_store_invariant [OF _ this] show ?thesis by auto
qed

text \<open>The ticks of one bucket that is newer than every stored candle aggregate into exactly
  one bar: open of the first tick, highest and lowest price, close of the last, summed volume;
  the older candles stay, up to the bound of the series.\<close>

theorem ticks_build_bar:
  assumes "storeOk st" "0 < b" "ts \<noteq> []" "\<forall>t \<in> set ts. sameBucket i symbol b t"
    and "coalesce (mget (ks_candles st) (seriesKey symbol (intervalName i))) [] = old"
    and "\<forall>c \<in> set old. k_openTime c < b"
  shows "mget (ks_candles (fold (\<lambda>t st. snd (applyTick t i st)) ts st)) (seriesKey symbol (intervalName i)) =
    Some (bounded (ks_maxPerSeries st) (old @ [barOf i ts]))"
  using feed_bar [OF assms(1,2,5,6,3,4)] by (simp add: feed_def)

theorem ticks_build_bar_witness:
  "mget (ks_candles (fold (\<lambda>t st. snd (applyTick t I_1m st))
      [exampleTick 5 60001, exampleTick 9 60002, exampleTick 7 119999] (newKlineStore 500))) ''B:1m'' =
    Some [\<lparr>k_symbol = ''B'', k_interval = ''1m'', k_openTime = 60000, k_open = 5, k_high = 9, k_low = 5,
      k_close = 7, k_volume = Some 3, k_closeTime = Some 119999, k_isClosed = False\<rparr>]"
  using ticks_build_bar [OF storeOk_new [of 500], of 60000 "[exampleTick 5 60001, exampleTick 9 60002, exampleTick 7 119999]"
      I_1m "''B''" "[]"]
  by (simp add: newKlineStore_def exampleTick_def sameBucket_def floorToInterval_def bounded_def barOf_def
      Let_def seriesKey_def)

text \<open>Gap detection accounts for every missing bar: on a series of candles aligned to the
  interval, the missing counts of the reported gaps add up to the number of bars between the
  first and the last that the series does not hold.\<close>

theorem gaps_account_for_missing_bars:
  assumes "storeOk st" "mget (ks_candles st) (seriesKey symbol (intervalName i)) = Some series" "series \<noteq> []"
    and "\<forall>c \<in> set series. INTERVAL_MS i dvd k_openTime c"
  shows "(\<Sum>g\<leftarrow>detectGaps st symbol i. gp_missingCount g) + int (length series) =
    (k_openTime (last series) - k_openTime (hd series)) div INTERVAL_MS i + 1"
proof -
  let ?w = "INTERVAL_MS i"
  have "sorted_wrt (<) (map k_openTime series)"
    using assms(1,2) by (auto simp: storeOk_def seriesOk_def)
  then have "(\<Sum>g\<leftarrow>gapsOf ?w series. gp_missingCount g) * ?w =
      k_openTime (last series) - k_openTime (hd series) - ?w * (int (length series) - 1)"
    using assms(3,4) by (intro gaps_missing) simp_all
  then have "k_openTime (last series) - k_openTime (hd series) =
      ((\<Sum>g\<leftarrow>gapsOf ?w series. gp_missingCount g) + int (length series) - 1) * ?w"
    by (simp add: algebra_simps)
  then have "(k_openTime (last series) - k_openTime (hd series)) div ?w =
      (\<Sum>g\<leftarrow>gapsOf ?w series. gp_missingCount g) + int (length series) - 1"
    using less_imp_neq [OF INTERVAL_MS_pos [of i]] by simp
  then show ?thesis using assms(2) by (simp add: detectGaps_def)
qed

definition exampleBar :: "ms \<Rightarrow> candle" where
  "exampleBar t = \<lparr>k_symbol = ''B'', k_interval = ''1m'', k_openTime = t, k_open = 5, k_high = 6, k_low = 4,
     k_close = 5, k_volume = Some 1, k_closeTime = None, k_isClosed = True\<rparr>"

definition gappyStore :: klineStore where
  "gappyStore = \<lparr>ks_candles = [(''B:1m'', [exampleBar 60000, exampleBar 240000])], ks_maxPerSeries = 500\<rparr>"

lemma gappyStore_ok: "storeOk gappyStore"
  by (simp add: storeOk_def gappyStore_def seriesOk_def mget_def exampleBar_def malformed_def seriesKey_def)

theorem gaps_account_for_missing_bars_witness:
  "(\<Sum>g\<leftarrow>detectGaps gappyStore ''B'' I_1m. gp_missingCount g) = 2"
proof -
  have "mget (ks_candles gappyStore) (seriesKey ''B'' (intervalName I_1m)) = Some [exampleBar 60000, exampleBar 240000]"
    by (simp add: gappyStore_def mget_def seriesKey_def)
  from gaps_account_for_missing_bars [OF gappyStore_ok this] show ?thesis
    by (simp add: exampleBar_def)
qed

text \<open>A tick of an earlier bucket than the last bar does not update that bucket's bar: the
  bar is replaced by one built from the late tick alone, and its open, extremes and volume are
  lost.\<close>

theorem late_tick_overwrites_bar:
  assumes "storeOk st" "mget (ks_candles st) (seriesKey (tk_symbol t) (intervalName i)) = Some (xs @ c # ys)"
    and "ys \<noteq> []" "floorToInterval (tk_ts t) i = k_openTime c" "0 < k_openTime c" "0 \<le> tk_qty t"
  shows "mget (ks_candles (snd (applyTick t i st))) (seriesKey (tk_symbol t) (intervalName i)) =
    Some (xs @ \<lparr>k_symbol = tk_symbol t, k_interval = intervalName i, k_openTime = k_openTime c,
      k_open = tk_price t, k_high = tk_price t, k_low = tk_price t, k_close = tk_price t,
      k_volume = Some (tk_qty t), k_closeTime = Some (k_openTime c + INTERVAL_MS i - 1),
      k_isClosed = False\<rparr> # ys)"
  using applyTick_late [OF assms] assms(4) by (simp add: barOf_def Let_def)

theorem late_tick_overwrites_bar_witness:
  "map k_high (coalesce (mget (ks_candles (snd (applyTick (exampleTick 5 60001) I_1m gappyStore))) ''B:1m'') []) = [5, 6]"
  using late_tick_overwrites_bar [OF gappyStore_ok, of "exampleTick 5 60001" I_1m "[]" "exampleBar 60000" "[exampleBar 240000]"]
  by (simp add: gappyStore_def exampleTick_def exampleBar_def mget_def seriesKey_def floorToInterval_def)

end
