(* ===== verification/Market_State.thy ===== *)
theory Market_State
  imports Broker_Types
begin

section \<open>The market state manager (market/MarketState.ts)\<close>

text \<open>
  \<open>MarketStateManager\<close>: the last quote, trade, mark price and derivatives statistics of every
  instrument, the admission checks of incoming ticks and the health of the data. A number that
  is not finite is \<open>None\<close>; an exchange time stamp is the number its string spells, an absent or
  empty one \<open>None\<close>. The texts of \<open>lastQualityReason\<close> are left out.
\<close>

datatype dataHealth = HEALTHY_H | DEGRADED_H | STALE_H | INVALID_H | DISCONNECTED_H

record marketEntry = marketState +
  m_nextFundingTimeUtc :: "ms option"
  m_openInterest :: "number option"
  m_openInterestDelta :: "number option"
  m_openInterestTimestampUtc :: "ms option"
  m_longShortRatio :: "number option"
  m_longShortTimestampUtc :: "ms option"
  m_topTraderLongShortRatio :: "number option"
  m_topTraderTimestampUtc :: "ms option"
  m_takerBuyVolume :: "number option"
  m_takerSellVolume :: "number option"
  m_takerDelta :: "number option"
  m_takerVolumeTimestampUtc :: "ms option"

record marketManager =
  mm_states :: "(string, marketEntry) jsmap"
  mm_instruments :: "(string, instrument) jsmap"

definition emptyEntry :: "ms \<Rightarrow> string \<Rightarrow> marketEntry" where
  "emptyEntry now s = \<lparr>m_symbol = s, m_bid = None, m_ask = None, m_bidQty = None, m_askQty = None,
     m_spread = None, m_last = None, m_lastQty = None, m_mark = None, m_index = None,
     m_fundingRate = None, m_exchangeTsUtc = None, m_localTsUtc = now, m_latencyMs = None,
     m_stale = True, m_lastQualityStatus = None, m_nextFundingTimeUtc = None, m_openInterest = None,
     m_openInterestDelta = None, m_openInterestTimestampUtc = None, m_longShortRatio = None,
     m_longShortTimestampUtc = None, m_topTraderLongShortRatio = None, m_topTraderTimestampUtc = None,
     m_takerBuyVolume = None, m_takerSellVolume = None, m_takerDelta = None,
     m_takerVolumeTimestampUtc = None\<rparr>"

definition newMarketManager :: "ms \<Rightarrow> instrument list \<Rightarrow> marketManager" where
  "newMarketManager now insts =
     \<lparr>mm_states = fold (\<lambda>i. mset (i_symbol i) (emptyEntry now (i_symbol i))) insts [],
      mm_instruments = fold (\<lambda>i. mset (i_symbol i) i) insts []\<rparr>"

text \<open>The handlers change the entry of their symbol, if there is one.\<close>

definition onEntry :: "string \<Rightarrow> (marketEntry \<Rightarrow> marketEntry) \<Rightarrow> marketManager \<Rightarrow> marketManager" where
  "onEntry s f mm = mm\<lparr>mm_states := mupd s f (mm_states mm)\<rparr>"

definition future :: "ms \<Rightarrow> ms option \<Rightarrow> bool" where
  "future now ex = (case ex of None \<Rightarrow> False | Some t \<Rightarrow> t > now + 10000)"

definition outOfOrder :: "ms option \<Rightarrow> ms option \<Rightarrow> bool" where
  "outOfOrder ex prev = (case ex of None \<Rightarrow> False | Some t \<Rightarrow> t < coalesce prev 0)"

definition bookTicker ::
  "ms \<Rightarrow> number option \<Rightarrow> number option \<Rightarrow> number option \<Rightarrow> number option \<Rightarrow> ms option \<Rightarrow> marketEntry \<Rightarrow> marketEntry" where
  "bookTicker now bid ask bidQty askQty ex m =
     (if outOfOrder ex (m_exchangeTsUtc m) then m\<lparr>m_lastQualityStatus := Some OUT_OF_ORDER\<rparr>
      else if future now ex then m\<lparr>m_lastQualityStatus := Some INVALID\<rparr>
      else
        (case (bid, ask) of
           (Some b, Some a) \<Rightarrow>
             if b \<le> 0 \<or> a \<le> 0 \<or> a < b then m\<lparr>m_lastQualityStatus := Some INVALID\<rparr>
             else m\<lparr>m_bid := Some b, m_ask := Some a, m_bidQty := bidQty, m_askQty := askQty,
               m_spread := Some (a - b), m_exchangeTsUtc := ex,
               m_latencyMs := (case ex of None \<Rightarrow> None | Some t \<Rightarrow> if t = 0 then None else Some (max 0 (now - t))),
               m_localTsUtc := now, m_stale := False, m_lastQualityStatus := Some VALID\<rparr>
         | _ \<Rightarrow> m\<lparr>m_lastQualityStatus := Some INVALID\<rparr>))"

definition onBookTicker ::
  "ms \<Rightarrow> string \<Rightarrow> number option \<Rightarrow> number option \<Rightarrow> number option \<Rightarrow> number option \<Rightarrow> ms option \<Rightarrow>
   marketManager \<Rightarrow> marketManager" where
  "onBookTicker now s bid ask bidQty askQty ex mm = onEntry s (bookTicker now bid ask bidQty askQty ex) mm"

definition aggTrade :: "ms \<Rightarrow> number option \<Rightarrow> number option \<Rightarrow> ms option \<Rightarrow> marketEntry \<Rightarrow> marketEntry" where
  "aggTrade now price qty ex m =
     (if future now ex then m\<lparr>m_lastQualityStatus := Some INVALID\<rparr>
      else
        (case price of
           None \<Rightarrow> m\<lparr>m_lastQualityStatus := Some INVALID\<rparr>
         | Some p \<Rightarrow>
             if p \<le> 0 then m\<lparr>m_lastQualityStatus := Some INVALID\<rparr>
             else m\<lparr>m_last := Some p, m_lastQty := qty, m_exchangeTsUtc := ex, m_localTsUtc := now,
               m_stale := False, m_lastQualityStatus := Some VALID\<rparr>))"

definition onAggTrade ::
  "ms \<Rightarrow> string \<Rightarrow> number option \<Rightarrow> number option \<Rightarrow> ms option \<Rightarrow> marketManager \<Rightarrow> marketManager" where
  "onAggTrade now s price qty ex mm = onEntry s (aggTrade now price qty ex) mm"

definition markPrice ::
  "ms \<Rightarrow> number option \<Rightarrow> number option \<Rightarrow> number option \<Rightarrow> ms option \<Rightarrow> ms option \<Rightarrow> marketEntry \<Rightarrow> marketEntry" where
  "markPrice now mark index fundingRate nextFunding ex m =
     (if future now ex then m\<lparr>m_lastQualityStatus := Some INVALID\<rparr>
      else
        (case mark of
           None \<Rightarrow> m\<lparr>m_lastQualityStatus := Some INVALID\<rparr>
         | Some p \<Rightarrow>
             if p \<le> 0 then m\<lparr>m_lastQualityStatus := Some INVALID\<rparr>
             else m\<lparr>m_mark := Some p, m_index := index, m_fundingRate := fundingRate,
               m_nextFundingTimeUtc := nextFunding, m_exchangeTsUtc := ex, m_localTsUtc := now,
               m_stale := False, m_lastQualityStatus := Some VALID\<rparr>))"

definition onMarkPrice ::
  "ms \<Rightarrow> string \<Rightarrow> number option \<Rightarrow> number option \<Rightarrow> number option \<Rightarrow> ms option \<Rightarrow> ms option \<Rightarrow>
   marketManager \<Rightarrow> marketManager" where
  "onMarkPrice now s mark index rate next ex mm = onEntry s (markPrice now mark index rate next ex) mm"

record derivatives =
  dv_openInterest :: "number option"
  dv_openInterestDelta :: "number option"
  dv_openInterestTimestampUtc :: "ms option"
  dv_longShortRatio :: "number option"
  dv_longShortTimestampUtc :: "ms option"
  dv_topTraderLongShortRatio :: "number option"
  dv_topTraderTimestampUtc :: "ms option"
  dv_takerBuyVolume :: "number option"
  dv_takerSellVolume :: "number option"
  dv_takerDelta :: "number option"
  dv_takerVolumeTimestampUtc :: "ms option"

text \<open>A statistic that is given replaces the old one, with its own time stamp or the present.\<close>

definition stampOf :: "ms \<Rightarrow> bool \<Rightarrow> ms option \<Rightarrow> ms option \<Rightarrow> ms option" where
  "stampOf now given stamp old = (if given then Some (coalesce stamp now) else old)"

definition derivativesUpdate :: "ms \<Rightarrow> derivatives \<Rightarrow> marketEntry \<Rightarrow> marketEntry" where
  "derivativesUpdate now d m = m\<lparr>
     m_openInterest := orElse (dv_openInterest d) (m_openInterest m),
     m_openInterestTimestampUtc := stampOf now (dv_openInterest d \<noteq> None) (dv_openInterestTimestampUtc d)
       (m_openInterestTimestampUtc m),
     m_openInterestDelta := orElse (dv_openInterestDelta d) (m_openInterestDelta m),
     m_longShortRatio := orElse (dv_longShortRatio d) (m_longShortRatio m),
     m_longShortTimestampUtc := stampOf now (dv_longShortRatio d \<noteq> None) (dv_longShortTimestampUtc d)
       (m_longShortTimestampUtc m),
     m_topTraderLongShortRatio := orElse (dv_topTraderLongShortRatio d) (m_topTraderLongShortRatio m),
     m_topTraderTimestampUtc := stampOf now (dv_topTraderLongShortRatio d \<noteq> None)
       (dv_topTraderTimestampUtc d) (m_topTraderTimestampUtc m),
     m_takerBuyVolume := orElse (dv_takerBuyVolume d) (m_takerBuyVolume m),
     m_takerSellVolume := orElse (dv_takerSellVolume d) (m_takerSellVolume m),
     m_takerDelta := orElse (dv_takerDelta d) (m_takerDelta m),
     m_takerVolumeTimestampUtc := stampOf now
       (dv_takerVolumeTimestampUtc d \<noteq> None \<or> dv_takerBuyVolume d \<noteq> None \<or> dv_takerSellVolume d \<noteq> None
         \<or> dv_takerDelta d \<noteq> None)
       (dv_takerVolumeTimestampUtc d) (m_takerVolumeTimestampUtc m),
     m_localTsUtc := now\<rparr>"

definition onDerivatives :: "ms \<Rightarrow> string \<Rightarrow> derivatives \<Rightarrow> marketManager \<Rightarrow> marketManager" where
  "onDerivatives now s d mm = onEntry s (derivativesUpdate now d) mm"

definition getState :: "marketManager \<Rightarrow> string \<Rightarrow> marketEntry option" where
  "getState mm s = mget (mm_states mm) s"

definition markStale :: "ms \<Rightarrow> ms \<Rightarrow> marketManager \<Rightarrow> marketManager" where
  "markStale now maxAge mm = mm\<lparr>mm_states :=
     map (\<lambda>(s, m). (s, if now - m_localTsUtc m \<ge> maxAge then m\<lparr>m_stale := True\<rparr> else m)) (mm_states mm)\<rparr>"

definition isStale :: "ms \<Rightarrow> marketManager \<Rightarrow> string \<Rightarrow> ms \<Rightarrow> bool" where
  "isStale now mm s maxAge = (case getState mm s of None \<Rightarrow> True
     | Some m \<Rightarrow> m_stale m \<or> now - m_localTsUtc m \<ge> maxAge)"

definition hasValidBidAsk :: "marketManager \<Rightarrow> string \<Rightarrow> bool" where
  "hasValidBidAsk mm s = (case getState mm s of None \<Rightarrow> False
     | Some m \<Rightarrow> (case (m_bid m, m_ask m) of (Some b, Some a) \<Rightarrow> a \<ge> b | _ \<Rightarrow> False))"

definition hasValidMark :: "marketManager \<Rightarrow> string \<Rightarrow> bool" where
  "hasValidMark mm s = (case getState mm s of None \<Rightarrow> False
     | Some m \<Rightarrow> (case m_mark m of Some p \<Rightarrow> p > 0 | None \<Rightarrow> False))"

definition getDataHealth :: "ms \<Rightarrow> marketManager \<Rightarrow> string \<Rightarrow> ms \<Rightarrow> dataHealth" where
  "getDataHealth now mm s maxAge =
     (case getState mm s of
        None \<Rightarrow> DISCONNECTED_H
      | Some m \<Rightarrow>
          if isStale now mm s maxAge then STALE_H
          else if \<not> hasValidBidAsk mm s \<or> \<not> hasValidMark mm s then INVALID_H
          else if coalesce (m_latencyMs m) 0 > 2000 then DEGRADED_H
          else HEALTHY_H)"


subsection \<open>What the admission checks guarantee\<close>

definition entryOk :: "marketEntry \<Rightarrow> bool" where
  "entryOk m \<longleftrightarrow>
     (case (m_bid m, m_ask m) of
        (Some b, Some a) \<Rightarrow> 0 < b \<and> b \<le> a \<and> m_spread m = Some (a - b)
      | (None, None) \<Rightarrow> True | _ \<Rightarrow> False) \<and>
     (case m_mark m of Some p \<Rightarrow> 0 < p | None \<Rightarrow> True) \<and>
     (case m_last m of Some p \<Rightarrow> 0 < p | None \<Rightarrow> True)"

definition managerOk :: "marketManager \<Rightarrow> bool" where
  "managerOk mm \<longleftrightarrow> (\<forall>m \<in> set (mvals (mm_states mm)). entryOk m)"

datatype marketOp =
    Book ms string "number option" "number option" "number option" "number option" "ms option"
  | Trade ms string "number option" "number option" "ms option"
  | MarkTick ms string "number option" "number option" "number option" "ms option" "ms option"
  | Derivatives ms string derivatives
  | Sweep ms ms

fun marketStep :: "marketOp \<Rightarrow> marketManager \<Rightarrow> marketManager" where
  "marketStep (Book now s bid ask bq aq ex) mm = onBookTicker now s bid ask bq aq ex mm"
| "marketStep (Trade now s price qty ex) mm = onAggTrade now s price qty ex mm"
| "marketStep (MarkTick now s mark index rate next ex) mm = onMarkPrice now s mark index rate next ex mm"
| "marketStep (Derivatives now s d) mm = onDerivatives now s d mm"
| "marketStep (Sweep now maxAge) mm = markStale now maxAge mm"

lemma mvals_mset_subset: "set (mvals (mset k v m)) \<subseteq> insert v (set (mvals m))"
proof
  fix x
  assume "x \<in> set (mvals (mset k v m))"
  then obtain j where "(j, x) \<in> set (AList.update k v m)" by (auto simp: mvals_def mset_def)
  then have "(j, x) = (k, v) \<or> (j, x) \<in> set m"
    by (induction m) (auto split: if_splits)
  then show "x \<in> insert v (set (mvals m))" by (force simp: mvals_def)
qed

lemma managerOk_onEntry:
  assumes "managerOk mm" "\<And>m. entryOk m \<Longrightarrow> entryOk (f m)"
  shows "managerOk (onEntry s f mm)"
proof (cases "mget (mm_states mm) s")
  case None
  with assms(1) show ?thesis by (simp add: onEntry_def mupd_def)
next
  case (Some m)
  then have "entryOk (f m)" using assms mget_in_mvals [OF Some] by (simp add: managerOk_def)
  then show ?thesis
    using Some assms(1) mvals_mset_subset [of s "f m" "mm_states mm"]
    by (auto simp: managerOk_def onEntry_def mupd_def)
qed

lemma entryOk_bookTicker: "entryOk m \<Longrightarrow> entryOk (bookTicker now bid ask bq aq ex m)"
  by (auto simp: bookTicker_def entryOk_def split: option.splits)

lemma entryOk_aggTrade: "entryOk m \<Longrightarrow> entryOk (aggTrade now price qty ex m)"
  by (auto simp: aggTrade_def entryOk_def split: option.splits)

lemma entryOk_markPrice: "entryOk m \<Longrightarrow> entryOk (markPrice now mark index rate next ex m)"
  by (auto simp: markPrice_def entryOk_def split: option.splits)

lemma entryOk_derivativesUpdate: "entryOk m \<Longrightarrow> entryOk (derivativesUpdate now d m)"
  by (auto simp: derivativesUpdate_def entryOk_def split: option.splits)

lemma entryOk_stale: "entryOk (m\<lparr>m_stale := x\<rparr>) = entryOk m"
  by (simp add: entryOk_def cong: option.case_cong)

lemma managerOk_markStale: "managerOk mm \<Longrightarrow> managerOk (markStale now maxAge mm)"
  by (auto simp: managerOk_def markStale_def mvals_def entryOk_stale)

lemmas entryOk_ticks = entryOk_bookTicker entryOk_aggTrade entryOk_markPrice entryOk_derivativesUpdate

interpretation markets: component marketStep managerOk
proof unfold_locales
  fix mm op
  assume "managerOk mm"
  then show "managerOk (marketStep op mm)"
    by (cases op) (simp_all add: onBookTicker_def onAggTrade_def onMarkPrice_def onDerivatives_def
        managerOk_onEntry entryOk_ticks managerOk_markStale)
qed

lemma managerOk_new: "managerOk (newMarketManager now insts)"
proof -
  have "\<forall>m \<in> set (mvals (fold (\<lambda>i. mset (i_symbol i) (emptyEntry now (i_symbol i))) insts ms)). entryOk m"
    if "\<forall>m \<in> set (mvals ms). entryOk m" for ms
    using that
  proof (induction insts arbitrary: ms)
    case (Cons i insts)
    have "entryOk (emptyEntry now s)" for s by (simp add: entryOk_def emptyEntry_def)
    then show ?case
      using Cons mvals_mset_subset [of "i_symbol i" "emptyEntry now (i_symbol i)" ms] by auto
  qed simp
  from this [of "[]"] show ?thesis by (simp add: managerOk_def newMarketManager_def mvals_def)
qed

text \<open>Data the manager calls healthy or degraded is usable: after any sequence of ticks,
  statistics and staleness sweeps the symbol then has a positive bid not above the ask with the
  recorded spread, a positive mark price, and was updated less than the maximal age ago.\<close>

theorem healthy_data_is_usable:
  assumes "getDataHealth now (fold marketStep ops (newMarketManager start insts)) s maxAge \<in> {HEALTHY_H, DEGRADED_H}"
  shows "\<exists>m b a p. getState (fold marketStep ops (newMarketManager start insts)) s = Some m \<and>
    m_bid m = Some b \<and> m_ask m = Some a \<and> 0 < b \<and> b \<le> a \<and> m_spread m = Some (a - b) \<and>
    m_mark m = Some p \<and> 0 < p \<and> \<not> m_stale m \<and> now - m_localTsUtc m < maxAge"
proof -
  let ?mm = "fold marketStep ops (newMarketManager start insts)"
  have ok: "managerOk ?mm" by (rule markets.inv_run) (rule managerOk_new)
  obtain m where m: "getState ?mm s = Some m" using assms by (auto simp: getDataHealth_def split: option.splits)
  then have "entryOk m" using ok mget_in_mvals by (fastforce simp: managerOk_def getState_def)
  then show ?thesis
    using assms m
    by (auto simp: getDataHealth_def isStale_def hasValidBidAsk_def hasValidMark_def entryOk_def
        split: option.splits if_splits)
qed

definition exampleInstrument :: instrument where
  "exampleInstrument = \<lparr>i_symbol = ''B'', i_tickSize = 1, i_stepSize = 1, i_minQty = None, i_maxQty = None,
     i_minNotional = None, i_pricePrecision = 2, i_quantityPrecision = 2, i_maintenanceMarginRate = None\<rparr>"

definition exampleTicks :: "marketOp list" where
  "exampleTicks = [Book 1000 ''B'' (Some 9) (Some 10) None None None, MarkTick 1000 ''B'' (Some 9) None None None None]"

lemmas example_ticks = exampleTicks_def exampleInstrument_def newMarketManager_def emptyEntry_def
  onBookTicker_def onMarkPrice_def onEntry_def mupd_def mget_def mset_def bookTicker_def markPrice_def
  outOfOrder_def future_def

theorem healthy_data_is_usable_witness:
  "\<exists>m b. getState (fold marketStep exampleTicks (newMarketManager 0 [exampleInstrument])) ''B'' = Some m \<and>
     m_bid m = Some b \<and> 0 < b"
proof -
  have "getDataHealth 2000 (fold marketStep exampleTicks (newMarketManager 0 [exampleInstrument])) ''B'' 5000
      \<in> {HEALTHY_H, DEGRADED_H}"
    by (simp add: example_ticks getDataHealth_def getState_def isStale_def hasValidBidAsk_def hasValidMark_def)
  from healthy_data_is_usable [OF this] show ?thesis by blast
qed

text \<open>Derivatives statistics refresh the age of the prices: an update of open interest or
  ratios leaves bid, ask, last and mark as they were, however old, and from then on the symbol
  counts as fresh for the whole maximal age unless the stale flag had already been set.\<close>

theorem derivatives_hide_stale_prices:
  assumes "getState mm s = Some m" "\<not> m_stale m" "now' - now < maxAge"
  shows "\<not> isStale now' (onDerivatives now s d mm) s maxAge \<and>
    (\<exists>m'. getState (onDerivatives now s d mm) s = Some m' \<and> m_bid m' = m_bid m \<and> m_ask m' = m_ask m \<and>
       m_last m' = m_last m \<and> m_mark m' = m_mark m \<and> m_exchangeTsUtc m' = m_exchangeTsUtc m)"
  using assms by (simp add: isStale_def getState_def onDerivatives_def onEntry_def derivativesUpdate_def)

definition noStatistics :: derivatives where
  "noStatistics = \<lparr>dv_openInterest = None, dv_openInterestDelta = None, dv_openInterestTimestampUtc = None,
     dv_longShortRatio = None, dv_longShortTimestampUtc = None, dv_topTraderLongShortRatio = None,
     dv_topTraderTimestampUtc = None, dv_takerBuyVolume = None, dv_takerSellVolume = None,
     dv_takerDelta = None, dv_takerVolumeTimestampUtc = None\<rparr>"

theorem derivatives_hide_stale_prices_witness:
  "isStale 100000 (fold marketStep exampleTicks (newMarketManager 0 [exampleInstrument])) ''B'' 5000 \<and>
   \<not> isStale 100000 (onDerivatives 99000 ''B'' noStatistics
       (fold marketStep exampleTicks (newMarketManager 0 [exampleInstrument]))) ''B'' 5000"
proof -
  let ?mm = "fold marketStep exampleTicks (newMarketManager 0 [exampleInstrument])"
  obtain m where m: "getState ?mm ''B'' = Some m" "\<not> m_stale m" "m_localTsUtc m = 1000"
    by (simp add: example_ticks getState_def)
  show ?thesis
    using derivatives_hide_stale_prices [OF m(1,2), of 100000 99000 5000 noStatistics] m
    by (simp add: isStale_def)
qed

end
