(* ===== verification/Mtf_State.thy ===== *)
theory Mtf_State
  imports Klines Market_State
begin

section \<open>Multi-timeframe synchronisation (market/MtfStateEngine.ts)\<close>

text \<open>
  \<open>MtfStateEngine\<close> splits the stored candles of every analysis time frame into closed and
  developing ones and decides whether the symbol's data is complete enough to analyse. The
  engine keeps no state of its own: it reads the candle store and the market state manager.
\<close>

fun tfInterval :: "timeframe \<Rightarrow> klineInterval" where
  "tfInterval TF_4h = I_4h"
| "tfInterval TF_2h = I_2h"
| "tfInterval TF_1h = I_1h"
| "tfInterval TF_15m = I_15m"
| "tfInterval TF_5m = I_5m"

fun TIMEFRAME_MS :: "timeframe \<Rightarrow> ms" where
  "TIMEFRAME_MS TF_5m = 300000"
| "TIMEFRAME_MS TF_15m = 900000"
| "TIMEFRAME_MS TF_1h = 3600000"
| "TIMEFRAME_MS TF_2h = 7200000"
| "TIMEFRAME_MS TF_4h = 14400000"

lemma TIMEFRAME_MS_pos [simp]: "0 < TIMEFRAME_MS tf"
  by (cases tf) simp_all

fun MIN_CLOSED_CANDLES :: "timeframe \<Rightarrow> nat" where
  "MIN_CLOSED_CANDLES TF_4h = 20"
| "MIN_CLOSED_CANDLES TF_2h = 30"
| "MIN_CLOSED_CANDLES TF_1h = 30"
| "MIN_CLOSED_CANDLES TF_15m = 50"
| "MIN_CLOSED_CANDLES TF_5m = 50"

datatype syncStatus = SYNCHRONIZED | DEGRADED | STALE_SYNC | MISSING_DATA | NOT_READY

record tfState =
  tx_timeframe :: timeframe
  tx_lastClosedCandle :: "candle option"
  tx_previousClosedCandle :: "candle option"
  tx_currentDevelopingCandle :: "candle option"
  tx_closedCandles :: "candle list"
  tx_candleCount :: nat
  tx_lastClosedTime :: "ms option"
  tx_dataHealth :: dataHealth
  tx_syncStatus :: syncStatus
  tx_isSynchronized :: bool

record mtfState =
  mt_symbol :: string
  mt_asOfTimestamp :: ms
  mt_timeframes :: "timeframe \<Rightarrow> tfState"
  mt_overallSyncStatus :: syncStatus
  mt_isFullySynchronized :: bool

text \<open>\<open>xs[xs.length - k]\<close>: \<open>undefined\<close> below the first element.\<close>

definition fromEnd :: "nat \<Rightarrow> 'a list \<Rightarrow> 'a option" where
  "fromEnd k xs = (if k = 0 \<or> length xs < k then None else Some (xs ! (length xs - k)))"

fun partitionCandles :: "candle list \<Rightarrow> ms \<Rightarrow> ms \<Rightarrow> candle list \<times> candle option" where
  "partitionCandles [] width asOf = ([], None)"
| "partitionCandles (c # cs) width asOf =
     (let (closedOnes, developing) = partitionCandles cs width asOf in
      if k_isClosed c \<or> k_openTime c + width \<le> asOf then (c # closedOnes, developing)
      else (closedOnes, orElse developing (if k_openTime c \<le> asOf then Some c else None)))"

definition evaluateSyncStatus ::
  "klineStore \<Rightarrow> string \<Rightarrow> timeframe \<Rightarrow> candle list \<Rightarrow> ms \<Rightarrow> dataHealth \<Rightarrow> syncStatus" where
  "evaluateSyncStatus st symbol tf closedOnes asOf health =
     (if health = DISCONNECTED_H then MISSING_DATA
      else if health = INVALID_H then DEGRADED
      else if length closedOnes = 0 then MISSING_DATA
      else if length closedOnes < MIN_CLOSED_CANDLES tf then NOT_READY
      else if asOf - (k_openTime (last closedOnes) + TIMEFRAME_MS tf) > TIMEFRAME_MS tf * 3 then STALE_SYNC
      else if length (detectGaps st symbol (tfInterval tf)) > 0 then DEGRADED
      else SYNCHRONIZED)"

text \<open>\<open>health\<close> is what the market state manager says of the symbol, absent when the engine was
  built without one.\<close>

definition computeTimeframeState ::
  "klineStore \<Rightarrow> dataHealth option \<Rightarrow> string \<Rightarrow> timeframe \<Rightarrow> ms \<Rightarrow> tfState" where
  "computeTimeframeState st health symbol tf asOf =
     (let raw = getCandlesAsOf st symbol (tfName tf) asOf 500;
          (closedOnes, developing) = partitionCandles raw (TIMEFRAME_MS tf) asOf;
          dataHealth = coalesce health HEALTHY_H;
          sync = evaluateSyncStatus st symbol tf closedOnes asOf dataHealth in
      \<lparr>tx_timeframe = tf, tx_lastClosedCandle = fromEnd 1 closedOnes, tx_previousClosedCandle = fromEnd 2 closedOnes,
       tx_currentDevelopingCandle = developing, tx_closedCandles = closedOnes, tx_candleCount = length closedOnes,
       tx_lastClosedTime = map_option k_openTime (fromEnd 1 closedOnes), tx_dataHealth = dataHealth,
       tx_syncStatus = sync, tx_isSynchronized = (sync = SYNCHRONIZED)\<rparr>)"

fun syncPriority :: "syncStatus \<Rightarrow> nat" where
  "syncPriority MISSING_DATA = 5"
| "syncPriority NOT_READY = 4"
| "syncPriority STALE_SYNC = 3"
| "syncPriority DEGRADED = 2"
| "syncPriority SYNCHRONIZED = 1"

definition resolveWorstStatus :: "syncStatus \<Rightarrow> syncStatus \<Rightarrow> syncStatus" where
  "resolveWorstStatus cur nxt = (if syncPriority nxt > syncPriority cur then nxt else cur)"

definition computeState :: "klineStore \<Rightarrow> dataHealth option \<Rightarrow> string \<Rightarrow> ms \<Rightarrow> mtfState" where
  "computeState st health symbol asOf =
     (let tfs = (\<lambda>tf. computeTimeframeState st health symbol tf asOf);
          allSync = list_all (\<lambda>tf. tx_isSynchronized (tfs tf)) CANONICAL_TIMEFRAMES;
          worst = fold (\<lambda>tf w. resolveWorstStatus w (tx_syncStatus (tfs tf))) CANONICAL_TIMEFRAMES SYNCHRONIZED in
      \<lparr>mt_symbol = symbol, mt_asOfTimestamp = asOf, mt_timeframes = tfs,
       mt_overallSyncStatus = (if allSync then SYNCHRONIZED else worst),
       mt_isFullySynchronized = allSync\<rparr>)"

definition isChildIntervalContained :: "ms \<Rightarrow> ms \<Rightarrow> timeframe \<Rightarrow> bool" where
  "isChildIntervalContained childOpenTime parentOpenTime parentTf \<longleftrightarrow>
     floorToInterval childOpenTime (tfInterval parentTf) = parentOpenTime"

subsection \<open>What synchronisation means\<close>

lemma set_CANONICAL_TIMEFRAMES [simp]: "set CANONICAL_TIMEFRAMES = UNIV"
  by (auto simp: CANONICAL_TIMEFRAMES_def) (metis timeframe.exhaust)

lemma INTERVAL_MS_tf [simp]: "INTERVAL_MS (tfInterval tf) = TIMEFRAME_MS tf"
  by (cases tf) simp_all

lemma intervalName_tf [simp]: "intervalName (tfInterval tf) = tfName tf"
  by (cases tf) simp_all

lemma partitionCandles_closed:
  "fst (partitionCandles cs width asOf) = filter (\<lambda>c. k_isClosed c \<or> k_openTime c + width \<le> asOf) cs"
  by (induction cs) (auto simp: Let_def split: prod.splits)

lemma gapsOf_empty_iff:
  "gapsOf w cs = [] \<longleftrightarrow> successively (\<lambda>p c. k_openTime c \<le> k_openTime p + w) cs"
  by (induction w cs rule: gapsOf.induct) (auto simp: Let_def)

lemma MIN_CLOSED_CANDLES_pos [simp]: "0 < MIN_CLOSED_CANDLES tf"
  by (cases tf) simp_all

lemma resolveWorst_max:
  "syncPriority (resolveWorstStatus a b) = max (syncPriority a) (syncPriority b)"
  by (simp add: resolveWorstStatus_def max_def)

lemma fold_worst_ge:
  "syncPriority w0 \<le> syncPriority (fold (\<lambda>tf w. resolveWorstStatus w (f tf)) tfs w0)"
  "tf \<in> set tfs \<Longrightarrow> syncPriority (f tf) \<le> syncPriority (fold (\<lambda>tf w. resolveWorstStatus w (f tf)) tfs w0)"
proof (induction tfs arbitrary: w0)
  case (Cons t tfs)
  {
    case 1
    have "syncPriority w0 \<le> syncPriority (resolveWorstStatus w0 (f t))" by (simp add: resolveWorst_max)
    with Cons.IH(1) [of "resolveWorstStatus w0 (f t)"] show ?case by simp
  next
    case 2
    have "syncPriority (f t) \<le> syncPriority (resolveWorstStatus w0 (f t))" by (simp add: resolveWorst_max)
    with Cons.IH [of "resolveWorstStatus w0 (f t)"] 2 show ?case by auto
  }
qed simp_all

lemma fold_worst_in:
  "fold (\<lambda>tf w. resolveWorstStatus w (f tf)) tfs w0 \<in> insert w0 (f ` set tfs)"
proof (induction tfs arbitrary: w0)
  case (Cons t tfs)
  show ?case using Cons.IH [of "resolveWorstStatus w0 (f t)"] by (auto simp: resolveWorstStatus_def split: if_splits)
qed simp

definition closedAsOf :: "klineStore \<Rightarrow> string \<Rightarrow> timeframe \<Rightarrow> ms \<Rightarrow> candle list" where
  "closedAsOf st symbol tf asOf = filter (\<lambda>c. k_isClosed c \<or> k_openTime c + TIMEFRAME_MS tf \<le> asOf)
     (getCandlesAsOf st symbol (tfName tf) asOf 500)"

definition storedSeries :: "klineStore \<Rightarrow> string \<Rightarrow> timeframe \<Rightarrow> candle list" where
  "storedSeries st symbol tf = coalesce (mget (ks_candles st) (seriesKey symbol (tfName tf))) []"

lemma computeTimeframeState_simps:
  "tx_closedCandles (computeTimeframeState st health symbol tf asOf) = closedAsOf st symbol tf asOf"
  "tx_syncStatus (computeTimeframeState st health symbol tf asOf) =
     evaluateSyncStatus st symbol tf (closedAsOf st symbol tf asOf) asOf (coalesce health HEALTHY_H)"
  "tx_isSynchronized (computeTimeframeState st health symbol tf asOf) \<longleftrightarrow>
     tx_syncStatus (computeTimeframeState st health symbol tf asOf) = SYNCHRONIZED"
  by (simp_all add: computeTimeframeState_def closedAsOf_def Let_def split_beta partitionCandles_closed)

lemma evaluateSyncStatus_iff:
  "evaluateSyncStatus st symbol tf cs asOf health = SYNCHRONIZED \<longleftrightarrow>
     health \<notin> {DISCONNECTED_H, INVALID_H} \<and> MIN_CLOSED_CANDLES tf \<le> length cs \<and>
     asOf - k_openTime (last cs) \<le> 4 * TIMEFRAME_MS tf \<and> detectGaps st symbol (tfInterval tf) = []"
  using MIN_CLOSED_CANDLES_pos [of tf] by (auto simp: evaluateSyncStatus_def)

lemma computeState_sync:
  "mt_isFullySynchronized (computeState st health symbol asOf) \<longleftrightarrow>
     (\<forall>tf. tx_syncStatus (computeTimeframeState st health symbol tf asOf) = SYNCHRONIZED)"
  by (simp add: computeState_def Let_def list_all_iff computeTimeframeState_simps(3))

text \<open>A symbol is fully synchronised exactly when its market data is neither disconnected nor
  invalid and every analysis time frame has its minimum of closed candles, the last of them at
  most four intervals old, in a stored series without a hole. The age of the quotes plays no
  part: data whose health is STALE still synchronises.\<close>

theorem synchronized_iff:
  "mt_isFullySynchronized (computeState st health symbol asOf) \<longleftrightarrow>
     coalesce health HEALTHY_H \<notin> {DISCONNECTED_H, INVALID_H} \<and>
     (\<forall>tf. MIN_CLOSED_CANDLES tf \<le> length (closedAsOf st symbol tf asOf) \<and>
        asOf - k_openTime (last (closedAsOf st symbol tf asOf)) \<le> 4 * TIMEFRAME_MS tf \<and>
        successively (\<lambda>p c. k_openTime c \<le> k_openTime p + TIMEFRAME_MS tf) (storedSeries st symbol tf))"
  by (auto simp: computeState_sync computeTimeframeState_simps(2) evaluateSyncStatus_iff detectGaps_def
      gapsOf_empty_iff storedSeries_def)

text \<open>The overall status is the worst of the time frames' statuses: it is the status of one of
  them and no time frame has a worse one.\<close>

theorem overall_status_is_worst:
  "\<exists>tf. mt_overallSyncStatus (computeState st health symbol asOf) =
      tx_syncStatus (mt_timeframes (computeState st health symbol asOf) tf) \<and>
    syncPriority (tx_syncStatus (mt_timeframes (computeState st health symbol asOf) tf')) \<le>
      syncPriority (mt_overallSyncStatus (computeState st health symbol asOf))"
proof (cases "mt_isFullySynchronized (computeState st health symbol asOf)")
  case True
  then show ?thesis
    using computeState_sync [of st health symbol asOf]
    by (simp add: computeState_def Let_def)
next
  case False
  let ?f = "\<lambda>tf. tx_syncStatus (computeTimeframeState st health symbol tf asOf)"
  let ?w = "fold (\<lambda>tf w. resolveWorstStatus w (?f tf)) CANONICAL_TIMEFRAMES SYNCHRONIZED"
  have overall: "mt_overallSyncStatus (computeState st health symbol asOf) = ?w"
    using False by (simp add: computeState_def Let_def)
  have ge: "syncPriority (?f tf) \<le> syncPriority ?w" for tf
    by (rule fold_worst_ge(2)) simp
  obtain tf where tf: "?f tf \<noteq> SYNCHRONIZED" using False by (auto simp: computeState_sync)
  then have "syncPriority (?f tf) > 1" by (cases "?f tf") simp_all
  then have "?w \<noteq> SYNCHRONIZED" using ge [of tf] by auto
  then obtain tf2 where "?w = ?f tf2" using fold_worst_in [of ?f CANONICAL_TIMEFRAMES SYNCHRONIZED] by auto
  then show ?thesis using ge [of tf'] overall by (auto simp: computeState_def Let_def)
qed

end
