(* ===== verification/Setup_Types.thy ===== *)
theory Setup_Types
  imports Broker_Types Market_Types
begin

section \<open>Setups, execution plans and signals\<close>

text \<open>
  The interfaces of \<open>market/setup/types.ts\<close>, \<open>market/execution/types.ts\<close> and
  \<open>trading/signal/types.ts\<close>. The free-text members that no code reads (reasons and
  provenance texts) and the members of a setup that only the language-model and dashboard
  layers read (grade, hierarchical confluence, qualification record, scenario id) are left
  out; of an attached \<open>executionPlan\<close> the entry zone is kept, which the state machine reads.
\<close>

subsection \<open>Setups\<close>

datatype setupDirection = LONG_D | SHORT_D | AVOID_D

datatype setupArchetype =
    SSL_SWEEP_REVERSAL_LONG | BULLISH_CHOCH_RETEST_LONG | BULLISH_BOS_CONTINUATION_LONG
  | BSL_SWEEP_REVERSAL_SHORT | BEARISH_CHOCH_RETEST_SHORT | BEARISH_BOS_CONTINUATION_SHORT
  | AVOID_CONFLICTING_MTF | AVOID_NO_LOCATION | AVOID_DATA_DEGRADED | AVOID_INVALIDATED | AVOID_EXPIRED

datatype setupState =
    NONE_ST | WATCHING | APPROACHING | AT_ZONE | TRIGGER_DETECTED | CONFIRMED | READY | EXECUTED
  | MANAGING | COMPLETED | LIQUIDITY_INTERACTION | STRUCTURE_CONFIRMATION | ZONE_IDENTIFIED | RETEST
  | TRIGGERED | INVALIDATED | EXPIRED_ST

datatype setupStatus = ACTIVE_SS | READY_SS | INVALIDATED_SS | EXPIRED_SS

record confluenceBreakdown =
  cb_htfAlignmentScore :: number
  cb_structureScore :: number
  cb_liquiditySweepScore :: number
  cb_fvgScore :: number
  cb_orderBlockScore :: number
  cb_retestScore :: number
  cb_triggerScore :: number
  cb_dataQualityScore :: number
  cb_totalScore :: number
  cb_maxScore :: number

record priceZone =
  z_upper :: number
  z_lower :: number

record setupTimeframes =
  tf_regime4h :: marketTrend
  tf_structure2h :: "marketTrend option"
  tf_bias1h :: marketTrend
  tf_structure15m :: marketTrend
  tf_trigger5m :: marketTrend

record setupCandidate =
  su_id :: string
  su_symbol :: string
  su_direction :: setupDirection
  su_setupType :: setupArchetype
  su_state :: setupState
  su_createdAt :: ms
  su_updatedAt :: ms
  su_confirmedAt :: "ms option"
  su_invalidatedAt :: "ms option"
  su_expiresAt :: ms
  su_timeframes :: setupTimeframes
  su_structureEvidence :: "structureEvent option"
  su_sweepEvidence :: "liquiditySweep option"
  su_fvgEvidence :: "fairValueGap option"
  su_orderBlockEvidence :: "orderBlock option"
  su_retestEvidence :: "(ms \<times> number) option"
  su_triggerEvidence :: "ms option"
  su_confluence :: confluenceBreakdown
  su_invalidationReason :: "string option"
  su_status :: setupStatus
  su_sourceCandleTimes :: "ms list"
  su_sourceEventIds :: "string list"
  su_planZone :: "priceZone option"

record setupConfig =
  co_minConfluenceScore :: number
  co_maxCandleAgeBars :: int
  co_htfWeight :: number
  co_structureWeight :: number
  co_sweepWeight :: number
  co_fvgWeight :: number
  co_obWeight :: number
  co_retestWeight :: number
  co_triggerWeight :: number
  co_dataQualityWeight :: number

subsection \<open>Execution plans and signals\<close>

datatype planStatus = EXECUTABLE | AVOID

datatype invalidationType = ZONE_INVALIDATION | RR_INSUFFICIENT

record takeProfitTarget =
  tt_level :: nat
  tt_price :: number
  tt_riskReward :: number
  tt_rewardDistance :: number
  tt_liquidityId :: "string option"

record planConfig =
  pc_minTp1RiskReward :: number
  pc_minTp2RiskReward :: number
  pc_minTp3RiskReward :: number
  pc_tickBufferMultiplier :: number

record riskReward =
  rr_tp1 :: number
  rr_tp2 :: number
  rr_tp3 :: number

text \<open>The validation failures, one constructor per message.\<close>

datatype planFailure =
    NotReady setupStatus | DataUnhealthy | PlanExpired ms ms | NonPositivePrice
  | LongStopAboveEntry number number | LongTargetBelowEntry number number
  | ShortStopBelowEntry number number | ShortTargetAboveEntry number number
  | RiskRewardBelow nat number number

record executionPlan =
  ep_id :: string
  ep_symbol :: string
  ep_setupCandidateId :: string
  ep_direction :: setupDirection
  ep_status :: planStatus
  ep_entryPrice :: number
  ep_entryZone :: priceZone
  ep_stopLossPrice :: number
  ep_takeProfitLevels :: "takeProfitTarget list"
  ep_riskReward :: riskReward
  ep_riskDistance :: number
  ep_rewardDistance :: number
  ep_invalidationPrice :: number
  ep_invalidationType :: invalidationType
  ep_createdAt :: ms
  ep_expiresAt :: ms
  ep_validationFailures :: "planFailure list"
  ep_setupType :: setupArchetype
  ep_confluenceScore :: number
  ep_sourceEventIds :: "string list"
  ep_sourceCandleTimes :: "ms list"

datatype signalStatus =
  DETECTED | VALIDATED | RISK_CHECKED | PAPER_READY | RISK_REJECTED | AVOID_S | EXPIRED_SG

record takeProfitAllocation =
  ta_level :: nat
  ta_price :: number
  ta_allocationPct :: number
  ta_riskReward :: number

record sizingResult =
  sz_accountEquity :: number
  sz_riskPercent :: number
  sz_riskCapital :: number
  sz_stopDistance :: number
  sz_quantity :: number
  sz_positionNotional :: number
  sz_requiredMargin :: number
  sz_leverage :: number

text \<open>Where a rejection comes from: the plan failures when the signal is translated, the
  reasons of the risk engine, one constructor per message, afterwards.\<close>

datatype riskFailure =
    PROFIT_GOAL_TRADING_HALTED | DAILY_LOSS_LIMIT_REACHED | MAX_OPEN_POSITIONS_REACHED | POSITION_ALREADY_OPEN
  | COOLDOWN_ACTIVE | INSUFFICIENT_MARGIN | MAX_ACCOUNT_RISK_EXCEEDED | MAX_NOTIONAL_EXCEEDED
  | NON_POSITIVE_EQUITY | INVALID_RISK_PERCENT | ZERO_STOP_DISTANCE | SUB_MIN_QTY number number
  | EXCEEDS_MAX_QTY number number | SUB_MIN_NOTIONAL number number | DUPLICATE_SIGNAL

datatype rejectionReason = FromPlan planFailure | FromRisk riskFailure

record tradeSignal =
  ts_id :: string
  ts_signalKey :: string
  ts_symbol :: string
  ts_direction :: setupDirection
  ts_status :: signalStatus
  ts_setupType :: setupArchetype
  ts_confluenceScore :: number
  ts_entryPrice :: number
  ts_entryZone :: priceZone
  ts_stopLossPrice :: number
  ts_takeProfits :: "takeProfitAllocation list"
  ts_riskReward :: riskReward
  ts_sizing :: "sizingResult option"
  ts_riskRejectionReasons :: "rejectionReason list"
  ts_createdAt :: ms
  ts_expiresAt :: ms
  ts_sourceSetupId :: string
  ts_sourceExecutionPlanId :: string

end
