(* ===== verification/Swing_Structure.thy ===== *)
theory Swing_Structure
  imports Mtf_State
begin

section \<open>Swings, breaks of structure and trend (market/structure)\<close>

text \<open>
  \<open>SwingDetector\<close>, \<open>StructureClassifier\<close> and \<open>MarketStructureEngine\<close>. The loops with early
  return over neighbouring candles are \<open>list_ex\<close> over their index ranges; the arrays the
  source appends to are returned. A quotient by a previous price of 0 is infinite or \<open>NaN\<close> in
  the source and never within a tolerance.
\<close>

subsection \<open>Swing detection (SwingDetector.ts)\<close>

definition DEFAULT_SWING_CONFIG :: swingConfig where
  "DEFAULT_SWING_CONFIG = \<lparr>wc_swingLeftBars = 3, wc_swingRightBars = 3, wc_equalTolerancePct = Some (5 / 10000)\<rparr>"

definition classifySwing :: "number \<Rightarrow> swingType \<Rightarrow> number option \<Rightarrow> number \<Rightarrow> swingClassification" where
  "classifySwing price ty prevPrice tol =
     (case prevPrice of
        None \<Rightarrow> UNKNOWN_C
      | Some prev \<Rightarrow>
          if prev \<noteq> 0 \<and> \<bar>price - prev\<bar> / prev \<le> tol then (if ty = HIGH then EQUAL_HIGH_C else EQUAL_LOW_C)
          else if ty = HIGH then (if price > prev then HH else LH)
          else (if price < prev then LL else HL))"

definition swingId :: "string \<Rightarrow> timeframe \<Rightarrow> structureScope \<Rightarrow> string \<Rightarrow> ms \<Rightarrow> string" where
  "swingId symbol tf scope tag t =
     symbol @ '':'' @ tfName tf @ '':'' @ scopeName scope @ '':'' @ tag @ '':'' @ showInt t"

text \<open>The series a scan runs over, fixed during the scan.\<close>

record scan =
  sn_candles :: "candle list"
  sn_left :: nat
  sn_right :: nat
  sn_symbol :: string
  sn_timeframe :: timeframe
  sn_scope :: structureScope
  sn_tol :: number

definition checkSwingHigh :: "scan \<Rightarrow> nat \<Rightarrow> confirmedSwing option \<Rightarrow> confirmedSwing option" where
  "checkSwingHigh sc i prev =
     (let cs = sn_candles sc; cur = cs ! i in
      if list_ex (\<lambda>j. k_high (cs ! j) \<ge> k_high cur) [i - sn_left sc ..< i] then None
      else if list_ex (\<lambda>j. k_high (cs ! j) > k_high cur) [i + 1 ..< i + sn_right sc + 1] then None
      else Some \<lparr>cs_id = swingId (sn_symbol sc) (sn_timeframe sc) (sn_scope sc) ''SH'' (k_openTime cur),
        cs_symbol = sn_symbol sc, cs_timeframe = sn_timeframe sc, cs_scope = sn_scope sc, cs_type = HIGH,
        cs_classification = classifySwing (k_high cur) HIGH (map_option cs_price prev) (sn_tol sc),
        cs_price = k_high cur, cs_pivotTime = k_openTime cur,
        cs_confirmationTime = closeOf (cs ! (i + sn_right sc)), cs_candleIndex = i\<rparr>)"

definition checkSwingLow :: "scan \<Rightarrow> nat \<Rightarrow> confirmedSwing option \<Rightarrow> confirmedSwing option" where
  "checkSwingLow sc i prev =
     (let cs = sn_candles sc; cur = cs ! i in
      if list_ex (\<lambda>j. k_low (cs ! j) \<le> k_low cur) [i - sn_left sc ..< i] then None
      else if list_ex (\<lambda>j. k_low (cs ! j) < k_low cur) [i + 1 ..< i + sn_right sc + 1] then None
      else Some \<lparr>cs_id = swingId (sn_symbol sc) (sn_timeframe sc) (sn_scope sc) ''SL'' (k_openTime cur),
        cs_symbol = sn_symbol sc, cs_timeframe = sn_timeframe sc, cs_scope = sn_scope sc, cs_type = LOW,
        cs_classification = classifySwing (k_low cur) LOW (map_option cs_price prev) (sn_tol sc),
        cs_price = k_low cur, cs_pivotTime = k_openTime cur,
        cs_confirmationTime = closeOf (cs ! (i + sn_right sc)), cs_candleIndex = i\<rparr>)"

text \<open>The loop over the pivot indices with the previous high and low.\<close>

fun scanSwings :: "scan \<Rightarrow> nat list \<Rightarrow> confirmedSwing option \<Rightarrow> confirmedSwing option \<Rightarrow> confirmedSwing list" where
  "scanSwings sc [] prevHigh prevLow = []"
| "scanSwings sc (i # is) prevHigh prevLow =
     (let h = checkSwingHigh sc i prevHigh; l = checkSwingLow sc i prevLow in
      (case h of None \<Rightarrow> [] | Some x \<Rightarrow> [x]) @ (case l of None \<Rightarrow> [] | Some x \<Rightarrow> [x]) @
      scanSwings sc is (orElse h prevHigh) (orElse l prevLow))"

definition scanOf ::
  "candle list \<Rightarrow> string \<Rightarrow> timeframe \<Rightarrow> swingConfig \<Rightarrow> structureScope \<Rightarrow> scan" where
  "scanOf candles symbol tf cfg scope =
     \<lparr>sn_candles = candles, sn_left = nat (max 1 (wc_swingLeftBars cfg)),
      sn_right = nat (max 1 (wc_swingRightBars cfg)), sn_symbol = symbol, sn_timeframe = tf, sn_scope = scope,
      sn_tol = coalesce (wc_equalTolerancePct cfg) (5 / 10000)\<rparr>"

definition detectSwings ::
  "candle list \<Rightarrow> string \<Rightarrow> timeframe \<Rightarrow> swingConfig \<Rightarrow> structureScope \<Rightarrow> confirmedSwing list" where
  "detectSwings candles symbol tf cfg scope =
     (let sc = scanOf candles symbol tf cfg scope in
      sort_key cs_confirmationTime
        (scanSwings sc [sn_left sc ..< length candles - sn_right sc] None None))"

subsection \<open>Trend and breaks (StructureClassifier.ts)\<close>

definition lastTwo :: "swingType \<Rightarrow> confirmedSwing list \<Rightarrow> confirmedSwing list" where
  "lastTwo ty swings = sliceLast 2 (filter (\<lambda>s. cs_type s = ty) swings)"

definition evaluateTrendAndStructure ::
  "confirmedSwing list \<Rightarrow> structureEvent list \<Rightarrow> marketTrend \<times> structureForm" where
  "evaluateTrendAndStructure swings events =
     (if events \<noteq> [] \<and> ev_eventType (last events) \<in> {BOS_BULLISH, CHOCH_BULLISH} then (BULLISH, HH_HL)
      else if events \<noteq> [] \<and> ev_eventType (last events) \<in> {BOS_BEARISH, CHOCH_BEARISH} then (BEARISH, LH_LL)
      else if length swings < 2 then (UNKNOWN, UNKNOWN_F)
      else
        (let highs = lastTwo HIGH swings; lows = lastTwo LOW swings;
             hasHH = length highs = 2 \<and> cs_price (highs ! 1) > cs_price (highs ! 0);
             hasHL = length lows = 2 \<and> cs_price (lows ! 1) > cs_price (lows ! 0);
             hasLH = length highs = 2 \<and> cs_price (highs ! 1) < cs_price (highs ! 0);
             hasLL = length lows = 2 \<and> cs_price (lows ! 1) < cs_price (lows ! 0);
             bullish = of_bool hasHH + of_bool hasHL :: nat;
             bearish = of_bool hasLH + of_bool hasLL :: nat in
         if bullish > bearish then (BULLISH, HH_HL)
         else if bearish > bullish then (BEARISH, LH_LL)
         else if bullish > 0 \<and> bearish > 0 then (RANGE, MIXED)
         else (RANGE, RANGE_F)))"

text \<open>The state of the scan for breaks: broken swings, events, next swing index, known swings.\<close>

record breakState =
  bs_brokenHighs :: "string list"
  bs_brokenLows :: "string list"
  bs_events :: "structureEvent list"
  bs_pending :: "confirmedSwing list"
  bs_available :: "confirmedSwing list"

definition breakEvent ::
  "candle \<Rightarrow> confirmedSwing \<Rightarrow> structureEventType \<Rightarrow> structureScope \<Rightarrow> structureEvent" where
  "breakEvent c s ty scope =
     \<lparr>ev_id = cs_symbol s @ '':'' @ tfName (cs_timeframe s) @ '':'' @ scopeName scope @ '':'' @ eventName ty
        @ '':'' @ showInt (k_openTime c),
      ev_symbol = cs_symbol s, ev_timeframe = cs_timeframe s, ev_scope = scope, ev_eventType = ty,
      ev_price = k_close c, ev_brokenSwingPrice = Some (cs_price s), ev_brokenSwingTime = Some (cs_pivotTime s),
      ev_pivotTime = cs_pivotTime s, ev_confirmationTime = closeOf c, ev_sourceCandleTime = k_openTime c\<rparr>"

definition lastOf :: "swingType \<Rightarrow> confirmedSwing list \<Rightarrow> confirmedSwing option" where
  "lastOf ty swings = fromEnd 1 (filter (\<lambda>s. cs_type s = ty) swings)"

definition checkHighBreak ::
  "candle \<Rightarrow> confirmedSwing option \<Rightarrow> marketTrend \<Rightarrow> structureScope \<Rightarrow> breakState \<Rightarrow> breakState" where
  "checkHighBreak c lastHigh trend scope b =
     (case lastHigh of
        None \<Rightarrow> b
      | Some s \<Rightarrow>
          if cs_id s \<in> set (bs_brokenHighs b) \<or> k_close c \<le> cs_price s then b
          else b\<lparr>bs_brokenHighs := cs_id s # bs_brokenHighs b,
            bs_events := bs_events b @ [breakEvent c s
              (if trend = BEARISH \<or> cs_classification s = LH then CHOCH_BULLISH else BOS_BULLISH) scope]\<rparr>)"

definition checkLowBreak ::
  "candle \<Rightarrow> confirmedSwing option \<Rightarrow> marketTrend \<Rightarrow> structureScope \<Rightarrow> breakState \<Rightarrow> breakState" where
  "checkLowBreak c lastLow trend scope b =
     (case lastLow of
        None \<Rightarrow> b
      | Some s \<Rightarrow>
          if cs_id s \<in> set (bs_brokenLows b) \<or> k_close c \<ge> cs_price s then b
          else b\<lparr>bs_brokenLows := cs_id s # bs_brokenLows b,
            bs_events := bs_events b @ [breakEvent c s
              (if trend = BULLISH \<or> cs_classification s = HL then CHOCH_BEARISH else BOS_BEARISH) scope]\<rparr>)"

definition breakStep :: "structureScope \<Rightarrow> candle \<Rightarrow> breakState \<Rightarrow> breakState" where
  "breakStep scope c b =
     (let known = takeWhile (\<lambda>s. cs_confirmationTime s \<le> closeOf c) (bs_pending b);
          available = bs_available b @ known;
          b1 = b\<lparr>bs_available := available,
            bs_pending := dropWhile (\<lambda>s. cs_confirmationTime s \<le> closeOf c) (bs_pending b)\<rparr>;
          trend = fst (evaluateTrendAndStructure available []) in
      checkLowBreak c (lastOf LOW available) trend scope
        (checkHighBreak c (lastOf HIGH available) trend scope b1))"

definition detectBreaks :: "candle list \<Rightarrow> confirmedSwing list \<Rightarrow> structureScope \<Rightarrow> structureEvent list" where
  "detectBreaks candles swings scope =
     bs_events (fold (breakStep scope) candles
       \<lparr>bs_brokenHighs = [], bs_brokenLows = [], bs_events = [], bs_pending = swings, bs_available = []\<rparr>)"

subsection \<open>The structure of a time frame (MarketStructureEngine.ts)\<close>

record structureCacheEntry =
  ce_lastCandleTime :: "ms option"
  ce_candleCount :: nat
  ce_state :: timeframeStructure

type_synonym structureCache = "(string, structureCacheEntry) jsmap"

definition structureOf ::
  "candle list \<Rightarrow> string \<Rightarrow> timeframe \<Rightarrow> ms \<Rightarrow> structureScope \<Rightarrow> swingConfig \<Rightarrow> timeframeStructure" where
  "structureOf closedOnes symbol tf asOf scope cfg =
     (let swings = filter (\<lambda>s. cs_confirmationTime s \<le> asOf) (detectSwings closedOnes symbol tf cfg scope);
          events = filter (\<lambda>e. ev_confirmationTime e \<le> asOf) (detectBreaks closedOnes swings scope);
          (trend, form) = evaluateTrendAndStructure swings events;
          highs = filter (\<lambda>s. cs_type s = HIGH) swings;
          lows = filter (\<lambda>s. cs_type s = LOW) swings in
      \<lparr>tr_timeframe = tf, tr_scope = scope, tr_trend = trend, tr_structure = form, tr_swings = swings,
       tr_events = events, tr_lastConfirmedSwingHigh = fromEnd 1 highs,
       tr_lastConfirmedSwingLow = fromEnd 1 lows, tr_previousConfirmedSwingHigh = fromEnd 2 highs,
       tr_previousConfirmedSwingLow = fromEnd 2 lows, tr_lastStructureEvent = fromEnd 1 events,
       tr_lastStructureEventTime = map_option ev_confirmationTime (fromEnd 1 events)\<rparr>)"

definition closedForStructure :: "klineStore \<Rightarrow> string \<Rightarrow> timeframe \<Rightarrow> ms \<Rightarrow> candle list" where
  "closedForStructure st symbol tf asOf =
     filter (\<lambda>c. closeOf c \<le> asOf) (getCandlesAsOf st symbol (tfName tf) asOf 500)"

definition structureKey :: "string \<Rightarrow> timeframe \<Rightarrow> structureScope \<Rightarrow> string" where
  "structureKey symbol tf scope = symbol @ '':'' @ tfName tf @ '':'' @ scopeName scope"

definition getStructureAsOf ::
  "klineStore \<Rightarrow> string \<Rightarrow> timeframe \<Rightarrow> ms \<Rightarrow> structureScope \<Rightarrow> swingConfig \<Rightarrow> structureCache \<Rightarrow>
   timeframeStructure \<times> structureCache" where
  "getStructureAsOf st symbol tf asOf scope cfg cache =
     (let closedOnes = closedForStructure st symbol tf asOf;
          lastTime = map_option k_openTime (fromEnd 1 closedOnes);
          key = structureKey symbol tf scope;
          compute = (let r = structureOf closedOnes symbol tf asOf scope cfg in
            (r, mset key \<lparr>ce_lastCandleTime = lastTime, ce_candleCount = length closedOnes, ce_state = r\<rparr> cache)) in
      (case mget cache key of
         None \<Rightarrow> compute
       | Some e \<Rightarrow>
           if ce_lastCandleTime e = lastTime \<and> ce_candleCount e = length closedOnes then (ce_state e, cache)
           else compute))"

text \<open>All time frames in order, threading the cache.\<close>

fun structureLoop ::
  "klineStore \<Rightarrow> string \<Rightarrow> ms \<Rightarrow> structureScope \<Rightarrow> swingConfig \<Rightarrow> timeframe list \<Rightarrow> structureCache \<Rightarrow>
   (timeframe \<times> timeframeStructure) list \<times> structureCache" where
  "structureLoop st symbol asOf scope cfg [] cache = ([], cache)"
| "structureLoop st symbol asOf scope cfg (tf # tfs) cache =
     (let (r, cache1) = getStructureAsOf st symbol tf asOf scope cfg cache;
          (rs, cache2) = structureLoop st symbol asOf scope cfg tfs cache1 in ((tf, r) # rs, cache2))"

definition computeMultiTimeframeStructure ::
  "klineStore \<Rightarrow> string \<Rightarrow> ms \<Rightarrow> structureScope \<Rightarrow> swingConfig \<Rightarrow> structureCache \<Rightarrow>
   (timeframe \<times> timeframeStructure) list \<times> structureCache" where
  "computeMultiTimeframeStructure st symbol asOf scope cfg cache =
     structureLoop st symbol asOf scope cfg CANONICAL_TIMEFRAMES cache"

end
