(* ===== verification/Structure_Guarantees.thy ===== *)
theory Structure_Guarantees
  imports Swing_Structure
begin

section \<open>What swings and structure events guarantee\<close>

text \<open>
  The detected swings are exactly the pivots of the series, breaks are closes beyond confirmed
  swings, and neither is revised when later candles arrive.
\<close>

subsection \<open>Swings are the pivots\<close>

definition pivotHigh :: "candle list \<Rightarrow> nat \<Rightarrow> nat \<Rightarrow> nat \<Rightarrow> bool" where
  "pivotHigh cs l r i \<longleftrightarrow> l \<le> i \<and> i + r < length cs \<and>
     (\<forall>j \<in> {i - l ..< i}. k_high (cs ! j) < k_high (cs ! i)) \<and>
     (\<forall>j \<in> {i + 1 .. i + r}. k_high (cs ! j) \<le> k_high (cs ! i))"

definition pivotLow :: "candle list \<Rightarrow> nat \<Rightarrow> nat \<Rightarrow> nat \<Rightarrow> bool" where
  "pivotLow cs l r i \<longleftrightarrow> l \<le> i \<and> i + r < length cs \<and>
     (\<forall>j \<in> {i - l ..< i}. k_low (cs ! i) < k_low (cs ! j)) \<and>
     (\<forall>j \<in> {i + 1 .. i + r}. k_low (cs ! i) \<le> k_low (cs ! j))"

definition swingAt :: "candle list \<Rightarrow> nat \<Rightarrow> confirmedSwing \<Rightarrow> bool" where
  "swingAt cs r s \<longleftrightarrow>
     cs_price s = (if cs_type s = HIGH then k_high (cs ! cs_candleIndex s) else k_low (cs ! cs_candleIndex s)) \<and>
     cs_pivotTime s = k_openTime (cs ! cs_candleIndex s) \<and>
     cs_confirmationTime s = closeOf (cs ! (cs_candleIndex s + r))"

lemma range_conv: "set [i + 1 ..< i + r + 1] = {i + 1 .. i + r}"
  by auto

lemma checkSwingHigh_Some:
  "(\<exists>s. checkSwingHigh sc i prev = Some s) \<longleftrightarrow>
     (\<forall>j \<in> {i - sn_left sc ..< i}. k_high (sn_candles sc ! j) < k_high (sn_candles sc ! i)) \<and>
     (\<forall>j \<in> {i + 1 .. i + sn_right sc}. k_high (sn_candles sc ! j) \<le> k_high (sn_candles sc ! i))"
  unfolding checkSwingHigh_def Let_def list_ex_iff range_conv by (auto simp: not_le not_less)

lemma checkSwingLow_Some:
  "(\<exists>s. checkSwingLow sc i prev = Some s) \<longleftrightarrow>
     (\<forall>j \<in> {i - sn_left sc ..< i}. k_low (sn_candles sc ! i) < k_low (sn_candles sc ! j)) \<and>
     (\<forall>j \<in> {i + 1 .. i + sn_right sc}. k_low (sn_candles sc ! i) \<le> k_low (sn_candles sc ! j))"
  unfolding checkSwingLow_def Let_def list_ex_iff range_conv by (auto simp: not_le not_less)

lemma checkSwing_fields:
  "checkSwingHigh sc i prev = Some s \<Longrightarrow>
     cs_type s = HIGH \<and> cs_candleIndex s = i \<and> swingAt (sn_candles sc) (sn_right sc) s"
  "checkSwingLow sc i prev = Some s \<Longrightarrow>
     cs_type s = LOW \<and> cs_candleIndex s = i \<and> swingAt (sn_candles sc) (sn_right sc) s"
  by (auto simp: checkSwingHigh_def checkSwingLow_def swingAt_def Let_def split: if_splits)

lemma scanSwings_sound:
  "s \<in> set (scanSwings sc is ph pl) \<Longrightarrow>
     \<exists>i \<in> set is. \<exists>prev. checkSwingHigh sc i prev = Some s \<or> checkSwingLow sc i prev = Some s"
  by (induction sc "is" ph pl rule: scanSwings.induct) (auto simp: Let_def split: option.splits)

lemma scanSwings_high:
  "i \<in> set is \<Longrightarrow> (\<forall>prev. \<exists>s. checkSwingHigh sc i prev = Some s) \<Longrightarrow>
     \<exists>s \<in> set (scanSwings sc is ph pl). cs_type s = HIGH \<and> cs_candleIndex s = i"
proof (induction "is" arbitrary: ph pl)
  case (Cons k ks)
  show ?case
  proof (cases "i = k")
    case True
    then obtain s where s: "checkSwingHigh sc k ph = Some s" using Cons.prems by blast
    then show ?thesis using checkSwing_fields(1) [OF s] True by (auto simp: Let_def)
  next
    case False
    then have "i \<in> set ks" using Cons.prems by simp
    from Cons.IH [OF this Cons.prems(2)] show ?thesis by (auto simp: Let_def)
  qed
qed simp

lemma scanSwings_low:
  "i \<in> set is \<Longrightarrow> (\<forall>prev. \<exists>s. checkSwingLow sc i prev = Some s) \<Longrightarrow>
     \<exists>s \<in> set (scanSwings sc is ph pl). cs_type s = LOW \<and> cs_candleIndex s = i"
proof (induction "is" arbitrary: ph pl)
  case (Cons k ks)
  show ?case
  proof (cases "i = k")
    case True
    then obtain s where s: "checkSwingLow sc k pl = Some s" using Cons.prems by blast
    then show ?thesis using checkSwing_fields(2) [OF s] True by (auto simp: Let_def)
  next
    case False
    then have "i \<in> set ks" using Cons.prems by simp
    from Cons.IH [OF this Cons.prems(2)] show ?thesis by (auto simp: Let_def)
  qed
qed simp

lemma scanOf_simps [simp]:
  "sn_candles (scanOf cs symbol tf cfg scope) = cs"
  "sn_left (scanOf cs symbol tf cfg scope) = nat (max 1 (wc_swingLeftBars cfg))"
  "sn_right (scanOf cs symbol tf cfg scope) = nat (max 1 (wc_swingRightBars cfg))"
  by (simp_all add: scanOf_def)

lemma set_detectSwings:
  "set (detectSwings cs symbol tf cfg scope) =
     set (scanSwings (scanOf cs symbol tf cfg scope)
       [nat (max 1 (wc_swingLeftBars cfg)) ..< length cs - nat (max 1 (wc_swingRightBars cfg))] None None)"
  by (simp add: detectSwings_def Let_def)

lemma detectSwings_sound:
  assumes "s \<in> set (detectSwings cs symbol tf cfg scope)"
  defines "l \<equiv> nat (max 1 (wc_swingLeftBars cfg))" and "r \<equiv> nat (max 1 (wc_swingRightBars cfg))"
  shows "swingAt cs r s \<and>
    (if cs_type s = HIGH then pivotHigh cs l r (cs_candleIndex s) else pivotLow cs l r (cs_candleIndex s))"
proof -
  obtain i prev where "i \<in> set [l ..< length cs - r]" and
    check: "checkSwingHigh (scanOf cs symbol tf cfg scope) i prev = Some s \<or>
     checkSwingLow (scanOf cs symbol tf cfg scope) i prev = Some s"
    using scanSwings_sound [OF assms(1) [unfolded set_detectSwings]] unfolding l_def r_def by blast
  then have i: "l \<le> i" "i < length cs - r" by simp_all
  have n: "i + r < length cs" using i(2) by simp
  from check show ?thesis
  proof
    assume h: "checkSwingHigh (scanOf cs symbol tf cfg scope) i prev = Some s"
    have "pivotHigh cs l r i"
      using iffD1 [OF checkSwingHigh_Some, OF exI, OF h] i n by (simp add: pivotHigh_def l_def r_def)
    then show ?thesis using checkSwing_fields(1) [OF h] by (simp add: r_def)
  next
    assume h: "checkSwingLow (scanOf cs symbol tf cfg scope) i prev = Some s"
    have "pivotLow cs l r i"
      using iffD1 [OF checkSwingLow_Some, OF exI, OF h] i n by (simp add: pivotLow_def l_def r_def)
    then show ?thesis using checkSwing_fields(2) [OF h] by (simp add: r_def)
  qed
qed

lemma detectSwings_iff:
  assumes "l = nat (max 1 (wc_swingLeftBars cfg))" and "r = nat (max 1 (wc_swingRightBars cfg))"
  shows "(\<exists>s \<in> set (detectSwings cs symbol tf cfg scope). cs_type s = HIGH \<and> cs_candleIndex s = i) \<longleftrightarrow>
      pivotHigh cs l r i"
    and "(\<exists>s \<in> set (detectSwings cs symbol tf cfg scope). cs_type s = LOW \<and> cs_candleIndex s = i) \<longleftrightarrow>
      pivotLow cs l r i"
proof -
  have range: "i \<in> set [l ..< length cs - r]" if "l \<le> i" "i + r < length cs" using that by auto
  show "(\<exists>s \<in> set (detectSwings cs symbol tf cfg scope). cs_type s = HIGH \<and> cs_candleIndex s = i) \<longleftrightarrow>
      pivotHigh cs l r i"
  proof
    assume "pivotHigh cs l r i"
    then show "\<exists>s \<in> set (detectSwings cs symbol tf cfg scope). cs_type s = HIGH \<and> cs_candleIndex s = i"
      unfolding set_detectSwings using range assms
      by (intro scanSwings_high) (auto simp: pivotHigh_def checkSwingHigh_Some)
  qed (use detectSwings_sound [of _ cs symbol tf cfg scope] assms in fastforce)
  show "(\<exists>s \<in> set (detectSwings cs symbol tf cfg scope). cs_type s = LOW \<and> cs_candleIndex s = i) \<longleftrightarrow>
      pivotLow cs l r i"
  proof
    assume "pivotLow cs l r i"
    then show "\<exists>s \<in> set (detectSwings cs symbol tf cfg scope). cs_type s = LOW \<and> cs_candleIndex s = i"
      unfolding set_detectSwings using range assms
      by (intro scanSwings_low) (auto simp: pivotLow_def checkSwingLow_Some)
  qed (use detectSwings_sound [of _ cs symbol tf cfg scope] assms in fastforce)
qed


subsection \<open>Later candles do not revise swings\<close>

lemma upt_split: "a \<le> b \<Longrightarrow> b \<le> c \<Longrightarrow> [a ..< c] = [a ..< b] @ [b ..< c]"
  by (metis le_iff_add upt_add_eq_append)

lemma scanSwings_append:
  "\<exists>ph' pl'. scanSwings sc (is @ js) ph pl = scanSwings sc is ph pl @ scanSwings sc js ph' pl'"
proof (induction "is" arbitrary: ph pl)
  case (Cons k ks)
  obtain ph' pl' where "scanSwings sc (ks @ js) (orElse (checkSwingHigh sc k ph) ph) (orElse (checkSwingLow sc k pl) pl) =
      scanSwings sc ks (orElse (checkSwingHigh sc k ph) ph) (orElse (checkSwingLow sc k pl) pl) @
      scanSwings sc js ph' pl'"
    using Cons.IH by blast
  then show ?case by (auto simp: Let_def)
qed auto

lemma checkSwing_prefix:
  assumes "i + sn_right sc < length cs"
  shows "checkSwingHigh (sc\<lparr>sn_candles := cs @ post\<rparr>) i prev = checkSwingHigh (sc\<lparr>sn_candles := cs\<rparr>) i prev"
    and "checkSwingLow (sc\<lparr>sn_candles := cs @ post\<rparr>) i prev = checkSwingLow (sc\<lparr>sn_candles := cs\<rparr>) i prev"
proof -
  have nth: "(cs @ post) ! j = cs ! j" if "j \<le> i + sn_right sc" for j
    using that assms by (simp add: nth_append)
  have before: "list_ex P [i - sn_left sc ..< i] = list_ex Q [i - sn_left sc ..< i]"
    if "\<And>j. j < i \<Longrightarrow> P j = Q j" for P Q using that by (auto simp: list_ex_iff)
  have after: "list_ex P [i + 1 ..< i + sn_right sc + 1] = list_ex Q [i + 1 ..< i + sn_right sc + 1]"
    if "\<And>j. j \<le> i + sn_right sc \<Longrightarrow> P j = Q j" for P Q using that by (auto simp: list_ex_iff)
  have cur: "(cs @ post) ! i = cs ! i" "(cs @ post) ! (i + sn_right sc) = cs ! (i + sn_right sc)"
    by (simp_all add: nth)
  show "checkSwingHigh (sc\<lparr>sn_candles := cs @ post\<rparr>) i prev = checkSwingHigh (sc\<lparr>sn_candles := cs\<rparr>) i prev"
    using before [of "\<lambda>j. k_high (cs ! i) \<le> k_high ((cs @ post) ! j)" "\<lambda>j. k_high (cs ! i) \<le> k_high (cs ! j)"]
      after [of "\<lambda>j. k_high (cs ! i) < k_high ((cs @ post) ! j)" "\<lambda>j. k_high (cs ! i) < k_high (cs ! j)"]
    by (simp add: checkSwingHigh_def Let_def cur nth)
  show "checkSwingLow (sc\<lparr>sn_candles := cs @ post\<rparr>) i prev = checkSwingLow (sc\<lparr>sn_candles := cs\<rparr>) i prev"
    using before [of "\<lambda>j. k_low ((cs @ post) ! j) \<le> k_low (cs ! i)" "\<lambda>j. k_low (cs ! j) \<le> k_low (cs ! i)"]
      after [of "\<lambda>j. k_low ((cs @ post) ! j) < k_low (cs ! i)" "\<lambda>j. k_low (cs ! j) < k_low (cs ! i)"]
    by (simp add: checkSwingLow_def Let_def cur nth)
qed

lemma scanSwings_prefix:
  "\<forall>i \<in> set is. i + sn_right sc < length cs \<Longrightarrow>
   scanSwings (sc\<lparr>sn_candles := cs @ post\<rparr>) is ph pl = scanSwings (sc\<lparr>sn_candles := cs\<rparr>) is ph pl"
  by (induction "is" arbitrary: ph pl) (simp_all add: checkSwing_prefix Let_def)

lemma scanSwings_sorted:
  assumes "sorted (map closeOf (sn_candles sc))" "sorted is" "\<forall>i \<in> set is. i + sn_right sc < length (sn_candles sc)"
  shows "sorted (map cs_confirmationTime (scanSwings sc is ph pl))"
  using assms(2,3)
proof (induction "is" arbitrary: ph pl)
  case (Cons k ks)
  have conf: "cs_confirmationTime s = closeOf (sn_candles sc ! (cs_candleIndex s + sn_right sc))"
    if "checkSwingHigh sc i prev = Some s \<or> checkSwingLow sc i prev = Some s" for i prev s
    using that checkSwing_fields [of sc i prev s] by (auto simp: swingAt_def)
  have rest: "closeOf (sn_candles sc ! (k + sn_right sc)) \<le> cs_confirmationTime s"
    if s: "s \<in> set (scanSwings sc ks ph' pl')" for s ph' pl'
  proof -
    obtain i prev where i: "i \<in> set ks" and c: "checkSwingHigh sc i prev = Some s \<or> checkSwingLow sc i prev = Some s"
      using scanSwings_sound [OF s] by blast
    have "cs_candleIndex s = i" using c checkSwing_fields [of sc i prev s] by auto
    moreover have "k \<le> i" using i Cons.prems by simp
    ultimately show ?thesis
      using conf [OF c] sorted_nth_mono [OF assms(1), of "k + sn_right sc" "i + sn_right sc"] i Cons.prems by simp
  qed
  have here: "cs_confirmationTime s = closeOf (sn_candles sc ! (k + sn_right sc))"
    if "checkSwingHigh sc k prev = Some s \<or> checkSwingLow sc k prev = Some s" for prev s
    using conf [OF that] that checkSwing_fields [of sc k prev s] by auto
  have high: "cs_confirmationTime s = closeOf (sn_candles sc ! (k + sn_right sc))"
    if "checkSwingHigh sc k ph = Some s" for s by (rule here [OF disjI1 [OF that]])
  have low: "cs_confirmationTime s = closeOf (sn_candles sc ! (k + sn_right sc))"
    if "checkSwingLow sc k pl = Some s" for s by (rule here [OF disjI2 [OF that]])
  have tail: "sorted (map cs_confirmationTime (scanSwings sc ks ph' pl'))" for ph' pl'
    using Cons by simp
  show ?case
    using rest tail
    by (cases "checkSwingHigh sc k ph"; cases "checkSwingLow sc k pl") (simp_all add: Let_def high low)
qed simp

lemma detectSwings_unsorted:
  assumes "sorted (map closeOf cs)"
  shows "detectSwings cs symbol tf cfg scope =
    scanSwings (scanOf cs symbol tf cfg scope)
      [nat (max 1 (wc_swingLeftBars cfg)) ..< length cs - nat (max 1 (wc_swingRightBars cfg))] None None"
proof -
  have "sorted (map cs_confirmationTime (scanSwings (scanOf cs symbol tf cfg scope)
      [nat (max 1 (wc_swingLeftBars cfg)) ..< length cs - nat (max 1 (wc_swingRightBars cfg))] None None))"
    using assms by (intro scanSwings_sorted) auto
  then show ?thesis by (simp add: detectSwings_def Let_def sort_key_id_if_sorted)
qed

lemma detectSwings_extend:
  assumes "sorted_wrt (<) (map closeOf (cs @ post))"
  shows "\<exists>later. detectSwings (cs @ post) symbol tf cfg scope = detectSwings cs symbol tf cfg scope @ later \<and>
    (\<forall>s \<in> set later. \<forall>c \<in> set cs. closeOf c < cs_confirmationTime s)"
proof -
  let ?l = "nat (max 1 (wc_swingLeftBars cfg))" and ?r = "nat (max 1 (wc_swingRightBars cfg))"
  let ?sc = "scanOf (cs @ post) symbol tf cfg scope" and ?m = "max ?l (length cs - ?r)"
  have sorted: "sorted (map closeOf (cs @ post))" using assms strict_sorted_iff by blast
  then have sorted_cs: "sorted (map closeOf cs)" by (simp add: sorted_append)
  have cs: "?sc\<lparr>sn_candles := cs\<rparr> = scanOf cs symbol tf cfg scope" "?sc\<lparr>sn_candles := cs @ post\<rparr> = ?sc"
    by (simp_all add: scanOf_def)
  have split: "[?l ..< length (cs @ post) - ?r] = [?l ..< length cs - ?r] @ [?m ..< length (cs @ post) - ?r]"
  proof (cases "?l \<le> length cs - ?r")
    case True
    have "length cs - ?r \<le> length (cs @ post) - ?r" by (simp add: diff_le_mono)
    from upt_split [OF True this] True show ?thesis by (simp only: max_absorb2)
  qed (simp add: max_absorb1)
  obtain ph pl where ext: "scanSwings ?sc ([?l ..< length cs - ?r] @ [?m ..< length (cs @ post) - ?r]) None None =
      scanSwings ?sc [?l ..< length cs - ?r] None None @ scanSwings ?sc [?m ..< length (cs @ post) - ?r] ph pl"
    using scanSwings_append by blast
  let ?later = "scanSwings ?sc [?m ..< length (cs @ post) - ?r] ph pl"
  have within: "\<forall>i \<in> set [?l ..< length cs - ?r]. i + sn_right ?sc < length cs"
    by (simp add: less_diff_conv)
  have "scanSwings ?sc [?l ..< length cs - ?r] None None = scanSwings (scanOf cs symbol tf cfg scope) [?l ..< length cs - ?r] None None"
    using scanSwings_prefix [OF within, of post None None] unfolding cs .
  then have eq: "detectSwings (cs @ post) symbol tf cfg scope = detectSwings cs symbol tf cfg scope @ ?later"
    unfolding detectSwings_unsorted [OF sorted] detectSwings_unsorted [OF sorted_cs] split ext by simp
  moreover have "closeOf c < cs_confirmationTime s" if s: "s \<in> set ?later" and c: "c \<in> set cs" for s c
  proof -
    obtain i prev where i: "i \<in> set [?m ..< length (cs @ post) - ?r]"
      and check: "checkSwingHigh ?sc i prev = Some s \<or> checkSwingLow ?sc i prev = Some s"
      using scanSwings_sound [OF s] by blast
    then have conf: "cs_confirmationTime s = closeOf ((cs @ post) ! (i + ?r))"
      using checkSwing_fields [of ?sc i prev s] by (auto simp: swingAt_def)
    obtain j where j: "j < length cs" "c = (cs @ post) ! j" using c by (metis in_set_conv_nth nth_append)
    have within: "j < i + r \<and> i + r < n" if "length cs - r \<le> i" "i < n - r" for r n
      using that j(1) by linarith
    have "length cs - ?r \<le> i" "i < length (cs @ post) - ?r" using i by simp_all
    from within [OF this] have "j < i + ?r" "i + ?r < length (cs @ post)" by blast+
    then have "map closeOf (cs @ post) ! j < map closeOf (cs @ post) ! (i + ?r)"
      by (intro sorted_wrt_nth_less [OF assms]) simp_all
    then show ?thesis using j \<open>i + ?r < length (cs @ post)\<close> conf by (simp del: map_append)
  qed
  ultimately show ?thesis by blast
qed


subsection \<open>Breaks of structure\<close>

definition startBreaks :: "confirmedSwing list \<Rightarrow> breakState" where
  "startBreaks swings = \<lparr>bs_brokenHighs = [], bs_brokenLows = [], bs_events = [], bs_pending = swings, bs_available = []\<rparr>"

lemma checkBreak_pending:
  "checkHighBreak c h trend scope (b\<lparr>bs_pending := p\<rparr>) = (checkHighBreak c h trend scope b)\<lparr>bs_pending := p\<rparr>"
  "checkLowBreak c h trend scope (b\<lparr>bs_pending := p\<rparr>) = (checkLowBreak c h trend scope b)\<lparr>bs_pending := p\<rparr>"
  "bs_pending (checkHighBreak c h trend scope b) = bs_pending b"
  "bs_pending (checkLowBreak c h trend scope b) = bs_pending b"
  "bs_available (checkHighBreak c h trend scope b) = bs_available b"
  "bs_available (checkLowBreak c h trend scope b) = bs_available b"
  by (simp_all add: checkHighBreak_def checkLowBreak_def split: option.splits)

lemma breakStep_pending:
  assumes "\<forall>s \<in> set B. closeOf c < cs_confirmationTime s"
  shows "breakStep scope c (b\<lparr>bs_pending := bs_pending b @ B\<rparr>) =
    (breakStep scope c b)\<lparr>bs_pending := bs_pending (breakStep scope c b) @ B\<rparr>"
proof -
  have none: "takeWhile (\<lambda>s. cs_confirmationTime s \<le> closeOf c) B = []"
    "dropWhile (\<lambda>s. cs_confirmationTime s \<le> closeOf c) B = B"
    using assms by (cases B; simp)+
  have take: "takeWhile (\<lambda>s. cs_confirmationTime s \<le> closeOf c) (P @ B) = takeWhile (\<lambda>s. cs_confirmationTime s \<le> closeOf c) P"
    "dropWhile (\<lambda>s. cs_confirmationTime s \<le> closeOf c) (P @ B) = dropWhile (\<lambda>s. cs_confirmationTime s \<le> closeOf c) P @ B" for P
    by (induction P) (simp_all add: none)
  show ?thesis by (simp add: breakStep_def Let_def take checkBreak_pending)
qed

lemma breakStep_fold_pending:
  assumes "\<forall>c \<in> set cs. \<forall>s \<in> set B. closeOf c < cs_confirmationTime s"
  shows "fold (breakStep scope) cs (b\<lparr>bs_pending := bs_pending b @ B\<rparr>) =
    (fold (breakStep scope) cs b)\<lparr>bs_pending := bs_pending (fold (breakStep scope) cs b) @ B\<rparr>"
  using assms by (induction cs arbitrary: b) (simp_all add: breakStep_pending)

lemma breakStep_events: "\<exists>es. bs_events (breakStep scope c b) = bs_events b @ es"
proof -
  have high: "\<exists>es. bs_events (checkHighBreak c h trend scope b) = bs_events b @ es" for h trend b
    by (auto simp: checkHighBreak_def split: option.splits)
  have low: "\<exists>es. bs_events (checkLowBreak c h trend scope b) = bs_events b @ es" for h trend b
    by (auto simp: checkLowBreak_def split: option.splits)
  obtain b1 h l trend where step: "breakStep scope c b = checkLowBreak c l trend scope (checkHighBreak c h trend scope b1)"
    and same: "bs_events b1 = bs_events b"
    by (simp add: breakStep_def Let_def)
  obtain es1 where es1: "bs_events (checkHighBreak c h trend scope b1) = bs_events b @ es1"
    using high [of h trend b1] same by auto
  obtain es2 where "bs_events (breakStep scope c b) = bs_events (checkHighBreak c h trend scope b1) @ es2"
    using low step by metis
  with es1 show ?thesis by simp
qed

lemma breakStep_fold_events: "\<exists>es. bs_events (fold (breakStep scope) cs b) = bs_events b @ es"
proof (induction cs arbitrary: b)
  case (Cons c cs)
  obtain es where "bs_events (breakStep scope c b) = bs_events b @ es" using breakStep_events by blast
  with Cons.IH [of "breakStep scope c b"] show ?case by auto
qed simp

lemma detectBreaks_extend:
  assumes "\<forall>c \<in> set cs. \<forall>s \<in> set later. closeOf c < cs_confirmationTime s"
  shows "\<exists>es. detectBreaks (cs @ post) (swings @ later) scope = detectBreaks cs swings scope @ es"
proof -
  let ?b = "fold (breakStep scope) cs (startBreaks swings)"
  have "fold (breakStep scope) cs (startBreaks (swings @ later)) = ?b\<lparr>bs_pending := bs_pending ?b @ later\<rparr>"
    using breakStep_fold_pending [OF assms, of scope "startBreaks swings"] by (simp add: startBreaks_def)
  moreover obtain es where "bs_events (fold (breakStep scope) post (?b\<lparr>bs_pending := bs_pending ?b @ later\<rparr>)) =
      bs_events (?b\<lparr>bs_pending := bs_pending ?b @ later\<rparr>) @ es"
    using breakStep_fold_events by blast
  ultimately have "bs_events (fold (breakStep scope) (cs @ post) (startBreaks (swings @ later))) = bs_events ?b @ es"
    by simp
  then show ?thesis by (auto simp: detectBreaks_def startBreaks_def)
qed


definition bullishBreak :: "candle list \<Rightarrow> confirmedSwing list \<Rightarrow> structureScope \<Rightarrow> structureEvent \<Rightarrow> bool" where
  "bullishBreak cs swings scope e \<longleftrightarrow> (\<exists>c \<in> set cs. \<exists>s \<in> set swings. \<exists>ty \<in> {BOS_BULLISH, CHOCH_BULLISH}.
     e = breakEvent c s ty scope \<and> cs_type s = HIGH \<and> cs_confirmationTime s \<le> closeOf c \<and> cs_price s < k_close c)"

definition bearishBreak :: "candle list \<Rightarrow> confirmedSwing list \<Rightarrow> structureScope \<Rightarrow> structureEvent \<Rightarrow> bool" where
  "bearishBreak cs swings scope e \<longleftrightarrow> (\<exists>c \<in> set cs. \<exists>s \<in> set swings. \<exists>ty \<in> {BOS_BEARISH, CHOCH_BEARISH}.
     e = breakEvent c s ty scope \<and> cs_type s = LOW \<and> cs_confirmationTime s \<le> closeOf c \<and> k_close c < cs_price s)"

lemma fromEnd_in_set: "fromEnd k xs = Some x \<Longrightarrow> x \<in> set xs"
  by (auto simp: fromEnd_def split: if_splits intro!: nth_mem)

lemma lastOf_Some: "lastOf ty swings = Some s \<Longrightarrow> s \<in> set swings \<and> cs_type s = ty"
  unfolding lastOf_def by (drule fromEnd_in_set) simp

lemma bullishBreakI:
  "c \<in> set cs \<Longrightarrow> s \<in> set swings \<Longrightarrow> ty \<in> {BOS_BULLISH, CHOCH_BULLISH} \<Longrightarrow> cs_type s = HIGH \<Longrightarrow>
   cs_confirmationTime s \<le> closeOf c \<Longrightarrow> cs_price s < k_close c \<Longrightarrow>
   bullishBreak cs swings scope (breakEvent c s ty scope)"
  unfolding bullishBreak_def by blast

lemma bearishBreakI:
  "c \<in> set cs \<Longrightarrow> s \<in> set swings \<Longrightarrow> ty \<in> {BOS_BEARISH, CHOCH_BEARISH} \<Longrightarrow> cs_type s = LOW \<Longrightarrow>
   cs_confirmationTime s \<le> closeOf c \<Longrightarrow> k_close c < cs_price s \<Longrightarrow>
   bearishBreak cs swings scope (breakEvent c s ty scope)"
  unfolding bearishBreak_def by blast

lemma checkHighBreak_events:
  assumes "e \<in> set (bs_events (checkHighBreak c (lastOf HIGH known) trend scope b))"
    and "set known \<subseteq> set swings" "\<forall>s \<in> set known. cs_confirmationTime s \<le> closeOf c" "c \<in> set cs"
  shows "e \<in> set (bs_events b) \<or> bullishBreak cs swings scope e"
proof (cases "lastOf HIGH known")
  case None
  with assms(1) show ?thesis by (simp add: checkHighBreak_def)
next
  case (Some s)
  from assms lastOf_Some [OF Some] show ?thesis
    by (auto simp: checkHighBreak_def Some split: if_splits intro!: bullishBreakI)
qed

lemma checkLowBreak_events:
  assumes "e \<in> set (bs_events (checkLowBreak c (lastOf LOW known) trend scope b))"
    and "set known \<subseteq> set swings" "\<forall>s \<in> set known. cs_confirmationTime s \<le> closeOf c" "c \<in> set cs"
  shows "e \<in> set (bs_events b) \<or> bearishBreak cs swings scope e"
proof (cases "lastOf LOW known")
  case None
  with assms(1) show ?thesis by (simp add: checkLowBreak_def)
next
  case (Some s)
  from assms lastOf_Some [OF Some] show ?thesis
    by (auto simp: checkLowBreak_def Some split: if_splits intro!: bearishBreakI)
qed

definition breaksSound :: "candle list \<Rightarrow> confirmedSwing list \<Rightarrow> structureScope \<Rightarrow> breakState \<Rightarrow> bool" where
  "breaksSound cs swings scope b \<longleftrightarrow>
     set (bs_available b) \<union> set (bs_pending b) \<subseteq> set swings \<and>
     (\<forall>e \<in> set (bs_events b). bullishBreak cs swings scope e \<or> bearishBreak cs swings scope e)"

lemma breakStep_sound:
  assumes "breaksSound cs swings scope b" "c \<in> set cs" "\<forall>s \<in> set (bs_available b). cs_confirmationTime s \<le> closeOf c"
  shows "breaksSound cs swings scope (breakStep scope c b) \<and>
    (\<forall>s \<in> set (bs_available (breakStep scope c b)). cs_confirmationTime s \<le> closeOf c)"
proof -
  let ?known = "bs_available b @ takeWhile (\<lambda>s. cs_confirmationTime s \<le> closeOf c) (bs_pending b)"
  have known: "set ?known \<subseteq> set swings" "\<forall>s \<in> set ?known. cs_confirmationTime s \<le> closeOf c"
    using assms by (auto simp: breaksSound_def dest: set_takeWhileD)
  have avail: "bs_available (breakStep scope c b) = ?known"
    "bs_pending (breakStep scope c b) = dropWhile (\<lambda>s. cs_confirmationTime s \<le> closeOf c) (bs_pending b)"
    by (simp_all add: breakStep_def Let_def checkBreak_pending)
  have "bullishBreak cs swings scope e \<or> bearishBreak cs swings scope e"
    if "e \<in> set (bs_events (breakStep scope c b))" for e
    using that assms(1) unfolding breakStep_def Let_def
    by (auto simp: breaksSound_def dest!: checkLowBreak_events [OF _ known assms(2)]
        checkHighBreak_events [OF _ known assms(2)])
  moreover have "set (bs_pending (breakStep scope c b)) \<subseteq> set swings"
    using assms(1) unfolding avail by (auto simp: breaksSound_def dest: set_dropWhileD)
  moreover have "set (bs_available (breakStep scope c b)) \<subseteq> set swings" using known(1) unfolding avail .
  ultimately show ?thesis using known(2) unfolding breaksSound_def avail by blast
qed

lemma breakStep_fold_sound:
  assumes "breaksSound all swings scope b" "set cs \<subseteq> set all" "sorted (map closeOf cs)"
    and "\<forall>s \<in> set (bs_available b). \<forall>c \<in> set cs. cs_confirmationTime s \<le> closeOf c"
  shows "breaksSound all swings scope (fold (breakStep scope) cs b)"
  using assms
proof (induction cs arbitrary: b)
  case (Cons c cs)
  have step: "breaksSound all swings scope (breakStep scope c b)"
    "\<forall>s \<in> set (bs_available (breakStep scope c b)). cs_confirmationTime s \<le> closeOf c"
    using breakStep_sound [OF Cons.prems(1), of c] Cons.prems(2,4) by simp_all
  have "breaksSound all swings scope (fold (breakStep scope) cs (breakStep scope c b))"
    using Cons.prems(2,3) step by (intro Cons.IH) (auto intro: order_trans)
  then show ?case by simp
qed simp

lemma detectBreaks_sound:
  assumes "sorted (map closeOf cs)" "e \<in> set (detectBreaks cs swings scope)"
  shows "bullishBreak cs swings scope e \<or> bearishBreak cs swings scope e"
proof -
  have "breaksSound cs swings scope (fold (breakStep scope) cs (startBreaks swings))"
    using assms(1) by (intro breakStep_fold_sound) (simp_all add: breaksSound_def startBreaks_def)
  then show ?thesis using assms(2) by (auto simp: detectBreaks_def breaksSound_def startBreaks_def)
qed

subsection \<open>Properties\<close>

text \<open>Swing detection finds exactly the pivots: candle \<open>i\<close> gets a swing high if and only if
  it lies at least the left and right widths inside the series, its high is strictly above the
  highs of the left neighbours and not below those of the right ones; swing lows mirror this.\<close>

theorem swings_are_pivots:
  assumes "l = nat (max 1 (wc_swingLeftBars cfg))" and "r = nat (max 1 (wc_swingRightBars cfg))"
  shows "((\<exists>s \<in> set (detectSwings cs symbol tf cfg scope). cs_type s = HIGH \<and> cs_candleIndex s = i) \<longleftrightarrow>
      l \<le> i \<and> i + r < length cs \<and> (\<forall>j \<in> {i - l ..< i}. k_high (cs ! j) < k_high (cs ! i)) \<and>
      (\<forall>j \<in> {i + 1 .. i + r}. k_high (cs ! j) \<le> k_high (cs ! i))) \<and>
    ((\<exists>s \<in> set (detectSwings cs symbol tf cfg scope). cs_type s = LOW \<and> cs_candleIndex s = i) \<longleftrightarrow>
      l \<le> i \<and> i + r < length cs \<and> (\<forall>j \<in> {i - l ..< i}. k_low (cs ! i) < k_low (cs ! j)) \<and>
      (\<forall>j \<in> {i + 1 .. i + r}. k_low (cs ! i) \<le> k_low (cs ! j)))"
  using detectSwings_iff [OF assms, of cs symbol tf scope i] by (simp add: pivotHigh_def pivotLow_def)

definition flatBar :: "ms \<Rightarrow> number \<Rightarrow> candle" where
  "flatBar t p = \<lparr>k_symbol = ''B'', k_interval = ''5m'', k_openTime = t, k_open = p, k_high = p, k_low = p,
     k_close = p, k_volume = Some 1, k_closeTime = Some (t + 9), k_isClosed = True\<rparr>"

definition oneBar :: swingConfig where
  "oneBar = \<lparr>wc_swingLeftBars = 1, wc_swingRightBars = 1, wc_equalTolerancePct = None\<rparr>"

definition hillSeries :: "candle list" where
  "hillSeries = [flatBar 10 1, flatBar 20 3, flatBar 30 2, flatBar 40 4]"

theorem swings_are_pivots_witness:
  "\<exists>s \<in> set (detectSwings hillSeries ''B'' TF_5m oneBar EXTERNAL). cs_type s = HIGH \<and> cs_candleIndex s = 1"
proof -
  have one: "(1::nat) = nat (max 1 (wc_swingLeftBars oneBar))" "(1::nat) = nat (max 1 (wc_swingRightBars oneBar))"
    by (simp_all add: oneBar_def)
  have "(\<forall>j \<in> {1 - 1 ..< 1}. k_high (hillSeries ! j) < k_high (hillSeries ! 1)) \<and>
      (\<forall>j \<in> {1 + 1 .. 1 + (1::nat)}. k_high (hillSeries ! j) \<le> k_high (hillSeries ! 1))"
    by (simp add: hillSeries_def flatBar_def numeral_2_eq_2)
  moreover have "(1::nat) + 1 < length hillSeries" by (simp add: hillSeries_def)
  ultimately show ?thesis using swings_are_pivots [OF one, of hillSeries "''B''" TF_5m EXTERNAL 1] by blast
qed

text \<open>C19. Structure is never revised: when candles that close later are appended to a series, the
  detected swings and the detected breaks of structure only gain elements at their end.\<close>

theorem structure_never_repaints:
  assumes "sorted_wrt (<) (map closeOf (old @ new))"
  shows "prefix (detectSwings old symbol tf cfg scope) (detectSwings (old @ new) symbol tf cfg scope) \<and>
    prefix (detectBreaks old (detectSwings old symbol tf cfg scope) scope)
      (detectBreaks (old @ new) (detectSwings (old @ new) symbol tf cfg scope) scope)"
proof -
  obtain later where later: "detectSwings (old @ new) symbol tf cfg scope = detectSwings old symbol tf cfg scope @ later"
    and after: "\<forall>s \<in> set later. \<forall>c \<in> set old. closeOf c < cs_confirmationTime s"
    using detectSwings_extend [OF assms] by blast
  have "\<exists>es. detectBreaks (old @ new) (detectSwings old symbol tf cfg scope @ later) scope =
      detectBreaks old (detectSwings old symbol tf cfg scope) scope @ es"
    using after by (intro detectBreaks_extend) blast
  then show ?thesis using later by (auto simp: prefix_def)
qed

theorem structure_never_repaints_witness:
  "prefix (detectSwings hillSeries ''B'' TF_5m oneBar EXTERNAL)
     (detectSwings (hillSeries @ [flatBar 50 1]) ''B'' TF_5m oneBar EXTERNAL)"
proof -
  have "sorted_wrt (<) (map closeOf (hillSeries @ [flatBar 50 1]))"
    by (simp add: hillSeries_def flatBar_def closeOf_def)
  then show ?thesis using structure_never_repaints [of hillSeries "[flatBar 50 1]" "''B''" TF_5m oneBar EXTERNAL] by blast
qed

text \<open>Every reported break is one: a bullish event records a candle closing strictly above the
  price of a swing high, a bearish event a candle closing strictly below the price of a swing
  low, and the swing was confirmed no later than that candle closed.\<close>

theorem breaks_are_real:
  assumes "sorted (map closeOf cs)" and "e \<in> set (detectBreaks cs swings scope)"
  shows "\<exists>c \<in> set cs. \<exists>s \<in> set swings. ev_price e = k_close c \<and> ev_brokenSwingPrice e = Some (cs_price s) \<and>
    ev_confirmationTime e = closeOf c \<and> cs_confirmationTime s \<le> ev_confirmationTime e \<and>
    (ev_eventType e \<in> {BOS_BULLISH, CHOCH_BULLISH} \<and> cs_type s = HIGH \<and> cs_price s < ev_price e \<or>
     ev_eventType e \<in> {BOS_BEARISH, CHOCH_BEARISH} \<and> cs_type s = LOW \<and> ev_price e < cs_price s)"
  using detectBreaks_sound [OF assms]
proof
  assume "bullishBreak cs swings scope e"
  then obtain c s ty where "c \<in> set cs" "s \<in> set swings" "ty \<in> {BOS_BULLISH, CHOCH_BULLISH}"
    "e = breakEvent c s ty scope" "cs_type s = HIGH" "cs_confirmationTime s \<le> closeOf c" "cs_price s < k_close c"
    unfolding bullishBreak_def by blast
  then show ?thesis by (intro bexI [of _ c] bexI [of _ s]) (auto simp: breakEvent_def)
next
  assume "bearishBreak cs swings scope e"
  then obtain c s ty where "c \<in> set cs" "s \<in> set swings" "ty \<in> {BOS_BEARISH, CHOCH_BEARISH}"
    "e = breakEvent c s ty scope" "cs_type s = LOW" "cs_confirmationTime s \<le> closeOf c" "k_close c < cs_price s"
    unfolding bearishBreak_def by blast
  then show ?thesis by (intro bexI [of _ c] bexI [of _ s]) (auto simp: breakEvent_def)
qed

definition hillTop :: confirmedSwing where
  "hillTop = \<lparr>cs_id = ''t'', cs_symbol = ''B'', cs_timeframe = TF_5m, cs_scope = EXTERNAL, cs_type = HIGH,
     cs_classification = UNKNOWN_C, cs_price = 3, cs_pivotTime = 20, cs_confirmationTime = 39, cs_candleIndex = 1\<rparr>"

theorem breaks_are_real_witness:
  "\<exists>c \<in> set hillSeries. 3 < k_close c \<and> 39 \<le> closeOf c"
proof -
  have known: "detectBreaks hillSeries [hillTop] EXTERNAL = [breakEvent (flatBar 40 4) hillTop BOS_BULLISH EXTERNAL]"
    by (simp add: detectBreaks_def hillSeries_def hillTop_def flatBar_def breakStep_def Let_def closeOf_def
        evaluateTrendAndStructure_def lastOf_def fromEnd_def checkHighBreak_def checkLowBreak_def breakEvent_def)
  have "sorted (map closeOf hillSeries)" by (simp add: hillSeries_def flatBar_def closeOf_def)
  from breaks_are_real [OF this, of _ "[hillTop]" EXTERNAL, unfolded known] show ?thesis
    by (simp add: breakEvent_def hillTop_def flatBar_def) force
qed

end
