(* ===== verification/Smc_Zones.thy ===== *)
theory Smc_Zones
  imports Structure_Guarantees
begin

section \<open>Liquidity, fair value gaps and order blocks (market/smc)\<close>

text \<open>
  \<open>LiquidityDetector\<close>, \<open>FvgDetector\<close>, \<open>OrderBlockDetector\<close> and \<open>SmcLocationEngine\<close>. Sets of
  identifiers are lists. A loop over candles with \<open>break\<close> is a recursion that stops.
\<close>

definition DEFAULT_SMC_CONFIG :: detectorConfig where
  "DEFAULT_SMC_CONFIG = \<lparr>dc_equalLevelTolerancePct = 5 / 10000, dc_fvgMinSizePct = Some (2 / 10000),
     dc_obDisplacementThresholdPct = 5 / 1000, dc_obLookbackBars = 5\<rparr>"

text \<open>\<open>a / b < t\<close> where the quotient by 0 is an infinity of the sign of \<open>a\<close>, or \<open>NaN\<close>.\<close>

definition quotBelow :: "number \<Rightarrow> number \<Rightarrow> number \<Rightarrow> bool" where
  "quotBelow a b t = (if b = 0 then a < 0 else a / b < t)"

subsection \<open>Liquidity (LiquidityDetector.ts)\<close>

definition makeLiquidityLevel ::
  "confirmedSwing \<Rightarrow> liquidityType \<Rightarrow> number \<Rightarrow> string list \<Rightarrow> ms list \<Rightarrow> liquidityLevel" where
  "makeLiquidityLevel s ty price swingIds candleTimes =
     \<lparr>ll_id = cs_symbol s @ '':'' @ tfName (cs_timeframe s) @ '':LIQ:'' @ liquidityName ty @ '':'' @ showInt (cs_pivotTime s),
      ll_symbol = cs_symbol s, ll_timeframe = cs_timeframe s, ll_type = ty, ll_price = price,
      ll_sourceSwingIds = swingIds, ll_sourceCandleTimes = candleTimes, ll_createdAt = cs_pivotTime s,
      ll_confirmedAt = cs_confirmationTime s, ll_status = ACTIVE_L\<rparr>"

definition levelOf :: "detectorConfig \<Rightarrow> confirmedSwing option \<Rightarrow> confirmedSwing \<Rightarrow> liquidityLevel" where
  "levelOf cfg prev s =
     (let baseType = (if cs_type s = HIGH then BSL else SSL);
          eqType = (if cs_type s = HIGH then EQUAL_HIGH else EQUAL_LOW);
          plain = makeLiquidityLevel s baseType (cs_price s) [cs_id s] [cs_pivotTime s] in
      (case prev of
         None \<Rightarrow> plain
       | Some p \<Rightarrow>
           let mid = (cs_price s + cs_price p) / 2 in
           if cs_type p = cs_type s \<and> mid \<noteq> 0 \<and> \<bar>cs_price s - cs_price p\<bar> / mid \<le> dc_equalLevelTolerancePct cfg
           then makeLiquidityLevel s eqType mid [cs_id p, cs_id s] [cs_pivotTime p, cs_pivotTime s]
           else plain))"

fun levelsFrom :: "detectorConfig \<Rightarrow> confirmedSwing option \<Rightarrow> confirmedSwing list \<Rightarrow> liquidityLevel list" where
  "levelsFrom cfg prev [] = []"
| "levelsFrom cfg prev (s # ss) = levelOf cfg prev s # levelsFrom cfg (Some s) ss"

definition extractLiquidityLevels :: "confirmedSwing list \<Rightarrow> detectorConfig \<Rightarrow> liquidityLevel list" where
  "extractLiquidityLevels swings cfg = levelsFrom cfg None swings"

definition buildSweepObject :: "candle \<Rightarrow> liquidityLevel \<Rightarrow> number \<Rightarrow> ms \<Rightarrow> liquiditySweep" where
  "buildSweepObject c l extreme closeTime =
     \<lparr>lw_id = ll_symbol l @ '':'' @ tfName (ll_timeframe l) @ '':SWEEP:'' @ ll_id l @ '':'' @ showInt (k_openTime c),
      lw_symbol = ll_symbol l, lw_timeframe = ll_timeframe l, lw_liquidityId = ll_id l,
      lw_liquidityType = ll_type l, lw_liquidityPrice = ll_price l, lw_sweepExtreme = extreme,
      lw_sweepCandleTime = k_openTime c, lw_confirmationTime = closeTime,
      lw_sourceCandleTimes = [ll_createdAt l, k_openTime c], lw_sourceSwingIds = ll_sourceSwingIds l\<rparr>"

definition checkCandleSweep :: "candle \<Rightarrow> liquidityLevel \<Rightarrow> ms \<Rightarrow> liquiditySweep option" where
  "checkCandleSweep c l closeTime =
     (if ll_type l = BSL \<or> ll_type l = EQUAL_HIGH then
        (if k_high c > ll_price l \<and> k_close c \<le> ll_price l
         then Some (buildSweepObject c l (k_high c) closeTime) else None)
      else if k_low c < ll_price l \<and> k_close c \<ge> ll_price l
      then Some (buildSweepObject c l (k_low c) closeTime) else None)"

fun sweepLoop :: "liquidityLevel list \<Rightarrow> candle list \<Rightarrow> string list \<Rightarrow> liquiditySweep list \<times> string list" where
  "sweepLoop levels [] swept = ([], swept)"
| "sweepLoop levels (c # cs) swept =
     (let active = filter (\<lambda>l. ll_confirmedAt l \<le> k_openTime c \<and> ll_id l \<notin> set swept) levels;
          found = List.map_filter (\<lambda>l. checkCandleSweep c l (closeOf c)) active;
          (rest, swept') = sweepLoop levels cs (swept @ map lw_liquidityId found) in
      (found @ rest, swept'))"

definition detectSweeps :: "candle list \<Rightarrow> liquidityLevel list \<Rightarrow> liquiditySweep list \<times> liquidityLevel list" where
  "detectSweeps candles levels =
     (let (sweeps, swept) = sweepLoop levels candles [] in
      (sweeps, map (\<lambda>l. if ll_id l \<in> set swept then l\<lparr>ll_status := SWEPT_L\<rparr> else l) levels))"

subsection \<open>Fair value gaps (FvgDetector.ts)\<close>

definition makeFvg ::
  "candle \<Rightarrow> candle \<Rightarrow> candle \<Rightarrow> string \<Rightarrow> timeframe \<Rightarrow> zoneSide \<Rightarrow> number \<Rightarrow> number \<Rightarrow> fairValueGap" where
  "makeFvg c0 c1 c2 symbol tf side upper lower =
     \<lparr>fg_id = symbol @ '':'' @ tfName tf @ (if side = BULLISH_Z then '':FVG:BULLISH:'' else '':FVG:BEARISH:'')
        @ showInt (k_openTime c1),
      fg_symbol = symbol, fg_timeframe = tf, fg_type = side, fg_upperPrice = upper, fg_lowerPrice = lower,
      fg_midpoint = (upper + lower) / 2,
      fg_sourceCandleTimes = [k_openTime c0, k_openTime c1, k_openTime c2],
      fg_createdAt = k_openTime c1, fg_confirmedAt = coalesce (k_closeTime c2) (k_openTime c2 + 1),
      fg_status = ACTIVE_F, fg_mitigatedAt = None, fg_mitigationPrice = None\<rparr>"

definition checkBullishFvg ::
  "candle \<Rightarrow> candle \<Rightarrow> candle \<Rightarrow> string \<Rightarrow> timeframe \<Rightarrow> number \<Rightarrow> fairValueGap option" where
  "checkBullishFvg c0 c1 c2 symbol tf minSize =
     (if k_high c0 < k_low c2 then
        (let lower = k_high c0; upper = k_low c2 in
         if quotBelow (upper - lower) lower minSize then None
         else Some (makeFvg c0 c1 c2 symbol tf BULLISH_Z upper lower))
      else None)"

definition checkBearishFvg ::
  "candle \<Rightarrow> candle \<Rightarrow> candle \<Rightarrow> string \<Rightarrow> timeframe \<Rightarrow> number \<Rightarrow> fairValueGap option" where
  "checkBearishFvg c0 c1 c2 symbol tf minSize =
     (if k_low c0 > k_high c2 then
        (let lower = k_high c2; upper = k_low c0 in
         if quotBelow (upper - lower) lower minSize then None
         else Some (makeFvg c0 c1 c2 symbol tf BEARISH_Z upper lower))
      else None)"

definition optList :: "'a option \<Rightarrow> 'a list" where
  "optList x = (case x of None \<Rightarrow> [] | Some y \<Rightarrow> [y])"

lemma optList_simps [simp]: "optList None = []" "optList (Some x) = [x]" "y \<in> set (optList z) \<longleftrightarrow> z = Some y"
  by (auto simp: optList_def split: option.splits)

fun rawFvgs :: "string \<Rightarrow> timeframe \<Rightarrow> number \<Rightarrow> candle list \<Rightarrow> fairValueGap list" where
  "rawFvgs symbol tf minSize (c0 # c1 # c2 # cs) =
     optList (checkBullishFvg c0 c1 c2 symbol tf minSize) @ optList (checkBearishFvg c0 c1 c2 symbol tf minSize)
     @ rawFvgs symbol tf minSize (c1 # c2 # cs)"
| "rawFvgs symbol tf minSize _ = []"

text \<open>The life of a gap over the candles from its confirmation on.\<close>

fun fvgWalk :: "candle list \<Rightarrow> fairValueGap \<Rightarrow> fairValueGap" where
  "fvgWalk [] f = f"
| "fvgWalk (c # cs) f =
     (if k_openTime c < fg_confirmedAt f then fvgWalk cs f
      else if fg_type f = BULLISH_Z then
        (if k_close c < fg_lowerPrice f then f\<lparr>fg_status := INVALIDATED_F\<rparr>
         else if k_low c \<le> fg_lowerPrice f
         then fvgWalk cs (f\<lparr>fg_status := MITIGATED_F, fg_mitigatedAt := Some (closeOf c), fg_mitigationPrice := Some (k_low c)\<rparr>)
         else if k_low c \<le> fg_midpoint f \<and> fg_status f = ACTIVE_F
         then fvgWalk cs (f\<lparr>fg_status := PARTIALLY_FILLED_F\<rparr>)
         else fvgWalk cs f)
      else
        (if k_close c > fg_upperPrice f then f\<lparr>fg_status := INVALIDATED_F\<rparr>
         else if k_high c \<ge> fg_upperPrice f
         then fvgWalk cs (f\<lparr>fg_status := MITIGATED_F, fg_mitigatedAt := Some (closeOf c), fg_mitigationPrice := Some (k_high c)\<rparr>)
         else if k_high c \<ge> fg_midpoint f \<and> fg_status f = ACTIVE_F
         then fvgWalk cs (f\<lparr>fg_status := PARTIALLY_FILLED_F\<rparr>)
         else fvgWalk cs f))"

definition trackFvgLifecycles :: "candle list \<Rightarrow> fairValueGap list \<Rightarrow> fairValueGap list" where
  "trackFvgLifecycles candles fvgs = map (fvgWalk candles) fvgs"

definition detectFvgs :: "candle list \<Rightarrow> string \<Rightarrow> timeframe \<Rightarrow> detectorConfig \<Rightarrow> fairValueGap list" where
  "detectFvgs candles symbol tf cfg =
     trackFvgLifecycles candles (rawFvgs symbol tf (coalesce (dc_fvgMinSizePct cfg) 0) candles)"

subsection \<open>Order blocks (OrderBlockDetector.ts)\<close>

text \<open>\<open>findIndex\<close> of the break candle: -1 is \<open>None\<close>.\<close>

fun findCandle :: "ms \<Rightarrow> candle list \<Rightarrow> nat option" where
  "findCandle t [] = None"
| "findCandle t (c # cs) = (if k_openTime c = t then Some 0 else map_option Suc (findCandle t cs))"

text \<open>The nearest candle before the break, at most \<open>lookback\<close> bars back, of the opposite
  colour, else the candle just before the break.\<close>

definition originOf :: "(candle \<Rightarrow> bool) \<Rightarrow> candle list \<Rightarrow> nat \<Rightarrow> nat \<Rightarrow> candle" where
  "originOf opposite candles breakIdx lookback =
     (case find opposite (map (\<lambda>d. candles ! (breakIdx - d)) [1 ..< lookback + 1]) of
        Some c \<Rightarrow> c
      | None \<Rightarrow> candles ! (breakIdx - 1))"

definition makeOb :: "structureEvent \<Rightarrow> zoneSide \<Rightarrow> candle \<Rightarrow> candle \<Rightarrow> orderBlock" where
  "makeOb e side origin breakCandle =
     \<lparr>ob_id = ev_symbol e @ '':'' @ tfName (ev_timeframe e) @ (if side = BULLISH_Z then '':OB:BULLISH:'' else '':OB:BEARISH:'')
        @ showInt (k_openTime origin),
      ob_symbol = ev_symbol e, ob_timeframe = ev_timeframe e, ob_type = side,
      ob_upperPrice = k_high origin, ob_lowerPrice = k_low origin,
      ob_invalidationPrice = (if side = BULLISH_Z then k_low origin else k_high origin),
      ob_originCandleTime = k_openTime origin, ob_displacementCandleTime = k_openTime breakCandle,
      ob_confirmedStructureEventId = ev_id e,
      ob_sourceCandleTimes = [k_openTime origin, k_openTime breakCandle],
      ob_createdAt = k_openTime origin, ob_confirmedAt = ev_confirmationTime e, ob_status = ACTIVE_B,
      ob_mitigatedAt = None, ob_invalidatedAt = None\<rparr>"

definition findBullishOb :: "candle list \<Rightarrow> structureEvent \<Rightarrow> detectorConfig \<Rightarrow> orderBlock option" where
  "findBullishOb candles e cfg =
     (case findCandle (ev_sourceCandleTime e) candles of
        None \<Rightarrow> None
      | Some breakIdx \<Rightarrow>
          if breakIdx = 0 then None
          else
            (let origin = originOf (\<lambda>c. k_close c < k_open c) candles breakIdx (min breakIdx (dc_obLookbackBars cfg));
                 breakCandle = candles ! breakIdx in
             if quotBelow (k_close breakCandle - k_low origin) (k_low origin) (dc_obDisplacementThresholdPct cfg)
             then None else Some (makeOb e BULLISH_Z origin breakCandle)))"

definition findBearishOb :: "candle list \<Rightarrow> structureEvent \<Rightarrow> detectorConfig \<Rightarrow> orderBlock option" where
  "findBearishOb candles e cfg =
     (case findCandle (ev_sourceCandleTime e) candles of
        None \<Rightarrow> None
      | Some breakIdx \<Rightarrow>
          if breakIdx = 0 then None
          else
            (let origin = originOf (\<lambda>c. k_close c > k_open c) candles breakIdx (min breakIdx (dc_obLookbackBars cfg));
                 breakCandle = candles ! breakIdx in
             if quotBelow (k_high origin - k_close breakCandle) (k_high origin) (dc_obDisplacementThresholdPct cfg)
             then None else Some (makeOb e BEARISH_Z origin breakCandle)))"

fun obWalk :: "number \<Rightarrow> candle list \<Rightarrow> orderBlock \<Rightarrow> orderBlock" where
  "obWalk level [] b = b"
| "obWalk level (c # cs) b =
     (if k_openTime c < ob_confirmedAt b then obWalk level cs b
      else if ob_type b = BULLISH_Z then
        (if k_close c < ob_invalidationPrice b
         then b\<lparr>ob_status := INVALIDATED_B, ob_invalidatedAt := Some (closeOf c)\<rparr>
         else if k_low c \<le> level \<and> ob_status b = ACTIVE_B
         then obWalk level cs (b\<lparr>ob_status := MITIGATED_B, ob_mitigatedAt := Some (closeOf c)\<rparr>)
         else obWalk level cs b)
      else
        (if k_close c > ob_invalidationPrice b
         then b\<lparr>ob_status := INVALIDATED_B, ob_invalidatedAt := Some (closeOf c)\<rparr>
         else if k_high c \<ge> level \<and> ob_status b = ACTIVE_B
         then obWalk level cs (b\<lparr>ob_status := MITIGATED_B, ob_mitigatedAt := Some (closeOf c)\<rparr>)
         else obWalk level cs b))"

definition mitigationLevel :: "orderBlock \<Rightarrow> number" where
  "mitigationLevel b =
     (if ob_type b = BULLISH_Z then ob_lowerPrice b + (ob_upperPrice b - ob_lowerPrice b) * (1 / 2)
      else ob_upperPrice b - (ob_upperPrice b - ob_lowerPrice b) * (1 / 2))"

definition trackObLifecycles :: "candle list \<Rightarrow> orderBlock list \<Rightarrow> orderBlock list" where
  "trackObLifecycles candles obs = map (\<lambda>b. obWalk (mitigationLevel b) candles b) obs"

definition detectOrderBlocks :: "candle list \<Rightarrow> structureEvent list \<Rightarrow> detectorConfig \<Rightarrow> orderBlock list" where
  "detectOrderBlocks candles events cfg =
     (let breaks = filter (\<lambda>e. ev_eventType e \<in> {BOS_BULLISH, BOS_BEARISH, CHOCH_BULLISH, CHOCH_BEARISH}) events in
      trackObLifecycles candles
        (List.map_filter (\<lambda>e. if ev_eventType e \<in> {BOS_BULLISH, CHOCH_BULLISH}
           then findBullishOb candles e cfg else findBearishOb candles e cfg) breaks))"

subsection \<open>The location engine (SmcLocationEngine.ts)\<close>

type_synonym smcCache = "(string, smcTimeframe) jsmap"

definition SMC_CACHE_MAX_ENTRIES :: nat where
  "SMC_CACHE_MAX_ENTRIES = 2000"

definition closedForSmc :: "klineStore \<Rightarrow> string \<Rightarrow> timeframe \<Rightarrow> ms \<Rightarrow> candle list" where
  "closedForSmc st symbol tf asOf =
     filter (\<lambda>c. k_isClosed c \<or> closeOf c \<le> asOf) (getCandlesAsOf st symbol (tfName tf) asOf 500)"

definition smcKey :: "string \<Rightarrow> timeframe \<Rightarrow> ms \<Rightarrow> ms option \<Rightarrow> nat \<Rightarrow> string" where
  "smcKey symbol tf asOf lastTime n =
     symbol @ '':'' @ tfName tf @ '':'' @ showInt asOf @ '':'' @ showInt (coalesce lastTime 0) @ '':'' @ showNat n"

definition smcContextOf ::
  "candle list \<Rightarrow> timeframeStructure \<Rightarrow> string \<Rightarrow> timeframe \<Rightarrow> ms \<Rightarrow> detectorConfig \<Rightarrow> smcTimeframe" where
  "smcContextOf closedOnes structure symbol tf asOf cfg =
     (let levels = filter (\<lambda>l. ll_confirmedAt l \<le> asOf) (extractLiquidityLevels (tr_swings structure) cfg);
          (sweeps, updated) = detectSweeps closedOnes levels;
          fvgs = filter (\<lambda>f. fg_confirmedAt f \<le> asOf) (detectFvgs closedOnes symbol tf cfg);
          obs = filter (\<lambda>b. ob_confirmedAt b \<le> asOf) (detectOrderBlocks closedOnes (tr_events structure) cfg) in
      \<lparr>st_timeframe = tf, st_liquidityLevels = updated,
       st_sweeps = filter (\<lambda>s. lw_confirmationTime s \<le> asOf) sweeps,
       st_fairValueGaps = fvgs, st_orderBlocks = obs,
       st_activeLiquidity = filter (\<lambda>l. ll_status l = ACTIVE_L) updated,
       st_activeFvgs = filter (\<lambda>f. fg_status f = ACTIVE_F \<or> fg_status f = PARTIALLY_FILLED_F) fvgs,
       st_activeOrderBlocks = filter (\<lambda>b. ob_status b = ACTIVE_B) obs\<rparr>)"

text \<open>The state of the two engines: their caches.\<close>

record locationEngine =
  le_smcCache :: smcCache
  le_structureCache :: structureCache

definition rememberContext :: "string \<Rightarrow> smcTimeframe \<Rightarrow> smcCache \<Rightarrow> smcCache" where
  "rememberContext key r cache =
     (let trimmed = (if length cache \<ge> SMC_CACHE_MAX_ENTRIES
                     then (case mkeys cache of [] \<Rightarrow> cache | k # _ \<Rightarrow> mdel k cache) else cache) in
      mset key r trimmed)"

definition getSmcContextAsOf ::
  "klineStore \<Rightarrow> string \<Rightarrow> timeframe \<Rightarrow> ms \<Rightarrow> swingConfig \<Rightarrow> detectorConfig \<Rightarrow> locationEngine \<Rightarrow>
   smcTimeframe \<times> locationEngine" where
  "getSmcContextAsOf st symbol tf asOf swingCfg cfg eng =
     (let closedOnes = closedForSmc st symbol tf asOf;
          key = smcKey symbol tf asOf (map_option k_openTime (fromEnd 1 closedOnes)) (length closedOnes) in
      (case mget (le_smcCache eng) key of
         Some r \<Rightarrow> (r, eng)
       | None \<Rightarrow>
           (let (structure, cache') = getStructureAsOf st symbol tf asOf EXTERNAL swingCfg (le_structureCache eng);
                r = smcContextOf closedOnes structure symbol tf asOf cfg in
            (r, \<lparr>le_smcCache = rememberContext key r (le_smcCache eng), le_structureCache = cache'\<rparr>))))"

fun smcLoop ::
  "klineStore \<Rightarrow> string \<Rightarrow> ms \<Rightarrow> swingConfig \<Rightarrow> detectorConfig \<Rightarrow> timeframe list \<Rightarrow> locationEngine \<Rightarrow>
   (timeframe \<times> smcTimeframe) list \<times> locationEngine" where
  "smcLoop st symbol asOf swingCfg cfg [] eng = ([], eng)"
| "smcLoop st symbol asOf swingCfg cfg (tf # tfs) eng =
     (let (r, eng1) = getSmcContextAsOf st symbol tf asOf swingCfg cfg eng;
          (rs, eng2) = smcLoop st symbol asOf swingCfg cfg tfs eng1 in ((tf, r) # rs, eng2))"

definition computeMultiTimeframeSmcContext ::
  "klineStore \<Rightarrow> string \<Rightarrow> ms \<Rightarrow> swingConfig \<Rightarrow> detectorConfig \<Rightarrow> locationEngine \<Rightarrow>
   (timeframe \<times> smcTimeframe) list \<times> locationEngine" where
  "computeMultiTimeframeSmcContext st symbol asOf swingCfg cfg eng =
     smcLoop st symbol asOf swingCfg cfg CANONICAL_TIMEFRAMES eng"

end
