(* ===== verification/Zone_Guarantees.thy ===== *)
theory Zone_Guarantees
  imports Smc_Zones
begin

section \<open>What zones and sweeps guarantee\<close>

text \<open>
  A detected gap is one, the status of a gap or an order block summarises the candles since its
  confirmation, a level is swept at most once and only by a wick that closes back, and the
  cache of the location engine is bounded.
\<close>

subsection \<open>Fair value gaps\<close>

definition closesBeyond :: "fairValueGap \<Rightarrow> candle \<Rightarrow> bool" where
  "closesBeyond f c \<longleftrightarrow> fg_confirmedAt f \<le> k_openTime c \<and>
     (if fg_type f = BULLISH_Z then k_close c < fg_lowerPrice f else fg_upperPrice f < k_close c)"

definition reachesMid :: "fairValueGap \<Rightarrow> candle \<Rightarrow> bool" where
  "reachesMid f c \<longleftrightarrow> fg_confirmedAt f \<le> k_openTime c \<and>
     (if fg_type f = BULLISH_Z then k_low c \<le> fg_midpoint f else fg_midpoint f \<le> k_high c)"

definition reachesFar :: "fairValueGap \<Rightarrow> candle \<Rightarrow> bool" where
  "reachesFar f c \<longleftrightarrow> fg_confirmedAt f \<le> k_openTime c \<and>
     (if fg_type f = BULLISH_Z then k_low c \<le> fg_lowerPrice f else fg_upperPrice f \<le> k_high c)"

lemmas gap_touches = closesBeyond_def reachesMid_def reachesFar_def

definition sameGap :: "fairValueGap \<Rightarrow> fairValueGap \<Rightarrow> bool" where
  "sameGap f g \<longleftrightarrow> fg_type f = fg_type g \<and> fg_upperPrice f = fg_upperPrice g \<and>
     fg_lowerPrice f = fg_lowerPrice g \<and> fg_midpoint f = fg_midpoint g \<and> fg_confirmedAt f = fg_confirmedAt g \<and>
     fg_sourceCandleTimes f = fg_sourceCandleTimes g"

lemma fvgWalk_same: "sameGap (fvgWalk cs f) f"
  by (induction cs f rule: fvgWalk.induct) (auto simp: sameGap_def)

lemma sameGap_touches:
  "sameGap f g \<Longrightarrow> closesBeyond f = closesBeyond g"
  "sameGap f g \<Longrightarrow> reachesMid f = reachesMid g"
  "sameGap f g \<Longrightarrow> reachesFar f = reachesFar g"
  by (auto simp: fun_eq_iff gap_touches sameGap_def)

lemma fvgWalk_invalidated:
  "fg_status f \<noteq> INVALIDATED_F \<Longrightarrow> fg_status (fvgWalk cs f) = INVALIDATED_F \<longleftrightarrow> (\<exists>c \<in> set cs. closesBeyond f c)"
  by (induction cs f rule: fvgWalk.induct) (auto simp: closesBeyond_def)

lemma fvgWalk_active:
  "fg_lowerPrice f \<le> fg_midpoint f \<Longrightarrow> fg_midpoint f \<le> fg_upperPrice f \<Longrightarrow>
   fg_status (fvgWalk cs f) = ACTIVE_F \<longleftrightarrow>
     fg_status f = ACTIVE_F \<and> (\<forall>c \<in> set cs. \<not> closesBeyond f c \<and> \<not> reachesMid f c)"
  by (induction cs f rule: fvgWalk.induct) (auto simp: closesBeyond_def reachesMid_def)

lemma fvgWalk_mitigated:
  "fg_status (fvgWalk cs f) = MITIGATED_F \<longleftrightarrow>
     (fg_status f = MITIGATED_F \<or> (\<exists>c \<in> set cs. reachesFar f c)) \<and> (\<forall>c \<in> set cs. \<not> closesBeyond f c)"
  by (induction cs f rule: fvgWalk.induct) (auto simp: closesBeyond_def reachesFar_def)

definition isGap :: "number \<Rightarrow> candle \<Rightarrow> candle \<Rightarrow> candle \<Rightarrow> fairValueGap \<Rightarrow> bool" where
  "isGap minSize c0 c1 c2 f \<longleftrightarrow> fg_status f = ACTIVE_F \<and>
     fg_sourceCandleTimes f = [k_openTime c0, k_openTime c1, k_openTime c2] \<and>
     fg_confirmedAt f = coalesce (k_closeTime c2) (k_openTime c2 + 1) \<and>
     fg_midpoint f = (fg_upperPrice f + fg_lowerPrice f) / 2 \<and> fg_lowerPrice f < fg_upperPrice f \<and>
     \<not> quotBelow (fg_upperPrice f - fg_lowerPrice f) (fg_lowerPrice f) minSize \<and>
     (if fg_type f = BULLISH_Z then fg_lowerPrice f = k_high c0 \<and> fg_upperPrice f = k_low c2
      else fg_lowerPrice f = k_high c2 \<and> fg_upperPrice f = k_low c0)"

lemma checkFvg_isGap:
  "checkBullishFvg c0 c1 c2 symbol tf minSize = Some f \<Longrightarrow> isGap minSize c0 c1 c2 f"
  "checkBearishFvg c0 c1 c2 symbol tf minSize = Some f \<Longrightarrow> isGap minSize c0 c1 c2 f"
  by (auto simp: checkBullishFvg_def checkBearishFvg_def makeFvg_def Let_def isGap_def split: if_splits)

lemma rawFvgs_sound:
  "f \<in> set (rawFvgs symbol tf minSize cs) \<Longrightarrow>
   \<exists>xs c0 c1 c2 ys. cs = xs @ c0 # c1 # c2 # ys \<and> isGap minSize c0 c1 c2 f"
proof (induction symbol tf minSize cs rule: rawFvgs.induct)
  case (1 symbol tf minSize c0 c1 c2 cs)
  show ?case
  proof (cases "f \<in> set (rawFvgs symbol tf minSize (c1 # c2 # cs))")
    case True
    from "1.IH" [OF this] obtain xs d0 d1 d2 ys where
      "c0 # c1 # c2 # cs = (c0 # xs) @ d0 # d1 # d2 # ys" "isGap minSize d0 d1 d2 f"
      by auto
    then show ?thesis by blast
  next
    case False
    with "1.prems" have "isGap minSize c0 c1 c2 f" by (auto dest: checkFvg_isGap)
    moreover have "c0 # c1 # c2 # cs = [] @ c0 # c1 # c2 # cs" by simp
    ultimately show ?thesis by blast
  qed
qed simp_all

lemma detectFvgs_raw:
  "f \<in> set (detectFvgs cs symbol tf cfg) \<Longrightarrow>
   \<exists>g \<in> set (rawFvgs symbol tf (coalesce (dc_fvgMinSizePct cfg) 0) cs). f = fvgWalk cs g"
  by (auto simp: detectFvgs_def trackFvgLifecycles_def)

subsection \<open>Order blocks\<close>

definition breaksBlock :: "orderBlock \<Rightarrow> candle \<Rightarrow> bool" where
  "breaksBlock b c \<longleftrightarrow> ob_confirmedAt b \<le> k_openTime c \<and>
     (if ob_type b = BULLISH_Z then k_close c < ob_invalidationPrice b else ob_invalidationPrice b < k_close c)"

definition testsBlock :: "orderBlock \<Rightarrow> candle \<Rightarrow> bool" where
  "testsBlock b c \<longleftrightarrow> ob_confirmedAt b \<le> k_openTime c \<and>
     (if ob_type b = BULLISH_Z then k_low c \<le> mitigationLevel b else mitigationLevel b \<le> k_high c)"

definition sameBlock :: "orderBlock \<Rightarrow> orderBlock \<Rightarrow> bool" where
  "sameBlock a b \<longleftrightarrow> ob_type a = ob_type b \<and> ob_upperPrice a = ob_upperPrice b \<and>
     ob_lowerPrice a = ob_lowerPrice b \<and> ob_invalidationPrice a = ob_invalidationPrice b \<and>
     ob_confirmedAt a = ob_confirmedAt b \<and> ob_sourceCandleTimes a = ob_sourceCandleTimes b"

lemma obWalk_same: "sameBlock (obWalk level cs b) b"
  by (induction level cs b rule: obWalk.induct) (auto simp: sameBlock_def)

lemma sameBlock_touches:
  "sameBlock a b \<Longrightarrow> breaksBlock a = breaksBlock b" "sameBlock a b \<Longrightarrow> testsBlock a = testsBlock b"
  by (auto simp: fun_eq_iff breaksBlock_def testsBlock_def mitigationLevel_def sameBlock_def)

lemma block_updates [simp]:
  "mitigationLevel (b\<lparr>ob_status := x, ob_mitigatedAt := y\<rparr>) = mitigationLevel b"
  "breaksBlock (b\<lparr>ob_status := x, ob_mitigatedAt := y\<rparr>) c = breaksBlock b c"
  "testsBlock (b\<lparr>ob_status := x, ob_mitigatedAt := y\<rparr>) c = testsBlock b c"
  by (simp_all add: mitigationLevel_def breaksBlock_def testsBlock_def)

lemma obWalk_Cons:
  "obWalk (mitigationLevel b) (c # cs) b =
     (if breaksBlock b c then b\<lparr>ob_status := INVALIDATED_B, ob_invalidatedAt := Some (closeOf c)\<rparr>
      else if testsBlock b c \<and> ob_status b = ACTIVE_B
      then obWalk (mitigationLevel b) cs (b\<lparr>ob_status := MITIGATED_B, ob_mitigatedAt := Some (closeOf c)\<rparr>)
      else obWalk (mitigationLevel b) cs b)"
  by (simp add: breaksBlock_def testsBlock_def)

lemma obWalk_invalidated:
  "ob_status b \<noteq> INVALIDATED_B \<Longrightarrow>
   ob_status (obWalk (mitigationLevel b) cs b) = INVALIDATED_B \<longleftrightarrow> (\<exists>c \<in> set cs. breaksBlock b c)"
proof (induction cs arbitrary: b)
  case (Cons c cs)
  show ?case
    using Cons.IH [of b] Cons.IH [of "b\<lparr>ob_status := MITIGATED_B, ob_mitigatedAt := Some (closeOf c)\<rparr>"] Cons.prems
    by (simp add: obWalk_Cons del: obWalk.simps)
qed simp

lemma obWalk_active:
  "ob_status (obWalk (mitigationLevel b) cs b) = ACTIVE_B \<longleftrightarrow>
     ob_status b = ACTIVE_B \<and> (\<forall>c \<in> set cs. \<not> breaksBlock b c \<and> \<not> testsBlock b c)"
proof (induction cs arbitrary: b)
  case (Cons c cs)
  show ?case
    using Cons.IH [of b] Cons.IH [of "b\<lparr>ob_status := MITIGATED_B, ob_mitigatedAt := Some (closeOf c)\<rparr>"]
    by (simp add: obWalk_Cons del: obWalk.simps) blast
qed simp

lemma obWalk_early: "\<forall>c \<in> set cs. k_openTime c < ob_confirmedAt b \<Longrightarrow> obWalk level cs b = b"
  by (induction cs) simp_all

lemma find_in: "find P xs = Some x \<Longrightarrow> x \<in> set xs \<and> P x"
  by (induction xs) (auto split: if_splits)

lemma findCandle_Some:
  "findCandle t cs = Some i \<Longrightarrow> i < length cs \<and> k_openTime (cs ! i) = t"
  by (induction cs arbitrary: i) (auto split: if_splits)

lemma originOf_before:
  assumes "0 < i" "n \<le> i"
  shows "\<exists>j < i. originOf P cs i n = cs ! j \<and> (j + n \<ge> i \<or> j = i - 1)"
proof (cases "find P (map (\<lambda>d. cs ! (i - d)) [1 ..< n + 1])")
  case None
  then have "originOf P cs i n = cs ! (i - 1)" by (simp add: originOf_def)
  with assms(1) show ?thesis by (intro exI [of _ "i - 1"]) simp
next
  case (Some c)
  then have "c \<in> set (map (\<lambda>d. cs ! (i - d)) [1 ..< n + 1])"
    by (rule find_in [THEN conjunct1])
  then obtain d where "1 \<le> d" "d \<le> n" "c = cs ! (i - d)" by auto
  moreover from this have "i - d < i" "i \<le> i - d + n" using assms by linarith+
  ultimately show ?thesis using Some by (intro exI [of _ "i - d"]) (simp add: originOf_def)
qed

definition fromEvent :: "candle list \<Rightarrow> detectorConfig \<Rightarrow> structureEvent \<Rightarrow> orderBlock \<Rightarrow> bool" where
  "fromEvent cs cfg e b \<longleftrightarrow> ob_status b = ACTIVE_B \<and> ob_confirmedAt b = ev_confirmationTime e \<and>
     ob_invalidationPrice b = (if ob_type b = BULLISH_Z then ob_lowerPrice b else ob_upperPrice b) \<and>
     (\<exists>i j. i < length cs \<and> k_openTime (cs ! i) = ev_sourceCandleTime e \<and> j < i \<and>
        (i \<le> j + dc_obLookbackBars cfg \<or> j = i - 1) \<and>
        ob_upperPrice b = k_high (cs ! j) \<and> ob_lowerPrice b = k_low (cs ! j) \<and>
        (if ob_type b = BULLISH_Z
         then \<not> quotBelow (k_close (cs ! i) - ob_lowerPrice b) (ob_lowerPrice b) (dc_obDisplacementThresholdPct cfg)
         else \<not> quotBelow (ob_upperPrice b - k_close (cs ! i)) (ob_upperPrice b) (dc_obDisplacementThresholdPct cfg)))"

lemma fromEventI:
  assumes "b = makeOb e side (cs ! j) (cs ! i)" "i < length cs \<and> k_openTime (cs ! i) = ev_sourceCandleTime e"
    and "j < i" "i \<le> j + dc_obLookbackBars cfg \<or> j = i - 1"
    and "if side = BULLISH_Z
      then \<not> quotBelow (k_close (cs ! i) - k_low (cs ! j)) (k_low (cs ! j)) (dc_obDisplacementThresholdPct cfg)
      else \<not> quotBelow (k_high (cs ! j) - k_close (cs ! i)) (k_high (cs ! j)) (dc_obDisplacementThresholdPct cfg)"
  shows "fromEvent cs cfg e b \<and> ob_type b = side"
proof -
  have b: "ob_status b = ACTIVE_B" "ob_confirmedAt b = ev_confirmationTime e" "ob_type b = side"
    "ob_upperPrice b = k_high (cs ! j)" "ob_lowerPrice b = k_low (cs ! j)"
    "ob_invalidationPrice b = (if side = BULLISH_Z then k_low (cs ! j) else k_high (cs ! j))"
    by (simp_all add: assms(1) makeOb_def)
  show ?thesis
    unfolding fromEvent_def b using assms(2-5) by (intro conjI exI [of _ i] exI [of _ j]) simp_all
qed

lemma findOb_fromEvent:
  "findBullishOb cs e cfg = Some b \<Longrightarrow> fromEvent cs cfg e b \<and> ob_type b = BULLISH_Z"
  "findBearishOb cs e cfg = Some b \<Longrightarrow> fromEvent cs cfg e b \<and> ob_type b = BEARISH_Z"
proof -
  have near: "\<exists>j < i. originOf P cs i (min i n) = cs ! j \<and> (i \<le> j + n \<or> j = i - 1)" if "0 < i" for P i n
    using originOf_before [of i "min i n" P cs] that by fastforce
  show "fromEvent cs cfg e b \<and> ob_type b = BULLISH_Z" if some: "findBullishOb cs e cfg = Some b"
  proof -
    from some obtain i where i: "findCandle (ev_sourceCandleTime e) cs = Some i" "0 < i"
      by (auto simp: findBullishOb_def split: option.splits if_splits)
    obtain j where "j < i" "originOf (\<lambda>c. k_close c < k_open c) cs i (min i (dc_obLookbackBars cfg)) = cs ! j"
      "i \<le> j + dc_obLookbackBars cfg \<or> j = i - 1"
      using near [OF i(2)] by blast
    moreover from this have "b = makeOb e BULLISH_Z (cs ! j) (cs ! i)" "\<not> quotBelow (k_close (cs ! i) - k_low (cs ! j)) (k_low (cs ! j)) (dc_obDisplacementThresholdPct cfg)"
      using some i by (simp_all add: findBullishOb_def Let_def split: if_splits)
    ultimately show ?thesis
      using findCandle_Some [OF i(1)] by (intro fromEventI) simp_all
  qed
  show "fromEvent cs cfg e b \<and> ob_type b = BEARISH_Z" if some: "findBearishOb cs e cfg = Some b"
  proof -
    from some obtain i where i: "findCandle (ev_sourceCandleTime e) cs = Some i" "0 < i"
      by (auto simp: findBearishOb_def split: option.splits if_splits)
    obtain j where "j < i" "originOf (\<lambda>c. k_close c > k_open c) cs i (min i (dc_obLookbackBars cfg)) = cs ! j"
      "i \<le> j + dc_obLookbackBars cfg \<or> j = i - 1"
      using near [OF i(2)] by blast
    moreover from this have "b = makeOb e BEARISH_Z (cs ! j) (cs ! i)" "\<not> quotBelow (k_high (cs ! j) - k_close (cs ! i)) (k_high (cs ! j)) (dc_obDisplacementThresholdPct cfg)"
      using some i by (simp_all add: findBearishOb_def Let_def split: if_splits)
    ultimately show ?thesis
      using findCandle_Some [OF i(1)] by (intro fromEventI) simp_all
  qed
qed

lemma set_map_filter: "set (List.map_filter f xs) = {y. \<exists>x \<in> set xs. f x = Some y}"
  by (induction xs) (auto simp: List.map_filter_simps split: option.splits)

lemma detectOrderBlocks_raw:
  assumes "b \<in> set (detectOrderBlocks cs events cfg)"
  shows "\<exists>e \<in> set events. \<exists>a. fromEvent cs cfg e a \<and> b = obWalk (mitigationLevel a) cs a \<and>
    (if ob_type a = BULLISH_Z then ev_eventType e \<in> {BOS_BULLISH, CHOCH_BULLISH}
     else ev_eventType e \<in> {BOS_BEARISH, CHOCH_BEARISH})"
proof -
  obtain e a where e: "e \<in> set events" "ev_eventType e \<in> {BOS_BULLISH, BOS_BEARISH, CHOCH_BULLISH, CHOCH_BEARISH}"
    and a: "(if ev_eventType e \<in> {BOS_BULLISH, CHOCH_BULLISH} then findBullishOb cs e cfg else findBearishOb cs e cfg) = Some a"
    and b: "b = obWalk (mitigationLevel a) cs a"
    using assms unfolding detectOrderBlocks_def trackObLifecycles_def Let_def set_map set_map_filter set_filter
    by blast
  show ?thesis
  proof (cases "ev_eventType e \<in> {BOS_BULLISH, CHOCH_BULLISH}")
    case True
    with a have "findBullishOb cs e cfg = Some a" by simp
    from findOb_fromEvent(1) [OF this] e b True show ?thesis
      by (intro bexI [of _ e] exI [of _ a]) simp_all
  next
    case False
    with a have "findBearishOb cs e cfg = Some a" by simp
    from findOb_fromEvent(2) [OF this] e b False show ?thesis
      by (intro bexI [of _ e] exI [of _ a]) auto
  qed
qed

subsection \<open>Sweeps\<close>

definition wicks :: "liquidityLevel \<Rightarrow> candle \<Rightarrow> bool" where
  "wicks l c \<longleftrightarrow> ll_confirmedAt l \<le> k_openTime c \<and>
     (if ll_type l = BSL \<or> ll_type l = EQUAL_HIGH then ll_price l < k_high c \<and> k_close c \<le> ll_price l
      else k_low c < ll_price l \<and> ll_price l \<le> k_close c)"

lemma checkCandleSweep_iff:
  "ll_confirmedAt l \<le> k_openTime c \<Longrightarrow> (\<exists>s. checkCandleSweep c l t = Some s) \<longleftrightarrow> wicks l c"
  by (auto simp: checkCandleSweep_def wicks_def)

lemma checkCandleSweep_id: "checkCandleSweep c l t = Some s \<Longrightarrow> lw_liquidityId s = ll_id l"
  by (auto simp: checkCandleSweep_def buildSweepObject_def split: if_splits)

definition sweptBy :: "liquidityLevel list \<Rightarrow> string list \<Rightarrow> candle \<Rightarrow> liquiditySweep list" where
  "sweptBy levels swept c = List.map_filter (\<lambda>l. checkCandleSweep c l (closeOf c))
     (filter (\<lambda>l. ll_confirmedAt l \<le> k_openTime c \<and> ll_id l \<notin> set swept) levels)"

lemma sweptBy_ids:
  "set (map lw_liquidityId (sweptBy levels swept c)) = ll_id ` {l \<in> set levels. wicks l c \<and> ll_id l \<notin> set swept}"
proof -
  have "lw_liquidityId ` set (sweptBy levels swept c) =
      {ll_id l | l. l \<in> set levels \<and> ll_confirmedAt l \<le> k_openTime c \<and> ll_id l \<notin> set swept \<and>
         (\<exists>s. checkCandleSweep c l (closeOf c) = Some s)}"
    unfolding sweptBy_def set_map_filter by (force dest: checkCandleSweep_id)
  also have "\<dots> = ll_id ` {l \<in> set levels. wicks l c \<and> ll_id l \<notin> set swept}"
    using checkCandleSweep_iff [of _ c "closeOf c"] by (force simp: wicks_def)
  finally show ?thesis by simp
qed

lemma sweptBy_distinct:
  assumes "distinct (map ll_id levels)"
  shows "distinct (map lw_liquidityId (sweptBy levels swept c))"
proof -
  have ids: "lw_liquidityId ` set (List.map_filter (\<lambda>l. checkCandleSweep c l (closeOf c)) ls) \<subseteq> ll_id ` set ls" for ls
    by (auto simp: set_map_filter dest: checkCandleSweep_id)
  have "distinct (map lw_liquidityId (List.map_filter (\<lambda>l. checkCandleSweep c l (closeOf c)) ls))"
    if "distinct (map ll_id ls)" for ls
    using that
  proof (induction ls)
    case (Cons l ls)
    then have "ll_id l \<notin> ll_id ` set ls" by simp
    then have "ll_id l \<notin> lw_liquidityId ` set (List.map_filter (\<lambda>l. checkCandleSweep c l (closeOf c)) ls)"
      using ids [of ls] by blast
    with Cons show ?case
      by (cases "checkCandleSweep c l (closeOf c)") (simp_all add: List.map_filter_simps checkCandleSweep_id)
  qed (simp add: List.map_filter_simps)
  moreover have "distinct (map ll_id (filter (\<lambda>l. ll_confirmedAt l \<le> k_openTime c \<and> ll_id l \<notin> set swept) levels))"
    using assms by (simp add: distinct_map_filter)
  ultimately show ?thesis by (simp add: sweptBy_def)
qed

lemma sweepLoop_Cons:
  "fst (sweepLoop levels (c # cs) swept) =
     sweptBy levels swept c @ fst (sweepLoop levels cs (swept @ map lw_liquidityId (sweptBy levels swept c)))"
  "snd (sweepLoop levels (c # cs) swept) =
     snd (sweepLoop levels cs (swept @ map lw_liquidityId (sweptBy levels swept c)))"
  by (simp_all add: sweptBy_def Let_def split: prod.splits)

lemma sweepLoop_snd: "snd (sweepLoop levels cs swept) = swept @ map lw_liquidityId (fst (sweepLoop levels cs swept))"
  by (induction cs arbitrary: swept) (simp_all add: sweepLoop_Cons del: sweepLoop.simps(2))

lemma sweepLoop_ids:
  "set (map lw_liquidityId (fst (sweepLoop levels cs swept))) =
     ll_id ` {l \<in> set levels. ll_id l \<notin> set swept \<and> (\<exists>c \<in> set cs. wicks l c)}"
  if "distinct (map ll_id levels)"
proof (induction cs arbitrary: swept)
  case (Cons c cs)
  have inj: "l = l'" if "l \<in> set levels" "l' \<in> set levels" "ll_id l = ll_id l'" for l l'
    using that \<open>distinct (map ll_id levels)\<close> by (auto simp: distinct_map inj_on_def)
  show ?case
    unfolding sweepLoop_Cons map_append set_append Cons.IH sweptBy_ids
    using inj by (auto simp: image_iff)
qed simp

lemma sweepLoop_distinct:
  assumes "distinct (map ll_id levels)"
  shows "distinct (map lw_liquidityId (fst (sweepLoop levels cs swept)))"
proof (induction cs arbitrary: swept)
  case (Cons c cs)
  have "set (map lw_liquidityId (fst (sweepLoop levels cs swept'))) \<inter> set swept' = {}" for swept'
    unfolding sweepLoop_ids [OF assms] by auto
  from this [of "swept @ map lw_liquidityId (sweptBy levels swept c)"] show ?case
    using Cons sweptBy_distinct [OF assms] by (auto simp: sweepLoop_Cons simp del: sweepLoop.simps(2))
qed simp


subsection \<open>The cache of the location engine\<close>

lemma length_mset: "length (mset k v m) \<le> Suc (length m)"
  by (induction m) (auto simp: mset_def)

lemma length_mdel: "length (mdel k m) \<le> length m"
  by (simp add: mdel_def length_delete_le)

lemma length_mdel_first: "mkeys m = k # ks \<Longrightarrow> length (mdel k m) < length m"
proof -
  assume "mkeys m = k # ks"
  then obtain v m' where "m = (k, v) # m'" by (cases m) (auto simp: mkeys_def)
  then show ?thesis using length_mdel [of k m'] by (simp add: mdel_def)
qed

lemma rememberContext_bound:
  assumes "length cache \<le> SMC_CACHE_MAX_ENTRIES"
  shows "length (rememberContext key r cache) \<le> SMC_CACHE_MAX_ENTRIES"
proof (cases "length cache \<ge> SMC_CACHE_MAX_ENTRIES")
  case True
  then have "cache \<noteq> []" by (auto simp: SMC_CACHE_MAX_ENTRIES_def)
  then obtain k ks where k: "mkeys cache = k # ks" by (cases cache) (auto simp: mkeys_def)
  have "length (mset key r (mdel k cache)) \<le> Suc (length (mdel k cache))" by (rule length_mset)
  then show ?thesis using True assms length_mdel_first [OF k] by (simp add: rememberContext_def k)
next
  case False
  then show ?thesis using length_mset [of key r cache] by (simp add: rememberContext_def)
qed

text \<open>A query of the location engine: the store it finds, symbol, time frame and time.\<close>

type_synonym smcQuery = "klineStore \<times> string \<times> timeframe \<times> ms \<times> swingConfig \<times> detectorConfig"

definition smcStep :: "smcQuery \<Rightarrow> locationEngine \<Rightarrow> locationEngine" where
  "smcStep q eng = (case q of (st, symbol, tf, asOf, swingCfg, cfg) \<Rightarrow> snd (getSmcContextAsOf st symbol tf asOf swingCfg cfg eng))"

interpretation smcCache: component smcStep "\<lambda>eng :: locationEngine. length (le_smcCache eng) \<le> SMC_CACHE_MAX_ENTRIES"
proof unfold_locales
  fix eng :: locationEngine and q :: smcQuery
  assume "length (le_smcCache eng) \<le> SMC_CACHE_MAX_ENTRIES"
  then show "length (le_smcCache (smcStep q eng)) \<le> SMC_CACHE_MAX_ENTRIES"
    by (auto simp: smcStep_def getSmcContextAsOf_def Let_def rememberContext_bound split: prod.splits option.splits)
qed

subsection \<open>Properties\<close>

text \<open>The status of a fair value gap tells what happened to it: the zone lies between the wicks
  of three consecutive candles; it is INVALIDATED exactly if a later candle closed beyond its far
  edge, MITIGATED exactly if one reached the far edge and none closed beyond it, and ACTIVE
  exactly if none even reached its middle.\<close>

theorem gap_status_tells_history:
  assumes "f \<in> set (detectFvgs cs symbol tf cfg)"
  shows "fg_lowerPrice f < fg_midpoint f \<and> fg_midpoint f < fg_upperPrice f \<and>
    (\<exists>xs c0 c1 c2 ys. cs = xs @ c0 # c1 # c2 # ys \<and>
       (if fg_type f = BULLISH_Z then fg_lowerPrice f = k_high c0 \<and> fg_upperPrice f = k_low c2
        else fg_lowerPrice f = k_high c2 \<and> fg_upperPrice f = k_low c0)) \<and>
    (fg_status f = INVALIDATED_F \<longleftrightarrow> (\<exists>c \<in> set cs. closesBeyond f c)) \<and>
    (fg_status f = MITIGATED_F \<longleftrightarrow> (\<exists>c \<in> set cs. reachesFar f c) \<and> (\<forall>c \<in> set cs. \<not> closesBeyond f c)) \<and>
    (fg_status f = ACTIVE_F \<longleftrightarrow> (\<forall>c \<in> set cs. \<not> closesBeyond f c \<and> \<not> reachesMid f c))"
proof -
  obtain g where g: "g \<in> set (rawFvgs symbol tf (coalesce (dc_fvgMinSizePct cfg) 0) cs)" and f: "f = fvgWalk cs g"
    using detectFvgs_raw [OF assms] by blast
  obtain xs c0 c1 c2 ys where cs: "cs = xs @ c0 # c1 # c2 # ys"
    and gap: "isGap (coalesce (dc_fvgMinSizePct cfg) 0) c0 c1 c2 g"
    using rawFvgs_sound [OF g] by blast
  have same: "sameGap f g" unfolding f by (rule fvgWalk_same)
  have mid: "fg_lowerPrice g < fg_midpoint g" "fg_midpoint g < fg_upperPrice g" "fg_status g = ACTIVE_F"
    using gap by (auto simp: isGap_def field_simps)
  have zone: "if fg_type f = BULLISH_Z then fg_lowerPrice f = k_high c0 \<and> fg_upperPrice f = k_low c2
      else fg_lowerPrice f = k_high c2 \<and> fg_upperPrice f = k_low c0"
    using gap same by (simp add: isGap_def sameGap_def)
  have "fg_status f = INVALIDATED_F \<longleftrightarrow> (\<exists>c \<in> set cs. closesBeyond f c)"
    unfolding sameGap_touches [OF same] unfolding f using mid(3) by (simp add: fvgWalk_invalidated)
  moreover have "fg_status f = MITIGATED_F \<longleftrightarrow> (\<exists>c \<in> set cs. reachesFar f c) \<and> (\<forall>c \<in> set cs. \<not> closesBeyond f c)"
    unfolding sameGap_touches [OF same] unfolding f using mid(3) by (simp add: fvgWalk_mitigated)
  moreover have "fg_status f = ACTIVE_F \<longleftrightarrow> (\<forall>c \<in> set cs. \<not> closesBeyond f c \<and> \<not> reachesMid f c)"
    unfolding sameGap_touches [OF same] unfolding f using mid by (simp add: fvgWalk_active)
  moreover have "fg_lowerPrice f < fg_midpoint f" "fg_midpoint f < fg_upperPrice f"
    using mid same by (simp_all add: sameGap_def)
  ultimately show ?thesis using zone cs by blast
qed

definition gapSeries :: "candle list" where
  "gapSeries = [flatBar 10 10, flatBar 20 12, flatBar 30 14]"

theorem gap_status_tells_history_witness:
  "\<exists>f \<in> set (detectFvgs gapSeries ''B'' TF_5m DEFAULT_SMC_CONFIG).
     fg_lowerPrice f < fg_midpoint f \<and> fg_status f = ACTIVE_F"
proof -
  let ?f = "makeFvg (flatBar 10 10) (flatBar 20 12) (flatBar 30 14) ''B'' TF_5m BULLISH_Z 14 10"
  have f: "?f \<in> set (detectFvgs gapSeries ''B'' TF_5m DEFAULT_SMC_CONFIG)"
    by (simp add: detectFvgs_def trackFvgLifecycles_def gapSeries_def checkBullishFvg_def checkBearishFvg_def
        quotBelow_def DEFAULT_SMC_CONFIG_def flatBar_def makeFvg_def Let_def)
  have "\<not> closesBeyond ?f c \<and> \<not> reachesMid ?f c" if "c \<in> set gapSeries" for c
    using that by (auto simp: gapSeries_def closesBeyond_def reachesMid_def makeFvg_def flatBar_def)
  then show ?thesis using gap_status_tells_history [OF f] f by blast
qed

text \<open>An order block is the candle from which a confirmed break of structure was displaced: it
  spans the range of a candle within the lookback before the break (or the one just before it),
  from which the break closed at least the displacement threshold away; it is INVALIDATED
  exactly if a candle after the confirmation closed beyond its invalidation price and ACTIVE
  exactly if none did and none reached its middle.\<close>

theorem order_block_status_tells_history:
  assumes "b \<in> set (detectOrderBlocks cs events cfg)"
  shows "(\<exists>e \<in> set events. \<exists>i j. i < length cs \<and> k_openTime (cs ! i) = ev_sourceCandleTime e \<and> j < i \<and>
      (i \<le> j + dc_obLookbackBars cfg \<or> j = i - 1) \<and> ob_confirmedAt b = ev_confirmationTime e \<and>
      ob_upperPrice b = k_high (cs ! j) \<and> ob_lowerPrice b = k_low (cs ! j) \<and>
      (if ob_type b = BULLISH_Z
       then ev_eventType e \<in> {BOS_BULLISH, CHOCH_BULLISH} \<and>
         \<not> quotBelow (k_close (cs ! i) - ob_lowerPrice b) (ob_lowerPrice b) (dc_obDisplacementThresholdPct cfg)
       else ev_eventType e \<in> {BOS_BEARISH, CHOCH_BEARISH} \<and>
         \<not> quotBelow (ob_upperPrice b - k_close (cs ! i)) (ob_upperPrice b) (dc_obDisplacementThresholdPct cfg))) \<and>
    (ob_status b = INVALIDATED_B \<longleftrightarrow> (\<exists>c \<in> set cs. breaksBlock b c)) \<and>
    (ob_status b = ACTIVE_B \<longleftrightarrow> (\<forall>c \<in> set cs. \<not> breaksBlock b c \<and> \<not> testsBlock b c))"
proof -
  obtain e a where e: "e \<in> set events" and a: "fromEvent cs cfg e a" and b: "b = obWalk (mitigationLevel a) cs a"
    and side: "if ob_type a = BULLISH_Z then ev_eventType e \<in> {BOS_BULLISH, CHOCH_BULLISH}
      else ev_eventType e \<in> {BOS_BEARISH, CHOCH_BEARISH}"
    using detectOrderBlocks_raw [OF assms] by blast
  have same: "sameBlock b a" unfolding b by (rule obWalk_same)
  have active: "ob_status a = ACTIVE_B" using a by (simp add: fromEvent_def)
  have fields: "ob_type b = ob_type a" "ob_upperPrice b = ob_upperPrice a" "ob_lowerPrice b = ob_lowerPrice a"
    "ob_confirmedAt b = ob_confirmedAt a"
    using same by (simp_all add: sameBlock_def)
  have "ob_status b = INVALIDATED_B \<longleftrightarrow> (\<exists>c \<in> set cs. breaksBlock b c)"
    unfolding sameBlock_touches [OF same] unfolding b using active by (simp add: obWalk_invalidated)
  moreover have "ob_status b = ACTIVE_B \<longleftrightarrow> (\<forall>c \<in> set cs. \<not> breaksBlock b c \<and> \<not> testsBlock b c)"
    unfolding sameBlock_touches [OF same] unfolding b using active by (simp add: obWalk_active)
  ultimately show ?thesis using a side e unfolding fromEvent_def fields by (auto intro!: bexI [of _ e] split: if_splits)
qed

definition blockSeries :: "candle list" where
  "blockSeries = [flatBar 10 10, flatBar 20 9, flatBar 30 12]"

theorem order_block_status_tells_history_witness:
  "\<exists>b \<in> set (detectOrderBlocks blockSeries [breakEvent (flatBar 30 12) hillTop BOS_BULLISH EXTERNAL] DEFAULT_SMC_CONFIG).
     ob_status b = ACTIVE_B"
proof -
  let ?e = "breakEvent (flatBar 30 12) hillTop BOS_BULLISH EXTERNAL"
  let ?b = "makeOb ?e BULLISH_Z (flatBar 20 9) (flatBar 30 12)"
  have find: "findBullishOb blockSeries ?e DEFAULT_SMC_CONFIG = Some ?b"
    by (simp add: findBullishOb_def blockSeries_def breakEvent_def originOf_def flatBar_def DEFAULT_SMC_CONFIG_def
        quotBelow_def upt_rec numeral_2_eq_2 Let_def)
  have ty: "ev_eventType ?e = BOS_BULLISH" by (simp add: breakEvent_def)
  have "obWalk (mitigationLevel ?b) blockSeries ?b = ?b"
    by (rule obWalk_early) (simp add: blockSeries_def flatBar_def makeOb_def breakEvent_def closeOf_def)
  then have b: "?b \<in> set (detectOrderBlocks blockSeries [?e] DEFAULT_SMC_CONFIG)"
    by (simp add: detectOrderBlocks_def trackObLifecycles_def find ty List.map_filter_simps)
  have "\<not> breaksBlock ?b c \<and> \<not> testsBlock ?b c" if "c \<in> set blockSeries" for c
    using that by (auto simp: blockSeries_def breaksBlock_def testsBlock_def makeOb_def flatBar_def breakEvent_def
        closeOf_def mitigationLevel_def)
  then show ?thesis using order_block_status_tells_history [OF b] b by blast
qed

text \<open>A liquidity level is swept once, by a wick: with distinct level identifiers no level has
  two sweeps, and a level ends up SWEPT exactly if some candle that opened after its confirmation
  traded beyond its price and closed back on the near side.\<close>

theorem levels_swept_once:
  assumes "distinct (map ll_id levels)" and "l \<in> set levels" and "ll_status l = ACTIVE_L"
  shows "distinct (map lw_liquidityId (fst (detectSweeps cs levels))) \<and>
    (\<exists>l' \<in> set (snd (detectSweeps cs levels)). ll_id l' = ll_id l \<and>
       (ll_status l' = SWEPT_L \<longleftrightarrow> (\<exists>c \<in> set cs. wicks l c)))"
proof -
  let ?swept = "snd (sweepLoop levels cs [])"
  have swept: "ll_id l \<in> set ?swept \<longleftrightarrow> (\<exists>c \<in> set cs. wicks l c)"
  proof -
    have "l = l'" if "l' \<in> set levels" "ll_id l = ll_id l'" for l'
      using that assms(1,2) by (auto simp: distinct_map inj_on_def)
    then show ?thesis
      using assms(2) sweepLoop_ids [OF assms(1), of cs "[]"] by (auto simp: sweepLoop_snd)
  qed
  have "(if ll_id l \<in> set ?swept then l\<lparr>ll_status := SWEPT_L\<rparr> else l) \<in> set (snd (detectSweeps cs levels))"
    using assms(2) by (auto simp: detectSweeps_def Let_def split_beta)
  then have "\<exists>l' \<in> set (snd (detectSweeps cs levels)). ll_id l' = ll_id l \<and>
      (ll_status l' = SWEPT_L \<longleftrightarrow> (\<exists>c \<in> set cs. wicks l c))"
    by (rule bexI [rotated]) (simp add: swept assms(3))
  then show ?thesis using sweepLoop_distinct [OF assms(1)] by (simp add: detectSweeps_def split_beta Let_def)
qed

definition wickSeries :: "candle list" where
  "wickSeries = [(flatBar 50 2)\<lparr>k_high := 4\<rparr>, (flatBar 60 2)\<lparr>k_high := 5\<rparr>]"

definition hillLevel :: liquidityLevel where
  "hillLevel = levelOf DEFAULT_SMC_CONFIG None hillTop"

theorem levels_swept_once_witness:
  "distinct (map lw_liquidityId (fst (detectSweeps wickSeries [hillLevel]))) \<and> (\<exists>c \<in> set wickSeries. wicks hillLevel c)"
proof -
  have "wicks hillLevel ((flatBar 50 2)\<lparr>k_high := 4\<rparr>)"
    by (simp add: wicks_def hillLevel_def levelOf_def makeLiquidityLevel_def hillTop_def flatBar_def)
  then show ?thesis
    using levels_swept_once [of "[hillLevel]" hillLevel wickSeries]
    by (simp add: hillLevel_def levelOf_def makeLiquidityLevel_def wickSeries_def)
qed

text \<open>The context cache is bounded: whatever sequence of queries the location engine answers
  from its creation on, on whatever candle stores, it never holds more than 2000 entries.\<close>

theorem context_cache_bounded:
  "length (le_smcCache (fold smcStep queries \<lparr>le_smcCache = [], le_structureCache = []\<rparr>)) \<le> 2000"
  using smcCache.inv_run [of "\<lparr>le_smcCache = [], le_structureCache = []\<rparr>" queries]
  by (simp add: SMC_CACHE_MAX_ENTRIES_def)

end
