(* ===== verification/Setup_Lifecycle.thy ===== *)
theory Setup_Lifecycle
  imports Setup_Types Zone_Guarantees
begin

section \<open>Confluence scoring and the life of a setup (market/setup)\<close>

text \<open>
  \<open>ConfluenceScorer\<close>, \<open>SetupStateMachine\<close> and \<open>SetupEngine\<close>. The score notes are left out. Of the
  market-intelligence layer (\<open>src/analysis\<close>) the qualification stage reads a market view, the
  type of the thesis, the scenarios and the hierarchical score: these are arguments.
\<close>

subsection \<open>Confluence (ConfluenceScorer.ts)\<close>

definition DEFAULT_SETUP_CONFIG :: setupConfig where
  "DEFAULT_SETUP_CONFIG = \<lparr>co_minConfluenceScore = 65, co_maxCandleAgeBars = 30, co_htfWeight = 20,
     co_structureWeight = 20, co_sweepWeight = 15, co_fvgWeight = 10, co_obWeight = 10, co_retestWeight = 10,
     co_triggerWeight = 10, co_dataQualityWeight = 5\<rparr>"

definition trendOf :: "setupDirection \<Rightarrow> marketTrend" where
  "trendOf d = (if d = LONG_D then BULLISH else BEARISH)"

definition scoreHtf :: "setupCandidate \<Rightarrow> number \<Rightarrow> number" where
  "scoreHtf c weight =
     (let target = trendOf (su_direction c); tf = su_timeframes c in
      (if tf_regime4h tf = target then weight / 2 else 0) + (if tf_bias1h tf = target then weight / 2 else 0))"

definition scoreStructure :: "setupCandidate \<Rightarrow> number \<Rightarrow> number" where
  "scoreStructure c weight =
     (let target = trendOf (su_direction c);
          ty = map_option ev_eventType (su_structureEvidence c);
          isChoch = ty \<in> {Some CHOCH_BULLISH, Some CHOCH_BEARISH};
          isBos = ty \<in> {Some BOS_BULLISH, Some BOS_BEARISH} in
      if tf_structure15m (su_timeframes c) = target \<or> su_structureEvidence c \<noteq> None then
        (if isChoch then weight else if isBos then of_int (math_round (weight * (75 / 100))) else weight)
      else 0)"

text \<open>\<open>liquidityType.includes(expectedType)\<close>: of the four names only \<open>SSL\<close> contains \<open>SSL\<close> and only
  \<open>BSL\<close> contains \<open>BSL\<close>.\<close>

definition scoreSweep :: "setupCandidate \<Rightarrow> number \<Rightarrow> number" where
  "scoreSweep c weight =
     (case su_sweepEvidence c of
        None \<Rightarrow> 0
      | Some s \<Rightarrow> if lw_liquidityType s = (if su_direction c = LONG_D then SSL else BSL) then weight else 0)"

definition evaluateConfluence :: "setupCandidate \<Rightarrow> setupConfig \<Rightarrow> bool \<Rightarrow> confluenceBreakdown" where
  "evaluateConfluence c cfg isDataHealthy =
     (let htf = scoreHtf c (co_htfWeight cfg);
          struct = scoreStructure c (co_structureWeight cfg);
          sweep = scoreSweep c (co_sweepWeight cfg);
          fvg = (if su_fvgEvidence c \<noteq> None then co_fvgWeight cfg else 0);
          ob = (if su_orderBlockEvidence c \<noteq> None then co_obWeight cfg else 0);
          retest = (if su_retestEvidence c \<noteq> None then co_retestWeight cfg else 0);
          trigger = (if su_triggerEvidence c \<noteq> None then co_triggerWeight cfg else 0);
          dataQ = (if isDataHealthy then co_dataQualityWeight cfg else 0) in
      \<lparr>cb_htfAlignmentScore = htf, cb_structureScore = struct, cb_liquiditySweepScore = sweep,
       cb_fvgScore = fvg, cb_orderBlockScore = ob, cb_retestScore = retest, cb_triggerScore = trigger,
       cb_dataQualityScore = dataQ,
       cb_totalScore = htf + struct + sweep + fvg + ob + retest + trigger + dataQ, cb_maxScore = 100\<rparr>)"

subsection \<open>The state machine (SetupStateMachine.ts)\<close>

record setupMarketContext =
  mx_currentPrice :: number
  mx_entryZone :: "priceZone option"
  mx_atr :: "number option"

definition APPROACH_ATR_MULTIPLE :: number where
  "APPROACH_ATR_MULTIPLE = 1"

definition determineNextState :: "setupCandidate \<Rightarrow> setupState" where
  "determineNextState c =
     (let hasZone = (su_fvgEvidence c \<noteq> None \<or> su_orderBlockEvidence c \<noteq> None) in
      if su_triggerEvidence c \<noteq> None \<and> su_retestEvidence c \<noteq> None \<and> hasZone \<and> su_structureEvidence c \<noteq> None
      then TRIGGERED
      else if su_retestEvidence c \<noteq> None \<and> hasZone then RETEST
      else if hasZone then ZONE_IDENTIFIED
      else if su_structureEvidence c \<noteq> None then STRUCTURE_CONFIRMATION
      else if su_sweepEvidence c \<noteq> None then LIQUIDITY_INTERACTION
      else WATCHING)"

definition determineCanonicalState :: "setupCandidate \<Rightarrow> setupMarketContext \<Rightarrow> setupState" where
  "determineCanonicalState c m =
     (let hasStructure = (su_structureEvidence c \<noteq> None);
          hasTrigger = (su_triggerEvidence c \<noteq> None);
          structureConfirmed = (hasStructure \<and> (su_retestEvidence c \<noteq> None \<or> hasTrigger)) in
      (case orElse (mx_entryZone m) (su_planZone c) of
         None \<Rightarrow>
           if structureConfirmed then CONFIRMED
           else if hasTrigger \<or> hasStructure then TRIGGER_DETECTED else WATCHING
       | Some zone \<Rightarrow>
           let proximity = (case mx_atr m of Some a \<Rightarrow> if a > 0 then a * APPROACH_ATR_MULTIPLE else z_upper zone * (4 / 1000)
                            | None \<Rightarrow> z_upper zone * (4 / 1000));
               distance = (if su_direction c = LONG_D then z_lower zone - mx_currentPrice m
                           else mx_currentPrice m - z_upper zone);
               atZone = (mx_currentPrice m \<le> z_upper zone \<and> mx_currentPrice m \<ge> z_lower zone) in
           if atZone then
             (if structureConfirmed then CONFIRMED
              else if hasTrigger \<or> hasStructure then TRIGGER_DETECTED else AT_ZONE)
           else if distance > 0 \<and> distance \<le> proximity then
             (if structureConfirmed then CONFIRMED else APPROACHING)
           else if distance \<le> 0 then
             (if structureConfirmed then CONFIRMED else if hasTrigger then TRIGGER_DETECTED else AT_ZONE)
           else if structureConfirmed then CONFIRMED else WATCHING))"

definition advanceState ::
  "setupCandidate \<Rightarrow> ms \<Rightarrow> setupConfig \<Rightarrow> bool \<Rightarrow> setupMarketContext option \<Rightarrow> setupCandidate" where
  "advanceState c asOf cfg isDataHealthy market =
     (if su_status c = INVALIDATED_SS \<or> su_status c = EXPIRED_SS then c
      else if asOf > su_expiresAt c then
        c\<lparr>su_state := EXPIRED_ST, su_status := EXPIRED_SS, su_updatedAt := asOf\<rparr>
      else
        (let nextState = (case market of Some m \<Rightarrow> determineCanonicalState c m | None \<Rightarrow> determineNextState c);
             confluence = evaluateConfluence c cfg isDataHealthy;
             isReady = (nextState \<in> {TRIGGERED, ZONE_IDENTIFIED, RETEST, CONFIRMED}
               \<and> cb_totalScore confluence \<ge> co_minConfluenceScore cfg) in
         c\<lparr>su_state := (if isReady then READY else nextState),
           su_status := (if isReady then READY_SS else ACTIVE_SS),
           su_confluence := confluence, su_updatedAt := asOf,
           su_confirmedAt := (if isReady then Some asOf else su_confirmedAt c)\<rparr>))"

definition invalidateCandidate :: "setupCandidate \<Rightarrow> string \<Rightarrow> ms \<Rightarrow> setupCandidate" where
  "invalidateCandidate c reason asOf =
     c\<lparr>su_state := INVALIDATED, su_status := INVALIDATED_SS, su_invalidationReason := Some reason,
       su_invalidatedAt := Some asOf, su_updatedAt := asOf\<rparr>"

definition markExecuted :: "setupCandidate \<Rightarrow> ms \<Rightarrow> setupCandidate" where
  "markExecuted c asOf =
     (if su_status c \<noteq> READY_SS then c
      else c\<lparr>su_state := EXECUTED, su_status := ACTIVE_SS, su_updatedAt := asOf\<rparr>)"

definition markManaging :: "setupCandidate \<Rightarrow> ms \<Rightarrow> setupCandidate" where
  "markManaging c asOf =
     (if su_state c \<noteq> EXECUTED then c else c\<lparr>su_state := MANAGING, su_updatedAt := asOf\<rparr>)"

definition markCompleted :: "setupCandidate \<Rightarrow> ms \<Rightarrow> setupCandidate" where
  "markCompleted c asOf =
     (if su_state c \<noteq> EXECUTED \<and> su_state c \<noteq> MANAGING then c
      else c\<lparr>su_state := COMPLETED, su_status := ACTIVE_SS, su_updatedAt := asOf\<rparr>)"

definition emptyConfluence :: confluenceBreakdown where
  "emptyConfluence = \<lparr>cb_htfAlignmentScore = 0, cb_structureScore = 0, cb_liquiditySweepScore = 0,
     cb_fvgScore = 0, cb_orderBlockScore = 0, cb_retestScore = 0, cb_triggerScore = 0,
     cb_dataQualityScore = 0, cb_totalScore = 0, cb_maxScore = 100\<rparr>"

definition createWatchingCandidate :: "setupCandidate \<Rightarrow> ms \<Rightarrow> ms \<Rightarrow> setupCandidate" where
  "createWatchingCandidate params asOf ttl =
     params\<lparr>su_state := WATCHING, su_status := ACTIVE_SS, su_createdAt := asOf, su_updatedAt := asOf,
       su_expiresAt := asOf + ttl, su_confluence := emptyConfluence\<rparr>"

subsection \<open>Discovery and qualification (SetupEngine.ts)\<close>

text \<open>\<open>.filter(Boolean)\<close> on optional identifiers.\<close>

definition presentIds :: "string option list \<Rightarrow> string list" where
  "presentIds xs = filter (\<lambda>s. s \<noteq> []) (List.map_filter id xs)"

definition zoneTouched :: "fairValueGap option \<Rightarrow> orderBlock option \<Rightarrow> bool" where
  "zoneTouched f b \<longleftrightarrow> (case f of None \<Rightarrow> False | Some x \<Rightarrow> fg_status x = MITIGATED_F \<or> fg_status x = PARTIALLY_FILLED_F)
     \<or> (case b of None \<Rightarrow> False | Some x \<Rightarrow> ob_status x = MITIGATED_B)"

definition evaluateLongSetup ::
  "string \<Rightarrow> ms \<Rightarrow> structureState \<Rightarrow> smcContext \<Rightarrow> setupConfig \<Rightarrow> bool \<Rightarrow> setupCandidate option" where
  "evaluateLongSetup symbol asOf struct smc cfg isDataHealthy =
     (let struct15 = struct TF_15m; smc15 = smc TF_15m; smc5 = smc TF_5m;
          sslSweep = find (\<lambda>s. lw_liquidityType s = SSL \<or> lw_liquidityType s = EQUAL_LOW) (st_sweeps smc15);
          bullChoch = find (\<lambda>e. ev_eventType e = CHOCH_BULLISH) (tr_events struct15);
          bullBos = find (\<lambda>e. ev_eventType e = BOS_BULLISH) (tr_events struct15);
          bullFvg = find (\<lambda>f. fg_type f = BULLISH_Z) (st_fairValueGaps smc15);
          bullOb = find (\<lambda>b. ob_type b = BULLISH_Z) (st_orderBlocks smc15) in
      if sslSweep = None \<and> bullChoch = None \<and> bullBos = None \<and> bullFvg = None \<and> bullOb = None then None
      else
        (let setupType =
               (if sslSweep \<noteq> None \<and> (bullChoch \<noteq> None \<or> bullBos \<noteq> None) then SSL_SWEEP_REVERSAL_LONG
                else if bullChoch \<noteq> None then BULLISH_CHOCH_RETEST_LONG
                else if bullBos \<noteq> None then BULLISH_BOS_CONTINUATION_LONG
                else BULLISH_CHOCH_RETEST_LONG);
             initial = createWatchingCandidate
               \<lparr>su_id = symbol @ '':LONG:'' @ showInt asOf, su_symbol = symbol, su_direction = LONG_D,
                su_setupType = setupType, su_state = WATCHING, su_createdAt = asOf, su_updatedAt = asOf,
                su_confirmedAt = None, su_invalidatedAt = None, su_expiresAt = asOf,
                su_timeframes = \<lparr>tf_regime4h = tr_trend (struct TF_4h), tf_structure2h = Some (tr_trend (struct TF_2h)),
                  tf_bias1h = tr_trend (struct TF_1h), tf_structure15m = tr_trend struct15,
                  tf_trigger5m = tr_trend (struct TF_5m)\<rparr>,
                su_structureEvidence = orElse bullChoch bullBos, su_sweepEvidence = sslSweep,
                su_fvgEvidence = bullFvg, su_orderBlockEvidence = bullOb,
                su_retestEvidence = (if zoneTouched bullFvg bullOb
                  then Some (asOf, coalesce (orElse (map_option fg_lowerPrice bullFvg) (map_option ob_upperPrice bullOb)) 0)
                  else None),
                su_triggerEvidence = (if tr_trend (struct TF_5m) = BULLISH \<or> length (st_sweeps smc5) > 0
                  then Some asOf else None),
                su_confluence = emptyConfluence, su_invalidationReason = None, su_status = ACTIVE_SS,
                su_sourceCandleTimes = [asOf],
                su_sourceEventIds = presentIds [map_option ev_id bullChoch, map_option ev_id bullBos,
                  map_option lw_id sslSweep, map_option fg_id bullFvg, map_option ob_id bullOb],
                su_planZone = None\<rparr> asOf (co_maxCandleAgeBars cfg * 900000) in
         Some (advanceState initial asOf cfg isDataHealthy None)))"

definition evaluateShortSetup ::
  "string \<Rightarrow> ms \<Rightarrow> structureState \<Rightarrow> smcContext \<Rightarrow> setupConfig \<Rightarrow> bool \<Rightarrow> setupCandidate option" where
  "evaluateShortSetup symbol asOf struct smc cfg isDataHealthy =
     (let struct15 = struct TF_15m; smc15 = smc TF_15m; smc5 = smc TF_5m;
          bslSweep = find (\<lambda>s. lw_liquidityType s = BSL \<or> lw_liquidityType s = EQUAL_HIGH) (st_sweeps smc15);
          bearChoch = find (\<lambda>e. ev_eventType e = CHOCH_BEARISH) (tr_events struct15);
          bearBos = find (\<lambda>e. ev_eventType e = BOS_BEARISH) (tr_events struct15);
          bearFvg = find (\<lambda>f. fg_type f = BEARISH_Z) (st_fairValueGaps smc15);
          bearOb = find (\<lambda>b. ob_type b = BEARISH_Z) (st_orderBlocks smc15) in
      if bslSweep = None \<and> bearChoch = None \<and> bearBos = None \<and> bearFvg = None \<and> bearOb = None then None
      else
        (let setupType =
               (if bslSweep \<noteq> None \<and> (bearChoch \<noteq> None \<or> bearBos \<noteq> None) then BSL_SWEEP_REVERSAL_SHORT
                else if bearChoch \<noteq> None then BEARISH_CHOCH_RETEST_SHORT
                else if bearBos \<noteq> None then BEARISH_BOS_CONTINUATION_SHORT
                else BEARISH_CHOCH_RETEST_SHORT);
             initial = createWatchingCandidate
               \<lparr>su_id = symbol @ '':SHORT:'' @ showInt asOf, su_symbol = symbol, su_direction = SHORT_D,
                su_setupType = setupType, su_state = WATCHING, su_createdAt = asOf, su_updatedAt = asOf,
                su_confirmedAt = None, su_invalidatedAt = None, su_expiresAt = asOf,
                su_timeframes = \<lparr>tf_regime4h = tr_trend (struct TF_4h), tf_structure2h = Some (tr_trend (struct TF_2h)),
                  tf_bias1h = tr_trend (struct TF_1h), tf_structure15m = tr_trend struct15,
                  tf_trigger5m = tr_trend (struct TF_5m)\<rparr>,
                su_structureEvidence = orElse bearChoch bearBos, su_sweepEvidence = bslSweep,
                su_fvgEvidence = bearFvg, su_orderBlockEvidence = bearOb,
                su_retestEvidence = (if zoneTouched bearFvg bearOb
                  then Some (asOf, coalesce (orElse (map_option fg_upperPrice bearFvg) (map_option ob_lowerPrice bearOb)) 0)
                  else None),
                su_triggerEvidence = (if tr_trend (struct TF_5m) = BEARISH \<or> length (st_sweeps smc5) > 0
                  then Some asOf else None),
                su_confluence = emptyConfluence, su_invalidationReason = None, su_status = ACTIVE_SS,
                su_sourceCandleTimes = [asOf],
                su_sourceEventIds = presentIds [map_option ev_id bearChoch, map_option ev_id bearBos,
                  map_option lw_id bslSweep, map_option fg_id bearFvg, map_option ob_id bearOb],
                su_planZone = None\<rparr> asOf (co_maxCandleAgeBars cfg * 900000) in
         Some (advanceState initial asOf cfg isDataHealthy None)))"

text \<open>Reading a computed record of time frames; the engines fill all of them.\<close>

definition frames :: "(timeframe \<times> 'a) list \<Rightarrow> timeframe \<Rightarrow> 'a" where
  "frames rs tf = the (map_of rs tf)"

definition getSetupsAsOf ::
  "klineStore \<Rightarrow> dataHealth option \<Rightarrow> string \<Rightarrow> ms \<Rightarrow> swingConfig \<Rightarrow> detectorConfig \<Rightarrow> setupConfig \<Rightarrow>
   locationEngine \<Rightarrow> setupCandidate list \<times> locationEngine" where
  "getSetupsAsOf st health symbol asOf swingCfg smcCfg cfg eng =
     (let mtf = computeState st health symbol asOf;
          (struct, sc) = computeMultiTimeframeStructure st symbol asOf EXTERNAL swingCfg (le_structureCache eng);
          (smc, eng') = computeMultiTimeframeSmcContext st symbol asOf swingCfg smcCfg (eng\<lparr>le_structureCache := sc\<rparr>);
          isDataHealthy = mt_isFullySynchronized mtf in
      (optList (evaluateLongSetup symbol asOf (frames struct) (frames smc) cfg isDataHealthy) @
       optList (evaluateShortSetup symbol asOf (frames struct) (frames smc) cfg isDataHealthy), eng'))"

definition getActiveSetups :: "setupCandidate list \<Rightarrow> setupCandidate list" where
  "getActiveSetups cs = filter (\<lambda>s. su_status s = ACTIVE_SS) cs"

definition getReadySetups :: "setupCandidate list \<Rightarrow> setupCandidate list" where
  "getReadySetups cs = filter (\<lambda>s. su_status s = READY_SS) cs"

datatype thesisType =
    BULLISH_CONTINUATION | BULLISH_REVERSAL | BEARISH_CONTINUATION | BEARISH_REVERSAL | RANGE_T
  | TRANSITION_T | NO_CLEAR_THESIS

record marketView =
  mv_currentPrice :: number
  mv_regimeTransition :: bool
  mv_volatilityExtreme :: bool
  mv_atr1h :: "number option"
  mv_trend2h :: "marketTrend option"

record tradeScenario =
  sn_direction :: "setupDirection option"
  sn_noTrade :: bool
  sn_alignment :: number
  sn_entryZone :: "priceZone option"

datatype qualificationReason = RegimeTransition | VolatilityExtreme | ThesisMismatch | ScoreBelow number number

definition isContinuation :: "setupArchetype \<Rightarrow> bool" where
  "isContinuation a \<longleftrightarrow> a \<in> {BULLISH_BOS_CONTINUATION_LONG, BEARISH_BOS_CONTINUATION_SHORT}"

text \<open>The rejection reasons; the candidate is rejected when there is one.\<close>

definition qualify :: "setupCandidate \<Rightarrow> marketView \<Rightarrow> thesisType \<Rightarrow> number \<Rightarrow> number \<Rightarrow> qualificationReason list" where
  "qualify c v thesis score minScore =
     (let regimeOk = (\<not> mv_regimeTransition v \<or> \<not> isContinuation (su_setupType c));
          volatilityOk = (\<not> mv_volatilityExtreme v);
          thesisOk = (if su_direction c = LONG_D then thesis \<in> {BULLISH_CONTINUATION, BULLISH_REVERSAL}
                      else thesis \<in> {BEARISH_CONTINUATION, BEARISH_REVERSAL}) in
      (if regimeOk then [] else [RegimeTransition]) @ (if volatilityOk then [] else [VolatilityExtreme]) @
      (if thesisOk then [] else [ThesisMismatch]) @
      (if score < minScore then [ScoreBelow score minScore] else []))"

text \<open>The first of the best-aligned scenarios: the head of the stable sort by alignment.\<close>

definition bestScenario :: "setupDirection \<Rightarrow> tradeScenario list \<Rightarrow> tradeScenario option" where
  "bestScenario d ss =
     (case sort_key (\<lambda>s. - sn_alignment s) (filter (\<lambda>s. sn_direction s = Some d \<and> \<not> sn_noTrade s) ss) of
        [] \<Rightarrow> None
      | s # _ \<Rightarrow> Some s)"

definition qualifyCandidate ::
  "(setupCandidate \<Rightarrow> number) \<Rightarrow> marketView \<Rightarrow> thesisType \<Rightarrow> tradeScenario list \<Rightarrow> number \<Rightarrow> setupConfig \<Rightarrow> ms \<Rightarrow>
   (qualificationReason list \<Rightarrow> string) \<Rightarrow> setupCandidate \<Rightarrow> setupCandidate" where
  "qualifyCandidate score v thesis scenarios minScore cfg asOf joined c =
     (let scenarioZone = (case bestScenario (su_direction c) scenarios of None \<Rightarrow> None | Some s \<Rightarrow> sn_entryZone s);
          reasons = qualify c v thesis (score c) minScore;
          c1 = c\<lparr>su_timeframes := (su_timeframes c)\<lparr>tf_structure2h := orElse (mv_trend2h v) (tf_structure2h (su_timeframes c))\<rparr>,
            su_planZone := orElse scenarioZone (su_planZone c)\<rparr>;
          market = \<lparr>mx_currentPrice = mv_currentPrice v, mx_entryZone = scenarioZone, mx_atr = mv_atr1h v\<rparr>;
          advanced = advanceState c1 asOf cfg True (Some market) in
      if reasons \<noteq> [] \<and> su_status advanced = READY_SS
      then advanced\<lparr>su_status := ACTIVE_SS, su_state := WATCHING, su_invalidationReason := Some (joined reasons)\<rparr>
      else advanced)"

definition qualifySetups ::
  "(setupCandidate \<Rightarrow> number) \<Rightarrow> marketView \<Rightarrow> thesisType \<Rightarrow> tradeScenario list \<Rightarrow> number \<Rightarrow> setupConfig \<Rightarrow> ms \<Rightarrow>
   (qualificationReason list \<Rightarrow> string) \<Rightarrow> setupCandidate list \<Rightarrow> setupCandidate list" where
  "qualifySetups score v thesis scenarios minScore cfg asOf joined cs =
     map snd (sort_key (\<lambda>x. - fst x)
       (map (\<lambda>c. (score c, qualifyCandidate score v thesis scenarios minScore cfg asOf joined c))
         (filter (\<lambda>c. su_direction c \<noteq> AVOID_D) cs)))"

subsection \<open>State and status agree, dead setups stay dead\<close>

datatype setupOp =
    Advance ms setupConfig bool "setupMarketContext option"
  | Invalidate string ms | MarkExecuted ms | MarkManaging ms | MarkCompleted ms

fun setupStep :: "setupOp \<Rightarrow> setupCandidate \<Rightarrow> setupCandidate" where
  "setupStep (Advance asOf cfg healthy market) c = advanceState c asOf cfg healthy market"
| "setupStep (Invalidate reason asOf) c = invalidateCandidate c reason asOf"
| "setupStep (MarkExecuted asOf) c = markExecuted c asOf"
| "setupStep (MarkManaging asOf) c = markManaging c asOf"
| "setupStep (MarkCompleted asOf) c = markCompleted c asOf"

definition setupOk :: "setupCandidate \<Rightarrow> bool" where
  "setupOk c \<longleftrightarrow> (su_status c = READY_SS \<longleftrightarrow> su_state c = READY) \<and>
     (su_status c = INVALIDATED_SS \<longleftrightarrow> su_state c = INVALIDATED) \<and>
     (su_status c = EXPIRED_SS \<longleftrightarrow> su_state c = EXPIRED_ST)"

definition dead :: "setupCandidate \<Rightarrow> bool" where
  "dead c \<longleftrightarrow> su_status c \<in> {INVALIDATED_SS, EXPIRED_SS}"

lemma determineNextState_range:
  "determineNextState c \<in> {TRIGGERED, RETEST, ZONE_IDENTIFIED, STRUCTURE_CONFIRMATION, LIQUIDITY_INTERACTION, WATCHING}"
  by (simp add: determineNextState_def Let_def)

lemma determineCanonicalState_range:
  "determineCanonicalState c m \<in> {CONFIRMED, TRIGGER_DETECTED, WATCHING, AT_ZONE, APPROACHING}"
  by (simp add: determineCanonicalState_def Let_def split: option.splits)

lemma advanceState_alive:
  assumes "\<not> dead c" "asOf \<le> su_expiresAt c"
  shows "\<exists>st \<in> {TRIGGERED, RETEST, ZONE_IDENTIFIED, STRUCTURE_CONFIRMATION, LIQUIDITY_INTERACTION, WATCHING,
      CONFIRMED, TRIGGER_DETECTED, AT_ZONE, APPROACHING}.
    st = (case market of Some m \<Rightarrow> determineCanonicalState c m | None \<Rightarrow> determineNextState c) \<and>
    advanceState c asOf cfg healthy market =
      (if st \<in> {TRIGGERED, ZONE_IDENTIFIED, RETEST, CONFIRMED} \<and>
          cb_totalScore (evaluateConfluence c cfg healthy) \<ge> co_minConfluenceScore cfg
       then c\<lparr>su_state := READY, su_status := READY_SS, su_confluence := evaluateConfluence c cfg healthy,
         su_updatedAt := asOf, su_confirmedAt := Some asOf\<rparr>
       else c\<lparr>su_state := st, su_status := ACTIVE_SS, su_confluence := evaluateConfluence c cfg healthy,
         su_updatedAt := asOf\<rparr>)"
proof -
  let ?st = "case market of Some m \<Rightarrow> determineCanonicalState c m | None \<Rightarrow> determineNextState c"
  have "?st \<in> {TRIGGERED, RETEST, ZONE_IDENTIFIED, STRUCTURE_CONFIRMATION, LIQUIDITY_INTERACTION, WATCHING,
      CONFIRMED, TRIGGER_DETECTED, AT_ZONE, APPROACHING}"
    using determineNextState_range [of c] determineCanonicalState_range [of c] by (auto split: option.splits)
  then show ?thesis
    using assms by (intro bexI [of _ ?st]) (simp_all add: advanceState_def dead_def Let_def)
qed

lemma setupOk_advanceState: "setupOk c \<Longrightarrow> setupOk (advanceState c asOf cfg healthy market)"
proof (cases "dead c \<or> su_expiresAt c < asOf")
  case True
  then show "setupOk c \<Longrightarrow> ?thesis" by (auto simp: advanceState_def setupOk_def dead_def)
next
  case False
  then show ?thesis
    using advanceState_alive [of c asOf market cfg healthy] by (auto simp: setupOk_def)
qed

lemma setupOk_marks:
  "setupOk (invalidateCandidate c reason asOf)"
  "setupOk c \<Longrightarrow> setupOk (markExecuted c asOf)"
  "setupOk c \<Longrightarrow> setupOk (markManaging c asOf)"
  "setupOk c \<Longrightarrow> setupOk (markCompleted c asOf)"
  by (auto simp: setupOk_def invalidateCandidate_def markExecuted_def markManaging_def markCompleted_def)

interpretation setups: component setupStep setupOk
proof unfold_locales
  fix c op
  assume "setupOk c"
  then show "setupOk (setupStep op c)"
    by (cases op) (simp_all add: setupOk_advanceState setupOk_marks)
qed

lemma dead_step: "setupOk c \<Longrightarrow> dead c \<Longrightarrow> dead (setupStep op c)"
  by (cases op) (auto simp: dead_def setupOk_def advanceState_def invalidateCandidate_def markExecuted_def
      markManaging_def markCompleted_def)

lemma dead_run: "setupOk c \<Longrightarrow> dead c \<Longrightarrow> dead (fold setupStep ops c)"
  by (induction ops arbitrary: c) (simp_all add: dead_step setups.inv_step)

lemma setupOk_create: "setupOk (createWatchingCandidate params asOf ttl)"
  by (simp add: setupOk_def createWatchingCandidate_def)

subsection \<open>Scores\<close>

lemma default_weights:
  "0 \<le> scoreHtf c 20 \<and> scoreHtf c 20 \<le> 20" "0 \<le> scoreStructure c 20 \<and> scoreStructure c 20 \<le> 20"
  "0 \<le> scoreSweep c 15 \<and> scoreSweep c 15 \<le> 15"
  by (auto simp: scoreHtf_def scoreStructure_def scoreSweep_def math_round_def Let_def split: option.splits)

text \<open>C21. Over any sequence of advances, invalidations and execution marks of a created setup, its
  state and its status agree on READY, INVALIDATED and EXPIRED, and once it is invalidated or
  expired it stays in one of the two.\<close>

theorem setup_lifecycle_consistent:
  "(let c = fold setupStep ops (createWatchingCandidate params asOf ttl) in
    (su_status c = READY_SS \<longleftrightarrow> su_state c = READY) \<and>
    (su_status c = INVALIDATED_SS \<longleftrightarrow> su_state c = INVALIDATED) \<and>
    (su_status c = EXPIRED_SS \<longleftrightarrow> su_state c = EXPIRED_ST) \<and>
    (if su_status c \<in> {INVALIDATED_SS, EXPIRED_SS}
     then su_status (fold setupStep later c) \<in> {INVALIDATED_SS, EXPIRED_SS} else True))"
  using setups.inv_run [OF setupOk_create, of ops params asOf ttl] dead_run
  unfolding Let_def setupOk_def dead_def by (auto split: if_splits)

text \<open>A setup becomes READY only on evidence: when an advance of a living setup returns READY
  it was not expired, its total score reaches the configured minimum, and it has a zone (a fair
  value gap or order block) or, with a live market context, a structure break confirmed by a retest
  or a trigger.\<close>

theorem ready_needs_evidence:
  assumes "su_status c \<noteq> READY_SS" and "su_status (advanceState c asOf cfg healthy market) = READY_SS"
  shows "asOf \<le> su_expiresAt c \<and>
    co_minConfluenceScore cfg \<le> cb_totalScore (su_confluence (advanceState c asOf cfg healthy market)) \<and>
    (if market = None then su_fvgEvidence c \<noteq> None \<or> su_orderBlockEvidence c \<noteq> None
     else su_structureEvidence c \<noteq> None \<and> (su_retestEvidence c \<noteq> None \<or> su_triggerEvidence c \<noteq> None))"
proof -
  have alive: "\<not> dead c" "asOf \<le> su_expiresAt c"
    using assms by (auto simp: advanceState_def dead_def split: if_splits)
  obtain st where st: "st = (case market of Some m \<Rightarrow> determineCanonicalState c m | None \<Rightarrow> determineNextState c)"
    and ready: "st \<in> {TRIGGERED, ZONE_IDENTIFIED, RETEST, CONFIRMED}"
      "cb_totalScore (evaluateConfluence c cfg healthy) \<ge> co_minConfluenceScore cfg"
    and eq: "su_confluence (advanceState c asOf cfg healthy market) = evaluateConfluence c cfg healthy"
    using advanceState_alive [OF alive, of market cfg healthy] assms(2) by (auto split: if_splits)
  have "su_fvgEvidence c \<noteq> None \<or> su_orderBlockEvidence c \<noteq> None" if "market = None"
    using that st ready(1) by (auto simp: determineNextState_def Let_def split: if_splits)
  moreover have "su_structureEvidence c \<noteq> None \<and> (su_retestEvidence c \<noteq> None \<or> su_triggerEvidence c \<noteq> None)"
    if "market = Some m" for m
    using that st ready(1) by (auto simp: determineCanonicalState_def Let_def split: if_splits option.splits)
  ultimately show ?thesis using alive ready(2) eq by auto
qed

definition longParams :: setupCandidate where
  "longParams = \<lparr>su_id = ''x'', su_symbol = ''B'', su_direction = LONG_D, su_setupType = BULLISH_CHOCH_RETEST_LONG,
     su_state = NONE_ST, su_createdAt = 0, su_updatedAt = 0, su_confirmedAt = None, su_invalidatedAt = None,
     su_expiresAt = 0,
     su_timeframes = \<lparr>tf_regime4h = BULLISH, tf_structure2h = None, tf_bias1h = BULLISH, tf_structure15m = BULLISH,
       tf_trigger5m = BULLISH\<rparr>,
     su_structureEvidence = None, su_sweepEvidence = None,
     su_fvgEvidence = Some (makeFvg (flatBar 10 10) (flatBar 20 12) (flatBar 30 14) ''B'' TF_15m BULLISH_Z 14 10),
     su_orderBlockEvidence = Some \<lparr>ob_id = ''o'', ob_symbol = ''B'', ob_timeframe = TF_15m, ob_type = BULLISH_Z,
       ob_upperPrice = 12, ob_lowerPrice = 8, ob_invalidationPrice = 8, ob_originCandleTime = 10,
       ob_displacementCandleTime = 20, ob_confirmedStructureEventId = ''e'', ob_sourceCandleTimes = [],
       ob_createdAt = 10, ob_confirmedAt = 20, ob_status = ACTIVE_B, ob_mitigatedAt = None, ob_invalidatedAt = None\<rparr>,
     su_retestEvidence = Some (5, 10), su_triggerEvidence = None, su_confluence = emptyConfluence,
     su_invalidationReason = None, su_status = ACTIVE_SS, su_sourceCandleTimes = [], su_sourceEventIds = [],
     su_planZone = None\<rparr>"

definition longSetup :: setupCandidate where
  "longSetup = createWatchingCandidate longParams 100 900000"

lemma longSetup_score:
  "cb_totalScore (evaluateConfluence longSetup DEFAULT_SETUP_CONFIG True) = 75"
  "determineNextState longSetup = RETEST"
  by (simp_all add: longSetup_def longParams_def createWatchingCandidate_def evaluateConfluence_def Let_def
      DEFAULT_SETUP_CONFIG_def scoreHtf_def scoreStructure_def scoreSweep_def trendOf_def determineNextState_def)

lemma longSetup_fields:
  "su_status longSetup = ACTIVE_SS" "su_expiresAt longSetup = 900100" "su_direction longSetup = LONG_D"
  by (simp_all add: longSetup_def longParams_def createWatchingCandidate_def)

lemma longSetup_ready: "su_status (advanceState longSetup 200 DEFAULT_SETUP_CONFIG True None) = READY_SS"
  by (simp add: advanceState_def Let_def longSetup_score longSetup_fields) (simp add: DEFAULT_SETUP_CONFIG_def)

theorem ready_needs_evidence_witness:
  "200 \<le> su_expiresAt longSetup \<and>
   65 \<le> cb_totalScore (su_confluence (advanceState longSetup 200 DEFAULT_SETUP_CONFIG True None))"
  using ready_needs_evidence [OF _ longSetup_ready]
  by (simp add: longSetup_fields) (simp add: DEFAULT_SETUP_CONFIG_def)

text \<open>With the default weights the total confluence score lies between 0 and the advertised
  maximum of 100.\<close>

theorem confluence_score_bounds:
  "0 \<le> cb_totalScore (evaluateConfluence c DEFAULT_SETUP_CONFIG healthy) \<and>
   cb_totalScore (evaluateConfluence c DEFAULT_SETUP_CONFIG healthy) \<le>
     cb_maxScore (evaluateConfluence c DEFAULT_SETUP_CONFIG healthy)"
  using default_weights [of c] by (simp add: evaluateConfluence_def DEFAULT_SETUP_CONFIG_def Let_def)

text \<open>A candidate that fails qualification is never READY: whatever reason the context, the
  thesis or the hierarchical score gives, the qualified candidate's status is not READY.\<close>

theorem rejected_never_ready:
  assumes "su_status c \<noteq> READY_SS" and "qualify c v thesis (score c) minScore \<noteq> []"
  shows "su_status (qualifyCandidate score v thesis scenarios minScore cfg asOf joined c) \<noteq> READY_SS"
  using assms by (simp add: qualifyCandidate_def Let_def)

theorem rejected_never_ready_witness:
  "su_status (qualifyCandidate (\<lambda>_. 90) \<lparr>mv_currentPrice = 11, mv_regimeTransition = False,
      mv_volatilityExtreme = False, mv_atr1h = None, mv_trend2h = None\<rparr> BEARISH_REVERSAL [] 60
      DEFAULT_SETUP_CONFIG 200 (\<lambda>_. ''no'') longSetup) \<noteq> READY_SS"
  by (rule rejected_never_ready) (simp_all add: longSetup_fields qualify_def Let_def)

text \<open>Advancing forgets execution: a setup that was marked executed, managed or completed and has
  not expired is put back into a pre-trade state, and becomes READY again whenever the evidence
  still scores, because \<open>advanceState\<close> only spares invalidated and expired setups.\<close>

theorem advance_revives_executed:
  assumes "su_status c = READY_SS" "t \<le> su_expiresAt c"
    and "ops \<in> {[MarkExecuted t0], [MarkExecuted t0, MarkManaging t1], [MarkExecuted t0, MarkCompleted t1]}"
  shows "su_state (fold setupStep ops c) \<in> {EXECUTED, MANAGING, COMPLETED} \<and>
    su_state (advanceState (fold setupStep ops c) t cfg healthy market) \<notin> {EXECUTED, MANAGING, COMPLETED}"
proof -
  let ?c = "fold setupStep ops c"
  have c: "\<not> dead ?c" "t \<le> su_expiresAt ?c" "su_state ?c \<in> {EXECUTED, MANAGING, COMPLETED}"
    using assms by (auto simp: markExecuted_def markManaging_def markCompleted_def dead_def)
  then show ?thesis
    using advanceState_alive [OF c(1,2), of market cfg healthy] by auto
qed

theorem advance_revives_executed_witness:
  "su_state (advanceState (markExecuted (advanceState longSetup 200 DEFAULT_SETUP_CONFIG True None) 300)
     400 DEFAULT_SETUP_CONFIG True None) \<notin> {EXECUTED, MANAGING, COMPLETED}"
proof -
  have "su_expiresAt (advanceState longSetup 200 DEFAULT_SETUP_CONFIG True None) = 900100"
    by (simp add: advanceState_def Let_def longSetup_fields)
  then show ?thesis
    using advance_revives_executed [OF longSetup_ready, of 400 "[MarkExecuted 300]" 300 0 DEFAULT_SETUP_CONFIG True None]
    by simp
qed

end
