(* ===== verification/Execution_Plans.thy ===== *)
theory Execution_Plans
  imports Setup_Lifecycle
begin

section \<open>Execution plans and signals (market/execution, trading/signal)\<close>

text \<open>
  \<open>EntryCalculator\<close>, \<open>StopLossCalculator\<close>, \<open>TakeProfitCalculator\<close>, \<open>RiskRewardCalculator\<close>,
  \<open>ExecutionValidator\<close>, \<open>ExecutionPlanEngine\<close> and \<open>SignalEngine\<close>: from a setup to priced and
  validated plan and on to a trade signal. The reason texts are left out; a validation failure
  is the constructor of its message with the values the message shows.
\<close>

subsection \<open>Entry, stop and targets\<close>

definition pricePrecision :: "instrument option \<Rightarrow> nat" where
  "pricePrecision instr = (case instr of None \<Rightarrow> 2 | Some i \<Rightarrow> i_pricePrecision i)"

definition calculateEntry :: "setupCandidate \<Rightarrow> instrument option \<Rightarrow> (number \<times> priceZone) option" where
  "calculateEntry c instr =
     (let raw =
        (case su_fvgEvidence c of
           Some f \<Rightarrow> Some (fg_upperPrice f, fg_lowerPrice f, fg_midpoint f)
         | None \<Rightarrow>
             (case su_orderBlockEvidence c of
                Some b \<Rightarrow> Some (ob_upperPrice b, ob_lowerPrice b, (ob_upperPrice b + ob_lowerPrice b) / 2)
              | None \<Rightarrow>
                  (case su_retestEvidence c of
                     Some (t, p) \<Rightarrow> Some (p, p, p)
                   | None \<Rightarrow> None)));
          p = pricePrecision instr in
      map_option (\<lambda>(upper, lower, price).
        (toFixed p price, \<lparr>z_upper = toFixed p upper, z_lower = toFixed p lower\<rparr>)) raw)"

definition longAnchors :: "setupCandidate \<Rightarrow> structureState \<Rightarrow> number list" where
  "longAnchors c struct =
     optList (map_option lw_sweepExtreme (su_sweepEvidence c)) @
     optList (map_option ob_invalidationPrice (su_orderBlockEvidence c)) @
     optList (map_option cs_price (tr_lastConfirmedSwingLow (struct TF_15m)))"

definition shortAnchors :: "setupCandidate \<Rightarrow> structureState \<Rightarrow> number list" where
  "shortAnchors c struct =
     optList (map_option lw_sweepExtreme (su_sweepEvidence c)) @
     optList (map_option ob_invalidationPrice (su_orderBlockEvidence c)) @
     optList (map_option cs_price (tr_lastConfirmedSwingHigh (struct TF_15m)))"

definition calculateLongStopLoss :: "setupCandidate \<Rightarrow> structureState \<Rightarrow> number \<Rightarrow> nat \<Rightarrow> number option" where
  "calculateLongStopLoss c struct buffer precision =
     (case sort (longAnchors c struct) of
        [] \<Rightarrow> None
      | chosen # _ \<Rightarrow> Some (toFixed precision (chosen - buffer)))"

definition calculateShortStopLoss :: "setupCandidate \<Rightarrow> structureState \<Rightarrow> number \<Rightarrow> nat \<Rightarrow> number option" where
  "calculateShortStopLoss c struct buffer precision =
     (case sort_key uminus (shortAnchors c struct) of
        [] \<Rightarrow> None
      | chosen # _ \<Rightarrow> Some (toFixed precision (chosen + buffer)))"

definition calculateStopLoss ::
  "setupCandidate \<Rightarrow> structureState \<Rightarrow> instrument option \<Rightarrow> number \<Rightarrow> number option" where
  "calculateStopLoss c struct instr tickBufferMultiplier =
     (let tick = (case instr of Some i \<Rightarrow> i_tickSize i | None \<Rightarrow> 1 / 100);
          buffer = tick * tickBufferMultiplier in
      if su_direction c = LONG_D then calculateLongStopLoss c struct buffer (pricePrecision instr)
      else calculateShortStopLoss c struct buffer (pricePrecision instr))"

text \<open>A target candidate: its price and the identifier of its level or swing.\<close>

definition collectLongTargets :: "number \<Rightarrow> structureState \<Rightarrow> smcContext \<Rightarrow> (number \<times> string) list" where
  "collectLongTargets entry struct smc =
     sort_key fst (concat (map (\<lambda>tf.
       map (\<lambda>l. (ll_price l, ll_id l))
         (filter (\<lambda>l. (ll_type l = BSL \<or> ll_type l = EQUAL_HIGH) \<and> ll_price l > entry) (st_liquidityLevels (smc tf))) @
       (case tr_lastConfirmedSwingHigh (struct tf) of
          Some h \<Rightarrow> if cs_price h > entry then [(cs_price h, cs_id h)] else []
        | None \<Rightarrow> [])) [TF_15m, TF_1h, TF_4h]))"

definition collectShortTargets :: "number \<Rightarrow> structureState \<Rightarrow> smcContext \<Rightarrow> (number \<times> string) list" where
  "collectShortTargets entry struct smc =
     sort_key (\<lambda>t. - fst t) (concat (map (\<lambda>tf.
       map (\<lambda>l. (ll_price l, ll_id l))
         (filter (\<lambda>l. (ll_type l = SSL \<or> ll_type l = EQUAL_LOW) \<and> ll_price l < entry) (st_liquidityLevels (smc tf))) @
       (case tr_lastConfirmedSwingLow (struct tf) of
          Some s \<Rightarrow> if cs_price s < entry then [(cs_price s, cs_id s)] else []
        | None \<Rightarrow> [])) [TF_15m, TF_1h, TF_4h]))"

definition defaultMultipliers :: "number list" where
  "defaultMultipliers = [3 / 2, 5 / 2, 7 / 2]"

text \<open>\<open>candidates[i]\<close> is \<open>undefined\<close> past the end; a price of 0 counts as absent too.\<close>

definition nthOpt :: "'a list \<Rightarrow> nat \<Rightarrow> 'a option" where
  "nthOpt xs i = (if i < length xs then Some (xs ! i) else None)"

definition buildTarget :: "bool \<Rightarrow> number \<Rightarrow> number \<Rightarrow> (number \<times> string) list \<Rightarrow> nat \<Rightarrow> nat \<Rightarrow> takeProfitTarget" where
  "buildTarget isLong entry risk candidates precision i =
     (let cand = nthOpt candidates i;
          projected = (if isLong then entry + risk * defaultMultipliers ! i else entry - risk * defaultMultipliers ! i);
          price = (if truthy (map_option fst cand) then fst (the cand) else projected);
          rewardDist = \<bar>price - entry\<bar> in
      \<lparr>tt_level = i + 1, tt_price = toFixed precision price,
       tt_riskReward = (if risk > 0 then toFixed 2 (rewardDist / risk) else 0),
       tt_rewardDistance = toFixed precision rewardDist, tt_liquidityId = map_option snd cand\<rparr>)"

definition buildThreeTargets ::
  "bool \<Rightarrow> number \<Rightarrow> number \<Rightarrow> (number \<times> string) list \<Rightarrow> nat \<Rightarrow> takeProfitTarget list" where
  "buildThreeTargets isLong entry risk candidates precision =
     map (buildTarget isLong entry risk candidates precision) [0, 1, 2]"

definition calculateTakeProfits ::
  "setupCandidate \<Rightarrow> number \<Rightarrow> number \<Rightarrow> structureState \<Rightarrow> smcContext \<Rightarrow> instrument option \<Rightarrow> takeProfitTarget list" where
  "calculateTakeProfits c entryPrice riskDistance struct smc instr =
     (let isLong = (su_direction c = LONG_D) in
      buildThreeTargets isLong entryPrice riskDistance
        (if isLong then collectLongTargets entryPrice struct smc else collectShortTargets entryPrice struct smc)
        (pricePrecision instr))"

subsection \<open>Reward to risk and validation\<close>

definition DEFAULT_EXECUTION_PLAN_CONFIG :: planConfig where
  "DEFAULT_EXECUTION_PLAN_CONFIG = \<lparr>pc_minTp1RiskReward = 3 / 2, pc_minTp2RiskReward = 5 / 2,
     pc_minTp3RiskReward = 3, pc_tickBufferMultiplier = 2\<rparr>"

definition ratioAt :: "takeProfitTarget list \<Rightarrow> nat \<Rightarrow> number" where
  "ratioAt tps level = (case find (\<lambda>t. tt_level t = level) tps of Some t \<Rightarrow> tt_riskReward t | None \<Rightarrow> 0)"

definition calculateRatios :: "number \<Rightarrow> number \<Rightarrow> takeProfitTarget list \<Rightarrow> number \<times> riskReward" where
  "calculateRatios entryPrice stopLossPrice tps =
     (\<bar>entryPrice - stopLossPrice\<bar>, \<lparr>rr_tp1 = ratioAt tps 1, rr_tp2 = ratioAt tps 2, rr_tp3 = ratioAt tps 3\<rparr>)"

definition validateRiskReward :: "riskReward \<Rightarrow> planConfig \<Rightarrow> planFailure list" where
  "validateRiskReward rr cfg =
     (if rr_tp1 rr < pc_minTp1RiskReward cfg then [RiskRewardBelow 1 (rr_tp1 rr) (pc_minTp1RiskReward cfg)] else []) @
     (if rr_tp2 rr < pc_minTp2RiskReward cfg then [RiskRewardBelow 2 (rr_tp2 rr) (pc_minTp2RiskReward cfg)] else []) @
     (if rr_tp3 rr < pc_minTp3RiskReward cfg then [RiskRewardBelow 3 (rr_tp3 rr) (pc_minTp3RiskReward cfg)] else [])"

definition validateGeometry :: "setupDirection \<Rightarrow> number \<Rightarrow> number \<Rightarrow> takeProfitTarget list \<Rightarrow> planFailure list" where
  "validateGeometry direction entry sl tps =
     (if entry \<le> 0 \<or> sl \<le> 0 then [NonPositivePrice]
      else
        (case direction of
           LONG_D \<Rightarrow> (if sl \<ge> entry then [LongStopAboveEntry sl entry] else []) @
             map (\<lambda>t. LongTargetBelowEntry (tt_price t) entry) (filter (\<lambda>t. tt_price t \<le> entry) tps)
         | SHORT_D \<Rightarrow> (if sl \<le> entry then [ShortStopBelowEntry sl entry] else []) @
             map (\<lambda>t. ShortTargetAboveEntry (tt_price t) entry) (filter (\<lambda>t. tt_price t \<ge> entry) tps)
         | AVOID_D \<Rightarrow> []))"

text \<open>The failures; a plan is executable when there are none.\<close>

definition validatePlan ::
  "setupCandidate \<Rightarrow> number \<Rightarrow> number \<Rightarrow> takeProfitTarget list \<Rightarrow> ms \<Rightarrow> planConfig \<Rightarrow> bool \<Rightarrow> planFailure list" where
  "validatePlan c entryPrice stopLossPrice tps asOf cfg isDataHealthy =
     (if su_status c \<noteq> READY_SS then [NotReady (su_status c)] else []) @
     (if \<not> isDataHealthy then [DataUnhealthy] else []) @
     (if asOf > su_expiresAt c then [PlanExpired (su_expiresAt c) asOf] else []) @
     validateGeometry (su_direction c) entryPrice stopLossPrice tps @
     validateRiskReward (snd (calculateRatios entryPrice stopLossPrice tps)) cfg"

definition generateExecutionPlan ::
  "planConfig \<Rightarrow> setupCandidate \<Rightarrow> structureState \<Rightarrow> smcContext \<Rightarrow> instrument option \<Rightarrow> ms \<Rightarrow> bool \<Rightarrow> executionPlan" where
  "generateExecutionPlan cfg c struct smc instr asOf isDataHealthy =
     (let (entryPrice, entryZone) = coalesce (calculateEntry c instr) (0, \<lparr>z_upper = 0, z_lower = 0\<rparr>);
          stopLossPrice = coalesce (calculateStopLoss c struct instr (pc_tickBufferMultiplier cfg)) 0;
          riskDist = \<bar>entryPrice - stopLossPrice\<bar>;
          tps = calculateTakeProfits c entryPrice riskDist struct smc instr;
          rr = snd (calculateRatios entryPrice stopLossPrice tps);
          failures = validatePlan c entryPrice stopLossPrice tps asOf cfg isDataHealthy in
      \<lparr>ep_id = ''PLAN:'' @ su_id c, ep_symbol = su_symbol c, ep_setupCandidateId = su_id c,
       ep_direction = su_direction c, ep_status = (if failures = [] then EXECUTABLE else AVOID),
       ep_entryPrice = entryPrice, ep_entryZone = entryZone, ep_stopLossPrice = stopLossPrice,
       ep_takeProfitLevels = tps, ep_riskReward = rr, ep_riskDistance = riskDist,
       ep_rewardDistance = (case tps of t # _ \<Rightarrow> tt_rewardDistance t | [] \<Rightarrow> 0),
       ep_invalidationPrice = stopLossPrice,
       ep_invalidationType = (if failures = [] then ZONE_INVALIDATION else RR_INSUFFICIENT),
       ep_createdAt = asOf, ep_expiresAt = su_expiresAt c, ep_validationFailures = failures,
       ep_setupType = su_setupType c, ep_confluenceScore = cb_totalScore (su_confluence c),
       ep_sourceEventIds = su_sourceEventIds c, ep_sourceCandleTimes = su_sourceCandleTimes c\<rparr>)"

subsection \<open>Signals (SignalEngine.ts)\<close>

fun archetypeName :: "setupArchetype \<Rightarrow> string" where
  "archetypeName SSL_SWEEP_REVERSAL_LONG = ''SSL_SWEEP_REVERSAL_LONG''"
| "archetypeName BULLISH_CHOCH_RETEST_LONG = ''BULLISH_CHOCH_RETEST_LONG''"
| "archetypeName BULLISH_BOS_CONTINUATION_LONG = ''BULLISH_BOS_CONTINUATION_LONG''"
| "archetypeName BSL_SWEEP_REVERSAL_SHORT = ''BSL_SWEEP_REVERSAL_SHORT''"
| "archetypeName BEARISH_CHOCH_RETEST_SHORT = ''BEARISH_CHOCH_RETEST_SHORT''"
| "archetypeName BEARISH_BOS_CONTINUATION_SHORT = ''BEARISH_BOS_CONTINUATION_SHORT''"
| "archetypeName AVOID_CONFLICTING_MTF = ''AVOID_CONFLICTING_MTF''"
| "archetypeName AVOID_NO_LOCATION = ''AVOID_NO_LOCATION''"
| "archetypeName AVOID_DATA_DEGRADED = ''AVOID_DATA_DEGRADED''"
| "archetypeName AVOID_INVALIDATED = ''AVOID_INVALIDATED''"
| "archetypeName AVOID_EXPIRED = ''AVOID_EXPIRED''"

definition defaultSplits :: "number list" where
  "defaultSplits = [33 / 100, 33 / 100, 34 / 100]"

definition buildAllocations :: "executionPlan \<Rightarrow> takeProfitAllocation list" where
  "buildAllocations plan = map (\<lambda>(idx, t).
     \<lparr>ta_level = tt_level t, ta_price = tt_price t, ta_allocationPct = coalesce (nthOpt defaultSplits idx) (33 / 100),
      ta_riskReward = tt_riskReward t\<rparr>) (List.enumerate 0 (ep_takeProfitLevels plan))"

definition translatePlan :: "executionPlan \<Rightarrow> ms \<Rightarrow> tradeSignal" where
  "translatePlan plan asOf =
     \<lparr>ts_id = ''SIG:'' @ ep_id plan,
      ts_signalKey = ep_symbol plan @ '':'' @ archetypeName (ep_setupType plan) @ '':'' @ ep_setupCandidateId plan
        @ '':'' @ ep_id plan,
      ts_symbol = ep_symbol plan, ts_direction = ep_direction plan,
      ts_status = (if ep_status plan = EXECUTABLE then VALIDATED else AVOID_S),
      ts_setupType = ep_setupType plan, ts_confluenceScore = ep_confluenceScore plan,
      ts_entryPrice = ep_entryPrice plan, ts_entryZone = ep_entryZone plan,
      ts_stopLossPrice = ep_stopLossPrice plan, ts_takeProfits = buildAllocations plan,
      ts_riskReward = ep_riskReward plan, ts_sizing = None,
      ts_riskRejectionReasons = (if ep_status plan = AVOID then map FromPlan (ep_validationFailures plan) else []),
      ts_createdAt = asOf, ts_expiresAt = ep_expiresAt plan, ts_sourceSetupId = ep_setupCandidateId plan,
      ts_sourceExecutionPlanId = ep_id plan\<rparr>"

subsection \<open>Facts\<close>

lemma filter_empty_all: "filter P xs = [] \<longleftrightarrow> (\<forall>x \<in> set xs. \<not> P x)"
  by (induction xs) auto

lemma validatePlan_Nil:
  "validatePlan c entry sl tps asOf cfg healthy = [] \<longleftrightarrow>
     su_status c = READY_SS \<and> healthy \<and> asOf \<le> su_expiresAt c \<and> 0 < entry \<and> 0 < sl \<and>
     (case su_direction c of
        LONG_D \<Rightarrow> sl < entry \<and> (\<forall>t \<in> set tps. entry < tt_price t)
      | SHORT_D \<Rightarrow> entry < sl \<and> (\<forall>t \<in> set tps. tt_price t < entry)
      | AVOID_D \<Rightarrow> True) \<and>
     pc_minTp1RiskReward cfg \<le> ratioAt tps 1 \<and> pc_minTp2RiskReward cfg \<le> ratioAt tps 2 \<and>
     pc_minTp3RiskReward cfg \<le> ratioAt tps 3"
  by (auto simp: validatePlan_def validateGeometry_def validateRiskReward_def calculateRatios_def filter_empty_all
      not_le not_less split: setupDirection.splits if_splits)

lemma plan_fields:
  fixes cfg c struct smc instr asOf healthy
  defines "p \<equiv> generateExecutionPlan cfg c struct smc instr asOf healthy"
  shows "ep_status p = (if ep_validationFailures p = [] then EXECUTABLE else AVOID)"
    and "ep_validationFailures p =
      validatePlan c (ep_entryPrice p) (ep_stopLossPrice p) (ep_takeProfitLevels p) asOf cfg healthy"
    and "ep_direction p = su_direction c" "ep_expiresAt p = su_expiresAt c"
    and "ep_takeProfitLevels p = calculateTakeProfits c (ep_entryPrice p) \<bar>ep_entryPrice p - ep_stopLossPrice p\<bar> struct smc instr"
    and "ep_riskReward p = \<lparr>rr_tp1 = ratioAt (ep_takeProfitLevels p) 1, rr_tp2 = ratioAt (ep_takeProfitLevels p) 2,
      rr_tp3 = ratioAt (ep_takeProfitLevels p) 3\<rparr>"
    and "ep_riskDistance p = \<bar>ep_entryPrice p - ep_stopLossPrice p\<bar>"
    and "ep_entryPrice p = fst (coalesce (calculateEntry c instr) (0, \<lparr>z_upper = 0, z_lower = 0\<rparr>))"
    and "ep_stopLossPrice p = coalesce (calculateStopLoss c struct instr (pc_tickBufferMultiplier cfg)) 0"
  by (simp_all add: p_def generateExecutionPlan_def Let_def calculateRatios_def split_beta)

lemma length_takeProfits [simp]: "length (calculateTakeProfits c entry risk struct smc instr) = 3"
  by (simp add: calculateTakeProfits_def buildThreeTargets_def Let_def)

lemma ratioAt_targets:
  "ratioAt (buildThreeTargets isLong entry risk cands p) 1 = tt_riskReward (buildTarget isLong entry risk cands p 0)"
  "ratioAt (buildThreeTargets isLong entry risk cands p) 2 = tt_riskReward (buildTarget isLong entry risk cands p 1)"
  "ratioAt (buildThreeTargets isLong entry risk cands p) 3 = tt_riskReward (buildTarget isLong entry risk cands p 2)"
  by (simp_all add: ratioAt_def buildThreeTargets_def buildTarget_def Let_def)

end
