(* ===== verification/Plan_Guarantees.thy ===== *)
theory Plan_Guarantees
  imports Execution_Plans
begin

section \<open>What execution plans guarantee\<close>

text \<open>
  An executable plan has sound geometry and reward, its stop protects the furthest structural
  anchor, its stated reward-to-risk ratios are those of its prices up to rounding, and its
  allocations add up. The ladder of targets need not be in order.
\<close>

lemma sort_hd: "sort_key f xs = y # ys \<Longrightarrow> y \<in> set xs \<and> (\<forall>x \<in> set xs. f y \<le> f x)"
proof -
  assume s: "sort_key f xs = y # ys"
  then have "set xs = set (y # ys)" by (metis set_sort)
  moreover have "sorted (map f (y # ys))" using s by (metis sorted_sort_key)
  ultimately show ?thesis by auto
qed

lemma toFixed_near: "\<bar>toFixed p x - x\<bar> \<le> 1 / (2 * 10 ^ p)"
  by (rule fxd.rnd_error)

lemma buildTarget_ratio:
  assumes "0 < risk"
  shows "\<bar>tt_riskReward (buildTarget isLong entry risk cands p i) -
      \<bar>tt_price (buildTarget isLong entry risk cands p i) - entry\<bar> / risk\<bar> \<le> 5 / 1000 + 1 / (2 * 10 ^ p) / risk"
proof -
  define price where "price = (if truthy (map_option fst (nthOpt cands i)) then fst (the (nthOpt cands i))
    else if isLong then entry + risk * defaultMultipliers ! i else entry - risk * defaultMultipliers ! i)"
  have t: "tt_price (buildTarget isLong entry risk cands p i) = toFixed p price"
    "tt_riskReward (buildTarget isLong entry risk cands p i) = toFixed 2 (\<bar>price - entry\<bar> / risk)"
    using assms by (simp_all add: buildTarget_def Let_def price_def)
  have ratio: "\<bar>toFixed 2 (\<bar>price - entry\<bar> / risk) - \<bar>price - entry\<bar> / risk\<bar> \<le> 5 / 1000"
    using toFixed_near [of 2 "\<bar>price - entry\<bar> / risk"] by simp
  have "\<bar>\<bar>price - entry\<bar> - \<bar>toFixed p price - entry\<bar>\<bar> \<le> 1 / (2 * 10 ^ p)"
    using toFixed_near [of p price] by linarith
  then have "\<bar>\<bar>price - entry\<bar> - \<bar>toFixed p price - entry\<bar>\<bar> / risk \<le> 1 / (2 * 10 ^ p) / risk"
    using assms by (intro divide_right_mono) simp_all
  then have "\<bar>\<bar>price - entry\<bar> / risk - \<bar>toFixed p price - entry\<bar> / risk\<bar> \<le> 1 / (2 * 10 ^ p) / risk"
    using assms by (simp add: abs_divide flip: diff_divide_distrib)
  then show ?thesis unfolding t using ratio by linarith
qed

text \<open>C18. An executable plan is sound: its setup was READY, its data healthy and it has not expired;
  entry and stop are positive, a long's stop lies below the entry and all its targets above, a
  short mirrors this; and the three targets reach the configured minimal reward-to-risk ratios.\<close>

theorem executable_plan_sound:
  assumes "ep_status (generateExecutionPlan cfg c struct smc instr asOf healthy) = EXECUTABLE"
  defines "p \<equiv> generateExecutionPlan cfg c struct smc instr asOf healthy"
  shows "su_status c = READY_SS \<and> healthy \<and> asOf \<le> ep_expiresAt p \<and> 0 < ep_entryPrice p \<and> 0 < ep_stopLossPrice p \<and>
    length (ep_takeProfitLevels p) = 3 \<and>
    (case ep_direction p of
       LONG_D \<Rightarrow> ep_stopLossPrice p < ep_entryPrice p \<and> (\<forall>t \<in> set (ep_takeProfitLevels p). ep_entryPrice p < tt_price t)
     | SHORT_D \<Rightarrow> ep_entryPrice p < ep_stopLossPrice p \<and> (\<forall>t \<in> set (ep_takeProfitLevels p). tt_price t < ep_entryPrice p)
     | AVOID_D \<Rightarrow> True) \<and>
    pc_minTp1RiskReward cfg \<le> rr_tp1 (ep_riskReward p) \<and> pc_minTp2RiskReward cfg \<le> rr_tp2 (ep_riskReward p) \<and>
    pc_minTp3RiskReward cfg \<le> rr_tp3 (ep_riskReward p)"
proof -
  note f = plan_fields [where cfg = cfg and c = c and struct = struct and smc = smc and instr = instr and asOf = asOf
      and healthy = healthy, folded p_def]
  have "ep_validationFailures p = []" using assms(1) f(1) by (auto simp: p_def split: if_splits)
  then show ?thesis unfolding f(2) validatePlan_Nil using f(3-6) by simp
qed

definition plainFrame :: "timeframe \<Rightarrow> timeframeStructure" where
  "plainFrame tf = \<lparr>tr_timeframe = tf, tr_scope = EXTERNAL, tr_trend = BULLISH, tr_structure = HH_HL, tr_swings = [],
     tr_events = [], tr_lastConfirmedSwingHigh = None, tr_lastConfirmedSwingLow = None,
     tr_previousConfirmedSwingHigh = None, tr_previousConfirmedSwingLow = None, tr_lastStructureEvent = None,
     tr_lastStructureEventTime = None\<rparr>"

definition plainSmc :: "timeframe \<Rightarrow> smcTimeframe" where
  "plainSmc tf = \<lparr>st_timeframe = tf, st_liquidityLevels = [], st_sweeps = [], st_fairValueGaps = [], st_orderBlocks = [],
     st_activeLiquidity = [], st_activeFvgs = [], st_activeOrderBlocks = []\<rparr>"

definition readySetup :: setupCandidate where
  "readySetup = advanceState longSetup 200 DEFAULT_SETUP_CONFIG True None"

lemma readySetup_fields:
  "su_status readySetup = READY_SS" "su_direction readySetup = LONG_D" "su_expiresAt readySetup = 900100"
  "su_fvgEvidence readySetup = su_fvgEvidence longParams" "su_orderBlockEvidence readySetup = su_orderBlockEvidence longParams"
  "su_sweepEvidence readySetup = None"
  by (simp_all add: readySetup_def longSetup_ready)
    (simp_all add: advanceState_def Let_def longSetup_fields longSetup_def createWatchingCandidate_def longParams_def)

lemma readySetup_prices:
  "calculateEntry readySetup None = Some (12, \<lparr>z_upper = 14, z_lower = 10\<rparr>)"
  "calculateStopLoss readySetup plainFrame None 2 = Some (798 / 100)"
  by (simp_all add: calculateEntry_def calculateStopLoss_def calculateLongStopLoss_def longAnchors_def plainFrame_def
      pricePrecision_def readySetup_fields longParams_def makeFvg_def toFixed_def grid_def round_away_def)

lemma readySetup_targets:
  "calculateTakeProfits readySetup 12 (402 / 100) plainFrame plainSmc None =
     buildThreeTargets True 12 (402 / 100) [] 2"
  by (simp add: calculateTakeProfits_def collectLongTargets_def plainSmc_def plainFrame_def readySetup_fields
      pricePrecision_def)

lemma plainTargets:
  "map tt_price (buildThreeTargets True 12 (402 / 100) [] 2) = [1803 / 100, 2205 / 100, 2607 / 100]"
  "map tt_riskReward (buildThreeTargets True 12 (402 / 100) [] 2) = [3 / 2, 5 / 2, 7 / 2]"
  by (simp_all add: buildThreeTargets_def buildTarget_def nthOpt_def defaultMultipliers_def Let_def toFixed_def
      grid_def round_away_def numeral_2_eq_2)


lemma readyPlan_prices:
  "ep_entryPrice (generateExecutionPlan DEFAULT_EXECUTION_PLAN_CONFIG readySetup plainFrame plainSmc None 300 True) = 12"
  "ep_stopLossPrice (generateExecutionPlan DEFAULT_EXECUTION_PLAN_CONFIG readySetup plainFrame plainSmc None 300 True) = 798 / 100"
  using plan_fields(8,9) [of DEFAULT_EXECUTION_PLAN_CONFIG readySetup plainFrame plainSmc None 300 True]
  by (simp_all add: readySetup_prices DEFAULT_EXECUTION_PLAN_CONFIG_def)

lemma readyPlan:
  "ep_status (generateExecutionPlan DEFAULT_EXECUTION_PLAN_CONFIG readySetup plainFrame plainSmc None 300 True) = EXECUTABLE"
proof -
  let ?p = "generateExecutionPlan DEFAULT_EXECUTION_PLAN_CONFIG readySetup plainFrame plainSmc None 300 True"
  note f = plan_fields [of DEFAULT_EXECUTION_PLAN_CONFIG readySetup plainFrame plainSmc None 300 True]
  have entry: "ep_entryPrice ?p = 12" "ep_stopLossPrice ?p = 798 / 100"
    by (simp_all add: readyPlan_prices)
  have tps: "ep_takeProfitLevels ?p = buildThreeTargets True 12 (402 / 100) [] 2"
    using f(5) readySetup_targets by (simp add: entry)
  have prices: "12 < tt_price t" if "t \<in> set (buildThreeTargets True 12 (402 / 100) [] 2)" for t
  proof -
    have "tt_price t \<in> set (map tt_price (buildThreeTargets True 12 (402 / 100) [] 2))" using that by simp
    then show ?thesis unfolding plainTargets by auto
  qed
  have ratios: "ratioAt (buildThreeTargets True 12 (402 / 100) [] 2) 1 = 3 / 2"
    "ratioAt (buildThreeTargets True 12 (402 / 100) [] 2) 2 = 5 / 2"
    "ratioAt (buildThreeTargets True 12 (402 / 100) [] 2) 3 = 7 / 2"
    using plainTargets(2) by (simp_all only: ratioAt_targets) (simp_all add: buildThreeTargets_def)
  have "ep_validationFailures ?p = []"
    unfolding f(2) validatePlan_Nil entry tps ratios using prices
    by (simp add: readySetup_fields DEFAULT_EXECUTION_PLAN_CONFIG_def)
  then show ?thesis using f(1) by simp
qed

theorem executable_plan_sound_witness:
  "0 < ep_stopLossPrice (generateExecutionPlan DEFAULT_EXECUTION_PLAN_CONFIG readySetup plainFrame plainSmc None 300 True)"
  using executable_plan_sound [OF readyPlan] by simp

text \<open>The stop protects the furthest anchor: the stop of a long is the lowest of the sweep
  extreme, the order block invalidation and the last 15-minute swing low, less the tick buffer,
  rounded to the price precision; a short's is the highest plus the buffer. There is none exactly
  when there is no anchor.\<close>

theorem stop_beyond_furthest_anchor:
  "(case calculateStopLoss c struct instr mult of
      None \<Rightarrow> (if su_direction c = LONG_D then longAnchors c struct else shortAnchors c struct) = []
    | Some stop \<Rightarrow>
        if su_direction c = LONG_D
        then \<exists>a \<in> set (longAnchors c struct).
          stop = toFixed (pricePrecision instr) (a - (case instr of Some i \<Rightarrow> i_tickSize i | None \<Rightarrow> 1 / 100) * mult) \<and>
          list_all (\<lambda>b. a \<le> b) (longAnchors c struct)
        else \<exists>a \<in> set (shortAnchors c struct).
          stop = toFixed (pricePrecision instr) (a + (case instr of Some i \<Rightarrow> i_tickSize i | None \<Rightarrow> 1 / 100) * mult) \<and>
          list_all (\<lambda>b. b \<le> a) (shortAnchors c struct))"
proof (cases "su_direction c = LONG_D")
  case True
  show ?thesis
  proof (cases "sort (longAnchors c struct)")
    case Nil
    then have "longAnchors c struct = []" by (metis set_empty set_sort)
    then show ?thesis using True Nil by (simp add: calculateStopLoss_def calculateLongStopLoss_def Let_def)
  next
    case (Cons a as)
    then show ?thesis
      using True sort_hd [OF Cons] by (auto simp: calculateStopLoss_def calculateLongStopLoss_def Let_def list_all_iff)
  qed
next
  case False
  show ?thesis
  proof (cases "sort_key uminus (shortAnchors c struct)")
    case Nil
    then have "shortAnchors c struct = []" by (metis set_empty set_sort)
    then show ?thesis using False Nil by (simp add: calculateStopLoss_def calculateShortStopLoss_def Let_def)
  next
    case (Cons a as)
    then show ?thesis
      using False sort_hd [OF Cons] by (auto simp: calculateStopLoss_def calculateShortStopLoss_def Let_def list_all_iff)
  qed
qed

text \<open>The stated reward-to-risk ratio of a target is that of its prices, up to the rounding of
  the ratio to two decimals and of the price to the instrument's precision.\<close>

theorem target_ratio_bounds:
  assumes "0 < risk" and "t \<in> set (calculateTakeProfits c entry risk struct smc instr)"
  shows "\<bar>tt_riskReward t - \<bar>tt_price t - entry\<bar> / risk\<bar> \<le> 5 / 1000 + 1 / (2 * 10 ^ pricePrecision instr) / risk"
  using assms(2) buildTarget_ratio [OF assms(1)]
  by (auto simp: calculateTakeProfits_def buildThreeTargets_def Let_def)

theorem target_ratio_bounds_witness:
  "\<exists>t \<in> set (calculateTakeProfits readySetup 12 (402 / 100) plainFrame plainSmc None).
     \<bar>tt_riskReward t - \<bar>tt_price t - 12\<bar> / (402 / 100)\<bar> \<le> 5 / 1000 + 1 / 200 / (402 / 100)"
proof -
  have t: "hd (calculateTakeProfits readySetup 12 (402 / 100) plainFrame plainSmc None)
      \<in> set (calculateTakeProfits readySetup 12 (402 / 100) plainFrame plainSmc None)"
    by (rule hd_in_set) (metis length_takeProfits list.size(3) zero_neq_numeral)
  then show ?thesis
    using target_ratio_bounds [OF _ t] by (intro bexI [OF _ t]) (simp add: pricePrecision_def)
qed

text \<open>Nothing orders the ladder of targets: a single far structural target becomes the first,
  the two that are missing are projected at 2.5 and 3.5 times the risk below it, and the plan with
  the targets 200, 125 and 135 for an entry of 100 is accepted as executable.\<close>

theorem ladder_out_of_order:
  assumes "su_status c = READY_SS" "su_direction c = LONG_D" "asOf \<le> su_expiresAt c"
  shows "validatePlan c 100 90 (buildThreeTargets True 100 10 [(200, level)] 2) asOf DEFAULT_EXECUTION_PLAN_CONFIG True = [] \<and>
    map tt_price (buildThreeTargets True 100 10 [(200, level)] 2) = [200, 125, 135]"
proof -
  have t: "buildTarget True 100 10 [(200, level)] 2 0 =
      \<lparr>tt_level = 1, tt_price = 200, tt_riskReward = 10, tt_rewardDistance = 100, tt_liquidityId = Some level\<rparr>"
    "buildTarget True 100 10 [(200, level)] 2 1 =
      \<lparr>tt_level = 2, tt_price = 125, tt_riskReward = 5 / 2, tt_rewardDistance = 25, tt_liquidityId = None\<rparr>"
    "buildTarget True 100 10 [(200, level)] 2 2 =
      \<lparr>tt_level = 3, tt_price = 135, tt_riskReward = 7 / 2, tt_rewardDistance = 35, tt_liquidityId = None\<rparr>"
    by (simp_all add: buildTarget_def nthOpt_def defaultMultipliers_def Let_def toFixed_def grid_def round_away_def)
  have prices: "map tt_price (buildThreeTargets True 100 10 [(200, level)] 2) = [200, 125, 135]"
    unfolding buildThreeTargets_def list.map t by simp
  have above: "100 < tt_price x" if "x \<in> set (buildThreeTargets True 100 10 [(200, level)] 2)" for x
  proof -
    have "tt_price x \<in> set (map tt_price (buildThreeTargets True 100 10 [(200, level)] 2))" using that by simp
    then show ?thesis unfolding prices by auto
  qed
  have ratios: "ratioAt (buildThreeTargets True 100 10 [(200, level)] 2) 1 = 10"
    "ratioAt (buildThreeTargets True 100 10 [(200, level)] 2) 2 = 5 / 2"
    "ratioAt (buildThreeTargets True 100 10 [(200, level)] 2) 3 = 7 / 2"
    unfolding ratioAt_targets t by simp_all
  show ?thesis
    unfolding validatePlan_Nil ratios using assms prices above by (simp add: DEFAULT_EXECUTION_PLAN_CONFIG_def)
qed

theorem ladder_out_of_order_witness:
  "validatePlan readySetup 100 90 (buildThreeTargets True 100 10 [(200, ''x'')] 2) 300 DEFAULT_EXECUTION_PLAN_CONFIG True = []"
  using ladder_out_of_order [of readySetup 300 "''x''"] by (simp add: readySetup_fields)

text \<open>A translated signal hands on the whole position: its take-profit allocations add up to
  exactly one, and it is VALIDATED, without rejection reasons, exactly for an executable plan.\<close>

theorem allocations_cover_position:
  "sum_list (map ta_allocationPct (ts_takeProfits (translatePlan (generateExecutionPlan cfg c struct smc instr asOf healthy) now))) = 1 \<and>
   (ts_status (translatePlan (generateExecutionPlan cfg c struct smc instr asOf healthy) now) = VALIDATED \<longleftrightarrow>
      ts_riskRejectionReasons (translatePlan (generateExecutionPlan cfg c struct smc instr asOf healthy) now) = [])"
proof -
  let ?p = "generateExecutionPlan cfg c struct smc instr asOf healthy"
  obtain t0 t1 t2 where tps: "ep_takeProfitLevels ?p = [t0, t1, t2]"
    using plan_fields(5) [of cfg c struct smc instr asOf healthy]
    by (simp add: calculateTakeProfits_def buildThreeTargets_def Let_def)
  have "sum_list (map ta_allocationPct (buildAllocations ?p)) = 1"
    by (simp add: buildAllocations_def tps nthOpt_def defaultSplits_def numeral_2_eq_2)
  then show ?thesis
    using plan_fields(1) [of cfg c struct smc instr asOf healthy] by (simp add: translatePlan_def)
qed

end
