(* ===== verification/Smc_Models.thy ===== *)
theory Smc_Models
  imports Broker_Types Market_Types
begin

section \<open>The building blocks of the SMC paper exchange (src/broker/paper)\<close>

text \<open>
  Data types of \<open>paper/types.ts\<close> and the static models the \<open>SmcPaperBroker\<close> is made of: fees,
  slippage, funding, liquidation prices, the candle fill engine and the position manager.
  Identifiers the source builds with template strings (\<open>ORD:key\<close>, \<open>POS:order\<close>, \<open>SL:position\<close>,
  \<open>TP:position:level\<close>) are the constructors of one datatype: the prefixes make the templates
  distinct and the level, having no colon, makes the last one injective. Objects a static
  method mutates are returned.
\<close>

subsection \<open>Types (paper/types.ts, core/types.ts)\<close>

datatype coreOrderType =
  LIMIT_O | MARKET_O | STOP_O | STOP_MARKET_O | TAKE_PROFIT_O | TAKE_PROFIT_MARKET_O

datatype coreOrderStatus =
  NEW_S | PARTIALLY_FILLED_S | FILLED_S | CANCELED_S | PENDING_CANCEL_S | REJECTED_S | EXPIRED_S

datatype direction = LONG | SHORT

datatype paperPositionState = FLAT_P | OPEN_P | CLOSING_P | CLOSED_P

datatype lifecycle =
    SIGNAL_RECEIVED | ORDER_ACCEPTED_L | WAITING_FOR_ENTRY | ENTRY_FILLED_L | POSITION_OPEN | TP1_PARTIAL
  | TP2_PARTIAL | TP3_REACHED | BREAKEVEN_ARMED | STOP_MOVED_TO_BREAKEVEN | STOPPED_L | CLOSED_L | LIQUIDATED_L

datatype slippageModel = NONE_SLIP | FIXED_TICKS | BPS | VOLATILITY

datatype smcOrderId = EntryId string | StopId smcOrderId | TargetId smcOrderId nat

text \<open>A position is named after its entry order (\<open>POS:order\<close>), so the order's identifier names both.\<close>

type_synonym positionId = smcOrderId

record smcConfig =
  sc_makerFeeRate :: number
  sc_takerFeeRate :: number
  sc_slippageModel :: slippageModel
  sc_slippageFixedTicks :: "number option"
  sc_slippageBps :: "number option"
  sc_breakevenEnabled :: bool
  sc_breakevenOffsetTicks :: number
  sc_maintenanceMarginRate :: number

record paperOrder =
  so_id :: smcOrderId
  so_symbol :: string
  so_side :: orderSide
  so_type :: coreOrderType
  so_quantity :: number
  so_filledQuantity :: number
  so_price :: "number option"
  so_stopPrice :: "number option"
  so_reduceOnly :: bool
  so_status :: coreOrderStatus
  so_createdAt :: ms
  so_updatedAt :: ms
  so_signalKey :: string
  so_setupId :: string
  so_executionPlanId :: string
  so_positionId :: "positionId option"
  so_targetLevel :: "nat option"

record paperFill =
  sf_orderId :: smcOrderId
  sf_candleTime :: ms
  sf_symbol :: string
  sf_side :: orderSide
  sf_price :: number
  sf_quantity :: number
  sf_fee :: number
  sf_slippage :: number
  sf_isMaker :: bool
  sf_timestamp :: ms
  sf_positionId :: "positionId option"

record paperPosition =
  sp_id :: positionId
  sp_symbol :: string
  sp_side :: direction
  sp_state :: paperPositionState
  sp_quantity :: number
  sp_initialQuantity :: number
  sp_remainingQuantity :: number
  sp_averageEntryPrice :: number
  sp_currentMarkPrice :: number
  sp_liquidationPrice :: number
  sp_leverage :: number
  sp_initialMargin :: number
  sp_usedMargin :: number
  sp_unrealizedPnl :: number
  sp_realizedPnl :: number
  sp_fees :: number
  sp_stopLossPrice :: number
  sp_plannedStopPrice :: number
  sp_takeProfitPrices :: "number list"
  sp_highestPriceReached :: number
  sp_lowestPriceReached :: number
  sp_openedAt :: ms
  sp_closedAt :: "ms option"
  sp_lifecycle :: lifecycle
  sp_signalKey :: string
  sp_setupId :: string
  sp_executionPlanId :: string

subsection \<open>Fees and slippage\<close>

definition calculateFee :: "number \<Rightarrow> bool \<Rightarrow> number \<Rightarrow> number \<Rightarrow> number" where
  "calculateFee notional isMaker makerRate takerRate =
     toFixed 4 (\<bar>notional\<bar> * (if isMaker then makerRate else takerRate))"

text \<open>The fill price and the slippage; the unimplemented model throws.\<close>

definition applySlippage ::
  "number \<Rightarrow> orderSide \<Rightarrow> smcConfig \<Rightarrow> number \<Rightarrow> string + (number \<times> number)" where
  "applySlippage expectedPrice side cfg tickSize =
     (if sc_slippageModel cfg = NONE_SLIP then Inr (expectedPrice, 0)
      else if sc_slippageModel cfg = VOLATILITY then Inl ''slippageModel VOLATILITY is not implemented''
      else
        (let diff = (if sc_slippageModel cfg = FIXED_TICKS then coalesce (sc_slippageFixedTicks cfg) 1 * tickSize
                     else expectedPrice * (coalesce (sc_slippageBps cfg) 5 / 10000));
             fillPrice = (if side = BUY then expectedPrice + diff else expectedPrice - diff) in
         Inr (toFixed 4 fillPrice, toFixed 4 diff)))"

subsection \<open>The candle fill engine\<close>

definition tickSize :: number where
  "tickSize = 1 / 100"

definition calculateFillQty :: "paperOrder \<Rightarrow> candle \<Rightarrow> number" where
  "calculateFillQty ord k =
     (let remainingQty = so_quantity ord - so_filledQuantity ord; vol = coalesce (k_volume k) 1000 in
      if remainingQty \<le> 0 then 0
      else if vol > 0 then min remainingQty vol else remainingQty)"

definition applyFill :: "number \<Rightarrow> paperOrder \<Rightarrow> paperOrder" where
  "applyFill q ord = (let filled = so_filledQuantity ord + q in
     ord\<lparr>so_filledQuantity := filled,
       so_status := (if filled \<ge> so_quantity ord then FILLED_S else PARTIALLY_FILLED_S)\<rparr>)"

text \<open>The common part of the three checks: the fill at \<open>basePrice\<close>, if any quantity is left.\<close>

definition fillAt ::
  "smcConfig \<Rightarrow> paperOrder \<Rightarrow> candle \<Rightarrow> bool \<Rightarrow> number \<Rightarrow> string + (paperFill \<times> paperOrder) option" where
  "fillAt cfg ord k isMaker basePrice =
     (let fillQty = calculateFillQty ord k in
      if fillQty \<le> 0 then Inr None
      else
        (case applySlippage basePrice (so_side ord) cfg tickSize of
           Inl e \<Rightarrow> Inl e
         | Inr (fillPrice, slip) \<Rightarrow>
             Inr (Some (\<lparr>sf_orderId = so_id ord, sf_candleTime = k_openTime k, sf_symbol = so_symbol ord,
               sf_side = so_side ord, sf_price = fillPrice, sf_quantity = fillQty,
               sf_fee = calculateFee (fillPrice * fillQty) isMaker (sc_makerFeeRate cfg) (sc_takerFeeRate cfg),
               sf_slippage = slip, sf_isMaker = isMaker,
               sf_timestamp = coalesce (k_closeTime k) (k_openTime k),
               sf_positionId = so_positionId ord\<rparr>, applyFill fillQty ord))))"

definition checkLimitFill :: "smcConfig \<Rightarrow> paperOrder \<Rightarrow> candle \<Rightarrow> string + (paperFill \<times> paperOrder) option" where
  "checkLimitFill cfg ord k =
     (let limitPrice = coalesce (so_price ord) 0 in
      if limitPrice \<le> 0 then Inr None
      else if \<not> (if so_side ord = BUY then k_low k \<le> limitPrice else k_high k \<ge> limitPrice) then Inr None
      else fillAt cfg ord k True
        (if so_side ord = BUY \<and> k_open k < limitPrice then k_open k
         else if so_side ord = SELL \<and> k_open k > limitPrice then k_open k else limitPrice))"

definition checkStopFill :: "smcConfig \<Rightarrow> paperOrder \<Rightarrow> candle \<Rightarrow> string + (paperFill \<times> paperOrder) option" where
  "checkStopFill cfg ord k =
     (let stopPrice = coalesce (orElse (so_stopPrice ord) (so_price ord)) 0 in
      if stopPrice \<le> 0 then Inr None
      else if \<not> (if so_side ord = SELL then k_low k \<le> stopPrice else k_high k \<ge> stopPrice) then Inr None
      else fillAt cfg ord k False
        (if so_side ord = SELL \<and> k_open k < stopPrice then k_open k
         else if so_side ord = BUY \<and> k_open k > stopPrice then k_open k else stopPrice))"

definition checkTakeProfitFill ::
  "smcConfig \<Rightarrow> paperOrder \<Rightarrow> candle \<Rightarrow> bool \<Rightarrow> string + (paperFill \<times> paperOrder) option" where
  "checkTakeProfitFill cfg ord k isLimit =
     (let tpPrice = coalesce (orElse (so_price ord) (so_stopPrice ord)) 0 in
      if tpPrice \<le> 0 then Inr None
      else if \<not> (if so_side ord = SELL then k_high k \<ge> tpPrice else k_low k \<le> tpPrice) then Inr None
      else fillAt cfg ord k isLimit
        (if so_side ord = SELL \<and> k_open k > tpPrice then k_open k
         else if so_side ord = BUY \<and> k_open k < tpPrice then k_open k else tpPrice))"

definition evaluateOrderFill :: "smcConfig \<Rightarrow> paperOrder \<Rightarrow> candle \<Rightarrow> string + (paperFill \<times> paperOrder) option" where
  "evaluateOrderFill cfg ord k =
     (if so_status ord \<noteq> NEW_S \<and> so_status ord \<noteq> PARTIALLY_FILLED_S then Inr None
      else
        (case so_type ord of
           LIMIT_O \<Rightarrow> checkLimitFill cfg ord k
         | STOP_O \<Rightarrow> checkStopFill cfg ord k
         | STOP_MARKET_O \<Rightarrow> checkStopFill cfg ord k
         | TAKE_PROFIT_O \<Rightarrow> checkTakeProfitFill cfg ord k True
         | TAKE_PROFIT_MARKET_O \<Rightarrow> checkTakeProfitFill cfg ord k False
         | MARKET_O \<Rightarrow> Inr None))"

subsection \<open>Liquidation prices\<close>

record leverageBracket =
  b_notionalCap :: "number option"
  b_maintenanceMarginRate :: number
  b_maintenanceAmount :: number

text \<open>A cap of \<open>None\<close> is the positive infinity of the fallback bracket.\<close>

definition capCovers :: "number \<Rightarrow> leverageBracket \<Rightarrow> bool" where
  "capCovers notional b = (case b_notionalCap b of None \<Rightarrow> True | Some c \<Rightarrow> notional \<le> c)"

definition capLe :: "leverageBracket \<Rightarrow> leverageBracket \<Rightarrow> bool" where
  "capLe a b = (case b_notionalCap b of None \<Rightarrow> True
     | Some y \<Rightarrow> (case b_notionalCap a of None \<Rightarrow> False | Some x \<Rightarrow> x \<le> y))"

text \<open>The stable sort by cap.\<close>

fun insertBracket :: "leverageBracket \<Rightarrow> leverageBracket list \<Rightarrow> leverageBracket list" where
  "insertBracket a [] = [a]"
| "insertBracket a (b # bs) = (if capLe a b then a # b # bs else b # insertBracket a bs)"

fun sortBrackets :: "leverageBracket list \<Rightarrow> leverageBracket list" where
  "sortBrackets [] = []"
| "sortBrackets (b # bs) = insertBracket b (sortBrackets bs)"

definition selectBracket :: "number \<Rightarrow> leverageBracket list option \<Rightarrow> number \<Rightarrow> leverageBracket" where
  "selectBracket notional brackets fallbackRate =
     (let bs = coalesce brackets [] in
      if bs = [] then \<lparr>b_notionalCap = None, b_maintenanceMarginRate = fallbackRate, b_maintenanceAmount = 0\<rparr>
      else
        (case find (capCovers notional) (sortBrackets bs) of
           Some b \<Rightarrow> b
         | None \<Rightarrow> last (sortBrackets bs)))"

record liquidationParams =
  lq_entryPrice :: number
  lq_side :: direction
  lq_leverage :: number
  lq_quantity :: "number option"
  lq_initialMargin :: "number option"
  lq_fees :: "number option"
  lq_funding :: "number option"
  lq_maintenanceMarginRate :: "number option"
  lq_brackets :: "leverageBracket list option"

text \<open>A denominator of zero gives an infinity or \<open>NaN\<close> in the source, which it turns into 0.\<close>

definition calculateLiquidationPrice :: "liquidationParams \<Rightarrow> number" where
  "calculateLiquidationPrice p =
     (let entry = lq_entryPrice p in
      if entry \<le> 0 then 0
      else
        (let lev = max 1 (lq_leverage p);
             qty = (case lq_quantity p of Some q \<Rightarrow> if q > 0 then q else 1 | None \<Rightarrow> 1);
             notional = entry * qty;
             bracket = selectBracket notional (lq_brackets p) (coalesce (lq_maintenanceMarginRate p) (5 / 1000));
             mmr = b_maintenanceMarginRate bracket;
             margin = coalesce (lq_initialMargin p) (notional / lev);
             costs = coalesce (lq_fees p) 0 + coalesce (lq_funding p) 0;
             maintAmount = b_maintenanceAmount bracket;
             num = (if lq_side p = LONG then notional + costs - margin - maintAmount
                    else notional - costs + margin + maintAmount);
             den = (if lq_side p = LONG then qty * (1 - mmr) else qty * (1 + mmr)) in
         if den = 0 then 0 else toFixed 4 (max 0 (num / den))))"

subsection \<open>The position manager\<close>

definition openPosition ::
  "paperFill \<Rightarrow> direction \<Rightarrow> number \<Rightarrow> number \<Rightarrow> number list \<Rightarrow> string \<Rightarrow> string \<Rightarrow> string \<Rightarrow> number \<Rightarrow> paperPosition" where
  "openPosition f side leverage stopLossPrice takeProfitPrices signalKey setupId planId mmr =
     (let notional = sf_price f * sf_quantity f;
          initialMargin = notional / max 1 leverage;
          liqPrice = calculateLiquidationPrice \<lparr>lq_entryPrice = sf_price f, lq_side = side,
            lq_leverage = leverage, lq_quantity = Some (sf_quantity f),
            lq_initialMargin = Some initialMargin, lq_fees = Some (sf_fee f), lq_funding = None,
            lq_maintenanceMarginRate = Some mmr, lq_brackets = None\<rparr> in
      \<lparr>sp_id = sf_orderId f, sp_symbol = sf_symbol f, sp_side = side, sp_state = OPEN_P,
       sp_quantity = sf_quantity f, sp_initialQuantity = sf_quantity f,
       sp_remainingQuantity = sf_quantity f, sp_averageEntryPrice = sf_price f,
       sp_currentMarkPrice = sf_price f, sp_liquidationPrice = liqPrice, sp_leverage = leverage,
       sp_initialMargin = toFixed 2 initialMargin, sp_usedMargin = toFixed 2 initialMargin,
       sp_unrealizedPnl = 0, sp_realizedPnl = 0, sp_fees = sf_fee f, sp_stopLossPrice = stopLossPrice,
       sp_plannedStopPrice = stopLossPrice, sp_takeProfitPrices = takeProfitPrices,
       sp_highestPriceReached = sf_price f, sp_lowestPriceReached = sf_price f,
       sp_openedAt = sf_timestamp f, sp_closedAt = None, sp_lifecycle = POSITION_OPEN,
       sp_signalKey = signalKey, sp_setupId = setupId, sp_executionPlanId = planId\<rparr>)"

text \<open>The PnL per unit of a position at a price.\<close>

definition priceDiff :: "paperPosition \<Rightarrow> number \<Rightarrow> number" where
  "priceDiff pos price =
     (if sp_side pos = LONG then price - sp_averageEntryPrice pos else sp_averageEntryPrice pos - price)"

definition updateMarkPrice :: "number \<Rightarrow> paperPosition \<Rightarrow> paperPosition" where
  "updateMarkPrice markPrice pos =
     pos\<lparr>sp_currentMarkPrice := markPrice,
       sp_highestPriceReached := max (sp_highestPriceReached pos) markPrice,
       sp_lowestPriceReached := min (sp_lowestPriceReached pos) markPrice,
       sp_unrealizedPnl := toFixed 4 (priceDiff pos markPrice * sp_remainingQuantity pos)\<rparr>"

definition applyPartialClose :: "paperFill \<Rightarrow> paperPosition \<Rightarrow> (number \<times> number) \<times> paperPosition" where
  "applyPartialClose f pos =
     (let closeQty = min (sp_remainingQuantity pos) (sf_quantity f);
          realizedGross = toFixed 4 (priceDiff pos (sf_price f) * closeQty);
          realizedNet = toFixed 4 (realizedGross - sf_fee f);
          remaining = toFixed 4 (sp_remainingQuantity pos - closeQty);
          usedRatio = (if sp_initialQuantity pos > 0 then remaining / sp_initialQuantity pos else 0);
          pos1 = pos\<lparr>sp_remainingQuantity := remaining,
            sp_realizedPnl := toFixed 4 (sp_realizedPnl pos + realizedGross),
            sp_fees := toFixed 4 (sp_fees pos + sf_fee f),
            sp_usedMargin := toFixed 2 (sp_initialMargin pos * usedRatio)\<rparr>;
          pos2 = (if remaining \<le> 0 then pos1\<lparr>sp_state := CLOSED_P, sp_closedAt := Some (sf_timestamp f),
                    sp_lifecycle := CLOSED_L\<rparr> else pos1) in
      ((realizedGross, realizedNet), pos2))"

definition moveStopToBreakeven :: "number \<Rightarrow> paperPosition \<Rightarrow> bool \<times> paperPosition" where
  "moveStopToBreakeven offsetTicks pos =
     (let offset = offsetTicks * tickSize;
          newStop = (if sp_side pos = LONG then sp_averageEntryPrice pos + offset
                     else sp_averageEntryPrice pos - offset) in
      if sp_side pos = LONG \<and> newStop \<le> sp_stopLossPrice pos then (False, pos)
      else if sp_side pos = SHORT \<and> newStop \<ge> sp_stopLossPrice pos then (False, pos)
      else (True, pos\<lparr>sp_stopLossPrice := toFixed 4 newStop, sp_lifecycle := STOP_MOVED_TO_BREAKEVEN\<rparr>))"

definition checkPaperLiquidation :: "paperPosition \<Rightarrow> bool \<times> paperPosition" where
  "checkPaperLiquidation pos =
     (if sp_state pos \<noteq> OPEN_P then (False, pos)
      else if (if sp_side pos = LONG then sp_currentMarkPrice pos \<le> sp_liquidationPrice pos
               else sp_currentMarkPrice pos \<ge> sp_liquidationPrice pos)
      then (True, pos\<lparr>sp_state := CLOSED_P, sp_lifecycle := LIQUIDATED_L,
              sp_realizedPnl := toFixed 4 (sp_realizedPnl pos - sp_usedMargin pos)\<rparr>)
      else (False, pos))"

subsection \<open>Funding\<close>

definition calculateFundingPayment :: "paperPosition \<Rightarrow> number \<Rightarrow> number" where
  "calculateFundingPayment pos fundingRate =
     (let notional = sp_remainingQuantity pos * sp_currentMarkPrice pos in
      if sp_side pos = LONG then toFixed 4 (- 1 * notional * fundingRate)
      else toFixed 4 (notional * fundingRate))"

definition applyFundingToPosition :: "paperPosition \<Rightarrow> number \<Rightarrow> number \<times> paperPosition" where
  "applyFundingToPosition pos fundingRate =
     (let payment = calculateFundingPayment pos fundingRate in
      (payment, pos\<lparr>sp_realizedPnl := toFixed 4 (sp_realizedPnl pos + payment)\<rparr>))"

end
