(* ===== verification/Profit_Goals.thy ===== *)
theory Profit_Goals
  imports Prelude
begin

section \<open>Profit goals (src/trading/goals)\<close>

text \<open>
  \<open>ProfitGoalTypes\<close> and \<open>ProfitGoalManager\<close>: the running PnL of the day, week and month against
  their targets, the risk multiplier and trading halt that follow from a reached target, and the
  metrics over past days. \<open>Date.now()\<close> is an argument; the date of a day is its number.
\<close>

datatype targetAction = REDUCE_RISK | STOP_TRADING | TRAIL_STOPS

record goalConfig =
  gc_dailyTargetPct :: number
  gc_weeklyTargetPct :: number
  gc_monthlyTargetPct :: number
  gc_targetAchievedAction :: targetAction
  gc_riskReductionFactor :: number
  gc_cooldownAfterTargetMs :: ms
  gc_enableDailyGoals :: bool
  gc_enableWeeklyGoals :: bool
  gc_enableMonthlyGoals :: bool

record goalState =
  gs_dailyPnL :: number
  gs_weeklyPnL :: number
  gs_monthlyPnL :: number
  gs_dailyStartingEquity :: number
  gs_weeklyStartingEquity :: number
  gs_monthlyStartingEquity :: number
  gs_dailyTargetAchieved :: bool
  gs_weeklyTargetAchieved :: bool
  gs_monthlyTargetAchieved :: bool
  gs_dailyTargetAchievedAt :: "ms option"
  gs_weeklyTargetAchievedAt :: "ms option"
  gs_monthlyTargetAchievedAt :: "ms option"
  gs_reducedRiskActive :: bool
  gs_currentRiskMultiplier :: number
  gs_lastDailyReset :: ms
  gs_lastWeeklyReset :: ms
  gs_lastMonthlyReset :: ms

record dayRecord =
  dy_date :: int
  dy_pnl :: number
  dy_equity :: number

record goalManager =
  gm_config :: goalConfig
  gm_state :: goalState
  gm_history :: "dayRecord list"

definition DEFAULT_PROFIT_GOAL_CONFIG :: goalConfig where
  "DEFAULT_PROFIT_GOAL_CONFIG = \<lparr>gc_dailyTargetPct = 2 / 100, gc_weeklyTargetPct = 8 / 100,
     gc_monthlyTargetPct = 20 / 100, gc_targetAchievedAction = REDUCE_RISK, gc_riskReductionFactor = 1 / 2,
     gc_cooldownAfterTargetMs = 3600000, gc_enableDailyGoals = True, gc_enableWeeklyGoals = True,
     gc_enableMonthlyGoals = False\<rparr>"

definition createInitialProfitGoalState :: "number \<Rightarrow> ms \<Rightarrow> goalState" where
  "createInitialProfitGoalState equity now =
     \<lparr>gs_dailyPnL = 0, gs_weeklyPnL = 0, gs_monthlyPnL = 0, gs_dailyStartingEquity = equity,
      gs_weeklyStartingEquity = equity, gs_monthlyStartingEquity = equity, gs_dailyTargetAchieved = False,
      gs_weeklyTargetAchieved = False, gs_monthlyTargetAchieved = False, gs_dailyTargetAchievedAt = None,
      gs_weeklyTargetAchievedAt = None, gs_monthlyTargetAchievedAt = None, gs_reducedRiskActive = False,
      gs_currentRiskMultiplier = 1, gs_lastDailyReset = now, gs_lastWeeklyReset = now, gs_lastMonthlyReset = now\<rparr>"

definition checkTargetAchieved :: "number \<Rightarrow> number \<Rightarrow> number \<Rightarrow> bool" where
  "checkTargetAchieved currentPnL startingEquity targetPct =
     (if startingEquity \<le> 0 \<or> targetPct \<le> 0 then False else currentPnL \<ge> startingEquity * targetPct)"

definition newGoalManager :: "number \<Rightarrow> goalConfig \<Rightarrow> ms \<Rightarrow> goalManager" where
  "newGoalManager equity cfg now =
     \<lparr>gm_config = cfg, gm_state = createInitialProfitGoalState equity now, gm_history = []\<rparr>"

subsection \<open>Updates\<close>

definition checkAndSetTargets :: "goalConfig \<Rightarrow> ms \<Rightarrow> goalState \<Rightarrow> goalState" where
  "checkAndSetTargets cfg now s =
     (let s1 = (if gc_enableDailyGoals cfg \<and> \<not> gs_dailyTargetAchieved s
            \<and> checkTargetAchieved (gs_dailyPnL s) (gs_dailyStartingEquity s) (gc_dailyTargetPct cfg)
          then s\<lparr>gs_dailyTargetAchieved := True, gs_dailyTargetAchievedAt := Some now\<rparr> else s);
          s2 = (if gc_enableWeeklyGoals cfg \<and> \<not> gs_weeklyTargetAchieved s1
            \<and> checkTargetAchieved (gs_weeklyPnL s1) (gs_weeklyStartingEquity s1) (gc_weeklyTargetPct cfg)
          then s1\<lparr>gs_weeklyTargetAchieved := True, gs_weeklyTargetAchievedAt := Some now\<rparr> else s1) in
      if gc_enableMonthlyGoals cfg \<and> \<not> gs_monthlyTargetAchieved s2
        \<and> checkTargetAchieved (gs_monthlyPnL s2) (gs_monthlyStartingEquity s2) (gc_monthlyTargetPct cfg)
      then s2\<lparr>gs_monthlyTargetAchieved := True, gs_monthlyTargetAchievedAt := Some now\<rparr> else s2)"

definition isAnyTargetAchieved :: "goalState \<Rightarrow> bool" where
  "isAnyTargetAchieved s \<longleftrightarrow> gs_dailyTargetAchieved s \<or> gs_weeklyTargetAchieved s \<or> gs_monthlyTargetAchieved s"

definition updateRiskMultiplier :: "goalConfig \<Rightarrow> goalState \<Rightarrow> goalState" where
  "updateRiskMultiplier cfg s =
     (if \<not> isAnyTargetAchieved s then s\<lparr>gs_reducedRiskActive := False, gs_currentRiskMultiplier := 1\<rparr>
      else
        (case gc_targetAchievedAction cfg of
           REDUCE_RISK \<Rightarrow> s\<lparr>gs_reducedRiskActive := True, gs_currentRiskMultiplier := gc_riskReductionFactor cfg\<rparr>
         | TRAIL_STOPS \<Rightarrow> s\<lparr>gs_reducedRiskActive := True, gs_currentRiskMultiplier := 75 / 100\<rparr>
         | STOP_TRADING \<Rightarrow> s\<lparr>gs_reducedRiskActive := True, gs_currentRiskMultiplier := 0\<rparr>))"

text \<open>\<open>timestamp || Date.now()\<close>: a time stamp of 0 is replaced.\<close>

definition updatePnL :: "number \<Rightarrow> ms \<Rightarrow> ms \<Rightarrow> goalManager \<Rightarrow> goalManager" where
  "updatePnL realizedPnl timestamp now m =
     (let s = gm_state m;
          s1 = s\<lparr>gs_dailyPnL := gs_dailyPnL s + realizedPnl, gs_weeklyPnL := gs_weeklyPnL s + realizedPnl,
            gs_monthlyPnL := gs_monthlyPnL s + realizedPnl\<rparr>;
          s2 = checkAndSetTargets (gm_config m) (if timestamp = 0 then now else timestamp) s1 in
      m\<lparr>gm_state := updateRiskMultiplier (gm_config m) s2\<rparr>)"

definition isTradingAllowed :: "goalManager \<Rightarrow> ms \<Rightarrow> bool" where
  "isTradingAllowed m timestamp =
     (let s = gm_state m; cfg = gm_config m in
      if gc_targetAchievedAction cfg = STOP_TRADING \<and> (gs_dailyTargetAchieved s \<or> gs_weeklyTargetAchieved s) then False
      else if gs_dailyTargetAchieved s \<and> coalesce (gs_dailyTargetAchievedAt s) 0 \<noteq> 0
        \<and> timestamp < coalesce (gs_dailyTargetAchievedAt s) 0 + gc_cooldownAfterTargetMs cfg then False
      else True)"

definition getCurrentRiskMultiplier :: "goalManager \<Rightarrow> number" where
  "getCurrentRiskMultiplier m = gs_currentRiskMultiplier (gm_state m)"

definition resetDaily :: "number \<Rightarrow> ms \<Rightarrow> goalManager \<Rightarrow> goalManager" where
  "resetDaily newStartingEquity now m =
     (let s = gm_state m in
      m\<lparr>gm_history := (if gs_lastDailyReset s > 0
          then gm_history m @ [\<lparr>dy_date = gs_lastDailyReset s div 86400000, dy_pnl = gs_dailyPnL s,
            dy_equity = gs_dailyStartingEquity s\<rparr>]
          else gm_history m),
        gm_state := s\<lparr>gs_dailyPnL := 0, gs_dailyStartingEquity := newStartingEquity,
          gs_dailyTargetAchieved := False, gs_dailyTargetAchievedAt := None, gs_lastDailyReset := now,
          gs_reducedRiskActive := False, gs_currentRiskMultiplier := 1\<rparr>\<rparr>)"

definition resetWeekly :: "number \<Rightarrow> ms \<Rightarrow> goalManager \<Rightarrow> goalManager" where
  "resetWeekly newStartingEquity now m =
     m\<lparr>gm_state := (gm_state m)\<lparr>gs_weeklyPnL := 0, gs_weeklyStartingEquity := newStartingEquity,
       gs_weeklyTargetAchieved := False, gs_weeklyTargetAchievedAt := None, gs_lastWeeklyReset := now\<rparr>\<rparr>"

definition resetMonthly :: "number \<Rightarrow> ms \<Rightarrow> goalManager \<Rightarrow> goalManager" where
  "resetMonthly newStartingEquity now m =
     m\<lparr>gm_state := (gm_state m)\<lparr>gs_monthlyPnL := 0, gs_monthlyStartingEquity := newStartingEquity,
       gs_monthlyTargetAchieved := False, gs_monthlyTargetAchievedAt := None, gs_lastMonthlyReset := now\<rparr>\<rparr>"

subsection \<open>Progress and metrics\<close>

definition progressPercent :: "number \<Rightarrow> number \<Rightarrow> number" where
  "progressPercent pnl targetAmount =
     (if targetAmount \<le> 0 then 0 else min 100 (pnl / targetAmount * 100))"

definition getDailyProgressPercent :: "goalManager \<Rightarrow> number" where
  "getDailyProgressPercent m = progressPercent (gs_dailyPnL (gm_state m))
     (gs_dailyStartingEquity (gm_state m) * gc_dailyTargetPct (gm_config m))"

definition getWeeklyProgressPercent :: "goalManager \<Rightarrow> number" where
  "getWeeklyProgressPercent m = progressPercent (gs_weeklyPnL (gm_state m))
     (gs_weeklyStartingEquity (gm_state m) * gc_weeklyTargetPct (gm_config m))"

definition getMonthlyProgressPercent :: "goalManager \<Rightarrow> number" where
  "getMonthlyProgressPercent m = progressPercent (gs_monthlyPnL (gm_state m))
     (gs_monthlyStartingEquity (gm_state m) * gc_monthlyTargetPct (gm_config m))"

record goalMetrics =
  gx_daysTargetAchieved :: nat
  gx_totalDaysTraded :: nat
  gx_dailyGoalAchievementRate :: number
  gx_profitOnTargetDays :: number
  gx_lossOnNonTargetDays :: number
  gx_bestDayPct :: number
  gx_worstDayPct :: number
  gx_consecutiveTargetDays :: nat
  gx_longestTargetStreak :: nat

text \<open>A recorded day with an equity of 0 makes the source divide by zero; the model is of days with
  a non-zero equity. \<open>None\<close> stands for the infinities the extremes start from.\<close>

record metricsLoop =
  ml_days :: nat
  ml_profit :: number
  ml_loss :: number
  ml_best :: "number option"
  ml_worst :: "number option"
  ml_longest :: nat
  ml_streak :: nat

definition metricsStart :: metricsLoop where
  "metricsStart = \<lparr>ml_days = 0, ml_profit = 0, ml_loss = 0, ml_best = None, ml_worst = None, ml_longest = 0, ml_streak = 0\<rparr>"

definition hitsTarget :: "goalConfig \<Rightarrow> dayRecord \<Rightarrow> bool" where
  "hitsTarget cfg d \<longleftrightarrow> dy_pnl d / dy_equity d \<ge> gc_dailyTargetPct cfg"

definition metricsDay :: "goalConfig \<Rightarrow> dayRecord \<Rightarrow> metricsLoop \<Rightarrow> metricsLoop" where
  "metricsDay cfg d l =
     (let dayPct = dy_pnl d / dy_equity d;
          l1 = (if hitsTarget cfg d
            then l\<lparr>ml_days := ml_days l + 1, ml_profit := ml_profit l + dy_pnl d, ml_streak := ml_streak l + 1,
              ml_longest := max (ml_longest l) (ml_streak l + 1)\<rparr>
            else l\<lparr>ml_loss := (if dy_pnl d < 0 then ml_loss l + \<bar>dy_pnl d\<bar> else ml_loss l), ml_streak := 0\<rparr>) in
      l1\<lparr>ml_best := Some (case ml_best l of None \<Rightarrow> dayPct | Some x \<Rightarrow> max x dayPct),
         ml_worst := Some (case ml_worst l of None \<Rightarrow> dayPct | Some x \<Rightarrow> min x dayPct)\<rparr>)"

definition calculateProfitGoalMetrics :: "dayRecord list \<Rightarrow> goalConfig \<Rightarrow> goalMetrics" where
  "calculateProfitGoalMetrics history cfg =
     (if history = [] then \<lparr>gx_daysTargetAchieved = 0, gx_totalDaysTraded = 0, gx_dailyGoalAchievementRate = 0,
        gx_profitOnTargetDays = 0, gx_lossOnNonTargetDays = 0, gx_bestDayPct = 0, gx_worstDayPct = 0,
        gx_consecutiveTargetDays = 0, gx_longestTargetStreak = 0\<rparr>
      else
        (let l = fold (metricsDay cfg) history metricsStart in
         \<lparr>gx_daysTargetAchieved = ml_days l, gx_totalDaysTraded = length history,
          gx_dailyGoalAchievementRate = of_nat (ml_days l) / of_nat (length history),
          gx_profitOnTargetDays = ml_profit l, gx_lossOnNonTargetDays = ml_loss l,
          gx_bestDayPct = coalesce (ml_best l) 0, gx_worstDayPct = coalesce (ml_worst l) 0,
          gx_consecutiveTargetDays = ml_streak l, gx_longestTargetStreak = ml_longest l\<rparr>))"

definition getGoalMetrics :: "goalManager \<Rightarrow> goalMetrics" where
  "getGoalMetrics m = calculateProfitGoalMetrics (gm_history m) (gm_config m)"

subsection \<open>Persistence\<close>

text \<open>\<open>JSON.stringify\<close> and \<open>JSON.parse\<close> exchange plain data faithfully: the persisted form is the
  triple the manager hands out. The \<open>overrideEquity\<close> argument is ignored when it is missing or 0.\<close>

type_synonym goalJSON = "goalConfig \<times> goalState \<times> dayRecord list"

definition goalsToJSON :: "goalManager \<Rightarrow> goalJSON" where
  "goalsToJSON m = (gm_config m, gm_state m, gm_history m)"

definition goalsFromJSON :: "goalJSON \<Rightarrow> number option \<Rightarrow> ms \<Rightarrow> goalManager" where
  "goalsFromJSON json overrideEquity now =
     (case json of (cfg, state, history) \<Rightarrow>
        (let m = (newGoalManager (gs_dailyStartingEquity state) cfg now)\<lparr>gm_state := state, gm_history := history\<rparr> in
         if truthy overrideEquity
         then (let e = coalesce overrideEquity 0 in
               m\<lparr>gm_state := (gm_state m)\<lparr>gs_dailyStartingEquity := e, gs_weeklyStartingEquity := e,
                 gs_monthlyStartingEquity := e\<rparr>\<rparr>)
         else m))"

subsection \<open>The manager as a transition system\<close>

datatype goalOp =
  UpdatePnL number ms ms | ResetDaily number ms | ResetWeekly number ms | ResetMonthly number ms

fun goalStep :: "goalOp \<Rightarrow> goalManager \<Rightarrow> goalManager" where
  "goalStep (UpdatePnL pnl t now) m = updatePnL pnl t now m"
| "goalStep (ResetDaily e now) m = resetDaily e now m"
| "goalStep (ResetWeekly e now) m = resetWeekly e now m"
| "goalStep (ResetMonthly e now) m = resetMonthly e now m"

lemma step_config [simp]: "gm_config (goalStep x m) = gm_config m"
  by (cases x) (simp_all add: updatePnL_def resetDaily_def resetWeekly_def resetMonthly_def Let_def)

lemma riskMultiplier_frame [simp]:
  "gs_dailyTargetAchieved (updateRiskMultiplier cfg s) = gs_dailyTargetAchieved s"
  "gs_weeklyTargetAchieved (updateRiskMultiplier cfg s) = gs_weeklyTargetAchieved s"
  "gs_monthlyTargetAchieved (updateRiskMultiplier cfg s) = gs_monthlyTargetAchieved s"
  "gs_dailyTargetAchievedAt (updateRiskMultiplier cfg s) = gs_dailyTargetAchievedAt s"
  by (simp_all add: updateRiskMultiplier_def split: targetAction.split)

lemma targets_set:
  "gs_dailyTargetAchieved (checkAndSetTargets cfg now s) \<longleftrightarrow> gs_dailyTargetAchieved s \<or>
     gc_enableDailyGoals cfg \<and> checkTargetAchieved (gs_dailyPnL s) (gs_dailyStartingEquity s) (gc_dailyTargetPct cfg)"
  "gs_weeklyTargetAchieved (checkAndSetTargets cfg now s) \<longleftrightarrow> gs_weeklyTargetAchieved s \<or>
     gc_enableWeeklyGoals cfg \<and> checkTargetAchieved (gs_weeklyPnL s) (gs_weeklyStartingEquity s) (gc_weeklyTargetPct cfg)"
  "gs_monthlyTargetAchieved (checkAndSetTargets cfg now s) \<longleftrightarrow> gs_monthlyTargetAchieved s \<or>
     gc_enableMonthlyGoals cfg \<and> checkTargetAchieved (gs_monthlyPnL s) (gs_monthlyStartingEquity s) (gc_monthlyTargetPct cfg)"
  by (auto simp: checkAndSetTargets_def Let_def)

text \<open>A halt under STOP_TRADING: by the day's target, with the multiplier 0.\<close>

definition haltedForDay :: "goalManager \<Rightarrow> bool" where
  "haltedForDay m \<longleftrightarrow> gc_targetAchievedAction (gm_config m) = STOP_TRADING \<and>
     gs_dailyTargetAchieved (gm_state m) \<and> gs_currentRiskMultiplier (gm_state m) = 0"

fun isDailyReset :: "goalOp \<Rightarrow> bool" where
  "isDailyReset (ResetDaily e now) = True"
| "isDailyReset x = False"

interpretation goalHalt: guarded_component goalStep haltedForDay "\<lambda>x. \<not> isDailyReset x"
proof
  fix m x
  assume "haltedForDay m" and "\<not> isDailyReset x"
  then show "haltedForDay (goalStep x m)"
    by (cases x) (auto simp: haltedForDay_def updatePnL_def resetWeekly_def resetMonthly_def Let_def targets_set
        updateRiskMultiplier_def isAnyTargetAchieved_def)
qed

text \<open>An update that reaches the day's target halts a STOP_TRADING manager.\<close>

lemma reached_halts:
  assumes "gc_targetAchievedAction (gm_config m) = STOP_TRADING" "gc_enableDailyGoals (gm_config m)"
    and "0 < gs_dailyStartingEquity (gm_state m)" "0 < gc_dailyTargetPct (gm_config m)"
    and "gs_dailyStartingEquity (gm_state m) * gc_dailyTargetPct (gm_config m) \<le> gs_dailyPnL (gm_state m) + pnl"
  shows "haltedForDay (updatePnL pnl t now m)"
  using assms by (auto simp: haltedForDay_def updatePnL_def Let_def targets_set updateRiskMultiplier_def
      isAnyTargetAchieved_def checkTargetAchieved_def)

text \<open>C12. A reached daily target stops trading until the day's reset: under STOP_TRADING, from the update
  that reaches it on, no sequence of further updates and weekly or monthly resets allows trading at
  any time, and the risk multiplier stays 0.\<close>

theorem reached_target_stops_trading:
  assumes "gc_targetAchievedAction (gm_config m) = STOP_TRADING" "gc_enableDailyGoals (gm_config m)"
    and "0 < gs_dailyStartingEquity (gm_state m)" "0 < gc_dailyTargetPct (gm_config m)"
    and "gs_dailyStartingEquity (gm_state m) * gc_dailyTargetPct (gm_config m) \<le> gs_dailyPnL (gm_state m) + pnl"
    and "list_all (\<lambda>x. \<not> isDailyReset x) ops"
  shows "\<not> isTradingAllowed (fold goalStep ops (updatePnL pnl t now m)) later \<and>
    getCurrentRiskMultiplier (fold goalStep ops (updatePnL pnl t now m)) = 0"
  using goalHalt.inv_guarded_run [OF reached_halts [OF assms(1-5)] assms(6)]
  by (simp add: haltedForDay_def isTradingAllowed_def getCurrentRiskMultiplier_def Let_def)

definition stopGoals :: goalManager where
  "stopGoals = newGoalManager 1000 (DEFAULT_PROFIT_GOAL_CONFIG\<lparr>gc_targetAchievedAction := STOP_TRADING\<rparr>) 5"

theorem reached_target_stops_trading_witness:
  "\<not> isTradingAllowed (fold goalStep [UpdatePnL (- 50) 30 30, ResetWeekly 900 40] (updatePnL 20 10 10 stopGoals)) 10000000"
  using reached_target_stops_trading [of stopGoals 20 "[UpdatePnL (- 50) 30 30, ResetWeekly 900 40]" 10 10 10000000]
  by (simp add: stopGoals_def newGoalManager_def createInitialProfitGoalState_def DEFAULT_PROFIT_GOAL_CONFIG_def)

text \<open>The daily reset restores the full risk although the weekly target is still reached: the
  reduction that the weekly target had caused is gone until the next closed trade.\<close>

theorem daily_reset_forgets_weekly_target:
  assumes "gs_weeklyTargetAchieved (gm_state m)"
  shows "gs_weeklyTargetAchieved (gm_state (resetDaily e now m)) \<and> getCurrentRiskMultiplier (resetDaily e now m) = 1 \<and>
    getCurrentRiskMultiplier (updatePnL pnl t now' (resetDaily e now m)) =
      (case gc_targetAchievedAction (gm_config m) of
         REDUCE_RISK \<Rightarrow> gc_riskReductionFactor (gm_config m) | TRAIL_STOPS \<Rightarrow> 75 / 100 | STOP_TRADING \<Rightarrow> 0)"
  using assms by (simp add: resetDaily_def getCurrentRiskMultiplier_def updatePnL_def updateRiskMultiplier_def
      isAnyTargetAchieved_def targets_set Let_def split: targetAction.split)

subsection \<open>Streaks\<close>

lemma metrics_counts:
  "ml_days (fold (metricsDay cfg) history l) = ml_days l + length (filter (hitsTarget cfg) history)"
  "ml_profit (fold (metricsDay cfg) history l) = ml_profit l + sum_list (map dy_pnl (filter (hitsTarget cfg) history))"
  by (induction history arbitrary: l) (auto simp: metricsDay_def Let_def)

lemma metrics_streak:
  "ml_streak (fold (metricsDay cfg) history l) =
     (if list_all (hitsTarget cfg) history then ml_streak l + length history
      else length (takeWhile (hitsTarget cfg) (rev history)))"
proof (induction history rule: rev_induct)
  case (snoc d ds)
  then show ?case
    by (auto simp: metricsDay_def Let_def list_all_iff takeWhile_eq_all_conv [THEN iffD2])
qed simp

text \<open>The lengths of the runs of days that reached the target.\<close>

definition runLengths :: "goalConfig \<Rightarrow> dayRecord list \<Rightarrow> nat set" where
  "runLengths cfg history = {length ys |xs ys zs. history = xs @ ys @ zs \<and> list_all (hitsTarget cfg) ys}"

lemma streak_start:
  "ml_streak (fold (metricsDay cfg) history metricsStart) = length (takeWhile (hitsTarget cfg) (rev history))"
  by (auto simp: metrics_streak metricsStart_def list_all_iff takeWhile_eq_all_conv [THEN iffD2])

lemma run_at_end:
  assumes "list_all (hitsTarget cfg) ys"
  shows "length ys \<le> length (takeWhile (hitsTarget cfg) (rev (xs @ ys)))"
proof -
  have "takeWhile (hitsTarget cfg) (rev ys @ rev xs) = rev ys @ takeWhile (hitsTarget cfg) (rev xs)"
    using assms by (intro takeWhile_append2) (auto simp: list_all_iff)
  then show ?thesis by simp
qed

lemma zero_run [simp]: "0 \<in> runLengths cfg history"
proof -
  have "history = [] @ [] @ history \<and> list_all (hitsTarget cfg) [] \<and> (0::nat) = length ([] :: dayRecord list)" by simp
  then show ?thesis unfolding runLengths_def by blast
qed

lemma runLengths_snoc:
  "(\<forall>k\<in>runLengths cfg (ds @ [d]). k \<le> n) \<longleftrightarrow> (\<forall>k\<in>runLengths cfg ds. k \<le> n) \<and>
     (if hitsTarget cfg d then length (takeWhile (hitsTarget cfg) (rev ds)) + 1 \<le> n else True)"
proof -
  have old: "k \<in> runLengths cfg (ds @ [d])" if "k \<in> runLengths cfg ds" for k
    using that by (fastforce simp: runLengths_def)
  have new: "k \<in> runLengths cfg ds \<or> hitsTarget cfg d \<and> k \<le> length (takeWhile (hitsTarget cfg) (rev ds)) + 1"
    if "k \<in> runLengths cfg (ds @ [d])" for k
  proof -
    from that obtain xs ys zs where run: "ds @ [d] = xs @ ys @ zs" "list_all (hitsTarget cfg) ys" "k = length ys"
      by (auto simp: runLengths_def)
    show ?thesis
    proof (cases "zs = []")
      case False
      then have "ds = xs @ ys @ butlast zs"
        using arg_cong [OF run(1), of butlast] by (simp add: butlast_append)
      with run show ?thesis by (auto simp: runLengths_def)
    next
      case True
      show ?thesis
      proof (cases "ys = []")
        case True
        with run show ?thesis by simp
      next
        case False
        from run(1) True have "butlast (ds @ [d]) = butlast (xs @ ys)" "last (ds @ [d]) = last (xs @ ys)" by simp_all
        with False have "ds = xs @ butlast ys" "last ys = d" by (simp_all add: butlast_append)
        moreover from False run have "list_all (hitsTarget cfg) (butlast ys)" "hitsTarget cfg (last ys)"
          by (auto simp: list_all_iff dest: in_set_butlastD)
        ultimately show ?thesis using run_at_end [of cfg "butlast ys" xs] run False by auto
      qed
    qed
  qed
  have longest: "length (takeWhile (hitsTarget cfg) (rev ds)) + 1 \<in> runLengths cfg (ds @ [d])" if "hitsTarget cfg d"
  proof -
    let ?k = "takeWhile (hitsTarget cfg) (rev ds)"
    have "ds = rev (dropWhile (hitsTarget cfg) (rev ds)) @ rev ?k"
      by (metis rev_append rev_rev_ident takeWhile_dropWhile_id)
    then have "ds @ [d] = rev (dropWhile (hitsTarget cfg) (rev ds)) @ (rev ?k @ [d]) @ []" by simp
    moreover have "list_all (hitsTarget cfg) (rev ?k @ [d])"
      using that by (auto simp: list_all_iff dest: set_takeWhileD)
    ultimately show ?thesis unfolding runLengths_def by (metis (mono_tags, lifting) CollectI length_append_singleton length_rev Suc_eq_plus1)
  qed
  show ?thesis using old new longest by (auto; fastforce)
qed

lemma longest_le:
  "ml_longest (fold (metricsDay cfg) history metricsStart) \<le> n \<longleftrightarrow> (\<forall>k\<in>runLengths cfg history. k \<le> n)"
proof (induction history arbitrary: n rule: rev_induct)
  case Nil
  then show ?case by (auto simp: metricsStart_def runLengths_def)
next
  case (snoc d ds)
  have "ml_longest (metricsDay cfg d l) =
      (if hitsTarget cfg d then max (ml_longest l) (ml_streak l + 1) else ml_longest l)" for l
    by (simp add: metricsDay_def Let_def)
  then show ?case by (simp add: runLengths_snoc snoc streak_start)
qed

text \<open>The goal metrics are what they are called: over a history of days with equity the achieved days
  and their profit are those of the days that reached the target, the current streak is the run
  of such days at the end, and the longest streak is the longest run anywhere.\<close>

theorem goal_metrics_meaning:
  "gx_daysTargetAchieved (calculateProfitGoalMetrics history cfg) = length (filter (hitsTarget cfg) history) \<and>
   gx_profitOnTargetDays (calculateProfitGoalMetrics history cfg) = sum_list (map dy_pnl (filter (hitsTarget cfg) history)) \<and>
   gx_consecutiveTargetDays (calculateProfitGoalMetrics history cfg) = length (takeWhile (hitsTarget cfg) (rev history)) \<and>
   gx_longestTargetStreak (calculateProfitGoalMetrics history cfg) = Max (runLengths cfg history)"
proof -
  have fin: "finite (runLengths cfg history)"
  proof (rule finite_subset)
    show "runLengths cfg history \<subseteq> {..length history}" by (auto simp: runLengths_def)
  qed simp
  have ne: "runLengths cfg history \<noteq> {}" using zero_run by blast
  have "ml_longest (fold (metricsDay cfg) history metricsStart) = Max (runLengths cfg history)"
    using longest_le [of cfg history "Max (runLengths cfg history)"]
      longest_le [of cfg history "ml_longest (fold (metricsDay cfg) history metricsStart)"] fin ne
    by (intro antisym) simp_all
  moreover have "runLengths cfg [] = {0}" by (auto simp: runLengths_def)
  moreover have "ml_days metricsStart = 0" "ml_profit metricsStart = 0" by (simp_all add: metricsStart_def)
  ultimately show ?thesis
    by (cases "history = []") (simp_all add: calculateProfitGoalMetrics_def Let_def metrics_counts streak_start
        del: fold.simps fold_Cons)
qed

end
