(* ===== verification/Trading_Risk.thy ===== *)
theory Trading_Risk
  imports Paper_Broker Execution_Plans Smc_Models Profit_Goals
begin

section \<open>Risk checks, sizing and trade intents (src/trading)\<close>

text \<open>
  The risk engine with its exposure calculator and position sizer, the adapters that feed it from
  the broker, and the trade-intent engine that turns execution plans into signals ready for the paper
  exchange. An instrument's step size is positive; a missing instrument has the defaults of the
  source. Sets of keys are lists.
\<close>

subsection \<open>Types (trading/risk/types.ts)\<close>

record riskAccount =
  ra_equity :: number
  ra_availableBalance :: number
  ra_dailyLoss :: number
  ra_realizedPnl :: number

record portfolioPosition =
  po_symbol :: string
  po_side :: direction
  po_quantity :: number
  po_entryPrice :: number
  po_stopLossPrice :: number
  po_notional :: number
  po_unrealizedPnl :: number

record portfolioExposure =
  xp_grossNotional :: number
  xp_netNotional :: number
  xp_longNotional :: number
  xp_shortNotional :: number
  xp_totalRiskAtStop :: number
  xp_openPositionsCount :: nat
  xp_symbolPositionsCount :: "(string, nat) jsmap"

record riskConfig =
  rk_maxOpenPositions :: nat
  rk_maxPositionsPerSymbol :: nat
  rk_maxDailyLossPct :: number
  rk_riskPerTradePct :: number
  rk_maxAccountRiskPct :: number
  rk_defaultLeverage :: number
  rk_maxNotionalPerTrade :: "number option"

record riskCheckResult =
  rr_approved :: bool
  rr_rejectionReasons :: "riskFailure list"
  rr_sizing :: "sizingResult option"

definition DEFAULT_RISK_CONFIG :: riskConfig where
  "DEFAULT_RISK_CONFIG = \<lparr>rk_maxOpenPositions = 3, rk_maxPositionsPerSymbol = 1, rk_maxDailyLossPct = 3 / 100,
     rk_riskPerTradePct = 1 / 100, rk_maxAccountRiskPct = 5 / 100, rk_defaultLeverage = 5,
     rk_maxNotionalPerTrade = Some 50000\<rparr>"

subsection \<open>Exposure (ExposureCalculator.ts)\<close>

definition exposureLoop :: "portfolioPosition \<Rightarrow> portfolioExposure \<Rightarrow> portfolioExposure" where
  "exposureLoop pos e =
     e\<lparr>xp_grossNotional := xp_grossNotional e + po_notional pos,
       xp_longNotional := (if po_side pos = LONG then xp_longNotional e + po_notional pos else xp_longNotional e),
       xp_shortNotional := (if po_side pos = LONG then xp_shortNotional e else xp_shortNotional e + po_notional pos),
       xp_totalRiskAtStop := xp_totalRiskAtStop e + \<bar>po_entryPrice pos - po_stopLossPrice pos\<bar> * po_quantity pos,
       xp_symbolPositionsCount := mset (po_symbol pos)
         (coalesce (mget (xp_symbolPositionsCount e) (po_symbol pos)) 0 + 1) (xp_symbolPositionsCount e)\<rparr>"

definition noExposure :: portfolioExposure where
  "noExposure = \<lparr>xp_grossNotional = 0, xp_netNotional = 0, xp_longNotional = 0, xp_shortNotional = 0,
     xp_totalRiskAtStop = 0, xp_openPositionsCount = 0, xp_symbolPositionsCount = []\<rparr>"

definition calculateExposure :: "portfolioPosition list \<Rightarrow> portfolioExposure" where
  "calculateExposure held =
     (let e = fold exposureLoop held noExposure in
      \<lparr>xp_grossNotional = toFixed 2 (xp_grossNotional e),
       xp_netNotional = toFixed 2 (xp_longNotional e - xp_shortNotional e),
       xp_longNotional = toFixed 2 (xp_longNotional e), xp_shortNotional = toFixed 2 (xp_shortNotional e),
       xp_totalRiskAtStop = toFixed 2 (xp_totalRiskAtStop e), xp_openPositionsCount = length held,
       xp_symbolPositionsCount = xp_symbolPositionsCount e\<rparr>)"

subsection \<open>Position size (PositionSizer.ts)\<close>

text \<open>An entry price of 0 makes the margin quantity infinite, so that the risk decides; without a
  maximal quantity there is no bound.\<close>

definition calculatePositionSize ::
  "number \<Rightarrow> number \<Rightarrow> number \<Rightarrow> number \<Rightarrow> instrument option \<Rightarrow> number \<Rightarrow> riskFailure + sizingResult" where
  "calculatePositionSize accountEquity riskPercent entryPrice stopLossPrice instr leverage =
     (if accountEquity \<le> 0 then Inl NON_POSITIVE_EQUITY
      else if riskPercent \<le> 0 \<or> riskPercent > 1 then Inl INVALID_RISK_PERCENT
      else
        (let stopDistance = \<bar>entryPrice - stopLossPrice\<bar> in
         if stopDistance \<le> 0 then Inl ZERO_STOP_DISTANCE
         else
           (let riskCapital = accountEquity * riskPercent;
                riskQuantity = riskCapital / stopDistance;
                rawQuantity = (if entryPrice = 0 then riskQuantity
                  else min riskQuantity (accountEquity * leverage / entryPrice));
                step = (case instr of None \<Rightarrow> 1 / 1000 | Some i \<Rightarrow> i_stepSize i);
                precision = (case instr of None \<Rightarrow> 3 | Some i \<Rightarrow> i_quantityPrecision i);
                quantity = toFixed precision (of_int \<lfloor>rawQuantity / step\<rfloor> * step);
                minQty = (case instr of None \<Rightarrow> 1 / 1000 | Some i \<Rightarrow> coalesce (i_minQty i) (1 / 1000));
                maxQty = (case instr of None \<Rightarrow> None | Some i \<Rightarrow> i_maxQty i);
                minNotional = (case instr of None \<Rightarrow> 5 | Some i \<Rightarrow> coalesce (i_minNotional i) 5);
                notional = quantity * entryPrice in
            if quantity < minQty then Inl (SUB_MIN_QTY quantity minQty)
            else if (case maxQty of None \<Rightarrow> False | Some m \<Rightarrow> quantity > m)
            then Inl (EXCEEDS_MAX_QTY quantity (coalesce maxQty 0))
            else if notional < minNotional then Inl (SUB_MIN_NOTIONAL (toFixed 2 notional) minNotional)
            else Inr \<lparr>sz_accountEquity = accountEquity, sz_riskPercent = riskPercent, sz_riskCapital = riskCapital,
              sz_stopDistance = stopDistance, sz_quantity = quantity, sz_positionNotional = toFixed 2 notional,
              sz_requiredMargin = toFixed 2 (notional / max 1 leverage), sz_leverage = leverage\<rparr>)))"

subsection \<open>The engine (RiskEngine.ts)\<close>

text \<open>\<open>existingKeys\<close>, which the account check receives, is read nowhere.\<close>

definition checkAccountLimits ::
  "riskConfig \<Rightarrow> riskAccount \<Rightarrow> portfolioExposure \<Rightarrow> string \<Rightarrow> string list \<Rightarrow> riskFailure list" where
  "checkAccountLimits cfg acc exposure symbol cooldownSymbols =
     (if ra_dailyLoss acc \<ge> ra_equity acc * rk_maxDailyLossPct cfg then [DAILY_LOSS_LIMIT_REACHED] else []) @
     (if xp_openPositionsCount exposure \<ge> rk_maxOpenPositions cfg then [MAX_OPEN_POSITIONS_REACHED] else []) @
     (if coalesce (mget (xp_symbolPositionsCount exposure) symbol) 0 \<ge> rk_maxPositionsPerSymbol cfg
      then [POSITION_ALREADY_OPEN] else []) @
     (if symbol \<in> set cooldownSymbols then [COOLDOWN_ACTIVE] else [])"

definition checkSizingLimits :: "riskConfig \<Rightarrow> riskAccount \<Rightarrow> portfolioExposure \<Rightarrow> sizingResult \<Rightarrow> riskFailure list" where
  "checkSizingLimits cfg acc exposure sizing =
     (if sz_requiredMargin sizing > ra_availableBalance acc then [INSUFFICIENT_MARGIN] else []) @
     (if xp_totalRiskAtStop exposure + sz_riskCapital sizing > ra_equity acc * rk_maxAccountRiskPct cfg
      then [MAX_ACCOUNT_RISK_EXCEEDED] else []) @
     (if truthy (rk_maxNotionalPerTrade cfg) \<and> sz_positionNotional sizing > coalesce (rk_maxNotionalPerTrade cfg) 0
      then [MAX_NOTIONAL_EXCEEDED] else [])"

definition validateSignalRisk ::
  "riskConfig \<Rightarrow> goalManager option \<Rightarrow> tradeSignal \<Rightarrow> riskAccount \<Rightarrow> portfolioPosition list \<Rightarrow> instrument option \<Rightarrow>
   string list \<Rightarrow> ms \<Rightarrow> riskCheckResult" where
  "validateSignalRisk cfg goals sig acc openPositions instr cooldownSymbols timestamp =
     (let exposure = calculateExposure openPositions;
          halted = (case goals of None \<Rightarrow> [] | Some g \<Rightarrow>
            if isTradingAllowed g timestamp then [] else [PROFIT_GOAL_TRADING_HALTED]);
          limits = checkAccountLimits cfg acc exposure (ts_symbol sig) cooldownSymbols;
          riskMultiplier = (case goals of None \<Rightarrow> 1 | Some g \<Rightarrow> getCurrentRiskMultiplier g);
          sizeResult = calculatePositionSize (ra_equity acc) (rk_riskPerTradePct cfg * riskMultiplier)
            (ts_entryPrice sig) (ts_stopLossPrice sig) instr (rk_defaultLeverage cfg);
          sizeFailures = (case sizeResult of Inl f \<Rightarrow> [f] | Inr sizing \<Rightarrow> checkSizingLimits cfg acc exposure sizing);
          failures = halted @ limits @ sizeFailures in
      \<lparr>rr_approved = (failures = []), rr_rejectionReasons = failures,
       rr_sizing = (case sizeResult of Inl _ \<Rightarrow> None | Inr sizing \<Rightarrow> Some sizing)\<rparr>)"

subsection \<open>Adapters (adapters.ts)\<close>

definition toRiskAccountState :: "accountState \<Rightarrow> riskAccount" where
  "toRiskAccountState acc =
     \<lparr>ra_equity = a_equity acc, ra_availableBalance = a_availableBalance acc,
      ra_dailyLoss = (let d = coalesce (a_dailyRealizedPnl acc) 0 in if d < 0 then \<bar>d\<bar> else 0),
      ra_realizedPnl = a_totalRealizedPnl acc\<rparr>"

definition protectingStop :: "string \<Rightarrow> order list \<Rightarrow> order option" where
  "protectingStop symbol openOrders =
     find (\<lambda>x. o_symbol x = symbol \<and> o_type x = STOP_MARKET \<and> o_reduceOnly x) openOrders"

definition toPortfolioPositions :: "lib \<Rightarrow> position list \<Rightarrow> order list \<Rightarrow> portfolioPosition list" where
  "toPortfolioPositions L held openOrders =
     map (\<lambda>p. \<lparr>po_symbol = p_symbol p, po_side = (if p_qty p \<ge> 0 then LONG else SHORT), po_quantity = \<bar>p_qty p\<bar>,
         po_entryPrice = p_entryPrice p,
         po_stopLossPrice = coalesce (case protectingStop (p_symbol p) openOrders of None \<Rightarrow> None
           | Some x \<Rightarrow> o_stopPrice x) (p_entryPrice p),
         po_notional = x_mul L \<bar>p_qty p\<bar> (coalesce (p_markPrice p) (p_entryPrice p)),
         po_unrealizedPnl = p_unrealizedPnl p\<rparr>)
       (filter (\<lambda>p. p_status p = OPEN) held)"

subsection \<open>Trade intents (TradeIntentEngine.ts)\<close>

record intentEngine =
  ie_config :: riskConfig
  ie_goals :: "goalManager option"
  ie_activeSignalKeys :: "string list"
  ie_cooldownSymbols :: "string list"

definition processExecutionPlan ::
  "executionPlan \<Rightarrow> riskAccount \<Rightarrow> portfolioPosition list \<Rightarrow> instrument option \<Rightarrow> ms \<Rightarrow> intentEngine \<Rightarrow> tradeSignal \<times> intentEngine" where
  "processExecutionPlan plan acc openPositions instr asOf eng =
     (let raw = translatePlan plan asOf in
      if ts_status raw = AVOID_S then (raw, eng)
      else if ts_signalKey raw \<in> set (ie_activeSignalKeys eng)
      then (raw\<lparr>ts_status := AVOID_S, ts_riskRejectionReasons := [FromRisk DUPLICATE_SIGNAL]\<rparr>, eng)
      else
        (let r = validateSignalRisk (ie_config eng) (ie_goals eng) raw acc openPositions instr (ie_cooldownSymbols eng) asOf in
         if rr_approved r \<and> rr_sizing r \<noteq> None
         then (raw\<lparr>ts_status := PAPER_READY, ts_sizing := rr_sizing r, ts_riskRejectionReasons := []\<rparr>,
           eng\<lparr>ie_activeSignalKeys := ie_activeSignalKeys eng @ [ts_signalKey raw]\<rparr>)
         else (raw\<lparr>ts_status := RISK_REJECTED, ts_sizing := rr_sizing r,
           ts_riskRejectionReasons := map FromRisk (rr_rejectionReasons r)\<rparr>, eng)))"

definition setCooldown :: "string \<Rightarrow> intentEngine \<Rightarrow> intentEngine" where
  "setCooldown symbol eng = eng\<lparr>ie_cooldownSymbols := List.insert symbol (ie_cooldownSymbols eng)\<rparr>"

definition clearCooldown :: "string \<Rightarrow> intentEngine \<Rightarrow> intentEngine" where
  "clearCooldown symbol eng = eng\<lparr>ie_cooldownSymbols := removeAll symbol (ie_cooldownSymbols eng)\<rparr>"

definition clearActiveSignals :: "intentEngine \<Rightarrow> intentEngine" where
  "clearActiveSignals eng = eng\<lparr>ie_activeSignalKeys := []\<rparr>"

end
