(* ===== verification/Risk_Guarantees.thy ===== *)
theory Risk_Guarantees
  imports Trading_Risk Broker_Instances
begin

section \<open>What the risk engine and the intent engine guarantee\<close>

subsection \<open>Exposure\<close>

lemma exposureLoop_sums:
  "xp_totalRiskAtStop (fold exposureLoop held e) =
     xp_totalRiskAtStop e + (\<Sum>p\<leftarrow>held. \<bar>po_entryPrice p - po_stopLossPrice p\<bar> * po_quantity p)"
  "xp_grossNotional (fold exposureLoop held e) = xp_grossNotional e + (\<Sum>p\<leftarrow>held. po_notional p)"
  by (induction held arbitrary: e) (auto simp: exposureLoop_def)

lemma exposureLoop_count:
  "coalesce (mget (xp_symbolPositionsCount (fold exposureLoop held e)) s) 0 =
     coalesce (mget (xp_symbolPositionsCount e) s) 0 + length (filter (\<lambda>p. po_symbol p = s) held)"
  by (induction held arbitrary: e) (auto simp: exposureLoop_def)

lemma calculateExposure_fields:
  "xp_totalRiskAtStop (calculateExposure held) = toFixed 2 (\<Sum>p\<leftarrow>held. \<bar>po_entryPrice p - po_stopLossPrice p\<bar> * po_quantity p)"
  "xp_openPositionsCount (calculateExposure held) = length held"
  "coalesce (mget (xp_symbolPositionsCount (calculateExposure held)) s) 0 = length (filter (\<lambda>p. po_symbol p = s) held)"
  by (simp_all add: calculateExposure_def Let_def exposureLoop_sums exposureLoop_count noExposure_def)

subsection \<open>Size\<close>

text \<open>The rounding down to the step is exact when the step has no more decimals than the
  instrument's quantity precision.\<close>

definition stepOk :: "instrument option \<Rightarrow> bool" where
  "stepOk instr \<longleftrightarrow> (case instr of None \<Rightarrow> True
     | Some i \<Rightarrow> 0 < i_stepSize i \<and> decimals (i_quantityPrecision i) (i_stepSize i) \<and> 0 < coalesce (i_minQty i) (1 / 1000))"

lemma decimals_mult_int: "decimals p x \<Longrightarrow> decimals p (of_int n * x)"
  unfolding decimals_iff by (auto intro: exI [of _ "n * _"])

lemma floor_step:
  fixes raw step :: rat
  assumes "0 < step"
  shows "of_int \<lfloor>raw / step\<rfloor> * step \<le> raw"
proof -
  have "of_int \<lfloor>raw / step\<rfloor> \<le> raw / step" by simp
  then have "of_int \<lfloor>raw / step\<rfloor> * step \<le> raw / step * step" using assms by (intro mult_right_mono) simp_all
  then show ?thesis using assms by simp
qed

lemma calculatePositionSize_sound:
  assumes size: "calculatePositionSize eq pct entry stop instr lev = Inr z" and step: "stepOk instr"
  shows "0 < sz_quantity z" and "sz_quantity z * \<bar>entry - stop\<bar> \<le> eq * pct"
    and "0 < entry \<Longrightarrow> sz_quantity z * entry \<le> eq * lev"
    and "sz_riskCapital z = eq * pct" "0 < eq" "0 < pct" "pct \<le> 1"
    and "sz_positionNotional z = toFixed 2 (sz_quantity z * entry)"
    and "sz_requiredMargin z = toFixed 2 (sz_quantity z * entry / max 1 lev)"
proof -
  define st where "st = (case instr of None \<Rightarrow> 1 / 1000 | Some i \<Rightarrow> i_stepSize i)"
  define pr where "pr = (case instr of None \<Rightarrow> 3 | Some i \<Rightarrow> i_quantityPrecision i)"
  define mn where "mn = (case instr of None \<Rightarrow> 1 / 1000 | Some i \<Rightarrow> coalesce (i_minQty i) (1 / 1000))"
  define raw where "raw = (if entry = 0 then eq * pct / \<bar>entry - stop\<bar> else min (eq * pct / \<bar>entry - stop\<bar>) (eq * lev / entry))"
  have st: "0 < st" "decimals pr st" "0 < mn"
    using step by (auto simp: stepOk_def st_def pr_def mn_def decimals_def toFixed_def grid_def round_away_def split: option.splits)
  have exact: "toFixed pr (of_int \<lfloor>raw / st\<rfloor> * st) = of_int \<lfloor>raw / st\<rfloor> * st"
    using decimals_mult_int [OF st(2)] by simp
  have q: "sz_quantity z = of_int \<lfloor>raw / st\<rfloor> * st" "mn \<le> sz_quantity z" and d: "0 < \<bar>entry - stop\<bar>"
    and rest: "sz_riskCapital z = eq * pct" "0 < eq" "0 < pct" "pct \<le> 1"
      "sz_positionNotional z = toFixed 2 (sz_quantity z * entry)"
      "sz_requiredMargin z = toFixed 2 (sz_quantity z * entry / max 1 lev)"
    using size exact unfolding calculatePositionSize_def Let_def st_def [symmetric] pr_def [symmetric] mn_def [symmetric] raw_def [symmetric]
    by (auto simp: not_less not_le split: if_splits)
  show "0 < sz_quantity z" using q st by linarith
  have le: "sz_quantity z \<le> raw" using floor_step [OF st(1), of raw] q by simp
  have "raw \<le> eq * pct / \<bar>entry - stop\<bar>" by (simp add: raw_def)
  with le have "sz_quantity z \<le> eq * pct / \<bar>entry - stop\<bar>" by linarith
  then have "sz_quantity z * \<bar>entry - stop\<bar> \<le> eq * pct / \<bar>entry - stop\<bar> * \<bar>entry - stop\<bar>"
    using d by (intro mult_right_mono) simp_all
  then show "sz_quantity z * \<bar>entry - stop\<bar> \<le> eq * pct" using d by simp
  show "sz_quantity z * entry \<le> eq * lev" if "0 < entry"
  proof -
    have "raw \<le> eq * lev / entry" using that by (simp add: raw_def)
    with le have "sz_quantity z \<le> eq * lev / entry" by linarith
    then have "sz_quantity z * entry \<le> eq * lev / entry * entry" using that by (intro mult_right_mono) simp_all
    then show ?thesis using that by simp
  qed
  show "sz_riskCapital z = eq * pct" "0 < eq" "0 < pct" "pct \<le> 1"
    "sz_positionNotional z = toFixed 2 (sz_quantity z * entry)"
    "sz_requiredMargin z = toFixed 2 (sz_quantity z * entry / max 1 lev)"
    by (fact rest)+
qed

subsection \<open>Approved intents\<close>

lemma validateSignalRisk_approved:
  assumes "rr_approved (validateSignalRisk cfg goals sig acc held instr cool t)"
  obtains z where "rr_sizing (validateSignalRisk cfg goals sig acc held instr cool t) = Some z"
    "calculatePositionSize (ra_equity acc) (rk_riskPerTradePct cfg * (case goals of None \<Rightarrow> 1 | Some g \<Rightarrow> getCurrentRiskMultiplier g))
       (ts_entryPrice sig) (ts_stopLossPrice sig) instr (rk_defaultLeverage cfg) = Inr z"
    "checkSizingLimits cfg acc (calculateExposure held) z = []"
    "checkAccountLimits cfg acc (calculateExposure held) (ts_symbol sig) cool = []"
    "(case goals of None \<Rightarrow> True | Some g \<Rightarrow> isTradingAllowed g t)"
  using assms by (auto simp: validateSignalRisk_def Let_def split: sum.splits option.splits if_splits)

lemma processExecutionPlan_ready:
  assumes "processExecutionPlan plan acc held instr asOf eng = (sig, eng')" and "ts_status sig = PAPER_READY"
  obtains z where "ts_status (translatePlan plan asOf) = VALIDATED"
    "sig = (translatePlan plan asOf)\<lparr>ts_status := PAPER_READY, ts_sizing := Some z, ts_riskRejectionReasons := []\<rparr>"
    "ts_signalKey sig \<notin> set (ie_activeSignalKeys eng)" "ie_activeSignalKeys eng' = ie_activeSignalKeys eng @ [ts_signalKey sig]"
    "rr_approved (validateSignalRisk (ie_config eng) (ie_goals eng) (translatePlan plan asOf) acc held instr (ie_cooldownSymbols eng) asOf)"
    "rr_sizing (validateSignalRisk (ie_config eng) (ie_goals eng) (translatePlan plan asOf) acc held instr (ie_cooldownSymbols eng) asOf) = Some z"
proof -
  have st: "ts_status (translatePlan plan asOf) = VALIDATED \<or> ts_status (translatePlan plan asOf) = AVOID_S"
    by (simp add: translatePlan_def)
  show thesis
    using assms st by (auto simp: processExecutionPlan_def Let_def intro!: that split: if_splits)
qed

lemma translatePlan_fields [simp]:
  "ts_entryPrice (translatePlan plan t) = ep_entryPrice plan" "ts_stopLossPrice (translatePlan plan t) = ep_stopLossPrice plan"
  "ts_symbol (translatePlan plan t) = ep_symbol plan" "ts_direction (translatePlan plan t) = ep_direction plan"
  "ts_status (translatePlan plan t) = VALIDATED \<longleftrightarrow> ep_status plan = EXECUTABLE"
  "ts_status (translatePlan plan t) = AVOID_S \<longleftrightarrow> ep_status plan \<noteq> EXECUTABLE"
  by (simp_all add: translatePlan_def)

lemma ready_intent_size:
  assumes run: "processExecutionPlan plan acc held instr asOf eng = (sig, eng')" and ready: "ts_status sig = PAPER_READY"
    and step: "stepOk instr"
  shows "\<exists>z. ts_sizing sig = Some z \<and> 0 < sz_quantity z \<and>
    sz_quantity z * \<bar>ep_entryPrice plan - ep_stopLossPrice plan\<bar> \<le> sz_riskCapital z \<and>
    sz_riskCapital z = ra_equity acc * (rk_riskPerTradePct (ie_config eng) *
      (case ie_goals eng of None \<Rightarrow> 1 | Some g \<Rightarrow> getCurrentRiskMultiplier g))"
proof -
  from run ready obtain z where sig: "ts_sizing sig = Some z"
    and ap: "rr_approved (validateSignalRisk (ie_config eng) (ie_goals eng) (translatePlan plan asOf) acc held instr (ie_cooldownSymbols eng) asOf)"
    and sz: "rr_sizing (validateSignalRisk (ie_config eng) (ie_goals eng) (translatePlan plan asOf) acc held instr (ie_cooldownSymbols eng) asOf) = Some z"
    by (rule processExecutionPlan_ready) simp
  from ap sz have size: "calculatePositionSize (ra_equity acc) (rk_riskPerTradePct (ie_config eng) *
      (case ie_goals eng of None \<Rightarrow> 1 | Some g \<Rightarrow> getCurrentRiskMultiplier g))
      (ep_entryPrice plan) (ep_stopLossPrice plan) instr (rk_defaultLeverage (ie_config eng)) = Inr z"
    by (auto elim!: validateSignalRisk_approved)
  from sig calculatePositionSize_sound [OF size step] show ?thesis by simp
qed

text \<open>A signal the intent engine declares ready respects every limit: it comes from an executable
  plan with a new key; the loss at its stop is within the risk per trade and, with the risk of the
  open positions, within the account's; its notional is within the leverage, its margin within the
  available balance; and neither the daily loss, the number of positions, a cooldown nor a profit
  goal forbids it.\<close>

theorem ready_signal_within_limits:
  assumes run: "processExecutionPlan plan acc held instr asOf eng = (sig, eng')" and ready: "ts_status sig = PAPER_READY"
    and step: "stepOk instr" and entry: "0 < ep_entryPrice plan"
  shows "\<exists>z. ts_sizing sig = Some z \<and> ep_status plan = EXECUTABLE \<and> 0 < sz_quantity z \<and>
    sz_quantity z * \<bar>ep_entryPrice plan - ep_stopLossPrice plan\<bar> \<le> sz_riskCapital z \<and>
    sz_riskCapital z = ra_equity acc * (rk_riskPerTradePct (ie_config eng) *
      (case ie_goals eng of None \<Rightarrow> 1 | Some g \<Rightarrow> getCurrentRiskMultiplier g)) \<and>
    toFixed 2 (\<Sum>p\<leftarrow>held. \<bar>po_entryPrice p - po_stopLossPrice p\<bar> * po_quantity p) + sz_riskCapital z
      \<le> ra_equity acc * rk_maxAccountRiskPct (ie_config eng) \<and>
    sz_quantity z * ep_entryPrice plan \<le> ra_equity acc * rk_defaultLeverage (ie_config eng) \<and>
    sz_requiredMargin z \<le> ra_availableBalance acc \<and>
    ra_dailyLoss acc < ra_equity acc * rk_maxDailyLossPct (ie_config eng) \<and>
    length held < rk_maxOpenPositions (ie_config eng) \<and>
    length (filter (\<lambda>p. po_symbol p = ep_symbol plan) held) < rk_maxPositionsPerSymbol (ie_config eng) \<and>
    ep_symbol plan \<notin> set (ie_cooldownSymbols eng) \<and> ts_signalKey sig \<notin> set (ie_activeSignalKeys eng) \<and>
    ts_signalKey sig \<in> set (ie_activeSignalKeys eng') \<and>
    (case ie_goals eng of None \<Rightarrow> True | Some g \<Rightarrow> isTradingAllowed g asOf)"
proof -
  from run ready obtain z where v: "ts_status (translatePlan plan asOf) = VALIDATED"
    and sig: "sig = (translatePlan plan asOf)\<lparr>ts_status := PAPER_READY, ts_sizing := Some z, ts_riskRejectionReasons := []\<rparr>"
    and keys: "ts_signalKey sig \<notin> set (ie_activeSignalKeys eng)" "ie_activeSignalKeys eng' = ie_activeSignalKeys eng @ [ts_signalKey sig]"
    and ap: "rr_approved (validateSignalRisk (ie_config eng) (ie_goals eng) (translatePlan plan asOf) acc held instr (ie_cooldownSymbols eng) asOf)"
    and sz: "rr_sizing (validateSignalRisk (ie_config eng) (ie_goals eng) (translatePlan plan asOf) acc held instr (ie_cooldownSymbols eng) asOf) = Some z"
    by (rule processExecutionPlan_ready)
  from ap sz have size: "calculatePositionSize (ra_equity acc) (rk_riskPerTradePct (ie_config eng) *
      (case ie_goals eng of None \<Rightarrow> 1 | Some g \<Rightarrow> getCurrentRiskMultiplier g))
      (ep_entryPrice plan) (ep_stopLossPrice plan) instr (rk_defaultLeverage (ie_config eng)) = Inr z"
    and lim: "checkSizingLimits (ie_config eng) acc (calculateExposure held) z = []"
    and accl: "checkAccountLimits (ie_config eng) acc (calculateExposure held) (ep_symbol plan) (ie_cooldownSymbols eng) = []"
    and goals: "(case ie_goals eng of None \<Rightarrow> True | Some g \<Rightarrow> isTradingAllowed g asOf)"
    by (auto elim!: validateSignalRisk_approved)
  note sound = calculatePositionSize_sound [OF size step]
  from lim have "sz_requiredMargin z \<le> ra_availableBalance acc"
    "toFixed 2 (\<Sum>p\<leftarrow>held. \<bar>po_entryPrice p - po_stopLossPrice p\<bar> * po_quantity p) + sz_riskCapital z
      \<le> ra_equity acc * rk_maxAccountRiskPct (ie_config eng)"
    by (auto simp: checkSizingLimits_def calculateExposure_fields not_less split: if_splits)
  moreover from accl have "ra_dailyLoss acc < ra_equity acc * rk_maxDailyLossPct (ie_config eng)"
    "length held < rk_maxOpenPositions (ie_config eng)"
    "length (filter (\<lambda>p. po_symbol p = ep_symbol plan) held) < rk_maxPositionsPerSymbol (ie_config eng)"
    "ep_symbol plan \<notin> set (ie_cooldownSymbols eng)"
    by (auto simp: checkAccountLimits_def calculateExposure_fields not_le split: if_splits)
  moreover have "ts_sizing sig = Some z" "ep_status plan = EXECUTABLE" using sig v by simp_all
  ultimately show ?thesis using sound entry keys goals by (intro exI [of _ z]) simp
qed

text \<open>An executable plan for a long at 100 with its stop at 95, an account of 10000 and a fresh engine.\<close>

definition longPlan :: executionPlan where
  "longPlan = \<lparr>ep_id = ''PLAN:U'', ep_symbol = ''BTC'', ep_setupCandidateId = ''U'', ep_direction = LONG_D,
     ep_status = EXECUTABLE, ep_entryPrice = 100, ep_entryZone = \<lparr>z_upper = 101, z_lower = 99\<rparr>, ep_stopLossPrice = 95,
     ep_takeProfitLevels = [], ep_riskReward = \<lparr>rr_tp1 = 2, rr_tp2 = 3, rr_tp3 = 4\<rparr>, ep_riskDistance = 5,
     ep_rewardDistance = 10, ep_invalidationPrice = 95, ep_invalidationType = ZONE_INVALIDATION, ep_createdAt = 0,
     ep_expiresAt = 1000, ep_validationFailures = [], ep_setupType = SSL_SWEEP_REVERSAL_LONG, ep_confluenceScore = 80,
     ep_sourceEventIds = [], ep_sourceCandleTimes = []\<rparr>"

definition solvent :: riskAccount where
  "solvent = \<lparr>ra_equity = 10000, ra_availableBalance = 10000, ra_dailyLoss = 0, ra_realizedPnl = 0\<rparr>"

definition freshIntents :: intentEngine where
  "freshIntents = \<lparr>ie_config = DEFAULT_RISK_CONFIG, ie_goals = None, ie_activeSignalKeys = [], ie_cooldownSymbols = []\<rparr>"

definition sizedLong :: sizingResult where
  "sizedLong = \<lparr>sz_accountEquity = 10000, sz_riskPercent = 1 / 100, sz_riskCapital = 100, sz_stopDistance = 5,
     sz_quantity = 20, sz_positionNotional = 2000, sz_requiredMargin = 400, sz_leverage = 5\<rparr>"

lemma longPlan_size: "calculatePositionSize 10000 (1 / 100) 100 95 None 5 = Inr sizedLong"
  by (simp add: calculatePositionSize_def sizedLong_def Let_def toFixed_def grid_def round_away_def)

lemma solvent_intent_ready:
  assumes "ep_status plan = EXECUTABLE" and size: "calculatePositionSize 10000 (1 / 100) (ep_entryPrice plan) (ep_stopLossPrice plan) None 5 = Inr z"
    and "sz_requiredMargin z \<le> 10000" "sz_riskCapital z \<le> 500" "sz_positionNotional z \<le> 50000"
  shows "processExecutionPlan plan solvent [] None t freshIntents =
     ((translatePlan plan t)\<lparr>ts_status := PAPER_READY, ts_sizing := Some z, ts_riskRejectionReasons := []\<rparr>,
      freshIntents\<lparr>ie_activeSignalKeys := [ts_signalKey (translatePlan plan t)]\<rparr>)"
proof -
  have "validateSignalRisk DEFAULT_RISK_CONFIG None (translatePlan plan t) solvent [] None [] t =
      \<lparr>rr_approved = True, rr_rejectionReasons = [], rr_sizing = Some z\<rparr>"
    using assms
    by (simp add: validateSignalRisk_def Let_def solvent_def DEFAULT_RISK_CONFIG_def checkAccountLimits_def
        checkSizingLimits_def calculateExposure_def noExposure_def fxd.rnd_zero)
  then show ?thesis using assms(1) by (simp add: processExecutionPlan_def Let_def freshIntents_def)
qed

lemma longPlan_ready:
  "processExecutionPlan longPlan solvent [] None 7 freshIntents =
     ((translatePlan longPlan 7)\<lparr>ts_status := PAPER_READY, ts_sizing := Some sizedLong, ts_riskRejectionReasons := []\<rparr>,
      freshIntents\<lparr>ie_activeSignalKeys := [ts_signalKey (translatePlan longPlan 7)]\<rparr>)"
proof (rule solvent_intent_ready)
  show "calculatePositionSize 10000 (1 / 100) (ep_entryPrice longPlan) (ep_stopLossPrice longPlan) None 5 = Inr sizedLong"
    using longPlan_size by (simp add: longPlan_def)
qed (simp_all add: longPlan_def sizedLong_def)

theorem ready_signal_within_limits_witness:
  "ep_status longPlan = EXECUTABLE \<and> sz_quantity sizedLong * 5 \<le> sz_riskCapital sizedLong \<and>
   sz_requiredMargin sizedLong \<le> ra_availableBalance solvent"
  using ready_signal_within_limits [OF longPlan_ready] by (simp add: stepOk_def longPlan_def)

end
