(* ===== verification/Smc_Broker.thy ===== *)
theory Smc_Broker
  imports Smc_Models Setup_Types
begin

section \<open>The SMC paper exchange (SmcPaperBroker and its account, journal, ledger and metrics)\<close>

text \<open>
  \<open>PaperAccount\<close>, \<open>PaperEventJournal\<close>, \<open>PaperLedger\<close>, \<open>PaperMetrics\<close> and \<open>SmcPaperBroker\<close>: the
  bar-driven simulator that takes trade signals, fills their entry orders, attaches stop and
  target orders and settles them. Orders and positions are shared mutable objects in the source,
  reached through the maps; here an operation updates the entry of the map. The operations that
  evaluate fills throw with an unimplemented slippage model, so they return outcomes.
\<close>

subsection \<open>Account (PaperAccount.ts)\<close>

record paperAccount =
  pa_balance :: number
  pa_totalFees :: number
  pa_realizedPnl :: number

record paperAccountState =
  ps_balance :: number
  ps_equity :: number
  ps_availableBalance :: number
  ps_usedMargin :: number
  ps_unrealizedPnl :: number
  ps_realizedPnl :: number
  ps_totalFees :: number

definition newPaperAccount :: "number \<Rightarrow> paperAccount" where
  "newPaperAccount initialBalance = \<lparr>pa_balance = initialBalance, pa_totalFees = 0, pa_realizedPnl = 0\<rparr>"

definition getAccountState :: "paperAccount \<Rightarrow> paperPosition list \<Rightarrow> paperAccountState" where
  "getAccountState acc positions =
     (let opn = filter (\<lambda>p. sp_state p = OPEN_P) positions;
          usedMargin = sum_list (map sp_usedMargin opn);
          unrealizedPnl = sum_list (map sp_unrealizedPnl opn);
          equity = pa_balance acc + unrealizedPnl;
          availableBalance = max 0 (equity - usedMargin) in
      \<lparr>ps_balance = toFixed 2 (pa_balance acc), ps_equity = toFixed 2 equity,
       ps_availableBalance = toFixed 2 availableBalance, ps_usedMargin = toFixed 2 usedMargin,
       ps_unrealizedPnl = toFixed 4 unrealizedPnl, ps_realizedPnl = toFixed 4 (pa_realizedPnl acc),
       ps_totalFees = toFixed 4 (pa_totalFees acc)\<rparr>)"

definition chargeFee :: "number \<Rightarrow> paperAccount \<Rightarrow> paperAccount" where
  "chargeFee fee acc = acc\<lparr>pa_totalFees := pa_totalFees acc + fee, pa_balance := toFixed 4 (pa_balance acc - fee)\<rparr>"

definition creditRealizedPnl :: "number \<Rightarrow> paperAccount \<Rightarrow> paperAccount" where
  "creditRealizedPnl gross acc =
     acc\<lparr>pa_realizedPnl := pa_realizedPnl acc + gross, pa_balance := toFixed 4 (pa_balance acc + gross)\<rparr>"

subsection \<open>Event journal (PaperEventJournal.ts)\<close>

datatype paperEventType =
  ORDER_ACCEPTED | ENTRY_FILLED | STOP_FILLED | TP_FILLED nat | POSITION_LIQUIDATED | FUNDING_APPLIED

record paperEvent =
  pe_eventId :: string
  pe_timestamp :: ms
  pe_symbol :: string
  pe_orderId :: "smcOrderId option"
  pe_positionId :: "positionId option"
  pe_signalKey :: "string option"
  pe_eventType :: paperEventType
  pe_price :: "number option"
  pe_quantity :: "number option"

definition recordEvent ::
  "ms \<Rightarrow> string \<Rightarrow> smcOrderId option \<Rightarrow> positionId option \<Rightarrow> string option \<Rightarrow> paperEventType \<Rightarrow> number option \<Rightarrow>
   number option \<Rightarrow> paperEvent list \<Rightarrow> paperEvent list" where
  "recordEvent timestamp symbol orderId posId signalKey eventType price quantity events =
     events @ [\<lparr>pe_eventId = ''EVT:'' @ showNat (length events + 1) @ '':'' @ showInt timestamp,
       pe_timestamp = timestamp, pe_symbol = symbol, pe_orderId = orderId, pe_positionId = posId,
       pe_signalKey = signalKey, pe_eventType = eventType, pe_price = price, pe_quantity = quantity\<rparr>]"

definition getEvents :: "string option \<Rightarrow> paperEvent list \<Rightarrow> paperEvent list" where
  "getEvents symbol events =
     (case symbol of None \<Rightarrow> events
      | Some s \<Rightarrow> if s = [] then events else filter (\<lambda>e. pe_symbol e = s) events)"

subsection \<open>Trade ledger (PaperLedger.ts)\<close>

datatype tradeStatus = OPEN_T | CLOSED_T | STOPPED_T | TAKE_PROFIT_T | LIQUIDATED_T | CANCELED_T

datatype exitReason = STOP_LOSS_X | TP_FULL_X nat | LIQUIDATED_X

record paperTradeRecord =
  td_tradeId :: positionId
  td_signalId :: string
  td_symbol :: string
  td_setupType :: setupArchetype
  td_direction :: direction
  td_entryPrice :: number
  td_exitPrice :: "number option"
  td_initialStopLoss :: number
  td_finalStopLoss :: number
  td_tp1Price :: number
  td_tp2Price :: number
  td_tp3Price :: number
  td_quantity :: number
  td_leverage :: number
  td_fees :: number
  td_grossPnl :: number
  td_netPnl :: number
  td_maxFavorableExcursion :: number
  td_maxAdverseExcursion :: number
  td_entryTimestamp :: ms
  td_exitTimestamp :: "ms option"
  td_exitReason :: "exitReason option"
  td_durationMs :: "ms option"
  td_plannedRiskReward :: number
  td_realizedRiskReward :: "number option"
  td_status :: tradeStatus
  td_lifecycle :: "lifecycle list"

text \<open>The key \<open>TRD:position\<close> is the position's identifier.\<close>

type_synonym tradeLedger = "(positionId, paperTradeRecord) jsmap"

definition priceAt :: "number list \<Rightarrow> nat \<Rightarrow> number" where
  "priceAt xs i = (if i < length xs then xs ! i else 0)"

definition recordTradeOpen ::
  "paperPosition \<Rightarrow> number \<Rightarrow> string \<Rightarrow> setupArchetype \<Rightarrow> tradeLedger \<Rightarrow> tradeLedger" where
  "recordTradeOpen pos plannedRR signalId setupType records =
     mset (sp_id pos)
       \<lparr>td_tradeId = sp_id pos, td_signalId = signalId, td_symbol = sp_symbol pos, td_setupType = setupType,
        td_direction = sp_side pos, td_entryPrice = sp_averageEntryPrice pos, td_exitPrice = None,
        td_initialStopLoss = sp_plannedStopPrice pos, td_finalStopLoss = sp_stopLossPrice pos,
        td_tp1Price = priceAt (sp_takeProfitPrices pos) 0, td_tp2Price = priceAt (sp_takeProfitPrices pos) 1,
        td_tp3Price = priceAt (sp_takeProfitPrices pos) 2, td_quantity = sp_initialQuantity pos,
        td_leverage = sp_leverage pos, td_fees = sp_fees pos, td_grossPnl = 0, td_netPnl = - sp_fees pos,
        td_maxFavorableExcursion = 0, td_maxAdverseExcursion = 0, td_entryTimestamp = sp_openedAt pos,
        td_exitTimestamp = None, td_exitReason = None, td_durationMs = None, td_plannedRiskReward = plannedRR,
        td_realizedRiskReward = None, td_status = OPEN_T, td_lifecycle = [sp_lifecycle pos]\<rparr> records"

definition progressOf :: "paperPosition \<Rightarrow> paperTradeRecord \<Rightarrow> paperTradeRecord" where
  "progressOf pos r =
     (let isLong = (sp_side pos = LONG);
          mfe = (if isLong then max 0 (sp_highestPriceReached pos - sp_averageEntryPrice pos)
                 else max 0 (sp_averageEntryPrice pos - sp_lowestPriceReached pos));
          mae = (if isLong then max 0 (sp_averageEntryPrice pos - sp_lowestPriceReached pos)
                 else max 0 (sp_highestPriceReached pos - sp_averageEntryPrice pos)) in
      r\<lparr>td_maxFavorableExcursion := toFixed 4 mfe, td_maxAdverseExcursion := toFixed 4 mae,
        td_finalStopLoss := sp_stopLossPrice pos, td_fees := sp_fees pos, td_grossPnl := sp_realizedPnl pos,
        td_netPnl := toFixed 4 (sp_realizedPnl pos - sp_fees pos),
        td_lifecycle := (if sp_lifecycle pos \<in> set (td_lifecycle r) then td_lifecycle r
          else td_lifecycle r @ [sp_lifecycle pos])\<rparr>)"

definition updateTradeProgress :: "paperPosition \<Rightarrow> tradeLedger \<Rightarrow> tradeLedger" where
  "updateTradeProgress pos records = mupd (sp_id pos) (progressOf pos) records"

text \<open>A quotient by a quantity of 0 is \<open>NaN\<close> or infinite: \<open>None\<close>.\<close>

definition finalOf :: "paperPosition \<Rightarrow> number \<Rightarrow> exitReason \<Rightarrow> ms \<Rightarrow> paperTradeRecord \<Rightarrow> paperTradeRecord" where
  "finalOf pos exitPrice reason exitTimestamp r0 =
     (let r = progressOf pos r0;
          riskDist = \<bar>td_entryPrice r - td_initialStopLoss r\<bar> in
      r\<lparr>td_exitPrice := Some exitPrice, td_exitTimestamp := Some exitTimestamp, td_exitReason := Some reason,
        td_durationMs := Some (exitTimestamp - td_entryTimestamp r),
        td_status := (if sp_lifecycle pos = LIQUIDATED_L then LIQUIDATED_T else CLOSED_T),
        td_realizedRiskReward := (if riskDist > 0
          then (if td_quantity r = 0 then None else Some (toFixed 2 (td_grossPnl r / td_quantity r / riskDist)))
          else td_realizedRiskReward r)\<rparr>)"

definition finalizeTrade :: "paperPosition \<Rightarrow> number \<Rightarrow> exitReason \<Rightarrow> ms \<Rightarrow> tradeLedger \<Rightarrow> tradeLedger" where
  "finalizeTrade pos exitPrice reason exitTimestamp records =
     mupd (sp_id pos) (finalOf pos exitPrice reason exitTimestamp) records"

subsection \<open>Metrics (PaperMetrics.ts)\<close>

text \<open>\<open>profitFactor\<close> is \<open>None\<close> where the source has the positive infinity.\<close>

record performanceMetrics =
  pm_totalTrades :: nat
  pm_winningTrades :: nat
  pm_losingTrades :: nat
  pm_winRate :: number
  pm_grossProfit :: number
  pm_grossLoss :: number
  pm_netPnL :: number
  pm_totalFees :: number
  pm_profitFactor :: "number option"
  pm_averageR :: number
  pm_maxDrawdown :: number
  pm_averageTrade :: number
  pm_averageWinner :: number
  pm_averageLoser :: number
  pm_largestWinner :: number
  pm_largestLoser :: number
  pm_averageHoldingTimeMs :: int

definition emptyMetrics :: performanceMetrics where
  "emptyMetrics = \<lparr>pm_totalTrades = 0, pm_winningTrades = 0, pm_losingTrades = 0, pm_winRate = 0,
     pm_grossProfit = 0, pm_grossLoss = 0, pm_netPnL = 0, pm_totalFees = 0, pm_profitFactor = Some 0,
     pm_averageR = 0, pm_maxDrawdown = 0, pm_averageTrade = 0, pm_averageWinner = 0, pm_averageLoser = 0,
     pm_largestWinner = 0, pm_largestLoser = 0, pm_averageHoldingTimeMs = 0\<rparr>"

fun drawdownLoop :: "number list \<Rightarrow> number \<Rightarrow> number \<Rightarrow> number \<Rightarrow> number" where
  "drawdownLoop [] cumulative peak maxDrawdown = maxDrawdown"
| "drawdownLoop (x # xs) cumulative peak maxDrawdown =
     (let c = cumulative + x; p = max peak c in drawdownLoop xs c p (max maxDrawdown (p - c)))"

definition calculateMaxDrawdown :: "paperTradeRecord list \<Rightarrow> number" where
  "calculateMaxDrawdown trades =
     toFixed 4 (drawdownLoop (map td_netPnl (sort_key (\<lambda>t. coalesce (td_exitTimestamp t) 0) trades)) 0 0 0)"

definition closedTrades :: "paperTradeRecord list \<Rightarrow> paperTradeRecord list" where
  "closedTrades trades = filter (\<lambda>t. td_status t \<in> {CLOSED_T, LIQUIDATED_T, STOPPED_T}) trades"

definition calculateMetrics :: "paperTradeRecord list \<Rightarrow> performanceMetrics" where
  "calculateMetrics trades =
     (let cl = closedTrades trades in
      if cl = [] then emptyMetrics
      else
        (let winners = filter (\<lambda>t. td_netPnl t > 0) cl;
             losers = filter (\<lambda>t. \<not> td_netPnl t > 0) cl;
             grossProfit = sum_list (map td_netPnl winners);
             grossLoss = sum_list (map (\<lambda>t. \<bar>td_netPnl t\<bar>) losers);
             totalFees = sum_list (map td_fees cl);
             totalR = sum_list (map (\<lambda>t. coalesce (td_realizedRiskReward t) 0) cl);
             totalDuration = sum_list (map (\<lambda>t. coalesce (td_durationMs t) 0) cl);
             n = of_nat (length cl);
             netPnL = toFixed 4 (grossProfit - grossLoss) in
         \<lparr>pm_totalTrades = length cl, pm_winningTrades = length winners, pm_losingTrades = length losers,
          pm_winRate = toFixed 4 (of_nat (length winners) / n),
          pm_grossProfit = toFixed 4 grossProfit, pm_grossLoss = toFixed 4 grossLoss, pm_netPnL = netPnL,
          pm_totalFees = toFixed 4 totalFees,
          pm_profitFactor = (if grossLoss > 0 then Some (toFixed 2 (grossProfit / grossLoss))
            else if grossProfit > 0 then None else Some 0),
          pm_averageR = toFixed 2 (totalR / n), pm_maxDrawdown = calculateMaxDrawdown cl,
          pm_averageTrade = toFixed 4 (netPnL / n),
          pm_averageWinner = (if length winners > 0 then toFixed 4 (grossProfit / of_nat (length winners)) else 0),
          pm_averageLoser = (if length losers > 0 then toFixed 4 (grossLoss / of_nat (length losers)) else 0),
          pm_largestWinner = toFixed 4 (fold max (map td_netPnl winners) 0),
          pm_largestLoser = toFixed 4 (fold max (map (\<lambda>t. \<bar>td_netPnl t\<bar>) losers) 0),
          pm_averageHoldingTimeMs = math_round (of_int totalDuration / n)\<rparr>))"

subsection \<open>The broker (SmcPaperBroker.ts)\<close>

definition defaultPaperConfig :: smcConfig where
  "defaultPaperConfig = \<lparr>sc_makerFeeRate = 2 / 10000, sc_takerFeeRate = 4 / 10000,
     sc_slippageModel = NONE_SLIP, sc_slippageFixedTicks = None, sc_slippageBps = None,
     sc_breakevenEnabled = True, sc_breakevenOffsetTicks = 2, sc_maintenanceMarginRate = 5 / 1000\<rparr>"

record smcBroker =
  sb_config :: smcConfig
  sb_account :: paperAccount
  sb_events :: "paperEvent list"
  sb_ledger :: tradeLedger
  sb_orders :: "(smcOrderId, paperOrder) jsmap"
  sb_fills :: "paperFill list"
  sb_positions :: "(string, paperPosition) jsmap"
  sb_signals :: "(string, tradeSignal) jsmap"

definition newSmcBroker :: "number \<Rightarrow> smcConfig \<Rightarrow> smcBroker" where
  "newSmcBroker initialBalance cfg = \<lparr>sb_config = cfg, sb_account = newPaperAccount initialBalance,
     sb_events = [], sb_ledger = [], sb_orders = [], sb_fills = [], sb_positions = [], sb_signals = []\<rparr>"

definition resetSmcBroker :: "number \<Rightarrow> smcBroker \<Rightarrow> smcBroker" where
  "resetSmcBroker initialBalance b = newSmcBroker initialBalance (sb_config b)"

datatype submission = Refused string | AcceptedOrder smcOrderId

definition entryOrder :: "tradeSignal \<Rightarrow> ms \<Rightarrow> paperOrder" where
  "entryOrder sig asOf =
     \<lparr>so_id = EntryId (ts_signalKey sig), so_symbol = ts_symbol sig,
      so_side = (if ts_direction sig = LONG_D then BUY else SELL), so_type = LIMIT_O,
      so_quantity = (case ts_sizing sig of None \<Rightarrow> 0 | Some z \<Rightarrow> sz_quantity z), so_filledQuantity = 0,
      so_price = Some (ts_entryPrice sig), so_stopPrice = None, so_reduceOnly = False, so_status = NEW_S,
      so_createdAt = asOf, so_updatedAt = asOf, so_signalKey = ts_signalKey sig,
      so_setupId = ts_sourceSetupId sig, so_executionPlanId = ts_sourceExecutionPlanId sig,
      so_positionId = None, so_targetLevel = None\<rparr>"

definition submitTradeSignal :: "tradeSignal \<Rightarrow> ms \<Rightarrow> smcBroker \<Rightarrow> submission \<times> smcBroker" where
  "submitTradeSignal sig asOf b =
     (if ts_status sig \<noteq> PAPER_READY then (Refused ''Signal is not in PAPER_READY status'', b)
      else
        (case mget (sb_orders b) (EntryId (ts_signalKey sig)) of
           Some _ \<Rightarrow> (Refused ''DUPLICATE_SIGNAL_KEY'', b)
         | None \<Rightarrow>
             (let ord = entryOrder sig asOf in
              (AcceptedOrder (so_id ord),
               b\<lparr>sb_orders := mset (so_id ord) ord (sb_orders b),
                 sb_signals := mset (ts_signalKey sig) sig (sb_signals b),
                 sb_events := recordEvent asOf (ts_symbol sig) (Some (so_id ord)) None (Some (ts_signalKey sig))
                   ORDER_ACCEPTED (so_price ord) (Some (so_quantity ord)) (sb_events b)\<rparr>))))"

definition cancelSignalOrder :: "string \<Rightarrow> ms \<Rightarrow> smcBroker \<Rightarrow> bool \<times> smcBroker" where
  "cancelSignalOrder signalKey now b =
     (case mget (sb_orders b) (EntryId signalKey) of
        None \<Rightarrow> (False, b)
      | Some ord \<Rightarrow>
          if so_status ord \<noteq> NEW_S then (False, b)
          else (True, b\<lparr>sb_orders := mset (EntryId signalKey)
            (ord\<lparr>so_status := CANCELED_S, so_updatedAt := now\<rparr>) (sb_orders b)\<rparr>))"

text \<open>The stop and the targets of a position.\<close>

definition smcExitSide :: "paperPosition \<Rightarrow> orderSide" where
  "smcExitSide pos = (if sp_side pos = LONG then SELL else BUY)"

definition stopOrderFor :: "paperPosition \<Rightarrow> paperOrder" where
  "stopOrderFor pos =
     \<lparr>so_id = StopId (sp_id pos), so_symbol = sp_symbol pos, so_side = smcExitSide pos, so_type = STOP_O,
      so_quantity = sp_quantity pos, so_filledQuantity = 0, so_price = None,
      so_stopPrice = Some (sp_stopLossPrice pos), so_reduceOnly = True, so_status = NEW_S,
      so_createdAt = sp_openedAt pos, so_updatedAt = sp_openedAt pos, so_signalKey = sp_signalKey pos,
      so_setupId = sp_setupId pos, so_executionPlanId = sp_executionPlanId pos,
      so_positionId = Some (sp_id pos), so_targetLevel = None\<rparr>"

definition targetOrderFor :: "paperPosition \<Rightarrow> takeProfitAllocation \<Rightarrow> paperOrder" where
  "targetOrderFor pos tp =
     \<lparr>so_id = TargetId (sp_id pos) (ta_level tp), so_symbol = sp_symbol pos, so_side = smcExitSide pos,
      so_type = TAKE_PROFIT_O, so_quantity = toFixed 3 (sp_quantity pos * ta_allocationPct tp),
      so_filledQuantity = 0, so_price = Some (ta_price tp), so_stopPrice = None, so_reduceOnly = True,
      so_status = NEW_S, so_createdAt = sp_openedAt pos, so_updatedAt = sp_openedAt pos,
      so_signalKey = sp_signalKey pos, so_setupId = sp_setupId pos,
      so_executionPlanId = sp_executionPlanId pos, so_positionId = Some (sp_id pos),
      so_targetLevel = Some (ta_level tp)\<rparr>"

definition attachExitOrders :: "paperPosition \<Rightarrow> tradeSignal \<Rightarrow> smcBroker \<Rightarrow> smcBroker" where
  "attachExitOrders pos sig b =
     (let b1 = b\<lparr>sb_orders := mset (StopId (sp_id pos)) (stopOrderFor pos) (sb_orders b)\<rparr> in
      fold (\<lambda>tp b. b\<lparr>sb_orders := mset (TargetId (sp_id pos) (ta_level tp)) (targetOrderFor pos tp) (sb_orders b)\<rparr>)
        (ts_takeProfits sig) b1)"

text \<open>A fill enters the list of fills and its fee is charged; the fill is one object, so that
  the position's identifier it gets afterwards shows in the list.\<close>

definition bookFill :: "paperFill \<Rightarrow> positionId \<Rightarrow> smcBroker \<Rightarrow> smcBroker" where
  "bookFill f posId b = b\<lparr>sb_fills := sb_fills b @ [f\<lparr>sf_positionId := Some posId\<rparr>],
     sb_account := chargeFee (sf_fee f) (sb_account b)\<rparr>"

text \<open>An entry order always has its signal, which is submitted with it; \<open>signals.get(key)!\<close> on
  a missing one throws when its direction is read, after the fill has been booked.\<close>

definition executeEntryFill :: "paperOrder \<Rightarrow> paperFill \<Rightarrow> smcBroker \<Rightarrow> (smcBroker, smcBroker) outcome" where
  "executeEntryFill ord f b =
     (let ord1 = ord\<lparr>so_status := FILLED_S, so_filledQuantity := sf_quantity f, so_updatedAt := sf_timestamp f\<rparr>;
          b1 = b\<lparr>sb_orders := mset (so_id ord) ord1 (sb_orders b)\<rparr> in
      case mget (sb_signals b) (so_signalKey ord) of
        None \<Rightarrow> Inl (''Cannot read properties of undefined (reading 'direction')'',
          b1\<lparr>sb_fills := sb_fills b1 @ [f], sb_account := chargeFee (sf_fee f) (sb_account b1)\<rparr>)
      | Some sig \<Rightarrow>
          (let side = (if ts_direction sig = LONG_D then LONG else SHORT);
               pos = openPosition f side (case ts_sizing sig of None \<Rightarrow> 5 | Some z \<Rightarrow> sz_leverage z)
                 (ts_stopLossPrice sig) (map ta_price (ts_takeProfits sig)) (so_signalKey ord)
                 (so_setupId ord) (so_executionPlanId ord) (sc_maintenanceMarginRate (sb_config b));
               b2 = bookFill f (sp_id pos) b1;
               b3 = b2\<lparr>sb_positions := mset (so_symbol ord) pos (sb_positions b2),
                 sb_ledger := recordTradeOpen pos (rr_tp1 (ts_riskReward sig)) (ts_id sig) (ts_setupType sig) (sb_ledger b2)\<rparr>;
               b4 = attachExitOrders pos sig b3 in
           Inr (b4\<lparr>sb_events := recordEvent (sf_timestamp f) (sf_symbol f) (Some (so_id ord)) (Some (sp_id pos))
             (Some (so_signalKey ord)) ENTRY_FILLED (Some (sf_price f)) (Some (sf_quantity f)) (sb_events b4)\<rparr>)))"

text \<open>The loop over the orders. The orders that a fill adds during the iteration are reduce-only,
  which the loop skips, so that it runs over the keys present at its start.\<close>

definition pendingOrder :: "candle \<Rightarrow> smcOrderId \<Rightarrow> smcBroker \<Rightarrow> (smcBroker, smcBroker) outcome" where
  "pendingOrder k oid b =
     (case mget (sb_orders b) oid of
        None \<Rightarrow> Inr b
      | Some ord \<Rightarrow>
          if so_symbol ord \<noteq> k_symbol k \<or> so_status ord \<noteq> NEW_S \<or> so_reduceOnly ord then Inr b
          else
            (case evaluateOrderFill (sb_config b) ord k of
               Inl e \<Rightarrow> Inl (e, b)
             | Inr None \<Rightarrow> Inr b
             | Inr (Some (f, ord1)) \<Rightarrow> executeEntryFill ord1 f b))"

definition processPendingOrders :: "candle \<Rightarrow> smcBroker \<Rightarrow> (smcBroker, smcBroker) outcome" where
  "processPendingOrders k b = foldR (pendingOrder k) (mkeys (sb_orders b)) b"

definition cancelTarget :: "positionId \<Rightarrow> nat \<Rightarrow> smcBroker \<Rightarrow> smcBroker" where
  "cancelTarget posId i b =
     (case mget (sb_orders b) (TargetId posId i) of
        None \<Rightarrow> b
      | Some tp \<Rightarrow>
          if so_status tp = NEW_S
          then b\<lparr>sb_orders := mset (TargetId posId i) (tp\<lparr>so_status := CANCELED_S\<rparr>) (sb_orders b)\<rparr>
          else b)"

definition cancelOutstandingTps :: "positionId \<Rightarrow> smcBroker \<Rightarrow> smcBroker" where
  "cancelOutstandingTps posId b = fold (cancelTarget posId) [1, 2, 3] b"

text \<open>The position stands under \<open>symbol\<close> in the map; \<open>slOrder\<close> and \<open>tpOrder\<close> are the orders as
  the fill engine left them.\<close>

definition executeStopLoss ::
  "string \<Rightarrow> paperPosition \<Rightarrow> paperOrder \<Rightarrow> paperFill \<Rightarrow> candle \<Rightarrow> smcBroker \<Rightarrow> smcBroker" where
  "executeStopLoss symbol pos slOrder f k b =
     (let b1 = bookFill f (sp_id pos)
            (b\<lparr>sb_orders := mset (so_id slOrder) (slOrder\<lparr>so_status := FILLED_S\<rparr>) (sb_orders b)\<rparr>);
          ((gross, net), pos1) = applyPartialClose f pos;
          b2 = cancelOutstandingTps (sp_id pos)
            (b1\<lparr>sb_account := creditRealizedPnl gross (sb_account b1)\<rparr>);
          pos2 = pos1\<lparr>sp_state := CLOSED_P, sp_lifecycle := STOPPED_L\<rparr> in
      b2\<lparr>sb_positions := mset symbol pos2 (sb_positions b2),
         sb_ledger := finalizeTrade pos2 (sf_price f) STOP_LOSS_X (closeOf k) (sb_ledger b2),
         sb_events := recordEvent (sf_timestamp f) (sp_symbol pos) (Some (so_id slOrder)) (Some (sp_id pos)) None
           STOP_FILLED (Some (sf_price f)) (Some (sf_quantity f)) (sb_events b2)\<rparr>)"

text \<open>The stop is resized to what is left, and moved to break-even by the first target.\<close>

definition resizeStop :: "nat \<Rightarrow> smcConfig \<Rightarrow> paperPosition \<Rightarrow> paperOrder \<Rightarrow> paperPosition \<times> paperOrder" where
  "resizeStop level cfg pos sl =
     (let sl1 = sl\<lparr>so_quantity := sp_remainingQuantity pos\<rparr> in
      if level = 1 \<and> sc_breakevenEnabled cfg
      then (let pos1 = snd (moveStopToBreakeven (sc_breakevenOffsetTicks cfg) pos) in
            (pos1, sl1\<lparr>so_stopPrice := Some (sp_stopLossPrice pos1)\<rparr>))
      else (pos, sl1))"

definition executeTakeProfit ::
  "string \<Rightarrow> paperPosition \<Rightarrow> paperOrder \<Rightarrow> paperFill \<Rightarrow> nat \<Rightarrow> candle \<Rightarrow> smcBroker \<Rightarrow> smcBroker" where
  "executeTakeProfit symbol pos tpOrder f level k b =
     (let b1 = bookFill f (sp_id pos)
            (b\<lparr>sb_orders := mset (so_id tpOrder) (tpOrder\<lparr>so_status := FILLED_S\<rparr>) (sb_orders b)\<rparr>);
          ((gross, net), pos1) = applyPartialClose f pos;
          b2 = b1\<lparr>sb_account := creditRealizedPnl gross (sb_account b1)\<rparr>;
          (pos2, orders2) =
            (case mget (sb_orders b2) (StopId (sp_id pos)) of
               None \<Rightarrow> (pos1, sb_orders b2)
             | Some sl \<Rightarrow>
                 if sp_state pos1 = OPEN_P
                 then (let (p, sl1) = resizeStop level (sb_config b2) pos1 sl in
                       (p, mset (StopId (sp_id pos)) sl1 (sb_orders b2)))
                 else (pos1, sb_orders b2));
          done = (sp_remainingQuantity pos2 \<le> 0);
          pos3 = (if done then pos2\<lparr>sp_state := CLOSED_P, sp_lifecycle := CLOSED_L\<rparr> else pos2) in
      b2\<lparr>sb_orders := orders2, sb_positions := mset symbol pos3 (sb_positions b2),
         sb_ledger := (if done then finalizeTrade pos3 (sf_price f) (TP_FULL_X level) (closeOf k) (sb_ledger b2)
           else sb_ledger b2),
         sb_events := recordEvent (sf_timestamp f) (sp_symbol pos) (Some (so_id tpOrder)) (Some (sp_id pos)) None
           (TP_FILLED level) (Some (sf_price f)) (Some (sf_quantity f)) (sb_events b2)\<rparr>)"

definition handleLiquidation :: "paperPosition \<Rightarrow> candle \<Rightarrow> smcBroker \<Rightarrow> smcBroker" where
  "handleLiquidation pos k b =
     (let b1 = cancelOutstandingTps (sp_id pos)
            (b\<lparr>sb_account := creditRealizedPnl (- sp_usedMargin pos) (sb_account b)\<rparr>) in
      b1\<lparr>sb_ledger := finalizeTrade pos (sp_liquidationPrice pos) LIQUIDATED_X (closeOf k) (sb_ledger b1),
         sb_events := recordEvent (closeOf k) (sp_symbol pos) None (Some (sp_id pos)) None POSITION_LIQUIDATED
           (Some (sp_liquidationPrice pos)) (Some (sp_remainingQuantity pos)) (sb_events b1)\<rparr>)"

text \<open>One round of the loop over the targets. The position object, which earlier rounds have
  changed, is read from the map.\<close>

definition exitTarget ::
  "string \<Rightarrow> positionId \<Rightarrow> candle \<Rightarrow> nat \<Rightarrow> smcBroker \<Rightarrow> (smcBroker, smcBroker) outcome" where
  "exitTarget symbol posId k i b =
     (case (mget (sb_positions b) symbol, mget (sb_orders b) (TargetId posId i)) of
        (Some pos, Some tp) \<Rightarrow>
          if so_status tp \<noteq> NEW_S then Inr b
          else
            (case evaluateOrderFill (sb_config b) tp k of
               Inl e \<Rightarrow> Inl (e, b)
             | Inr None \<Rightarrow> Inr b
             | Inr (Some (f, tp1)) \<Rightarrow> Inr (executeTakeProfit symbol pos tp1 f i k b))
      | _ \<Rightarrow> Inr b)"

definition stopFill ::
  "positionId \<Rightarrow> candle \<Rightarrow> smcBroker \<Rightarrow> string + (paperFill \<times> paperOrder) option" where
  "stopFill posId k b =
     (case mget (sb_orders b) (StopId posId) of
        None \<Rightarrow> Inr None
      | Some sl \<Rightarrow> if so_status sl = NEW_S then evaluateOrderFill (sb_config b) sl k else Inr None)"

definition processExitFills ::
  "string \<Rightarrow> paperPosition \<Rightarrow> candle \<Rightarrow> smcBroker \<Rightarrow> (smcBroker, smcBroker) outcome" where
  "processExitFills symbol pos k b =
     (case stopFill (sp_id pos) k b of
        Inl e \<Rightarrow> Inl (e, b)
      | Inr (Some (f, sl)) \<Rightarrow> Inr (executeStopLoss symbol pos sl f k b)
      | Inr None \<Rightarrow> foldR (exitTarget symbol (sp_id pos) k) [1, 2, 3] b)"

definition noteProgress :: "string \<Rightarrow> smcBroker \<Rightarrow> smcBroker" where
  "noteProgress symbol b =
     (case mget (sb_positions b) symbol of
        None \<Rightarrow> b
      | Some pos \<Rightarrow> b\<lparr>sb_ledger := updateTradeProgress pos (sb_ledger b)\<rparr>)"

definition processOpenPosition ::
  "string \<Rightarrow> paperPosition \<Rightarrow> candle \<Rightarrow> smcBroker \<Rightarrow> (smcBroker, smcBroker) outcome" where
  "processOpenPosition symbol pos k b =
     (let (liquidated, pos1) = checkPaperLiquidation (updateMarkPrice (k_close k) pos);
          b1 = b\<lparr>sb_positions := mset symbol pos1 (sb_positions b)\<rparr> in
      if liquidated then Inr (handleLiquidation pos1 k b1)
      else bindR (processExitFills symbol pos1 k b1) (\<lambda>b2. Inr (noteProgress symbol b2)))"

definition processCandle :: "candle \<Rightarrow> smcBroker \<Rightarrow> (smcBroker, smcBroker) outcome" where
  "processCandle k b =
     bindR (case mget (sb_positions b) (k_symbol k) of
              None \<Rightarrow> Inr b
            | Some pos \<Rightarrow> if sp_state pos = OPEN_P then processOpenPosition (k_symbol k) pos k b else Inr b)
       (processPendingOrders k)"

definition processFunding :: "string \<Rightarrow> number \<Rightarrow> ms \<Rightarrow> smcBroker \<Rightarrow> smcBroker" where
  "processFunding symbol fundingRate timestamp b =
     (case mget (sb_positions b) symbol of
        None \<Rightarrow> b
      | Some pos \<Rightarrow>
          if sp_state pos \<noteq> OPEN_P then b
          else
            (let (payment, pos1) = applyFundingToPosition pos fundingRate in
             b\<lparr>sb_positions := mset symbol pos1 (sb_positions b),
               sb_account := creditRealizedPnl payment (sb_account b),
               sb_events := recordEvent timestamp symbol None None None FUNDING_APPLIED (Some fundingRate)
                 (Some payment) (sb_events b)\<rparr>))"

subsection \<open>Queries\<close>

record tradeTrace =
  tx_tradeRecord :: paperTradeRecord
  tx_signal :: tradeSignal
  tx_orders :: "paperOrder list"
  tx_fills :: "paperFill list"
  tx_position :: paperPosition
  tx_events :: "paperEvent list"

definition getTradeTrace :: "positionId \<Rightarrow> smcBroker \<Rightarrow> tradeTrace option" where
  "getTradeTrace tradeId b =
     (case mget (sb_ledger b) tradeId of
        None \<Rightarrow> None
      | Some r \<Rightarrow>
          (case find (\<lambda>p. sp_id p = tradeId) (mvals (sb_positions b)) of
             None \<Rightarrow> None
           | Some pos \<Rightarrow>
               (case mget (sb_signals b) (sp_signalKey pos) of
                  None \<Rightarrow> None
                | Some sig \<Rightarrow> Some
                    \<lparr>tx_tradeRecord = r, tx_signal = sig,
                     tx_orders = filter (\<lambda>x. so_positionId x = Some (sp_id pos) \<or> so_signalKey x = sp_signalKey pos)
                       (mvals (sb_orders b)),
                     tx_fills = filter (\<lambda>f. sf_positionId f = Some (sp_id pos)) (sb_fills b),
                     tx_position = pos,
                     tx_events = filter (\<lambda>e. pe_positionId e = Some (sp_id pos) \<or> pe_signalKey e = Some (sp_signalKey pos))
                       (getEvents (Some (sp_symbol pos)) (sb_events b))\<rparr>)))"

definition getOpenPositions :: "smcBroker \<Rightarrow> paperPosition list" where
  "getOpenPositions b = filter (\<lambda>p. sp_state p = OPEN_P) (mvals (sb_positions b))"

definition getAccount :: "smcBroker \<Rightarrow> paperAccountState" where
  "getAccount b = getAccountState (sb_account b) (mvals (sb_positions b))"

definition getMetrics :: "smcBroker \<Rightarrow> performanceMetrics" where
  "getMetrics b = calculateMetrics (mvals (sb_ledger b))"

subsection \<open>The broker as a transition system\<close>

datatype smcOp =
    SubmitSignal tradeSignal ms
  | CancelSignal string ms
  | Candle candle
  | Funding string number ms

text \<open>A thrown exception leaves the state it was thrown in.\<close>

definition exchangeStep :: "smcOp \<Rightarrow> smcBroker \<Rightarrow> smcBroker" where
  "exchangeStep x b =
     (case x of
        SubmitSignal sig t \<Rightarrow> snd (submitTradeSignal sig t b)
      | CancelSignal key t \<Rightarrow> snd (cancelSignalOrder key t b)
      | Candle k \<Rightarrow> left (processCandle k b)
      | Funding symbol r t \<Rightarrow> processFunding symbol r t b)"

end
