(* ===== verification/Smc_Guarantees.thy ===== *)
theory Smc_Guarantees
  imports Smc_Broker
begin

section \<open>What the SMC paper exchange guarantees\<close>

text \<open>
  The fill engine's price and quantity bounds, the books of the account over any run, the life of
  an open position, the liquidation price, the metrics, and what an entry on an occupied symbol does.
\<close>

subsection \<open>The fill engine\<close>

named_theorems smc_frame "fields an operation of the SMC broker leaves alone"

lemma fillAt_Some:
  assumes "fillAt cfg ord k m p = Inr (Some (f, ord'))"
  obtains fp sl where "calculateFillQty ord k > 0" "applySlippage p (so_side ord) cfg tickSize = Inr (fp, sl)"
    "sf_price f = fp" "sf_quantity f = calculateFillQty ord k" "sf_orderId f = so_id ord"
    "sf_symbol f = so_symbol ord" "sf_side f = so_side ord" "sf_isMaker f = m"
    "sf_fee f = calculateFee (fp * calculateFillQty ord k) m (sc_makerFeeRate cfg) (sc_takerFeeRate cfg)"
    "ord' = applyFill (calculateFillQty ord k) ord"
  using assms by (auto simp: fillAt_def Let_def split: if_splits sum.splits prod.splits)

text \<open>The four evaluations are one: a level is touched and the fill is at the level or, after a
  gap, at the open.\<close>

definition orderLevel :: "paperOrder \<Rightarrow> number" where
  "orderLevel ord =
     (if so_type ord = LIMIT_O then coalesce (so_price ord) 0
      else if so_type ord \<in> {STOP_O, STOP_MARKET_O} then coalesce (orElse (so_stopPrice ord) (so_price ord)) 0
      else coalesce (orElse (so_price ord) (so_stopPrice ord)) 0)"

definition isStop :: "paperOrder \<Rightarrow> bool" where
  "isStop ord \<longleftrightarrow> so_type ord \<in> {STOP_O, STOP_MARKET_O}"

lemma evaluateOrderFill_Some:
  assumes "evaluateOrderFill cfg ord k = Inr (Some (f, ord'))"
  obtains base m where "fillAt cfg ord k m base = Inr (Some (f, ord'))" "0 < orderLevel ord"
    "so_status ord = NEW_S \<or> so_status ord = PARTIALLY_FILLED_S"
    "(so_side ord = BUY) \<noteq> isStop ord \<longrightarrow> k_low k \<le> orderLevel ord \<and> base = min (k_open k) (orderLevel ord)"
    "(so_side ord = BUY) = isStop ord \<longrightarrow> orderLevel ord \<le> k_high k \<and> base = max (k_open k) (orderLevel ord)"
proof -
  have st: "so_status ord = NEW_S \<or> so_status ord = PARTIALLY_FILLED_S"
    using assms by (auto simp: evaluateOrderFill_def split: if_splits)
  have sell: "so_side ord \<noteq> BUY \<longleftrightarrow> so_side ord = SELL"
    by (cases "so_side ord") auto
  note defs = evaluateOrderFill_def checkLimitFill_def checkStopFill_def checkTakeProfitFill_def
    orderLevel_def isStop_def Let_def
  have "\<exists>base m. fillAt cfg ord k m base = Inr (Some (f, ord')) \<and> 0 < orderLevel ord \<and>
      ((so_side ord = BUY) \<noteq> isStop ord \<longrightarrow> k_low k \<le> orderLevel ord \<and> base = min (k_open k) (orderLevel ord)) \<and>
      ((so_side ord = BUY) = isStop ord \<longrightarrow> orderLevel ord \<le> k_high k \<and> base = max (k_open k) (orderLevel ord))"
    using assms st
    by (cases "so_type ord"; cases "so_side ord")
      (auto simp: defs min_def max_def not_less not_le split: if_splits)
  then show thesis using that st by blast
qed

lemma slippage_price:
  assumes "applySlippage p side cfg tickSize = Inr (fp, sl)" and "sc_slippageModel cfg = NONE_SLIP"
  shows "fp = p"
  using assms by (simp add: applySlippage_def)

lemma fill_quantity:
  assumes "calculateFillQty ord k > 0"
  shows "calculateFillQty ord k \<le> so_quantity ord - so_filledQuantity ord"
    and "coalesce (k_volume k) 1000 > 0 \<Longrightarrow> calculateFillQty ord k \<le> coalesce (k_volume k) 1000"
  using assms by (auto simp: calculateFillQty_def Let_def split: if_splits)

lemma fill_in_candle:
  assumes fill: "evaluateOrderFill cfg ord k = Inr (Some (f, ord'))"
    and slip: "sc_slippageModel cfg = NONE_SLIP" and range: "k_low k \<le> k_open k" "k_open k \<le> k_high k"
  shows "k_low k \<le> sf_price f \<and> sf_price f \<le> k_high k \<and>
    (if (so_side ord = BUY) = isStop ord then orderLevel ord \<le> sf_price f else sf_price f \<le> orderLevel ord) \<and>
    0 < sf_quantity f \<and> sf_quantity f \<le> so_quantity ord - so_filledQuantity ord \<and>
    (if coalesce (k_volume k) 1000 > 0 then sf_quantity f \<le> coalesce (k_volume k) 1000 else True) \<and>
    so_filledQuantity ord' = so_filledQuantity ord + sf_quantity f \<and>
    so_status ord' = (if so_filledQuantity ord' = so_quantity ord then FILLED_S else PARTIALLY_FILLED_S)"
proof -
  from fill obtain base m where at: "fillAt cfg ord k m base = Inr (Some (f, ord'))"
    and lower: "(so_side ord = BUY) \<noteq> isStop ord \<longrightarrow> k_low k \<le> orderLevel ord \<and> base = min (k_open k) (orderLevel ord)"
    and upper: "(so_side ord = BUY) = isStop ord \<longrightarrow> orderLevel ord \<le> k_high k \<and> base = max (k_open k) (orderLevel ord)"
    by (rule evaluateOrderFill_Some)
  from at obtain fp sl where q: "calculateFillQty ord k > 0"
    and sl: "applySlippage base (so_side ord) cfg tickSize = Inr (fp, sl)"
    and f: "sf_price f = fp" "sf_quantity f = calculateFillQty ord k" and ord': "ord' = applyFill (calculateFillQty ord k) ord"
    by (rule fillAt_Some)
  have price: "sf_price f = base" using slippage_price [OF sl slip] f by simp
  have sides: "k_low k \<le> sf_price f \<and> sf_price f \<le> k_high k \<and>
    (if (so_side ord = BUY) = isStop ord then orderLevel ord \<le> sf_price f else sf_price f \<le> orderLevel ord)"
    using range lower upper unfolding price by (cases "(so_side ord = BUY) = isStop ord") auto
  show ?thesis
    using sides q fill_quantity [OF q] by (auto simp: f ord' applyFill_def Let_def)
qed

text \<open>Without slippage a fill of the SMC exchange lies in the range of the candle that caused it;
  a limit or target is filled at its level or better, a stop at its level or worse, and the filled
  quantity is positive, at most what the order has left and at most the candle's volume.\<close>

theorem fills_stay_in_candle:
  assumes fill: "evaluateOrderFill cfg ord k = Inr (Some (f, ord'))"
    and slip: "sc_slippageModel cfg = NONE_SLIP" and range: "k_low k \<le> k_open k" "k_open k \<le> k_high k"
  shows "k_low k \<le> sf_price f \<and> sf_price f \<le> k_high k \<and>
    (if (so_side ord = BUY) = isStop ord then orderLevel ord \<le> sf_price f else sf_price f \<le> orderLevel ord) \<and>
    0 < sf_quantity f \<and> sf_quantity f \<le> so_quantity ord - so_filledQuantity ord \<and>
    (if coalesce (k_volume k) 1000 > 0 then sf_quantity f \<le> coalesce (k_volume k) 1000 else True) \<and>
    so_filledQuantity ord' = so_filledQuantity ord + sf_quantity f \<and>
    so_status ord' = (if so_filledQuantity ord' = so_quantity ord then FILLED_S else PARTIALLY_FILLED_S)"
  by (rule fill_in_candle [OF fill slip range])

text \<open>A stop of 2 contracts at 95 in a candle that gaps through it.\<close>

definition gapCandle :: candle where
  "gapCandle = \<lparr>k_symbol = ''BTC'', k_interval = ''5m'', k_openTime = 0, k_open = 94, k_high = 96, k_low = 90,
     k_close = 92, k_volume = Some 50, k_closeTime = Some 299999, k_isClosed = True\<rparr>"

definition longStop :: paperOrder where
  "longStop = \<lparr>so_id = StopId (EntryId ''S''), so_symbol = ''BTC'', so_side = SELL, so_type = STOP_O,
     so_quantity = 2, so_filledQuantity = 0, so_price = None, so_stopPrice = Some 95, so_reduceOnly = True,
     so_status = NEW_S, so_createdAt = 0, so_updatedAt = 0, so_signalKey = ''S'', so_setupId = ''U'',
     so_executionPlanId = ''P'', so_positionId = Some (EntryId ''S''), so_targetLevel = None\<rparr>"

definition longStopFill :: paperFill where
  "longStopFill = \<lparr>sf_orderId = StopId (EntryId ''S''), sf_candleTime = 0, sf_symbol = ''BTC'', sf_side = SELL,
     sf_price = 94, sf_quantity = 2, sf_fee = 752 / 10000, sf_slippage = 0, sf_isMaker = False,
     sf_timestamp = 299999, sf_positionId = Some (EntryId ''S'')\<rparr>"

lemma longStop_fills:
  "evaluateOrderFill defaultPaperConfig longStop gapCandle =
     Inr (Some (longStopFill, longStop\<lparr>so_filledQuantity := 2, so_status := FILLED_S\<rparr>))"
  by (simp add: evaluateOrderFill_def checkStopFill_def fillAt_def longStop_def gapCandle_def longStopFill_def
      defaultPaperConfig_def calculateFillQty_def applySlippage_def calculateFee_def applyFill_def Let_def
      toFixed_def grid_def round_away_def)

lemma fills_stay_in_candle_witness:
  "sf_price longStopFill = 94 \<and> k_low gapCandle \<le> sf_price longStopFill \<and> sf_quantity longStopFill \<le> so_quantity longStop"
  using fills_stay_in_candle [OF longStop_fills]
  by (simp add: gapCandle_def defaultPaperConfig_def longStop_def longStopFill_def)

subsection \<open>The books of the account\<close>

lemma evaluateOrderFill_fields:
  assumes "evaluateOrderFill cfg ord k = Inr (Some (f, ord'))"
  shows "decimals 4 (sf_fee f)" and "sf_orderId f = so_id ord" and "so_id ord' = so_id ord"
    and "so_symbol ord' = so_symbol ord" and "so_signalKey ord' = so_signalKey ord" and "sf_symbol f = so_symbol ord"
    and "so_reduceOnly ord' = so_reduceOnly ord" and "0 < sf_quantity f"
    and "so_status ord = NEW_S \<or> so_status ord = PARTIALLY_FILLED_S"
proof -
  from assms obtain base m where at: "fillAt cfg ord k m base = Inr (Some (f, ord'))"
    and st: "so_status ord = NEW_S \<or> so_status ord = PARTIALLY_FILLED_S"
    by (rule evaluateOrderFill_Some)
  from at st show "decimals 4 (sf_fee f)" "sf_orderId f = so_id ord" "so_id ord' = so_id ord"
    "so_symbol ord' = so_symbol ord" "so_signalKey ord' = so_signalKey ord" "sf_symbol f = so_symbol ord"
    "so_reduceOnly ord' = so_reduceOnly ord" "0 < sf_quantity f"
    "so_status ord = NEW_S \<or> so_status ord = PARTIALLY_FILLED_S"
    by (auto elim!: fillAt_Some simp: calculateFee_def applyFill_def Let_def)
qed

text \<open>What the operations leave alone.\<close>

lemma cancelTarget_frame [simp, smc_frame]:
  "sb_account (cancelTarget p i b) = sb_account b" "sb_fills (cancelTarget p i b) = sb_fills b"
  "sb_positions (cancelTarget p i b) = sb_positions b" "sb_config (cancelTarget p i b) = sb_config b"
  "sb_signals (cancelTarget p i b) = sb_signals b" "sb_ledger (cancelTarget p i b) = sb_ledger b"
  by (auto simp: cancelTarget_def split: option.splits)

lemma cancelOutstandingTps_frame [simp, smc_frame]:
  "sb_account (cancelOutstandingTps p b) = sb_account b" "sb_fills (cancelOutstandingTps p b) = sb_fills b"
  "sb_positions (cancelOutstandingTps p b) = sb_positions b" "sb_config (cancelOutstandingTps p b) = sb_config b"
  "sb_signals (cancelOutstandingTps p b) = sb_signals b" "sb_ledger (cancelOutstandingTps p b) = sb_ledger b"
  by (simp_all add: cancelOutstandingTps_def)

lemma attachTargets_frame:
  "sb_account (fold (\<lambda>tp b. b\<lparr>sb_orders := mset (k tp) (g tp) (sb_orders b)\<rparr>) tps b) = sb_account b"
  "sb_fills (fold (\<lambda>tp b. b\<lparr>sb_orders := mset (k tp) (g tp) (sb_orders b)\<rparr>) tps b) = sb_fills b"
  "sb_positions (fold (\<lambda>tp b. b\<lparr>sb_orders := mset (k tp) (g tp) (sb_orders b)\<rparr>) tps b) = sb_positions b"
  "sb_config (fold (\<lambda>tp b. b\<lparr>sb_orders := mset (k tp) (g tp) (sb_orders b)\<rparr>) tps b) = sb_config b"
  "sb_signals (fold (\<lambda>tp b. b\<lparr>sb_orders := mset (k tp) (g tp) (sb_orders b)\<rparr>) tps b) = sb_signals b"
  "sb_ledger (fold (\<lambda>tp b. b\<lparr>sb_orders := mset (k tp) (g tp) (sb_orders b)\<rparr>) tps b) = sb_ledger b"
  by (induction tps arbitrary: b) auto

lemma attachTargets_orders:
  "sb_orders (fold (\<lambda>tp b. b\<lparr>sb_orders := mset (k tp) (g tp) (sb_orders b)\<rparr>) tps b) =
   fold (\<lambda>tp. mset (k tp) (g tp)) tps (sb_orders b)"
  by (induction tps arbitrary: b) auto

lemma attachExitOrders_frame [simp, smc_frame]:
  "sb_account (attachExitOrders p s b) = sb_account b" "sb_fills (attachExitOrders p s b) = sb_fills b"
  "sb_positions (attachExitOrders p s b) = sb_positions b" "sb_config (attachExitOrders p s b) = sb_config b"
  "sb_signals (attachExitOrders p s b) = sb_signals b" "sb_ledger (attachExitOrders p s b) = sb_ledger b"
  by (simp_all add: attachExitOrders_def attachTargets_frame)

lemma bookFill_fields [simp]:
  "sb_fills (bookFill f p b) = sb_fills b @ [f\<lparr>sf_positionId := Some p\<rparr>]"
  "sb_account (bookFill f p b) = chargeFee (sf_fee f) (sb_account b)"
  "sb_positions (bookFill f p b) = sb_positions b" "sb_config (bookFill f p b) = sb_config b"
  "sb_orders (bookFill f p b) = sb_orders b" "sb_signals (bookFill f p b) = sb_signals b"
  "sb_ledger (bookFill f p b) = sb_ledger b" "sb_events (bookFill f p b) = sb_events b"
  by (simp_all add: bookFill_def)

text \<open>The balance is the initial one less the fees plus the realised PnL, and the fees are those of
  the recorded fills; \<open>decimals 4\<close> makes the roundings of the account exact.\<close>

definition booksOf :: "number \<Rightarrow> paperAccount \<Rightarrow> paperFill list \<Rightarrow> bool" where
  "booksOf C acc fills \<longleftrightarrow> decimals 4 (pa_balance acc) \<and>
     pa_balance acc + pa_totalFees acc - pa_realizedPnl acc = C \<and>
     sum_list (map sf_fee fills) = pa_totalFees acc"

definition smcBooks :: "number \<Rightarrow> smcBroker \<Rightarrow> bool" where
  "smcBooks C b \<longleftrightarrow> booksOf C (sb_account b) (sb_fills b) \<and>
     (\<forall>symbol p. mget (sb_positions b) symbol = Some p \<longrightarrow> decimals 4 (sp_usedMargin p))"

lemma booksOf_charge [simp]:
  "booksOf C acc fills \<Longrightarrow> decimals 4 (sf_fee f) \<Longrightarrow> booksOf C (chargeFee (sf_fee f) acc) (fills @ [f])"
  "booksOf C acc fills \<Longrightarrow> decimals 4 (sf_fee f) \<Longrightarrow>
   booksOf C (chargeFee (sf_fee f) acc) (fills @ [f\<lparr>sf_positionId := p\<rparr>])"
  by (auto simp: booksOf_def chargeFee_def)

lemma booksOf_credit [simp]:
  "booksOf C acc fills \<Longrightarrow> decimals 4 x \<Longrightarrow> booksOf C (creditRealizedPnl x acc) fills"
  by (auto simp: booksOf_def creditRealizedPnl_def)

lemma smcBooks_cong:
  assumes "sb_account b' = sb_account b" "sb_fills b' = sb_fills b" "sb_positions b' = sb_positions b"
  shows "smcBooks C b' = smcBooks C b"
  using assms by (simp add: smcBooks_def)

lemma smcBooks_fields [simp]:
  "smcBooks C (b\<lparr>sb_orders := x1\<rparr>) = smcBooks C b" "smcBooks C (b\<lparr>sb_events := x2\<rparr>) = smcBooks C b"
  "smcBooks C (b\<lparr>sb_ledger := x3\<rparr>) = smcBooks C b" "smcBooks C (b\<lparr>sb_signals := x4\<rparr>) = smcBooks C b"
  "smcBooks C (cancelOutstandingTps p b) = smcBooks C b" "smcBooks C (attachExitOrders q s b) = smcBooks C b"
  by (rule smcBooks_cong; simp)+

lemma smcBooks_put [simp]:
  "smcBooks C b \<Longrightarrow> decimals 4 (sp_usedMargin p) \<Longrightarrow> smcBooks C (b\<lparr>sb_positions := mset symbol p (sb_positions b)\<rparr>)"
  by (simp add: smcBooks_def)

lemma smcBooks_book [simp]:
  "smcBooks C b \<Longrightarrow> decimals 4 (sf_fee f) \<Longrightarrow> smcBooks C (bookFill f p b)"
  by (simp add: smcBooks_def)

lemma smcBooks_charge:
  "smcBooks C b \<Longrightarrow> decimals 4 (sf_fee f) \<Longrightarrow>
   smcBooks C (b\<lparr>sb_fills := sb_fills b @ [f], sb_account := chargeFee (sf_fee f) (sb_account b)\<rparr>)"
  by (simp add: smcBooks_def)

lemma smcBooks_credit [simp]:
  "smcBooks C b \<Longrightarrow> decimals 4 x \<Longrightarrow> smcBooks C (b\<lparr>sb_account := creditRealizedPnl x (sb_account b)\<rparr>)"
  by (simp add: smcBooks_def)

lemma decimals4_toFixed2 [simp]: "decimals 4 (toFixed 2 x)"
  by (rule decimals_mono [of 2]) simp_all

lemma partialClose_decimals [simp]:
  "decimals 4 (fst (fst (applyPartialClose f pos)))" "decimals 4 (sp_usedMargin (snd (applyPartialClose f pos)))"
  by (simp_all add: applyPartialClose_def Let_def)

lemma resizeStop_margin [simp]: "sp_usedMargin (fst (resizeStop i cfg pos sl)) = sp_usedMargin pos"
  by (simp add: resizeStop_def moveStopToBreakeven_def Let_def)

text \<open>The operations that book a fill, in the order of fields the records are updated in.\<close>

lemma executeStopLoss_books:
  assumes "smcBooks C b" "decimals 4 (sf_fee f)"
  shows "smcBooks C (executeStopLoss symbol pos sl f k b)"
proof -
  obtain g n pos1 where pc: "applyPartialClose f pos = ((g, n), pos1)"
    by (metis prod.exhaust)
  then have "decimals 4 g" "decimals 4 (sp_usedMargin pos1)"
    using partialClose_decimals [of f pos] by simp_all
  then show ?thesis
    using assms by (auto simp: executeStopLoss_def pc Let_def smcBooks_def)
qed

lemma executeTakeProfit_books:
  assumes "smcBooks C b" "decimals 4 (sf_fee f)"
  shows "smcBooks C (executeTakeProfit symbol pos tp f i k b)"
proof -
  obtain g n pos1 where pc: "applyPartialClose f pos = ((g, n), pos1)"
    by (metis prod.exhaust)
  then have "decimals 4 g" "decimals 4 (sp_usedMargin pos1)"
    using partialClose_decimals [of f pos] by simp_all
  then show ?thesis
    using assms
    by (auto simp: executeTakeProfit_def pc Let_def smcBooks_def
        split: option.splits prod.splits dest: arg_cong [where f = fst])
      (metis fst_conv resizeStop_margin)+
qed

lemma executeEntryFill_books:
  assumes "smcBooks C b" "decimals 4 (sf_fee f)"
  shows "smcBooks C (left (executeEntryFill ord f b))"
proof (cases "mget (sb_signals b) (so_signalKey ord)")
  case None
  then show ?thesis
    using assms by (simp add: executeEntryFill_def Let_def smcBooks_def)
next
  case (Some sig)
  then show ?thesis
    using assms by (auto simp: executeEntryFill_def Let_def smcBooks_def openPosition_def)
qed

lemma pendingOrder_books: "smcBooks C b \<Longrightarrow> smcBooks C (left (pendingOrder k oid b))"
  by (auto simp: pendingOrder_def executeEntryFill_books evaluateOrderFill_fields split: option.splits sum.splits)

lemma exitTarget_books: "smcBooks C b \<Longrightarrow> smcBooks C (left (exitTarget symbol p k i b))"
  by (auto simp: exitTarget_def executeTakeProfit_books evaluateOrderFill_fields split: option.splits sum.splits)

lemma processExitFills_books:
  assumes "smcBooks C b"
  shows "smcBooks C (left (processExitFills symbol pos k b))"
proof (cases "stopFill (sp_id pos) k b")
  case (Inl e)
  then show ?thesis using assms by (simp add: processExitFills_def)
next
  case (Inr r)
  show ?thesis
  proof (cases r)
    case None
    with Inr show ?thesis
      using assms by (simp add: processExitFills_def left_foldR [where P = "smcBooks C"] exitTarget_books del: foldR.simps)
  next
    case (Some fs)
    then obtain f sl where fs: "r = Some (f, sl)" by (cases fs) auto
    then have "decimals 4 (sf_fee f)"
      using Inr by (auto simp: stopFill_def evaluateOrderFill_fields split: option.splits if_splits)
    with Inr fs assms show ?thesis by (simp add: processExitFills_def executeStopLoss_books)
  qed
qed

lemma noteProgress_books [simp]: "smcBooks C (noteProgress symbol b) = smcBooks C b"
  by (simp add: noteProgress_def split: option.splits)

lemma processOpenPosition_books:
  assumes "smcBooks C b" and "mget (sb_positions b) symbol = Some pos"
  shows "smcBooks C (left (processOpenPosition symbol pos k b))"
proof -
  obtain l pos1 where lq: "checkPaperLiquidation (updateMarkPrice (k_close k) pos) = (l, pos1)"
    by (metis prod.exhaust)
  then have "sp_usedMargin pos1 = sp_usedMargin pos"
    by (auto simp: checkPaperLiquidation_def updateMarkPrice_def split: if_splits)
  moreover have "decimals 4 (sp_usedMargin pos)" using assms by (simp add: smcBooks_def)
  ultimately have m: "decimals 4 (sp_usedMargin pos1)" by simp
  then have b1: "smcBooks C (b\<lparr>sb_positions := mset symbol pos1 (sb_positions b)\<rparr>)"
    using assms by simp
  have liq: "smcBooks C (handleLiquidation pos1 k (b\<lparr>sb_positions := mset symbol pos1 (sb_positions b)\<rparr>))"
    using assms m by (auto simp: handleLiquidation_def Let_def smcBooks_def)
  have exits: "smcBooks C (left (bindR (processExitFills symbol pos1 k (b\<lparr>sb_positions := mset symbol pos1 (sb_positions b)\<rparr>))
      (\<lambda>b2. Inr (noteProgress symbol b2))))"
    using processExitFills_books [OF b1, of symbol pos1 k] by (intro left_bindR [where P = "smcBooks C"]) auto
  show ?thesis
    unfolding processOpenPosition_def lq Let_def using liq exits by simp
qed

lemma processCandle_books:
  assumes "smcBooks C b"
  shows "smcBooks C (left (processCandle k b))"
  unfolding processCandle_def
proof (rule left_bindR [where P = "smcBooks C"])
  have first: "smcBooks C (left (case mget (sb_positions b) (k_symbol k) of None \<Rightarrow> Inr b
      | Some pos \<Rightarrow> if sp_state pos = OPEN_P then processOpenPosition (k_symbol k) pos k b else Inr b))"
    using assms by (simp add: processOpenPosition_books split: option.splits)
  fix s
  assume "(case mget (sb_positions b) (k_symbol k) of None \<Rightarrow> Inr b
      | Some pos \<Rightarrow> if sp_state pos = OPEN_P then processOpenPosition (k_symbol k) pos k b else Inr b) = Inr s"
  with first have "smcBooks C s" by simp
  then show "smcBooks C (left (processPendingOrders k s))"
    unfolding processPendingOrders_def
    by (intro left_foldR [where P = "smcBooks C"] pendingOrder_books)
next
  fix msg s
  assume "(case mget (sb_positions b) (k_symbol k) of None \<Rightarrow> Inr b
      | Some pos \<Rightarrow> if sp_state pos = OPEN_P then processOpenPosition (k_symbol k) pos k b else Inr b) = Inl (msg, s)"
  with assms show "smcBooks C s"
    using processOpenPosition_books [OF assms, of "k_symbol k" _ k] by (force split: option.splits if_splits)
qed

lemma processFunding_books: "smcBooks C b \<Longrightarrow> smcBooks C (processFunding symbol r t b)"
  by (auto simp: processFunding_def applyFundingToPosition_def calculateFundingPayment_def Let_def smcBooks_def
      split: option.splits)

interpretation smcCash: component exchangeStep "smcBooks C" for C
proof
  fix b x
  assume b: "smcBooks C b"
  show "smcBooks C (exchangeStep x b)"
  proof (cases x)
    case (SubmitSignal sig t)
    with b show ?thesis by (auto simp: exchangeStep_def submitTradeSignal_def Let_def smcBooks_def split: option.splits)
  next
    case (CancelSignal key t)
    with b show ?thesis by (auto simp: exchangeStep_def cancelSignalOrder_def smcBooks_def split: option.splits)
  next
    case (Candle k)
    with b show ?thesis by (simp add: exchangeStep_def processCandle_books)
  next
    case (Funding symbol r t)
    with b show ?thesis by (simp add: exchangeStep_def processFunding_books)
  qed
qed

lemma newSmcBroker_books: "decimals 4 C \<Longrightarrow> smcBooks C (newSmcBroker C cfg)"
  by (simp add: smcBooks_def booksOf_def newSmcBroker_def newPaperAccount_def)

text \<open>C13. Over any run of signals, cancellations, candles and funding, thrown exceptions included,
  the balance of the SMC exchange is exactly the initial balance less the fees of the recorded
  fills plus the realised PnL.\<close>

theorem smc_balance_explained:
  assumes "decimals 4 C"
  shows "let b = fold exchangeStep xs (newSmcBroker C cfg); acc = sb_account b in
    pa_balance acc = C - sum_list (map sf_fee (sb_fills b)) + pa_realizedPnl acc \<and>
    pa_totalFees acc = sum_list (map sf_fee (sb_fills b))"
proof -
  have "smcBooks C (fold exchangeStep xs (newSmcBroker C cfg))"
    by (rule smcCash.inv_run [OF newSmcBroker_books [OF assms]])
  then show ?thesis by (auto simp: smcBooks_def booksOf_def Let_def)
qed

lemma smc_balance_explained_witness:
  "let b = fold exchangeStep [Candle gapCandle, Funding ''BTC'' (1 / 1000) 0] (newSmcBroker 10000 defaultPaperConfig);
       acc = sb_account b in
   pa_balance acc = 10000 - sum_list (map sf_fee (sb_fills b)) + pa_realizedPnl acc \<and>
   pa_totalFees acc = sum_list (map sf_fee (sb_fills b))"
  by (rule smc_balance_explained) (simp add: decimals_def toFixed_def grid_def round_away_def)

subsection \<open>The life of an open position\<close>

text \<open>A position whose numbers have the four decimals the source keeps.\<close>

definition tidyPosition :: "paperPosition \<Rightarrow> bool" where
  "tidyPosition p \<longleftrightarrow> decimals 4 (sp_remainingQuantity p) \<and> decimals 4 (sp_realizedPnl p) \<and>
     decimals 4 (sp_fees p) \<and> decimals 4 (sp_usedMargin p) \<and> decimals 4 (sp_stopLossPrice p) \<and>
     0 \<le> sp_remainingQuantity p \<and> (sp_state p = OPEN_P \<longrightarrow> 0 < sp_remainingQuantity p)"

text \<open>\<open>q\<close> is \<open>p\<close> later in its life: nothing it was opened with has changed, it has not grown and its
  stop has not moved away from the market.\<close>

definition laterPosition :: "paperPosition \<Rightarrow> paperPosition \<Rightarrow> bool" where
  "laterPosition p q \<longleftrightarrow> sp_id q = sp_id p \<and> sp_symbol q = sp_symbol p \<and> sp_side q = sp_side p \<and>
     sp_averageEntryPrice q = sp_averageEntryPrice p \<and> sp_plannedStopPrice q = sp_plannedStopPrice p \<and>
     sp_remainingQuantity q \<le> sp_remainingQuantity p \<and>
     (if sp_side p = LONG then sp_stopLossPrice p \<le> sp_stopLossPrice q else sp_stopLossPrice q \<le> sp_stopLossPrice p)"

text \<open>The account moves by what the position books.\<close>

definition settledBy :: "paperPosition \<Rightarrow> paperAccount \<Rightarrow> paperPosition \<Rightarrow> paperAccount \<Rightarrow> bool" where
  "settledBy p acc q acc' \<longleftrightarrow>
     pa_realizedPnl acc' - pa_realizedPnl acc = sp_realizedPnl q - sp_realizedPnl p \<and>
     pa_totalFees acc' - pa_totalFees acc = sp_fees q - sp_fees p"

definition follows :: "paperPosition \<times> paperAccount \<Rightarrow> paperPosition \<times> paperAccount \<Rightarrow> bool" where
  "follows = (\<lambda>(p, acc) (q, acc'). tidyPosition q \<and> laterPosition p q \<and> settledBy p acc q acc')"

lemma follows_refl: "tidyPosition p \<Longrightarrow> follows (p, acc) (p, acc)"
  by (simp add: follows_def laterPosition_def settledBy_def)

lemma follows_trans: "follows x y \<Longrightarrow> follows y z \<Longrightarrow> follows x z"
  by (cases x; cases y; cases z)
    (auto simp: follows_def laterPosition_def settledBy_def split: if_splits)

lemma applyPartialClose_follows:
  assumes tidy: "tidyPosition p" and f: "decimals 4 (sf_fee f)" "0 < sf_quantity f"
    and pc: "applyPartialClose f p = ((g, n), q)"
  shows "follows (p, acc) (q, creditRealizedPnl g (chargeFee (sf_fee f) acc))"
    and "sp_state q = OPEN_P \<longleftrightarrow> sp_state p = OPEN_P \<and> 0 < sp_remainingQuantity q"
    and "decimals 4 g"
proof -
  define c where "c = min (sp_remainingQuantity p) (sf_quantity f)"
  have c: "0 \<le> c" "c \<le> sp_remainingQuantity p" using tidy f by (auto simp: c_def tidyPosition_def)
  have rem: "0 \<le> toFixed 4 (sp_remainingQuantity p - c)" "toFixed 4 (sp_remainingQuantity p - c) \<le> sp_remainingQuantity p"
    using c tidy by (auto intro!: fxd.rnd_nonneg fxd.rnd_le_fixed simp: tidyPosition_def decimals_def)
  have g: "g = toFixed 4 (priceDiff p (sf_price f) * c)"
    and q: "sp_remainingQuantity q = toFixed 4 (sp_remainingQuantity p - c)"
      "sp_realizedPnl q = toFixed 4 (sp_realizedPnl p + g)" "sp_fees q = toFixed 4 (sp_fees p + sf_fee f)"
      "decimals 4 (sp_usedMargin q)" "sp_stopLossPrice q = sp_stopLossPrice p" "sp_id q = sp_id p"
      "sp_symbol q = sp_symbol p" "sp_side q = sp_side p" "sp_averageEntryPrice q = sp_averageEntryPrice p"
      "sp_plannedStopPrice q = sp_plannedStopPrice p"
      "sp_state q = (if sp_remainingQuantity q \<le> 0 then CLOSED_P else sp_state p)"
    using pc by (auto simp: applyPartialClose_def Let_def c_def)
  show "decimals 4 g" by (simp add: g)
  have real: "sp_realizedPnl q = sp_realizedPnl p + g" "sp_fees q = sp_fees p + sf_fee f"
    using tidy f by (simp_all add: q g tidyPosition_def)
  have t: "tidyPosition q"
    using tidy f rem real by (auto simp: tidyPosition_def q g)
  have l: "laterPosition p q" using rem by (auto simp: laterPosition_def q)
  have s: "settledBy p acc q (creditRealizedPnl g (chargeFee (sf_fee f) acc))"
    by (simp add: settledBy_def real creditRealizedPnl_def chargeFee_def)
  show "follows (p, acc) (q, creditRealizedPnl g (chargeFee (sf_fee f) acc))"
    using t l s by (simp add: follows_def)
  show "sp_state q = OPEN_P \<longleftrightarrow> sp_state p = OPEN_P \<and> 0 < sp_remainingQuantity q"
    using q by auto
qed

text \<open>The source's "must never loosen the stop", which survives the rounding of the new stop.\<close>

lemma resizeStop_follows:
  assumes "tidyPosition p"
  shows "follows (p, acc) (fst (resizeStop i cfg p sl), acc)"
    and "sp_state (fst (resizeStop i cfg p sl)) = sp_state p"
    and "sp_remainingQuantity (fst (resizeStop i cfg p sl)) = sp_remainingQuantity p"
proof -
  let ?s = "sp_stopLossPrice p"
  have tight: "?s \<le> toFixed 4 x" if "?s < x" for x
    using that assms by (auto intro!: fxd.rnd_ge_fixed simp: tidyPosition_def decimals_def)
  have tight': "toFixed 4 x \<le> ?s" if "x < ?s" for x
    using that assms by (auto intro!: fxd.rnd_le_fixed simp: tidyPosition_def decimals_def)
  show "follows (p, acc) (fst (resizeStop i cfg p sl), acc)"
    using assms by (cases "sp_side p")
      (auto simp: follows_def tidyPosition_def laterPosition_def settledBy_def resizeStop_def moveStopToBreakeven_def
        Let_def not_le intro: tight tight')
  show "sp_state (fst (resizeStop i cfg p sl)) = sp_state p"
    "sp_remainingQuantity (fst (resizeStop i cfg p sl)) = sp_remainingQuantity p"
    by (simp_all add: resizeStop_def moveStopToBreakeven_def Let_def)
qed

lemma follows_state:
  assumes "follows x (q, acc)" and "sp_state q' = CLOSED_P"
    and "sp_id q' = sp_id q" "sp_symbol q' = sp_symbol q" "sp_side q' = sp_side q"
    "sp_averageEntryPrice q' = sp_averageEntryPrice q" "sp_plannedStopPrice q' = sp_plannedStopPrice q"
    "sp_remainingQuantity q' = sp_remainingQuantity q" "sp_stopLossPrice q' = sp_stopLossPrice q"
    "sp_realizedPnl q' = sp_realizedPnl q" "sp_fees q' = sp_fees q" "sp_usedMargin q' = sp_usedMargin q"
  shows "follows x (q', acc)"
  using assms by (cases x) (simp add: follows_def tidyPosition_def laterPosition_def settledBy_def)

text \<open>The position under \<open>symbol\<close> and the account, before and after.\<close>

definition tracked :: "string \<Rightarrow> paperPosition \<times> paperAccount \<Rightarrow> smcBroker \<Rightarrow> bool" where
  "tracked symbol x b \<longleftrightarrow> (\<exists>q. mget (sb_positions b) symbol = Some q \<and> follows x (q, sb_account b))"

lemma executeStopLoss_trades:
  assumes "tidyPosition p" and "follows x (p, sb_account b)" and f: "decimals 4 (sf_fee f)" "0 < sf_quantity f"
  shows "tracked symbol x (executeStopLoss symbol p sl f k b)"
proof -
  obtain g n q where pc: "applyPartialClose f p = ((g, n), q)" by (metis prod.exhaust)
  have "follows x (q, creditRealizedPnl g (chargeFee (sf_fee f) (sb_account b)))"
    by (rule follows_trans [OF assms(2) applyPartialClose_follows(1) [OF assms(1) f pc]])
  then have "follows x (q\<lparr>sp_state := CLOSED_P, sp_lifecycle := STOPPED_L\<rparr>, creditRealizedPnl g (chargeFee (sf_fee f) (sb_account b)))"
    by (rule follows_state) simp_all
  then show ?thesis by (simp add: tracked_def executeStopLoss_def pc Let_def)
qed

lemma executeTakeProfit_trades:
  assumes "tidyPosition p" and "follows x (p, sb_account b)" and f: "decimals 4 (sf_fee f)" "0 < sf_quantity f"
  shows "tracked symbol x (executeTakeProfit symbol p tp f i k b)"
proof -
  obtain g n q where pc: "applyPartialClose f p = ((g, n), q)" by (metis prod.exhaust)
  let ?acc = "creditRealizedPnl g (chargeFee (sf_fee f) (sb_account b))"
  have q: "follows x (q, ?acc)"
    by (rule follows_trans [OF assms(2) applyPartialClose_follows(1) [OF assms(1) f pc]])
  then have tidy: "tidyPosition q" by (cases x) (simp add: follows_def)
  have resized: "follows x (q', ?acc)" if "resizeStop i cfg q sl = (q', sl')" for cfg sl q' sl'
    using follows_trans [OF q resizeStop_follows(1) [OF tidy, of ?acc i cfg sl]] that by simp
  have closing: "follows x (q'\<lparr>sp_state := CLOSED_P, sp_lifecycle := CLOSED_L\<rparr>, ?acc)" if "follows x (q', ?acc)" for q'
    by (rule follows_state [OF that]) simp_all
  show ?thesis
    unfolding tracked_def executeTakeProfit_def pc Let_def
    by (auto simp: q closing resized split: option.splits prod.splits)
qed

lemma exitTarget_trades:
  assumes "tracked symbol x b"
  shows "tracked symbol x (left (exitTarget symbol pid k i b))"
proof -
  obtain q where q: "mget (sb_positions b) symbol = Some q" "follows x (q, sb_account b)" "tidyPosition q"
    using assms by (cases x) (auto simp: tracked_def follows_def)
  have *: "tracked symbol x (executeTakeProfit symbol q tp' f i k b)"
    if "evaluateOrderFill cfg tp k = Inr (Some (f, tp'))" for cfg tp f tp'
    using executeTakeProfit_trades [OF q(3,2)] evaluateOrderFill_fields [OF that] by blast
  show ?thesis
    using assms by (auto simp: exitTarget_def q * split: option.splits sum.splits)
qed

lemma processExitFills_trades:
  assumes "mget (sb_positions b) symbol = Some p" "tidyPosition p" "follows x (p, sb_account b)"
  shows "tracked symbol x (left (processExitFills symbol p k b))"
proof -
  have t: "tracked symbol x b" using assms by (auto simp: tracked_def)
  have targets: "tracked symbol x (left (foldR (exitTarget symbol (sp_id p) k) [1, 2, 3] b))"
    by (rule left_foldR [where P = "tracked symbol x", OF exitTarget_trades t])
  have stop: "tracked symbol x (executeStopLoss symbol p sl f k b)" if "stopFill (sp_id p) k b = Inr (Some (f, sl))" for f sl
    using that executeStopLoss_trades [OF assms(2,3)]
    by (auto simp: stopFill_def evaluateOrderFill_fields split: option.splits if_splits)
  show ?thesis
  proof (cases "stopFill (sp_id p) k b")
    case (Inl e)
    with t show ?thesis by (simp add: processExitFills_def)
  next
    case (Inr r)
    with targets stop show ?thesis
      by (cases r) (auto simp: processExitFills_def simp del: foldR.simps)
  qed
qed

lemma noteProgress_frame [simp]:
  "sb_positions (noteProgress symbol b) = sb_positions b" "sb_account (noteProgress symbol b) = sb_account b"
  by (simp_all add: noteProgress_def split: option.splits)

lemma checkPaperLiquidation_follows:
  assumes "tidyPosition p" and "checkPaperLiquidation p = (True, q)"
  shows "follows (p, acc) (q, creditRealizedPnl (- sp_usedMargin q) acc)"
  using assms by (auto simp: checkPaperLiquidation_def follows_def tidyPosition_def laterPosition_def settledBy_def
      creditRealizedPnl_def split: if_splits)

text \<open>C14. While a candle works on an open position the position never grows, its stop never moves away
  from the market, what it was opened with stays, and the account's realised PnL and fees move by
  exactly what the position books - on the stop, on every target and on a liquidation.\<close>

theorem open_position_settles:
  assumes "mget (sb_positions b) symbol = Some p" and "tidyPosition p"
  shows "\<exists>q. mget (sb_positions (left (processOpenPosition symbol p k b))) symbol = Some q \<and>
    tidyPosition q \<and> laterPosition p q \<and>
    settledBy p (sb_account b) q (sb_account (left (processOpenPosition symbol p k b)))"
proof -
  let ?m = "updateMarkPrice (k_close k) p"
  have m: "tidyPosition ?m" "follows (p, sb_account b) (?m, sb_account b)"
    using assms(2) by (auto simp: updateMarkPrice_def tidyPosition_def follows_def laterPosition_def settledBy_def)
  have "tracked symbol (p, sb_account b) (left (processOpenPosition symbol p k b))"
  proof (cases "checkPaperLiquidation ?m")
    case (Pair l q)
    show ?thesis
    proof (cases l)
      case True
      then have "follows (p, sb_account b) (q, creditRealizedPnl (- sp_usedMargin q) (sb_account b))"
        using follows_trans [OF m(2) checkPaperLiquidation_follows [OF m(1)]] Pair by simp
      with True Pair show ?thesis
        by (simp add: processOpenPosition_def Let_def handleLiquidation_def tracked_def)
    next
      case False
      then have q: "q = ?m" using Pair by (auto simp: checkPaperLiquidation_def split: if_splits)
      let ?b1 = "b\<lparr>sb_positions := mset symbol ?m (sb_positions b)\<rparr>"
      have "tracked symbol (p, sb_account b) (left (processExitFills symbol ?m k ?b1))"
        by (rule processExitFills_trades) (use m in simp_all)
      then have "tracked symbol (p, sb_account b) (left (bindR (processExitFills symbol ?m k ?b1) (\<lambda>b2. Inr (noteProgress symbol b2))))"
        by (intro left_bindR [where P = "tracked symbol (p, sb_account b)"]) (auto simp: tracked_def)
      with False Pair q show ?thesis by (simp add: processOpenPosition_def Let_def)
    qed
  qed
  then show ?thesis by (auto simp: tracked_def follows_def)
qed

text \<open>A long of 2 contracts at 100 with its stop at 95.\<close>

definition heldLong :: paperPosition where
  "heldLong = openPosition \<lparr>sf_orderId = EntryId ''S'', sf_candleTime = 0, sf_symbol = ''BTC'', sf_side = BUY,
     sf_price = 100, sf_quantity = 2, sf_fee = 4 / 100, sf_slippage = 0, sf_isMaker = True, sf_timestamp = 0,
     sf_positionId = None\<rparr> LONG 5 95 [110, 120, 130] ''S'' ''U'' ''P'' (5 / 1000)"

lemma heldLong_fields [simp]:
  "sp_id heldLong = EntryId ''S''" "sp_symbol heldLong = ''BTC''" "sp_side heldLong = LONG"
  "sp_state heldLong = OPEN_P" "sp_remainingQuantity heldLong = 2" "sp_initialQuantity heldLong = 2"
  "sp_averageEntryPrice heldLong = 100" "sp_usedMargin heldLong = 40" "sp_initialMargin heldLong = 40"
  "sp_realizedPnl heldLong = 0" "sp_fees heldLong = 4 / 100" "sp_stopLossPrice heldLong = 95"
  "sp_liquidationPrice heldLong = 804221 / 10000" "sp_signalKey heldLong = ''S''" "sp_plannedStopPrice heldLong = 95"
  by (simp_all add: heldLong_def openPosition_def calculateLiquidationPrice_def selectBracket_def Let_def
      toFixed_def grid_def round_away_def)

definition heldBroker :: smcBroker where
  "heldBroker = (newSmcBroker 10000 defaultPaperConfig)
     \<lparr>sb_positions := [(''BTC'', heldLong)], sb_orders := [(StopId (EntryId ''S''), longStop)]\<rparr>"

lemma heldLong_tidy: "tidyPosition heldLong"
  by (simp add: tidyPosition_def decimals_def toFixed_def grid_def round_away_def)

lemma heldBroker_position: "mget (sb_positions heldBroker) ''BTC'' = Some heldLong"
  by (simp add: heldBroker_def mget_def)

lemma open_position_settles_witness:
  "\<exists>q. mget (sb_positions (left (processOpenPosition ''BTC'' heldLong gapCandle heldBroker))) ''BTC'' = Some q \<and>
    tidyPosition q \<and> laterPosition heldLong q \<and>
    settledBy heldLong (sb_account heldBroker) q
      (sb_account (left (processOpenPosition ''BTC'' heldLong gapCandle heldBroker)))"
  by (rule open_position_settles [OF heldBroker_position heldLong_tidy])

subsection \<open>Liquidation prices\<close>

text \<open>What a position of \<open>qty\<close> contracts is worth at a price: its margin less the costs charged to it,
  plus the PnL; and the maintenance margin the exchange demands there.\<close>

definition worthAt :: "direction \<Rightarrow> number \<Rightarrow> number \<Rightarrow> number \<Rightarrow> number \<Rightarrow> number" where
  "worthAt side entry qty collateral price =
     collateral + (if side = LONG then price - entry else entry - price) * qty"

lemma rounded_solution:
  assumes "den > 0" and "num / den \<ge> 0"
  shows "\<bar>toFixed 4 (max 0 (num / den)) * den - num\<bar> \<le> den / 20000"
proof -
  have "\<bar>toFixed 4 (num / den) - num / den\<bar> \<le> 1 / 20000"
    using fxd.rnd_error [of 4 "num / den"] by simp
  then have "\<bar>toFixed 4 (num / den) - num / den\<bar> * den \<le> 1 / 20000 * den"
    using assms(1) by (intro mult_right_mono) simp_all
  then have "\<bar>(toFixed 4 (num / den) - num / den) * den\<bar> \<le> den / 20000"
    using assms(1) by (simp add: abs_mult)
  then show ?thesis using assms by (simp add: left_diff_distrib max_def)
qed

text \<open>The liquidation price of a new position is the price at which its margin less the entry fee plus
  the PnL equals the maintenance margin, up to the rounding of the price to four decimals.\<close>

theorem liquidation_price_meets_maintenance:
  assumes f: "sf_price f > 0" "sf_quantity f > 0" and mmr: "0 \<le> mmr" "mmr < 1"
    and costs: "0 \<le> sf_fee f" "sf_fee f \<le> sf_price f * sf_quantity f" and lev: "lev \<ge> 1"
  shows "let p = openPosition f side lev stop tps key setup plan mmr; liq = sp_liquidationPrice p;
      margin = sf_price f * sf_quantity f / lev in
    \<bar>worthAt side (sf_price f) (sf_quantity f) (margin - sf_fee f) liq - mmr * liq * sf_quantity f\<bar>
      \<le> sf_quantity f * (1 + mmr) / 20000"
proof -
  let ?n = "sf_price f * sf_quantity f" and ?q = "sf_quantity f"
  have n: "0 < ?n" using f by simp
  have margin: "?n / lev \<le> ?n" using divide_left_mono [of 1 lev ?n] n lev by simp
  have m0: "0 < ?n / lev" using n lev by simp
  have lmax: "max 1 lev = lev" using lev by simp
  define num where "num = (if side = LONG then ?n + sf_fee f - ?n / lev else ?n - sf_fee f + ?n / lev)"
  define den where "den = (if side = LONG then ?q * (1 - mmr) else ?q * (1 + mmr))"
  have den: "0 < den" "den \<le> ?q * (1 + mmr)" using f mmr by (auto simp: den_def mult_left_mono)
  have num: "0 \<le> num" using costs margin m0 n by (auto simp: num_def)
  have liq: "sp_liquidationPrice (openPosition f side lev stop tps key setup plan mmr) = toFixed 4 (max 0 (num / den))"
    using f den by (auto simp: openPosition_def calculateLiquidationPrice_def selectBracket_def Let_def lmax num_def den_def)
  have "\<bar>toFixed 4 (max 0 (num / den)) * den - num\<bar> \<le> ?q * (1 + mmr) / 20000"
    using rounded_solution [of den num] den num by simp
  moreover have "\<bar>worthAt side (sf_price f) ?q (?n / lev - sf_fee f) x - mmr * x * ?q\<bar> = \<bar>x * den - num\<bar>" for x
  proof (cases side)
    case LONG
    then have "worthAt side (sf_price f) ?q (?n / lev - sf_fee f) x - mmr * x * ?q = x * den - num"
      by (simp add: worthAt_def num_def den_def algebra_simps)
    then show ?thesis by simp
  next
    case SHORT
    then have "worthAt side (sf_price f) ?q (?n / lev - sf_fee f) x - mmr * x * ?q = - (x * den - num)"
      by (simp add: worthAt_def num_def den_def algebra_simps)
    then show ?thesis by (simp only: abs_minus_cancel)
  qed
  ultimately show ?thesis by (simp add: Let_def liq)
qed

definition btcFill :: paperFill where
  "btcFill = \<lparr>sf_orderId = EntryId ''S'', sf_candleTime = 0, sf_symbol = ''BTC'', sf_side = SELL, sf_price = 100,
     sf_quantity = 2, sf_fee = 8 / 100, sf_slippage = 0, sf_isMaker = False, sf_timestamp = 0, sf_positionId = None\<rparr>"

lemma liquidation_price_meets_maintenance_witness:
  "let p = openPosition btcFill SHORT 10 105 [90] ''S'' ''U'' ''P'' (5 / 1000); liq = sp_liquidationPrice p;
      margin = sf_price btcFill * sf_quantity btcFill / 10 in
    \<bar>worthAt SHORT (sf_price btcFill) (sf_quantity btcFill) (margin - sf_fee btcFill) liq
       - 5 / 1000 * liq * sf_quantity btcFill\<bar> \<le> sf_quantity btcFill * (1 + 5 / 1000) / 20000"
  by (rule liquidation_price_meets_maintenance) (simp_all add: btcFill_def)

subsection \<open>Metrics\<close>

text \<open>The largest fall of the cumulated PnL from an earlier point, the start included.\<close>

definition falls :: "number list \<Rightarrow> number set" where
  "falls xs = {sum_list (take i xs) - sum_list (take j xs) | i j. i \<le> j \<and> j \<le> length xs}"

lemma finite_falls: "finite (falls xs)"
proof -
  have "falls xs \<subseteq> (\<lambda>(i, j). sum_list (take i xs) - sum_list (take j xs)) ` ({..length xs} \<times> {..length xs})"
    by (fastforce simp: falls_def)
  then show ?thesis by (rule finite_subset) simp
qed

lemma drawdownLoop_le:
  assumes "c \<le> p"
  shows "drawdownLoop xs c p m \<le> d \<longleftrightarrow> m \<le> d \<and> (\<forall>j<length xs. p - (c + sum_list (take (Suc j) xs)) \<le> d) \<and>
    (\<forall>j<length xs. \<forall>i<Suc j. sum_list (take (Suc i) xs) - sum_list (take (Suc j) xs) \<le> d)"
  using assms
proof (induction xs arbitrary: c p m)
  case (Cons x xs)
  have "c + x \<le> max p (c + x)" by simp
  note IH = Cons.IH [OF this, of "max m (max p (c + x) - (c + x))"]
  have top: "max p (c + x) - (c + x + y) \<le> d \<longleftrightarrow> p - (c + (x + y)) \<le> d \<and> - y \<le> d" for y
    by (auto simp: max_def)
  have m: "max m (max p (c + x) - (c + x)) \<le> d \<longleftrightarrow> m \<le> d \<and> p - (c + x) \<le> d \<and> 0 \<le> d"
    by (auto simp: max_def)
  show ?case
    by (simp only: drawdownLoop.simps Let_def IH m top)
      (simp add: All_less_Suc2 all_conj_distrib imp_conjR conj_ac del: All_less_Suc; blast?)
qed simp

lemma drawdownLoop_le_iff:
  "drawdownLoop xs 0 0 0 \<le> d \<longleftrightarrow> (\<forall>y\<in>falls xs. y \<le> d)"
proof
  assume "drawdownLoop xs 0 0 0 \<le> d"
  then have d: "0 \<le> d" and top: "\<And>j. j < length xs \<Longrightarrow> - sum_list (take (Suc j) xs) \<le> d"
    and mid: "\<And>i j. j < length xs \<Longrightarrow> i < Suc j \<Longrightarrow> sum_list (take (Suc i) xs) - sum_list (take (Suc j) xs) \<le> d"
    by (simp_all add: drawdownLoop_le)
  have "sum_list (take i xs) - sum_list (take j xs) \<le> d" if "i \<le> j" "j \<le> length xs" for i j
    using that d top [of "j - 1"] mid [of "j - 1" "i - 1"] by (cases i; cases j) auto
  then show "\<forall>y\<in>falls xs. y \<le> d" by (auto simp: falls_def)
next
  assume "\<forall>y\<in>falls xs. y \<le> d"
  then have le: "sum_list (take i xs) - sum_list (take j xs) \<le> d" if "i \<le> j" "j \<le> length xs" for i j
    using that by (auto simp: falls_def)
  show "drawdownLoop xs 0 0 0 \<le> d"
    using le [of 0 0] le [of 0 "Suc _"] le [of "Suc _" "Suc _"] by (auto simp: drawdownLoop_le)
qed

text \<open>The maximal drawdown the metrics report is the largest fall of the cumulated net PnL between any
  two points of the trades in the order of their exits, the start included.\<close>

theorem drawdown_is_largest_fall:
  "calculateMaxDrawdown trades =
     toFixed 4 (Max (falls (map td_netPnl (sort_key (\<lambda>t. coalesce (td_exitTimestamp t) 0) trades))))"
proof -
  have "drawdownLoop xs 0 0 0 = Max (falls xs)" for xs
  proof (rule antisym)
    show "drawdownLoop xs 0 0 0 \<le> Max (falls xs)"
      by (simp add: drawdownLoop_le_iff finite_falls)
    have "falls xs \<noteq> {}" by (auto simp: falls_def)
    then show "Max (falls xs) \<le> drawdownLoop xs 0 0 0"
      using drawdownLoop_le_iff [of xs "drawdownLoop xs 0 0 0"] by (simp add: finite_falls)
  qed
  then show ?thesis by (simp add: calculateMaxDrawdown_def)
qed

subsection \<open>Entries\<close>

text \<open>An entry that fills on a symbol whose position is still open replaces that position: the new
  one stands for the entry's quantity alone, the account is charged the entry fee only, and the old
  one's trade record is never settled but left as it was.\<close>

theorem entry_replaces_open_position:
  assumes "mget (sb_signals b) (so_signalKey ord) = Some sig" and "mget (sb_positions b) (so_symbol ord) = Some old"
    and "sp_state old = OPEN_P" "sp_id old \<noteq> sf_orderId f"
  shows "\<exists>b' p. executeEntryFill ord f b = Inr b' \<and> mget (sb_positions b') (so_symbol ord) = Some p \<and>
    sp_remainingQuantity p = sf_quantity f \<and> sp_averageEntryPrice p = sf_price f \<and> sp_realizedPnl p = 0 \<and>
    sb_account b' = chargeFee (sf_fee f) (sb_account b) \<and> p \<noteq> old \<and>
    mget (sb_ledger b') (sp_id old) = mget (sb_ledger b) (sp_id old)"
  using assms by (auto simp: executeEntryFill_def Let_def openPosition_def recordTradeOpen_def)

definition btcSignal :: tradeSignal where
  "btcSignal = \<lparr>ts_id = ''I'', ts_signalKey = ''S2'', ts_symbol = ''BTC'', ts_direction = LONG_D, ts_status = PAPER_READY,
     ts_setupType = SSL_SWEEP_REVERSAL_LONG, ts_confluenceScore = 80, ts_entryPrice = 100,
     ts_entryZone = \<lparr>z_upper = 101, z_lower = 99\<rparr>, ts_stopLossPrice = 95,
     ts_takeProfits = [\<lparr>ta_level = 1, ta_price = 110, ta_allocationPct = 1, ta_riskReward = 2\<rparr>],
     ts_riskReward = \<lparr>rr_tp1 = 2, rr_tp2 = 3, rr_tp3 = 4\<rparr>, ts_sizing = None, ts_riskRejectionReasons = [],
     ts_createdAt = 0, ts_expiresAt = 1000, ts_sourceSetupId = ''U'', ts_sourceExecutionPlanId = ''P''\<rparr>"

definition btcFill' :: paperFill where
  "btcFill' = btcFill\<lparr>sf_orderId := EntryId ''S2''\<rparr>"

lemma entry_replaces_open_position_witness:
  "\<exists>b' p. executeEntryFill (entryOrder btcSignal 0) btcFill' (heldBroker\<lparr>sb_signals := [(''S2'', btcSignal)]\<rparr>) = Inr b' \<and>
    mget (sb_positions b') ''BTC'' = Some p \<and> sp_remainingQuantity p = 2 \<and> sp_realizedPnl p = 0"
  using entry_replaces_open_position [of "heldBroker\<lparr>sb_signals := [(''S2'', btcSignal)]\<rparr>" "entryOrder btcSignal 0" btcSignal heldLong btcFill']
  by (auto simp: entryOrder_def btcSignal_def heldBroker_def mget_def btcFill_def btcFill'_def)

text \<open>A stop whose fill the candle's volume has cut short still closes the whole position: the part
  that was not filled disappears without being settled.\<close>

theorem partial_stop_closes_all:
  assumes "decimals 4 (sp_remainingQuantity p)" "decimals 4 (sf_quantity f)" "sf_quantity f < sp_remainingQuantity p"
  shows "\<exists>q. mget (sb_positions (executeStopLoss symbol p sl f k b)) symbol = Some q \<and> sp_state q = CLOSED_P \<and>
    sp_remainingQuantity q = sp_remainingQuantity p - sf_quantity f \<and> 0 < sp_remainingQuantity q \<and>
    pa_realizedPnl (sb_account (executeStopLoss symbol p sl f k b)) =
      pa_realizedPnl (sb_account b) + toFixed 4 (priceDiff p (sf_price f) * sf_quantity f)"
  using assms
  by (simp add: executeStopLoss_def applyPartialClose_def Let_def creditRealizedPnl_def chargeFee_def)

definition thinStopFill :: paperFill where
  "thinStopFill = longStopFill\<lparr>sf_quantity := 1 / 2\<rparr>"

lemma partial_stop_closes_all_witness:
  "\<exists>q. mget (sb_positions (executeStopLoss ''BTC'' heldLong longStop thinStopFill gapCandle heldBroker)) ''BTC'' = Some q \<and>
    sp_state q = CLOSED_P \<and> sp_remainingQuantity q = 3 / 2"
proof -
  have "decimals 4 (sp_remainingQuantity heldLong)" "decimals 4 (sf_quantity thinStopFill)"
    "sf_quantity thinStopFill < sp_remainingQuantity heldLong"
    by (simp_all add: thinStopFill_def decimals_def toFixed_def grid_def round_away_def)
  from partial_stop_closes_all [OF this, of "''BTC''" longStop gapCandle heldBroker] show ?thesis
    by (auto simp: thinStopFill_def)
qed

subsection \<open>An order is filled once\<close>

text \<open>Every order stands under its own identifier, and the only fill an identifier can have is the one
  that made its order \<open>FILLED\<close>.\<close>

definition fillCount :: "smcOrderId \<Rightarrow> paperFill list \<Rightarrow> nat" where
  "fillCount oid fills = length (filter (\<lambda>f. sf_orderId f = oid) fills)"

lemma fillCount_simps [simp]:
  "fillCount oid [] = 0" "fillCount oid (fs @ [f]) = fillCount oid fs + (if sf_orderId f = oid then 1 else 0)"
  by (simp_all add: fillCount_def)

definition ordersFilledOnce :: "(smcOrderId, paperOrder) jsmap \<Rightarrow> paperFill list \<Rightarrow> bool" where
  "ordersFilledOnce ords fills \<longleftrightarrow>
     (\<forall>oid ord. mget ords oid = Some ord \<longrightarrow> so_id ord = oid) \<and>
     (\<forall>key. fillCount (EntryId key) fills = 0 \<or>
       fillCount (EntryId key) fills = Suc 0 \<and> (\<exists>ord. mget ords (EntryId key) = Some ord \<and> so_status ord = FILLED_S))"

abbreviation filledOnce :: "smcBroker \<Rightarrow> bool" where
  "filledOnce b \<equiv> ordersFilledOnce (sb_orders b) (sb_fills b)"

lemma once_other:
  assumes "ordersFilledOnce ords fills" "so_id ord = oid" "\<And>key. oid \<noteq> EntryId key"
  shows "ordersFilledOnce (mset oid ord ords) fills"
  using assms(1,2) assms(3) [THEN not_sym] by (auto simp: ordersFilledOnce_def)

lemma once_unfilled:
  assumes "ordersFilledOnce ords fills" "so_id ord = oid" "fillCount oid fills = 0"
  shows "ordersFilledOnce (mset oid ord ords) fills"
  using assms by (auto simp: ordersFilledOnce_def)

lemma once_fill:
  assumes "ordersFilledOnce ords fills" "so_id ord = oid" "so_status ord = FILLED_S"
    and "mget ords oid = Some old" "so_status old \<noteq> FILLED_S" "sf_orderId f = oid"
  shows "ordersFilledOnce (mset oid ord ords) (fills @ [f])"
proof -
  have "fillCount oid fills = 0" if "oid = EntryId key" for key
    using assms(1,4,5) that by (force simp: ordersFilledOnce_def)
  with assms show ?thesis by (fastforce simp: ordersFilledOnce_def)
qed

lemma once_exit_fill:
  assumes "ordersFilledOnce ords fills" "\<And>key. sf_orderId f \<noteq> EntryId key"
  shows "ordersFilledOnce ords (fills @ [f])"
  using assms by (simp add: ordersFilledOnce_def)

lemma once_new: "ordersFilledOnce ords fills \<Longrightarrow> mget ords oid = Some ord \<Longrightarrow> so_status ord \<noteq> FILLED_S \<Longrightarrow>
    oid = EntryId key \<Longrightarrow> fillCount oid fills = 0"
  by (force simp: ordersFilledOnce_def)

lemma cancelTarget_once:
  "ordersFilledOnce (sb_orders b) fills \<Longrightarrow> ordersFilledOnce (sb_orders (cancelTarget p i b)) fills"
  by (auto simp: cancelTarget_def ordersFilledOnce_def split: option.splits)

lemma cancelOutstandingTps_once:
  "ordersFilledOnce (sb_orders b) fills \<Longrightarrow> ordersFilledOnce (sb_orders (cancelOutstandingTps p b)) fills"
  by (simp add: cancelOutstandingTps_def cancelTarget_once)

lemma fold_once:
  assumes "\<And>tp. so_id (g tp) = kk tp" "\<And>tp key. kk tp \<noteq> EntryId key" "ordersFilledOnce ords fills"
  shows "ordersFilledOnce (fold (\<lambda>tp. mset (kk tp) (g tp)) tps ords) fills"
  using assms(3) by (induction tps arbitrary: ords) (simp_all add: once_other [OF _ assms(1,2)])

lemma attachExitOrders_once:
  assumes "ordersFilledOnce (sb_orders b) fills"
  shows "ordersFilledOnce (sb_orders (attachExitOrders p sig b)) fills"
proof -
  have "ordersFilledOnce (mset (StopId (sp_id p)) (stopOrderFor p) (sb_orders b)) fills"
    by (rule once_other [OF assms]) (simp_all add: stopOrderFor_def)
  then show ?thesis
    unfolding attachExitOrders_def attachTargets_orders Let_def
    by (intro fold_once) (simp_all add: targetOrderFor_def)
qed

lemma executeEntryFill_once:
  assumes once: "filledOnce b" and old: "mget (sb_orders b) (so_id ord) = Some old" "so_status old \<noteq> FILLED_S"
    and f: "sf_orderId f = so_id ord"
  shows "filledOnce (left (executeEntryFill ord f b))"
proof -
  let ?ord = "ord\<lparr>so_status := FILLED_S, so_filledQuantity := sf_quantity f, so_updatedAt := sf_timestamp f\<rparr>"
  have *: "ordersFilledOnce (mset (so_id ord) ?ord (sb_orders b)) (sb_fills b @ [f\<lparr>sf_positionId := pid\<rparr>])" for pid
    by (rule once_fill [OF once _ _ old]) (simp_all add: f)
  from * [of "sf_positionId f"] have "ordersFilledOnce (mset (so_id ord) ?ord (sb_orders b)) (sb_fills b @ [f])"
    by simp
  with * show ?thesis
    by (auto simp: executeEntryFill_def Let_def split: option.splits intro!: attachExitOrders_once)
qed

lemma pendingOrder_once:
  assumes "filledOnce b"
  shows "filledOnce (left (pendingOrder k oid b))"
proof (cases "mget (sb_orders b) oid")
  case None
  with assms show ?thesis by (simp add: pendingOrder_def)
next
  case (Some ord)
  then have "so_id ord = oid" using assms by (auto simp: ordersFilledOnce_def)
  then show ?thesis
    using assms Some
    by (auto simp: pendingOrder_def evaluateOrderFill_fields intro!: executeEntryFill_once split: sum.splits option.splits)
qed

lemma exit_once:
  assumes once: "filledOnce b" and ex: "mget (sb_orders b) oid = Some ord" "\<And>key. oid \<noteq> EntryId key"
    and fill: "evaluateOrderFill cfg ord k = Inr (Some (f, ord'))"
  shows "ordersFilledOnce (mset oid (ord'\<lparr>so_status := s\<rparr>) (sb_orders b)) (sb_fills b @ [f\<lparr>sf_positionId := p\<rparr>])"
    and "so_id ord' = oid"
proof -
  have "so_id ord = oid" using once ex by (auto simp: ordersFilledOnce_def)
  then have ids: "so_id ord' = oid" "sf_orderId f = oid" using evaluateOrderFill_fields [OF fill] by auto
  then show "ordersFilledOnce (mset oid (ord'\<lparr>so_status := s\<rparr>) (sb_orders b)) (sb_fills b @ [f\<lparr>sf_positionId := p\<rparr>])"
    using once ex by (intro once_exit_fill once_other) auto
  show "so_id ord' = oid" by (fact ids)
qed

lemma resizeStop_id [simp]: "so_id (snd (resizeStop i cfg q sl)) = so_id sl"
  by (simp add: resizeStop_def Let_def)

lemma executeStopLoss_once:
  assumes "ordersFilledOnce (mset (so_id sl) (sl\<lparr>so_status := FILLED_S\<rparr>) (sb_orders b)) (sb_fills b @ [f\<lparr>sf_positionId := Some (sp_id p)\<rparr>])"
  shows "filledOnce (executeStopLoss symbol p sl f k b)"
  using assms by (auto simp: executeStopLoss_def Let_def split: prod.splits intro!: cancelOutstandingTps_once)

lemma executeTakeProfit_once:
  assumes "ordersFilledOnce (mset (so_id tp) (tp\<lparr>so_status := FILLED_S\<rparr>) (sb_orders b)) (sb_fills b @ [f\<lparr>sf_positionId := Some (sp_id p)\<rparr>])"
  shows "filledOnce (executeTakeProfit symbol p tp f i k b)"
proof -
  let ?ords = "mset (so_id tp) (tp\<lparr>so_status := FILLED_S\<rparr>) (sb_orders b)"
  have *: "ordersFilledOnce (mset (StopId (sp_id p)) sl' ?ords) (sb_fills b @ [f\<lparr>sf_positionId := Some (sp_id p)\<rparr>])"
    if "mget ?ords (StopId (sp_id p)) = Some sl" "resizeStop i (sb_config b) q sl = (q', sl')" for sl q q' sl'
  proof (rule once_other [OF assms])
    have "so_id sl = StopId (sp_id p)" using assms that(1) by (simp only: ordersFilledOnce_def)
    then show "so_id sl' = StopId (sp_id p)" using resizeStop_id [of i "sb_config b" q sl] that(2) by simp
  qed simp
  show ?thesis
    unfolding executeTakeProfit_def Let_def
    using assms * by (auto split: option.splits prod.splits simp del: mget_mset)
qed

lemma exitTarget_once: "filledOnce b \<Longrightarrow> filledOnce (left (exitTarget symbol p k i b))"
proof -
  assume once: "filledOnce b"
  have "filledOnce (executeTakeProfit symbol q tp' f i k b)"
    if "mget (sb_orders b) (TargetId p i) = Some tp" "evaluateOrderFill (sb_config b) tp k = Inr (Some (f, tp'))" for q tp tp' f
    using exit_once [OF once that(1) _ that(2)] by (intro executeTakeProfit_once) simp
  then show ?thesis
    using once by (auto simp: exitTarget_def split: option.splits sum.splits)
qed

lemma processExitFills_once:
  assumes once: "filledOnce b"
  shows "filledOnce (left (processExitFills symbol p k b))"
proof -
  have targets: "filledOnce (left (foldR (exitTarget symbol (sp_id p) k) [1, 2, 3] b))"
    by (rule left_foldR [where P = filledOnce, OF exitTarget_once once])
  have stop: "filledOnce (executeStopLoss symbol p sl f k b)" if "stopFill (sp_id p) k b = Inr (Some (f, sl))" for f sl
  proof -
    from that obtain ord where "mget (sb_orders b) (StopId (sp_id p)) = Some ord"
      "evaluateOrderFill (sb_config b) ord k = Inr (Some (f, sl))"
      by (auto simp: stopFill_def split: option.splits if_splits)
    from exit_once [OF once this(1) _ this(2)] show ?thesis by (intro executeStopLoss_once) simp
  qed
  show ?thesis
    using once targets stop
    by (auto simp: processExitFills_def simp del: foldR.simps split: sum.splits option.splits)
qed

lemma processOpenPosition_once:
  assumes "filledOnce b"
  shows "filledOnce (left (processOpenPosition symbol p k b))"
proof -
  obtain l q where lq: "checkPaperLiquidation (updateMarkPrice (k_close k) p) = (l, q)" by (metis prod.exhaust)
  let ?b = "b\<lparr>sb_positions := mset symbol q (sb_positions b)\<rparr>"
  have "filledOnce (left (bindR (processExitFills symbol q k ?b) (\<lambda>b2. Inr (noteProgress symbol b2))))"
    using processExitFills_once [of ?b symbol q k] assms
    by (intro left_bindR [where P = filledOnce]) (auto simp: noteProgress_def split: option.splits)
  then show ?thesis
    using assms by (simp add: processOpenPosition_def lq Let_def handleLiquidation_def cancelOutstandingTps_once)
qed

interpretation smcOnce: component exchangeStep filledOnce
proof
  fix b x
  assume b: "filledOnce b"
  show "filledOnce (exchangeStep x b)"
  proof (cases x)
    case (SubmitSignal sig t)
    have "fillCount (EntryId key) (sb_fills b) = 0" if "mget (sb_orders b) (EntryId key) = None" for key
      using b that by (auto simp: ordersFilledOnce_def)
    then show ?thesis
      using b by (auto simp: exchangeStep_def SubmitSignal submitTradeSignal_def Let_def entryOrder_def
          intro!: once_unfilled split: option.splits)
  next
    case (CancelSignal key t)
    have "fillCount (EntryId key) (sb_fills b) = 0" "so_id ord = EntryId key"
      if "mget (sb_orders b) (EntryId key) = Some ord" "so_status ord = NEW_S" for ord
      using b that by (auto simp: ordersFilledOnce_def)
    then show ?thesis
      using b by (auto simp: exchangeStep_def CancelSignal cancelSignalOrder_def intro!: once_unfilled split: option.splits)
  next
    case (Candle k)
    have "filledOnce (left (processCandle k b))"
      unfolding processCandle_def
    proof (rule left_bindR [where P = filledOnce])
      let ?r = "case mget (sb_positions b) (k_symbol k) of None \<Rightarrow> Inr b
        | Some pos \<Rightarrow> if sp_state pos = OPEN_P then processOpenPosition (k_symbol k) pos k b else Inr b"
      have first: "filledOnce (left ?r)"
        using b by (simp add: processOpenPosition_once split: option.splits)
      show "filledOnce s" if "?r = Inl (msg, s)" for msg s using first that by simp
      show "filledOnce (left (processPendingOrders k s))" if "?r = Inr s" for s
        unfolding processPendingOrders_def
        by (rule left_foldR [where P = filledOnce, OF pendingOrder_once]) (use first that in simp_all)
    qed
    then show ?thesis by (simp add: exchangeStep_def Candle)
  next
    case (Funding symbol r t)
    with b show ?thesis
      by (auto simp: exchangeStep_def processFunding_def Let_def split: option.splits prod.splits)
  qed
qed

text \<open>Over any run from a new exchange a signal is entered at most once: its entry order has at most one
  fill, and one that has been filled stays FILLED.\<close>

theorem signal_entered_once:
  "let b = fold exchangeStep xs (newSmcBroker C cfg) in
     fillCount (EntryId key) (sb_fills b) = 0 \<or>
     fillCount (EntryId key) (sb_fills b) = Suc 0 \<and>
     (\<exists>ord. mget (sb_orders b) (EntryId key) = Some ord \<and> so_status ord = FILLED_S)"
proof -
  have "filledOnce (newSmcBroker C cfg)" by (simp add: ordersFilledOnce_def newSmcBroker_def)
  then have "filledOnce (fold exchangeStep xs (newSmcBroker C cfg))" by (rule smcOnce.inv_run)
  then show ?thesis by (simp add: ordersFilledOnce_def Let_def)
qed

end
