(* ===== verification/Pipeline_Guarantees.thy ===== *)
theory Pipeline_Guarantees
  imports Plan_Guarantees Risk_Guarantees Smc_Guarantees
begin

section \<open>From plan to position\<close>

text \<open>
  The components composed the way the backtest and the SMC pipeline compose them: an execution plan
  becomes an intent, the intent an entry order of the paper exchange, and a candle that touches the
  order a position with its exit orders.
\<close>

lemma submitted_entry:
  assumes "submitTradeSignal sig t b = (AcceptedOrder oid, b1)"
  shows "ts_status sig = PAPER_READY" "oid = EntryId (ts_signalKey sig)" "mget (sb_orders b1) oid = Some (entryOrder sig t)"
    "mget (sb_signals b1) (ts_signalKey sig) = Some sig" "sb_config b1 = sb_config b" "sb_positions b1 = sb_positions b"
  using assms by (auto simp: submitTradeSignal_def entryOrder_def Let_def split: if_splits option.splits)

lemma entry_becomes_position:
  assumes sub: "submitTradeSignal sig t b = (AcceptedOrder oid, b1)"
    and fill: "evaluateOrderFill (sb_config b) (entryOrder sig t) k = Inr (Some (f, ord'))" and sym: "k_symbol k = ts_symbol sig"
  obtains b2 where "pendingOrder k oid b1 = Inr b2"
    "mget (sb_positions b2) (ts_symbol sig) = Some (openPosition f (if ts_direction sig = LONG_D then LONG else SHORT)
       (case ts_sizing sig of None \<Rightarrow> 5 | Some z \<Rightarrow> sz_leverage z) (ts_stopLossPrice sig)
       (map ta_price (ts_takeProfits sig)) (ts_signalKey sig) (so_setupId ord') (so_executionPlanId ord')
       (sc_maintenanceMarginRate (sb_config b)))"
proof -
  note s = submitted_entry [OF sub]
  have o': "so_signalKey ord' = ts_signalKey sig" "so_symbol ord' = ts_symbol sig"
    using evaluateOrderFill_fields [OF fill] by (simp_all add: entryOrder_def)
  have pend: "pendingOrder k oid b1 = executeEntryFill ord' f b1"
    using s fill sym by (simp add: pendingOrder_def entryOrder_def)
  obtain b2 where "executeEntryFill ord' f b1 = Inr b2"
    "mget (sb_positions b2) (ts_symbol sig) = Some (openPosition f (if ts_direction sig = LONG_D then LONG else SHORT)
       (case ts_sizing sig of None \<Rightarrow> 5 | Some z \<Rightarrow> sz_leverage z) (ts_stopLossPrice sig)
       (map ta_price (ts_takeProfits sig)) (ts_signalKey sig) (so_setupId ord') (so_executionPlanId ord')
       (sc_maintenanceMarginRate (sb_config b)))"
    using s by (simp add: executeEntryFill_def Let_def o')
  with pend show thesis by (intro that) simp_all
qed

text \<open>What a fill of a limit order may cost beyond its level: nothing without slippage, the ticks or the basis points
  with it, and half a unit of the fourth decimal to which a slipped price is rounded. A fill under the
  unimplemented model throws.\<close>

definition slippageCost :: "smcConfig \<Rightarrow> number \<Rightarrow> number" where
  "slippageCost cfg level = (case sc_slippageModel cfg of
       FIXED_TICKS \<Rightarrow> coalesce (sc_slippageFixedTicks cfg) 1 * tickSize + 1 / 20000
     | BPS \<Rightarrow> level * (coalesce (sc_slippageBps cfg) 5 / 10000) + 1 / 20000
     | _ \<Rightarrow> 0)"

definition sensibleSlippage :: "smcConfig \<Rightarrow> bool" where
  "sensibleSlippage cfg \<longleftrightarrow> 0 \<le> coalesce (sc_slippageBps cfg) 5 \<and> coalesce (sc_slippageBps cfg) 5 \<le> 10000"

lemma toFixed_4: "toFixed 4 x \<le> x + 1 / 20000" "x - 1 / 20000 \<le> toFixed 4 (x :: number)"
  using fxd.rnd_error [of 4 x, THEN abs_le_D1] fxd.rnd_error [of 4 x, THEN abs_le_D2] by (simp_all add: algebra_simps)

lemma slipped_price:
  assumes "applySlippage base side cfg tickSize = Inr (price, sl)" "sensibleSlippage cfg"
    "if side = BUY then base \<le> level else level \<le> base"
  shows "if side = BUY then price \<le> level + slippageCost cfg level else level - slippageCost cfg level \<le> price"
proof (cases "sc_slippageModel cfg")
  case FIXED_TICKS
  then show ?thesis
    using assms toFixed_4(1) [of "base + coalesce (sc_slippageFixedTicks cfg) 1 * tickSize"]
      toFixed_4(2) [of "base - coalesce (sc_slippageFixedTicks cfg) 1 * tickSize"]
    by (auto simp: applySlippage_def slippageCost_def Let_def split: if_splits)
next
  case BPS
  let ?s = "coalesce (sc_slippageBps cfg) 5 / 10000"
  have s: "0 \<le> ?s" "?s \<le> 1" using assms(2) by (simp_all add: sensibleSlippage_def)
  have "side = BUY \<Longrightarrow> base * (1 + ?s) \<le> level * (1 + ?s)" "side \<noteq> BUY \<Longrightarrow> level * (1 - ?s) \<le> base * (1 - ?s)"
    using assms(3) s by (auto intro!: mult_right_mono)
  then show ?thesis
    using BPS assms(1) toFixed_4(1) [of "base + base * ?s"] toFixed_4(2) [of "base - base * ?s"]
    by (auto simp: applySlippage_def slippageCost_def Let_def distrib_left right_diff_distrib split: if_splits)
qed (use assms in \<open>auto simp: applySlippage_def slippageCost_def split: if_splits\<close>)

lemma entry_fill_price:
  assumes fill: "evaluateOrderFill cfg ord k = Inr (Some (f, ord'))" and "sensibleSlippage cfg" "\<not> isStop ord"
  shows "(if so_side ord = BUY then sf_price f \<le> orderLevel ord + slippageCost cfg (orderLevel ord)
      else orderLevel ord - slippageCost cfg (orderLevel ord) \<le> sf_price f)
    \<and> 0 < sf_quantity f \<and> sf_quantity f \<le> so_quantity ord - so_filledQuantity ord"
proof -
  from fill obtain base m where at: "fillAt cfg ord k m base = Inr (Some (f, ord'))"
    and lower: "(so_side ord = BUY) \<noteq> isStop ord \<longrightarrow> k_low k \<le> orderLevel ord \<and> base = min (k_open k) (orderLevel ord)"
    and upper: "(so_side ord = BUY) = isStop ord \<longrightarrow> orderLevel ord \<le> k_high k \<and> base = max (k_open k) (orderLevel ord)"
    by (rule evaluateOrderFill_Some)
  from at obtain fp sl where q: "calculateFillQty ord k > 0"
    and sl: "applySlippage base (so_side ord) cfg tickSize = Inr (fp, sl)"
    and f: "sf_price f = fp" "sf_quantity f = calculateFillQty ord k"
    by (rule fillAt_Some)
  have "if so_side ord = BUY then base \<le> orderLevel ord else orderLevel ord \<le> base"
    using lower upper assms(3) by auto
  from slipped_price [OF sl assms(2) this] show ?thesis using fill_quantity [OF q] q f by auto
qed

text \<open>C9. The risk budget of the plan survives to the position: when a plan becomes a ready intent, the intent an
  accepted entry order, and a candle fills that order, the position carries the plan's stop, its quantity is at
  most the sized one, and it loses at that stop no more than the equity times the risk per trade times the
  profit-goal multiplier, plus what the slippage model may cost the filled quantity, which is nothing where
  slippage is off.\<close>

theorem risk_budget_reaches_position:
  assumes plan: "ep_direction plan \<noteq> AVOID_D"
    and intent: "processExecutionPlan plan acc held instr now eng = (sig, eng')" and step: "stepOk instr"
    and sub: "submitTradeSignal sig t b = (AcceptedOrder oid, b1)"
    and fill: "evaluateOrderFill (sb_config b) (entryOrder sig t) k = Inr (Some (f, ord'))" and sym: "k_symbol k = ep_symbol plan"
    and slip: "sensibleSlippage (sb_config b)"
  shows "\<exists>b2 p z. pendingOrder k oid b1 = Inr b2 \<and> mget (sb_positions b2) (ep_symbol plan) = Some p \<and>
    ts_sizing sig = Some z \<and> sp_state p = OPEN_P \<and> sp_stopLossPrice p = ep_stopLossPrice plan \<and>
    0 < sp_remainingQuantity p \<and> sp_remainingQuantity p \<le> sz_quantity z \<and>
    - priceDiff p (sp_stopLossPrice p) * sp_remainingQuantity p \<le>
      ra_equity acc * (rk_riskPerTradePct (ie_config eng) *
        (case ie_goals eng of None \<Rightarrow> 1 | Some g \<Rightarrow> getCurrentRiskMultiplier g))
      + slippageCost (sb_config b) (ep_entryPrice plan) * sp_remainingQuantity p"
proof -
  note s = submitted_entry [OF sub]
  obtain z where sig: "sig = (translatePlan plan now)\<lparr>ts_status := PAPER_READY, ts_sizing := Some z, ts_riskRejectionReasons := []\<rparr>"
    using processExecutionPlan_ready [OF intent s(1)] by metis
  obtain z' where z': "ts_sizing sig = Some z'" and zq: "0 < sz_quantity z'"
    "sz_quantity z' * \<bar>ep_entryPrice plan - ep_stopLossPrice plan\<bar> \<le> sz_riskCapital z'"
    "sz_riskCapital z' = ra_equity acc * (rk_riskPerTradePct (ie_config eng) *
        (case ie_goals eng of None \<Rightarrow> 1 | Some g \<Rightarrow> getCurrentRiskMultiplier g))"
    using ready_intent_size [OF intent s(1) step] by blast
  have zz: "z' = z" using z' sig by simp
  let ?side = "if ep_direction plan = LONG_D then LONG else SHORT"
  let ?p = "openPosition f ?side (sz_leverage z) (ep_stopLossPrice plan) (map ta_price (ts_takeProfits sig))
      (ts_signalKey sig) (so_setupId ord') (so_executionPlanId ord') (sc_maintenanceMarginRate (sb_config b))"
  obtain b2 where b2: "pendingOrder k oid b1 = Inr b2" "mget (sb_positions b2) (ep_symbol plan) = Some ?p"
    using entry_becomes_position [OF sub fill] sym sig by (auto cong: option.case_cong)
  have lvl: "orderLevel (entryOrder sig t) = ep_entryPrice plan" "\<not> isStop (entryOrder sig t)"
    "so_side (entryOrder sig t) = (if ep_direction plan = LONG_D then BUY else SELL)"
    "so_quantity (entryOrder sig t) - so_filledQuantity (entryOrder sig t) = sz_quantity z"
    using sig by (simp_all add: entryOrder_def orderLevel_def isStop_def)
  let ?slip = "slippageCost (sb_config b) (ep_entryPrice plan)"
  note f = entry_fill_price [OF fill slip lvl(2), unfolded lvl(1,3,4)]
  have q: "0 < sf_quantity f" "sf_quantity f \<le> sz_quantity z" using f by simp_all
  have price: "if ep_direction plan = LONG_D then sf_price f \<le> ep_entryPrice plan + ?slip else ep_entryPrice plan - ?slip \<le> sf_price f"
    using f by (auto split: if_splits)
  have dist: "- priceDiff ?p (ep_stopLossPrice plan) \<le> \<bar>ep_entryPrice plan - ep_stopLossPrice plan\<bar> + ?slip"
    using price by (auto simp: priceDiff_def openPosition_def Let_def split: if_splits)
  have "- priceDiff ?p (ep_stopLossPrice plan) * sf_quantity f \<le> (\<bar>ep_entryPrice plan - ep_stopLossPrice plan\<bar> + ?slip) * sf_quantity f"
    using dist q by (intro mult_right_mono) simp_all
  also have "\<dots> = \<bar>ep_entryPrice plan - ep_stopLossPrice plan\<bar> * sf_quantity f + ?slip * sf_quantity f"
    by (simp add: distrib_right)
  also have "\<bar>ep_entryPrice plan - ep_stopLossPrice plan\<bar> * sf_quantity f \<le> \<bar>ep_entryPrice plan - ep_stopLossPrice plan\<bar> * sz_quantity z"
    using q by (intro mult_left_mono) simp_all
  also have "\<dots> \<le> sz_riskCapital z" using zq zz by (simp add: mult.commute)
  finally have loss: "- priceDiff ?p (ep_stopLossPrice plan) * sf_quantity f \<le> sz_riskCapital z + ?slip * sf_quantity f" by simp
  have "sp_state ?p = OPEN_P" "sp_stopLossPrice ?p = ep_stopLossPrice plan" "sp_remainingQuantity ?p = sf_quantity f"
    by (simp_all add: openPosition_def Let_def)
  then show ?thesis
    using b2 z' zz q loss zq(3) by (intro exI [of _ b2] exI [of _ ?p] exI [of _ z]) simp
qed

text \<open>The plan of the ready setup, an entry at 12 with the stop at 7.98, sized for an account of 10000, filled
  by a candle that opens below the entry.\<close>

definition readyLong :: executionPlan where
  "readyLong = generateExecutionPlan DEFAULT_EXECUTION_PLAN_CONFIG readySetup plainFrame plainSmc None 300 True"

definition dipCandle :: "string \<Rightarrow> candle" where
  "dipCandle s = \<lparr>k_symbol = s, k_interval = ''5m'', k_openTime = 600, k_open = 115 / 10, k_high = 13, k_low = 11,
     k_close = 12, k_volume = Some 500, k_closeTime = Some 899, k_isClosed = True\<rparr>"

definition sizedReady :: sizingResult where
  "sizedReady = \<lparr>sz_accountEquity = 10000, sz_riskPercent = 1 / 100, sz_riskCapital = 100, sz_stopDistance = 402 / 100,
     sz_quantity = 24875 / 1000, sz_positionNotional = 2985 / 10, sz_requiredMargin = 597 / 10, sz_leverage = 5\<rparr>"

lemma readyLong_size: "calculatePositionSize 10000 (1 / 100) 12 (798 / 100) None 5 = Inr sizedReady"
  by (simp add: calculatePositionSize_def sizedReady_def Let_def toFixed_def grid_def round_away_def min_def)

definition readySignal :: tradeSignal where
  "readySignal = (translatePlan readyLong 300)\<lparr>ts_status := PAPER_READY, ts_sizing := Some sizedReady, ts_riskRejectionReasons := []\<rparr>"

lemma readyLong_intent:
  "processExecutionPlan readyLong solvent [] None 300 freshIntents =
     (readySignal, freshIntents\<lparr>ie_activeSignalKeys := [ts_signalKey (translatePlan readyLong 300)]\<rparr>)"
proof -
  have "ep_status readyLong = EXECUTABLE" by (simp only: readyLong_def readyPlan)
  moreover have "calculatePositionSize 10000 (1 / 100) (ep_entryPrice readyLong) (ep_stopLossPrice readyLong) None 5 = Inr sizedReady"
    by (simp only: readyLong_def readyPlan_prices readyLong_size)
  ultimately show ?thesis
    unfolding readySignal_def by (rule solvent_intent_ready) (simp_all add: sizedReady_def)
qed

lemma readyLong_direction: "ep_direction readyLong = LONG_D"
  by (simp add: readyLong_def generateExecutionPlan_def Let_def readySetup_fields split: prod.splits)

lemma readySignal_submitted:
  "submitTradeSignal readySignal 300 (newSmcBroker 10000 defaultPaperConfig) =
     (AcceptedOrder (EntryId (ts_signalKey readySignal)), snd (submitTradeSignal readySignal 300 (newSmcBroker 10000 defaultPaperConfig)))"
  by (simp add: submitTradeSignal_def newSmcBroker_def Let_def entryOrder_def readySignal_def)

lemma readySignal_fills:
  "\<exists>f ord'. evaluateOrderFill defaultPaperConfig (entryOrder readySignal 300) (dipCandle s) = Inr (Some (f, ord'))"
proof -
  have "ts_direction readySignal = LONG_D" "ts_entryPrice readySignal = 12" "ts_sizing readySignal = Some sizedReady"
    using readyLong_direction readyPlan_prices(1) by (simp_all add: readySignal_def readyLong_def)
  then show ?thesis
    by (simp add: evaluateOrderFill_def checkLimitFill_def fillAt_def entryOrder_def dipCandle_def sizedReady_def
        defaultPaperConfig_def calculateFillQty_def applySlippage_def Let_def)
qed

theorem risk_budget_reaches_position_witness:
  "\<exists>b2 p. pendingOrder (dipCandle (ep_symbol readyLong)) (EntryId (ts_signalKey readySignal))
      (snd (submitTradeSignal readySignal 300 (newSmcBroker 10000 defaultPaperConfig))) = Inr b2 \<and>
    mget (sb_positions b2) (ep_symbol readyLong) = Some p \<and> 0 < sp_remainingQuantity p \<and>
    - priceDiff p (sp_stopLossPrice p) * sp_remainingQuantity p \<le> 100"
proof -
  obtain f ord' where fill: "evaluateOrderFill (sb_config (newSmcBroker 10000 defaultPaperConfig)) (entryOrder readySignal 300)
      (dipCandle (ep_symbol readyLong)) = Inr (Some (f, ord'))"
    using readySignal_fills [of "ep_symbol readyLong"] by (auto simp: newSmcBroker_def)
  have "ep_direction readyLong \<noteq> AVOID_D" by (simp add: readyLong_direction)
  from risk_budget_reaches_position [OF this readyLong_intent _ readySignal_submitted fill] show ?thesis
    by (auto simp: stepOk_def sensibleSlippage_def slippageCost_def newSmcBroker_def defaultPaperConfig_def dipCandle_def solvent_def freshIntents_def
        DEFAULT_RISK_CONFIG_def)
qed

end
