(* ===== verification/Execution_Gateway.thy ===== *)
theory Execution_Gateway
  imports Paper_Broker
begin

section \<open>The execution gateway (src/execution, src/config/modes)\<close>

text \<open>
  \<open>ExecutionBroker\<close> is the interface every client of a broker is written against. Here it is a record
  of operations on a state: a port. The paper broker provides one; the live venue, whose adapter
  talks to the exchange, is a parameter; the execution router is a port over both, gated by the
  runtime profile and the live-trading guard; and the reconciler compares the positions two ports
  report. An operation that rejects its promise returns \<open>Inl\<close> of the message; asynchronous calls
  that the source awaits are sequential.
\<close>

subsection \<open>Runtime profiles (config/modes)\<close>

datatype tradingMode = PAPER_M | SHADOW_M | LIVE_M

datatype dataProvider = BINANCE | COINDCX

datatype executionVenue = PAPER_V | COINDCX_V

record runtimeProfile =
  rp_mode :: tradingMode
  rp_executionVenue :: executionVenue
  rp_realOrders :: bool
  rp_accountReadOnly :: bool
  rp_marketDataPrimary :: dataProvider
  rp_marketDataFallback :: dataProvider
  rp_failoverEnabled :: bool
  rp_reconciliationEnabled :: bool
  rp_liveGuardEnabled :: bool
  rp_liveArmed :: bool
  rp_riskEngineEnabled :: bool
  rp_agentEnabled :: bool
  rp_telegramEnabled :: bool

record modeInput =
  mi_TRADING_MODE :: "string option"
  mi_LIVE_TRADING_ARMED :: "bool option"
  mi_TELEGRAM_ENABLED :: "bool option"
  mi_TELEGRAM_BOT_TOKEN :: "string option"
  mi_TELEGRAM_CHAT_ID :: "string option"

text \<open>\<open>toLowerCase\<close> and \<open>trim\<close> on ASCII strings.\<close>

definition lowerChar :: "char \<Rightarrow> char" where
  "lowerChar c = (let n = of_char c :: nat in if 65 \<le> n \<and> n \<le> 90 then char_of (n + 32) else c)"

definition isBlank :: "char \<Rightarrow> bool" where
  "isBlank c \<longleftrightarrow> (let n = of_char c :: nat in n = 32 \<or> 9 \<le> n \<and> n \<le> 13)"

definition trimString :: "string \<Rightarrow> string" where
  "trimString s = rev (dropWhile isBlank (rev (dropWhile isBlank s)))"

definition tradingModeOf :: "string option \<Rightarrow> tradingMode" where
  "tradingModeOf v =
     (let s = trimString (map lowerChar (case v of None \<Rightarrow> ''paper'' | Some t \<Rightarrow> if t = [] then ''paper'' else t)) in
      if s = ''shadow'' then SHADOW_M else if s = ''live'' then LIVE_M else PAPER_M)"

definition presentString :: "string option \<Rightarrow> bool" where
  "presentString v \<longleftrightarrow> (case v of None \<Rightarrow> False | Some s \<Rightarrow> s \<noteq> [])"

definition resolveRuntimeProfile :: "modeInput \<Rightarrow> runtimeProfile" where
  "resolveRuntimeProfile env =
     (let isArmed = (mi_LIVE_TRADING_ARMED env = Some True);
          telegram = (mi_TELEGRAM_ENABLED env = Some True \<and> presentString (mi_TELEGRAM_BOT_TOKEN env)
            \<and> presentString (mi_TELEGRAM_CHAT_ID env)) in
      case tradingModeOf (mi_TRADING_MODE env) of
        PAPER_M \<Rightarrow> \<lparr>rp_mode = PAPER_M, rp_executionVenue = PAPER_V, rp_realOrders = False, rp_accountReadOnly = False,
          rp_marketDataPrimary = BINANCE, rp_marketDataFallback = COINDCX, rp_failoverEnabled = True,
          rp_reconciliationEnabled = False, rp_liveGuardEnabled = False, rp_liveArmed = False,
          rp_riskEngineEnabled = True, rp_agentEnabled = True, rp_telegramEnabled = telegram\<rparr>
      | SHADOW_M \<Rightarrow> \<lparr>rp_mode = SHADOW_M, rp_executionVenue = PAPER_V, rp_realOrders = False, rp_accountReadOnly = True,
          rp_marketDataPrimary = BINANCE, rp_marketDataFallback = COINDCX, rp_failoverEnabled = True,
          rp_reconciliationEnabled = True, rp_liveGuardEnabled = True, rp_liveArmed = False,
          rp_riskEngineEnabled = True, rp_agentEnabled = True, rp_telegramEnabled = telegram\<rparr>
      | LIVE_M \<Rightarrow> \<lparr>rp_mode = LIVE_M, rp_executionVenue = COINDCX_V, rp_realOrders = isArmed, rp_accountReadOnly = False,
          rp_marketDataPrimary = BINANCE, rp_marketDataFallback = COINDCX, rp_failoverEnabled = True,
          rp_reconciliationEnabled = True, rp_liveGuardEnabled = True, rp_liveArmed = isArmed,
          rp_riskEngineEnabled = True, rp_agentEnabled = True, rp_telegramEnabled = telegram\<rparr>)"

subsection \<open>The guard (LiveTradingGuard.ts)\<close>

record guard =
  lg_safeMode :: bool
  lg_safeModeReason :: "string option"

definition newGuard :: guard where
  "newGuard = \<lparr>lg_safeMode = False, lg_safeModeReason = None\<rparr>"

definition triggerSafeMode :: "string \<Rightarrow> guard \<Rightarrow> guard" where
  "triggerSafeMode reason g = g\<lparr>lg_safeMode := True, lg_safeModeReason := Some reason\<rparr>"

definition clearSafeMode :: "guard \<Rightarrow> guard" where
  "clearSafeMode g = g\<lparr>lg_safeMode := False, lg_safeModeReason := None\<rparr>"

text \<open>The reason of a refusal, or \<open>None\<close> when the profile may execute.\<close>

definition canExecute :: "runtimeProfile \<Rightarrow> guard \<Rightarrow> string option" where
  "canExecute profile g =
     (if lg_safeMode g
      then Some (''SAFE_MODE_ACTIVE: '' @ (case lg_safeModeReason g of None \<Rightarrow> ''System placed in safe mode''
        | Some r \<Rightarrow> if r = [] then ''System placed in safe mode'' else r))
      else if rp_mode profile = LIVE_M \<and> \<not> rp_liveArmed profile
      then Some ''LIVE_TRADING_DISARMED: TRADING_MODE=live requires LIVE_TRADING_ARMED=true''
      else if rp_mode profile = LIVE_M \<and> \<not> rp_realOrders profile
      then Some ''REAL_ORDERS_DISABLED: Operational profile prohibits real orders''
      else None)"

subsection \<open>The broker interface\<close>

record 's port =
  bp_submitOrder :: "orderCommand \<Rightarrow> ms \<Rightarrow> 's \<Rightarrow> (string + order) \<times> 's"
  bp_cancelOrder :: "string \<Rightarrow> string \<Rightarrow> ms \<Rightarrow> 's \<Rightarrow> (string + order option) \<times> 's"
  bp_cancelAllOrders :: "string option \<Rightarrow> ms \<Rightarrow> 's \<Rightarrow> 's"
  bp_getOpenOrders :: "string option \<Rightarrow> 's \<Rightarrow> order list"
  bp_getPositions :: "'s \<Rightarrow> (string + position list) \<times> 's"
  bp_getPosition :: "string \<Rightarrow> 's \<Rightarrow> position option"

text \<open>The paper broker behind the interface.\<close>

definition paperPort :: "lib \<Rightarrow> broker port" where
  "paperPort L =
     \<lparr>bp_submitOrder = (\<lambda>c now b. case submitOrder L c now b of
        Inl (msg, b1) \<Rightarrow> (Inl msg, b1) | Inr (ord, b1) \<Rightarrow> (Inr ord, b1)),
      bp_cancelOrder = (\<lambda>oid reason now b. let (ord, b1) = cancelOrder oid reason now b in (Inr ord, b1)),
      bp_cancelAllOrders = cancelAllOrders, bp_getOpenOrders = getOpenOrders,
      bp_getPositions = (\<lambda>b. let (ps, b1) = getPositions L b in (Inr ps, b1)),
      bp_getPosition = (\<lambda>s b. mget (positions b) s)\<rparr>"

subsection \<open>The router (ExecutionRouter.ts)\<close>

record ('p, 'l) gateway =
  gw_guard :: guard
  gw_paper :: 'p
  gw_live :: 'l
  gw_ulids :: nat

definition wantsRealOrders :: "runtimeProfile \<Rightarrow> bool" where
  "wantsRealOrders profile \<longleftrightarrow> rp_executionVenue profile = COINDCX_V \<and> rp_liveArmed profile \<and> rp_realOrders profile"

text \<open>Running an operation on the active broker: the live one when the profile wants real orders and
  an adapter is registered.\<close>

definition onActive ::
  "runtimeProfile \<Rightarrow> 'p port \<Rightarrow> 'l port option \<Rightarrow> ('p port \<Rightarrow> 'p \<Rightarrow> 'a \<times> 'p) \<Rightarrow> ('l port \<Rightarrow> 'l \<Rightarrow> 'a \<times> 'l) \<Rightarrow>
   ('p, 'l) gateway \<Rightarrow> 'a \<times> ('p, 'l) gateway" where
  "onActive profile paper live runPaper runLive g =
     (case (if wantsRealOrders profile then live else None) of
        Some p \<Rightarrow> (let (r, s) = runLive p (gw_live g) in (r, g\<lparr>gw_live := s\<rparr>))
      | None \<Rightarrow> (let (r, s) = runPaper paper (gw_paper g) in (r, g\<lparr>gw_paper := s\<rparr>)))"

definition routerReject :: "lib \<Rightarrow> orderCommand \<Rightarrow> string \<Rightarrow> ms \<Rightarrow> ('p, 'l) gateway \<Rightarrow> order \<times> ('p, 'l) gateway" where
  "routerReject L c reason now g =
     (let n = gw_ulids g;
          given = (case c_clientOrderId c of None \<Rightarrow> [] | Some s \<Rightarrow> s) in
      (\<lparr>o_id = x_ulid L n, o_clientOrderId = (if given = [] then x_ulid L (n + 1) else given),
        o_accountId = ''router-guard'', o_symbol = c_symbol c, o_strategyId = c_strategyId c,
        o_signalId = c_signalId c, o_side = c_side c, o_type = c_type c,
        o_timeInForce = coalesce (c_timeInForce c) GTC, o_status = REJECTED, o_positionSide = BOTH,
        o_quantity = c_quantity c, o_filledQty = 0, o_limitPrice = None, o_stopPrice = None,
        o_activationPrice = None, o_callbackRate = None, o_avgFillPrice = 0,
        o_leverage = coalesce (c_leverage c) 1, o_marginType = None,
        o_reduceOnly = coalesce (c_reduceOnly c) False, o_postOnly = coalesce (c_postOnly c) False,
        o_closePosition = coalesce (c_closePosition c) False, o_workingType = None,
        o_rejectReason = Some reason, o_submittedAtUtc = now, o_updatedAtUtc = now\<rparr>,
       g\<lparr>gw_ulids := (if given = [] then n + 2 else n + 1)\<rparr>))"

definition routerCheck :: "runtimeProfile \<Rightarrow> 'l port option \<Rightarrow> guard \<Rightarrow> string option" where
  "routerCheck profile live g =
     (if wantsRealOrders profile \<and> live = None
      then Some (''NO_LIVE_EXECUTION_ADAPTER: TRADING_MODE=live is armed but no live venue adapter is registered. '' @
        ''Refusing to simulate fills while reporting live execution.'')
      else canExecute profile g)"

definition routerSubmit ::
  "lib \<Rightarrow> runtimeProfile \<Rightarrow> 'p port \<Rightarrow> 'l port option \<Rightarrow> orderCommand \<Rightarrow> ms \<Rightarrow> ('p, 'l) gateway \<Rightarrow>
   (string + order) \<times> ('p, 'l) gateway" where
  "routerSubmit L profile paper live c now g =
     (case routerCheck profile live (gw_guard g) of
        Some reason \<Rightarrow> (let (ord, g1) = routerReject L c reason now g in (Inr ord, g1))
      | None \<Rightarrow> onActive profile paper live (\<lambda>p. bp_submitOrder p c now) (\<lambda>p. bp_submitOrder p c now) g)"

definition routerPort :: "lib \<Rightarrow> runtimeProfile \<Rightarrow> 'p port \<Rightarrow> 'l port option \<Rightarrow> ('p, 'l) gateway port" where
  "routerPort L profile paper live =
     \<lparr>bp_submitOrder = routerSubmit L profile paper live,
      bp_cancelOrder = (\<lambda>oid reason now.
        onActive profile paper live (\<lambda>p. bp_cancelOrder p oid reason now) (\<lambda>p. bp_cancelOrder p oid reason now)),
      bp_cancelAllOrders = (\<lambda>symbol now g. snd (onActive profile paper live
        (\<lambda>p s. ((), bp_cancelAllOrders p symbol now s)) (\<lambda>p s. ((), bp_cancelAllOrders p symbol now s)) g)),
      bp_getOpenOrders = (\<lambda>symbol g. fst (onActive profile paper live
        (\<lambda>p s. (bp_getOpenOrders p symbol s, s)) (\<lambda>p s. (bp_getOpenOrders p symbol s, s)) g)),
      bp_getPositions = onActive profile paper live bp_getPositions bp_getPositions,
      bp_getPosition = (\<lambda>symbol g. fst (onActive profile paper live
        (\<lambda>p s. (bp_getPosition p symbol s, s)) (\<lambda>p s. (bp_getPosition p symbol s, s)) g))\<rparr>"

subsection \<open>The reconciler (ExchangeReconciler.ts)\<close>

datatype discrepancyKind = MISSING_LOCALLY | MISSING_AT_VENUE | QUANTITY_MISMATCH

datatype reconciliationTrigger = STARTUP | RECONNECT | WRITE_TIMEOUT | PROVIDER_RECOVERY | MANUAL

record discrepancy =
  ds_symbol :: string
  ds_localQty :: number
  ds_venueQty :: number
  ds_difference :: number
  ds_kind :: discrepancyKind

record reconciliationReport =
  rc_trigger :: reconciliationTrigger
  rc_reconciledAtUtc :: ms
  rc_ok :: bool
  rc_positionDiscrepancies :: "discrepancy list"
  rc_localPositionCount :: nat
  rc_venuePositionCount :: nat
  rc_error :: "string option"
  rc_safeModeTripped :: bool

definition indexBySymbol :: "position list \<Rightarrow> (string, number) jsmap" where
  "indexBySymbol held =
     fold (\<lambda>p m. if p_qty p = 0 then m else mset (p_symbol p) (coalesce (mget m (p_symbol p)) 0 + p_qty p) m) held []"

definition discrepancyAt ::
  "number \<Rightarrow> (string, number) jsmap \<Rightarrow> (string, number) jsmap \<Rightarrow> string \<Rightarrow> discrepancy list" where
  "discrepancyAt tolerance venueBySymbol localBySymbol symbol =
     (let venueQty = coalesce (mget venueBySymbol symbol) 0;
          localQty = coalesce (mget localBySymbol symbol) 0;
          difference = venueQty - localQty in
      if \<bar>difference\<bar> \<le> tolerance then []
      else [\<lparr>ds_symbol = symbol, ds_localQty = localQty, ds_venueQty = venueQty, ds_difference = difference,
        ds_kind = (if localQty = 0 then MISSING_LOCALLY else if venueQty = 0 then MISSING_AT_VENUE
          else QUANTITY_MISMATCH)\<rparr>])"

definition positionDiscrepancies ::
  "number \<Rightarrow> (string, number) jsmap \<Rightarrow> (string, number) jsmap \<Rightarrow> discrepancy list" where
  "positionDiscrepancies tolerance venueBySymbol localBySymbol =
     (let symbols = mkeys venueBySymbol @ filter (\<lambda>s. s \<notin> set (mkeys venueBySymbol)) (mkeys localBySymbol) in
      concat (map (discrepancyAt tolerance venueBySymbol localBySymbol) symbols))"

text \<open>The reasons carry the trigger; \<open>summary\<close> is the rendering of the discrepancies with their
  numbers.\<close>

definition triggerName :: "reconciliationTrigger \<Rightarrow> string" where
  "triggerName t = (case t of STARTUP \<Rightarrow> ''STARTUP'' | RECONNECT \<Rightarrow> ''RECONNECT''
     | WRITE_TIMEOUT \<Rightarrow> ''WRITE_TIMEOUT'' | PROVIDER_RECOVERY \<Rightarrow> ''PROVIDER_RECOVERY'' | MANUAL \<Rightarrow> ''MANUAL'')"

definition reconcile ::
  "(discrepancy list \<Rightarrow> string) \<Rightarrow> 'v port \<Rightarrow> 'l port \<Rightarrow> number \<Rightarrow> reconciliationTrigger \<Rightarrow> ms \<Rightarrow>
   guard \<times> 'v \<times> 'l \<Rightarrow> reconciliationReport \<times> guard \<times> 'v \<times> 'l" where
  "reconcile summary venue localB tolerance trigger now st =
     (case st of (g, v, l) \<Rightarrow>
        (let (rv, v1) = bp_getPositions venue v; (rl, l1) = bp_getPositions localB l in
         case (rv, rl) of
           (Inr vs, Inr ls) \<Rightarrow>
             (let venueBySymbol = indexBySymbol vs; localBySymbol = indexBySymbol ls;
                  ds = positionDiscrepancies tolerance venueBySymbol localBySymbol;
                  ok = (ds = []) in
              (\<lparr>rc_trigger = trigger, rc_reconciledAtUtc = now, rc_ok = ok, rc_positionDiscrepancies = ds,
                rc_localPositionCount = length localBySymbol, rc_venuePositionCount = length venueBySymbol,
                rc_error = None, rc_safeModeTripped = (\<not> ok)\<rparr>,
               (if ok then g
                else triggerSafeMode (''RECONCILIATION_MISMATCH ('' @ triggerName trigger @ ''): '' @ summary ds) g,
                v1, l1)))
         | _ \<Rightarrow>
             (let message = (case rv of Inl e \<Rightarrow> e | Inr _ \<Rightarrow> (case rl of Inl e \<Rightarrow> e | Inr _ \<Rightarrow> [])) in
              (\<lparr>rc_trigger = trigger, rc_reconciledAtUtc = now, rc_ok = False, rc_positionDiscrepancies = [],
                rc_localPositionCount = 0, rc_venuePositionCount = 0, rc_error = Some message,
                rc_safeModeTripped = True\<rparr>,
               (triggerSafeMode (''RECONCILIATION_FAILED ('' @ triggerName trigger
                  @ ''): could not read exchange state - '' @ message) g, v1, l1)))))"

definition reconcileAndResume ::
  "(discrepancy list \<Rightarrow> string) \<Rightarrow> 'v port \<Rightarrow> 'l port \<Rightarrow> number \<Rightarrow> reconciliationTrigger \<Rightarrow> ms \<Rightarrow> guard \<times> 'v \<times> 'l \<Rightarrow>
   reconciliationReport \<times> guard \<times> 'v \<times> 'l" where
  "reconcileAndResume summary venue localB tolerance trigger now st =
     (case reconcile summary venue localB tolerance trigger now st of
        (report, g, v, l) \<Rightarrow> (report, (if rc_ok report then clearSafeMode g else g), v, l))"

end
