(* ===== verification/Gateway_Guarantees.thy ===== *)
theory Gateway_Guarantees
  imports Execution_Gateway Broker_Instances
begin

section \<open>What the execution gateway guarantees\<close>

text \<open>
  The router as a component: its operations, who may be touched by a run of them, and what the
  reconciler's verdict means. A run is a list of router operations and of the guard's own
  \<open>triggerSafeMode\<close> and \<open>clearSafeMode\<close>.
\<close>

datatype gatewayOp =
    SubmitG orderCommand ms
  | CancelG string string ms
  | CancelAllG "string option" ms
  | PositionsG
  | TripG string
  | ResumeG

definition gatewayStep ::
  "lib \<Rightarrow> runtimeProfile \<Rightarrow> 'p port \<Rightarrow> 'l port option \<Rightarrow> gatewayOp \<Rightarrow> ('p, 'l) gateway \<Rightarrow> ('p, 'l) gateway" where
  "gatewayStep L profile paper live x g =
     (let r = routerPort L profile paper live in
      case x of
        SubmitG c now \<Rightarrow> snd (bp_submitOrder r c now g)
      | CancelG oid reason now \<Rightarrow> snd (bp_cancelOrder r oid reason now g)
      | CancelAllG symbol now \<Rightarrow> bp_cancelAllOrders r symbol now g
      | PositionsG \<Rightarrow> snd (bp_getPositions r g)
      | TripG reason \<Rightarrow> g\<lparr>gw_guard := triggerSafeMode reason (gw_guard g)\<rparr>
      | ResumeG \<Rightarrow> g\<lparr>gw_guard := clearSafeMode (gw_guard g)\<rparr>)"


lemma onActive_guard [simp]: "gw_guard (snd (onActive profile paper live f h g)) = gw_guard g"
  by (auto simp: onActive_def Let_def split: option.splits prod.splits if_splits)

lemma onActive_live:
  "\<not> wantsRealOrders profile \<Longrightarrow> gw_live (snd (onActive profile paper live f h g)) = gw_live g"
  by (auto simp: onActive_def Let_def split: prod.splits)

lemma onActive_paper:
  "wantsRealOrders profile \<Longrightarrow> gw_paper (snd (onActive profile paper (Some p) f h g)) = gw_paper g"
  by (auto simp: onActive_def Let_def split: prod.splits)

lemma routerReject_frames [simp]:
  "gw_guard (snd (routerReject L c reason now g)) = gw_guard g"
  "gw_paper (snd (routerReject L c reason now g)) = gw_paper g"
  "gw_live (snd (routerReject L c reason now g)) = gw_live g"
  by (simp_all add: routerReject_def Let_def)

lemma routerReject_order [simp]:
  "o_status (fst (routerReject L c reason now g)) = REJECTED"
  "o_filledQty (fst (routerReject L c reason now g)) = 0"
  "o_rejectReason (fst (routerReject L c reason now g)) = Some reason"
  by (simp_all add: routerReject_def Let_def)

lemma wantsRealOrders_resolved:
  "wantsRealOrders (resolveRuntimeProfile env) \<longleftrightarrow>
     tradingModeOf (mi_TRADING_MODE env) = LIVE_M \<and> mi_LIVE_TRADING_ARMED env = Some True"
  by (cases "tradingModeOf (mi_TRADING_MODE env)")
    (simp_all add: wantsRealOrders_def resolveRuntimeProfile_def Let_def)

lemma routerSubmit_cases:
  obtains (refused) reason where "routerCheck profile live (gw_guard g) = Some reason"
      "routerSubmit L profile paper live c now g =
        (Inr (fst (routerReject L c reason now g)), snd (routerReject L c reason now g))"
  | (passed) "routerCheck profile live (gw_guard g) = None"
      "routerSubmit L profile paper live c now g =
        onActive profile paper live (\<lambda>p. bp_submitOrder p c now) (\<lambda>p. bp_submitOrder p c now) g"
  by (cases "routerCheck profile live (gw_guard g)")
    (auto simp: routerSubmit_def Let_def split: prod.splits)

text \<open>The two halves of the separation of venues, each an invariant of the component.\<close>

lemma live_untouched_step:
  assumes "\<not> wantsRealOrders profile"
  shows "gw_live (gatewayStep L profile paper live x g) = gw_live g"
proof (cases x)
  case (SubmitG c now)
  then show ?thesis
    by (cases rule: routerSubmit_cases [of profile live g L paper c now])
      (simp_all add: gatewayStep_def routerPort_def onActive_live [OF assms])
qed (simp_all add: gatewayStep_def routerPort_def onActive_live [OF assms])

lemma paper_untouched_step:
  assumes "wantsRealOrders profile"
  shows "gw_paper (gatewayStep L profile paper (Some p) x g) = gw_paper g"
proof (cases x)
  case (SubmitG c now)
  then show ?thesis
    by (cases rule: routerSubmit_cases [of profile "Some p" g L paper c now])
      (simp_all add: gatewayStep_def routerPort_def onActive_paper [OF assms])
qed (simp_all add: gatewayStep_def routerPort_def onActive_paper [OF assms])

interpretation liveVenue: component "gatewayStep L (resolveRuntimeProfile env) paper live"
  "\<lambda>g. \<not> wantsRealOrders (resolveRuntimeProfile env) \<longrightarrow> gw_live g = kept" for L env paper live kept
  by unfold_locales (simp add: live_untouched_step)

interpretation simulated: component "gatewayStep L (resolveRuntimeProfile env) paper (Some p)"
  "\<lambda>g. wantsRealOrders (resolveRuntimeProfile env) \<longrightarrow> gw_paper g = kept" for L env paper p kept
  by unfold_locales (simp add: paper_untouched_step)

text \<open>A refused submission, as its caller sees it: an order with status \<open>REJECTED\<close> and a reason, and
  neither broker moved.\<close>

definition refused :: "('p, 'l) gateway \<Rightarrow> (string + order) \<times> ('p, 'l) gateway \<Rightarrow> bool" where
  "refused g out \<longleftrightarrow> (case out of
       (Inr ord, g1) \<Rightarrow> o_status ord = REJECTED \<and> o_filledQty ord = 0 \<and> o_rejectReason ord \<noteq> None
         \<and> gw_paper g1 = gw_paper g \<and> gw_live g1 = gw_live g \<and> gw_guard g1 = gw_guard g
     | _ \<Rightarrow> False)"

lemma refusedI:
  "routerCheck profile live (gw_guard g) = Some reason \<Longrightarrow> refused g (routerSubmit L profile paper live c now g)"
  by (cases rule: routerSubmit_cases [of profile live g L paper c now]) (simp_all add: refused_def)

lemma safe_mode_checks: "lg_safeMode g \<Longrightarrow> \<exists>reason. routerCheck profile live g = Some reason"
  by (simp add: routerCheck_def canExecute_def)

lemma missing_adapter_checks:
  "wantsRealOrders profile \<Longrightarrow> \<exists>reason. routerCheck profile None g = Some reason"
  by (simp add: routerCheck_def)

text \<open>The two venues are kept apart whatever the router is asked to do: unless the environment says
  \<open>live\<close> and arms it, no run of operations changes the state of the live venue; when it does, no run
  changes the state of the paper broker, and without a registered live adapter every submission is
  refused instead of being simulated.\<close>

theorem orders_follow_the_mode:
  "if tradingModeOf (mi_TRADING_MODE env) = LIVE_M \<and> mi_LIVE_TRADING_ARMED env = Some True
   then gw_paper (fold (gatewayStep L (resolveRuntimeProfile env) paper (Some p)) ops g) = gw_paper g
     \<and> refused g (routerSubmit L (resolveRuntimeProfile env) paper (None :: 'l port option) c now g)
   else gw_live (fold (gatewayStep L (resolveRuntimeProfile env) paper live) ops g) = gw_live g"
proof (cases "wantsRealOrders (resolveRuntimeProfile env)")
  case True
  then obtain reason where "routerCheck (resolveRuntimeProfile env) (None :: 'l port option) (gw_guard g) = Some reason"
    using missing_adapter_checks by blast
  then show ?thesis
    using True simulated.inv_run [where kept = "gw_paper g" and s = g and xs = ops and env = env]
    by (simp add: wantsRealOrders_resolved refusedI)
next
  case False
  then show ?thesis
    using liveVenue.inv_run [where kept = "gw_live g" and s = g and xs = ops and env = env]
    by (auto simp: wantsRealOrders_resolved)
qed

subsection \<open>Reconciliation\<close>

definition netQty :: "position list \<Rightarrow> string \<Rightarrow> number" where
  "netQty held s = sum_list (map p_qty (filter (\<lambda>p. p_symbol p = s) held))"

lemma indexBySymbol_fold:
  "coalesce (mget (fold (\<lambda>p m. if p_qty p = 0 then m
       else mset (p_symbol p) (coalesce (mget m (p_symbol p)) 0 + p_qty p) m) held m) s) 0
   = coalesce (mget m s) 0 + netQty held s"
  by (induction held arbitrary: m) (auto simp: netQty_def)

lemma indexBySymbol_net: "coalesce (mget (indexBySymbol held) s) 0 = netQty held s"
  by (simp add: indexBySymbol_def indexBySymbol_fold)

lemma unlisted_net: "s \<notin> set (mkeys (indexBySymbol held)) \<Longrightarrow> netQty held s = 0"
  using indexBySymbol_net [of held s] by (simp flip: mget_None_iff)

lemma discrepancyAt_empty:
  "discrepancyAt tol (indexBySymbol vs) (indexBySymbol ls) s = [] \<longleftrightarrow> \<bar>netQty vs s - netQty ls s\<bar> \<le> tol"
  by (simp add: discrepancyAt_def indexBySymbol_net Let_def)

lemma no_discrepancies:
  assumes "0 \<le> tol"
  shows "positionDiscrepancies tol (indexBySymbol vs) (indexBySymbol ls) = []
    \<longleftrightarrow> (\<forall>s. \<bar>netQty vs s - netQty ls s\<bar> \<le> tol)"
proof -
  have "\<bar>netQty vs s - netQty ls s\<bar> \<le> tol"
    if "s \<notin> set (mkeys (indexBySymbol vs))" "s \<notin> set (mkeys (indexBySymbol ls))" for s
    using that assms by (simp add: unlisted_net)
  then show ?thesis
    by (simp add: positionDiscrepancies_def Let_def discrepancyAt_empty) blast
qed

lemma reconcile_guard:
  assumes "reconcile summary venue localB tol trigger now (gd, v, l) = (report, gd1, v1, l1)"
  shows "rc_safeModeTripped report = (\<not> rc_ok report)" "lg_safeMode gd1 = (lg_safeMode gd \<or> \<not> rc_ok report)"
    "rc_ok report \<Longrightarrow> gd1 = gd"
  using assms
  by (auto simp: reconcile_def Let_def triggerSafeMode_def split: prod.splits sum.splits if_splits)

text \<open>What the reconciler's verdict means. It passes exactly when both sides could be read and, for
  every symbol, the net quantities they report differ by at most the tolerance; whenever it does not
  pass the guard is in safe mode afterwards, and the operator's recovery leaves safe mode exactly on a
  clean run.\<close>

theorem reconciliation_verdict:
  assumes "0 \<le> tol"
    and "reconcile summary venue localB tol trigger now (gd, v, l) = (report, gd1, v1, l1)"
  shows "(rc_ok report \<longleftrightarrow> (\<exists>vs ls. fst (bp_getPositions venue v) = Inr vs \<and> fst (bp_getPositions localB l) = Inr ls
      \<and> (\<forall>s. \<bar>netQty vs s - netQty ls s\<bar> \<le> tol)))
    \<and> lg_safeMode gd1 = (lg_safeMode gd \<or> \<not> rc_ok report)
    \<and> (case reconcileAndResume summary venue localB tol trigger now (gd, v, l) of
         (again, gd2, _) \<Rightarrow> again = report \<and> lg_safeMode gd2 = (\<not> rc_ok report))"
proof -
  have "rc_ok report \<longleftrightarrow> (\<exists>vs ls. fst (bp_getPositions venue v) = Inr vs \<and> fst (bp_getPositions localB l) = Inr ls
      \<and> (\<forall>s. \<bar>netQty vs s - netQty ls s\<bar> \<le> tol))"
    using assms(2) no_discrepancies [OF assms(1)]
    by (auto simp: reconcile_def Let_def split: prod.splits sum.splits if_splits)
  with reconcile_guard [OF assms(2)] assms(2) show ?thesis
    by (auto simp: reconcileAndResume_def clearSafeMode_def)
qed

subsection \<open>A mismatch halts order flow\<close>

text \<open>Safe mode survives every router operation; only \<open>clearSafeMode\<close> ends it.\<close>

interpretation halted: guarded_component "gatewayStep L profile paper live"
  "\<lambda>g. lg_safeMode (gw_guard g)" "\<lambda>x. x \<noteq> ResumeG" for L profile paper live
proof unfold_locales
  fix g :: "('a, 'b) gateway" and x
  assume "lg_safeMode (gw_guard g)" "x \<noteq> ResumeG"
  then show "lg_safeMode (gw_guard (gatewayStep L profile paper live x g))"
  proof (cases x)
    case (SubmitG c now)
    then show ?thesis
      using \<open>lg_safeMode (gw_guard g)\<close>
      by (cases rule: routerSubmit_cases [of profile live g L paper c now])
        (simp_all add: gatewayStep_def routerPort_def)
  qed (simp_all add: gatewayStep_def routerPort_def triggerSafeMode_def)
qed

text \<open>C10. After a reconciliation that did not pass, whatever happens before an operator resumes, every
  submission through the router is refused and moves neither broker.\<close>

theorem mismatch_halts_order_flow:
  assumes "reconcile summary venue localB tol trigger now (gw_guard g, v, l) = (report, gd1, v1, l1)"
    and "\<not> rc_ok report" and "list_all (\<lambda>x. x \<noteq> ResumeG) ops"
    and "after = fold (gatewayStep L profile paper live) ops (g\<lparr>gw_guard := gd1\<rparr>)"
  shows "refused after (routerSubmit L profile paper live c t after)"
proof -
  have "lg_safeMode gd1"
    using reconcile_guard(2) [OF assms(1)] assms(2) by simp
  then have "lg_safeMode (gw_guard after)"
    unfolding assms(4) by (intro halted.inv_guarded_run assms(3)) simp
  then obtain reason where "routerCheck profile live (gw_guard after) = Some reason"
    using safe_mode_checks by blast
  then show ?thesis by (rule refusedI)
qed

subsection \<open>Concrete runs\<close>

text \<open>A venue that holds the given positions and does nothing, against a process that believes it holds
  none.\<close>

definition holdingVenue :: "position list \<Rightarrow> unit port" where
  "holdingVenue held = \<lparr>bp_submitOrder = (\<lambda>c now s. (Inl ''closed'', s)), bp_cancelOrder = (\<lambda>oid reason now s. (Inr None, s)),
     bp_cancelAllOrders = (\<lambda>symbol now s. s), bp_getOpenOrders = (\<lambda>symbol s. []),
     bp_getPositions = (\<lambda>s. (Inr held, s)), bp_getPosition = (\<lambda>symbol s. None)\<rparr>"

lemma holding_reports [simp]: "bp_getPositions (holdingVenue held) s = (Inr held, s)"
  by (simp add: holdingVenue_def)

definition mismatchRun :: "reconciliationReport \<times> guard \<times> unit \<times> unit" where
  "mismatchRun = reconcile (\<lambda>ds. []) (holdingVenue [btcPosition 2]) (holdingVenue []) 0 STARTUP 7 (newGuard, (), ())"

lemma mismatchRun_value:
  "mismatchRun = (\<lparr>rc_trigger = STARTUP, rc_reconciledAtUtc = 7, rc_ok = False,
     rc_positionDiscrepancies = [\<lparr>ds_symbol = ''BTC'', ds_localQty = 0, ds_venueQty = 2, ds_difference = 2,
       ds_kind = MISSING_LOCALLY\<rparr>], rc_localPositionCount = 0, rc_venuePositionCount = 1, rc_error = None,
     rc_safeModeTripped = True\<rparr>,
     triggerSafeMode ''RECONCILIATION_MISMATCH (STARTUP): '' newGuard, (), ())"
  by (simp add: mismatchRun_def reconcile_def indexBySymbol_def positionDiscrepancies_def discrepancyAt_def
      triggerName_def mset_def mkeys_def)

lemma mismatchRun_fails: "mismatchRun = (report, gd, u, v) \<Longrightarrow> \<not> rc_ok report"
  by (metis mismatchRun_value fst_conv reconciliationReport.select_convs(3))

theorem reconciliation_verdict_witness:
  "lg_safeMode (fst (snd mismatchRun)) \<and> \<not> rc_ok (fst mismatchRun)
   \<and> lg_safeMode (fst (snd (reconcileAndResume (\<lambda>ds. []) (holdingVenue [btcPosition 2]) (holdingVenue []) 0
       STARTUP 7 (newGuard, (), ()))))"
proof -
  obtain report gd u v where run: "mismatchRun = (report, gd, u, v)" by (metis prod_cases4)
  moreover from this have "\<not> rc_ok report" by (rule mismatchRun_fails)
  moreover obtain again gd2 w where "reconcileAndResume (\<lambda>ds. []) (holdingVenue [btcPosition 2])
      (holdingVenue []) 0 STARTUP 7 (newGuard, (), ()) = (again, gd2, w)" by (metis prod_cases3)
  ultimately show ?thesis
    using reconciliation_verdict [OF order.refl run [unfolded mismatchRun_def], THEN conjunct2]
    unfolding run fst_conv snd_conv by simp
qed

definition liveProfile :: runtimeProfile where
  "liveProfile = resolveRuntimeProfile \<lparr>mi_TRADING_MODE = Some '' LIVE'', mi_LIVE_TRADING_ARMED = Some True,
     mi_TELEGRAM_ENABLED = None, mi_TELEGRAM_BOT_TOKEN = None, mi_TELEGRAM_CHAT_ID = None\<rparr>"

definition twoVenues :: "(unit, unit) gateway" where
  "twoVenues = \<lparr>gw_guard = newGuard, gw_paper = (), gw_live = (), gw_ulids = 0\<rparr>"

text \<open>An armed live process starts, finds a position it does not know of, and the next signal is refused.\<close>

theorem mismatch_halts_order_flow_witness:
  "refused (fold (gatewayStep exactLib liveProfile (holdingVenue []) (Some (holdingVenue [btcPosition 2])))
       [PositionsG, SubmitG (marketBuy 1) 8] (twoVenues\<lparr>gw_guard := fst (snd mismatchRun)\<rparr>))
     (routerSubmit exactLib liveProfile (holdingVenue []) (Some (holdingVenue [btcPosition 2])) (marketBuy 1) 9
       (fold (gatewayStep exactLib liveProfile (holdingVenue []) (Some (holdingVenue [btcPosition 2])))
         [PositionsG, SubmitG (marketBuy 1) 8] (twoVenues\<lparr>gw_guard := fst (snd mismatchRun)\<rparr>)))"
proof -
  obtain report gd u v where run: "mismatchRun = (report, gd, u, v)" by (metis prod_cases4)
  then have "\<not> rc_ok report" by (rule mismatchRun_fails)
  moreover have "reconcile (\<lambda>ds. []) (holdingVenue [btcPosition 2]) (holdingVenue []) 0 STARTUP 7
      (gw_guard twoVenues, (), ()) = (report, gd, u, v)"
    using run by (simp add: mismatchRun_def twoVenues_def)
  ultimately show ?thesis
    using mismatch_halts_order_flow [where ops = "[PositionsG, SubmitG (marketBuy 1) 8]", OF _ _ _ refl]
    unfolding run fst_conv snd_conv by simp
qed

end
