(* ===== verification/Trailing_Stops.thy ===== *)
theory Trailing_Stops
  imports Execution_Gateway Trading_Risk
begin

section \<open>Trailing stops (src/trading/risk/TrailingStopManager.ts, TrailingStopController.ts)\<close>

text \<open>
  The manager is a pure calculation over one tracker per symbol and side (the key
  \<open>symbol_side\<close> is a pair here); the entry price of an open position is positive. The controller
  moves resting orders at a broker, which is any port. A pass of \<open>onPrice\<close> is three steps, cut
  where the source suspends: entering (throttle and in-flight guard), loading (position and open
  orders, after which the symbol is marked in flight) and moving (replacements). \<open>onPrice\<close> runs
  them in one go; the steps on their own are what concurrent passes interleave. The listeners
  \<open>onStopMoved\<close> and \<open>onTpMoved\<close> are the results of the pass.
\<close>

subsection \<open>The manager\<close>

record trailingConfig =
  tf_activationThresholdPct :: number
  tf_trailingDistancePct :: number
  tf_breakevenTriggerPct :: number
  tf_minProfitToLockPct :: "number option"
  tf_enableBreakeven :: bool
  tf_enableTrailing :: bool
  tf_tpExtensionPct :: number
  tf_enableTpExtension :: bool

datatype trailReason = BREAKEVEN | TRAILING | EXTENDED | NO_CHANGE

record trailingTakeProfitResult =
  tt_tpUpdated :: bool
  tt_previousTp :: number
  tt_newTp :: number
  tt_reason :: trailReason
  tt_currentUnrealizedPnlPct :: number
  tt_highestFavorablePrice :: number

record trailingStopResult =
  ts_stopUpdated :: bool
  ts_previousStop :: number
  ts_newStop :: number
  ts_reason :: trailReason
  ts_currentUnrealizedPnlPct :: number
  ts_highestFavorablePrice :: number

definition DEFAULT_TRAILING_STOP_CONFIG :: trailingConfig where
  "DEFAULT_TRAILING_STOP_CONFIG = \<lparr>tf_activationThresholdPct = 2 / 100, tf_trailingDistancePct = 15 / 1000,
     tf_breakevenTriggerPct = 1 / 100, tf_minProfitToLockPct = None, tf_enableBreakeven = True,
     tf_enableTrailing = True, tf_tpExtensionPct = 3 / 100, tf_enableTpExtension = True\<rparr>"

record tracker =
  tk_highestFavorablePrice :: number
  tk_breakevenApplied :: bool
  tk_lastUpdateTimestamp :: ms

record trailingManager =
  tm_config :: trailingConfig
  tm_trackers :: "(string \<times> direction, tracker) jsmap"

definition trackerKey :: "portfolioPosition \<Rightarrow> string \<times> direction" where
  "trackerKey pos = (po_symbol pos, po_side pos)"

definition storeTracker :: "portfolioPosition \<Rightarrow> tracker \<Rightarrow> trailingManager \<Rightarrow> trailingManager" where
  "storeTracker pos t m = m\<lparr>tm_trackers := mset (trackerKey pos) t (tm_trackers m)\<rparr>"

definition trackFavorablePrice ::
  "portfolioPosition \<Rightarrow> number \<Rightarrow> ms \<Rightarrow> trailingManager \<Rightarrow> tracker \<times> trailingManager" where
  "trackFavorablePrice pos currentPrice timestamp m =
     (let found = coalesce (mget (tm_trackers m) (trackerKey pos))
            \<lparr>tk_highestFavorablePrice = po_entryPrice pos, tk_breakevenApplied = False,
             tk_lastUpdateTimestamp = timestamp\<rparr>;
          t = found\<lparr>tk_highestFavorablePrice :=
            (if po_side pos = LONG then max (tk_highestFavorablePrice found) currentPrice
             else min (tk_highestFavorablePrice found) currentPrice)\<rparr> in
      (t, storeTracker pos t m))"

definition unrealizedPct :: "portfolioPosition \<Rightarrow> number \<Rightarrow> number" where
  "unrealizedPct pos currentPrice =
     (if po_side pos = LONG then (currentPrice - po_entryPrice pos) / po_entryPrice pos
      else (po_entryPrice pos - currentPrice) / po_entryPrice pos)"

text \<open>The result that moves the stop to \<open>candidate\<close> for \<open>why\<close> when that improves the position, and the
  one that leaves it.\<close>

definition improvesStop :: "portfolioPosition \<Rightarrow> number \<Rightarrow> bool" where
  "improvesStop pos candidate \<longleftrightarrow>
     (if po_side pos = LONG then candidate > po_stopLossPrice pos else candidate < po_stopLossPrice pos)"

definition stopKept :: "portfolioPosition \<Rightarrow> tracker \<Rightarrow> number \<Rightarrow> trailingStopResult" where
  "stopKept pos t pct = \<lparr>ts_stopUpdated = False, ts_previousStop = po_stopLossPrice pos,
     ts_newStop = po_stopLossPrice pos, ts_reason = NO_CHANGE, ts_currentUnrealizedPnlPct = pct,
     ts_highestFavorablePrice = tk_highestFavorablePrice t\<rparr>"

definition stopMoved :: "portfolioPosition \<Rightarrow> tracker \<Rightarrow> number \<Rightarrow> number \<Rightarrow> trailReason \<Rightarrow> trailingStopResult" where
  "stopMoved pos t pct candidate why = \<lparr>ts_stopUpdated = True, ts_previousStop = po_stopLossPrice pos,
     ts_newStop = candidate, ts_reason = why, ts_currentUnrealizedPnlPct = pct,
     ts_highestFavorablePrice = tk_highestFavorablePrice t\<rparr>"

definition applyBreakeven ::
  "portfolioPosition \<Rightarrow> tracker \<Rightarrow> number \<Rightarrow> ms \<Rightarrow> trailingManager \<Rightarrow> trailingStopResult \<times> trailingManager" where
  "applyBreakeven pos t pct timestamp m =
     (let feeBufferPct = 1 / 1000;
          breakevenPrice = (if po_side pos = LONG then po_entryPrice pos * (1 + feeBufferPct)
            else po_entryPrice pos * (1 - feeBufferPct));
          t1 = t\<lparr>tk_breakevenApplied := True\<rparr> in
      if \<not> improvesStop pos breakevenPrice then (stopKept pos t1 pct, storeTracker pos t1 m)
      else (let t2 = t1\<lparr>tk_lastUpdateTimestamp := timestamp\<rparr> in
        (stopMoved pos t2 pct breakevenPrice BREAKEVEN, storeTracker pos t2 m)))"

definition applyTrailingStop ::
  "portfolioPosition \<Rightarrow> tracker \<Rightarrow> number \<Rightarrow> ms \<Rightarrow> trailingManager \<Rightarrow> trailingStopResult \<times> trailingManager" where
  "applyTrailingStop pos t currentPrice timestamp m =
     (let distance = tf_trailingDistancePct (tm_config m);
          trailingStopPrice = (if po_side pos = LONG then tk_highestFavorablePrice t * (1 - distance)
            else tk_highestFavorablePrice t * (1 + distance));
          pct = unrealizedPct pos currentPrice in
      if \<not> improvesStop pos trailingStopPrice then (stopKept pos t pct, m)
      else (let t1 = t\<lparr>tk_lastUpdateTimestamp := timestamp\<rparr> in
        (stopMoved pos t1 pct trailingStopPrice TRAILING, storeTracker pos t1 m)))"

definition updateStopLoss ::
  "portfolioPosition \<Rightarrow> number \<Rightarrow> ms \<Rightarrow> trailingManager \<Rightarrow> trailingStopResult \<times> trailingManager" where
  "updateStopLoss pos currentPrice ts m =
     (let (t, m1) = trackFavorablePrice pos currentPrice ts m;
          cfg = tm_config m; pct = unrealizedPct pos currentPrice in
      if tf_enableBreakeven cfg \<and> \<not> tk_breakevenApplied t \<and> pct \<ge> tf_breakevenTriggerPct cfg
      then applyBreakeven pos t pct ts m1
      else if tf_enableTrailing cfg \<and> pct \<ge> tf_activationThresholdPct cfg
      then applyTrailingStop pos t currentPrice ts m1
      else (stopKept pos t pct, m1))"

definition applyTpExtension ::
  "portfolioPosition \<Rightarrow> tracker \<Rightarrow> number \<Rightarrow> number \<Rightarrow> trailingManager \<Rightarrow> trailingTakeProfitResult" where
  "applyTpExtension pos t currentTpPrice pct m =
     (let extendedTp = (if po_side pos = LONG then tk_highestFavorablePrice t * (1 + tf_tpExtensionPct (tm_config m))
            else tk_highestFavorablePrice t * (1 - tf_tpExtensionPct (tm_config m)));
          shouldUpdate = (if po_side pos = LONG then extendedTp > currentTpPrice else extendedTp < currentTpPrice) in
      \<lparr>tt_tpUpdated = shouldUpdate, tt_previousTp = currentTpPrice,
       tt_newTp = (if shouldUpdate then extendedTp else currentTpPrice),
       tt_reason = (if shouldUpdate then EXTENDED else NO_CHANGE),
       tt_currentUnrealizedPnlPct = pct, tt_highestFavorablePrice = tk_highestFavorablePrice t\<rparr>)"

definition updateTakeProfit ::
  "portfolioPosition \<Rightarrow> number \<Rightarrow> number \<Rightarrow> ms \<Rightarrow> trailingManager \<Rightarrow> trailingTakeProfitResult \<times> trailingManager" where
  "updateTakeProfit pos currentTpPrice currentPrice ts m =
     (let (t, m1) = trackFavorablePrice pos currentPrice ts m;
          cfg = tm_config m; pct = unrealizedPct pos currentPrice in
      if tf_enableTpExtension cfg \<and> pct \<ge> tf_activationThresholdPct cfg
      then (applyTpExtension pos t currentTpPrice pct m1, m1)
      else (\<lparr>tt_tpUpdated = False, tt_previousTp = currentTpPrice, tt_newTp = currentTpPrice,
             tt_reason = NO_CHANGE, tt_currentUnrealizedPnlPct = pct,
             tt_highestFavorablePrice = tk_highestFavorablePrice t\<rparr>, m1))"

definition onPositionClosed :: "string \<Rightarrow> direction \<Rightarrow> trailingManager \<Rightarrow> trailingManager" where
  "onPositionClosed symbol side m = m\<lparr>tm_trackers := mdel (symbol, side) (tm_trackers m)\<rparr>"

subsection \<open>The controller\<close>

record trailingStopMoved =
  sv_symbol :: string
  sv_side :: direction
  sv_previousStop :: number
  sv_newStop :: number
  sv_reason :: trailReason
  sv_orderId :: string

record trailingTpMoved =
  tv_symbol :: string
  tv_side :: direction
  tv_previousTp :: number
  tv_newTp :: number
  tv_reason :: trailReason
  tv_orderId :: string

record trailingController =
  tc_manager :: trailingManager
  tc_minUpdateIntervalMs :: ms
  tc_lastUpdateAt :: "(string, ms) jsmap"
  tc_inFlight :: "string list"

definition newTrailingController :: "trailingManager \<Rightarrow> ms option \<Rightarrow> trailingController" where
  "newTrailingController m minUpdateIntervalMs = \<lparr>tc_manager = m,
     tc_minUpdateIntervalMs = coalesce minUpdateIntervalMs 2000, tc_lastUpdateAt = [], tc_inFlight = []\<rparr>"

definition toPortfolioPosition :: "position \<Rightarrow> number \<Rightarrow> portfolioPosition" where
  "toPortfolioPosition pos stopLossPrice = \<lparr>po_symbol = p_symbol pos,
     po_side = (if p_qty pos \<ge> 0 then LONG else SHORT), po_quantity = \<bar>p_qty pos\<bar>,
     po_entryPrice = p_entryPrice pos, po_stopLossPrice = stopLossPrice,
     po_notional = \<bar>p_qty pos\<bar> * p_entryPrice pos, po_unrealizedPnl = p_unrealizedPnl pos\<rparr>"

definition forget :: "string \<Rightarrow> trailingController \<Rightarrow> trailingController" where
  "forget symbol c = c\<lparr>tc_lastUpdateAt := mdel symbol (tc_lastUpdateAt c),
     tc_manager := onPositionClosed symbol SHORT (onPositionClosed symbol LONG (tc_manager c))\<rparr>"

definition replacementCommand :: "order \<Rightarrow> number \<Rightarrow> orderCommand" where
  "replacementCommand existing newTriggerPrice =
     \<lparr>c_clientOrderId = None, c_symbol = o_symbol existing, c_side = o_side existing, c_type = o_type existing,
      c_quantity = o_quantity existing - o_filledQty existing, c_price = None,
      c_stopPrice = Some newTriggerPrice, c_activationPrice = None, c_callbackRate = None,
      c_leverage = Some (o_leverage existing), c_marginType = None, c_reduceOnly = Some True,
      c_postOnly = None, c_closePosition = None, c_timeInForce = None, c_workingType = Some MARK_PRICE,
      c_strategyId = o_strategyId existing, c_signalId = o_signalId existing\<rparr>"

definition submitReplacementOrder ::
  "'s port \<Rightarrow> order \<Rightarrow> number \<Rightarrow> string \<Rightarrow> ms \<Rightarrow> 's \<Rightarrow> (string + order option) \<times> 's" where
  "submitReplacementOrder P existing newTriggerPrice cancelReason now s =
     (case bp_submitOrder P (replacementCommand existing newTriggerPrice) now s of
        (Inl e, s1) \<Rightarrow> (Inl e, s1)
      | (Inr replacement, s1) \<Rightarrow>
          if o_status replacement = REJECTED then (Inr None, s1)
          else (case bp_cancelOrder P (o_id existing) cancelReason now s1 of
              (Inl e, s2) \<Rightarrow> (Inl e, s2)
            | (Inr _, s2) \<Rightarrow> (Inr (Some replacement), s2)))"

text \<open>Both movers catch what the broker throws and report no move.\<close>

definition updateStopOrder ::
  "'s port \<Rightarrow> string \<Rightarrow> position \<Rightarrow> order \<Rightarrow> number \<Rightarrow> number \<Rightarrow> ms \<Rightarrow> trailingController \<times> 's \<Rightarrow>
   trailingStopMoved option \<times> trailingController \<times> 's" where
  "updateStopOrder P symbol pos stopOrder trigger price now cs =
     (case cs of (c, s) \<Rightarrow>
       (let portfolio = toPortfolioPosition pos trigger;
            (result, m1) = updateStopLoss portfolio price now (tc_manager c);
            c1 = c\<lparr>tc_manager := m1\<rparr> in
        if \<not> ts_stopUpdated result \<or> ts_reason result = NO_CHANGE then (None, c1, s)
        else (case submitReplacementOrder P stopOrder (ts_newStop result) ''TRAILING_STOP_REPLACED'' now s of
            (Inr (Some replacement), s1) \<Rightarrow>
              (Some \<lparr>sv_symbol = symbol, sv_side = po_side portfolio, sv_previousStop = ts_previousStop result,
                 sv_newStop = ts_newStop result, sv_reason = ts_reason result, sv_orderId = o_id replacement\<rparr>, c1, s1)
          | (_, s1) \<Rightarrow> (None, c1, s1))))"

definition updateTpOrder ::
  "'s port \<Rightarrow> string \<Rightarrow> position \<Rightarrow> order \<Rightarrow> number \<Rightarrow> number \<Rightarrow> ms \<Rightarrow> trailingController \<times> 's \<Rightarrow>
   trailingTpMoved option \<times> trailingController \<times> 's" where
  "updateTpOrder P symbol pos tpOrder trigger price now cs =
     (case cs of (c, s) \<Rightarrow>
       (let portfolio = toPortfolioPosition pos trigger;
            (result, m1) = updateTakeProfit portfolio trigger price now (tc_manager c);
            c1 = c\<lparr>tc_manager := m1\<rparr> in
        if \<not> tt_tpUpdated result \<or> tt_reason result = NO_CHANGE then (None, c1, s)
        else (case submitReplacementOrder P tpOrder (tt_newTp result) ''TRAILING_TP_REPLACED'' now s of
            (Inr (Some replacement), s1) \<Rightarrow>
              (Some \<lparr>tv_symbol = symbol, tv_side = po_side portfolio, tv_previousTp = tt_previousTp result,
                 tv_newTp = tt_newTp result, tv_reason = tt_reason result, tv_orderId = o_id replacement\<rparr>, c1, s1)
          | (_, s1) \<Rightarrow> (None, c1, s1))))"

subsection \<open>A pass\<close>

definition enterPass :: "string \<Rightarrow> number \<Rightarrow> ms \<Rightarrow> trailingController \<Rightarrow> bool" where
  "enterPass symbol price now c \<longleftrightarrow> price > 0 \<and> symbol \<notin> set (tc_inFlight c)
     \<and> \<not> now - coalesce (mget (tc_lastUpdateAt c) symbol) 0 < tc_minUpdateIntervalMs c"

definition restingOrder :: "orderType \<Rightarrow> order list \<Rightarrow> order option" where
  "restingOrder typ os = find (\<lambda>ord. o_type ord = typ \<and> o_reduceOnly ord) os"

definition hasTrigger :: "order option \<Rightarrow> bool" where
  "hasTrigger found \<longleftrightarrow> (case found of None \<Rightarrow> False | Some ord \<Rightarrow> o_stopPrice ord \<noteq> None)"

type_synonym pass = "position \<times> order option \<times> order option"

definition loadPass :: "'s port \<Rightarrow> string \<Rightarrow> trailingController \<Rightarrow> 's \<Rightarrow> pass option \<times> trailingController" where
  "loadPass P symbol c s =
     (case bp_getPosition P symbol s of
        None \<Rightarrow> (None, forget symbol c)
      | Some pos \<Rightarrow>
          if p_qty pos = 0 \<or> p_status pos = CLOSED then (None, forget symbol c)
          else (let openOrders = bp_getOpenOrders P (Some symbol) s;
                    stopOrder = restingOrder STOP_MARKET openOrders;
                    tpOrder = restingOrder TAKE_PROFIT_MARKET openOrders in
                if \<not> hasTrigger stopOrder \<and> \<not> hasTrigger tpOrder then (None, c)
                else (Some (pos, stopOrder, tpOrder), c\<lparr>tc_inFlight := List.insert symbol (tc_inFlight c)\<rparr>)))"

definition movePass ::
  "'s port \<Rightarrow> string \<Rightarrow> pass \<Rightarrow> number \<Rightarrow> ms \<Rightarrow> trailingController \<times> 's \<Rightarrow>
   (trailingStopMoved option \<times> trailingTpMoved option) \<times> trailingController \<times> 's" where
  "movePass P symbol x price now cs =
     (case x of (pos, stopOrder, tpOrder) \<Rightarrow>
       (let (slMoved, c1, s1) = (case stopOrder of
              Some ord \<Rightarrow> (case o_stopPrice ord of
                  Some trigger \<Rightarrow> updateStopOrder P symbol pos ord trigger price now cs | None \<Rightarrow> (None, cs))
            | None \<Rightarrow> (None, cs));
            (tpMoved, c2, s2) = (case tpOrder of
              Some ord \<Rightarrow> (case o_stopPrice ord of
                  Some trigger \<Rightarrow> updateTpOrder P symbol pos ord trigger price now (c1, s1) | None \<Rightarrow> (None, c1, s1))
            | None \<Rightarrow> (None, c1, s1));
            moved = (slMoved \<noteq> None \<or> tpMoved \<noteq> None);
            c3 = (if moved then c2\<lparr>tc_lastUpdateAt := mset symbol now (tc_lastUpdateAt c2)\<rparr> else c2) in
        ((slMoved, tpMoved), c3\<lparr>tc_inFlight := removeAll symbol (tc_inFlight c3)\<rparr>, s2)))"

definition onPrice ::
  "'s port \<Rightarrow> string \<Rightarrow> number \<Rightarrow> ms \<Rightarrow> trailingController \<times> 's \<Rightarrow>
   (trailingStopMoved option \<times> trailingTpMoved option) \<times> trailingController \<times> 's" where
  "onPrice P symbol price now cs =
     (case cs of (c, s) \<Rightarrow>
        if \<not> enterPass symbol price now c then ((None, None), c, s)
        else (case loadPass P symbol c s of
            (None, c1) \<Rightarrow> ((None, None), c1, s)
          | (Some x, c1) \<Rightarrow> movePass P symbol x price now (c1, s)))"

end
