(* ===== verification/Trailing_Guarantees.thy ===== *)
theory Trailing_Guarantees
  imports Trailing_Stops Gateway_Guarantees Paper_Broker_Guarantees
begin

section \<open>What trailing stops guarantee\<close>

text \<open>
  The manager's stop only ever tightens. The controller moves real orders, so its guarantee is one
  about the broker behind it: the laws it relies on are a locale over the port, proved once for the
  paper broker, and its passes then never leave a position without the stop it had. The last part
  shows what the in-flight guard does not give: two passes that overlap.
\<close>

subsection \<open>Stops only tighten\<close>

definition tighter :: "direction \<Rightarrow> number \<Rightarrow> number \<Rightarrow> bool" where
  "tighter side old new \<longleftrightarrow> (if side = LONG then old \<le> new else new \<le> old)"

lemma tighter_refl [simp]: "tighter side x x"
  by (simp add: tighter_def)

lemma tighter_trans: "tighter side x y \<Longrightarrow> tighter side y z \<Longrightarrow> tighter side x z"
  by (auto simp: tighter_def split: if_splits)

lemma updateStopLoss_tightens:
  "tighter (po_side pos) (po_stopLossPrice pos) (ts_newStop (fst (updateStopLoss pos price t m)))"
  by (auto simp: updateStopLoss_def applyBreakeven_def applyTrailingStop_def stopKept_def stopMoved_def
      improvesStop_def tighter_def Let_def split_beta split: if_splits)

lemma updateStopLoss_previous:
  "ts_previousStop (fst (updateStopLoss pos price t m)) = po_stopLossPrice pos"
  by (auto simp: updateStopLoss_def applyBreakeven_def applyTrailingStop_def stopKept_def stopMoved_def
      Let_def split_beta)

lemma updateTakeProfit_extends:
  "tighter (po_side pos) tp (tt_newTp (fst (updateTakeProfit pos tp price t m)))"
  by (auto simp: updateTakeProfit_def applyTpExtension_def tighter_def Let_def split_beta)

text \<open>The tracked price: the best price seen, entry included.\<close>

definition better :: "direction \<Rightarrow> number \<Rightarrow> number \<Rightarrow> number" where
  "better side x y = (if side = LONG then max x y else min x y)"

definition favorable :: "portfolioPosition \<Rightarrow> trailingManager \<Rightarrow> number" where
  "favorable pos m = (case mget (tm_trackers m) (trackerKey pos) of
     None \<Rightarrow> po_entryPrice pos | Some t \<Rightarrow> tk_highestFavorablePrice t)"

definition latched :: "portfolioPosition \<Rightarrow> trailingManager \<Rightarrow> bool" where
  "latched pos m \<longleftrightarrow> (case mget (tm_trackers m) (trackerKey pos) of None \<Rightarrow> False | Some t \<Rightarrow> tk_breakevenApplied t)"

lemma updateStopLoss_manager:
  "favorable pos (snd (updateStopLoss pos price t m)) = better (po_side pos) (favorable pos m) price"
  "tm_config (snd (updateStopLoss pos price t m)) = tm_config m"
  "latched pos m \<Longrightarrow> latched pos (snd (updateStopLoss pos price t m))"
  by (auto simp: updateStopLoss_def applyBreakeven_def applyTrailingStop_def storeTracker_def trackFavorablePrice_def
      favorable_def latched_def better_def Let_def split_beta split: option.splits)

text \<open>A position ticking: each price moves the stop of the position to what the manager answers.\<close>

definition trailStep :: "number \<times> ms \<Rightarrow> portfolioPosition \<times> trailingManager \<Rightarrow> portfolioPosition \<times> trailingManager" where
  "trailStep tick pm = (case pm of (pos, m) \<Rightarrow>
     (let (r, m1) = updateStopLoss pos (fst tick) (snd tick) m in (pos\<lparr>po_stopLossPrice := ts_newStop r\<rparr>, m1)))"

lemma favorable_stop [simp]: "favorable (pos\<lparr>po_stopLossPrice := x\<rparr>) m = favorable pos m"
  by (simp add: favorable_def trackerKey_def split: option.split)

lemma trailStep_frame:
  "po_side (fst (trailStep tick (pos, m))) = po_side pos"
  "po_entryPrice (fst (trailStep tick (pos, m))) = po_entryPrice pos"
  "tighter (po_side pos) (po_stopLossPrice pos) (po_stopLossPrice (fst (trailStep tick (pos, m))))"
  "favorable (fst (trailStep tick (pos, m))) (snd (trailStep tick (pos, m))) = better (po_side pos) (favorable pos m) (fst tick)"
  "tm_config (snd (trailStep tick (pos, m))) = tm_config m"
  using updateStopLoss_tightens [of pos "fst tick" "snd tick" m] updateStopLoss_manager(1,2) [of pos "fst tick" "snd tick" m]
  by (simp_all add: trailStep_def Let_def split_beta)

definition trailingFloor :: "trailingConfig \<Rightarrow> direction \<Rightarrow> number \<Rightarrow> number" where
  "trailingFloor cfg side best =
     (if side = LONG then best * (1 - tf_trailingDistancePct cfg) else best * (1 + tf_trailingDistancePct cfg))"

lemma activated_stop:
  assumes "latched pos m \<or> \<not> tf_enableBreakeven (tm_config m)" "tf_enableTrailing (tm_config m)"
    and "unrealizedPct pos price \<ge> tf_activationThresholdPct (tm_config m)"
  shows "tighter (po_side pos) (trailingFloor (tm_config m) (po_side pos) (better (po_side pos) (favorable pos m) price))
    (ts_newStop (fst (updateStopLoss pos price t m)))"
  using assms
  by (auto simp: updateStopLoss_def applyTrailingStop_def stopKept_def stopMoved_def improvesStop_def storeTracker_def
      trackFavorablePrice_def tighter_def trailingFloor_def favorable_def latched_def better_def Let_def
      split: option.splits)

definition bestPrice :: "direction \<Rightarrow> number \<Rightarrow> (number \<times> ms) list \<Rightarrow> number" where
  "bestPrice side start ticks = fold (\<lambda>tick best. better side best (fst tick)) ticks start"

lemma trailStep_run:
  assumes "fold trailStep ticks (pos, m) = (pos1, m1)"
  shows "po_side pos1 = po_side pos \<and> tighter (po_side pos) (po_stopLossPrice pos) (po_stopLossPrice pos1)
    \<and> favorable pos1 m1 = bestPrice (po_side pos) (favorable pos m) ticks \<and> tm_config m1 = tm_config m"
  using assms
proof (induction ticks arbitrary: pos m)
  case Nil
  then show ?case by (simp add: bestPrice_def)
next
  case (Cons tick ticks)
  obtain pos2 m2 where s: "trailStep tick (pos, m) = (pos2, m2)" by fastforce
  note f = trailStep_frame [where tick = tick and pos = pos and m = m, unfolded s fst_conv snd_conv]
  show ?case
    using Cons.IH [of pos2 m2] Cons.prems f by (auto simp: s bestPrice_def intro: tighter_trans)
qed

text \<open>C24. The trailing stop ratchets: along any prices the stop of a position is never loosened, and a tick
  that shows at least the activation profit, with breakeven done or disabled, leaves it within the
  trailing distance of the best price the position has seen.\<close>

theorem trailing_stop_ratchets:
  assumes "fold trailStep ticks (pos, m) = (pos1, m1)" and "trailStep (price, t) (pos1, m1) = (pos2, m2)"
    and "latched pos1 m1 \<or> \<not> tf_enableBreakeven (tm_config m)" "tf_enableTrailing (tm_config m)"
    and "unrealizedPct pos1 price \<ge> tf_activationThresholdPct (tm_config m)"
  shows "tighter (po_side pos) (po_stopLossPrice pos) (po_stopLossPrice pos1)
    \<and> tighter (po_side pos) (po_stopLossPrice pos1) (po_stopLossPrice pos2)
    \<and> tighter (po_side pos)
        (trailingFloor (tm_config m) (po_side pos) (bestPrice (po_side pos) (favorable pos m) (ticks @ [(price, t)])))
        (po_stopLossPrice pos2)"
proof -
  note run = trailStep_run [OF assms(1)]
  have stop: "po_stopLossPrice pos2 = ts_newStop (fst (updateStopLoss pos1 price t m1))"
    using assms(2) by (auto simp: trailStep_def Let_def split_beta)
  show ?thesis
    using run activated_stop [of pos1 m1 price t] assms(3-5) updateStopLoss_tightens [of pos1 price t m1]
    by (simp add: stop bestPrice_def)
qed

definition trailedLong :: portfolioPosition where
  "trailedLong = \<lparr>po_symbol = ''BTC'', po_side = LONG, po_quantity = 1, po_entryPrice = 100, po_stopLossPrice = 95,
     po_notional = 100, po_unrealizedPnl = 0\<rparr>"

definition freshTrailing :: trailingManager where
  "freshTrailing = \<lparr>tm_config = DEFAULT_TRAILING_STOP_CONFIG, tm_trackers = []\<rparr>"

text \<open>From 101 the stop goes to breakeven, from 110 it trails: the pullback to 109 keeps it at 108.35.\<close>

theorem trailing_stop_ratchets_witness:
  "case fold trailStep [(101, 1), (110, 2)] (trailedLong, freshTrailing) of (pos1, m1) \<Rightarrow>
     case trailStep (109, 3) (pos1, m1) of (pos2, m2) \<Rightarrow>
       po_stopLossPrice pos2 = 2167 / 20
       \<and> tighter LONG (trailingFloor DEFAULT_TRAILING_STOP_CONFIG LONG 110) (po_stopLossPrice pos2)"
proof -
  note evals = trailedLong_def freshTrailing_def DEFAULT_TRAILING_STOP_CONFIG_def trailStep_def updateStopLoss_def
    trackFavorablePrice_def applyBreakeven_def applyTrailingStop_def improvesStop_def stopMoved_def stopKept_def
    storeTracker_def trackerKey_def unrealizedPct_def mset_def mget_def Let_def
  obtain pos1 m1 where r: "fold trailStep [(101, 1), (110, 2)] (trailedLong, freshTrailing) = (pos1, m1)" by fastforce
  obtain pos2 m2 where s: "trailStep (109, 3) (pos1, m1) = (pos2, m2)" by fastforce
  have v1: "pos1 = trailedLong\<lparr>po_stopLossPrice := 2167 / 20\<rparr>"
    "m1 = freshTrailing\<lparr>tm_trackers := [((''BTC'', LONG), \<lparr>tk_highestFavorablePrice = 110,
       tk_breakevenApplied = True, tk_lastUpdateTimestamp = 2\<rparr>)]\<rparr>"
    using r by (auto simp: evals)
  have v2: "po_stopLossPrice pos2 = 2167 / 20" using s by (auto simp: v1 evals)
  have "latched pos1 m1" "unrealizedPct pos1 109 \<ge> 2 / 100"
    by (simp_all add: v1 latched_def evals)
  then have "tighter LONG (trailingFloor DEFAULT_TRAILING_STOP_CONFIG LONG 110) (po_stopLossPrice pos2)"
    using trailing_stop_ratchets [OF r s]
    by (simp add: trailedLong_def freshTrailing_def DEFAULT_TRAILING_STOP_CONFIG_def favorable_def
        bestPrice_def better_def)
  with v2 show ?thesis unfolding r s prod.case by simp
qed

subsection \<open>The desk behind the controller\<close>

definition resting :: "'s port \<Rightarrow> string \<Rightarrow> 's \<Rightarrow> order \<Rightarrow> bool" where
  "resting P symbol s ord \<longleftrightarrow> ord \<in> set (bp_getOpenOrders P (Some symbol) s)"

definition isTrigger :: "orderType \<Rightarrow> bool" where
  "isTrigger typ \<longleftrightarrow> typ = STOP_MARKET \<or> typ = TAKE_PROFIT_MARKET"

text \<open>A mover leaves the broker alone or ran one replacement, at the price the manager answered.\<close>

lemma updateStopOrder_broker:
  assumes "updateStopOrder P symbol pos ord old price now (c, s) = (moved, c2, s2)"
  shows "s2 = s \<or> (\<exists>r. submitReplacementOrder P ord
    (ts_newStop (fst (updateStopLoss (toPortfolioPosition pos old) price now (tc_manager c)))) ''TRAILING_STOP_REPLACED'' now s = (r, s2))"
  using assms
  by (auto simp: updateStopOrder_def Let_def split_beta prod_eq_iff split: if_splits sum.splits option.splits)

lemma updateTpOrder_broker:
  assumes "updateTpOrder P symbol pos ord old price now (c, s) = (moved, c2, s2)"
  shows "s2 = s \<or> (\<exists>r. submitReplacementOrder P ord
    (tt_newTp (fst (updateTakeProfit (toPortfolioPosition pos old) old price now (tc_manager c)))) ''TRAILING_TP_REPLACED'' now s = (r, s2))"
  using assms
  by (auto simp: updateTpOrder_def Let_def split_beta prod_eq_iff split: if_splits sum.splits option.splits)

text \<open>What the controller relies on. \<open>executed\<close> counts fills; the laws are about submissions of
  reduce-only trigger orders that execute nothing, and about cancellation. \<open>sane\<close> holds of every state
  the desk reaches, \<open>tidy\<close> of those it reaches without executing; \<open>used\<close> says which identifiers have been given
  out and \<open>snap\<close> rounds a trigger price.\<close>

locale order_desk =
  fixes P :: "'s port" and sane tidy :: "'s \<Rightarrow> bool" and executed :: "'s \<Rightarrow> nat"
    and used :: "'s \<Rightarrow> string \<Rightarrow> bool" and snap :: "string \<Rightarrow> number \<Rightarrow> number"
  assumes tidy_sane: "tidy s \<Longrightarrow> sane s"
    and submit_mono: "sane s \<Longrightarrow> bp_submitOrder P c now s = (r, s1) \<Longrightarrow> sane s1 \<and> executed s \<le> executed s1"
    and submit_keeps: "tidy s \<Longrightarrow> isTrigger (c_type c) \<Longrightarrow> bp_submitOrder P c now s = (r, s1) \<Longrightarrow>
      executed s1 = executed s \<Longrightarrow> tidy s1 \<and> (\<forall>symbol ord. resting P symbol s ord \<longrightarrow> resting P symbol s1 ord)
        \<and> (\<forall>k. used s k \<longrightarrow> used s1 k)"
    and submit_rests: "tidy s \<Longrightarrow> isTrigger (c_type c) \<Longrightarrow> bp_submitOrder P c now s = (Inr rep, s1) \<Longrightarrow>
      executed s1 = executed s \<Longrightarrow> o_status rep \<noteq> REJECTED \<Longrightarrow>
      resting P (c_symbol c) s1 rep \<and> \<not> used s (o_id rep) \<and> o_type rep = c_type c
        \<and> o_reduceOnly rep = coalesce (c_reduceOnly c) False
        \<and> o_stopPrice rep = map_option (snap (c_symbol c)) (c_stopPrice c)"
    and cancel_sane: "sane s \<Longrightarrow> bp_cancelOrder P oid why now s = (x, s1) \<Longrightarrow> sane s1 \<and> executed s1 = executed s"
    and cancel_keeps: "tidy s \<Longrightarrow> bp_cancelOrder P oid why now s = (x, s1) \<Longrightarrow>
      tidy s1 \<and> (\<forall>symbol ord. resting P symbol s ord \<longrightarrow> o_id ord \<noteq> oid \<longrightarrow> resting P symbol s1 ord)
        \<and> (\<forall>k. used s k \<longrightarrow> used s1 k)"
    and resting_used: "tidy s \<Longrightarrow> resting P symbol s ord \<Longrightarrow> used s (o_id ord)"
    and same_id: "tidy s \<Longrightarrow> resting P symbol s ord1 \<Longrightarrow> resting P symbol s ord2 \<Longrightarrow> o_id ord1 = o_id ord2 \<Longrightarrow> ord1 = ord2"
    and rests_under: "resting P symbol s ord \<Longrightarrow> symbol \<noteq> [] \<Longrightarrow> o_symbol ord = symbol"
begin

definition replaces :: "string \<Rightarrow> order \<Rightarrow> number \<Rightarrow> 's \<Rightarrow> bool" where
  "replaces symbol existing x s \<longleftrightarrow> (\<exists>rep. resting P symbol s rep \<and> o_type rep = o_type existing \<and> o_reduceOnly rep
     \<and> o_stopPrice rep = Some (snap symbol x))"

lemma replacement_mono:
  assumes "sane s" "submitReplacementOrder P existing x why now s = (r, s2)"
  shows "sane s2 \<and> executed s \<le> executed s2"
proof -
  obtain r1 s1 where sub: "bp_submitOrder P (replacementCommand existing x) now s = (r1, s1)" by fastforce
  obtain rc s3 where can: "bp_cancelOrder P (o_id existing) why now s1 = (rc, s3)" by fastforce
  show ?thesis
    using assms(2) submit_mono [OF assms(1) sub] cancel_sane [OF _ can]
    by (auto simp: submitReplacementOrder_def sub can split: sum.splits if_splits)
qed

text \<open>A replacement that executes nothing leaves every other resting order alone, and the order itself
  in place unless its replacement rests.\<close>

lemma replacement_keeps:
  assumes ok: "tidy s" "symbol \<noteq> []" "resting P symbol s existing" "isTrigger (o_type existing)"
    and r: "submitReplacementOrder P existing x why now s = (r, s2)" and quiet: "executed s2 = executed s"
  shows "tidy s2 \<and> (\<forall>ord. resting P symbol s ord \<longrightarrow> ord \<noteq> existing \<longrightarrow> resting P symbol s2 ord)
    \<and> (resting P symbol s2 existing \<or> replaces symbol existing x s2)"
proof -
  let ?c = "replacementCommand existing x"
  have c: "c_type ?c = o_type existing" "c_symbol ?c = symbol" "c_reduceOnly ?c = Some True" "c_stopPrice ?c = Some x"
    using rests_under [OF ok(3,2)] by (simp_all add: replacementCommand_def)
  obtain r1 s1 where sub: "bp_submitOrder P ?c now s = (r1, s1)" by fastforce
  obtain rc s3 where can: "bp_cancelOrder P (o_id existing) why now s1 = (rc, s3)" by fastforce
  have s1: "sane s1" "executed s \<le> executed s1" using submit_mono [OF tidy_sane [OF ok(1)] sub] by simp_all
  have s3: "executed s3 = executed s1" using cancel_sane [OF s1(1) can] by simp
  have quiet1: "executed s1 = executed s"
    using r quiet s3 by (auto simp: submitReplacementOrder_def sub can split: sum.splits if_splits)
  have k1: "tidy s1" "resting P symbol s ord \<Longrightarrow> resting P symbol s1 ord" for ord
    using submit_keeps [OF ok(1) _ sub quiet1] ok(4) c(1) by auto
  consider (kept) "s2 = s1" | (moved) rep where "r1 = Inr rep" "o_status rep \<noteq> REJECTED" "s2 = s3"
    using r by (auto simp: submitReplacementOrder_def sub can split: sum.splits if_splits)
  then show ?thesis
  proof cases
    case kept
    with k1 ok(3) show ?thesis by blast
  next
    case moved
    have rep: "resting P symbol s1 rep" "\<not> used s (o_id rep)" "o_type rep = o_type existing" "o_reduceOnly rep"
      "o_stopPrice rep = Some (snap symbol x)"
      using submit_rests [OF ok(1) _ sub [unfolded moved(1)] quiet1 moved(2)] ok(4) c by simp_all
    have k3: "tidy s3" "resting P symbol s1 ord \<Longrightarrow> o_id ord \<noteq> o_id existing \<Longrightarrow> resting P symbol s3 ord" for ord
      using cancel_keeps [OF k1(1) can] by auto
    have "o_id ord \<noteq> o_id existing" if "resting P symbol s1 ord" "ord \<noteq> existing" for ord
      using same_id [OF k1(1) that(1) k1(2) [OF ok(3)]] that(2) by blast
    moreover have "rep \<noteq> existing" using rep(2) resting_used [OF ok(1,3)] by blast
    ultimately show ?thesis
      using k1(2) k3 rep moved(3) unfolding replaces_def by blast
  qed
qed

text \<open>A reported replacement rests, is new, and is what was asked for.\<close>

lemma replacement_rests:
  assumes ok: "tidy s" "o_symbol existing = symbol" "isTrigger (o_type existing)" "used s (o_id existing)"
    and r: "submitReplacementOrder P existing x why now s = (Inr (Some rep), s2)" and quiet: "executed s2 = executed s"
  shows "tidy s2 \<and> resting P symbol s2 rep \<and> \<not> used s (o_id rep) \<and> o_type rep = o_type existing \<and> o_reduceOnly rep
    \<and> (\<forall>ord. resting P symbol s ord \<longrightarrow> o_id ord \<noteq> o_id existing \<longrightarrow> resting P symbol s2 ord) \<and> (\<forall>k. used s k \<longrightarrow> used s2 k)"
proof -
  let ?c = "replacementCommand existing x"
  have c: "c_type ?c = o_type existing" "c_symbol ?c = symbol" "c_reduceOnly ?c = Some True"
    using ok(2) by (simp_all add: replacementCommand_def)
  obtain rc s1 where sub: "bp_submitOrder P ?c now s = (Inr rep, s1)" "o_status rep \<noteq> REJECTED"
    and can: "bp_cancelOrder P (o_id existing) why now s1 = (rc, s2)"
    using r by (auto simp: submitReplacementOrder_def split: prod.splits sum.splits if_splits)
  have "sane s1" using submit_mono [OF tidy_sane [OF ok(1)] sub(1)] by simp
  then have q1: "executed s1 = executed s" using cancel_sane [OF _ can] quiet by simp
  have t: "isTrigger (c_type ?c)" using ok(3) c by simp
  have s1: "tidy s1" "resting P symbol s ord \<Longrightarrow> resting P symbol s1 ord" "used s k \<Longrightarrow> used s1 k" for ord k
    using submit_keeps [OF ok(1) t sub(1) q1] by auto
  have rep: "resting P symbol s1 rep" "\<not> used s (o_id rep)" "o_type rep = o_type existing" "o_reduceOnly rep"
    using submit_rests [OF ok(1) t sub(1) q1 sub(2)] c by simp_all
  have s2: "tidy s2" "resting P symbol s1 ord \<Longrightarrow> o_id ord \<noteq> o_id existing \<Longrightarrow> resting P symbol s2 ord" "used s1 k \<Longrightarrow> used s2 k"
    for ord k
    using cancel_keeps [OF s1(1) can] by auto
  have "o_id rep \<noteq> o_id existing" using rep(2) ok(4) by metis
  with s1 s2 rep show ?thesis by blast
qed

text \<open>Two passes that loaded the same stop and both report a move leave two stops.\<close>

lemma two_replacements_rest:
  assumes ok: "tidy s" "resting P symbol s stop" "symbol \<noteq> []" "isTrigger (o_type stop)"
    and r1: "submitReplacementOrder P stop x1 why now1 s = (Inr (Some rep1), s1)" "executed s1 = executed s"
    and r2: "submitReplacementOrder P stop x2 why now2 s1 = (Inr (Some rep2), s2)" "executed s2 = executed s1"
  shows "rep1 \<noteq> rep2 \<and> resting P symbol s2 rep1 \<and> resting P symbol s2 rep2 \<and> o_type rep1 = o_type stop
    \<and> o_type rep2 = o_type stop \<and> o_reduceOnly rep1 \<and> o_reduceOnly rep2"
proof -
  have sym: "o_symbol stop = symbol" and u: "used s (o_id stop)"
    using rests_under [OF ok(2,3)] resting_used [OF ok(1,2)] by simp_all
  note A = replacement_rests [OF ok(1) sym ok(4) u r1]
  then have t1: "tidy s1" and u1: "used s1 (o_id stop)" "used s1 (o_id rep1)" and n: "o_id rep1 \<noteq> o_id stop"
    using u resting_used [of s1 symbol rep1] by auto
  note B = replacement_rests [OF t1 sym ok(4) u1(1) r2]
  show ?thesis using A B u1(2) n by auto
qed

definition protects :: "string \<Rightarrow> direction \<Rightarrow> order \<Rightarrow> 's \<Rightarrow> bool" where
  "protects symbol side stop s \<longleftrightarrow> resting P symbol s stop \<or>
     (\<exists>ord x old. resting P symbol s ord \<and> o_type ord = o_type stop \<and> o_reduceOnly ord \<and> o_stopPrice stop = Some old
       \<and> tighter side old x \<and> o_stopPrice ord = Some (snap symbol x))"

lemma updateStopOrder_mono:
  assumes "sane s" "updateStopOrder P symbol pos ord old price now (c, s) = (moved, c2, s2)"
  shows "sane s2 \<and> executed s \<le> executed s2"
  using updateStopOrder_broker [OF assms(2)] replacement_mono [OF assms(1)] assms(1) by auto

lemma updateTpOrder_mono:
  assumes "sane s" "updateTpOrder P symbol pos ord old price now (c, s) = (moved, c2, s2)"
  shows "sane s2 \<and> executed s \<le> executed s2"
  using updateTpOrder_broker [OF assms(2)] replacement_mono [OF assms(1)] assms(1) by auto

lemma side_portfolio [simp]: "po_side (toPortfolioPosition pos x) = (if p_qty pos \<ge> 0 then LONG else SHORT)"
  "po_stopLossPrice (toPortfolioPosition pos x) = x"
  by (simp_all add: toPortfolioPosition_def)

lemma updateStopOrder_keeps:
  assumes ok: "tidy s" "symbol \<noteq> []" "resting P symbol s stop" "isTrigger (o_type stop)" "o_stopPrice stop = Some old"
    and u: "updateStopOrder P symbol pos stop old price now (c, s) = (moved, c2, s2)" and quiet: "executed s2 = executed s"
  shows "tidy s2 \<and> (\<forall>ord. resting P symbol s ord \<longrightarrow> ord \<noteq> stop \<longrightarrow> resting P symbol s2 ord)
    \<and> protects symbol (if p_qty pos \<ge> 0 then LONG else SHORT) stop s2"
proof -
  let ?r = "fst (updateStopLoss (toPortfolioPosition pos old) price now (tc_manager c))"
  have t: "tighter (if p_qty pos \<ge> 0 then LONG else SHORT) old (ts_newStop ?r)"
    using updateStopLoss_tightens [of "toPortfolioPosition pos old" price now "tc_manager c"] by simp
  show ?thesis
  proof (cases "s2 = s")
    case True
    with ok show ?thesis by (simp add: protects_def)
  next
    case False
    then obtain r where "submitReplacementOrder P stop (ts_newStop ?r) ''TRAILING_STOP_REPLACED'' now s = (r, s2)"
      using updateStopOrder_broker [OF u] by blast
    then show ?thesis
      using replacement_keeps [OF ok(1-4) _ quiet] ok(5) t
      unfolding replaces_def protects_def by blast
  qed
qed

lemma updateTpOrder_keeps:
  assumes ok: "tidy s" "symbol \<noteq> []" "resting P symbol s tp" "isTrigger (o_type tp)"
    and u: "updateTpOrder P symbol pos tp old price now (c, s) = (moved, c2, s2)" and quiet: "executed s2 = executed s"
  shows "tidy s2 \<and> (\<forall>ord. resting P symbol s ord \<longrightarrow> ord \<noteq> tp \<longrightarrow> resting P symbol s2 ord)"
  using updateTpOrder_broker [OF u] replacement_keeps [OF ok _ quiet] ok(1) by blast

lemma protects_survives:
  assumes "protects symbol side stop s" "o_type stop \<noteq> o_type tp"
    and "\<forall>ord. resting P symbol s ord \<longrightarrow> ord \<noteq> tp \<longrightarrow> resting P symbol s2 ord"
  shows "protects symbol side stop s2"
  using assms unfolding protects_def by metis

text \<open>A pass of the controller that executes nothing leaves the position with its stop or with a
  reduce-only stop at a tighter trigger.\<close>

lemma pass_protects:
  assumes ok: "tidy s" "symbol \<noteq> []" and stop: "restingOrder STOP_MARKET (bp_getOpenOrders P (Some symbol) s) = Some stop"
    and pos: "bp_getPosition P symbol s = Some pos"
    and run: "onPrice P symbol price now (c, s) = (moved, c2, s2)" and quiet: "executed s2 = executed s"
  shows "protects symbol (if p_qty pos \<ge> 0 then LONG else SHORT) stop s2"
proof -
  have rest: "resting P symbol s stop" "o_type stop = STOP_MARKET"
    using stop by (auto simp: restingOrder_def resting_def find_Some_iff)
  show ?thesis
  proof (cases "loadPass P symbol c s")
    case (Pair x c1)
    show ?thesis
    proof (cases "enterPass symbol price now c \<and> x \<noteq> None")
      case False
      then have "s2 = s" using run Pair by (cases x) (auto simp: onPrice_def split: if_splits)
      with rest show ?thesis by (simp add: protects_def)
    next
      case True
      define tpOrder where "tpOrder = restingOrder TAKE_PROFIT_MARKET (bp_getOpenOrders P (Some symbol) s)"
      have x: "x = Some (pos, Some stop, tpOrder)"
        using True Pair stop pos by (auto simp: loadPass_def Let_def tpOrder_def split: if_splits)
      obtain sl cA sA where sl: "(case o_stopPrice stop of
            Some trigger \<Rightarrow> updateStopOrder P symbol pos stop trigger price now (c1, s)
          | None \<Rightarrow> (None, c1, s)) = (sl, cA, sA)" by (rule prod_cases3)
      obtain tpm cB sB where tp: "(case tpOrder of
            Some ord \<Rightarrow> (case o_stopPrice ord of
                Some trigger \<Rightarrow> updateTpOrder P symbol pos ord trigger price now (cA, sA) | None \<Rightarrow> (None, cA, sA))
          | None \<Rightarrow> (None, cA, sA)) = (tpm, cB, sB)" by (rule prod_cases3)
      have s2: "s2 = sB"
        using run True Pair x sl tp by (auto simp: onPrice_def movePass_def Let_def)
      have sA: "sane sA \<and> executed s \<le> executed sA"
        using sl updateStopOrder_mono [OF tidy_sane [OF ok(1)]] tidy_sane [OF ok(1)] by (auto split: option.splits)
      then have sB: "executed sA \<le> executed sB"
        using tp updateTpOrder_mono by (fastforce split: option.splits)
      have qA: "executed sA = executed s" using sA sB quiet s2 by simp
      have A: "tidy sA \<and> (\<forall>ord. resting P symbol s ord \<longrightarrow> ord \<noteq> stop \<longrightarrow> resting P symbol sA ord)
          \<and> protects symbol (if p_qty pos \<ge> 0 then LONG else SHORT) stop sA"
      proof (cases "o_stopPrice stop")
        case None
        with sl rest ok show ?thesis by (simp add: protects_def)
      next
        case (Some old)
        show ?thesis
          by (rule updateStopOrder_keeps [OF ok rest(1) _ Some _ qA]) (use sl Some rest in \<open>simp_all add: isTrigger_def\<close>)
      qed
      show ?thesis
      proof (cases "sB = sA")
        case True
        with A s2 show ?thesis by simp
      next
        case False
        then obtain ord trigger where ord: "tpOrder = Some ord"
          "updateTpOrder P symbol pos ord trigger price now (cA, sA) = (tpm, cB, sB)"
          using tp by (auto split: option.splits)
        then have r: "resting P symbol s ord" "o_type ord = TAKE_PROFIT_MARKET"
          by (auto simp: tpOrder_def restingOrder_def resting_def find_Some_iff)
        then have "resting P symbol sA ord" using A rest(2) by auto
        then have "\<forall>x. resting P symbol sA x \<longrightarrow> x \<noteq> ord \<longrightarrow> resting P symbol sB x"
          using updateTpOrder_keeps [OF _ ok(2) _ _ ord(2)] A r(2) qA quiet s2 by (simp add: isTrigger_def)
        then show ?thesis
          using protects_survives [of symbol _ stop sA ord sB] A r(2) rest(2) s2 by simp
      qed
    qed
  qed
qed

end

subsection \<open>The paper broker as the desk\<close>

lemma mset_same: "mget m k = Some v \<Longrightarrow> mset k v m = m"
  by (induction m) (auto simp: mget_def mset_def split: if_splits)

lemma mvals_iff: "distinct (mkeys m) \<Longrightarrow> v \<in> set (mvals m) \<longleftrightarrow> (\<exists>k. mget m k = Some v)"
  using mvals_in_mget mget_in_mvals by metis

definition paperSane :: "lib \<Rightarrow> (string, instrument) jsmap \<Rightarrow> broker \<Rightarrow> bool" where
  "paperSane L I b \<longleftrightarrow> decimal_exact L \<and> ulid_fresh L \<and> ordersKeyed L b \<and> positionsKnown b \<and> instruments b = I"

definition paperTidy :: "lib \<Rightarrow> (string, instrument) jsmap \<Rightarrow> broker \<Rightarrow> bool" where
  "paperTidy L I b \<longleftrightarrow> paperSane L I b \<and> distinct (mkeys (orders b))"

definition snapTo :: "lib \<Rightarrow> (string, instrument) jsmap \<Rightarrow> string \<Rightarrow> number \<Rightarrow> number" where
  "snapTo L I symbol x = (case mget I symbol of None \<Rightarrow> x | Some i \<Rightarrow> roundTick L x (i_tickSize i))"

lemma resting_paper:
  assumes "distinct (mkeys (orders b))"
  shows "resting (paperPort L) symbol b ord \<longleftrightarrow>
    isOpen ord \<and> symbolFilter (Some symbol) (o_symbol ord) \<and> (\<exists>k. mget (orders b) k = Some ord)"
  using assms by (auto simp: resting_def paperPort_def getOpenOrders_def mvals_iff)

lemma submit_paper [simp]:
  "bp_submitOrder (paperPort L) c now b = (case submitOrder L c now b of
     Inl (msg, b1) \<Rightarrow> (Inl msg, b1) | Inr (ord, b1) \<Rightarrow> (Inr ord, b1))"
  by (simp add: paperPort_def)

text \<open>A trigger order that executes nothing: its own record is all that is written.\<close>

lemma quiet_fillNow:
  assumes L: "decimal_exact L" and r: "fillNow L ord m now b = Inr (ord1, b1)"
    and q: "0 < o_quantity ord" "o_filledQty ord = 0" and quiet: "fills b1 = fills b"
  shows "orders b1 = mset (o_id ord) ord1 (orders b) \<and> o_status ord1 = REJECTED"
proof -
  have "\<not> x_sub L (o_quantity ord) (o_filledQty ord) \<le> 0" using L q by (simp add: lib_exact)
  moreover have filled: False if ex: "executeFill L ord n price liq now b = Inr b2" and same: "fills b1 = fills b2" for n price liq b2
  proof -
    obtain fl where "fills b2 = fills b @ [fl]" by (rule executeFill_effect [OF L ex])
    with same quiet show False by simp
  qed
  moreover have "fillOrder L ord m TAKER now b = Inr b1" "ord1 = cur b1 ord"
    using r by (auto simp: fillNow_def bindR_eq_Inr)
  ultimately show ?thesis
  proof (cases "\<exists>price. getExecutionPrice L b ord m = Some price \<and> \<not> price \<le> 0")
    case True
    then obtain price where price: "getExecutionPrice L b ord m = Some price" "\<not> price \<le> 0" by blast
    then obtain b2 where "executeFill L ord (x_sub L (o_quantity ord) (o_filledQty ord)) price TAKER now b = Inr b2"
      "fills b1 = fills b2"
      using \<open>fillOrder L ord m TAKER now b = Inr b1\<close> \<open>\<not> x_sub L (o_quantity ord) (o_filledQty ord) \<le> 0\<close>
      by (auto simp: fillOrder_def Let_def bindR_eq_Inr)
    with filled show ?thesis by blast
  next
    case False
    then show ?thesis
      using \<open>fillOrder L ord m TAKER now b = Inr b1\<close> \<open>\<not> x_sub L (o_quantity ord) (o_filledQty ord) \<le> 0\<close>
        \<open>ord1 = cur b1 ord\<close>
      by (auto simp: fillOrder_def Let_def rejectOrder_def cur_def split: option.splits)
  qed
qed

lemma quiet_route:
  assumes L: "decimal_exact L" and r: "routeOrder L ord m now b = Inr (ord1, b1)" and t: "isTrigger (o_type ord)"
    and q: "0 < o_quantity ord" "o_filledQty ord = 0" and quiet: "fills b1 = fills b" and m: "mget (orders b) (o_id ord) = Some ord"
  shows "orders b1 = mset (o_id ord) ord1 (orders b) \<and> (o_status ord1 = REJECTED \<or> ord1 = ord)"
proof -
  consider (refused) reason where "rejectOrder ord reason now b = (ord1, b1)" | (filled) "fillNow L ord m now b = Inr (ord1, b1)"
    | (rests) "ord1 = ord" "b1 = b"
    using t r by (auto simp: isTrigger_def routeOrder_def split: if_splits)
  then show ?thesis
  proof cases
    case refused
    then show ?thesis by (auto simp: rejectOrder_def Let_def)
  next
    case filled
    then show ?thesis using quiet_fillNow [OF L filled q quiet] by blast
  next
    case rests
    then show ?thesis using m by (simp add: mset_same)
  qed
qed

lemma quiet_submit:
  assumes L: "decimal_exact L" and t: "isTrigger (c_type c)" and i: "mget (instruments b) (c_symbol c) = Some instr"
    and s: "submitOrder L c now b = Inr (ord1, b1)" and quiet: "fills b1 = fills b"
  shows "orders b1 = mset (x_ulid L (ulids b)) ord1 (mset (x_ulid L (ulids b)) (fst (buildOrder L c instr now b)) (orders b))
    \<and> (o_status ord1 = REJECTED \<or> ord1 = fst (buildOrder L c instr now b))"
proof -
  obtain ord b0 where bo: "buildOrder L c instr now b = (ord, b0)" by fastforce
  note f = buildOrder_facts [of L c instr now b, unfolded bo fst_conv snd_conv]
  define b2 where "b2 = emitOrderEvent now ORDER_RECEIVED ord None None (setOrder ord b0)"
  have b2: "orders b2 = mset (o_id ord) ord (orders b)" "fills b2 = fills b"
    using f(10) by (auto simp: b2_def)
  have reject: ?thesis if "rejectOrder ord reason now b3 = (ord1, b1)" "orders b3 = orders b2" for reason b3
    using that b2 by (auto simp: rejectOrder_def Let_def bo f(7))
  show ?thesis
  proof (cases "getMarket b (c_symbol c)")
    case None
    then show ?thesis using s i bo reject by (auto simp: submitOrder_def b2_def [symmetric])
  next
    case (Some m)
    obtain why b3 where rk: "checkOrderRisk L now ord instr m b2 = (why, b3)" by fastforce
    have b3: "orders b3 = orders b2" "fills b3 = fills b2"
      using checkOrderRisk_frame [of L now ord instr m b2] by (simp_all add: rk)
    show ?thesis
    proof (cases "isMarketStale now (c_symbol c) b2 \<or> why \<noteq> None")
      case True
      then show ?thesis using s i bo Some rk reject b3(1)
        by (auto simp: submitOrder_def b2_def [symmetric] split: if_splits)
    next
      case False
      then have route: "routeOrder L ord m now b3 = Inr (ord1, b1)"
        using s i bo Some rk by (simp add: submitOrder_def b2_def [symmetric])
      obtain px where "0 < o_quantity ord"
        using checkOrderRisk_accepts [of L now ord instr m b2 b3] rk False by (metis)
      then show ?thesis
        using quiet_route [OF L route] t f quiet b2 b3 bo by (simp add: b2(1))
    qed
  qed
qed

text \<open>The laws of the desk for the paper broker.\<close>

lemma paper_submit:
  assumes ok: "paperSane L I b" and s: "bp_submitOrder (paperPort L) c now b = (r, b1)"
  shows "paperSane L I b1 \<and> length (fills b) \<le> length (fills b1)
    \<and> (length (fills b1) = length (fills b) \<longrightarrow> fills b1 = fills b)"
proof (cases "mget (instruments b) (c_symbol c)")
  case None
  then show ?thesis using ok s by (auto simp: submitOrder_def)
next
  case (Some instr)
  have L: "decimal_exact L" "ulid_fresh L" "positionsKnown b" using ok by (simp_all add: paperSane_def)
  obtain o1 b' where sub: "submitOrder L c now b = Inr (o1, b')" "positionsKnown b'" "fillsOnly b b'"
    using submitOrder_ok [OF L(1,3)] Some by blast
  then have "b1 = b'" using s by simp
  moreover have "ordersKeyed L b'"
    using settled_submitOrder [OF L(2), of "{}" b c now] ok sub(1) by (simp add: settled_def paperSane_def afterSubmit_def)
  ultimately show ?thesis
    using sub ok by (auto simp: paperSane_def fillsOnly_def)
qed

lemma paper_quiet:
  assumes ok: "paperTidy L I b" and t: "isTrigger (c_type c)"
    and s: "bp_submitOrder (paperPort L) c now b = (r, b1)" and quiet: "length (fills b1) = length (fills b)"
  obtains (unknown) msg where "r = Inl msg" "b1 = b"
  | (booked) instr ord where "mget I (c_symbol c) = Some instr" "r = Inr ord"
      "\<And>k. mget (orders b1) k = (if k = x_ulid L (ulids b) then Some ord else mget (orders b) k)"
      "mget (orders b) (x_ulid L (ulids b)) = None" "distinct (mkeys (orders b1))"
      "o_status ord = REJECTED \<or> ord = fst (buildOrder L c instr now b)"
proof (cases "mget (instruments b) (c_symbol c)")
  case None
  then show ?thesis using s by (intro unknown) (auto simp: submitOrder_def)
next
  case (Some instr)
  have ok': "decimal_exact L" "ulid_fresh L" "positionsKnown b" "ordersKeyed L b" "instruments b = I"
    "distinct (mkeys (orders b))" "paperSane L I b"
    using ok by (simp_all add: paperTidy_def paperSane_def)
  obtain ord b' where sub: "submitOrder L c now b = Inr (ord, b')"
    using submitOrder_ok [OF ok'(1,3)] Some by blast
  then have b1: "b1 = b'" "r = Inr ord" using s by simp_all
  have "fills b1 = fills b" using paper_submit [OF ok'(7) s] quiet by simp
  then have o2: "orders b1 = mset (x_ulid L (ulids b)) ord
      (mset (x_ulid L (ulids b)) (fst (buildOrder L c instr now b)) (orders b))"
    "o_status ord = REJECTED \<or> ord = fst (buildOrder L c instr now b)"
    using quiet_submit [OF ok'(1) t Some sub] b1(1) by blast+
  show ?thesis
    by (rule booked [OF _ b1(2) _ _ _ o2(2)])
      (use Some ok' o2(1) drawn_fresh [OF ok'(2,4)] in \<open>simp_all add: distinct_mset\<close>)
qed

lemma paper_cancel:
  assumes "bp_cancelOrder (paperPort L) oid why now b = (x, b1)"
  shows "fills b1 = fills b" "paperSane L I b \<Longrightarrow> paperSane L I b1" "paperTidy L I b \<Longrightarrow> paperTidy L I b1"
    "k \<noteq> oid \<Longrightarrow> mget (orders b1) k = mget (orders b) k \<or> \<not> ordersKeyed L b"
    "mget (orders b) j \<noteq> None \<Longrightarrow> mget (orders b1) j \<noteq> None"
proof -
  have b1: "b1 = snd (cancelOrder oid why now b)"
    using assms by (auto simp: paperPort_def split_beta)
  have keyed: "ordersKeyed L b \<Longrightarrow> ordersKeyed L b1"
    using settled_cancelOrder [of L "{}" b oid why now] by (simp add: b1 settled_def)
  have frame: "positions b1 = positions b" "instruments b1 = instruments b" "fills b1 = fills b"
    "distinct (mkeys (orders b)) \<Longrightarrow> distinct (mkeys (orders b1))"
    by (auto simp: b1 cancelOrder_def Let_def distinct_mset split: option.splits)
  have known: "positionsKnown b \<Longrightarrow> positionsKnown b1"
    using frame by (simp add: positionsKnown_def)
  show "fills b1 = fills b" by (rule frame)
  show "mget (orders b1) j \<noteq> None" if "mget (orders b) j \<noteq> None"
    using that by (auto simp: b1 cancelOrder_def Let_def split: option.splits)
  show sane: "paperSane L I b1" if "paperSane L I b"
    using that keyed known frame by (simp add: paperSane_def)
  show "paperTidy L I b1" if "paperTidy L I b"
    using that sane frame by (simp add: paperTidy_def)
  show "mget (orders b1) k = mget (orders b) k \<or> \<not> ordersKeyed L b" if "k \<noteq> oid"
    using that by (auto simp: b1 cancelOrder_def Let_def dest: ordersKeyed_id split: option.splits)
qed

interpretation paperDesk: order_desk "paperPort L" "paperSane L I" "paperTidy L I" "\<lambda>b. length (fills b)"
  "\<lambda>b k. mget (orders b) k \<noteq> None" "snapTo L I" for L I
proof unfold_locales
  fix b b1 :: broker and c now and r :: "string + order"
  assume tidy: "paperTidy L I b" and t: "isTrigger (c_type c)"
    and s: "bp_submitOrder (paperPort L) c now b = (r, b1)" and quiet: "length (fills b1) = length (fills b)"
  have d: "distinct (mkeys (orders b))" using tidy by (simp add: paperTidy_def)
  show "paperTidy L I b1 \<and> (\<forall>symbol ord. resting (paperPort L) symbol b ord \<longrightarrow> resting (paperPort L) symbol b1 ord)
      \<and> (\<forall>k. mget (orders b) k \<noteq> None \<longrightarrow> mget (orders b1) k \<noteq> None)"
  proof (cases rule: paper_quiet [OF tidy t s quiet])
    case (2 instr ord)
    then have "mget (orders b1) k = Some x" if "mget (orders b) k = Some x" for k x
      using that by auto
    then show ?thesis
      using d paper_submit [OF _ s] tidy 2(5) by (auto simp: resting_paper paperTidy_def)
  qed (use tidy in simp)
next
  fix b b1 :: broker and c now rep
  assume tidy: "paperTidy L I b" and t: "isTrigger (c_type c)"
    and s: "bp_submitOrder (paperPort L) c now b = (Inr rep, b1)" and quiet: "length (fills b1) = length (fills b)"
    and acc: "o_status rep \<noteq> REJECTED"
  have d: "distinct (mkeys (orders b))" and i: "instruments b = I" and k: "ordersKeyed L b"
    using tidy by (simp_all add: paperTidy_def paperSane_def)
  show "resting (paperPort L) (c_symbol c) b1 rep \<and> \<not> mget (orders b) (o_id rep) \<noteq> None \<and> o_type rep = c_type c
      \<and> o_reduceOnly rep = coalesce (c_reduceOnly c) False
      \<and> o_stopPrice rep = map_option (snapTo L I (c_symbol c)) (c_stopPrice c)"
  proof (cases rule: paper_quiet [OF tidy t s quiet])
    case (2 instr ord)
    note booked = 2
    then have rep: "rep = fst (buildOrder L c instr now b)" using acc by auto
    note f = buildOrder_facts [of L c instr now b, folded rep]
    have "o_stopPrice rep = map_option (snapTo L I (c_symbol c)) (c_stopPrice c)"
      using booked(1) by (cases "c_stopPrice c") (simp_all add: rep buildOrder_def Let_def split_beta snapTo_def)
    then show ?thesis
      using booked f d
      by (auto simp: resting_paper isOpen_def symbolFilter_def)
  qed simp
next
  fix b b1 :: broker and oid why now x
  assume tidy: "paperTidy L I b" and c: "bp_cancelOrder (paperPort L) oid why now b = (x, b1)"
  have d: "distinct (mkeys (orders b))" and k: "ordersKeyed L b"
    using tidy by (simp_all add: paperTidy_def paperSane_def)
  have t1: "paperTidy L I b1" by (rule paper_cancel(3) [OF c tidy])
  have "resting (paperPort L) symbol b1 ord" if "resting (paperPort L) symbol b ord" "o_id ord \<noteq> oid" for symbol ord
    using that t1 d k paper_cancel(4) [OF c, of "o_id ord"]
    by (auto simp: resting_paper paperTidy_def) (metis ordersKeyed_id)
  with t1 paper_cancel(5) [OF c] show "paperTidy L I b1
      \<and> (\<forall>symbol ord. resting (paperPort L) symbol b ord \<longrightarrow> o_id ord \<noteq> oid \<longrightarrow> resting (paperPort L) symbol b1 ord)
      \<and> (\<forall>k. mget (orders b) k \<noteq> None \<longrightarrow> mget (orders b1) k \<noteq> None)"
    by blast
next
  fix b :: broker and symbol ord
  assume "paperTidy L I b" "resting (paperPort L) symbol b ord"
  then show "mget (orders b) (o_id ord) \<noteq> None"
    by (auto simp: paperTidy_def paperSane_def resting_paper) (metis ordersKeyed_id option.distinct(1))
next
  fix b :: broker and symbol ord1 ord2
  assume "paperTidy L I b" "resting (paperPort L) symbol b ord1" "resting (paperPort L) symbol b ord2" "o_id ord1 = o_id ord2"
  then show "ord1 = ord2"
    by (simp add: paperTidy_def paperSane_def resting_paper) (metis ordersKeyed_id option.inject)
next
  fix b :: broker and symbol ord
  assume "resting (paperPort L) symbol b ord" "symbol \<noteq> []"
  then show "o_symbol ord = symbol"
    by (auto simp: resting_def paperPort_def getOpenOrders_def symbolFilter_def)
qed (auto simp: paperTidy_def dest: paper_submit paper_cancel)

text \<open>C25. Trailing never unprotects. A pass of the controller over the paper broker, whatever the price and
  whatever the trackers hold, that executes no order leaves the position with the reduce-only stop it
  had or with another one whose trigger, before it is rounded to the tick, is at least as tight. A
  replacement that is refused, or a broker that throws, leaves the old stop in place.\<close>

theorem trailing_never_unprotects:
  assumes "paperTidy L I b" "symbol \<noteq> []" "mget (positions b) symbol = Some pos"
    and "restingOrder STOP_MARKET (getOpenOrders (Some symbol) b) = Some stop"
    and "onPrice (paperPort L) symbol price now (c, b) = (moved, c1, b1)" "fills b1 = fills b"
  shows "\<exists>ord \<in> set (getOpenOrders (Some symbol) b1). ord = stop \<or>
    o_type ord = STOP_MARKET \<and> o_reduceOnly ord \<and>
    (\<exists>old x. o_stopPrice stop = Some old \<and> tighter (if p_qty pos \<ge> 0 then LONG else SHORT) old x
       \<and> o_stopPrice ord = Some (snapTo L I symbol x))"
proof -
  have "o_type stop = STOP_MARKET" using assms(4) by (simp add: restingOrder_def find_Some_iff) blast
  moreover have "paperDesk.protects L I symbol (if p_qty pos \<ge> 0 then LONG else SHORT) stop b1"
    by (rule paperDesk.pass_protects [OF assms(1,2) _ _ assms(5)]) (simp_all add: paperPort_def assms)
  moreover have "bp_getOpenOrders (paperPort L) = getOpenOrders" by (simp add: paperPort_def)
  ultimately show ?thesis
    unfolding paperDesk.protects_def resting_def by metis
qed

definition restingStop :: order where
  "restingStop = (limitOrder 2 95)\<lparr>o_id := ''u'', o_type := STOP_MARKET, o_side := SELL, o_reduceOnly := True,
     o_limitPrice := None, o_stopPrice := Some 95, o_status := NEW, o_leverage := 5\<rparr>"

definition stoppedBroker :: broker where
  "stoppedBroker = (holdingBroker 2 (btcMarket 102 103 (205 / 2)))\<lparr>orders := [(''u'', restingStop)], ulids := 2\<rparr>"

lemma stoppedBroker_fields [simp]:
  "orders stoppedBroker = [(''u'', restingStop)]" "positions stoppedBroker = [(''BTC'', btcPosition 2)]"
  "fills stoppedBroker = []" "instruments stoppedBroker = [(''BTC'', btcPerp)]" "ulids stoppedBroker = 2"
  "risk stoppedBroker = defaultRisk" "currentUtcDay stoppedBroker = 0" "walletBalance stoppedBroker = 10000"
  "takerFeeRate stoppedBroker = 4 / 10000" "isLiquidating stoppedBroker = False"
  "marketProvider stoppedBroker = (\<lambda>s. None)" "localMarkets stoppedBroker = [(''BTC'', btcMarket 102 103 (205 / 2))]"
  by (simp_all add: stoppedBroker_def)

lemma restingStop_fields [simp]:
  "o_type restingStop = STOP_MARKET" "o_side restingStop = SELL" "o_reduceOnly restingStop" "o_id restingStop = ''u''"
  "o_stopPrice restingStop = Some 95" "o_symbol restingStop = ''BTC''" "o_quantity restingStop = 2"
  "o_filledQty restingStop = 0" "o_status restingStop = NEW" "o_leverage restingStop = 5"
  by (simp_all add: restingStop_def)

lemma stoppedBroker_tidy: "paperTidy exactLib [(''BTC'', btcPerp)] stoppedBroker"
proof -
  have "drawn exactLib stoppedBroker ''u''"
    unfolding drawn_def by (rule exI [of _ 1]) (simp add: exactLib_def)
  then show ?thesis
    by (simp add: paperTidy_def paperSane_def ordersKeyed_def positionsKnown_def mget_def mkeys_def)
qed

text \<open>What a submission of a stop below the mark needs to know of the broker, and keeps.\<close>

definition holdsTwo :: "broker \<Rightarrow> bool" where
  "holdsTwo b \<longleftrightarrow> instruments b = [(''BTC'', btcPerp)] \<and> (\<exists>pos. positions b = [(''BTC'', pos)] \<and> p_qty pos = 2 \<and> p_symbol pos = ''BTC'')
     \<and> risk b = defaultRisk \<and> currentUtcDay b = 0 \<and> getMarket b ''BTC'' = Some (btcMarket 102 103 (205 / 2))"

lemma moved_stop_rests:
  assumes h: "holdsTwo b" and x: "5 / 2 \<le> of_int (round_away (x * 2)) / (2 :: number)" "of_int (round_away (x * 2)) / (2 :: number) < 205 / 2"
  shows "\<exists>ord b'. submitOrder exactLib (replacementCommand restingStop x) 2000 b = Inr (ord, b') \<and>
     o_status ord = NEW \<and> fills b' = fills b \<and> holdsTwo b'"
proof -
  let ?c = "replacementCommand restingStop x" and ?m = "btcMarket 102 103 (205 / 2)"
  let ?y = "of_int (round_away (x * 2)) / 2 :: number"
  obtain pos where b: "instruments b = [(''BTC'', btcPerp)]" "positions b = [(''BTC'', pos)]" "p_qty pos = 2"
    "p_symbol pos = ''BTC''" "risk b = defaultRisk" "currentUtcDay b = 0" "getMarket b ''BTC'' = Some ?m"
    using h unfolding holdsTwo_def by blast
  define ord where "ord = fst (buildOrder exactLib ?c btcPerp 2000 b)"
  define b2 where "b2 = emitOrderEvent 2000 ORDER_RECEIVED ord None None (setOrder ord (snd (buildOrder exactLib ?c btcPerp 2000 b)))"
  have c: "c_symbol ?c = ''BTC''" "c_reduceOnly ?c = Some True" "c_quantity ?c = 2" "c_type ?c = STOP_MARKET"
    "c_side ?c = SELL" "c_leverage ?c = Some 5" "c_stopPrice ?c = Some x"
    by (simp_all add: replacementCommand_def)
  note f = buildOrder_facts [of exactLib ?c btcPerp 2000 b, folded ord_def]
  have ord: "o_type ord = STOP_MARKET" "o_side ord = SELL" "o_symbol ord = ''BTC''" "o_quantity ord = 2"
    "o_status ord = NEW" "o_leverage ord = 5" "o_reduceOnly ord"
    by (simp_all add: f c b(1-4) submitQuantity_def roundStep_def Let_def exactLib_def)
  have stop: "o_stopPrice ord = Some ?y"
    by (simp add: ord_def buildOrder_def Let_def split_beta c roundTick_def exactLib_def)
  have b2: "positions b2 = [(''BTC'', pos)]" "risk b2 = defaultRisk" "currentUtcDay b2 = 0" "fills b2 = fills b"
    "getMarket b2 ''BTC'' = Some ?m" "getMarket b2 = getMarket b" "instruments b2 = instruments b"
    using f(10) b(2,5-7) by (auto simp: b2_def getMarket_def fun_eq_iff)
  define b3 where "b3 = snd (calculateAccountState exactLib b2)"
  have b3: "fills b3 = fills b" "instruments b3 = instruments b" "risk b3 = defaultRisk" "currentUtcDay b3 = 0"
    "getMarket b3 = getMarket b"
    using b2(6) by (simp_all add: b3_def b2(2-5,7) getMarket_def fun_eq_iff)
  obtain pos3 where pos3: "positions b3 = [(''BTC'', pos3)]" "p_qty pos3 = 2" "p_symbol pos3 = ''BTC''"
    by (simp add: b3_def calculateAccountState_def Let_def b2(1) b(3,4) accountPosition_def markFor_def noSums_def
        split_beta mset_def mkeys_def)
  have "riskOfOrder exactLib ord btcPerp b2 ?y = None"
    using x by (simp add: riskOfOrder_def Let_def ord b2(1,2) b(3) exactLib_def defaultRisk_def)
  moreover have "riskOfAccount exactLib ord b3 ?y a = None" for a
    by (simp add: riskOfAccount_def Let_def ord pos3)
  ultimately have "checkOrderRisk exactLib 2000 ord btcPerp ?m b2 = (None, b3)"
    using x by (simp add: checkOrderRisk_def Let_def ord stop b2(2,3) rollDailyEquityIfNeeded_def utcDay_def defaultRisk_def
        estimatePrice_def split_beta b3_def)
  moreover have "submitOrder exactLib ?c 2000 b =
      (case checkOrderRisk exactLib 2000 ord btcPerp ?m b2 of
         (Some reason, b3) \<Rightarrow> Inr (rejectOrder ord reason 2000 b3)
       | (None, b3) \<Rightarrow> routeOrder exactLib ord ?m 2000 b3)"
    using b(1,7) b2(2,6)
    by (simp add: submitOrder_def c Let_def ord_def [symmetric] b2_def [symmetric]
        isMarketStale_def defaultRisk_def split_beta) (unfold ord_def, rule refl)
  moreover have "\<not> isStopTriggered exactLib ord ?m"
    using x by (simp add: isStopTriggered_def stop ord Let_def)
  moreover have "holdsTwo b3"
    using b3 b(1,7) pos3 by (simp add: holdsTwo_def)
  ultimately show ?thesis
    using b3(1) x by (simp add: routeOrder_def ord stop)
qed

lemma stoppedBroker_two: "holdsTwo stoppedBroker"
  by (simp add: holdsTwo_def getMarket_def)

lemma round_stops [simp]: "round_away (1001 / 5 :: rat) = 200" "round_away (20291 / 100 :: rat) = 203"
  by (simp_all add: round_away_def)

lemma holdsTwo_cancel: "holdsTwo b \<Longrightarrow> holdsTwo (snd (cancelOrder k why now b))"
  by (auto simp: holdsTwo_def cancelOrder_def Let_def getMarket_def split: option.splits)

lemma cancel_paper: "bp_cancelOrder (paperPort L) k why now b
   = (Inr (fst (cancelOrder k why now b)), snd (cancelOrder k why now b))"
  by (simp add: paperPort_def split_beta)

lemma pass_moves:
  assumes h: "holdsTwo b"
    and u: "updateStopLoss (toPortfolioPosition (btcPosition 2) 95) price 2000 (tc_manager c) = (stopMoved pos t r x why, m1)"
      "why \<noteq> NO_CHANGE"
    and x: "5 / 2 \<le> of_int (round_away (x * 2)) / (2 :: number)" "of_int (round_away (x * 2)) / (2 :: number) < 205 / 2"
  shows "\<exists>sl c1 b1. movePass (paperPort exactLib) ''BTC'' (btcPosition 2, Some restingStop, None) price 2000 (c, b)
       = ((Some sl, None), c1, b1) \<and> sv_newStop sl = x \<and> fills b1 = fills b \<and> holdsTwo b1 \<and> tc_manager c1 = m1"
proof -
  obtain ord b2 where sub: "submitOrder exactLib (replacementCommand restingStop x) 2000 b = Inr (ord, b2)"
    "o_status ord = NEW" "fills b2 = fills b" "holdsTwo b2"
    using moved_stop_rests [OF h x] by blast
  have "fills (snd (cancelOrder ''u'' why 2000 b2)) = fills b" for why
    using paper_cancel(1) [OF cancel_paper] sub(3) by simp
  moreover have "holdsTwo (snd (cancelOrder ''u'' why 2000 b2))" for why
    by (rule holdsTwo_cancel [OF sub(4)])
  ultimately show ?thesis
    using u(2) by (simp add: movePass_def updateStopOrder_def u(1) submitReplacementOrder_def sub cancel_paper
        stopMoved_def Let_def)
qed

definition freshController :: trailingController where
  "freshController = newTrailingController freshTrailing None"

lemma freshController_simps [simp]:
  "tc_manager freshController = freshTrailing" "tc_inFlight freshController = []" "tc_lastUpdateAt freshController = []"
  "tc_minUpdateIntervalMs freshController = 2000"
  by (simp_all add: freshController_def newTrailingController_def)

lemma stopped_loads:
  "loadPass (paperPort exactLib) ''BTC'' freshController stoppedBroker
    = (Some (btcPosition 2, Some restingStop, None), freshController\<lparr>tc_inFlight := [''BTC'']\<rparr>)"
proof -
  have "getOpenOrders (Some ''BTC'') stoppedBroker = [restingStop]"
    by (simp add: getOpenOrders_def mvals_def isOpen_def symbolFilter_def)
  moreover have "p_status (btcPosition 2) = OPEN" by (simp add: btcPosition_def newPosition_def)
  ultimately show ?thesis
    by (simp add: loadPass_def paperPort_def restingOrder_def hasTrigger_def mget_def)
qed

lemma stopped_enters: "enterPass ''BTC'' (203 / 2) 2000 freshController" "enterPass ''BTC'' 103 2000 freshController"
  by (simp_all add: enterPass_def)

definition latchedTrailing :: trailingManager where
  "latchedTrailing = freshTrailing\<lparr>tm_trackers := [((''BTC'', LONG), \<lparr>tk_highestFavorablePrice = 203 / 2,
     tk_breakevenApplied = True, tk_lastUpdateTimestamp = 2000\<rparr>)]\<rparr>"

lemma first_move:
  "updateStopLoss (toPortfolioPosition (btcPosition 2) 95) (203 / 2) 2000 freshTrailing
    = (stopMoved (toPortfolioPosition (btcPosition 2) 95) \<lparr>tk_highestFavorablePrice = 203 / 2, tk_breakevenApplied = True,
        tk_lastUpdateTimestamp = 2000\<rparr> (3 / 200) (1001 / 10) BREAKEVEN, latchedTrailing)"
  by (simp add: updateStopLoss_def trackFavorablePrice_def freshTrailing_def latchedTrailing_def
      DEFAULT_TRAILING_STOP_CONFIG_def toPortfolioPosition_def unrealizedPct_def applyBreakeven_def improvesStop_def
      storeTracker_def trackerKey_def mset_def Let_def)

lemma second_move:
  "\<exists>m1. updateStopLoss (toPortfolioPosition (btcPosition 2) 95) 103 2000 latchedTrailing
    = (stopMoved (toPortfolioPosition (btcPosition 2) 95) \<lparr>tk_highestFavorablePrice = 103, tk_breakevenApplied = True,
        tk_lastUpdateTimestamp = 2000\<rparr> (3 / 100) (20291 / 200) TRAILING, m1)"
  by (simp add: updateStopLoss_def trackFavorablePrice_def freshTrailing_def latchedTrailing_def
      DEFAULT_TRAILING_STOP_CONFIG_def toPortfolioPosition_def unrealizedPct_def applyTrailingStop_def improvesStop_def
      storeTracker_def trackerKey_def mset_def mget_def Let_def)

lemma stopped_passes:
  "\<exists>sl1 c2 b2 sl2 c3 b3.
     movePass (paperPort exactLib) ''BTC'' (btcPosition 2, Some restingStop, None) (203 / 2) 2000
       (freshController\<lparr>tc_inFlight := [''BTC'']\<rparr>, stoppedBroker) = ((Some sl1, None), c2, b2)
     \<and> sv_newStop sl1 = 1001 / 10 \<and> fills b2 = []
     \<and> movePass (paperPort exactLib) ''BTC'' (btcPosition 2, Some restingStop, None) 103 2000 (c2, b2) = ((Some sl2, None), c3, b3)
     \<and> fills b3 = []"
proof -
  let ?c = "freshController\<lparr>tc_inFlight := [''BTC'']\<rparr>"
  have manager: "tc_manager ?c = freshTrailing" by simp
  obtain sl1 c2 b2 where m1: "movePass (paperPort exactLib) ''BTC'' (btcPosition 2, Some restingStop, None) (203 / 2) 2000
      (?c, stoppedBroker) = ((Some sl1, None), c2, b2)" "sv_newStop sl1 = 1001 / 10" "fills b2 = []" "holdsTwo b2"
      "tc_manager c2 = latchedTrailing"
    using pass_moves [OF stoppedBroker_two first_move [folded manager]] by auto
  obtain t r m where u: "updateStopLoss (toPortfolioPosition (btcPosition 2) 95) 103 2000 (tc_manager c2)
      = (stopMoved (toPortfolioPosition (btcPosition 2) 95) t r (20291 / 200) TRAILING, m)"
    using second_move m1(5) by auto
  obtain sl2 c3 b3 where "movePass (paperPort exactLib) ''BTC'' (btcPosition 2, Some restingStop, None) 103 2000 (c2, b2)
      = ((Some sl2, None), c3, b3)" "fills b3 = []"
    using pass_moves [OF m1(4) u] m1(3) by auto
  with m1 show ?thesis by blast
qed

text \<open>At 101.5 a long from 100 goes to breakeven: the stop at 95 is replaced by one at 100 (100.1 on the
  tick), and nothing executes.\<close>

theorem trailing_never_unprotects_witness:
  "\<exists>sl c1 b1. onPrice (paperPort exactLib) ''BTC'' (203 / 2) 2000 (freshController, stoppedBroker)
       = ((Some sl, None), c1, b1) \<and> sv_newStop sl = 1001 / 10 \<and> fills b1 = []
     \<and> (\<exists>ord \<in> set (getOpenOrders (Some ''BTC'') b1). o_type ord = STOP_MARKET)"
proof -
  obtain sl c1 b1 where r: "onPrice (paperPort exactLib) ''BTC'' (203 / 2) 2000 (freshController, stoppedBroker)
      = ((Some sl, None), c1, b1)" "sv_newStop sl = 1001 / 10" "fills b1 = []"
    using stopped_passes by (auto simp: onPrice_def stopped_enters stopped_loads)
  have "restingOrder STOP_MARKET (getOpenOrders (Some ''BTC'') stoppedBroker) = Some restingStop"
    using stopped_loads by (auto simp: loadPass_def paperPort_def Let_def split: option.splits if_splits)
  then have "\<exists>ord \<in> set (getOpenOrders (Some ''BTC'') b1). ord = restingStop \<or>
    o_type ord = STOP_MARKET \<and> o_reduceOnly ord \<and>
    (\<exists>old x. o_stopPrice restingStop = Some old \<and> tighter (if p_qty (btcPosition 2) \<ge> 0 then LONG else SHORT) old x
       \<and> o_stopPrice ord = Some (snapTo exactLib [(''BTC'', btcPerp)] ''BTC'' x))"
    by (intro trailing_never_unprotects [OF stoppedBroker_tidy _ _ _ r(1)]) (simp_all add: r(3))
  then show ?thesis
    using r by (metis restingStop_fields(1))
qed

subsection \<open>Passes that overlap\<close>

lemma loaded_pass:
  assumes "loadPass P symbol c s = (Some (pos, Some stop, tp), c1)"
  shows "resting P symbol s stop" "o_type stop = STOP_MARKET" "symbol \<in> set (tc_inFlight c1)"
    "loadPass P symbol c1 s = (Some (pos, Some stop, tp), c1)"
  using assms
  by (auto simp: loadPass_def Let_def restingOrder_def resting_def find_Some_iff split: option.splits if_splits)

lemma movePass_moved:
  assumes "movePass P symbol (pos, Some stop, None) price now (c, s) = ((Some sl, tp), c2, s2)"
  shows "\<exists>x rep. submitReplacementOrder P stop x ''TRAILING_STOP_REPLACED'' now s = (Inr (Some rep), s2)"
  using assms
  by (auto simp: movePass_def updateStopOrder_def Let_def split_beta prod_eq_iff
      split: option.splits if_splits sum.splits)

text \<open>Overlapping passes double the stop. The in-flight mark is set only after the position and the
  open orders have been read, and it is consulted only before that: a second pass that entered in
  between loads the same stop order although the symbol is in flight. When both then report a move, two
  reduce-only stops rest for the one position, which is what the guard is there to prevent.\<close>

theorem overlapping_passes_double_stop:
  assumes "paperTidy L I b" "symbol \<noteq> []" "enterPass symbol price1 now1 c" "enterPass symbol price2 now2 c"
    and "loadPass (paperPort L) symbol c b = (Some (pos, Some stop, None), c1)"
    and "movePass (paperPort L) symbol (pos, Some stop, None) price1 now1 (c1, b) = ((Some moved1, tp1), c2, b2)"
    and "movePass (paperPort L) symbol (pos, Some stop, None) price2 now2 (c2, b2) = ((Some moved2, tp2), c3, b3)"
    and "fills b3 = fills b"
  shows "symbol \<in> set (tc_inFlight c1) \<and> loadPass (paperPort L) symbol c1 b = (Some (pos, Some stop, None), c1)
    \<and> (\<exists>ord1 ord2. ord1 \<noteq> ord2 \<and> {ord1, ord2} \<subseteq> set (getOpenOrders (Some symbol) b3)
        \<and> (\<forall>ord \<in> {ord1, ord2}. o_type ord = STOP_MARKET \<and> o_reduceOnly ord))"
proof -
  note load = loaded_pass [OF assms(5)]
  obtain x1 rep1 where r1: "submitReplacementOrder (paperPort L) stop x1 ''TRAILING_STOP_REPLACED'' now1 b = (Inr (Some rep1), b2)"
    using movePass_moved [OF assms(6)] by blast
  obtain x2 rep2 where r2: "submitReplacementOrder (paperPort L) stop x2 ''TRAILING_STOP_REPLACED'' now2 b2 = (Inr (Some rep2), b3)"
    using movePass_moved [OF assms(7)] by blast
  have m1: "paperSane L I b2" "length (fills b) \<le> length (fills b2)"
    using paperDesk.replacement_mono [OF _ r1] assms(1) by (auto simp: paperTidy_def)
  then have m2: "length (fills b2) \<le> length (fills b3)"
    using paperDesk.replacement_mono [OF _ r2] by auto
  have q: "length (fills b2) = length (fills b)" "length (fills b3) = length (fills b2)"
    using m1(2) m2 assms(8) by simp_all
  have two: "rep1 \<noteq> rep2 \<and> resting (paperPort L) symbol b3 rep1 \<and> resting (paperPort L) symbol b3 rep2
      \<and> o_type rep1 = o_type stop \<and> o_type rep2 = o_type stop \<and> o_reduceOnly rep1 \<and> o_reduceOnly rep2"
    by (rule paperDesk.two_replacements_rest [OF assms(1) load(1) assms(2) _ r1 q(1) r2 q(2)])
      (simp add: load(2) isTrigger_def)
  moreover have "bp_getOpenOrders (paperPort L) = getOpenOrders" by (simp add: paperPort_def)
  ultimately show ?thesis
    using load(2-4) unfolding resting_def by (intro conjI exI [of _ rep1] exI [of _ rep2]) auto
qed

theorem overlapping_passes_double_stop_witness:
  "\<exists>ord1 ord2 b3. ord1 \<noteq> ord2 \<and> {ord1, ord2} \<subseteq> set (getOpenOrders (Some ''BTC'') b3) \<and> o_type ord1 = STOP_MARKET
     \<and> o_type ord2 = STOP_MARKET \<and> fills b3 = []"
proof -
  obtain sl1 c2 b2 sl2 c3 b3 where
    m1: "movePass (paperPort exactLib) ''BTC'' (btcPosition 2, Some restingStop, None) (203 / 2) 2000
       (freshController\<lparr>tc_inFlight := [''BTC'']\<rparr>, stoppedBroker) = ((Some sl1, None), c2, b2)"
    and m2: "movePass (paperPort exactLib) ''BTC'' (btcPosition 2, Some restingStop, None) 103 2000 (c2, b2)
       = ((Some sl2, None), c3, b3)"
    and f: "fills b3 = []"
    using stopped_passes by blast
  have "fills b3 = fills stoppedBroker" by (simp add: f)
  then show ?thesis
    using overlapping_passes_double_stop [OF stoppedBroker_tidy _ stopped_enters stopped_loads m1 m2] f by auto
qed

end
