(* ===== verification/Signals.thy ===== *)
theory Signals
  imports Execution_Gateway
begin

section \<open>Strategy signals (src/strategy/signal.ts)\<close>

text \<open>
  A strategy answers with an input; the engine checks it against the schema and makes a signal of
  it. Prices travel as decimal strings: strategies print them with \<open>toFixed\<close>, the schema checks
  their form and the executor reads them with \<open>Number\<close>. The schema is modelled on inputs whose
  fields have the right types; the \<open>features\<close> record maps names to numbers, strings or booleans.
\<close>

datatype signalAction = OPEN_LONG | OPEN_SHORT | CLOSE_LONG | CLOSE_SHORT | CANCEL_ALL_ACTION | HOLD

datatype signalStatusSG = CREATED_SG | ACCEPTED_SG | REJECTED_SG | EXECUTED_SG | EXPIRED_SG

datatype featureValue = FNum number | FStr string | FBool bool

type_synonym features = "(string, featureValue) jsmap"

record rawSignal =
  rs_strategyId :: string
  rs_symbol :: string
  rs_action :: signalAction
  rs_confidence :: number
  rs_stopLossPrice :: "string option"
  rs_takeProfitPrice :: "string option"
  rs_ttlMs :: "number option"
  rs_features :: "features option"
  rs_reasoning :: "string option"

record signalInput =
  si_strategyId :: string
  si_symbol :: string
  si_action :: signalAction
  si_confidence :: number
  si_stopLossPrice :: "string option"
  si_takeProfitPrice :: "string option"
  si_ttlMs :: number
  si_features :: features
  si_reasoning :: "string option"

record signal = signalInput +
  sg_id :: string
  sg_ts :: ms
  sg_status :: signalStatusSG
  sg_orderId :: "string option"
  sg_rejectReason :: "string option"

subsection \<open>Decimal strings\<close>

definition isDigit :: "char \<Rightarrow> bool" where
  "isDigit c \<longleftrightarrow> 48 \<le> (of_char c :: nat) \<and> (of_char c :: nat) \<le> 57"

text \<open>The expression \<open>^\d+(\.\d+)?$\<close>.\<close>

definition isDecimalString :: "string \<Rightarrow> bool" where
  "isDecimalString s \<longleftrightarrow> takeWhile isDigit s \<noteq> [] \<and>
     (case dropWhile isDigit s of [] \<Rightarrow> True | c # f \<Rightarrow> c = CHR ''.'' \<and> f \<noteq> [] \<and> list_all isDigit f)"

definition digitsValue :: "string \<Rightarrow> nat" where
  "digitsValue s = fold (\<lambda>c n. 10 * n + (of_char c - 48)) s 0"

text \<open>\<open>Number\<close> of a decimal string.\<close>

definition decimalValue :: "string \<Rightarrow> number" where
  "decimalValue s =
     (let w = takeWhile isDigit s; f = drop 1 (dropWhile isDigit s) in
      of_nat (digitsValue (w @ f)) / 10 ^ length f)"

text \<open>\<open>x.toFixed(p)\<close> as text: the plain decimal below \<open>1e21\<close>, and from there on what \<open>String\<close> makes of the number,
  which is then a whole one: its significant digits and the exponent.\<close>

definition showExponent :: "number \<Rightarrow> string" where
  "showExponent x =
     (let ds = showNat (nat \<lfloor>x\<rfloor>); sig = rev (dropWhile (\<lambda>c. c = CHR ''0'') (rev ds)) in
      take 1 sig @ (if length sig \<le> 1 then [] else ''.'' @ drop 1 sig) @ ''e+'' @ showNat (length ds - 1))"

definition showFixed :: "nat \<Rightarrow> number \<Rightarrow> string" where
  "showFixed p x =
     (let n = nat (round_away (\<bar>x\<bar> * 10 ^ p)); frac = showNat (n mod 10 ^ p);
          body = (if \<bar>x\<bar> \<ge> 10 ^ 21 then showExponent \<bar>x\<bar>
            else showNat (n div 10 ^ p) @
              (if p = 0 then [] else ''.'' @ replicate (p - length frac) (CHR ''0'') @ frac)) in
      if x < 0 then ''-'' @ body else body)"

text \<open>\<open>Number\<close> of any string: blanks around it are ignored, the empty string is 0, and what is not a
  decimal numeral is \<open>NaN\<close>. Hexadecimal, octal and binary numerals and \<open>Infinity\<close> are not modelled.\<close>

definition splitSign :: "string \<Rightarrow> bool \<times> string" where
  "splitSign s = (case s of [] \<Rightarrow> (False, []) | c # r \<Rightarrow>
     if c = CHR ''-'' then (True, r) else if c = CHR ''+'' then (False, r) else (False, s))"

definition jsNumber :: "string \<Rightarrow> number option" where
  "jsNumber s =
     (let t = trimString s; (neg, u) = splitSign t;
          w = takeWhile isDigit u; r = dropWhile isDigit u;
          point = (r \<noteq> [] \<and> hd r = CHR ''.'');
          f = (if point then takeWhile isDigit (tl r) else []);
          rest = (if point then dropWhile isDigit (tl r) else r);
          mantissa = of_nat (digitsValue (w @ f)) / 10 ^ length f * (if neg then - 1 else 1) in
      if t = [] then Some 0
      else if w = [] \<and> f = [] then None
      else (case rest of
          [] \<Rightarrow> Some mantissa
        | c # x \<Rightarrow> (let (negExp, e) = splitSign x in
            if (c = CHR ''e'' \<or> c = CHR ''E'') \<and> e \<noteq> [] \<and> list_all isDigit e
            then Some (if negExp then mantissa / 10 ^ digitsValue e else mantissa * 10 ^ digitsValue e)
            else None)))"

text \<open>\<open>Number\<close> of a feature; \<open>None\<close> is \<open>NaN\<close>.\<close>

definition featureNumber :: "featureValue \<Rightarrow> number option" where
  "featureNumber v = (case v of FNum x \<Rightarrow> Some x | FStr s \<Rightarrow> jsNumber s | FBool b \<Rightarrow> Some (if b then 1 else 0))"

subsection \<open>The schema and the operations\<close>

definition parseSignalInput :: "rawSignal \<Rightarrow> string + signalInput" where
  "parseSignalInput r =
     (if rs_strategyId r = [] \<or> rs_symbol r = [] then Inl ''Too small: expected string to have >=1 characters''
      else if rs_confidence r < 0 \<or> rs_confidence r > 1 then Inl ''confidence out of range''
      else if (case rs_stopLossPrice r of None \<Rightarrow> False | Some s \<Rightarrow> \<not> isDecimalString s)
           \<or> (case rs_takeProfitPrice r of None \<Rightarrow> False | Some s \<Rightarrow> \<not> isDecimalString s)
      then Inl ''must be a non-negative decimal string''
      else if (case rs_ttlMs r of None \<Rightarrow> False | Some t \<Rightarrow> t \<notin> \<int> \<or> t \<le> 0) then Inl ''ttlMs must be a positive integer''
      else Inr \<lparr>si_strategyId = rs_strategyId r, si_symbol = rs_symbol r, si_action = rs_action r,
        si_confidence = rs_confidence r, si_stopLossPrice = rs_stopLossPrice r,
        si_takeProfitPrice = rs_takeProfitPrice r, si_ttlMs = coalesce (rs_ttlMs r) 60000,
        si_features = coalesce (rs_features r) [], si_reasoning = rs_reasoning r\<rparr>)"

definition toSignal :: "signalInput \<Rightarrow> ms \<Rightarrow> string \<Rightarrow> signal" where
  "toSignal i ts uuid = signalInput.extend i (signal.fields uuid ts CREATED_SG None None)"

definition signalIsExpired :: "signal \<Rightarrow> ms \<Rightarrow> bool" where
  "signalIsExpired sig now \<longleftrightarrow> of_int (now - sg_ts sig) > si_ttlMs sig"

definition signalsEqual :: "'a signalInput_scheme \<Rightarrow> 'b signalInput_scheme \<Rightarrow> bool" where
  "signalsEqual a b \<longleftrightarrow>
     si_strategyId a = si_strategyId b \<and> si_symbol a = si_symbol b \<and> si_action a = si_action b \<and>
     (let aKey = mget (si_features a) ''dedupKey''; bKey = mget (si_features b) ''dedupKey'' in
      if aKey \<noteq> None \<or> bKey \<noteq> None then aKey \<noteq> None \<and> aKey = bKey else True)"

definition isOpenAction :: "signalAction \<Rightarrow> bool" where
  "isOpenAction a \<longleftrightarrow> a = OPEN_LONG \<or> a = OPEN_SHORT"

definition isCloseAction :: "signalAction \<Rightarrow> bool" where
  "isCloseAction a \<longleftrightarrow> a = CLOSE_LONG \<or> a = CLOSE_SHORT"

lemma toSignal_fields [simp]:
  "si_strategyId (toSignal i ts u) = si_strategyId i" "si_symbol (toSignal i ts u) = si_symbol i"
  "si_action (toSignal i ts u) = si_action i" "si_confidence (toSignal i ts u) = si_confidence i"
  "si_stopLossPrice (toSignal i ts u) = si_stopLossPrice i" "si_takeProfitPrice (toSignal i ts u) = si_takeProfitPrice i"
  "si_ttlMs (toSignal i ts u) = si_ttlMs i" "si_features (toSignal i ts u) = si_features i"
  "si_reasoning (toSignal i ts u) = si_reasoning i" "sg_id (toSignal i ts u) = u" "sg_ts (toSignal i ts u) = ts"
  "sg_status (toSignal i ts u) = CREATED_SG" "sg_orderId (toSignal i ts u) = None" "sg_rejectReason (toSignal i ts u) = None"
  by (simp_all add: toSignal_def signalInput.extend_def signal.fields_def)

subsection \<open>Prices survive the string\<close>

lemma digitsValue_Nil [simp]: "digitsValue [] = 0"
  by (simp add: digitsValue_def)

lemma digitsValue_snoc [simp]: "digitsValue (s @ [c]) = 10 * digitsValue s + (of_char c - 48)"
  by (simp add: digitsValue_def)

lemma digitsValue_append: "digitsValue (s @ t) = digitsValue s * 10 ^ length t + digitsValue t"
  by (induction t rule: rev_induct) (simp_all add: algebra_simps flip: append_assoc)

lemma digitsValue_zeros [simp]: "digitsValue (replicate k (CHR ''0'')) = 0"
  by (induction k) (simp_all add: replicate_append_same flip: replicate_append_same)

lemma isDigit_char [simp]: "(n :: nat) < 10 \<Longrightarrow> isDigit (char_of (48 + n))"
  by (simp add: isDigit_def)

lemma of_char_digit: "(n :: nat) < 10 \<Longrightarrow> of_char (char_of (48 + n) :: char) = (48 + n :: nat)"
  by simp

lemma showNat_digits: "list_all isDigit (showNat n) \<and> showNat n \<noteq> [] \<and> digitsValue (showNat n) = n"
proof (induction n rule: showNat.induct)
  case (1 n)
  show ?case
  proof (cases "n < 10")
    case True
    then show ?thesis by (simp add: showNat.simps [of n] digitsValue_def)
  next
    case False
    then show ?thesis using 1 by (simp add: showNat.simps [of n])
  qed
qed

lemma showNat_length: "n < 10 ^ p \<Longrightarrow> 0 < p \<Longrightarrow> length (showNat n) \<le> p"
proof (induction p arbitrary: n)
  case 0
  then show ?case by simp
next
  case (Suc p)
  show ?case
  proof (cases "n < 10")
    case True
    then show ?thesis by (simp add: showNat.simps [of n])
  next
    case False
    then have "0 < p" using Suc.prems by (cases p) auto
    moreover have "n div 10 < 10 ^ p" using Suc.prems(1) by (simp add: less_mult_imp_div_less mult.commute)
    ultimately have "length (showNat (n div 10)) \<le> p" by (rule Suc.IH [rotated])
    then show ?thesis using False by (simp add: showNat.simps [of n])
  qed
qed

lemma takeWhile_digits: "list_all isDigit w \<Longrightarrow> takeWhile isDigit (w @ CHR ''.'' # f) = w"
  "list_all isDigit w \<Longrightarrow> dropWhile isDigit (w @ CHR ''.'' # f) = CHR ''.'' # f"
  by (induction w) (simp_all add: isDigit_def)

lemma takeWhile_all_digits: "list_all isDigit w \<Longrightarrow> takeWhile isDigit w = w" "list_all isDigit w \<Longrightarrow> dropWhile isDigit w = []"
  by (induction w) simp_all

lemma decimal_no_exponent:
  assumes "isDecimalString s" shows "CHR ''e'' \<notin> set s"
proof
  assume e: "CHR ''e'' \<in> set s"
  have "CHR ''e'' \<notin> set (takeWhile isDigit s)" by (auto dest!: set_takeWhileD simp: isDigit_def)
  then have "CHR ''e'' \<in> set (dropWhile isDigit s)"
    using e set_append [of "takeWhile isDigit s" "dropWhile isDigit s"] by simp
  then show False
    using assms by (cases "dropWhile isDigit s") (auto simp: isDecimalString_def list_all_iff isDigit_def)
qed

lemma zeros_digits [simp]: "list_all isDigit (replicate k (CHR ''0''))"
  by (induction k) (simp_all add: isDigit_def)

text \<open>Prices survive the string: what \<open>toFixed\<close> prints of a price that is not negative and below \<open>1e21\<close> is
  accepted by the schema, and reading it back gives the price rounded to that many decimals, so that a
  price that already has no more decimals comes back unchanged. Any other price is refused.\<close>

theorem fixed_price_roundtrip:
  "(if x < 0 \<or> 10 ^ 21 \<le> x then \<not> isDecimalString (showFixed p x)
    else isDecimalString (showFixed p x) \<and> decimalValue (showFixed p x) = toFixed p x)"
proof (cases "x < 0 \<or> 10 ^ 21 \<le> x")
  case True
  then show ?thesis
  proof
    assume "10 ^ 21 \<le> x"
    then have "CHR ''e'' \<in> set (showFixed p x)" by (simp add: showFixed_def showExponent_def Let_def)
    then show ?thesis using True decimal_no_exponent by auto
  qed (simp add: showFixed_def Let_def isDecimalString_def isDigit_def)
next
  case False
  define n where "n = nat (round_away (x * 10 ^ p))"
  have "0 \<le> round_away (x * 10 ^ p)" using False by (simp add: round_away_def)
  then have parsed: "of_nat n / 10 ^ p = toFixed p x"
    by (simp add: n_def toFixed_def grid_def)
  show ?thesis
  proof (cases "p = 0")
    case True
    then have "showFixed p x = showNat n" using False by (simp add: showFixed_def n_def Let_def)
    then show ?thesis
      using False parsed showNat_digits [of n] True
      by (simp add: isDecimalString_def decimalValue_def takeWhile_all_digits)
  next
    case p: False
    define w where "w = showNat (n div 10 ^ p)"
    define frac where "frac = showNat (n mod 10 ^ p)"
    define f where "f = replicate (p - length frac) (CHR ''0'') @ frac"
    have s: "showFixed p x = w @ CHR ''.'' # f"
      using False p by (simp add: showFixed_def n_def [symmetric] Let_def w_def f_def frac_def)
    have w: "list_all isDigit w" "w \<noteq> []" "digitsValue w = n div 10 ^ p"
      using showNat_digits [of "n div 10 ^ p"] by (simp_all add: w_def)
    have fr: "list_all isDigit frac" "digitsValue frac = n mod 10 ^ p"
      using showNat_digits [of "n mod 10 ^ p"] by (simp_all add: frac_def)
    have "length frac \<le> p" unfolding frac_def using p by (intro showNat_length) simp_all
    then have f: "length f = p" "list_all isDigit f" "digitsValue f = n mod 10 ^ p"
      using fr by (simp_all add: f_def digitsValue_append)
    then have "f \<noteq> []" using p by auto
    moreover have "digitsValue (w @ f) = n" using w f div_mult_mod_eq [of n "10 ^ p"] by (simp add: digitsValue_append)
    ultimately show ?thesis
      using False w f parsed by (simp add: s isDecimalString_def decimalValue_def takeWhile_digits Let_def)
  qed
qed

end
