(* ===== verification/Strategy_Engine.thy ===== *)
theory Strategy_Engine
  imports Signals Market_Types
begin

section \<open>The strategy engine (src/strategy/StrategyEngine.ts, SignalLoopDetector.ts)\<close>

text \<open>
  The engine turns what strategies answer into signals and hands them to an executor. Between the
  two stand the schema, the cooldown and the deduplication per strategy, symbol and action, the
  conflict check against the position and the lock that gives one strategy the entry rights to a
  symbol. The executor, the positions and the strategies work on a world \<open>'w\<close> the engine does not
  look into: \<open>'w deps\<close> holds its operations. An operation that throws leaves the message in front of
  the state. Random identifiers are drawn from a sequence.
\<close>

subsection \<open>The loop detector\<close>

record loopEntry =
  le_count :: nat
  le_reason :: string
  le_lastAt :: ms

type_synonym loops = "(string, loopEntry) jsmap"

definition maxRepeats :: nat where "maxRepeats = 5"
definition forgetAfterMs :: ms where "forgetAfterMs = 600000"

definition isLooping :: "string \<Rightarrow> ms \<Rightarrow> loops \<Rightarrow> bool \<times> loops" where
  "isLooping key now m =
     (case mget m key of
        None \<Rightarrow> (False, m)
      | Some e \<Rightarrow> if now - le_lastAt e \<ge> forgetAfterMs then (False, mdel key m) else (le_count e \<ge> maxRepeats, m))"

definition reasonFor :: "string \<Rightarrow> ms \<Rightarrow> loops \<Rightarrow> string option \<times> loops" where
  "reasonFor key now m =
     (case isLooping key now m of (looping, m1) \<Rightarrow>
        (if \<not> looping then None
         else map_option (\<lambda>e. ''submission loop: rejected '' @ showNat (le_count e) @ ''x with '' @ [char_of (34 :: nat)]
           @ le_reason e @ [char_of (34 :: nat)]) (mget m1 key), m1))"

definition pruneExpired :: "ms \<Rightarrow> loops \<Rightarrow> loops" where
  "pruneExpired now m = filter (\<lambda>(k, e). now - le_lastAt e < forgetAfterMs) m"

definition recordOutcome :: "string \<Rightarrow> string option \<Rightarrow> ms \<Rightarrow> loops \<Rightarrow> loops" where
  "recordOutcome key rejectReason now m =
     (case rejectReason of
        None \<Rightarrow> mdel key m
      | Some reason \<Rightarrow>
          (let m1 = pruneExpired now m in
           case mget m1 key of
             None \<Rightarrow> mset key \<lparr>le_count = 1, le_reason = reason, le_lastAt = now\<rparr> m1
           | Some e \<Rightarrow>
               if le_reason e \<noteq> reason \<or> now - le_lastAt e \<ge> forgetAfterMs
               then mset key \<lparr>le_count = 1, le_reason = reason, le_lastAt = now\<rparr> m1
               else mset key (e\<lparr>le_count := le_count e + 1, le_lastAt := now\<rparr>) m1))"

subsection \<open>State\<close>

record symbolLock =
  sl_symbol :: string
  sl_strategyId :: string
  sl_acquiredAt :: ms
  sl_until :: ms

type_synonym 'w callback = "'w \<Rightarrow> (string + rawSignal option) \<times> 'w"

record 'w strategy =
  st_id :: string
  st_name :: string
  st_enabled :: bool
  st_symbols :: "string list"
  st_intervals :: "string list"
  st_priority :: number
  st_cooldownMs :: "number option"
  st_init :: "('w \<Rightarrow> 'w) option"
  st_onCandleClose :: "(candle \<Rightarrow> 'w callback) option"
  st_onTick :: "(marketState \<Rightarrow> 'w callback) option"

record 'w deps =
  de_onSubmitSignal :: "signal \<Rightarrow> ms \<Rightarrow> 'w \<Rightarrow> (string + bool) \<times> 'w"
  de_isQuarantined :: "'w \<Rightarrow> string \<Rightarrow> bool"
  de_getPosition :: "string \<Rightarrow> 'w \<Rightarrow> position option"
  de_uuid :: "nat \<Rightarrow> string"
  de_showNumber :: "number \<Rightarrow> string"

datatype engineEvent = SignalSeen signal | SignalRejected signal string | SignalExpired signal

record 'w engine =
  en_strategies :: "(string, 'w strategy) jsmap"
  en_lastEmitted :: "(string, ms) jsmap"
  en_lastSignalByKey :: "(string, signal) jsmap"
  en_symbolLocks :: "(string, symbolLock) jsmap"
  en_running :: bool
  en_symbolLockEnabled :: bool
  en_symbolLockTtlMs :: ms
  en_loops :: loops
  en_uuids :: nat
  en_events :: "engineEvent list"

definition newEngine :: "bool option \<Rightarrow> ms option \<Rightarrow> 'w engine" where
  "newEngine symbolLockEnabled symbolLockTtlMs =
     \<lparr>en_strategies = [], en_lastEmitted = [], en_lastSignalByKey = [], en_symbolLocks = [], en_running = False,
      en_symbolLockEnabled = coalesce symbolLockEnabled True, en_symbolLockTtlMs = coalesce symbolLockTtlMs 300000,
      en_loops = [], en_uuids = 0, en_events = []\<rparr>"

definition notifyListener :: "engineEvent \<Rightarrow> 'w engine \<Rightarrow> 'w engine" where
  "notifyListener ev e = e\<lparr>en_events := en_events e @ [ev]\<rparr>"

definition drawSignal :: "'w deps \<Rightarrow> signalInput \<Rightarrow> ms \<Rightarrow> 'w engine \<Rightarrow> signal \<times> 'w engine" where
  "drawSignal dp i now e = (toSignal i now (de_uuid dp (en_uuids e)), e\<lparr>en_uuids := en_uuids e + 1\<rparr>)"

definition rejectSignal :: "string \<Rightarrow> signal \<Rightarrow> signal" where
  "rejectSignal reason sig = sig\<lparr>sg_status := REJECTED_SG, sg_rejectReason := Some reason\<rparr>"

subsection \<open>Registration and running\<close>

definition registerStrategy :: "'w strategy \<Rightarrow> 'w engine \<Rightarrow> string + 'w engine" where
  "registerStrategy s e =
     (if mget (en_strategies e) (st_id s) \<noteq> None then Inl (''Strategy already registered: '' @ st_id s)
      else Inr (e\<lparr>en_strategies := mset (st_id s) s (en_strategies e)\<rparr>))"

definition unregisterStrategy :: "string \<Rightarrow> 'w engine \<Rightarrow> 'w engine" where
  "unregisterStrategy strategyId e = e\<lparr>en_strategies := mdel strategyId (en_strategies e)\<rparr>"

definition startEngine :: "'w engine \<Rightarrow> 'w \<Rightarrow> 'w engine \<times> 'w" where
  "startEngine e w =
     (e\<lparr>en_running := True\<rparr>,
      fold (\<lambda>s w. if st_enabled s then (case st_init s of None \<Rightarrow> w | Some f \<Rightarrow> f w) else w) (mvals (en_strategies e)) w)"

definition stopEngine :: "'w engine \<Rightarrow> 'w engine" where
  "stopEngine e = e\<lparr>en_running := False, en_lastEmitted := [], en_symbolLocks := []\<rparr>"

subsection \<open>Symbol locks\<close>

definition getSymbolLock :: "string \<Rightarrow> ms \<Rightarrow> 'w engine \<Rightarrow> symbolLock option \<times> 'w engine" where
  "getSymbolLock symbol now e =
     (case mget (en_symbolLocks e) symbol of
        None \<Rightarrow> (None, e)
      | Some lock \<Rightarrow>
          if sl_until lock \<le> now then (None, e\<lparr>en_symbolLocks := mdel symbol (en_symbolLocks e)\<rparr>) else (Some lock, e))"

definition lockedByOther :: "string \<Rightarrow> string \<Rightarrow> ms \<Rightarrow> 'w engine \<Rightarrow> symbolLock option" where
  "lockedByOther symbol strategyId now e =
     (case mget (en_symbolLocks e) symbol of
        None \<Rightarrow> None
      | Some lock \<Rightarrow> if sl_until lock > now \<and> sl_strategyId lock \<noteq> strategyId then Some lock else None)"

definition takeLock :: "string \<Rightarrow> string \<Rightarrow> ms \<Rightarrow> ms \<Rightarrow> 'w engine \<Rightarrow> 'w engine" where
  "takeLock symbol strategyId now ttlMs e =
     e\<lparr>en_symbolLocks := mset symbol \<lparr>sl_symbol = symbol, sl_strategyId = strategyId, sl_acquiredAt = now,
       sl_until = now + ttlMs\<rparr> (en_symbolLocks e)\<rparr>"

definition acquireSymbolLock :: "string \<Rightarrow> string \<Rightarrow> ms option \<Rightarrow> ms \<Rightarrow> 'w engine \<Rightarrow> bool \<times> 'w engine" where
  "acquireSymbolLock symbol strategyId ttlMs now e =
     (if lockedByOther symbol strategyId now e \<noteq> None then (False, e)
      else (True, takeLock symbol strategyId now (coalesce ttlMs (en_symbolLockTtlMs e)) e))"

definition releaseSymbolLock :: "string \<Rightarrow> string option \<Rightarrow> 'w engine \<Rightarrow> 'w engine" where
  "releaseSymbolLock symbol strategyId e =
     (case mget (en_symbolLocks e) symbol of
        None \<Rightarrow> e
      | Some lock \<Rightarrow>
          if strategyId = None \<or> Some (sl_strategyId lock) = strategyId
          then e\<lparr>en_symbolLocks := mdel symbol (en_symbolLocks e)\<rparr> else e)"

definition listSymbolLocks :: "ms \<Rightarrow> 'w engine \<Rightarrow> symbolLock list \<times> 'w engine" where
  "listSymbolLocks now e =
     (let live = filter (\<lambda>(symbol, lock). \<not> sl_until lock \<le> now) (en_symbolLocks e) in
      (mvals live, e\<lparr>en_symbolLocks := live\<rparr>))"

definition lockedReason :: "symbolLock \<Rightarrow> ms \<Rightarrow> string" where
  "lockedReason lock now = ''symbol locked by strategy '' @ sl_strategyId lock @ '' ('' @
     showInt \<lceil>(of_int (sl_until lock - now) :: number) / 1000\<rceil> @ ''s remaining)''"

definition checkAndAcquireSymbolLock :: "signal \<Rightarrow> ms \<Rightarrow> 'w engine \<Rightarrow> string option \<times> 'w engine" where
  "checkAndAcquireSymbolLock sig now e =
     (if \<not> en_symbolLockEnabled e \<or> \<not> isOpenAction (si_action sig) then (None, e)
      else (case lockedByOther (si_symbol sig) (si_strategyId sig) now e of
          Some lock \<Rightarrow> (Some (lockedReason lock now), e)
        | None \<Rightarrow> (None, takeLock (si_symbol sig) (si_strategyId sig) now (en_symbolLockTtlMs e) e)))"

subsection \<open>Processing a signal\<close>

definition actionName :: "signalAction \<Rightarrow> string" where
  "actionName a = (case a of OPEN_LONG \<Rightarrow> ''OPEN_LONG'' | OPEN_SHORT \<Rightarrow> ''OPEN_SHORT'' | CLOSE_LONG \<Rightarrow> ''CLOSE_LONG''
     | CLOSE_SHORT \<Rightarrow> ''CLOSE_SHORT'' | CANCEL_ALL_ACTION \<Rightarrow> ''CANCEL_ALL'' | HOLD \<Rightarrow> ''HOLD'')"

definition cooldownKey :: "'a signalInput_scheme \<Rightarrow> string" where
  "cooldownKey i = si_strategyId i @ '':'' @ si_symbol i @ '':'' @ actionName (si_action i)"

text \<open>The reason of a conflict with the position, or \<open>None\<close>.\<close>

definition checkConflicts :: "'w deps \<Rightarrow> signal \<Rightarrow> 'w \<Rightarrow> string option" where
  "checkConflicts dp sig w =
     (let currentQty = (case de_getPosition dp (si_symbol sig) w of None \<Rightarrow> 0 | Some pos \<Rightarrow> p_qty pos);
          a = si_action sig in
      if a = CANCEL_ALL_ACTION then None
      else if a = OPEN_LONG \<and> currentQty > 0 then Some ''duplicate: long position already open''
      else if a = OPEN_SHORT \<and> currentQty < 0 then Some ''duplicate: short position already open''
      else if (a = OPEN_LONG \<and> currentQty < 0 \<or> a = OPEN_SHORT \<and> currentQty > 0) \<and> si_confidence sig < 3 / 4
      then Some (''opposite-side open requires confidence >= 0.75, got '' @ de_showNumber dp (si_confidence sig))
      else if a = CLOSE_LONG \<and> currentQty \<le> 0 then Some ''no long position to close''
      else if a = CLOSE_SHORT \<and> currentQty \<ge> 0 then Some ''no short position to close''
      else None)"

definition coolingDown :: "number option \<Rightarrow> string \<Rightarrow> ms \<Rightarrow> 'w engine \<Rightarrow> bool" where
  "coolingDown cooldownMs key now e \<longleftrightarrow>
     (case (mget (en_lastEmitted e) key, cooldownMs) of
        (Some lastTs, Some c) \<Rightarrow> of_int (now - lastTs) < c | _ \<Rightarrow> False)"

definition storeSignal :: "string \<Rightarrow> signal \<Rightarrow> 'w engine \<Rightarrow> 'w engine" where
  "storeSignal key sig e = e\<lparr>en_lastSignalByKey := mset key sig (en_lastSignalByKey e)\<rparr>"

definition submitToExecutor ::
  "'w deps \<Rightarrow> string \<Rightarrow> signal \<Rightarrow> ms \<Rightarrow> 'w engine \<Rightarrow> 'w \<Rightarrow> string option \<times> 'w engine \<times> 'w" where
  "submitToExecutor dp key sig now e w =
     (case de_onSubmitSignal dp sig now w of
        (Inl msg, w1) \<Rightarrow> (Some msg, e, w1)
      | (Inr accepted, w1) \<Rightarrow>
          if accepted then (None, e, w1)
          else (let sig1 = rejectSignal ''rejected by executor'' sig in
            (None, notifyListener (SignalRejected sig1 ''rejected by executor'') (storeSignal key sig1 e), w1)))"

definition processInput ::
  "'w deps \<Rightarrow> number option \<Rightarrow> signalInput \<Rightarrow> ms \<Rightarrow> 'w engine \<Rightarrow> 'w \<Rightarrow> string option \<times> 'w engine \<times> 'w" where
  "processInput dp cooldownMs i now e w =
     (let key = cooldownKey i in
      if si_action i = HOLD \<or> coolingDown cooldownMs key now e then (None, e, w)
      else
        (let e1 = e\<lparr>en_lastEmitted := mset key now (en_lastEmitted e)\<rparr> in
         if (case mget (en_lastSignalByKey e1) key of None \<Rightarrow> False | Some previous \<Rightarrow> signalsEqual previous i)
         then (None, e1, w)
         else
           (let (sig, e2) = drawSignal dp i now e1 in
            case checkConflicts dp sig w of
              Some reason \<Rightarrow>
                (let sig1 = rejectSignal reason sig in
                 (None, notifyListener (SignalRejected sig1 reason) (storeSignal key sig1 e2), w))
            | None \<Rightarrow>
                (case checkAndAcquireSymbolLock sig now e2 of
                   (Some reason, e3) \<Rightarrow> (None, notifyListener (SignalRejected (rejectSignal reason sig) reason) e3, w)
                 | (None, e3) \<Rightarrow> submitToExecutor dp key sig now (notifyListener (SignalSeen sig) (storeSignal key sig e3)) w))))"

definition malformedInput :: "string \<Rightarrow> signalInput" where
  "malformedInput strategyId = \<lparr>si_strategyId = strategyId, si_symbol = [], si_action = HOLD, si_confidence = 0,
     si_stopLossPrice = None, si_takeProfitPrice = None, si_ttlMs = 60000, si_features = [], si_reasoning = None\<rparr>"

definition processSignal ::
  "'w deps \<Rightarrow> string \<Rightarrow> number option \<Rightarrow> rawSignal \<Rightarrow> ms \<Rightarrow> 'w engine \<Rightarrow> 'w \<Rightarrow> string option \<times> 'w engine \<times> 'w" where
  "processSignal dp strategyId cooldownMs raw now e w =
     (case parseSignalInput raw of
        Inl reason \<Rightarrow>
          (let (sig, e1) = drawSignal dp (malformedInput strategyId) now e in (None, notifyListener (SignalRejected sig reason) e1, w))
      | Inr i \<Rightarrow> processInput dp cooldownMs i now e w)"

subsection \<open>Market data and candles\<close>

definition getStrategiesForSymbol :: "'w deps \<Rightarrow> string \<Rightarrow> 'w engine \<Rightarrow> 'w \<Rightarrow> 'w strategy list" where
  "getStrategiesForSymbol dp symbol e w =
     sort_key st_priority (filter (\<lambda>s. st_enabled s \<and> symbol \<in> set (st_symbols s) \<and> \<not> de_isQuarantined dp w (st_id s))
       (mvals (en_strategies e)))"

definition listQuarantined :: "'w deps \<Rightarrow> 'w engine \<Rightarrow> 'w \<Rightarrow> string list" where
  "listQuarantined dp e w = map st_id (filter (\<lambda>s. de_isQuarantined dp w (st_id s)) (mvals (en_strategies e)))"

text \<open>One strategy's turn: what its callback or the executor throws is caught and logged.\<close>

definition runCallback ::
  "'w deps \<Rightarrow> ms \<Rightarrow> 'w strategy \<Rightarrow> 'w callback \<Rightarrow> 'w engine \<times> 'w \<Rightarrow> 'w engine \<times> 'w" where
  "runCallback dp now s f ew =
     (case ew of (e, w) \<Rightarrow>
        (case f w of
           (Inr (Some raw), w1) \<Rightarrow> snd (processSignal dp (st_id s) (st_cooldownMs s) raw now e w1)
         | (_, w1) \<Rightarrow> (e, w1)))"

definition onMarketTick :: "'w deps \<Rightarrow> ms \<Rightarrow> marketState \<Rightarrow> 'w engine \<times> 'w \<Rightarrow> 'w engine \<times> 'w" where
  "onMarketTick dp now m ew =
     (case ew of (e, w) \<Rightarrow>
        if \<not> en_running e then (e, w)
        else fold (\<lambda>s. case st_onTick s of None \<Rightarrow> id | Some f \<Rightarrow> runCallback dp now s (f m))
               (getStrategiesForSymbol dp (m_symbol m) e w) (e, w))"

definition onCandleClose :: "'w deps \<Rightarrow> ms \<Rightarrow> candle \<Rightarrow> 'w engine \<times> 'w \<Rightarrow> 'w engine \<times> 'w" where
  "onCandleClose dp now c ew =
     (case ew of (e, w) \<Rightarrow>
        if \<not> en_running e then (e, w)
        else fold (\<lambda>s. case st_onCandleClose s of
                 None \<Rightarrow> id
               | Some f \<Rightarrow> if k_interval c \<in> set (st_intervals s) then runCallback dp now s (f c) else id)
               (getStrategiesForSymbol dp (k_symbol c) e w) (e, w))"

subsection \<open>External submissions and expiry\<close>

definition showFeature :: "'w deps \<Rightarrow> featureValue \<Rightarrow> string" where
  "showFeature dp v = (case v of FNum x \<Rightarrow> de_showNumber dp x | FStr s \<Rightarrow> s | FBool b \<Rightarrow> if b then ''true'' else ''false'')"

definition loopKeyOf :: "'w deps \<Rightarrow> signalInput \<Rightarrow> string" where
  "loopKeyOf dp i = (case mget (si_features i) ''dedupKey'' of None \<Rightarrow> cooldownKey i | Some v \<Rightarrow> showFeature dp v)"

definition rawOf :: "signalInput \<Rightarrow> rawSignal" where
  "rawOf i = \<lparr>rs_strategyId = si_strategyId i, rs_symbol = si_symbol i, rs_action = si_action i,
     rs_confidence = si_confidence i, rs_stopLossPrice = si_stopLossPrice i, rs_takeProfitPrice = si_takeProfitPrice i,
     rs_ttlMs = Some (si_ttlMs i), rs_features = Some (si_features i), rs_reasoning = si_reasoning i\<rparr>"

definition refuse :: "'w deps \<Rightarrow> signalInput \<Rightarrow> string \<Rightarrow> ms \<Rightarrow> 'w engine \<Rightarrow> signal \<times> 'w engine" where
  "refuse dp i reason now e =
     (let (sig, e1) = drawSignal dp i now e; sig1 = rejectSignal reason sig in
      (sig1, notifyListener (SignalRejected sig1 reason) e1))"

definition syntheticCooldown :: "signalInput \<Rightarrow> number option" where
  "syntheticCooldown i = (case mget (si_features i) ''cooldownMs'' of None \<Rightarrow> Some 60000 | Some v \<Rightarrow> featureNumber v)"

definition submitSignal ::
  "'w deps \<Rightarrow> signalInput \<Rightarrow> ms \<Rightarrow> 'w engine \<Rightarrow> 'w \<Rightarrow> (string + signal option) \<times> 'w engine \<times> 'w" where
  "submitSignal dp i now e w =
     (if \<not> en_running e \<or> si_action i = HOLD then (Inr None, e, w)
      else
        (let loopKey = loopKeyOf dp i; (loopReason, loops1) = reasonFor loopKey now (en_loops e);
             e1 = e\<lparr>en_loops := loops1\<rparr> in
         case loopReason of
           Some reason \<Rightarrow> (let (sig, e2) = refuse dp i reason now e1 in (Inr (Some sig), e2, w))
         | None \<Rightarrow>
             (let (lock, e2) = (if en_symbolLockEnabled e1 \<and> isOpenAction (si_action i)
                then getSymbolLock (si_symbol i) now e1 else (None, e1)) in
              case (case lock of None \<Rightarrow> None | Some l \<Rightarrow> if sl_strategyId l \<noteq> si_strategyId i then Some l else None) of
                Some l \<Rightarrow> (let (sig, e3) = refuse dp i (lockedReason l now) now e2 in (Inr (Some sig), e3, w))
              | None \<Rightarrow>
                  (case processSignal dp (si_strategyId i) (syntheticCooldown i) (rawOf i) now e2 w of
                     (Some msg, e3, w3) \<Rightarrow> (Inl msg, e3, w3)
                   | (None, e3, w3) \<Rightarrow>
                       (let stored = mget (en_lastSignalByKey e3) (cooldownKey i);
                            outcome = (case stored of None \<Rightarrow> None | Some sig \<Rightarrow>
                              if sg_status sig = REJECTED_SG then Some (coalesce (sg_rejectReason sig) ''unknown'') else None);
                            e4 = e3\<lparr>en_loops := recordOutcome loopKey outcome now (en_loops e3)\<rparr> in
                        (Inr (map_option (\<lambda>sig. if sg_status sig = CREATED_SG then sig\<lparr>sg_status := EXECUTED_SG\<rparr> else sig) stored),
                         e4, w3))))))"

definition expiredEntry :: "ms \<Rightarrow> string \<times> signal \<Rightarrow> bool" where
  "expiredEntry now kv \<longleftrightarrow> sg_status (snd kv) = CREATED_SG \<and> signalIsExpired (snd kv) now"

definition expireSignals :: "ms \<Rightarrow> 'w engine \<Rightarrow> nat \<times> 'w engine" where
  "expireSignals now e =
     (let gone = filter (expiredEntry now) (en_lastSignalByKey e) in
      (length gone,
       e\<lparr>en_lastSignalByKey := filter (\<lambda>kv. \<not> expiredEntry now kv) (en_lastSignalByKey e),
         en_events := en_events e @ map (\<lambda>kv. SignalExpired ((snd kv)\<lparr>sg_status := EXPIRED_SG\<rparr>)) gone\<rparr>))"

subsection \<open>The engine as a component\<close>

datatype 'w engineOp =
    TickE marketState | CloseE candle | SubmitE signalInput | ExpireE | ReadLockE string | ListLocksE
  | AcquireE string string "ms option" | ReleaseE string "string option" | StartE | StopE
  | RegisterE "'w strategy" | UnregisterE string

definition engineStep :: "'w deps \<Rightarrow> 'w engineOp \<times> ms \<Rightarrow> 'w engine \<times> 'w \<Rightarrow> 'w engine \<times> 'w" where
  "engineStep dp x ew =
     (case (x, ew) of ((opn, now), (e, w)) \<Rightarrow>
        (case opn of
           TickE m \<Rightarrow> onMarketTick dp now m (e, w)
         | CloseE c \<Rightarrow> onCandleClose dp now c (e, w)
         | SubmitE i \<Rightarrow> snd (submitSignal dp i now e w)
         | ExpireE \<Rightarrow> (snd (expireSignals now e), w)
         | ReadLockE symbol \<Rightarrow> (snd (getSymbolLock symbol now e), w)
         | ListLocksE \<Rightarrow> (snd (listSymbolLocks now e), w)
         | AcquireE symbol strategyId ttl \<Rightarrow> (snd (acquireSymbolLock symbol strategyId ttl now e), w)
         | ReleaseE symbol strategyId \<Rightarrow> (releaseSymbolLock symbol strategyId e, w)
         | StartE \<Rightarrow> startEngine e w
         | StopE \<Rightarrow> (stopEngine e, w)
         | RegisterE s \<Rightarrow> (case registerStrategy s e of Inl _ \<Rightarrow> (e, w) | Inr e1 \<Rightarrow> (e1, w))
         | UnregisterE strategyId \<Rightarrow> (unregisterStrategy strategyId e, w)))"

end
