(* ===== verification/Signal_Execution.thy ===== *)
theory Signal_Execution
  imports Strategy_Engine
begin

section \<open>Sizing, order construction and execution of signals\<close>

text \<open>
  From a signal to orders (src/strategy/SizingEngine.ts, OrderFactory.ts, SignalExecutor.ts). The broker is
  a port, so the executor is the same over the paper broker and over the router. The decimal strings
  of an instrument that are no numbers make \<open>new Decimal\<close> throw. An executor's calls of the signal
  repository are a sequence of its state, and it reads the clock once.
\<close>

subsection \<open>Sizing\<close>

record sizingEngine =
  se_riskPerTrade :: number
  se_maxNotional :: number
  se_fallbackRiskPerTrade :: number

datatype sizeReason = RiskBased number | FallbackNotional number

record sizeResult =
  sr_quantity :: number
  sr_notional :: number
  sr_reason :: sizeReason

definition newSizingEngine :: "number option \<Rightarrow> number option \<Rightarrow> number option \<Rightarrow> sizingEngine" where
  "newSizingEngine riskPerTrade maxNotional fallbackRiskPerTrade =
     \<lparr>se_riskPerTrade = coalesce riskPerTrade (5 / 1000), se_maxNotional = coalesce maxNotional 5000,
      se_fallbackRiskPerTrade = coalesce fallbackRiskPerTrade (1 / 10)\<rparr>"

text \<open>The quantity before the cap and the lot rounding.\<close>

definition wantedQty :: "lib \<Rightarrow> sizingEngine \<Rightarrow> number \<Rightarrow> number \<Rightarrow> number option \<Rightarrow> number" where
  "wantedQty L se equity entryPrice stopLossPrice =
     (case stopLossPrice of
        Some stop \<Rightarrow>
          if stop > 0 then
            (let stopDistance = \<bar>x_sub L entryPrice stop\<bar> in
             if stopDistance \<le> 0 then 0 else x_div L (x_mul L equity (se_riskPerTrade se)) stopDistance)
          else x_div L (x_mul L equity (se_fallbackRiskPerTrade se)) entryPrice
      | None \<Rightarrow> x_div L (x_mul L equity (se_fallbackRiskPerTrade se)) entryPrice)"

definition sizePosition ::
  "lib \<Rightarrow> sizingEngine \<Rightarrow> number \<Rightarrow> instrument \<Rightarrow> number \<Rightarrow> number option \<Rightarrow> string + sizeResult" where
  "sizePosition L se equity instr entryPrice stopLossPrice =
     (if entryPrice \<le> 0 then Inl ''Invalid entry price''
      else
        (let wanted = wantedQty L se equity entryPrice stopLossPrice;
             capped = (if x_mul L wanted entryPrice > se_maxNotional se then x_div L (se_maxNotional se) entryPrice else wanted) in
         case (i_minQty instr, i_minNotional instr) of
           (Some minQty, Some minNotional) \<Rightarrow>
             (let rounded = roundStep L capped (i_stepSize instr);
                  quantity = (if rounded < minQty then roundStep L minQty (i_stepSize instr) else rounded);
                  finalNotional = x_mul L quantity entryPrice in
              if finalNotional < minNotional \<or> quantity \<le> 0
              then Inl (''Position too small: notional '' @ showFixed 2 finalNotional @ '' < minNotional '' @ showFixed 2 minNotional)
              else Inr \<lparr>sr_quantity = quantity, sr_notional = finalNotional,
                sr_reason = (if stopLossPrice \<noteq> None then RiskBased (se_riskPerTrade se * 100)
                  else FallbackNotional (se_fallbackRiskPerTrade se * 100))\<rparr>)
         | _ \<Rightarrow> Inl ''[DecimalError] Invalid argument''))"

definition sizeClose :: "number \<Rightarrow> number option \<Rightarrow> number" where
  "sizeClose positionQty reduceQty = min \<bar>positionQty\<bar> (coalesce reduceQty \<bar>positionQty\<bar>)"

subsection \<open>Order construction\<close>

definition bareCommand :: "signal \<Rightarrow> number \<Rightarrow> number option \<Rightarrow> orderSide \<Rightarrow> orderType \<Rightarrow> bool \<Rightarrow> orderCommand" where
  "bareCommand sig quantity leverage side type reduceOnly =
     \<lparr>c_clientOrderId = None, c_symbol = si_symbol sig, c_side = side, c_type = type, c_quantity = quantity, c_price = None,
      c_stopPrice = None, c_activationPrice = None, c_callbackRate = None, c_leverage = leverage, c_marginType = None,
      c_reduceOnly = Some reduceOnly, c_postOnly = None, c_closePosition = None, c_timeInForce = None, c_workingType = None,
      c_strategyId = Some (si_strategyId sig), c_signalId = Some (sg_id sig)\<rparr>"

definition entrySide :: "signalAction \<Rightarrow> orderSide" where
  "entrySide a = (if a = OPEN_LONG \<or> a = CLOSE_SHORT then BUY else SELL)"

definition buildSignalOrder :: "number \<Rightarrow> signal \<Rightarrow> number \<Rightarrow> number option \<Rightarrow> orderCommand option" where
  "buildSignalOrder defaultLeverage sig quantity leverage =
     (let lev = Some (coalesce leverage defaultLeverage) in
      case si_action sig of
        OPEN_LONG \<Rightarrow> Some (bareCommand sig quantity lev BUY MARKET False)
      | OPEN_SHORT \<Rightarrow> Some (bareCommand sig quantity lev SELL MARKET False)
      | CLOSE_LONG \<Rightarrow> Some (bareCommand sig quantity lev SELL MARKET True)
      | CLOSE_SHORT \<Rightarrow> Some (bareCommand sig quantity lev BUY MARKET True)
      | _ \<Rightarrow> None)"

definition protectiveOrder :: "number \<Rightarrow> signal \<Rightarrow> number \<Rightarrow> number option \<Rightarrow> orderType \<Rightarrow> string option \<Rightarrow> orderCommand option" where
  "protectiveOrder defaultLeverage sig quantity leverage type price =
     (if price = None \<or> price = Some [] then None
      else
        (let command = (\<lambda>side. (bareCommand sig quantity (Some (coalesce leverage defaultLeverage)) side type True)
               \<lparr>c_workingType := Some MARK_PRICE, c_stopPrice := Option.bind price jsNumber\<rparr>) in
         case si_action sig of OPEN_LONG \<Rightarrow> Some (command SELL) | OPEN_SHORT \<Rightarrow> Some (command BUY) | _ \<Rightarrow> None))"

definition buildStopLossOrder :: "number \<Rightarrow> signal \<Rightarrow> number \<Rightarrow> number option \<Rightarrow> orderCommand option" where
  "buildStopLossOrder defaultLeverage sig quantity leverage =
     protectiveOrder defaultLeverage sig quantity leverage STOP_MARKET (si_stopLossPrice sig)"

definition buildTakeProfitOrder :: "number \<Rightarrow> signal \<Rightarrow> number \<Rightarrow> number option \<Rightarrow> orderCommand option" where
  "buildTakeProfitOrder defaultLeverage sig quantity leverage =
     protectiveOrder defaultLeverage sig quantity leverage TAKE_PROFIT_MARKET (si_takeProfitPrice sig)"

subsection \<open>Execution\<close>

record statusUpdate =
  up_id :: string
  up_status :: signalStatusSG
  up_orderId :: "string option"
  up_rejectReason :: "string option"

record 's executorDeps =
  ed_broker :: "'s port"
  ed_defaultLeverage :: number
  ed_getMarketState :: "string \<Rightarrow> marketState option"
  ed_sizingEngine :: "sizingEngine option"
  ed_getAccount :: "('s \<Rightarrow> number) option"
  ed_getInstrument :: "(string \<Rightarrow> instrument option) option"

record 's executor =
  ex_broker :: 's
  ex_updates :: "statusUpdate list"

definition updateStatus :: "signal \<Rightarrow> signalStatusSG \<Rightarrow> string option \<Rightarrow> string option \<Rightarrow> 's executor \<Rightarrow> 's executor" where
  "updateStatus sig status orderId reason x =
     x\<lparr>ex_updates := ex_updates x @ [\<lparr>up_id = sg_id sig, up_status = status, up_orderId = orderId, up_rejectReason = reason\<rparr>]\<rparr>"

definition refuseSignal :: "signal \<Rightarrow> string option \<Rightarrow> 's executor \<Rightarrow> bool \<times> 's executor" where
  "refuseSignal sig reason x = (False, updateStatus sig REJECTED_SG None reason x)"

definition resolveOpenSize :: "lib \<Rightarrow> 's executorDeps \<Rightarrow> signal \<Rightarrow> number \<Rightarrow> 's \<Rightarrow> number option" where
  "resolveOpenSize L xd sig entryPrice s =
     (case (ed_sizingEngine xd, ed_getAccount xd, ed_getInstrument xd) of
        (Some se, Some getAccount, Some getInstrument) \<Rightarrow>
          (case getInstrument (si_symbol sig) of
             None \<Rightarrow> None
           | Some instr \<Rightarrow>
               (let stop = Option.bind (si_stopLossPrice sig) jsNumber;
                    stopLossPrice = (case stop of None \<Rightarrow> None | Some x \<Rightarrow> if x > 0 then Some x else None) in
                case sizePosition L se (getAccount s) instr entryPrice stopLossPrice of
                  Inl msg \<Rightarrow> None
                | Inr sized \<Rightarrow> if sr_quantity sized \<le> 0 then None else Some (sr_quantity sized)))
      | _ \<Rightarrow> None)"

definition entryPriceOf :: "signalAction \<Rightarrow> marketState option \<Rightarrow> number option" where
  "entryPriceOf a market =
     (case market of
        None \<Rightarrow> None
      | Some m \<Rightarrow> if a = CLOSE_LONG \<or> a = OPEN_SHORT then orElse (m_bid m) (orElse (m_last m) (m_mark m))
          else orElse (m_ask m) (orElse (m_last m) (m_mark m)))"

text \<open>\<open>Number(features[name] ?? default)\<close>; \<open>None\<close> is \<open>NaN\<close>.\<close>

definition featureOr :: "signal \<Rightarrow> string \<Rightarrow> number \<Rightarrow> number option" where
  "featureOr sig name dflt = (case mget (si_features sig) name of None \<Rightarrow> Some dflt | Some v \<Rightarrow> featureNumber v)"

definition closeFraction :: "signal \<Rightarrow> number" where
  "closeFraction sig = (case featureOr sig ''closeFraction'' 1 of None \<Rightarrow> 1 | Some x \<Rightarrow> if x > 0 then min 1 x else 1)"

definition closeQty :: "signal \<Rightarrow> position option \<Rightarrow> number" where
  "closeQty sig pos =
     (case pos of Some p \<Rightarrow> if isCloseAction (si_action sig) then \<bar>p_qty p\<bar> * closeFraction sig else 0 | None \<Rightarrow> 0)"

text \<open>The quantity an opening signal asks for, 0 for the other actions; \<open>None\<close> when it cannot be sized.\<close>

definition openQty :: "lib \<Rightarrow> 's executorDeps \<Rightarrow> signal \<Rightarrow> number \<Rightarrow> 's \<Rightarrow> number option" where
  "openQty L xd sig entryPrice s =
     (if \<not> isOpenAction (si_action sig) then Some 0
      else (case featureOr sig ''quantity'' 0 of
          Some q \<Rightarrow> if q \<le> 0 then resolveOpenSize L xd sig entryPrice s else Some q
        | None \<Rightarrow> resolveOpenSize L xd sig entryPrice s))"

text \<open>A stop or target after the entry: its rejection is only logged, its exception ends the execution.\<close>

definition submitProtection :: "'s port \<Rightarrow> bool \<Rightarrow> orderCommand option \<Rightarrow> ms \<Rightarrow> 's \<Rightarrow> (string + unit) \<times> 's" where
  "submitProtection broker wanted command now s =
     (case command of
        Some c \<Rightarrow> if wanted then (case bp_submitOrder broker c now s of (Inl msg, s1) \<Rightarrow> (Inl msg, s1) | (Inr ord, s1) \<Rightarrow> (Inr (), s1))
          else (Inr (), s)
      | None \<Rightarrow> (Inr (), s))"

definition submitProtections :: "'s executorDeps \<Rightarrow> signal \<Rightarrow> number \<Rightarrow> number option \<Rightarrow> ms \<Rightarrow> 's \<Rightarrow> (string + unit) \<times> 's" where
  "submitProtections xd sig quantity leverage now s =
     (let wanted = isOpenAction (si_action sig) in
      case submitProtection (ed_broker xd) wanted (buildStopLossOrder (ed_defaultLeverage xd) sig quantity leverage) now s of
        (Inl msg, s1) \<Rightarrow> (Inl msg, s1)
      | (Inr _, s1) \<Rightarrow>
          submitProtection (ed_broker xd) wanted (buildTakeProfitOrder (ed_defaultLeverage xd) sig quantity leverage) now s1)"

definition fallbackCommand :: "signal \<Rightarrow> number \<Rightarrow> number option \<Rightarrow> orderCommand" where
  "fallbackCommand sig quantity leverage =
     bareCommand sig quantity leverage (entrySide (si_action sig)) MARKET (isCloseAction (si_action sig))"

definition executeSized :: "'s executorDeps \<Rightarrow> signal \<Rightarrow> number \<Rightarrow> ms \<Rightarrow> 's executor \<Rightarrow> bool \<times> 's executor" where
  "executeSized xd sig quantity now x =
     (let leverage = featureOr sig ''leverage'' 5;
          command = coalesce (buildSignalOrder (ed_defaultLeverage xd) sig quantity leverage) (fallbackCommand sig quantity leverage) in
      case bp_submitOrder (ed_broker xd) command now (ex_broker x) of
        (Inl msg, s1) \<Rightarrow> refuseSignal sig (Some ''ORDER_SUBMISSION_ERROR'') (x\<lparr>ex_broker := s1\<rparr>)
      | (Inr ord, s1) \<Rightarrow>
          if o_status ord = REJECTED then refuseSignal sig (o_rejectReason ord) (x\<lparr>ex_broker := s1\<rparr>)
          else (let x1 = updateStatus sig EXECUTED_SG (Some (o_id ord)) None (x\<lparr>ex_broker := s1\<rparr>) in
            case submitProtections xd sig quantity leverage now s1 of
              (Inl msg, s2) \<Rightarrow> refuseSignal sig (Some ''ORDER_SUBMISSION_ERROR'') (x1\<lparr>ex_broker := s2\<rparr>)
            | (Inr _, s2) \<Rightarrow> (True, x1\<lparr>ex_broker := s2\<rparr>)))"

definition execute :: "lib \<Rightarrow> 's executorDeps \<Rightarrow> signal \<Rightarrow> ms \<Rightarrow> 's executor \<Rightarrow> bool \<times> 's executor" where
  "execute L xd sig now x =
     (if si_action sig = HOLD \<or> si_action sig = CANCEL_ALL_ACTION then (True, x)
      else
        (let pos = bp_getPosition (ed_broker xd) (si_symbol sig) (ex_broker x) in
         case entryPriceOf (si_action sig) (ed_getMarketState xd (si_symbol sig)) of
           None \<Rightarrow> refuseSignal sig (Some ''NO_MARKET_STATE'') x
         | Some entryPrice \<Rightarrow>
             if entryPrice \<le> 0 then refuseSignal sig (Some ''NO_MARKET_STATE'') x
             else
               (case openQty L xd sig entryPrice (ex_broker x) of
                  None \<Rightarrow> refuseSignal sig (Some ''SIZING_FAILED'') x
                | Some opened \<Rightarrow>
                    (let closing = closeQty sig pos; quantity = (if closing > 0 then closing else opened) in
                     if quantity \<le> 0 then refuseSignal sig (Some ''ZERO_QUANTITY'') x
                     else executeSized xd sig quantity now x))))"

end
