(* ===== verification/Engine_Guarantees.thy ===== *)
theory Engine_Guarantees
  imports Strategy_Engine
begin

section \<open>What the strategy engine guarantees\<close>

text \<open>
  \<open>processInput\<close> either leaves the executor alone or hands it exactly one signal; the lemmas of the
  first part say which. A contract for properties of the engine's own state follows: what every
  processed input keeps, whatever the world does, every operation keeps. The properties instantiate it.
\<close>

subsection \<open>What processing an input does\<close>

definition seenOf :: "engineEvent list \<Rightarrow> signal list" where
  "seenOf evs = List.map_filter (\<lambda>ev. case ev of SignalSeen sig \<Rightarrow> Some sig | _ \<Rightarrow> None) evs"

lemma seenOf_simps [simp]:
  "seenOf [] = []" "seenOf (xs @ ys) = seenOf xs @ seenOf ys" "seenOf (SignalSeen sig # xs) = sig # seenOf xs"
  "seenOf (SignalRejected sig r # xs) = seenOf xs" "seenOf (SignalExpired sig # xs) = seenOf xs"
  by (simp_all add: seenOf_def map_filter_def)

lemma seenOf_expired [simp]: "seenOf (map (\<lambda>kv. SignalExpired (f kv)) xs) = []"
  by (induction xs) (simp_all add: seenOf_def map_filter_def)

lemma notify_frame [simp]:
  "en_events (notifyListener ev e) = en_events e @ [ev]" "en_symbolLocks (notifyListener ev e) = en_symbolLocks e"
  "en_lastSignalByKey (notifyListener ev e) = en_lastSignalByKey e" "en_strategies (notifyListener ev e) = en_strategies e"
  "en_symbolLockEnabled (notifyListener ev e) = en_symbolLockEnabled e" "en_symbolLockTtlMs (notifyListener ev e) = en_symbolLockTtlMs e"
  "en_lastEmitted (notifyListener ev e) = en_lastEmitted e" "en_running (notifyListener ev e) = en_running e"
  by (simp_all add: notifyListener_def)

lemma storeSignal_frame [simp]:
  "en_events (storeSignal k sig e) = en_events e" "en_symbolLocks (storeSignal k sig e) = en_symbolLocks e"
  "en_lastSignalByKey (storeSignal k sig e) = mset k sig (en_lastSignalByKey e)" "en_strategies (storeSignal k sig e) = en_strategies e"
  "en_symbolLockEnabled (storeSignal k sig e) = en_symbolLockEnabled e" "en_symbolLockTtlMs (storeSignal k sig e) = en_symbolLockTtlMs e"
  "en_lastEmitted (storeSignal k sig e) = en_lastEmitted e" "en_running (storeSignal k sig e) = en_running e"
  by (simp_all add: storeSignal_def)

lemma takeLock_frame [simp]:
  "en_events (takeLock s sid now ttl e) = en_events e" "en_lastSignalByKey (takeLock s sid now ttl e) = en_lastSignalByKey e"
  "en_strategies (takeLock s sid now ttl e) = en_strategies e" "en_symbolLockEnabled (takeLock s sid now ttl e) = en_symbolLockEnabled e"
  "en_symbolLockTtlMs (takeLock s sid now ttl e) = en_symbolLockTtlMs e" "en_lastEmitted (takeLock s sid now ttl e) = en_lastEmitted e"
  by (simp_all add: takeLock_def)

lemma rejectSignal_fields [simp]:
  "si_symbol (rejectSignal r sig) = si_symbol sig" "si_strategyId (rejectSignal r sig) = si_strategyId sig"
  "si_action (rejectSignal r sig) = si_action sig" "si_features (rejectSignal r sig) = si_features sig"
  "sg_status (rejectSignal r sig) = REJECTED_SG" "sg_ts (rejectSignal r sig) = sg_ts sig"
  by (simp_all add: rejectSignal_def)

text \<open>The part of the engine's state an operation that hands nothing over may change.\<close>

definition quietly :: "'w engine \<Rightarrow> 'w engine \<Rightarrow> bool" where
  "quietly e e' \<longleftrightarrow> seenOf (en_events e') = seenOf (en_events e) \<and> en_symbolLocks e' = en_symbolLocks e
     \<and> en_strategies e' = en_strategies e \<and> en_symbolLockEnabled e' = en_symbolLockEnabled e
     \<and> en_symbolLockTtlMs e' = en_symbolLockTtlMs e"

lemma processInput_cases:
  assumes "processInput dp c i now e w = (msg, e', w')"
  obtains (idle) "quietly e e'" "w' = w" "en_lastSignalByKey e' = en_lastSignalByKey e"
  | (refused) sig reason where "quietly e e'" "w' = w" "sig = toSignal i now (de_uuid dp (en_uuids e))"
      "checkConflicts dp sig w = Some reason"
      "en_lastSignalByKey e' = mset (cooldownKey i) (rejectSignal reason sig) (en_lastSignalByKey e)"
  | (handed) sig stored where "sig = toSignal i now (de_uuid dp (en_uuids e))" "checkConflicts dp sig w = None"
      "si_action i \<noteq> HOLD" "\<not> coolingDown c (cooldownKey i) now e"
      "\<forall>previous. mget (en_lastSignalByKey e) (cooldownKey i) = Some previous \<longrightarrow> \<not> signalsEqual previous i"
      "en_symbolLockEnabled e \<longrightarrow> isOpenAction (si_action i) \<longrightarrow> lockedByOther (si_symbol i) (si_strategyId i) now e = None"
      "seenOf (en_events e') = seenOf (en_events e) @ [sig]"
      "en_symbolLocks e' = (if en_symbolLockEnabled e \<and> isOpenAction (si_action i)
         then en_symbolLocks (takeLock (si_symbol i) (si_strategyId i) now (en_symbolLockTtlMs e) e) else en_symbolLocks e)"
      "en_strategies e' = en_strategies e" "en_symbolLockEnabled e' = en_symbolLockEnabled e"
      "en_symbolLockTtlMs e' = en_symbolLockTtlMs e"
      "en_lastSignalByKey e' = mset (cooldownKey i) stored (en_lastSignalByKey e)"
      "w' = snd (de_onSubmitSignal dp sig now w)"
proof -
  let ?key = "cooldownKey i"
  define e1 where "e1 = e\<lparr>en_lastEmitted := mset ?key now (en_lastEmitted e)\<rparr>"
  define sig where "sig = toSignal i now (de_uuid dp (en_uuids e))"
  define e2 where "e2 = e1\<lparr>en_uuids := en_uuids e + 1\<rparr>"
  have e1: "quietly e e1" "en_lastSignalByKey e1 = en_lastSignalByKey e" "en_uuids e1 = en_uuids e"
    by (simp_all add: e1_def quietly_def)
  have e2: "quietly e e2" "en_lastSignalByKey e2 = en_lastSignalByKey e" "en_symbolLocks e2 = en_symbolLocks e"
    "seenOf (en_events e2) = seenOf (en_events e)" "en_strategies e2 = en_strategies e"
    "en_symbolLockEnabled e2 = en_symbolLockEnabled e" "en_symbolLockTtlMs e2 = en_symbolLockTtlMs e"
    by (simp_all add: e2_def e1_def quietly_def)
  have draw: "drawSignal dp i now e1 = (sig, e2)" by (simp add: drawSignal_def sig_def e1(3) e2_def)
  let ?dup = "case mget (en_lastSignalByKey e) ?key of None \<Rightarrow> False | Some previous \<Rightarrow> signalsEqual previous i"
  consider (a) "si_action i = HOLD \<or> coolingDown c ?key now e" | (b) "\<not> (si_action i = HOLD \<or> coolingDown c ?key now e)" "?dup"
    | (c) reason where "\<not> (si_action i = HOLD \<or> coolingDown c ?key now e)" "\<not> ?dup" "checkConflicts dp sig w = Some reason"
    | (d) reason where "\<not> (si_action i = HOLD \<or> coolingDown c ?key now e)" "\<not> ?dup" "checkConflicts dp sig w = None"
        "checkAndAcquireSymbolLock sig now e2 = (Some reason, e2)"
    | (f) e3 where "\<not> (si_action i = HOLD \<or> coolingDown c ?key now e)" "\<not> ?dup" "checkConflicts dp sig w = None"
        "checkAndAcquireSymbolLock sig now e2 = (None, e3)"
    by (cases "checkConflicts dp sig w"; cases "checkAndAcquireSymbolLock sig now e2")
      (auto simp: checkAndAcquireSymbolLock_def split: option.splits if_splits)
  then show thesis
  proof cases
    case a
    then show ?thesis using assms by (intro idle) (auto simp: processInput_def Let_def quietly_def)
  next
    case b
    then show ?thesis
      using assms e1 by (intro idle) (auto simp: processInput_def Let_def e1_def [symmetric] split: if_splits)
  next
    case c
    then have "e' = notifyListener (SignalRejected (rejectSignal reason sig) reason) (storeSignal ?key (rejectSignal reason sig) e2)"
      "w' = w"
      using assms by (auto simp: processInput_def Let_def e1_def [symmetric] e1(2) draw)
    then show ?thesis using c(3) e2 by (intro refused [of sig reason]) (simp_all add: quietly_def sig_def)
  next
    case d
    then have "e' = notifyListener (SignalRejected (rejectSignal reason sig) reason) e2" "w' = w"
      using assms by (auto simp: processInput_def Let_def e1_def [symmetric] e1(2) draw)
    then show ?thesis using e2 by (intro idle) (simp_all add: quietly_def)
  next
    case f
    let ?e4 = "notifyListener (SignalSeen sig) (storeSignal ?key sig e3)"
    have sub: "submitToExecutor dp ?key sig now ?e4 w = (msg, e', w')"
      using f assms by (auto simp: processInput_def Let_def e1_def [symmetric] e1(2) draw)
    have locks: "en_symbolLocks e3 = (if en_symbolLockEnabled e \<and> isOpenAction (si_action i)
         then en_symbolLocks (takeLock (si_symbol i) (si_strategyId i) now (en_symbolLockTtlMs e) e) else en_symbolLocks e)"
      and free: "en_symbolLockEnabled e \<longrightarrow> isOpenAction (si_action i) \<longrightarrow> lockedByOther (si_symbol i) (si_strategyId i) now e = None"
      and e3: "seenOf (en_events e3) = seenOf (en_events e)" "en_strategies e3 = en_strategies e"
      "en_symbolLockEnabled e3 = en_symbolLockEnabled e" "en_symbolLockTtlMs e3 = en_symbolLockTtlMs e"
      "en_lastSignalByKey e3 = en_lastSignalByKey e"
      using f(4) e2 by (auto simp: checkAndAcquireSymbolLock_def sig_def lockedByOther_def takeLock_def
          split: option.splits if_splits)
    have "\<exists>stored. en_lastSignalByKey e' = mset ?key stored (en_lastSignalByKey e)"
      "seenOf (en_events e') = seenOf (en_events e) @ [sig]" "en_symbolLocks e' = en_symbolLocks e3"
      "en_strategies e' = en_strategies e" "en_symbolLockEnabled e' = en_symbolLockEnabled e"
      "en_symbolLockTtlMs e' = en_symbolLockTtlMs e" "w' = snd (de_onSubmitSignal dp sig now w)"
      using sub e3 by (auto simp: submitToExecutor_def Let_def mset_def split: prod.splits sum.splits if_splits)
    with f(1,2,3) locks free show ?thesis
      by (auto intro!: handed [OF sig_def] split: option.splits)
  qed
qed

subsection \<open>A contract for properties of the engine\<close>

text \<open>Strategies whose callbacks answer only with admissible inputs.\<close>

definition answersOnly :: "(signalInput \<Rightarrow> bool) \<Rightarrow> 'w callback \<Rightarrow> bool" where
  "answersOnly good f \<longleftrightarrow> (\<forall>w raw w1 i. f w = (Inr (Some raw), w1) \<longrightarrow> parseSignalInput raw = Inr i \<longrightarrow> good i)"

definition goodStrategy :: "(signalInput \<Rightarrow> bool) \<Rightarrow> 'w strategy \<Rightarrow> bool" where
  "goodStrategy good s \<longleftrightarrow>
     (\<forall>f m. st_onTick s = Some f \<longrightarrow> answersOnly good (f m)) \<and> (\<forall>f c. st_onCandleClose s = Some f \<longrightarrow> answersOnly good (f c))"

lemma goodStrategy_all [simp]: "goodStrategy (\<lambda>i. True) s"
  by (simp add: goodStrategy_def answersOnly_def)

text \<open>The operations that neither run a callback nor submit nor change the strategies.\<close>

definition internalOp :: "'w engineOp \<Rightarrow> bool" where
  "internalOp opn \<longleftrightarrow> (case opn of ExpireE \<Rightarrow> True | ListLocksE \<Rightarrow> True | AcquireE _ _ _ \<Rightarrow> True | ReleaseE _ _ \<Rightarrow> True
     | StartE \<Rightarrow> True | StopE \<Rightarrow> True | _ \<Rightarrow> False)"

lemma mset_vals: "set (mvals (mset k v m)) \<subseteq> insert v (set (mvals m))"
  by (induction m) (auto simp: mset_def mvals_def)

lemma parse_rawOf: "parseSignalInput (rawOf i) = Inr j \<Longrightarrow> j = i"
  by (auto simp: parseSignalInput_def rawOf_def split: if_splits)

lemma processSignal_strategies: "en_strategies (fst (snd (processSignal dp sid c raw now e w))) = en_strategies e"
proof (cases "parseSignalInput raw")
  case (Inl reason)
  then show ?thesis by (simp add: processSignal_def drawSignal_def split_beta)
next
  case (Inr i)
  obtain msg e' w' where p: "processInput dp c i now e w = (msg, e', w')" by (rule prod_cases3)
  have "en_strategies e' = en_strategies e"
    by (rule processInput_cases [OF p]) (simp_all add: quietly_def)
  with Inr p show ?thesis by (simp add: processSignal_def)
qed

lemma getSymbolLock_frame [simp]:
  "en_strategies (snd (getSymbolLock symbol now e)) = en_strategies e" "en_events (snd (getSymbolLock symbol now e)) = en_events e"
  "en_lastSignalByKey (snd (getSymbolLock symbol now e)) = en_lastSignalByKey e"
  by (auto simp: getSymbolLock_def split: option.splits)

text \<open>\<open>inv now e\<close> is a property of the engine at time \<open>now\<close> that processing an admissible input keeps
  and that does not depend on the identifiers drawn, the loop detector and the events of other kinds;
  \<open>okOp\<close> says which operations are admitted.\<close>

locale engine_inputs =
  fixes dp :: "'w deps" and good :: "signalInput \<Rightarrow> bool" and okOp :: "'w engineOp \<Rightarrow> bool"
  assumes good_submitted: "okOp (SubmitE i) \<Longrightarrow> good i"
    and good_registered: "okOp (RegisterE s) \<Longrightarrow> goodStrategy good s"

locale engine_contract = engine_inputs dp good okOp
  for dp :: "'w deps" and good :: "signalInput \<Rightarrow> bool" and okOp :: "'w engineOp \<Rightarrow> bool" +
  fixes inv :: "ms \<Rightarrow> 'w engine \<Rightarrow> bool"
  assumes inv_input: "inv now e \<Longrightarrow> good i \<Longrightarrow> processInput dp c i now e w = (msg, e', w') \<Longrightarrow> inv now e'"
    and inv_noise: "inv now e \<Longrightarrow> seenOf evs = [] \<Longrightarrow>
      inv now (e\<lparr>en_uuids := n, en_loops := l, en_events := en_events e @ evs\<rparr>)"
    and inv_prune: "inv now e \<Longrightarrow> inv now (snd (getSymbolLock symbol now e))"
    and inv_strategies: "inv now e \<Longrightarrow> \<forall>s \<in> set (mvals ss). goodStrategy good s \<Longrightarrow> inv now (e\<lparr>en_strategies := ss\<rparr>)"
    and inv_other: "inv now e \<Longrightarrow> okOp opn \<Longrightarrow> internalOp opn \<Longrightarrow> inv now (fst (engineStep dp (opn, now) (e, w)))"
    and inv_time: "inv now e \<Longrightarrow> now \<le> later \<Longrightarrow> inv later e"
begin

lemma draw_reject: "inv now e \<Longrightarrow> inv now (e\<lparr>en_uuids := n, en_events := en_events e @ [SignalRejected sig r]\<rparr>)"
  using inv_noise [where now = now and e = e and evs = "[SignalRejected sig r]" and n = n and l = "en_loops e"] by simp

lemma loops_keep: "inv now e \<Longrightarrow> inv now (e\<lparr>en_loops := l\<rparr>)"
  using inv_noise [where now = now and e = e and evs = "[]" and n = "en_uuids e" and l = l] by simp

lemma process_keeps:
  assumes "inv now e" "\<forall>i. parseSignalInput raw = Inr i \<longrightarrow> good i" "processSignal dp sid c raw now e w = (msg, e', w')"
  shows "inv now e'"
proof (cases "parseSignalInput raw")
  case (Inl reason)
  then show ?thesis
    using assms(1,3) draw_reject by (auto simp: processSignal_def drawSignal_def notifyListener_def)
next
  case (Inr i)
  then show ?thesis using assms inv_input by (simp add: processSignal_def)
qed

lemma callback_keeps:
  assumes "inv now e" "answersOnly good f"
  shows "inv now (fst (runCallback dp now s f (e, w)))"
proof -
  obtain r w1 where f: "f w = (r, w1)" by fastforce
  show ?thesis
  proof (cases "\<exists>raw. r = Inr (Some raw)")
    case True
    then obtain raw where raw: "f w = (Inr (Some raw), w1)" using f by blast
    obtain msg e' w' where p: "processSignal dp (st_id s) (st_cooldownMs s) raw now e w1 = (msg, e', w')"
      by (rule prod_cases3)
    have "\<forall>i. parseSignalInput raw = Inr i \<longrightarrow> good i" using assms(2) raw unfolding answersOnly_def by blast
    then show ?thesis using process_keeps [OF assms(1) _ p] by (simp add: runCallback_def raw p)
  next
    case False
    then show ?thesis using assms(1) f by (auto simp: runCallback_def split: sum.splits option.splits)
  qed
qed

lemma callbacks_keep:
  assumes "inv now e" "\<forall>s \<in> set ss. goodStrategy good s" "\<forall>s f. s \<in> set ss \<longrightarrow> cb s = Some f \<longrightarrow> answersOnly good f"
  shows "inv now (fst (fold (\<lambda>s. case cb s of None \<Rightarrow> id | Some f \<Rightarrow> runCallback dp now s f) ss (e, w)))"
  using assms
proof (induction ss arbitrary: e w)
  case Nil
  then show ?case by simp
next
  case (Cons s ss)
  obtain e1 w1 where r: "(case cb s of None \<Rightarrow> id | Some f \<Rightarrow> runCallback dp now s f) (e, w) = (e1, w1)" by fastforce
  have "inv now e1"
    using r Cons.prems callback_keeps [OF Cons.prems(1), of _ s w] by (cases "cb s") force+
  then show ?case using Cons.IH [of e1 w1] Cons.prems(2,3) r by simp
qed

lemma tick_keeps:
  assumes "inv now e" "\<forall>s \<in> set (mvals (en_strategies e)). goodStrategy good s"
  shows "inv now (fst (onMarketTick dp now m (e, w)))"
proof -
  let ?ss = "getStrategiesForSymbol dp (m_symbol m) e w"
  have ss: "\<forall>s \<in> set ?ss. goodStrategy good s" using assms(2) by (auto simp: getStrategiesForSymbol_def)
  moreover from ss have "\<forall>s f. s \<in> set ?ss \<longrightarrow> map_option (\<lambda>f. f m) (st_onTick s) = Some f \<longrightarrow> answersOnly good f"
    unfolding goodStrategy_def by blast
  ultimately have "inv now (fst (fold (\<lambda>s. case map_option (\<lambda>f. f m) (st_onTick s) of None \<Rightarrow> id
      | Some f \<Rightarrow> runCallback dp now s f) ?ss (e, w)))"
    by (rule callbacks_keep [OF assms(1)])
  moreover have "(case map_option (\<lambda>f. f m) (st_onTick s) of None \<Rightarrow> id | Some f \<Rightarrow> runCallback dp now s f)
      = (case st_onTick s of None \<Rightarrow> id | Some f \<Rightarrow> runCallback dp now s (f m))" for s
    by (simp split: option.split)
  ultimately show ?thesis using assms(1) by (simp add: onMarketTick_def)
qed

lemma close_keeps:
  assumes "inv now e" "\<forall>s \<in> set (mvals (en_strategies e)). goodStrategy good s"
  shows "inv now (fst (onCandleClose dp now c (e, w)))"
proof -
  let ?ss = "getStrategiesForSymbol dp (k_symbol c) e w"
  let ?cb = "\<lambda>s. if k_interval c \<in> set (st_intervals s) then map_option (\<lambda>f. f c) (st_onCandleClose s) else None"
  have ss: "\<forall>s \<in> set ?ss. goodStrategy good s" using assms(2) by (auto simp: getStrategiesForSymbol_def)
  moreover from ss have "\<forall>s f. s \<in> set ?ss \<longrightarrow> ?cb s = Some f \<longrightarrow> answersOnly good f"
    unfolding goodStrategy_def by (auto split: if_splits)
  ultimately have "inv now (fst (fold (\<lambda>s. case ?cb s of None \<Rightarrow> id | Some f \<Rightarrow> runCallback dp now s f) ?ss (e, w)))"
    by (rule callbacks_keep [OF assms(1)])
  moreover have "(case ?cb s of None \<Rightarrow> id | Some f \<Rightarrow> runCallback dp now s f)
      = (case st_onCandleClose s of None \<Rightarrow> id
         | Some f \<Rightarrow> if k_interval c \<in> set (st_intervals s) then runCallback dp now s (f c) else id)" for s
    by (simp split: option.split)
  ultimately show ?thesis using assms(1) by (simp add: onCandleClose_def)
qed

lemma refuse_keeps: "inv now e \<Longrightarrow> inv now (snd (refuse dp i reason now e))"
  using draw_reject by (simp add: refuse_def drawSignal_def notifyListener_def Let_def)

lemma submit_keeps:
  assumes "inv now e" "good i"
  shows "inv now (fst (snd (submitSignal dp i now e w)))"
proof (cases "\<not> en_running e \<or> si_action i = HOLD")
  case True
  then show ?thesis using assms(1) by (auto simp: submitSignal_def)
next
  case False
  obtain loopReason loops1 where lr: "reasonFor (loopKeyOf dp i) now (en_loops e) = (loopReason, loops1)" by fastforce
  let ?e1 = "e\<lparr>en_loops := loops1\<rparr>"
  have e1: "inv now ?e1" by (rule loops_keep [OF assms(1)])
  obtain lock e2 where lk: "(if en_symbolLockEnabled ?e1 \<and> isOpenAction (si_action i)
      then getSymbolLock (si_symbol i) now ?e1 else (None, ?e1)) = (lock, e2)" by fastforce
  have lk': "(if en_symbolLockEnabled e \<and> isOpenAction (si_action i) then getSymbolLock (si_symbol i) now ?e1
      else (None, ?e1)) = (lock, e2)" using lk by simp
  have e2: "inv now e2" using lk e1 inv_prune [OF e1, of "si_symbol i"] by (auto split: if_splits)
  obtain msg e3 w3 where p: "processSignal dp (si_strategyId i) (syntheticCooldown i) (rawOf i) now e2 w = (msg, e3, w3)"
    by (rule prod_cases3)
  have "\<forall>j. parseSignalInput (rawOf i) = Inr j \<longrightarrow> good j" using assms(2) parse_rawOf by blast
  then have e3: "inv now e3" by (rule process_keeps [OF e2 _ p])
  have r1: "refuse dp i r now ?e1 = (sig, x) \<Longrightarrow> inv now x" and r2: "refuse dp i r now e2 = (sig, x) \<Longrightarrow> inv now x"
    for r sig x using refuse_keeps [OF e1, of i r] refuse_keeps [OF e2, of i r] by simp_all
  have r3: "inv now (e3\<lparr>en_loops := l\<rparr>)" for l by (rule loops_keep [OF e3])
  let ?holder = "case lock of None \<Rightarrow> None | Some l \<Rightarrow> if sl_strategyId l \<noteq> si_strategyId i then Some l else None"
  consider (looping) r where "loopReason = Some r" | (locked) l where "loopReason = None" "?holder = Some l"
    | (processed) "loopReason = None" "?holder = None" by (cases loopReason; cases ?holder) auto
  then show ?thesis
  proof cases
    case looping
    obtain sig x where r: "refuse dp i r now ?e1 = (sig, x)" by fastforce
    show ?thesis unfolding submitSignal_def Let_def lr prod.case looping option.case r using False r1 [OF r] by simp
  next
    case locked
    obtain sig x where r: "refuse dp i (lockedReason l now) now e2 = (sig, x)" by fastforce
    show ?thesis
      unfolding submitSignal_def Let_def lr prod.case locked(1) option.case lk prod.case locked(2) r
      using False r2 [OF r] by simp
  next
    case processed
    show ?thesis
      unfolding submitSignal_def Let_def lr prod.case processed(1) option.case lk prod.case processed(2) p
      using False e3 r3 by (cases msg) simp_all
  qed
qed

text \<open>Every operation keeps the property, and every operation keeps the strategies admissible.\<close>

lemma step_keeps:
  assumes "inv now e" "\<forall>s \<in> set (mvals (en_strategies e)). goodStrategy good s" "okOp opn"
  shows "inv now (fst (engineStep dp (opn, now) (e, w)))"
proof (cases opn)
  case (TickE m)
  then show ?thesis using tick_keeps [OF assms(1,2)] by (simp add: engineStep_def)
next
  case (CloseE c)
  then show ?thesis using close_keeps [OF assms(1,2)] by (simp add: engineStep_def)
next
  case (SubmitE i)
  then show ?thesis using submit_keeps [OF assms(1)] good_submitted assms(3) by (simp add: engineStep_def)
next
  case (ReadLockE symbol)
  then show ?thesis using inv_prune [OF assms(1)] by (simp add: engineStep_def)
next
  case (RegisterE s)
  then have "goodStrategy good s" using assms(3) good_registered by blast
  then have "\<forall>x \<in> set (mvals (mset (st_id s) s (en_strategies e))). goodStrategy good x"
    using assms(2) mset_vals [of "st_id s" s "en_strategies e"] by auto
  then show ?thesis
    using RegisterE assms(1) inv_strategies [OF assms(1)] by (simp add: engineStep_def registerStrategy_def)
next
  case (UnregisterE sid)
  have "\<forall>x \<in> set (mvals (mdel sid (en_strategies e))). goodStrategy good x"
    using assms(2) by (fastforce simp: mvals_def mdel_def AList.delete_eq)
  then show ?thesis
    using UnregisterE inv_strategies [OF assms(1)] by (simp add: engineStep_def unregisterStrategy_def)
qed (use inv_other [OF assms(1,3), of w] in \<open>simp_all add: internalOp_def\<close>)

end

text \<open>Admissible strategies stay admissible: the contract's own instance on the registered strategies.\<close>

sublocale engine_inputs \<subseteq> admitted: engine_contract dp good okOp "\<lambda>now e. \<forall>s \<in> set (mvals (en_strategies e)). goodStrategy good s"
proof (unfold_locales, goal_cases)
  case (1 now e i c w msg e' w')
  then have "en_strategies e' = en_strategies e"
    by (elim processInput_cases) (simp_all add: quietly_def)
  then show ?case using 1 by simp
next
  case (5 now e opn w)
  then show ?case
    by (auto simp: internalOp_def engineStep_def expireSignals_def Let_def listSymbolLocks_def acquireSymbolLock_def
        releaseSymbolLock_def startEngine_def stopEngine_def split: engineOp.splits if_splits option.splits)
qed simp_all

context engine_contract
begin

lemma run_keeps:
  assumes "inv now e" "\<forall>s \<in> set (mvals (en_strategies e)). goodStrategy good s"
    "sorted (now # map snd ops)" "\<forall>x \<in> set ops. okOp (fst x)"
  shows "inv (last (now # map snd ops)) (fst (fold (engineStep dp) ops (e, w)))"
  using assms
proof (induction ops arbitrary: now e w)
  case Nil
  then show ?case by simp
next
  case (Cons x ops)
  obtain opn t where x: "x = (opn, t)" by fastforce
  have t: "now \<le> t" and ok: "okOp opn" using Cons.prems x by simp_all
  obtain e1 w1 where st: "engineStep dp x (e, w) = (e1, w1)" by fastforce
  have "inv t e1" using step_keeps [OF inv_time [OF Cons.prems(1) t] Cons.prems(2) ok, of w] st x by simp
  moreover have "\<forall>s \<in> set (mvals (en_strategies e1)). goodStrategy good s"
    using admitted.step_keeps [OF Cons.prems(2,2) ok, of t w] st x by simp
  ultimately show ?case using Cons.IH [of t e1 w1] Cons.prems(3,4) st x by simp
qed

end

subsection \<open>Symbol locks\<close>

text \<open>The operations of a run in which no lock is given back or shortened by hand.\<close>

definition lockOp :: "'w engineOp \<Rightarrow> bool" where
  "lockOp opn \<longleftrightarrow> (case opn of ReleaseE _ _ \<Rightarrow> False | AcquireE _ _ ttl \<Rightarrow> ttl = None | StopE \<Rightarrow> False | _ \<Rightarrow> True)"

definition heldFor :: "ms \<Rightarrow> 'w engine \<Rightarrow> signal \<Rightarrow> bool" where
  "heldFor ttl e sig \<longleftrightarrow> (\<exists>lock. mget (en_symbolLocks e) (si_symbol sig) = Some lock \<and>
     sl_strategyId lock = si_strategyId sig \<and> sg_ts sig + ttl \<le> sl_until lock)"

definition lockInv :: "ms \<Rightarrow> ms \<Rightarrow> 'w engine \<Rightarrow> bool" where
  "lockInv ttl now e \<longleftrightarrow> en_symbolLockEnabled e \<and> en_symbolLockTtlMs e = ttl \<and>
     (\<forall>sig \<in> set (seenOf (en_events e)). sg_ts sig \<le> now \<and>
        (isOpenAction (si_action sig) \<and> now < sg_ts sig + ttl \<longrightarrow> heldFor ttl e sig)) \<and>
     sorted_wrt (\<lambda>a b. isOpenAction (si_action a) \<and> isOpenAction (si_action b) \<and> si_symbol a = si_symbol b
        \<and> si_strategyId a \<noteq> si_strategyId b \<longrightarrow> sg_ts a + ttl \<le> sg_ts b) (seenOf (en_events e))"

lemma mget_filter_kept: "mget m k = Some v \<Longrightarrow> P (k, v) \<Longrightarrow> mget (filter P m) k = Some v"
  by (induction m) (auto simp: mget_def split: if_splits)

lemma lockInv_frame:
  assumes "lockInv ttl now e" "seenOf (en_events e') = seenOf (en_events e)" "en_symbolLockEnabled e' = en_symbolLockEnabled e"
    "en_symbolLockTtlMs e' = en_symbolLockTtlMs e"
    "\<And>s lock. mget (en_symbolLocks e) s = Some lock \<Longrightarrow> now < sl_until lock \<Longrightarrow>
      (\<exists>lock'. mget (en_symbolLocks e') s = Some lock' \<and> sl_strategyId lock' = sl_strategyId lock \<and> sl_until lock \<le> sl_until lock')
      \<or> (\<forall>sig \<in> set (seenOf (en_events e)). isOpenAction (si_action sig) \<and> si_symbol sig = s \<longrightarrow> sg_ts sig + ttl \<le> now)"
  shows "lockInv ttl now e'"
proof -
  have "heldFor ttl e' sig"
    if "sig \<in> set (seenOf (en_events e))" "isOpenAction (si_action sig)" "now < sg_ts sig + ttl" for sig
  proof -
    from assms(1) that have "heldFor ttl e sig" unfolding lockInv_def by blast
    then obtain lock where l: "mget (en_symbolLocks e) (si_symbol sig) = Some lock" "sl_strategyId lock = si_strategyId sig"
      "sg_ts sig + ttl \<le> sl_until lock" unfolding heldFor_def by blast
    then show ?thesis using assms(5) [OF l(1)] that unfolding heldFor_def by force
  qed
  then show ?thesis using assms(1-4) unfolding lockInv_def by auto
qed

lemma takeLock_mget [simp]:
  "mget (en_symbolLocks (takeLock s sid now ttl e)) s' = (if s' = s
     then Some \<lparr>sl_symbol = s, sl_strategyId = sid, sl_acquiredAt = now, sl_until = now + ttl\<rparr>
     else mget (en_symbolLocks e) s')"
  by (simp add: takeLock_def)

lemma takeLock_keeps:
  assumes "lockInv ttl now e" "lockedByOther s sid now e = None"
    "seenOf (en_events e') = seenOf (en_events e)" "en_symbolLockEnabled e' = en_symbolLockEnabled e"
    "en_symbolLockTtlMs e' = en_symbolLockTtlMs e" "en_symbolLocks e' = en_symbolLocks (takeLock s sid now ttl e)"
  shows "lockInv ttl now e'"
proof -
  have held: "sl_strategyId lock = si_strategyId sig \<and> sg_ts sig + ttl \<le> sl_until lock"
    if "sig \<in> set (seenOf (en_events e))" "isOpenAction (si_action sig)" "now < sg_ts sig + ttl"
      "mget (en_symbolLocks e) (si_symbol sig) = Some lock" for sig lock
    using assms(1) that unfolding lockInv_def heldFor_def by fastforce
  have "heldFor ttl e' sig"
    if "sig \<in> set (seenOf (en_events e))" "isOpenAction (si_action sig)" "now < sg_ts sig + ttl" for sig
  proof (cases "si_symbol sig = s")
    case True
    have "heldFor ttl e sig" using assms(1) that unfolding lockInv_def by blast
    then obtain lock where l: "mget (en_symbolLocks e) s = Some lock" using True unfolding heldFor_def by auto
    then have "sl_strategyId lock = si_strategyId sig" "now < sl_until lock"
      using held [OF that, of lock] True that(3) by auto
    with l assms(2) have "sid = si_strategyId sig" by (simp add: lockedByOther_def split: if_splits)
    moreover have "sg_ts sig \<le> now" using assms(1) that(1) unfolding lockInv_def by blast
    ultimately show ?thesis using True by (simp add: heldFor_def assms(6))
  next
    case False
    then show ?thesis using assms(1) that unfolding lockInv_def heldFor_def assms(6) by auto
  qed
  then show ?thesis using assms(1,3,4,5) unfolding lockInv_def by auto
qed

lemma lockInv_handed:
  assumes "lockInv ttl now e" "sg_ts sig = now" "isOpenAction (si_action sig) \<Longrightarrow> heldFor ttl e sig"
    "seenOf (en_events e') = seenOf (en_events e) @ [sig]" "en_symbolLockEnabled e' = en_symbolLockEnabled e"
    "en_symbolLockTtlMs e' = en_symbolLockTtlMs e" "en_symbolLocks e' = en_symbolLocks e"
  shows "lockInv ttl now e'"
proof -
  have "sg_ts a + ttl \<le> now"
    if "a \<in> set (seenOf (en_events e))" "isOpenAction (si_action a)" "isOpenAction (si_action sig)"
      "si_symbol a = si_symbol sig" "si_strategyId a \<noteq> si_strategyId sig" for a
    using assms(1) assms(3) [OF that(3)] that unfolding lockInv_def heldFor_def by fastforce
  then show ?thesis
    using assms unfolding lockInv_def heldFor_def by (auto simp: sorted_wrt_append)
qed

lemma lockInv_input:
  assumes "lockInv ttl now e" "processInput dp c i now e w = (msg, e', w')"
  shows "lockInv ttl now e'"
  using assms(2)
proof (cases rule: processInput_cases)
  case idle
  then show ?thesis using assms(1) by (auto simp: quietly_def intro: lockInv_frame)
next
  case (refused sig reason)
  then show ?thesis using assms(1) by (auto simp: quietly_def intro: lockInv_frame)
next
  case (handed sig stored)
  have en: "en_symbolLockEnabled e" "en_symbolLockTtlMs e = ttl" using assms(1) by (simp_all add: lockInv_def)
  let ?e1 = "e\<lparr>en_symbolLocks := en_symbolLocks e'\<rparr>"
  have "lockInv ttl now ?e1"
  proof (cases "isOpenAction (si_action i)")
    case True
    then show ?thesis
      using handed(6,8) en takeLock_keeps [OF assms(1), of "si_symbol i" "si_strategyId i" ?e1] by simp
  next
    case False
    then show ?thesis using handed(8) assms(1) by (simp add: lockInv_frame [OF assms(1)])
  qed
  moreover have "heldFor ttl ?e1 sig" if "isOpenAction (si_action sig)"
    using that handed(1,8) en by (simp add: heldFor_def)
  ultimately show ?thesis
    using handed(1,7,10,11) lockInv_handed [of ttl now ?e1 sig e'] by simp
qed

lemma lockInv_other:
  assumes "lockInv ttl now e" "lockOp opn" "internalOp opn"
  shows "lockInv ttl now (fst (engineStep dp (opn, now) (e, w)))"
proof (cases opn)
  case ListLocksE
  have "\<exists>lock'. mget (filter (\<lambda>(symbol, lock). \<not> sl_until lock \<le> now) (en_symbolLocks e)) s = Some lock'
      \<and> sl_strategyId lock' = sl_strategyId lock \<and> sl_until lock \<le> sl_until lock'"
    if "mget (en_symbolLocks e) s = Some lock" "now < sl_until lock" for s lock
    using mget_filter_kept [OF that(1), of "\<lambda>(symbol, lock). \<not> sl_until lock \<le> now"] that(2) by auto
  then show ?thesis
    by (simp add: ListLocksE engineStep_def listSymbolLocks_def Let_def lockInv_frame [OF assms(1)])
next
  case (AcquireE s sid ttl')
  have "en_symbolLockTtlMs e = ttl" using assms(1) by (simp add: lockInv_def)
  then show ?thesis
    using assms(1,2) takeLock_keeps [OF assms(1), of s sid "takeLock s sid now ttl e"]
    by (simp add: AcquireE lockOp_def engineStep_def acquireSymbolLock_def coalesce_def)
next
  case ExpireE
  then show ?thesis
    by (auto simp: engineStep_def expireSignals_def Let_def intro!: lockInv_frame [OF assms(1)])
next
  case StartE
  then show ?thesis by (simp add: engineStep_def startEngine_def lockInv_frame [OF assms(1)])
qed (use assms(2,3) in \<open>simp_all add: lockOp_def internalOp_def\<close>)

interpretation symbolLocks: engine_contract dp "\<lambda>i. True" lockOp "lockInv ttl" for dp :: "'w deps" and ttl
proof (unfold_locales, goal_cases)
  case (3 now e i c w msg e' w')
  then show ?case by (blast intro: lockInv_input)
next
  case (4 now e evs n l)
  then show ?case by (intro lockInv_frame [OF 4(1)]) auto
next
  case (5 now e symbol)
  show ?case
    by (rule lockInv_frame [OF 5]) (auto simp: getSymbolLock_def split: option.splits if_splits)
next
  case (6 now e ss)
  show ?case by (rule lockInv_frame [OF 6(1)]) auto
next
  case (7 now e opn w)
  then show ?case by (blast intro: lockInv_other)
next
  case (8 now e later)
  then show ?case unfolding lockInv_def by fastforce
qed simp_all

text \<open>C22. One strategy per symbol: in a run with the symbol locks on, in which no lock is released by hand
  or acquired by hand with a lifetime of its own and the engine is not stopped (stopping clears the locks), two opening signals on one symbol that different strategies got handed to the
  executor are at least the lock's lifetime apart, whatever the strategies answer, the executor does
  and the order of ticks, candles and external submissions is.\<close>

theorem one_strategy_per_symbol:
  assumes "sorted (map snd ops)" "\<forall>x \<in> set ops. lockOp (fst x)"
    "handed = seenOf (en_events (fst (fold (engineStep dp) ops (newEngine (Some True) (Some ttl), w))))"
    "i < j" "j < length handed" "isOpenAction (si_action (handed ! i))" "isOpenAction (si_action (handed ! j))"
    "si_symbol (handed ! i) = si_symbol (handed ! j)" "si_strategyId (handed ! i) \<noteq> si_strategyId (handed ! j)"
  shows "sg_ts (handed ! i) + ttl \<le> sg_ts (handed ! j)"
proof -
  define t0 where "t0 = (case ops of [] \<Rightarrow> 0 | x # _ \<Rightarrow> snd x)"
  have "lockInv ttl t0 (newEngine (Some True) (Some ttl))"
    by (simp add: lockInv_def newEngine_def coalesce_def)
  moreover have "sorted (t0 # map snd ops)" using assms(1) by (cases ops) (simp_all add: t0_def)
  ultimately have "lockInv ttl (last (t0 # map snd ops))
      (fst (fold (engineStep dp) ops (newEngine (Some True) (Some ttl), w)))"
    using assms(2) by (intro symbolLocks.run_keeps) simp_all
  then show ?thesis using assms(3-9) unfolding lockInv_def sorted_wrt_iff_nth_less by simp
qed

text \<open>An executor that accepts everything, over a world that is the position's size.\<close>

definition sampleDeps :: "number deps" where
  "sampleDeps = \<lparr>de_onSubmitSignal = (\<lambda>sig now w. (Inr True, w)), de_isQuarantined = (\<lambda>w s. False),
     de_getPosition = (\<lambda>s w. if w = 0 then None else Some \<lparr>p_accountId = ''A'', p_symbol = s, p_positionSide = BOTH,
       p_status = OPEN, p_qty = w, p_entryPrice = 100, p_markPrice = None, p_unrealizedPnl = 0, p_realizedPnl = 0,
       p_leverage = 5, p_initialMargin = 0, p_maintenanceMargin = 0, p_maintenanceMarginRate = 0, p_totalFees = 0,
       p_totalFunding = 0, p_openedAtUtc = None, p_updatedAtUtc = 0, p_closedAtUtc = None\<rparr>),
     de_uuid = (\<lambda>n. showNat n), de_showNumber = (\<lambda>x. showInt \<lfloor>x\<rfloor>)\<rparr>"

definition sampleInput :: "string \<Rightarrow> signalAction \<Rightarrow> signalInput" where
  "sampleInput strategyId a = \<lparr>si_strategyId = strategyId, si_symbol = ''B'', si_action = a, si_confidence = 1,
     si_stopLossPrice = None, si_takeProfitPrice = None, si_ttlMs = 60000, si_features = [], si_reasoning = None\<rparr>"

definition sampleLockRun :: "(number engineOp \<times> ms) list" where
  "sampleLockRun = [(StartE, 0), (SubmitE (sampleInput ''s'' OPEN_LONG), 5), (SubmitE (sampleInput ''t'' OPEN_LONG), 100),
     (SubmitE (sampleInput ''t'' OPEN_SHORT), 300005)]"

lemmas engine_eval = sampleDeps_def sampleInput_def sampleLockRun_def engineStep_def submitSignal_def startEngine_def
  newEngine_def coalesce_def loopKeyOf_def reasonFor_def isLooping_def processSignal_def rawOf_def parseSignalInput_def
  processInput_def isOpenAction_def getSymbolLock_def refuse_def drawSignal_def syntheticCooldown_def coolingDown_def
  checkConflicts_def checkAndAcquireSymbolLock_def lockedByOther_def takeLock_def storeSignal_def submitToExecutor_def
  notifyListener_def recordOutcome_def pruneExpired_def mget_def mset_def mdel_def mvals_def cooldownKey_def actionName_def
  Let_def

lemma sample_locks:
  "seenOf (en_events (fst (fold (engineStep sampleDeps) sampleLockRun (newEngine (Some True) (Some 300000), 0))))
   = [toSignal (sampleInput ''s'' OPEN_LONG) 5 (showNat 0), toSignal (sampleInput ''t'' OPEN_SHORT) 300005 (showNat 2)]"
  by (simp add: engine_eval numeral_2_eq_2)

theorem one_strategy_per_symbol_witness:
  "sg_ts (toSignal (sampleInput ''s'' OPEN_LONG) 5 (showNat 0)) + 300000
     \<le> sg_ts (toSignal (sampleInput ''t'' OPEN_SHORT) 300005 (showNat 2))"
  using one_strategy_per_symbol [OF _ _ sample_locks [symmetric], of 0 1]
  by (simp add: sampleLockRun_def lockOp_def sampleInput_def isOpenAction_def)

subsection \<open>The memory of rejections\<close>

definition sameIntent :: "signal \<Rightarrow> signalInput \<Rightarrow> bool" where
  "sameIntent p i \<longleftrightarrow> (cooldownKey i = cooldownKey p \<longrightarrow> signalsEqual p i)"

definition intentOp :: "signal \<Rightarrow> 'w engineOp \<Rightarrow> bool" where
  "intentOp p opn \<longleftrightarrow>
     (case opn of SubmitE i \<Rightarrow> sameIntent p i | RegisterE s \<Rightarrow> goodStrategy (sameIntent p) s | _ \<Rightarrow> True)"

definition stuckInv :: "signal \<Rightarrow> signal list \<Rightarrow> ms \<Rightarrow> 'w engine \<Rightarrow> bool" where
  "stuckInv p handed now e \<longleftrightarrow>
     (\<exists>q. mget (en_lastSignalByKey e) (cooldownKey p) = Some q \<and> sg_status q = REJECTED_SG \<and> signalsEqual p q) \<and>
     filter (\<lambda>sig. cooldownKey sig = cooldownKey p) (seenOf (en_events e)) = handed"

lemma signalsEqual_via: "signalsEqual p q \<Longrightarrow> signalsEqual p r \<Longrightarrow> signalsEqual q r"
  by (auto simp: signalsEqual_def Let_def split: if_splits)

lemma cooldownKey_toSignal [simp]: "cooldownKey (toSignal i ts u) = cooldownKey i"
  "signalsEqual p (rejectSignal r (toSignal i ts u)) = signalsEqual p i"
  by (simp_all add: cooldownKey_def signalsEqual_def)

lemma stuckInv_input:
  assumes "stuckInv p handed now e" "sameIntent p i" "processInput dp c i now e w = (msg, e', w')"
  shows "stuckInv p handed now e'"
  using assms(3)
proof (cases rule: processInput_cases)
  case idle
  then show ?thesis using assms(1) by (simp add: stuckInv_def quietly_def)
next
  case (refused sig reason)
  then show ?thesis using assms(1,2) by (auto simp: stuckInv_def quietly_def sameIntent_def)
next
  case (handed sig stored)
  have "cooldownKey i \<noteq> cooldownKey p"
    using assms(1,2) handed(5) signalsEqual_via unfolding stuckInv_def sameIntent_def by metis
  then show ?thesis using assms(1) handed(1,7,12) by (auto simp: stuckInv_def)
qed

interpretation rejections: engine_contract dp "sameIntent p" "intentOp p" "stuckInv p handed" for dp :: "'w deps" and p handed
proof (unfold_locales, goal_cases)
  case (3 now e i c w msg e' w')
  then show ?case by (blast intro: stuckInv_input)
next
  case (7 now e opn w)
  have "mget (filter (\<lambda>kv. \<not> expiredEntry now kv) (en_lastSignalByKey e)) k = Some q"
    if "mget (en_lastSignalByKey e) k = Some q" "sg_status q = REJECTED_SG" for k q
    using mget_filter_kept [OF that(1), of "\<lambda>kv. \<not> expiredEntry now kv"] that(2) by (simp add: expiredEntry_def)
  then show ?case
    using 7 by (auto simp: stuckInv_def internalOp_def engineStep_def expireSignals_def Let_def listSymbolLocks_def
        acquireSymbolLock_def releaseSymbolLock_def startEngine_def stopEngine_def
        split: engineOp.splits if_splits option.splits)
qed (auto simp: stuckInv_def intentOp_def getSymbolLock_def split: option.splits)

text \<open>C23. A rejection sticks: the engine has stored a signal as rejected, by the conflict check or by the executor. As
  long as every later input under its strategy, symbol and action means the same (its dedup key included, if it
  has one), no operation removes it, neither expiry nor a restart of the engine, and none of these inputs is handed
  to the executor, at whatever time and whatever has become of the position. An input under the same key
  that means something else replaces it.\<close>

theorem rejected_key_never_submits:
  assumes "mget (en_lastSignalByKey e) (cooldownKey p) = Some p" "sg_status p = REJECTED_SG"
    "\<forall>s \<in> set (mvals (en_strategies e)). goodStrategy (sameIntent p) s"
    "sorted (map snd ops)" "\<forall>x \<in> set ops. intentOp p (fst x)"
  shows "filter (\<lambda>sig. cooldownKey sig = cooldownKey p) (seenOf (en_events (fst (fold (engineStep dp) ops (e, w)))))
     = filter (\<lambda>sig. cooldownKey sig = cooldownKey p) (seenOf (en_events e))"
proof -
  define t0 where "t0 = (case ops of [] \<Rightarrow> 0 | x # _ \<Rightarrow> snd x)"
  let ?handed = "filter (\<lambda>sig. cooldownKey sig = cooldownKey p) (seenOf (en_events e))"
  have "stuckInv p ?handed t0 e" using assms(1,2) by (auto simp: stuckInv_def signalsEqual_def)
  moreover have "sorted (t0 # map snd ops)" using assms(4) by (cases ops) (simp_all add: t0_def)
  ultimately have "stuckInv p ?handed (last (t0 # map snd ops)) (fst (fold (engineStep dp) ops (e, w)))"
    using assms(3,5) by (intro rejections.run_keeps) simp_all
  then show ?thesis by (simp add: stuckInv_def)
qed

text \<open>The strategy opens a long position while one is open, and is refused. The position is closed; a day
  later, after an expiry and a restart, it asks again: nothing is handed over.\<close>

definition sampleRejection :: signal where
  "sampleRejection = rejectSignal ''duplicate: long position already open'' (toSignal (sampleInput ''s'' OPEN_LONG) 5 (showNat 0))"

definition sampleRefused :: "number engine" where
  "sampleRefused = fst (fold (engineStep sampleDeps) [(StartE, 0), (SubmitE (sampleInput ''s'' OPEN_LONG), 5)]
     (newEngine None None, 2))"

lemma sampleRefused_state:
  "en_lastSignalByKey sampleRefused = [(''s:B:OPEN_LONG'', sampleRejection)]" "en_strategies sampleRefused = []"
  "seenOf (en_events sampleRefused) = []"
  by (simp_all add: sampleRefused_def engine_eval sampleRejection_def rejectSignal_def)

lemma sampleRejection_key: "cooldownKey sampleRejection = ''s:B:OPEN_LONG''"
  by (simp add: sampleRejection_def cooldownKey_def sampleInput_def actionName_def)

theorem rejected_key_never_submits_witness:
  "filter (\<lambda>sig. cooldownKey sig = cooldownKey sampleRejection) (seenOf (en_events (fst (fold (engineStep sampleDeps)
     [(ExpireE, 86400000), (StopE, 86400001), (StartE, 86400002), (SubmitE (sampleInput ''s'' OPEN_LONG), 86400003)]
     (sampleRefused, 0))))) = []"
proof -
  have "cooldownKey sampleRejection = ''s:B:OPEN_LONG''" "sg_status sampleRejection = REJECTED_SG"
    "mget (en_lastSignalByKey sampleRefused) (cooldownKey sampleRejection) = Some sampleRejection"
    "sameIntent sampleRejection (sampleInput ''s'' OPEN_LONG)"
    by (simp_all add: sampleRefused_state sampleRejection_key mget_def)
      (simp_all add: sampleRejection_def sameIntent_def signalsEqual_def sampleInput_def)
  then show ?thesis
    by (subst rejected_key_never_submits) (simp_all add: sampleRefused_state mvals_def intentOp_def)
qed

subsection \<open>Loops\<close>

text \<open>What the detector is asked to do, and the history of outcomes of one key, the newest first.\<close>

datatype detectorOp = RecordD string "string option" | QueryD string

definition detectorStep :: "detectorOp \<times> ms \<Rightarrow> loops \<Rightarrow> loops" where
  "detectorStep x m = (case x of (RecordD key outcome, now) \<Rightarrow> recordOutcome key outcome now m
     | (QueryD key, now) \<Rightarrow> snd (isLooping key now m))"

definition outcomesOf :: "string \<Rightarrow> (detectorOp \<times> ms) list \<Rightarrow> (string option \<times> ms) list" where
  "outcomesOf key ops = rev (List.map_filter (\<lambda>(opn, now). case opn of
     RecordD k outcome \<Rightarrow> if k = key then Some (outcome, now) else None | QueryD _ \<Rightarrow> None) ops)"

text \<open>How many of the newest outcomes are rejections for one reason, none older than the next by the
  forgetting time.\<close>

fun rejectionStreak :: "(string option \<times> ms) list \<Rightarrow> nat" where
  "rejectionStreak [] = 0"
| "rejectionStreak ((None, now) # h) = 0"
| "rejectionStreak [(Some r, now)] = 1"
| "rejectionStreak ((Some r, now) # (r', before) # h) =
     (if r' = Some r \<and> now - before < forgetAfterMs then Suc (rejectionStreak ((r', before) # h)) else 1)"

fun tracks :: "ms \<Rightarrow> (string option \<times> ms) list \<Rightarrow> loopEntry option \<Rightarrow> bool" where
  "tracks now h None \<longleftrightarrow> rejectionStreak h = 0 \<or> (h \<noteq> [] \<and> forgetAfterMs \<le> now - snd (hd h))"
| "tracks now h (Some e) \<longleftrightarrow> h \<noteq> [] \<and> hd h = (Some (le_reason e), le_lastAt e) \<and> le_count e = rejectionStreak h"

definition detectorInv :: "(detectorOp \<times> ms) list \<Rightarrow> ms \<Rightarrow> loops \<Rightarrow> bool" where
  "detectorInv ops now m \<longleftrightarrow> distinct (mkeys m) \<and> (\<forall>key. tracks now (outcomesOf key ops) (mget m key))"

lemma outcomesOf_simps [simp]:
  "outcomesOf key [] = []" "outcomesOf key (ops @ [(QueryD k, now)]) = outcomesOf key ops"
  "outcomesOf key (ops @ [(RecordD k outcome, now)]) = (if k = key then (outcome, now) # outcomesOf key ops else outcomesOf key ops)"
  by (simp_all add: outcomesOf_def map_filter_def)

lemma mget_filter:
  "distinct (mkeys m) \<Longrightarrow> mget (filter (\<lambda>(k, v). P v) m) key =
     (case mget m key of None \<Rightarrow> None | Some v \<Rightarrow> if P v then Some v else None)"
  by (induction m) (auto simp: mget_def mkeys_def map_of_eq_None_iff image_iff split: option.split)

lemma distinct_filter_keys: "distinct (mkeys m) \<Longrightarrow> distinct (mkeys (filter P m))"
  by (induction m) (auto simp: mkeys_def)

lemma streak_Some: "rejectionStreak ((Some r, t) # h) =
  (case h of (Some r', t') # h' \<Rightarrow> if r' = r \<and> t - t' < forgetAfterMs then Suc (rejectionStreak h) else 1 | _ \<Rightarrow> 1)"
  by (cases h rule: rejectionStreak.cases) auto

lemma tracks_prune: "tracks now h x \<Longrightarrow> tracks now h (case x of None \<Rightarrow> None
    | Some e \<Rightarrow> if now - le_lastAt e < forgetAfterMs then Some e else None)"
  by (auto split: option.split)

lemma tracks_time: "tracks now h x \<Longrightarrow> now \<le> later \<Longrightarrow> tracks later h x"
  by (cases x) auto

lemma tracks_expired: "tracks now h (Some e) \<Longrightarrow> forgetAfterMs \<le> now - le_lastAt e \<Longrightarrow> tracks now h None"
  by simp

lemma tracks_first: "tracks now h None \<Longrightarrow> tracks now ((Some r, now) # h) (Some \<lparr>le_count = 1, le_reason = r, le_lastAt = now\<rparr>)"
  by (cases h rule: rejectionStreak.cases) auto

lemma tracks_restart:
  "tracks now h (Some e) \<Longrightarrow> le_reason e \<noteq> r \<or> forgetAfterMs \<le> now - le_lastAt e \<Longrightarrow>
    tracks now ((Some r, now) # h) (Some \<lparr>le_count = 1, le_reason = r, le_lastAt = now\<rparr>)"
  by (cases h) (auto simp: streak_Some)

lemma tracks_again:
  "tracks now h (Some e) \<Longrightarrow> \<not> forgetAfterMs \<le> now - le_lastAt e \<Longrightarrow>
    tracks now ((Some (le_reason e), now) # h) (Some (e\<lparr>le_count := le_count e + 1, le_lastAt := now\<rparr>))"
  by (cases h) (auto simp: streak_Some)

lemma detector_prune: "detectorInv ops now m \<Longrightarrow> detectorInv ops now (pruneExpired now m)"
  using tracks_prune unfolding detectorInv_def pruneExpired_def by (simp add: mget_filter distinct_filter_keys)

lemma detector_time: "detectorInv ops now m \<Longrightarrow> now \<le> later \<Longrightarrow> detectorInv ops later m"
  using tracks_time unfolding detectorInv_def by blast

lemma detector_query:
  assumes "detectorInv ops now m" shows "detectorInv (ops @ [(QueryD key, now)]) now (snd (isLooping key now m))"
proof -
  have t: "tracks now (outcomesOf key ops) (mget m key)" using assms by (simp add: detectorInv_def)
  show ?thesis
    using assms tracks_expired [of now "outcomesOf key ops"] t unfolding detectorInv_def isLooping_def
    by (cases "mget m key") (auto simp: distinct_mdel simp del: tracks.simps)
qed

lemma detector_record:
  assumes "detectorInv ops now m" shows "detectorInv (ops @ [(RecordD key outcome, now)]) now (recordOutcome key outcome now m)"
proof (cases outcome)
  case None
  then show ?thesis
    using assms unfolding detectorInv_def by (simp add: recordOutcome_def distinct_mdel)
next
  case (Some reason)
  let ?m = "pruneExpired now m"
  have p: "distinct (mkeys ?m)" "tracks now (outcomesOf k ops) (mget ?m k)" for k
    using detector_prune [OF assms] by (simp_all add: detectorInv_def)
  then show ?thesis
    using p(2) [of key] tracks_first [of now "outcomesOf key ops" reason]
      tracks_restart [of now "outcomesOf key ops" _ reason] tracks_again [of now "outcomesOf key ops"]
    unfolding detectorInv_def
    by (cases "mget ?m key") (auto simp: Some recordOutcome_def Let_def simp del: tracks.simps)
qed

lemma detector_run:
  "sorted (map snd ops) \<Longrightarrow> \<forall>x \<in> set ops. snd x \<le> now \<Longrightarrow> detectorInv ops now (fold detectorStep ops [])"
proof (induction ops arbitrary: now rule: rev_induct)
  case Nil
  then show ?case by (simp add: detectorInv_def mget_def mkeys_def)
next
  case (snoc x ops)
  obtain opn t where x: "x = (opn, t)" by fastforce
  have "detectorInv ops t (fold detectorStep ops [])"
    using snoc.prems x by (intro snoc.IH) (auto simp: sorted_append)
  then have "detectorInv (ops @ [x]) t (fold detectorStep (ops @ [x]) [])"
    using detector_query detector_record by (cases opn) (simp_all add: x detectorStep_def)
  then show ?case using snoc.prems(2) x by (auto intro: detector_time)
qed

text \<open>The loop detector decides by the history alone: after any sequence of outcomes and queries it suppresses
  a key exactly when the last five outcomes of that key or more were rejections for one and the same reason,
  each less than ten minutes after the one before, and the newest is less than ten minutes old. What
  happens to other keys, the sweeps of old entries and the queries do not matter, and suppression lifts
  by itself.\<close>

theorem loops_match_history:
  assumes "sorted (map snd ops @ [now])"
  shows "fst (isLooping key now (fold detectorStep ops [])) \<longleftrightarrow>
    rejectionStreak (outcomesOf key ops) \<ge> 5 \<and> now - snd (hd (outcomesOf key ops)) < 600000"
proof -
  have "detectorInv ops now (fold detectorStep ops [])"
    using assms by (intro detector_run) (auto simp: sorted_append)
  then have "tracks now (outcomesOf key ops) (mget (fold detectorStep ops []) key)" by (simp add: detectorInv_def)
  then show ?thesis
    by (cases "mget (fold detectorStep ops []) key") (auto simp: isLooping_def maxRepeats_def forgetAfterMs_def)
qed

theorem loops_match_history_witness:
  "fst (isLooping ''k'' 9 (fold detectorStep (map (\<lambda>t. (RecordD ''k'' (Some ''r''), t)) [1, 2, 3, 4, 5]) []))"
  by (subst loops_match_history) (simp_all add: outcomesOf_def map_filter_def forgetAfterMs_def)

subsection \<open>What the submitter is told\<close>

text \<open>A submission within the cooldown is not handed to anybody, but where the previous signal of its key was
  accepted and has not expired yet the submitter is told that it was executed.\<close>

theorem suppressed_submission_reported_executed:
  assumes "en_running e" "si_action i \<noteq> HOLD" "fst (reasonFor (loopKeyOf dp i) now (en_loops e)) = None"
    "lockedByOther (si_symbol i) (si_strategyId i) now e = None" "parseSignalInput (rawOf i) = Inr i"
    "coolingDown (syntheticCooldown i) (cooldownKey i) now e"
    "mget (en_lastSignalByKey e) (cooldownKey i) = Some previous" "sg_status previous = CREATED_SG"
  shows "fst (submitSignal dp i now e w) = Inr (Some (previous\<lparr>sg_status := EXECUTED_SG\<rparr>))
    \<and> snd (snd (submitSignal dp i now e w)) = w"
proof -
  obtain loops1 where l: "reasonFor (loopKeyOf dp i) now (en_loops e) = (None, loops1)"
    using assms(3) by (metis prod.collapse)
  let ?e1 = "e\<lparr>en_loops := loops1\<rparr>"
  have p: "processSignal dp (si_strategyId i) (syntheticCooldown i) (rawOf i) now e' w = (None, e', w)"
    if "en_lastEmitted e' = en_lastEmitted e" for e'
    using assms(5,6) that by (simp add: processSignal_def processInput_def Let_def coolingDown_def)
  obtain lock e2 where lk: "(if en_symbolLockEnabled ?e1 \<and> isOpenAction (si_action i)
      then getSymbolLock (si_symbol i) now ?e1 else (None, ?e1)) = (lock, e2)" by fastforce
  have free: "(case lock of None \<Rightarrow> None | Some l \<Rightarrow> if sl_strategyId l \<noteq> si_strategyId i then Some l else None) = None"
    "en_lastEmitted e2 = en_lastEmitted e" "en_lastSignalByKey e2 = en_lastSignalByKey e"
    using lk assms(4) by (auto simp: getSymbolLock_def lockedByOther_def split: if_splits option.splits)
  show ?thesis
    unfolding submitSignal_def Let_def l prod.case option.case lk prod.case free(1) p [OF free(2)]
    using assms(1,2,7,8) free(3) by (simp add: coalesce_def)
qed

definition sampleAccepted :: "number engine" where
  "sampleAccepted = fst (fold (engineStep sampleDeps) [(StartE, 0), (SubmitE (sampleInput ''s'' OPEN_LONG), 5)]
     (newEngine None None, 0))"

lemma sampleAccepted_state:
  "en_lastSignalByKey sampleAccepted = [(''s:B:OPEN_LONG'', toSignal (sampleInput ''s'' OPEN_LONG) 5 (showNat 0))]"
  "en_lastEmitted sampleAccepted = [(''s:B:OPEN_LONG'', 5)]" "en_running sampleAccepted" "en_loops sampleAccepted = []"
  "en_symbolLocks sampleAccepted = [(''B'', \<lparr>sl_symbol = ''B'', sl_strategyId = ''s'', sl_acquiredAt = 5, sl_until = 300005\<rparr>)]"
  by (simp_all add: sampleAccepted_def engine_eval)

theorem suppressed_submission_reported_executed_witness:
  "fst (submitSignal sampleDeps (sampleInput ''s'' OPEN_LONG) 10 sampleAccepted 7)
     = Inr (Some ((toSignal (sampleInput ''s'' OPEN_LONG) 5 (showNat 0))\<lparr>sg_status := EXECUTED_SG\<rparr>))"
proof -
  have "reasonFor (loopKeyOf sampleDeps (sampleInput ''s'' OPEN_LONG)) 10 (en_loops sampleAccepted) = (None, [])"
    by (simp add: reasonFor_def isLooping_def mget_def sampleAccepted_state)
  moreover have "cooldownKey (sampleInput ''s'' OPEN_LONG) = ''s:B:OPEN_LONG''" "si_action (sampleInput ''s'' OPEN_LONG) = OPEN_LONG"
    "si_symbol (sampleInput ''s'' OPEN_LONG) = ''B''" "si_strategyId (sampleInput ''s'' OPEN_LONG) = ''s''"
    "syntheticCooldown (sampleInput ''s'' OPEN_LONG) = Some 60000"
    "parseSignalInput (rawOf (sampleInput ''s'' OPEN_LONG)) = Inr (sampleInput ''s'' OPEN_LONG)"
    by (simp_all add: engine_eval)
  ultimately show ?thesis
    using suppressed_submission_reported_executed [of sampleAccepted "sampleInput ''s'' OPEN_LONG" sampleDeps 10]
    by (simp add: sampleAccepted_state lockedByOther_def coolingDown_def mget_def)
qed

end
