(* ===== verification/Execution_Guarantees.thy ===== *)
theory Execution_Guarantees
  imports Signal_Execution Engine_Guarantees Gateway_Guarantees Paper_Broker_Guarantees
begin

section \<open>What sizing and execution guarantee\<close>

subsection \<open>Prices\<close>

lemma isDigit_facts: "isDigit c \<Longrightarrow> \<not> isBlank c" "isDigit c \<Longrightarrow> c \<noteq> CHR ''-''" "isDigit c \<Longrightarrow> c \<noteq> CHR ''+''"
  "isDigit c \<Longrightarrow> c \<noteq> CHR ''.''"
  by (auto simp: isDigit_def isBlank_def Let_def)

lemma trimString_digits:
  assumes "isDigit c" "isDigit d" "s = c # u" "s = v @ [d]" shows "trimString s = s"
  using assms isDigit_facts(1) [OF assms(1)] isDigit_facts(1) [OF assms(2)]
  by (simp add: trimString_def) (metis append_butlast_last_id butlast_snoc dropWhile.simps(2) last_snoc rev.simps(2) rev_rev_ident rev_append rev_singleton_conv append_Cons append_Nil list.discI)

lemma decimal_string_number:
  assumes "isDecimalString s" shows "jsNumber s = Some (decimalValue s)"
proof -
  define w where "w = takeWhile isDigit s"
  define r where "r = dropWhile isDigit s"
  have s: "s = w @ r" by (simp add: w_def r_def)
  have w: "list_all isDigit w" "w \<noteq> []" using assms by (auto simp: w_def isDecimalString_def list_all_iff dest: set_takeWhileD)
  have r: "r = [] \<or> (\<exists>f. r = CHR ''.'' # f \<and> f \<noteq> [] \<and> list_all isDigit f)"
    using assms by (auto simp: r_def isDecimalString_def split: list.splits)
  have "isDigit (last s)" using w r s by (auto simp: list_all_iff)
  moreover have "isDigit (hd s)" using w s by (cases w) auto
  moreover have "s \<noteq> []" using w s by simp
  ultimately have t: "trimString s = s"
    by (intro trimString_digits [of "hd s" "last s" s "tl s" "butlast s"]) simp_all
  have sign: "splitSign s = (False, s)"
    using \<open>isDigit (hd s)\<close> \<open>s \<noteq> []\<close> isDigit_facts by (cases s) (auto simp: splitSign_def)
  show ?thesis
    using r
  proof (elim disjE exE)
    assume "r = []"
    then show ?thesis using t sign w \<open>s \<noteq> []\<close> by (simp add: jsNumber_def decimalValue_def w_def [symmetric] r_def [symmetric] Let_def)
  next
    fix f assume "r = CHR ''.'' # f \<and> f \<noteq> [] \<and> list_all isDigit f"
    then show ?thesis
      using t sign w \<open>s \<noteq> []\<close>
      by (simp add: jsNumber_def decimalValue_def w_def [symmetric] r_def [symmetric] Let_def takeWhile_all_digits)
  qed
qed

text \<open>C28. A price that a strategy prints with \<open>toFixed\<close> reaches the broker as printed: when it is not negative and
  below \<open>1e21\<close> the schema accepts it and the stop order carries the price rounded to that many decimals; a
  negative price, and one from \<open>1e21\<close> on, which is printed with an exponent, is refused by the schema.\<close>

theorem printed_price_reaches_broker:
  assumes "si_action sig = OPEN_LONG \<or> si_action sig = OPEN_SHORT" "si_stopLossPrice sig = Some (showFixed places price)"
  shows "(if price < 0 \<or> 10 ^ 21 \<le> price then \<not> isDecimalString (showFixed places price)
    else isDecimalString (showFixed places price) \<and>
      map_option c_stopPrice (buildStopLossOrder lev sig quantity leverage) = Some (Some (toFixed places price)))"
proof (cases "price < 0 \<or> 10 ^ 21 \<le> price")
  case True
  then show ?thesis using fixed_price_roundtrip [of price places] by simp
next
  case False
  then have "isDecimalString (showFixed places price)" "jsNumber (showFixed places price) = Some (toFixed places price)"
    using fixed_price_roundtrip [of price places] decimal_string_number by auto
  moreover from this have "showFixed places price \<noteq> []" by (auto simp: isDecimalString_def)
  ultimately show ?thesis
    using False assms by (auto simp: buildStopLossOrder_def protectiveOrder_def Let_def)
qed

theorem printed_price_reaches_broker_witness:
  "map_option c_stopPrice (buildStopLossOrder 5 (toSignal ((sampleInput ''s'' OPEN_LONG)\<lparr>si_stopLossPrice := Some (showFixed 2 (12345 / 1000))\<rparr>) 0 ''id'') 1 None)
   = Some (Some (1235 / 100))"
  using printed_price_reaches_broker
    [of "toSignal ((sampleInput ''s'' OPEN_LONG)\<lparr>si_stopLossPrice := Some (showFixed 2 (12345 / 1000))\<rparr>) 0 ''id''" 2 "12345 / 1000" 5 1 None]
  by (simp add: sampleInput_def toFixed_def grid_def round_away_def)

subsection \<open>Sizes\<close>

text \<open>The risk a size takes: the loss at the stop, or the notional where there is none.\<close>

definition sizeBudget :: "sizingEngine \<Rightarrow> number \<Rightarrow> number \<Rightarrow> number option \<Rightarrow> number \<Rightarrow> bool" where
  "sizeBudget se equity entryPrice stopLossPrice quantity \<longleftrightarrow>
     (case stopLossPrice of
        Some stop \<Rightarrow> if stop > 0 then quantity * \<bar>entryPrice - stop\<bar> \<le> equity * se_riskPerTrade se
          else quantity * entryPrice \<le> equity * se_fallbackRiskPerTrade se
      | None \<Rightarrow> quantity * entryPrice \<le> equity * se_fallbackRiskPerTrade se)"

lemma wanted_in_budget:
  assumes "decimal_exact L" "0 < entryPrice" "0 \<le> equity * se_riskPerTrade se"
    "q \<le> wantedQty L se equity entryPrice stopLossPrice"
  shows "sizeBudget se equity entryPrice stopLossPrice q"
proof -
  have fallback: "q * entryPrice \<le> equity * se_fallbackRiskPerTrade se"
    if "q \<le> equity * se_fallbackRiskPerTrade se / entryPrice"
    using that assms(2) by (simp add: pos_le_divide_eq)
  have risk: "q * \<bar>entryPrice - stop\<bar> \<le> equity * se_riskPerTrade se"
    if "entryPrice \<noteq> stop" "q \<le> equity * se_riskPerTrade se / \<bar>entryPrice - stop\<bar>" for stop
    using that by (simp add: pos_le_divide_eq)
  show ?thesis
    using assms fallback risk by (auto simp: wantedQty_def sizeBudget_def lib_exact Let_def split: option.splits if_splits)
qed

text \<open>What the sizing engine returns is positive, a whole number of lots and worth at least the minimal notional;
  and unless it had to be raised to the minimal lot it stays within the notional cap and the risk budget.\<close>

theorem sizing_bounds:
  assumes "decimal_exact L" "0 < i_stepSize instr" "0 \<le> equity * se_riskPerTrade se"
    "sizePosition L se equity instr entryPrice stopLossPrice = Inr r"
  shows "0 < sr_quantity r \<and> (\<exists>lots :: int. sr_quantity r = of_int lots * i_stepSize instr)
    \<and> sr_notional r = sr_quantity r * entryPrice \<and> sr_notional r \<ge> coalesce (i_minNotional instr) 0
    \<and> (sr_quantity r \<le> coalesce (i_minQty instr) 0
       \<or> sr_notional r \<le> se_maxNotional se \<and> sizeBudget se equity entryPrice stopLossPrice (sr_quantity r))"
proof -
  let ?wanted = "wantedQty L se equity entryPrice stopLossPrice"
  define capped where "capped = (if x_mul L ?wanted entryPrice > se_maxNotional se then x_div L (se_maxNotional se) entryPrice else ?wanted)"
  define rounded where "rounded = roundStep L capped (i_stepSize instr)"
  from assms(4) have entry: "0 < entryPrice" by (auto simp: sizePosition_def split: if_splits)
  from assms(4) obtain minQty minNotional where mins: "i_minQty instr = Some minQty" "i_minNotional instr = Some minNotional"
    by (auto simp: sizePosition_def Let_def split: if_splits option.splits)
  define q where "q = (if rounded < minQty then roundStep L minQty (i_stepSize instr) else rounded)"
  have r: "sr_quantity r = q" "sr_notional r = x_mul L q entryPrice" "0 < q" "minNotional \<le> x_mul L q entryPrice"
    using assms(4) entry mins
    by (auto simp: sizePosition_def Let_def capped_def [symmetric] rounded_def [symmetric] q_def split: if_splits)
  have cap: "capped \<le> ?wanted" "capped * entryPrice \<le> se_maxNotional se"
    using entry assms(1) by (auto simp: capped_def lib_exact pos_divide_le_eq not_le)
  have "rounded \<le> capped" unfolding rounded_def by (rule roundStep_le [OF assms(1,2)])
  moreover from this have "rounded * entryPrice \<le> capped * entryPrice" using entry by (intro mult_right_mono) simp_all
  ultimately have within: "rounded * entryPrice \<le> se_maxNotional se" "sizeBudget se equity entryPrice stopLossPrice rounded"
    using cap wanted_in_budget [OF assms(1) entry assms(3), of rounded stopLossPrice] by linarith+
  have "q \<le> minQty \<or> q = rounded" using roundStep_le [OF assms(1,2), of minQty] by (simp add: q_def)
  moreover have "\<exists>lots :: int. q = of_int lots * i_stepSize instr"
    using assms(1,2) by (auto simp: q_def rounded_def roundStep_def lib_exact)
  ultimately show ?thesis
    using r within assms(1) mins by (auto simp: lib_exact coalesce_def)
qed

definition sampleSizing :: sizingEngine where
  "sampleSizing = newSizingEngine None None None"

theorem sizing_bounds_witness:
  "sizePosition exactLib sampleSizing 10000 btcPerp 100 (Some 95) = Inr \<lparr>sr_quantity = 10, sr_notional = 1000, sr_reason = RiskBased (1 / 2)\<rparr>
   \<and> sizeBudget sampleSizing 10000 100 (Some 95) 10"
proof -
  have s: "sizePosition exactLib sampleSizing 10000 btcPerp 100 (Some 95)
      = Inr \<lparr>sr_quantity = 10, sr_notional = 1000, sr_reason = RiskBased (1 / 2)\<rparr>"
    by (simp add: sizePosition_def sampleSizing_def newSizingEngine_def coalesce_def wantedQty_def exactLib_def btcPerp_def
        roundStep_def Let_def)
  show ?thesis
    using sizing_bounds [OF _ _ _ s] s by (simp add: sampleSizing_def newSizingEngine_def coalesce_def btcPerp_def)
qed

text \<open>The minimal lot overrides the risk budget: where the budget buys less than the minimal lot, the position is
  raised to that lot and loses more at its stop than the budget, without an error and with the reason
  still naming the budgeted share.\<close>

theorem minimal_lot_breaks_budget:
  assumes "decimal_exact L" "0 < i_stepSize instr" "0 < entryPrice" "0 < stop" "stop \<noteq> entryPrice"
    "i_minQty instr = Some minQty" "i_minNotional instr = Some minNotional" "minNotional \<le> minQty * entryPrice" "0 < minQty"
    "minQty = of_int lots * i_stepSize instr" "minQty * entryPrice \<le> se_maxNotional se"
    "equity * se_riskPerTrade se < minQty * \<bar>entryPrice - stop\<bar>"
  shows "\<exists>r. sizePosition L se equity instr entryPrice (Some stop) = Inr r \<and> sr_quantity r = minQty
    \<and> sr_reason r = RiskBased (se_riskPerTrade se * 100) \<and> \<not> sizeBudget se equity entryPrice (Some stop) (sr_quantity r)"
proof -
  let ?wanted = "wantedQty L se equity entryPrice (Some stop)"
  have "?wanted = equity * se_riskPerTrade se / \<bar>entryPrice - stop\<bar>"
    using assms(1,4,5) by (simp add: wantedQty_def Let_def lib_exact)
  then have wanted: "?wanted < minQty" using assms(5,12) by (simp add: pos_divide_less_eq)
  then have "?wanted * entryPrice \<le> minQty * entryPrice" using assms(3) by (intro mult_right_mono) simp_all
  then have uncapped: "\<not> x_mul L ?wanted entryPrice > se_maxNotional se" using assms(1,11) by (simp add: lib_exact)
  have "roundStep L ?wanted (i_stepSize instr) < minQty" using roundStep_le [OF assms(1,2), of ?wanted] wanted by simp
  moreover have "roundStep L minQty (i_stepSize instr) = minQty"
    using assms(1,2,10) by (simp add: roundStep_def lib_exact)
  ultimately show ?thesis
    using assms uncapped by (simp add: sizePosition_def sizeBudget_def Let_def lib_exact not_le)
qed

theorem minimal_lot_breaks_budget_witness:
  "\<exists>r. sizePosition exactLib sampleSizing 1 (btcPerp\<lparr>i_minQty := Some 1\<rparr>) 100 (Some 95) = Inr r \<and> sr_quantity r = 1
    \<and> \<not> sizeBudget sampleSizing 1 100 (Some 95) (sr_quantity r)"
  using minimal_lot_breaks_budget [of exactLib "btcPerp\<lparr>i_minQty := Some 1\<rparr>" 100 95 1 5 100 sampleSizing 1]
  by (simp add: sampleSizing_def newSizingEngine_def coalesce_def btcPerp_def) metis

subsection \<open>Execution\<close>

lemma refuseSignal_simps [simp]:
  "fst (refuseSignal sig reason x) = False" "ex_broker (snd (refuseSignal sig reason x)) = ex_broker x"
  "ex_updates (snd (refuseSignal sig reason x)) = ex_updates x
     @ [\<lparr>up_id = sg_id sig, up_status = REJECTED_SG, up_orderId = None, up_rejectReason = reason\<rparr>]"
  by (simp_all add: refuseSignal_def updateStatus_def)

lemma updateStatus_simps [simp]: "ex_broker (updateStatus sig st oid reason x) = ex_broker x"
  "ex_updates (updateStatus sig st oid reason x) = ex_updates x
     @ [\<lparr>up_id = sg_id sig, up_status = st, up_orderId = oid, up_rejectReason = reason\<rparr>]"
  by (simp_all add: updateStatus_def)

text \<open>The command of a sized signal; the fallback of the code is never needed for one.\<close>

definition mainCommand :: "'s executorDeps \<Rightarrow> signal \<Rightarrow> number \<Rightarrow> orderCommand" where
  "mainCommand xd sig quantity =
     bareCommand sig quantity (Some (coalesce (featureOr sig ''leverage'' 5) (ed_defaultLeverage xd))) (entrySide (si_action sig))
       MARKET (isCloseAction (si_action sig))"

lemma main_command:
  "isOpenAction (si_action sig) \<or> isCloseAction (si_action sig) \<Longrightarrow>
   coalesce (buildSignalOrder (ed_defaultLeverage xd) sig quantity (featureOr sig ''leverage'' 5))
     (fallbackCommand sig quantity (featureOr sig ''leverage'' 5)) = mainCommand xd sig quantity"
  by (auto simp: buildSignalOrder_def mainCommand_def entrySide_def isOpenAction_def isCloseAction_def coalesce_def Let_def)

lemma execute_cases:
  assumes "execute L xd sig now x = (ok, x1)" "si_action sig \<noteq> HOLD" "si_action sig \<noteq> CANCEL_ALL_ACTION"
  obtains (refused) reason where "\<not> ok" "x1 = snd (refuseSignal sig (Some reason) x)"
      "reason \<in> {''NO_MARKET_STATE'', ''SIZING_FAILED'', ''ZERO_QUANTITY''}"
  | (sized) quantity where "0 < quantity" "executeSized xd sig quantity now x = (ok, x1)"
      "isCloseAction (si_action sig) \<Longrightarrow> \<exists>p. bp_getPosition (ed_broker xd) (si_symbol sig) (ex_broker x) = Some p \<and> quantity \<le> \<bar>p_qty p\<bar>"
proof -
  let ?pos = "bp_getPosition (ed_broker xd) (si_symbol sig) (ex_broker x)"
  have closing: "\<exists>p. ?pos = Some p \<and> closeQty sig ?pos \<le> \<bar>p_qty p\<bar>" if "0 < closeQty sig ?pos"
  proof -
    from that obtain p where p: "?pos = Some p" by (cases ?pos) (auto simp: closeQty_def)
    have "closeFraction sig \<le> 1" by (auto simp: closeFraction_def split: option.split)
    then have "\<bar>p_qty p\<bar> * closeFraction sig \<le> \<bar>p_qty p\<bar> * 1" by (intro mult_left_mono) simp_all
    with p show ?thesis by (auto simp: closeQty_def)
  qed
  have notOpen: "openQty L xd sig e s = Some 0" if "isCloseAction (si_action sig)" for e s
    using that by (auto simp: openQty_def isOpenAction_def isCloseAction_def)
  show thesis
  proof (cases "entryPriceOf (si_action sig) (ed_getMarketState xd (si_symbol sig))")
    case None
    then show ?thesis using assms by (intro refused [of "''NO_MARKET_STATE''"]) (simp_all add: execute_def refuseSignal_def)
  next
    case (Some e)
    show ?thesis
    proof (cases "e \<le> 0 \<or> openQty L xd sig e (ex_broker x) = None")
      case True
      then show ?thesis
        using assms Some refused [of "''NO_MARKET_STATE''"] refused [of "''SIZING_FAILED''"]
        by (auto simp: execute_def refuseSignal_def split: if_splits)
    next
      case False
      then obtain opened where o: "openQty L xd sig e (ex_broker x) = Some opened" by blast
      define quantity where "quantity = (if closeQty sig ?pos > 0 then closeQty sig ?pos else opened)"
      have ex: "execute L xd sig now x =
          (if quantity \<le> 0 then refuseSignal sig (Some ''ZERO_QUANTITY'') x else executeSized xd sig quantity now x)"
        using assms(2,3) Some False o by (simp add: execute_def Let_def quantity_def)
      show ?thesis
      proof (cases "quantity \<le> 0")
        case True
        then show ?thesis using assms(1) ex by (intro refused [of "''ZERO_QUANTITY''"]) (simp_all add: refuseSignal_def)
      next
        case False
        then show ?thesis
          using assms(1) ex closing notOpen o by (intro sized [of quantity]) (auto simp: quantity_def split: if_splits)
      qed
    qed
  qed
qed

lemma executeSized_cases:
  assumes "executeSized xd sig quantity now x = (ok, x1)" "isOpenAction (si_action sig) \<or> isCloseAction (si_action sig)"
  obtains (threw) msg s1 where "bp_submitOrder (ed_broker xd) (mainCommand xd sig quantity) now (ex_broker x) = (Inl msg, s1)"
      "\<not> ok" "x1 = snd (refuseSignal sig (Some ''ORDER_SUBMISSION_ERROR'') (x\<lparr>ex_broker := s1\<rparr>))"
  | (rejected) ord s1 where "bp_submitOrder (ed_broker xd) (mainCommand xd sig quantity) now (ex_broker x) = (Inr ord, s1)"
      "o_status ord = REJECTED" "\<not> ok" "x1 = snd (refuseSignal sig (o_rejectReason ord) (x\<lparr>ex_broker := s1\<rparr>))"
  | (failed) ord s1 msg s2 where "bp_submitOrder (ed_broker xd) (mainCommand xd sig quantity) now (ex_broker x) = (Inr ord, s1)"
      "o_status ord \<noteq> REJECTED" "submitProtections xd sig quantity (featureOr sig ''leverage'' 5) now s1 = (Inl msg, s2)" "\<not> ok"
      "x1 = snd (refuseSignal sig (Some ''ORDER_SUBMISSION_ERROR'')
         ((updateStatus sig EXECUTED_SG (Some (o_id ord)) None (x\<lparr>ex_broker := s1\<rparr>))\<lparr>ex_broker := s2\<rparr>))"
  | (completed) ord s1 s2 where "bp_submitOrder (ed_broker xd) (mainCommand xd sig quantity) now (ex_broker x) = (Inr ord, s1)"
      "o_status ord \<noteq> REJECTED" "submitProtections xd sig quantity (featureOr sig ''leverage'' 5) now s1 = (Inr (), s2)" "ok"
      "x1 = (updateStatus sig EXECUTED_SG (Some (o_id ord)) None (x\<lparr>ex_broker := s1\<rparr>))\<lparr>ex_broker := s2\<rparr>"
  using assms(1) that unfolding executeSized_def Let_def main_command [OF assms(2)]
  by (auto simp: refuseSignal_def split: prod.splits sum.splits if_splits)

lemma actions: "a \<noteq> HOLD \<Longrightarrow> a \<noteq> CANCEL_ALL_ACTION \<Longrightarrow> isOpenAction a \<or> isCloseAction a"
  by (cases a) (simp_all add: isOpenAction_def isCloseAction_def)

text \<open>No silent outcome: every opening or closing signal ends with a status in the repository. Success is reported
  exactly with one update to \<open>EXECUTED\<close> that names an order the broker accepted for a positive quantity on the
  signal's side, reduce-only and no larger than the position when the signal closes; otherwise the last
  update is a rejection with a reason.\<close>

theorem execution_verdict:
  assumes "execute L xd sig now x = (ok, x1)" "si_action sig \<noteq> HOLD" "si_action sig \<noteq> CANCEL_ALL_ACTION"
  shows "\<exists>us. ex_updates x1 = ex_updates x @ us \<and> map up_id us = replicate (length us) (sg_id sig) \<and>
    (if ok then (\<exists>ord s1 quantity. 0 < quantity
        \<and> bp_submitOrder (ed_broker xd) (mainCommand xd sig quantity) now (ex_broker x) = (Inr ord, s1)
        \<and> o_status ord \<noteq> REJECTED \<and> map up_status us = [EXECUTED_SG] \<and> map up_orderId us = [Some (o_id ord)]
        \<and> (isCloseAction (si_action sig) \<longrightarrow>
            (\<exists>p. bp_getPosition (ed_broker xd) (si_symbol sig) (ex_broker x) = Some p \<and> quantity \<le> \<bar>p_qty p\<bar>)))
     else us \<noteq> [] \<and> up_status (last us) = REJECTED_SG \<and> up_orderId (last us) = None)"
  using assms
proof (cases rule: execute_cases)
  case (refused reason)
  then show ?thesis by simp
next
  case (sized quantity)
  have act: "isOpenAction (si_action sig) \<or> isCloseAction (si_action sig)" using assms(2,3) by (rule actions)
  from sized(2) act show ?thesis
    by (cases rule: executeSized_cases) (use sized(1,3) in \<open>auto\<close>)
qed

text \<open>Protection over any broker, for a signal with a stop alone: a submission of the stop that throws leaves the
  signal \<open>REJECTED\<close> after it was \<open>EXECUTED\<close>, though its entry stands; one that returns, with whatever status, leaves it
  executed.\<close>

theorem protection_report:
  assumes "isOpenAction (si_action sig)" "executeSized xd sig quantity now x = (ok, x1)"
    "bp_submitOrder (ed_broker xd) (mainCommand xd sig quantity) now (ex_broker x) = (Inr ord, s1)" "o_status ord \<noteq> REJECTED"
    "buildStopLossOrder (ed_defaultLeverage xd) sig quantity (featureOr sig ''leverage'' 5) = Some c"
    "buildTakeProfitOrder (ed_defaultLeverage xd) sig quantity (featureOr sig ''leverage'' 5) = None"
    "bp_submitOrder (ed_broker xd) c now s1 = (outcome, s2)"
  shows "ex_broker x1 = s2 \<and> (case outcome of
      Inr stop \<Rightarrow> ok \<and> map up_status (drop (length (ex_updates x)) (ex_updates x1)) = [EXECUTED_SG]
    | Inl msg \<Rightarrow> \<not> ok \<and> map up_status (drop (length (ex_updates x)) (ex_updates x1)) = [EXECUTED_SG, REJECTED_SG])"
proof -
  have p: "submitProtections xd sig quantity (featureOr sig ''leverage'' 5) now s1
      = (case outcome of Inl msg \<Rightarrow> (Inl msg, s2) | Inr stop \<Rightarrow> (Inr (), s2))"
    using assms(1,5,6,7) by (simp add: submitProtections_def submitProtection_def split: sum.split)
  have act: "isOpenAction (si_action sig) \<or> isCloseAction (si_action sig)" using assms(1) by simp
  from assms(2) act show ?thesis
    by (cases rule: executeSized_cases) (use assms(3,4) p in \<open>auto split: sum.splits\<close>)
qed

text \<open>A venue that takes market orders and whose connection breaks at stops.\<close>

definition sampleOrder :: "orderCommand \<Rightarrow> order" where
  "sampleOrder c = \<lparr>o_id = ''o'', o_clientOrderId = ''c'', o_accountId = ''A'', o_symbol = c_symbol c, o_strategyId = None, o_signalId = None,
     o_side = c_side c, o_type = c_type c, o_timeInForce = GTC, o_status = FILLED, o_positionSide = BOTH, o_quantity = c_quantity c,
     o_filledQty = c_quantity c, o_limitPrice = None, o_stopPrice = None, o_activationPrice = None, o_callbackRate = None,
     o_avgFillPrice = 100, o_leverage = 5, o_marginType = None, o_reduceOnly = False, o_postOnly = False, o_closePosition = False,
     o_workingType = None, o_rejectReason = None, o_submittedAtUtc = 0, o_updatedAtUtc = 0\<rparr>"

definition sampleVenue :: "order list port" where
  "sampleVenue = \<lparr>bp_submitOrder = (\<lambda>c now s. if c_type c = MARKET then (Inr (sampleOrder c), s @ [sampleOrder c]) else (Inl ''timeout'', s)),
     bp_cancelOrder = (\<lambda>oid reason now s. (Inr None, s)), bp_cancelAllOrders = (\<lambda>symbol now s. s), bp_getOpenOrders = (\<lambda>symbol s. []),
     bp_getPositions = (\<lambda>s. (Inr [], s)), bp_getPosition = (\<lambda>symbol s. None)\<rparr>"

definition sampleMarket :: "string \<Rightarrow> marketState option" where
  "sampleMarket s = Some \<lparr>m_symbol = s, m_bid = Some 99, m_ask = Some 100, m_bidQty = None, m_askQty = None, m_spread = None, m_last = None,
     m_lastQty = None, m_mark = None, m_index = None, m_fundingRate = None, m_exchangeTsUtc = None, m_localTsUtc = 0, m_latencyMs = None,
     m_stale = False, m_lastQualityStatus = None\<rparr>"

definition sampleExecutorDeps :: "order list executorDeps" where
  "sampleExecutorDeps = \<lparr>ed_broker = sampleVenue, ed_defaultLeverage = 5, ed_getMarketState = sampleMarket,
     ed_sizingEngine = None, ed_getAccount = None, ed_getInstrument = None\<rparr>"

definition sampleStopSignal :: signal where
  "sampleStopSignal = toSignal ((sampleInput ''s'' OPEN_LONG)\<lparr>si_stopLossPrice := Some ''95'', si_features := [(''quantity'', FNum 2)]\<rparr>) 0 ''id''"

lemmas execution_eval = sampleExecutorDeps_def sampleVenue_def sampleMarket_def sampleStopSignal_def sampleInput_def featureOr_def
  featureNumber_def mget_def isOpenAction_def isCloseAction_def

theorem execution_verdict_witness:
  "\<exists>us. ex_updates (snd (execute exactLib sampleExecutorDeps (sampleStopSignal\<lparr>si_stopLossPrice := None\<rparr>) 5 \<lparr>ex_broker = [], ex_updates = []\<rparr>)) = us
     \<and> map up_status us = [EXECUTED_SG] \<and> map up_orderId us = [Some ''o'']"
proof -
  let ?sig = "sampleStopSignal\<lparr>si_stopLossPrice := None\<rparr>" and ?x = "\<lparr>ex_broker = [], ex_updates = []\<rparr> :: order list executor"
  obtain ok x1 where e: "execute exactLib sampleExecutorDeps ?sig 5 ?x = (ok, x1)" by fastforce
  have "fst (execute exactLib sampleExecutorDeps ?sig 5 ?x)"
    by (simp add: execute_def executeSized_def execution_eval entryPriceOf_def openQty_def closeQty_def buildSignalOrder_def coalesce_def
        orElse_def bareCommand_def sampleOrder_def submitProtections_def submitProtection_def buildStopLossOrder_def
        buildTakeProfitOrder_def protectiveOrder_def Let_def)
  then have ok by (simp add: e)
  have act: "si_action ?sig \<noteq> HOLD" "si_action ?sig \<noteq> CANCEL_ALL_ACTION" by (simp_all add: execution_eval)
  obtain us ord s1 quantity where u: "ex_updates x1 = us" "map up_status us = [EXECUTED_SG]" "map up_orderId us = [Some (o_id ord)]"
    "bp_submitOrder sampleVenue (mainCommand sampleExecutorDeps ?sig quantity) 5 [] = (Inr ord, s1)"
    using execution_verdict [OF e act] \<open>ok\<close> by (auto simp: sampleExecutorDeps_def)
  then have "o_id ord = ''o''" by (auto simp: sampleVenue_def sampleOrder_def split: if_splits)
  with u show ?thesis by (simp add: e)
qed

theorem protection_report_witness:
  "map up_status (ex_updates (snd (executeSized sampleExecutorDeps sampleStopSignal 2 5 \<lparr>ex_broker = [], ex_updates = []\<rparr>)))
     = [EXECUTED_SG, REJECTED_SG]
   \<and> length (ex_broker (snd (executeSized sampleExecutorDeps sampleStopSignal 2 5 \<lparr>ex_broker = [], ex_updates = []\<rparr>))) = 1"
proof -
  let ?x = "\<lparr>ex_broker = [], ex_updates = []\<rparr> :: order list executor"
  obtain ok x1 where e: "executeSized sampleExecutorDeps sampleStopSignal 2 5 ?x = (ok, x1)" by fastforce
  let ?main = "mainCommand sampleExecutorDeps sampleStopSignal 2"
  have m: "isOpenAction (si_action sampleStopSignal)"
    "bp_submitOrder (ed_broker sampleExecutorDeps) ?main 5 (ex_broker ?x) = (Inr (sampleOrder ?main), [sampleOrder ?main])"
    "o_status (sampleOrder ?main) \<noteq> REJECTED"
    "buildTakeProfitOrder (ed_defaultLeverage sampleExecutorDeps) sampleStopSignal 2 (featureOr sampleStopSignal ''leverage'' 5) = None"
    by (simp_all add: execution_eval mainCommand_def bareCommand_def sampleOrder_def buildTakeProfitOrder_def protectiveOrder_def)
  obtain c where c: "buildStopLossOrder (ed_defaultLeverage sampleExecutorDeps) sampleStopSignal 2
      (featureOr sampleStopSignal ''leverage'' 5) = Some c" "c_type c = STOP_MARKET"
    by (simp add: execution_eval buildStopLossOrder_def protectiveOrder_def bareCommand_def Let_def)
  have "bp_submitOrder (ed_broker sampleExecutorDeps) c 5 [sampleOrder ?main] = (Inl ''timeout'', [sampleOrder ?main])"
    using c(2) by (simp add: sampleExecutorDeps_def sampleVenue_def)
  from protection_report [OF m(1) e m(2,3) c(1) m(4) this] show ?thesis by (simp add: e)
qed

end
