(* ===== verification/Protection_Guarantees.thy ===== *)
theory Protection_Guarantees
  imports Execution_Guarantees Trailing_Guarantees
begin

section \<open>What the executor reports when protection fails\<close>

text \<open>
  The executor (\<open>strategy/SignalExecutor.ts\<close>) over the paper broker: what it reports, and what rests for
  the position, when the stop that belongs to an accepted entry is refused. The broker is the paper
  broker's model behind its port; that submissions of trigger orders leave resting orders alone is the
  interpreted desk of the trailing stops.
\<close>

subsection \<open>What a submission leaves in the order book\<close>

text \<open>A book is a map from order ids; \<open>T\<close> are the order types in it.\<close>

definition bookOf :: "orderType set \<Rightarrow> (string, order) jsmap \<Rightarrow> bool" where
  "bookOf T os \<longleftrightarrow> distinct (mkeys os) \<and> (\<forall>k ord. mget os k = Some ord \<longrightarrow> o_type ord \<in> T)"

lemma bookOf_set [simp]: "bookOf T os \<Longrightarrow> o_type ord \<in> T \<Longrightarrow> bookOf T (mset k ord os)"
  by (simp add: bookOf_def)

lemma bookOf_type: "bookOf T os \<Longrightarrow> mget os k = Some ord \<Longrightarrow> o_type ord \<in> T"
  by (simp add: bookOf_def)

lemma bookOf_cur: "bookOf T (orders b) \<Longrightarrow> o_type ord \<in> T \<Longrightarrow> o_type (cur b ord) \<in> T"
  by (cases "mget (orders b) (o_id ord)") (simp_all add: cur_def coalesce_def bookOf_type)

lemma book_cancel: "bookOf T (orders b) \<Longrightarrow> bookOf T (orders (snd (cancelOrder k reason now b)))"
  by (simp add: cancelOrder_def Let_def bookOf_type [of T "orders b" k] split: option.split)

lemma book_cancelStale: "bookOf T (orders b) \<Longrightarrow> bookOf T (orders (cancelStaleBracketOrders symbol now b))"
  unfolding cancelStaleBracketOrders_def
  by (rule fold_invariant [where Q = "\<lambda>k. True"]) (auto simp: cancelIf_def book_cancel split: option.split)

lemma book_settle:
  assumes "settleFill L ord quantity price liq now b = Inr (realized, fee, b')" "bookOf T (orders b)" "o_type ord \<in> T"
  shows "bookOf T (orders b')"
proof -
  let ?fee = "x_mul L (x_mul L quantity price) (if liq = MAKER then makerFeeRate b else takerFeeRate b)"
  let ?b1 = "b\<lparr>walletBalance := x_sub L (walletBalance b) ?fee, totalFees := x_add L (totalFees b) ?fee\<rparr>"
  obtain r b2 where ap: "applyPositionFill L (o_symbol ord) (o_side ord) quantity price (o_leverage ord) now ?b1 = Inr (r, b2)"
    using assms(1) by (cases "applyPositionFill L (o_symbol ord) (o_side ord) quantity price (o_leverage ord) now ?b1")
      (simp_all add: settleFill_def Let_def split_paired_all)
  then have "\<exists>o1 b3. b' = setOrder o1 b3 \<and> orders b3 = orders b2 \<and> o_type o1 = o_type (cur b3 ord)"
    using assms(1) by (auto simp: settleFill_def Let_def split: option.splits intro!: exI)
  moreover have "bookOf T (orders b2)"
    using ap assms(2) by (auto simp: applyPositionFill_def Let_def split_beta book_cancelStale split: option.splits if_splits)
  ultimately show ?thesis using bookOf_cur assms(3) by fastforce
qed

lemma orders_recorded: "orders (notifyFill now ord fl (recordFill L o1 fl1 now b)) = orders b"
proof -
  have "orders (recordFill L o1 fl1 now b) = orders b"
    by (simp add: recordFill_def Let_def postLedger_def nextUlid_eq)
  then show ?thesis by (simp add: notifyFill_def split: option.split)
qed

lemma book_execute:
  assumes "executeFill L ord quantity price liq now b = Inr b'" "bookOf T (orders b)" "o_type ord \<in> T"
  shows "bookOf T (orders b')"
proof -
  obtain realized fee b1 where s: "settleFill L ord quantity price liq now b = Inr (realized, fee, b1)"
    using assms(1) by (auto simp: executeFill_def bindR_eq_Inr)
  then have "orders b' = orders b1"
    using assms(1) by (auto simp: executeFill_def nextUlid_eq Let_def orders_recorded)
  with book_settle [OF s assms(2,3)] show ?thesis by simp
qed

lemma book_reject: "bookOf T (orders b) \<Longrightarrow> o_type ord \<in> T \<Longrightarrow> bookOf T (orders (snd (rejectOrder ord reason now b)))"
  by (simp add: rejectOrder_def Let_def)

lemma book_fill:
  assumes "fillOrder L ord m liq now b = Inr b'" "bookOf T (orders b)" "o_type ord \<in> T"
  shows "bookOf T (orders b')"
  using assms
  by (auto simp: fillOrder_def bindR_eq_Inr Let_def book_reject bookOf_cur dest!: book_execute split: option.splits if_splits)

lemma book_route:
  assumes "routeOrder L ord m now b = Inr (ord', b')" "bookOf T (orders b)" "o_type ord \<in> T"
  shows "bookOf T (orders b')"
proof -
  have "bookOf T (orders b')" if "fillNow L ord m now b = Inr (ord', b')"
    using that book_fill [OF _ assms(2,3)] by (auto simp: fillNow_def bindR_eq_Inr)
  moreover have "bookOf T (orders b')" if "rejectOrder ord reason now b = (ord', b')" for reason
    using that book_reject [OF assms(2,3), of reason now] by simp
  ultimately show ?thesis
    using assms(1) book_cancel [OF assms(2)] assms(2)
    by (auto simp: routeOrder_def Let_def split_beta split: orderType.splits if_splits)
qed

lemma book_submit:
  assumes "submitOrder L c now b = Inr (ord', b')" "bookOf T (orders b)" "c_type c \<in> T"
  shows "bookOf T (orders b')"
proof -
  obtain instr where i: "mget (instruments b) (c_symbol c) = Some instr"
    using assms(1) by (auto simp: submitOrder_def split: option.splits)
  obtain ord b0 where bo: "buildOrder L c instr now b = (ord, b0)" by fastforce
  note f = buildOrder_facts [of L c instr now b, unfolded bo fst_conv snd_conv]
  define b2 where "b2 = emitOrderEvent now ORDER_RECEIVED ord None None (setOrder ord b0)"
  have ord: "o_type ord \<in> T" using f(4) assms(3) by simp
  have b2: "bookOf T (orders b2)"
    using f(10) assms(2) ord by (auto simp: b2_def)
  have refused: ?thesis if "rejectOrder ord reason now b3 = (ord', b')" "orders b3 = orders b2" for reason b3
    using that book_reject [of T b3 ord reason now] b2 ord by simp
  show ?thesis
  proof (cases "getMarket b (c_symbol c)")
    case None
    then show ?thesis using assms(1) i bo refused by (simp add: submitOrder_def b2_def [symmetric])
  next
    case (Some m)
    obtain why b3 where rk: "checkOrderRisk L now ord instr m b2 = (why, b3)" by fastforce
    have b3: "orders b3 = orders b2"
      using checkOrderRisk_frame [of L now ord instr m b2] by (simp add: rk)
    show ?thesis
      using assms(1) i bo Some rk refused b3 b2 book_route [of L ord m now b3 ord' b' T] ord
      by (simp add: submitOrder_def b2_def [symmetric] split: if_splits option.splits)
  qed
qed

lemma tidy_submit:
  assumes "paperTidy L I b" "submitOrder L c now b = Inr (ord, b')"
  shows "paperTidy L I b'"
proof -
  have "paperSane L I b'"
    using paper_submit [of L I b c now "Inr ord" b'] assms by (simp add: paperTidy_def)
  then show ?thesis
    using book_submit [OF assms(2), of UNIV] assms(1) by (simp add: paperTidy_def bookOf_def)
qed

subsection \<open>Rejected protection\<close>

lemma protective_command:
  assumes "protectiveOrder lev sig quantity leverage t price = Some c"
  shows "c_type c = t" "c_symbol c = si_symbol sig" "c_reduceOnly c = Some True"
  using assms by (auto simp: protectiveOrder_def bareCommand_def Let_def split: if_splits signalAction.splits)

text \<open>A rejected trigger order, and one of another type, leave the resting stops as they were.\<close>

lemma stops_left:
  assumes tidy: "paperTidy L I b" and t: "isTrigger (c_type c)" and s: "submitOrder L c now b = Inr (ord1, b1)"
    and quiet: "length (fills b1) = length (fills b)" and no: "o_status ord1 = REJECTED \<or> c_type c \<noteq> STOP_MARKET"
    and r: "resting (paperPort L) symbol b1 ord" "o_type ord = STOP_MARKET"
  shows "resting (paperPort L) symbol b ord"
proof -
  have d: "distinct (mkeys (orders b))" using tidy by (simp add: paperTidy_def)
  have s': "bp_submitOrder (paperPort L) c now b = (Inr ord1, b1)" using s by simp
  show ?thesis
  proof (cases rule: paper_quiet [OF tidy t s' quiet])
    case (2 instr o1)
    note booked = 2
    have "ord \<noteq> o1"
    proof
      assume "ord = o1"
      moreover have "o1 = ord1" using booked(2) by simp
      moreover have "o_type (fst (buildOrder L c instr now b)) = c_type c" by (simp add: buildOrder_facts)
      ultimately show False
        using booked(6) no r d booked(5) by (auto simp: resting_paper isOpen_def)
    qed
    then show ?thesis
      using r booked(3,5) d by (auto simp: resting_paper split: if_splits)
  qed simp
qed

text \<open>A trigger order that is rejected or only booked moves no money.\<close>

lemma quiet_money:
  assumes tidy: "paperTidy L I b" and t: "isTrigger (c_type c)" and s: "submitOrder L c now b = Inr (ord1, b1)"
    and quiet: "o_status ord1 = REJECTED \<or> length (fills b1) = length (fills b)"
  shows "moneyKept b b1"
proof -
  have ok: "decimal_exact L" "ulid_fresh L" "ordersKeyed L b" "paperSane L I b"
    using tidy by (simp_all add: paperTidy_def paperSane_def)
  obtain instr ord where i: "mget (instruments b) (c_symbol c) = Some instr" and new: "ord = fst (buildOrder L c instr now b)"
    and br: "(o_status ord1 = REJECTED \<and> moneyKept b b1) \<or>
     (\<exists>m b3. ordersKeyed L b3 \<and> drawn L b3 (o_id ord) \<and> moneyKept b b3 \<and> routeOrder L ord m now b3 = Inr (ord1, b1))"
    by (rule submitOrder_cases [OF ok(2,3) s]) blast
  have st: "o_status ord = NEW" and trg: "isTrigger (o_type ord)" using new t by (simp_all add: buildOrder_facts)
  show ?thesis
  proof (cases "o_status ord1 = REJECTED")
    case True
    then show ?thesis using br st routeOrder_rejected moneyKept_trans by blast
  next
    case False
    then obtain m b3 where b3: "ordersKeyed L b3" "drawn L b3 (o_id ord)" "moneyKept b b3"
      "routeOrder L ord m now b3 = Inr (ord1, b1)" using br by blast
    have "length (fills b1) = length (fills b)" using quiet False by simp
    moreover from this have "fills b1 = fills b"
      using paper_submit [of L I b c now "Inr ord1" b1] ok(4) s by simp
    ultimately have same: "ord1 = ord" using quiet_submit [OF ok(1) t i s] False new by blast
    have unfilled: "\<not> fillNow L ord m now b3 = Inr (ord1, b1)"
    proof
      assume "fillNow L ord m now b3 = Inr (ord1, b1)"
      then have "fillOrder L ord m TAKER now b3 = Inr b1" "ord1 = cur b1 ord"
        by (auto simp: fillNow_def bindR_eq_Inr)
      then show False using fillOrder_status [OF b3(1,2)] st same False by fastforce
    qed
    have unrefused: "rejectOrder ord reason now b3 \<noteq> (ord1, b1)" for reason
      using False by (auto simp: rejectOrder_def Let_def)
    have "b1 = b3"
      using b3(4) trg unfilled unrefused by (auto simp: isTrigger_def routeOrder_def split: if_splits)
    with b3(3) show ?thesis by simp
  qed
qed

lemma paper_mono: "paperTidy L I b \<Longrightarrow> submitOrder L c now b = Inr (r, b1) \<Longrightarrow> length (fills b) \<le> length (fills b1)"
  using paper_submit [of L I b c now "Inr r" b1] by (simp add: paperTidy_def)

text \<open>C27. Protection that fails is misreported. Over the paper broker, an opening signal whose entry was accepted is
  reported executed, with the entry's order and no reason, whatever becomes of its stop. Where the broker rejects the
  stop, the position stands exactly as the entry left it, and, unless the take-profit of the signal executes
  on submission, no stop rests that did not rest before: the new position has no stop of its own.
  Only an accepted stop that does not trigger at once rests.\<close>

theorem failed_protection_misreported:
  assumes "isOpenAction (si_action sig)" "ed_broker xd = paperPort L" "paperTidy L I (ex_broker x)"
    "submitOrder L (mainCommand xd sig quantity) now (ex_broker x) = Inr (ord, s1)" "o_status ord \<noteq> REJECTED"
    "buildStopLossOrder (ed_defaultLeverage xd) sig quantity (featureOr sig ''leverage'' 5) = Some c"
    "submitOrder L c now s1 = Inr (stop, s2)"
    "executeSized xd sig quantity now x = (ok, x1)"
  shows "ok \<and> ex_updates x1 = ex_updates x @
      [\<lparr>up_id = sg_id sig, up_status = EXECUTED_SG, up_orderId = Some (o_id ord), up_rejectReason = None\<rparr>]
    \<and> (o_status stop = REJECTED \<longrightarrow> moneyKept s1 s2 \<and>
        (length (fills (ex_broker x1)) = length (fills s1) \<longrightarrow> moneyKept s1 (ex_broker x1) \<and>
          (\<forall>symbol old. resting (paperPort L) symbol (ex_broker x1) old \<and> o_type old = STOP_MARKET \<longrightarrow>
             resting (paperPort L) symbol s1 old)))
    \<and> (o_status stop \<noteq> REJECTED \<and> length (fills (ex_broker x1)) = length (fills s1) \<longrightarrow>
        resting (paperPort L) (si_symbol sig) (ex_broker x1) stop \<and> o_type stop = STOP_MARKET \<and> o_reduceOnly stop)"
proof -
  let ?tp = "buildTakeProfitOrder (ed_defaultLeverage xd) sig quantity (featureOr sig ''leverage'' 5)"
  have c: "c_type c = STOP_MARKET" "c_symbol c = si_symbol sig" "c_reduceOnly c = Some True"
    using assms(6) by (auto simp: buildStopLossOrder_def dest: protective_command)
  have trig: "isTrigger (c_type c)" by (simp add: c isTrigger_def)
  have t1: "paperTidy L I s1" by (rule tidy_submit [OF assms(3,4)])
  have t2: "paperTidy L I s2" by (rule tidy_submit [OF t1 assms(7)])
  have known: "mget (instruments s2) (si_symbol sig) \<noteq> None"
    using assms(7) c(2) t1 t2 by (auto simp: paperTidy_def paperSane_def submitOrder_def split: option.splits)
  obtain s3 where tp: "submitProtection (paperPort L) True ?tp now s2 = (Inr (), s3)"
    "s3 = s2 \<or> (\<exists>tpc r. submitOrder L tpc now s2 = Inr (r, s3) \<and> isTrigger (c_type tpc) \<and> c_type tpc \<noteq> STOP_MARKET)"
  proof (cases ?tp)
    case None
    then show ?thesis using that [of s2] by (simp add: submitProtection_def)
  next
    case (Some tpc)
    have "c_symbol tpc = si_symbol sig" "c_type tpc = TAKE_PROFIT_MARKET"
      using Some by (auto simp: buildTakeProfitOrder_def dest: protective_command)
    moreover from this obtain r s3 where r: "submitOrder L tpc now s2 = Inr (r, s3)"
      using submitOrder_ok [of L s2 tpc now] known t2 by (auto simp: paperTidy_def paperSane_def)
    ultimately have "\<exists>tpc r. submitOrder L tpc now s2 = Inr (r, s3) \<and> isTrigger (c_type tpc) \<and> c_type tpc \<noteq> STOP_MARKET"
      by (intro exI [of _ tpc] exI [of _ r]) (simp add: isTrigger_def)
    then show ?thesis using that [of s3] Some r by (simp add: submitProtection_def)
  qed
  have prot: "submitProtections xd sig quantity (featureOr sig ''leverage'' 5) now s1 = (Inr (), s3)"
    using assms(1,2,6,7) tp(1) by (simp add: submitProtections_def submitProtection_def [of _ _ "Some c"])
  have act: "isOpenAction (si_action sig) \<or> isCloseAction (si_action sig)" using assms(1) by simp
  have sub: "bp_submitOrder (ed_broker xd) (mainCommand xd sig quantity) now (ex_broker x) = (Inr ord, s1)"
    using assms(2,4) by simp
  have x1: "ok \<and> x1 = (updateStatus sig EXECUTED_SG (Some (o_id ord)) None (x\<lparr>ex_broker := s1\<rparr>))\<lparr>ex_broker := s3\<rparr>"
    using assms(8) act by (cases rule: executeSized_cases) (use assms(5) sub prot in auto)
  have "length (fills s1) \<le> length (fills s2)"
    by (rule paper_mono [OF t1 assms(7)])
  moreover have "length (fills s2) \<le> length (fills s3)"
    using tp(2) paper_mono [OF t2] by blast
  ultimately have quiet: "length (fills s2) = length (fills s1)" "length (fills s3) = length (fills s2)"
    if "length (fills s3) = length (fills s1)" using that by simp_all
  have leg: "moneyKept s2 s3" "resting (paperPort L) symbol s2 old \<Longrightarrow> resting (paperPort L) symbol s3 old"
    "resting (paperPort L) symbol s3 old \<Longrightarrow> o_type old = STOP_MARKET \<Longrightarrow> resting (paperPort L) symbol s2 old"
    if "length (fills s3) = length (fills s1)" for symbol old
    using tp(2) quiet(2) [OF that] quiet_money [OF t2] stops_left [OF t2] paperDesk.submit_keeps [OF t2, of _ now "Inr _" s3] by auto
  have rej: "moneyKept s1 s2" if "o_status stop = REJECTED"
    using quiet_money [OF t1 trig assms(7)] that by blast
  have gone: "resting (paperPort L) symbol s1 old"
    if "o_status stop = REJECTED" "length (fills s2) = length (fills s1)" "resting (paperPort L) symbol s2 old" "o_type old = STOP_MARKET"
    for symbol old
    using stops_left [OF t1 trig assms(7) that(2) _ that(3,4)] that(1) by blast
  have rests: "resting (paperPort L) (si_symbol sig) s2 stop \<and> o_type stop = STOP_MARKET \<and> o_reduceOnly stop"
    if "o_status stop \<noteq> REJECTED" "length (fills s2) = length (fills s1)"
    using paperDesk.submit_rests [OF t1 trig, of now stop s2] assms(7) that c by simp
  have reported: "ok" "ex_broker x1 = s3" "ex_updates x1 = ex_updates x @
      [\<lparr>up_id = sg_id sig, up_status = EXECUTED_SG, up_orderId = Some (o_id ord), up_rejectReason = None\<rparr>]"
    using x1 by simp_all
  show ?thesis
    unfolding reported(2,3) using reported(1) rej leg quiet(1) gone rests moneyKept_trans [of s1 s2 s3] by blast
qed

subsection \<open>A stop printed as zero\<close>

text \<open>A stop of 0.001 printed with two decimals is \<open>0.00\<close>, which the schema takes and the broker refuses.\<close>

definition zeroStopSignal :: signal where
  "zeroStopSignal = sampleStopSignal\<lparr>si_symbol := ''BTC'', si_stopLossPrice := Some ''0.00'', si_takeProfitPrice := Some ''0.00''\<rparr>"

definition paperExecutorDeps :: "broker executorDeps" where
  "paperExecutorDeps = \<lparr>ed_broker = paperPort exactLib, ed_defaultLeverage = 5, ed_getMarketState = sampleMarket,
     ed_sizingEngine = None, ed_getAccount = None, ed_getInstrument = None\<rparr>"

lemma zero_trigger_rejected:
  assumes L: "decimal_exact L" and t: "isTrigger (c_type c)" "c_stopPrice c = Some 0"
    and s: "submitOrder L c now b = Inr (ord1, b1)"
  shows "o_status ord1 = REJECTED"
proof -
  obtain instr where i: "mget (instruments b) (c_symbol c) = Some instr"
    using s by (auto simp: submitOrder_def split: option.splits)
  obtain ord b0 where bo: "buildOrder L c instr now b = (ord, b0)" by fastforce
  have ord: "isTrigger (o_type ord)" "\<not> truthy (o_stopPrice ord)"
    using t buildOrder_facts(4) [of L c instr now b] bo L
    by (auto simp: buildOrder_def Let_def split_beta truthy_def roundTick_def lib_exact round_away_def)
  have "o_status ord1 = REJECTED" if "routeOrder L ord m now b3 = Inr (ord1, b1)" for m b3
    using that ord by (auto simp: routeOrder_def isTrigger_def rejectOrder_def Let_def)
  then show ?thesis
    using s i bo by (auto simp: submitOrder_def rejectOrder_def Let_def split: option.splits if_splits prod.splits)
qed

lemma entry_fills:
  "\<exists>ord s1. submitOrder exactLib (mainCommand paperExecutorDeps zeroStopSignal 2) 5 (holdingBroker 0 (btcMarket 100 101 100)) = Inr (ord, s1)
     \<and> o_status ord \<noteq> REJECTED \<and> fills s1 \<noteq> []"
proof -
  let ?b = "holdingBroker 0 (btcMarket 100 101 100)" and ?c = "mainCommand paperExecutorDeps zeroStopSignal 2"
  define ord where "ord = fst (buildOrder exactLib ?c btcPerp 5 ?b)"
  define b2 where "b2 = emitOrderEvent 5 ORDER_RECEIVED ord None None (setOrder ord (snd (buildOrder exactLib ?c btcPerp 5 ?b)))"
  have c: "c_symbol ?c = ''BTC''" "c_type ?c = MARKET" "c_side ?c = BUY" "c_quantity ?c = 2" "c_reduceOnly ?c = Some False"
    "c_leverage ?c = Some 5"
    by (simp_all add: mainCommand_def bareCommand_def zeroStopSignal_def paperExecutorDeps_def execution_eval
        entrySide_def coalesce_def)
  note f = buildOrder_facts [of exactLib ?c btcPerp 5 ?b, folded ord_def]
  have ord: "o_type ord = MARKET" "o_side ord = BUY" "o_symbol ord = ''BTC''" "o_quantity ord = 2" "o_status ord = NEW"
    "o_leverage ord = 5" "\<not> o_reduceOnly ord" "o_filledQty ord = 0"
    by (simp_all add: f c submitQuantity_def roundStep_def Let_def exactLib_def coalesce_def)
  have b2: "positions b2 = [(''BTC'', btcPosition 0)]" "risk b2 = defaultRisk" "currentUtcDay b2 = 0"
    "orders b2 = [(o_id ord, ord)]" "walletBalance b2 = 10000" "dayStartEquity b2 = dayStartEquity freshBroker"
    "getMarket b2 ''BTC'' = Some (btcMarket 100 101 100)" "takerFeeRate b2 = 4 / 10000" "marketSlippageBps b2 = 2"
    "instruments b2 = [(''BTC'', btcPerp)]" "fills b2 = []"
    using f(10) by (auto simp: b2_def mset_def getMarket_def holdingBroker_def)
  have keyed: "ordersKeyed exactLib b2" "drawn exactLib b2 (o_id ord)"
  proof -
    have "0 < ulids b2" "o_id ord = x_ulid exactLib 0"
      by (simp_all add: b2_def buildOrder_def Let_def split_beta nextUlid_eq f c split: option.split)
    then show "drawn exactLib b2 (o_id ord)" by (auto simp: drawn_def)
    then show "ordersKeyed exactLib b2" by (simp add: ordersKeyed_def b2 mget_def)
  qed
  have known: "positionsKnown (snd (calculateAccountState exactLib b2))"
  proof -
    have "positionsKnown b2" by (auto simp: positionsKnown_def b2(1,10) mget_def split: if_splits)
    then show ?thesis unfolding positionsKnown_def by simp (metis remark_frame(2))
  qed
  define b3 where "b3 = snd (calculateAccountState exactLib b2)"
  have "riskOfOrder exactLib ord btcPerp b2 101 = None"
    by (simp add: riskOfOrder_def Let_def ord b2 exactLib_def defaultRisk_def getOpenOrders_def mvals_def)
  moreover have "riskOfAccount exactLib ord b3 101 (fst (calculateAccountState exactLib b2)) = None"
    by (simp add: riskOfAccount_def Let_def ord b2 b3_def exactLib_def defaultRisk_def calculateAccountState_def
        noSums_def accountPosition_def markFor_def freshBroker_def newBroker_def nothingSaved_def freshConfig_def
        recalculateAccount_def)
  ultimately have risk: "checkOrderRisk exactLib 5 ord btcPerp (btcMarket 100 101 100) b2 = (None, b3)"
    by (simp add: checkOrderRisk_def Let_def ord b2 rollDailyEquityIfNeeded_def utcDay_def defaultRisk_def
        estimatePrice_def split_beta b3_def)
  have b3: "ordersKeyed exactLib b3" "drawn exactLib b3 (o_id ord)" "positionsKnown b3" "marketSlippageBps b3 = 2"
     "instruments b3 = [(''BTC'', btcPerp)]" "fills b3 = []"
    using keyed b2(9-11) known by (auto simp: b3_def ordersKeyed_def drawn_def)
  obtain s1 x where s1: "fillOrder exactLib ord (btcMarket 100 101 100) TAKER 5 b3 = Inr s1" "fills s1 = [x]"
  proof -
    have "getExecutionPrice exactLib b3 ord (btcMarket 100 101 100) = Some (505101 / 5000)"
      by (simp add: getExecutionPrice_def ord exactLib_def b3)
    then show ?thesis
      using that fillOrder_fills [OF exactLib_exact b3(3), of ord "btcMarket 100 101 100" "505101 / 5000" TAKER 5] b3
      by (auto simp: ord)
  qed
  have "o_status (cur s1 ord) \<noteq> REJECTED"
    using fillOrder_status [OF b3(1,2) s1(1)] s1(2) b3(6) by (auto simp: moneyKept_def)
  moreover have "submitOrder exactLib ?c 5 ?b = routeOrder exactLib ord (btcMarket 100 101 100) 5 b3"
    using b2(7) risk by (simp add: submitOrder_def c Let_def ord_def [symmetric] b2_def [symmetric]
        isMarketStale_def b2 defaultRisk_def split_beta)
  moreover have "routeOrder exactLib ord (btcMarket 100 101 100) 5 b3 = Inr (cur s1 ord, s1)"
    by (simp add: routeOrder_def ord fillNow_def s1)
  ultimately show ?thesis using s1(2) by simp
qed

theorem failed_protection_misreported_witness:
  "\<exists>x1. executeSized paperExecutorDeps zeroStopSignal 2 5 \<lparr>ex_broker = holdingBroker 0 (btcMarket 100 101 100), ex_updates = []\<rparr> = (True, x1)
     \<and> map up_status (ex_updates x1) = [EXECUTED_SG] \<and> fills (ex_broker x1) \<noteq> []
     \<and> (\<forall>symbol old. resting (paperPort exactLib) symbol (ex_broker x1) old \<longrightarrow> o_type old \<noteq> STOP_MARKET)"
proof -
  let ?sig = zeroStopSignal and ?b = "holdingBroker 0 (btcMarket 100 101 100)"
  let ?x = "\<lparr>ex_broker = ?b, ex_updates = []\<rparr>" and ?lev = "featureOr zeroStopSignal ''leverage'' 5"
  obtain ord s1 where e: "submitOrder exactLib (mainCommand paperExecutorDeps ?sig 2) 5 ?b = Inr (ord, s1)" "o_status ord \<noteq> REJECTED"
    "fills s1 \<noteq> []" using entry_fills by blast
  have tidy: "paperTidy exactLib [(''BTC'', btcPerp)] ?b"
    using exactLib_exact exactLib_fresh holding_keyed holding_known by (simp add: paperTidy_def paperSane_def mkeys_def)
  have t1: "paperTidy exactLib [(''BTC'', btcPerp)] s1" by (rule tidy_submit [OF tidy e(1)])
  have sig: "isOpenAction (si_action ?sig)" "ed_broker paperExecutorDeps = paperPort exactLib"
    by (simp_all add: zeroStopSignal_def paperExecutorDeps_def execution_eval)
  have zero: "jsNumber ''0.00'' = Some 0" by code_simp
  obtain c where c: "buildStopLossOrder (ed_defaultLeverage paperExecutorDeps) ?sig 2 ?lev = Some c" "c_type c = STOP_MARKET"
    "c_stopPrice c = Some 0" "c_symbol c = ''BTC''"
    by (simp add: zeroStopSignal_def execution_eval buildStopLossOrder_def protectiveOrder_def bareCommand_def Let_def zero)
  obtain c2 where c2: "buildTakeProfitOrder (ed_defaultLeverage paperExecutorDeps) ?sig 2 ?lev = Some c2" "c_type c2 = TAKE_PROFIT_MARKET"
    "c_stopPrice c2 = Some 0" "c_symbol c2 = ''BTC''"
    by (simp add: zeroStopSignal_def execution_eval buildTakeProfitOrder_def protectiveOrder_def bareCommand_def Let_def zero)
  have ok: "\<exists>r s'. submitOrder exactLib cmd 5 s = Inr (r, s') \<and> o_status r = REJECTED \<and> moneyKept s s' \<and>
      paperTidy exactLib [(''BTC'', btcPerp)] s'"
    if "paperTidy exactLib [(''BTC'', btcPerp)] s" "isTrigger (c_type cmd)" "c_stopPrice cmd = Some 0" "c_symbol cmd = ''BTC''" for s cmd
  proof -
    note h = that
    obtain r s' where r: "submitOrder exactLib cmd 5 s = Inr (r, s')"
      using submitOrder_ok [OF exactLib_exact, of s cmd 5] h by (auto simp: paperTidy_def paperSane_def)
    then show ?thesis
      using zero_trigger_rejected [OF exactLib_exact that(2,3) r] quiet_money [OF that(1,2) r] tidy_submit [OF that(1) r] by blast
  qed
  obtain stop s2 where stop: "submitOrder exactLib c 5 s1 = Inr (stop, s2)" "o_status stop = REJECTED" "moneyKept s1 s2"
    "paperTidy exactLib [(''BTC'', btcPerp)] s2"
    using ok [OF t1, of c] c by (auto simp: isTrigger_def)
  obtain tp s3 where tp: "submitOrder exactLib c2 5 s2 = Inr (tp, s3)" "moneyKept s2 s3"
    using ok [OF stop(4), of c2] c2 by (auto simp: isTrigger_def)
  have money: "fills s3 = fills s1" using stop(3) tp(2) by (simp add: moneyKept_def)
  obtain okk x1 where x: "executeSized paperExecutorDeps ?sig 2 5 ?x = (okk, x1)" by fastforce
  have prot: "submitProtections paperExecutorDeps ?sig 2 ?lev 5 s1 = (Inr (), s3)"
    using stop(1) tp(1) sig by (simp add: submitProtections_def submitProtection_def c(1) c2(1))
  have sub: "bp_submitOrder (ed_broker paperExecutorDeps) (mainCommand paperExecutorDeps ?sig 2) 5 (ex_broker ?x) = (Inr ord, s1)"
    using e(1) sig(2) by simp
  have act: "isOpenAction (si_action ?sig) \<or> isCloseAction (si_action ?sig)" using sig(1) by simp
  have "ex_broker x1 = s3"
    using x act by (cases rule: executeSized_cases) (use e(2) sub prot in auto)
  moreover have "\<not> resting (paperPort exactLib) symbol s1 old \<or> o_type old \<noteq> STOP_MARKET" for symbol old
    using book_submit [OF e(1), of "{MARKET}"] t1 sig(1) bookOf_type [of "{MARKET}" "orders s1"]
    by (auto simp: mainCommand_def bareCommand_def bookOf_def mkeys_def mget_def resting_paper paperTidy_def)
  moreover have "okk \<and> ex_updates x1 =
        [\<lparr>up_id = sg_id ?sig, up_status = EXECUTED_SG, up_orderId = Some (o_id ord), up_rejectReason = None\<rparr>]
      \<and> (\<forall>symbol old. resting (paperPort exactLib) symbol (ex_broker x1) old \<and> o_type old = STOP_MARKET \<longrightarrow>
          resting (paperPort exactLib) symbol s1 old)"
    using failed_protection_misreported [OF sig _ _ e(2) c(1) stop(1) x] tidy e(1) stop(2) money \<open>ex_broker x1 = s3\<close>
    by simp
  ultimately show ?thesis using x e(3) money by auto
qed

end
