(* ===== verification/Trading_Chain.thy ===== *)
theory Trading_Chain
  imports Execution_Guarantees
begin

section \<open>From strategies to venues\<close>

text \<open>
  The chain the process wires together: the strategy engine hands its signals to the executor, the
  executor submits over the router, and the router chooses the venue. A property of the world behind the
  engine that its submissions and its strategies keep is kept by every run of the engine.
\<close>

subsection \<open>Properties of the world behind the engine\<close>

definition keepsWorld :: "('w \<Rightarrow> bool) \<Rightarrow> 'w callback \<Rightarrow> bool" where
  "keepsWorld W f \<longleftrightarrow> (\<forall>w. W w \<longrightarrow> W (snd (f w)))"

definition tameStrategy :: "('w \<Rightarrow> bool) \<Rightarrow> 'w strategy \<Rightarrow> bool" where
  "tameStrategy W s \<longleftrightarrow> (\<forall>f w. st_init s = Some f \<longrightarrow> W w \<longrightarrow> W (f w))
     \<and> (\<forall>f m. st_onTick s = Some f \<longrightarrow> keepsWorld W (f m)) \<and> (\<forall>f c. st_onCandleClose s = Some f \<longrightarrow> keepsWorld W (f c))"

definition tameOp :: "('w \<Rightarrow> bool) \<Rightarrow> 'w engineOp \<Rightarrow> bool" where
  "tameOp W opn \<longleftrightarrow> (case opn of RegisterE s \<Rightarrow> tameStrategy W s | _ \<Rightarrow> True)"

definition tameEngine :: "('w \<Rightarrow> bool) \<Rightarrow> 'w engine \<times> 'w \<Rightarrow> bool" where
  "tameEngine W ew \<longleftrightarrow> W (snd ew) \<and> (\<forall>s \<in> set (mvals (en_strategies (fst ew))). tameStrategy W s)"

lemma refuse_strategies: "en_strategies (snd (refuse dp i reason now e)) = en_strategies e"
  by (simp add: refuse_def drawSignal_def Let_def)

lemma submitSignal_world:
  obtains "en_strategies (fst (snd (submitSignal dp i now e w))) = en_strategies e" "snd (snd (submitSignal dp i now e w)) = w"
  | e2 where "en_strategies (fst (snd (submitSignal dp i now e w))) = en_strategies e"
      "snd (snd (submitSignal dp i now e w)) = snd (snd (processSignal dp (si_strategyId i) (syntheticCooldown i) (rawOf i) now e2 w))"
proof (cases "\<not> en_running e \<or> si_action i = HOLD")
  case True
  then show ?thesis using that(1) by (auto simp: submitSignal_def)
next
  case False
  obtain loopReason loops1 where lr: "reasonFor (loopKeyOf dp i) now (en_loops e) = (loopReason, loops1)" by fastforce
  let ?e1 = "e\<lparr>en_loops := loops1\<rparr>"
  obtain lock e2 where lk: "(if en_symbolLockEnabled ?e1 \<and> isOpenAction (si_action i)
      then getSymbolLock (si_symbol i) now ?e1 else (None, ?e1)) = (lock, e2)" by fastforce
  have e2: "en_strategies e2 = en_strategies e"
    using lk by (auto simp: getSymbolLock_def split: if_splits option.splits)
  obtain msg e3 w3 where p: "processSignal dp (si_strategyId i) (syntheticCooldown i) (rawOf i) now e2 w = (msg, e3, w3)"
    by (rule prod_cases3)
  have e3: "en_strategies e3 = en_strategies e"
    using processSignal_strategies [of dp "si_strategyId i" "syntheticCooldown i" "rawOf i" now e2 w] p e2 by simp
  let ?holder = "case lock of None \<Rightarrow> None | Some l \<Rightarrow> if sl_strategyId l \<noteq> si_strategyId i then Some l else None"
  consider (looping) r where "loopReason = Some r" | (locked) l where "loopReason = None" "?holder = Some l"
    | (processed) "loopReason = None" "?holder = None" by (cases loopReason; cases ?holder) auto
  then show ?thesis
  proof cases
    case looping
    obtain sig y where r: "refuse dp i r now ?e1 = (sig, y)" by fastforce
    then have "en_strategies y = en_strategies e" using refuse_strategies [of dp i r now ?e1] by simp
    then show ?thesis
      using that(1) False unfolding submitSignal_def Let_def lr prod.case looping option.case r by simp
  next
    case locked
    obtain sig y where r: "refuse dp i (lockedReason l now) now e2 = (sig, y)" by fastforce
    then have "en_strategies y = en_strategies e" using refuse_strategies [of dp i "lockedReason l now" now e2] e2 by simp
    then show ?thesis
      using that(1) False
      unfolding submitSignal_def Let_def lr prod.case locked(1) option.case lk prod.case locked(2) r by simp
  next
    case processed
    have "fst (snd (submitSignal dp i now e w)) \<in> {e3} \<union> range (\<lambda>l. e3\<lparr>en_loops := l\<rparr>)
        \<and> snd (snd (submitSignal dp i now e w)) = w3"
      unfolding submitSignal_def Let_def lr prod.case processed(1) option.case lk prod.case processed(2) p
      using False by (cases msg) simp_all
    then show ?thesis using that(2) [of e2] e3 p by auto
  qed
qed

locale engine_world =
  fixes dp :: "'w deps" and W :: "'w \<Rightarrow> bool"
  assumes submission_keeps: "W w \<Longrightarrow> W (snd (de_onSubmitSignal dp sig now w))"
begin

lemma process_world: "W w \<Longrightarrow> W (snd (snd (processSignal dp sid c raw now e w)))"
proof (cases "parseSignalInput raw")
  case (Inl reason)
  then show "W w \<Longrightarrow> ?thesis" by (simp add: processSignal_def drawSignal_def)
next
  case (Inr i)
  assume W: "W w"
  obtain msg e' w' where p: "processInput dp c i now e w = (msg, e', w')" by (rule prod_cases3)
  have "W w'" by (rule processInput_cases [OF p]) (simp_all add: W submission_keeps)
  with Inr p show ?thesis by (simp add: processSignal_def)
qed

lemma callback_world: "tameEngine W (e, w) \<Longrightarrow> keepsWorld W f \<Longrightarrow> tameEngine W (runCallback dp now s f (e, w))"
proof -
  assume t: "tameEngine W (e, w)" and k: "keepsWorld W f"
  obtain r w1 where f: "f w = (r, w1)" by fastforce
  have W: "W w1" using t k f by (metis tameEngine_def keepsWorld_def snd_conv)
  show ?thesis
    using t W f process_world [OF W]
    by (auto simp: runCallback_def tameEngine_def processSignal_strategies split: sum.split option.split)
qed

lemma callbacks_world:
  "tameEngine W ew \<Longrightarrow> \<forall>s f. s \<in> set ss \<longrightarrow> cb s = Some f \<longrightarrow> keepsWorld W f \<Longrightarrow>
    tameEngine W (fold (\<lambda>s. case cb s of None \<Rightarrow> id | Some f \<Rightarrow> runCallback dp now s f) ss ew)"
proof (induction ss arbitrary: ew)
  case Nil
  then show ?case by simp
next
  case (Cons s ss)
  have "tameEngine W ((case cb s of None \<Rightarrow> id | Some f \<Rightarrow> runCallback dp now s f) ew)"
    using Cons.prems callback_world [of "fst ew" "snd ew" _ now s] by (cases "cb s") auto
  then show ?case using Cons by simp
qed

lemma tick_world: "tameEngine W (e, w) \<Longrightarrow> tameEngine W (onMarketTick dp now m (e, w))"
proof -
  assume t: "tameEngine W (e, w)"
  let ?ss = "getStrategiesForSymbol dp (m_symbol m) e w"
  let ?cb = "\<lambda>s. map_option (\<lambda>f. f m) (st_onTick s)"
  have "\<forall>s f. s \<in> set ?ss \<longrightarrow> ?cb s = Some f \<longrightarrow> keepsWorld W f"
    using t by (auto simp: getStrategiesForSymbol_def tameEngine_def tameStrategy_def)
  then have "tameEngine W (fold (\<lambda>s. case ?cb s of None \<Rightarrow> id | Some f \<Rightarrow> runCallback dp now s f) ?ss (e, w))"
    by (rule callbacks_world [OF t])
  moreover have "(case ?cb s of None \<Rightarrow> id | Some f \<Rightarrow> runCallback dp now s f)
      = (case st_onTick s of None \<Rightarrow> id | Some f \<Rightarrow> runCallback dp now s (f m))" for s
    by (simp split: option.split)
  ultimately show ?thesis using t by (simp add: onMarketTick_def)
qed

lemma close_world: "tameEngine W (e, w) \<Longrightarrow> tameEngine W (onCandleClose dp now c (e, w))"
proof -
  assume t: "tameEngine W (e, w)"
  let ?ss = "getStrategiesForSymbol dp (k_symbol c) e w"
  let ?cb = "\<lambda>s. if k_interval c \<in> set (st_intervals s) then map_option (\<lambda>f. f c) (st_onCandleClose s) else None"
  have "\<forall>s f. s \<in> set ?ss \<longrightarrow> ?cb s = Some f \<longrightarrow> keepsWorld W f"
    using t by (auto simp: getStrategiesForSymbol_def tameEngine_def tameStrategy_def split: if_splits)
  then have "tameEngine W (fold (\<lambda>s. case ?cb s of None \<Rightarrow> id | Some f \<Rightarrow> runCallback dp now s f) ?ss (e, w))"
    by (rule callbacks_world [OF t])
  moreover have "(case ?cb s of None \<Rightarrow> id | Some f \<Rightarrow> runCallback dp now s f)
      = (case st_onCandleClose s of None \<Rightarrow> id
         | Some f \<Rightarrow> if k_interval c \<in> set (st_intervals s) then runCallback dp now s (f c) else id)" for s
    by (simp split: option.split)
  ultimately show ?thesis using t by (simp add: onCandleClose_def)
qed

lemma start_world: "tameEngine W (e, w) \<Longrightarrow> tameEngine W (startEngine e w)"
proof -
  have "W w \<Longrightarrow> \<forall>s \<in> set ss. tameStrategy W s \<Longrightarrow>
    W (fold (\<lambda>s w. if st_enabled s then (case st_init s of None \<Rightarrow> w | Some f \<Rightarrow> f w) else w) ss w)" for ss
    by (induction ss arbitrary: w) (auto simp: tameStrategy_def split: option.split)
  then show "tameEngine W (e, w) \<Longrightarrow> ?thesis" by (simp add: tameEngine_def startEngine_def)
qed

lemma step_world: "tameEngine W ew \<Longrightarrow> tameOp W (fst x) \<Longrightarrow> tameEngine W (engineStep dp x ew)"
proof -
  assume t: "tameEngine W ew" and ok: "tameOp W (fst x)"
  obtain e w where ew: "ew = (e, w)" by fastforce
  obtain opn now where x: "x = (opn, now)" by fastforce
  show ?thesis
  proof (cases opn)
    case (TickE m)
    then show ?thesis using tick_world t ew x by (simp add: engineStep_def)
  next
    case (CloseE c)
    then show ?thesis using close_world t ew x by (simp add: engineStep_def)
  next
    case (SubmitE i)
    show ?thesis
      by (rule submitSignal_world [of dp i now e w])
        (use t ew x SubmitE process_world [of w] in \<open>simp_all add: engineStep_def tameEngine_def\<close>)
  next
    case StartE
    then show ?thesis using start_world t ew x by (simp add: engineStep_def)
  next
    case (RegisterE s)
    then show ?thesis
      using t ok ew x mset_vals [of "st_id s" s "en_strategies e"]
      by (auto simp: engineStep_def registerStrategy_def tameEngine_def tameOp_def)
  next
    case (UnregisterE sid)
    then show ?thesis
      using t ew x by (fastforce simp: engineStep_def unregisterStrategy_def tameEngine_def mvals_def mdel_def AList.delete_eq)
  qed (use t ew x in \<open>auto simp: engineStep_def tameEngine_def expireSignals_def listSymbolLocks_def acquireSymbolLock_def
      releaseSymbolLock_def stopEngine_def Let_def split: option.splits\<close>)
qed

sublocale guarded_component "engineStep dp" "tameEngine W" "\<lambda>x. tameOp W (fst x)"
  by unfold_locales (rule step_world)

end

subsection \<open>The executor as the engine's submitter\<close>

definition chainDeps ::
  "lib \<Rightarrow> 's executorDeps \<Rightarrow> ('s executor \<Rightarrow> string \<Rightarrow> bool) \<Rightarrow> (nat \<Rightarrow> string) \<Rightarrow> (number \<Rightarrow> string) \<Rightarrow> 's executor deps" where
  "chainDeps L xd quarantined uuid render =
     \<lparr>de_onSubmitSignal = (\<lambda>sig now x. case execute L xd sig now x of (ok, x1) \<Rightarrow> (Inr ok, x1)),
      de_isQuarantined = quarantined, de_getPosition = (\<lambda>s x. bp_getPosition (ed_broker xd) s (ex_broker x)),
      de_uuid = uuid, de_showNumber = render\<rparr>"

definition keepsPort :: "('s \<Rightarrow> bool) \<Rightarrow> 's port \<Rightarrow> bool" where
  "keepsPort I broker \<longleftrightarrow> (\<forall>c now s. I s \<longrightarrow> I (snd (bp_submitOrder broker c now s)))"

lemma protection_keeps: "keepsPort I broker \<Longrightarrow> I s \<Longrightarrow> I (snd (submitProtection broker wanted command now s))"
  by (auto simp: submitProtection_def keepsPort_def split: option.split prod.split sum.split) (metis snd_conv)+

lemma protections_keep: "keepsPort I (ed_broker xd) \<Longrightarrow> I s \<Longrightarrow> I (snd (submitProtections xd sig q lev now s))"
  using protection_keeps [of I "ed_broker xd"]
  by (simp add: submitProtections_def Let_def split: prod.split sum.split) (metis snd_conv)

lemma execute_keeps:
  assumes "keepsPort I (ed_broker xd)" "I (ex_broker x)" shows "I (ex_broker (snd (execute L xd sig now x)))"
proof (cases "si_action sig = HOLD \<or> si_action sig = CANCEL_ALL_ACTION")
  case True
  then show ?thesis using assms(2) by (auto simp: execute_def)
next
  case False
  then have act: "si_action sig \<noteq> HOLD" "si_action sig \<noteq> CANCEL_ALL_ACTION" by simp_all
  obtain ok x1 where e: "execute L xd sig now x = (ok, x1)" by fastforce
  have submit: "bp_submitOrder (ed_broker xd) c now s = (r, s1) \<Longrightarrow> I s \<Longrightarrow> I s1"
    and protect: "submitProtections xd sig q lev now s = (p, s2) \<Longrightarrow> I s \<Longrightarrow> I s2" for c s r s1 q lev p s2
    using assms(1) protections_keep [OF assms(1)] unfolding keepsPort_def by (metis snd_conv)+
  from e act show ?thesis
  proof (cases rule: execute_cases)
    case (refused reason)
    then show ?thesis using assms(2) e by simp
  next
    case (sized quantity)
    have "isOpenAction (si_action sig) \<or> isCloseAction (si_action sig)" using act by (rule actions)
    with sized(2) have "I (ex_broker x1)"
      by (cases rule: executeSized_cases) (use assms(2) submit protect in \<open>auto\<close>)
    then show ?thesis by (simp add: e)
  qed
qed

lemma chain_keeps:
  "keepsPort I (ed_broker xd) \<Longrightarrow> I (ex_broker x) \<Longrightarrow>
    I (ex_broker (snd (de_onSubmitSignal (chainDeps L xd quarantined uuid render) sig now x)))"
  using execute_keeps [of I xd x L sig now] by (simp add: chainDeps_def split_beta)

subsection \<open>Over the router\<close>

definition overRouter ::
  "lib \<Rightarrow> runtimeProfile \<Rightarrow> 'p port \<Rightarrow> 'l port option \<Rightarrow> ('p, 'l) gateway executorDeps \<Rightarrow> ('p, 'l) gateway executorDeps" where
  "overRouter L profile paper live xd = xd\<lparr>ed_broker := routerPort L profile paper live\<rparr>"

lemma router_keeps_live:
  "keepsPort (\<lambda>g. wantsRealOrders profile \<or> gw_live g = kept) (ed_broker (overRouter L profile paper live xd))"
  using live_untouched_step [of profile L paper live "SubmitG c now" g for c now g]
  by (auto simp: keepsPort_def gatewayStep_def overRouter_def Let_def)

interpretation chainLive: engine_world
  "chainDeps L (overRouter L (resolveRuntimeProfile env) paper live xd) quarantined uuid render"
  "\<lambda>x. wantsRealOrders (resolveRuntimeProfile env) \<or> gw_live (ex_broker x) = kept"
  for L env paper live xd quarantined uuid render kept
  by unfold_locales (rule chain_keeps [OF router_keeps_live])

text \<open>C26. Strategies never reach the live venue by themselves: unless the environment says \<open>live\<close> and arms it, no run of
  the engine, with the executor over the router as its submitter, changes the state of the live venue, as long
  as the strategies' own callbacks do not.\<close>

theorem engine_respects_mode:
  assumes "\<not> (tradingModeOf (mi_TRADING_MODE env) = LIVE_M \<and> mi_LIVE_TRADING_ARMED env = Some True)"
    "\<forall>s \<in> set (mvals (en_strategies e)). tameStrategy (\<lambda>y. gw_live (ex_broker y) = gw_live (ex_broker x)) s"
    "\<forall>opn \<in> set ops. tameOp (\<lambda>y. gw_live (ex_broker y) = gw_live (ex_broker x)) (fst opn)"
  shows "gw_live (ex_broker (snd (fold (engineStep (chainDeps L (overRouter L (resolveRuntimeProfile env) paper live xd)
      quarantined uuid render)) ops (e, x)))) = gw_live (ex_broker x)"
proof -
  have "\<not> wantsRealOrders (resolveRuntimeProfile env)" using assms(1) by (simp add: wantsRealOrders_resolved)
  then show ?thesis
    using chainLive.inv_guarded_run [where kept = "gw_live (ex_broker x)" and env = env and s = "(e, x)" and xs = ops
        and L = L and paper = paper and live = live and xd = xd and quarantined = quarantined and uuid = uuid and render = render] assms(2,3)
    by (simp add: tameEngine_def list_all_iff)
qed

definition standstill :: "('p, 'l) gateway \<Rightarrow> nat \<Rightarrow> ('p, 'l) gateway executor \<Rightarrow> bool" where
  "standstill g n x \<longleftrightarrow> lg_safeMode (gw_guard (ex_broker x)) \<and> gw_paper (ex_broker x) = gw_paper g \<and> gw_live (ex_broker x) = gw_live g
     \<and> (\<forall>u \<in> set (drop n (ex_updates x)). up_status u = REJECTED_SG) \<and> n \<le> length (ex_updates x)"

lemma standstill_submission:
  assumes "standstill g n x"
  shows "standstill g n (snd (execute L (overRouter L profile paper live xd) sig now x))"
proof (cases "si_action sig = HOLD \<or> si_action sig = CANCEL_ALL_ACTION")
  case True
  then show ?thesis using assms by (auto simp: execute_def)
next
  case False
  then have act: "si_action sig \<noteq> HOLD" "si_action sig \<noteq> CANCEL_ALL_ACTION" by simp_all
  obtain ok x1 where e: "execute L (overRouter L profile paper live xd) sig now x = (ok, x1)" by fastforce
  have refusal: "\<exists>ord g1. bp_submitOrder (ed_broker (overRouter L profile paper live xd)) c now (ex_broker x) = (Inr ord, g1)
      \<and> o_status ord = REJECTED \<and> lg_safeMode (gw_guard g1) \<and> gw_paper g1 = gw_paper g \<and> gw_live g1 = gw_live g" for c
  proof -
    have "\<exists>reason. routerCheck profile live (gw_guard (ex_broker x)) = Some reason"
      using assms safe_mode_checks by (auto simp: standstill_def)
    then show ?thesis
      using assms by (cases rule: routerSubmit_cases [of profile live "ex_broker x" L paper c now])
        (auto simp: overRouter_def routerPort_def standstill_def)
  qed
  from e act have "standstill g n x1"
  proof (cases rule: execute_cases)
    case (refused reason)
    then show ?thesis using assms by (auto simp: standstill_def)
  next
    case (sized quantity)
    have "isOpenAction (si_action sig) \<or> isCloseAction (si_action sig)" using act by (rule actions)
    with sized(2) show ?thesis
      by (cases rule: executeSized_cases)
        (use assms refusal [of "mainCommand (overRouter L profile paper live xd) sig quantity"] in \<open>auto simp: standstill_def\<close>)
  qed
  then show ?thesis by (simp add: e)
qed

interpretation chainHalted: engine_world
  "chainDeps L (overRouter L profile paper live xd) quarantined uuid render" "standstill g n"
  for L profile paper live xd quarantined uuid render g n
  using standstill_submission by unfold_locales (simp add: chainDeps_def split_beta)

text \<open>Safe mode stops the whole chain: while the guard is in safe mode no run of the engine changes either venue, and
  every signal its executor settles in the run is settled as rejected, as long as the strategies' own
  callbacks leave the executor's world alone.\<close>

theorem safe_mode_stops_engine:
  assumes "lg_safeMode (gw_guard (ex_broker x))"
    "\<forall>s \<in> set (mvals (en_strategies e)). \<forall>W. tameStrategy W s" "\<forall>opn \<in> set ops. \<forall>W. tameOp W (fst opn)"
    "fold (engineStep (chainDeps L (overRouter L profile paper live xd) quarantined uuid render)) ops (e, x) = (e1, x1)"
  shows "gw_paper (ex_broker x1) = gw_paper (ex_broker x) \<and> gw_live (ex_broker x1) = gw_live (ex_broker x)
    \<and> (\<forall>u \<in> set (drop (length (ex_updates x)) (ex_updates x1)). up_status u = REJECTED_SG)"
proof -
  have "tameEngine (standstill (ex_broker x) (length (ex_updates x))) (e, x)"
    using assms(1,2) by (simp add: tameEngine_def standstill_def)
  then have "tameEngine (standstill (ex_broker x) (length (ex_updates x))) (e1, x1)"
    using chainHalted.inv_guarded_run [where g = "ex_broker x" and n = "length (ex_updates x)" and s = "(e, x)" and xs = ops
        and L = L and profile = profile and paper = paper and live = live and xd = xd and quarantined = quarantined
        and uuid = uuid and render = render] assms(3,4)
    by (simp add: list_all_iff)
  then show ?thesis by (simp add: tameEngine_def standstill_def)
qed

text \<open>A gateway over two simple venues, and a run that opens a position.\<close>

definition sampleGateway :: "bool \<Rightarrow> (order list, order list) gateway executor" where
  "sampleGateway halted = \<lparr>ex_broker = \<lparr>gw_guard = (if halted then triggerSafeMode ''mismatch'' newGuard else newGuard), gw_paper = [],
     gw_live = [], gw_ulids = 0\<rparr>, ex_updates = []\<rparr>"

definition samplePaperMode :: modeInput where
  "samplePaperMode = \<lparr>mi_TRADING_MODE = None, mi_LIVE_TRADING_ARMED = None, mi_TELEGRAM_ENABLED = None,
     mi_TELEGRAM_BOT_TOKEN = None, mi_TELEGRAM_CHAT_ID = None\<rparr>"

definition sampleRouted :: "(order list, order list) gateway executorDeps" where
  "sampleRouted = \<lparr>ed_broker = routerPort exactLib (resolveRuntimeProfile samplePaperMode) sampleVenue (Some sampleVenue),
     ed_defaultLeverage = 5, ed_getMarketState = sampleMarket, ed_sizingEngine = None, ed_getAccount = None, ed_getInstrument = None\<rparr>"

definition sampleChain :: "(order list, order list) gateway executor deps" where
  "sampleChain = chainDeps exactLib (overRouter exactLib (resolveRuntimeProfile samplePaperMode) sampleVenue (Some sampleVenue) sampleRouted)
     (\<lambda>x s. False) showNat (\<lambda>x. showInt \<lfloor>x\<rfloor>)"

definition sampleChainRun :: "((order list, order list) gateway executor engineOp \<times> ms) list" where
  "sampleChainRun = [(StartE, 0), (SubmitE ((sampleInput ''s'' OPEN_LONG)\<lparr>si_features := [(''quantity'', FNum 2)]\<rparr>), 5)]"

lemma sampleChainRun_tame: "\<forall>opn \<in> set sampleChainRun. tameOp W (fst opn)"
  by (simp add: sampleChainRun_def tameOp_def)

lemma newEngine_strategies [simp]: "en_strategies (newEngine a b) = []"
  by (simp add: newEngine_def)

theorem engine_respects_mode_witness:
  "gw_live (ex_broker (snd (fold (engineStep sampleChain) sampleChainRun (newEngine None None, sampleGateway False)))) = []"
proof -
  have "\<not> (tradingModeOf (mi_TRADING_MODE samplePaperMode) = LIVE_M \<and> mi_LIVE_TRADING_ARMED samplePaperMode = Some True)"
    by (simp add: samplePaperMode_def)
  then have "gw_live (ex_broker (snd (fold (engineStep sampleChain) sampleChainRun (newEngine None None, sampleGateway False))))
      = gw_live (ex_broker (sampleGateway False))"
    unfolding sampleChain_def
    by (intro engine_respects_mode) (simp_all add: sampleChainRun_tame mvals_def)
  then show ?thesis by (simp add: sampleGateway_def)
qed

theorem safe_mode_stops_engine_witness:
  "gw_paper (ex_broker (snd (fold (engineStep sampleChain) sampleChainRun (newEngine None None, sampleGateway True)))) = []"
proof -
  obtain e1 x1 where r: "fold (engineStep sampleChain) sampleChainRun (newEngine None None, sampleGateway True) = (e1, x1)" by fastforce
  have "lg_safeMode (gw_guard (ex_broker (sampleGateway True)))" by (simp add: sampleGateway_def triggerSafeMode_def newGuard_def)
  then have "gw_paper (ex_broker x1) = gw_paper (ex_broker (sampleGateway True))"
    using safe_mode_stops_engine [OF _ _ _ r [unfolded sampleChain_def]] by (simp add: sampleChainRun_tame mvals_def)
  also have "\<dots> = []" by (simp add: sampleGateway_def)
  finally show ?thesis unfolding r by simp
qed

end
