(* ===== verification/Circuit_Breaker.thy ===== *)
theory Circuit_Breaker
  imports Broker_Types
begin

section \<open>The circuit breaker (src/agent/CircuitBreaker.ts)\<close>

text \<open>
  The agent asks the breaker before every new entry. What the breaker reads of the rest of the system at
  a check, the account, the current losing streak and the health snapshot, is the argument of the check;
  what it tells the event log and the gateway is a sequence of its state. \<open>Date.now()\<close> is an argument.
\<close>

datatype breakerReason =
    MAX_DAILY_LOSS | MAX_DRAWDOWN | CONSECUTIVE_LOSSES | MARKET_UNHEALTHY | MODEL_UNREACHABLE | OPERATOR_OVERRIDE

record breakerConfig =
  cb_maxDailyLossPct :: number
  cb_maxConsecutiveLosses :: nat
  cb_maxDrawdownPct :: number
  cb_cooldownMs :: ms
  cb_requireHealthyMarket :: bool
  cb_consecutiveLossDampener :: "number option"

record breakerInput =
  bi_account :: accountState
  bi_consecutiveLosses :: nat
  bi_healthy :: bool
  bi_issues :: "string list"

datatype breakerEvent = BreakerTripped breakerReason ms ms | BreakerCleared "breakerReason option" ms

record breaker =
  bk_tripped :: bool
  bk_reason :: "breakerReason option"
  bk_trippedAt :: ms
  bk_cooldownEndsAt :: ms
  bk_totalTrips :: nat
  bk_peakEquity :: number
  bk_events :: "breakerEvent list"

record breakerVerdict =
  bv_allowEntries :: bool
  bv_reason :: "breakerReason option"
  bv_riskDampener :: number

definition newBreaker :: "accountState \<Rightarrow> breaker" where
  "newBreaker acct =
     \<lparr>bk_tripped = False, bk_reason = None, bk_trippedAt = 0, bk_cooldownEndsAt = 0, bk_totalTrips = 0,
      bk_peakEquity = coalesce (a_peakEquity acct) (a_equity acct), bk_events = []\<rparr>"

definition tripBreaker :: "breakerConfig \<Rightarrow> breakerReason \<Rightarrow> ms \<Rightarrow> breaker \<Rightarrow> breaker" where
  "tripBreaker cfg reason now b =
     (if bk_tripped b then b
      else b\<lparr>bk_tripped := True, bk_reason := Some reason, bk_trippedAt := now,
        bk_cooldownEndsAt := now + cb_cooldownMs cfg, bk_totalTrips := bk_totalTrips b + 1,
        bk_events := bk_events b @ [BreakerTripped reason now (now + cb_cooldownMs cfg)]\<rparr>)"

definition clearBreaker :: "ms \<Rightarrow> breaker \<Rightarrow> breaker" where
  "clearBreaker now b =
     (if \<not> bk_tripped b then b
      else b\<lparr>bk_tripped := False, bk_reason := None, bk_trippedAt := 0, bk_cooldownEndsAt := 0,
        bk_events := bk_events b @ [BreakerCleared (bk_reason b) now]\<rparr>)"

definition computeDailyLossPct :: "accountState \<Rightarrow> number" where
  "computeDailyLossPct acct =
     (case a_dailyRealizedPnl acct of
        None \<Rightarrow> 0
      | Some pnl \<Rightarrow> if pnl \<ge> 0 then 0 else if a_equity acct \<le> 0 then 1 else \<bar>pnl\<bar> / a_equity acct)"

definition raisePeak :: "number \<Rightarrow> breaker \<Rightarrow> breaker" where
  "raisePeak equity b = (if equity > bk_peakEquity b then b\<lparr>bk_peakEquity := equity\<rparr> else b)"

definition drawdownPct :: "number \<Rightarrow> number \<Rightarrow> number" where
  "drawdownPct peak equity = (if peak > 0 then max 0 ((peak - equity) / peak) else 0)"

definition blocked :: "breakerReason option \<Rightarrow> breakerVerdict" where
  "blocked reason = \<lparr>bv_allowEntries = False, bv_reason = reason, bv_riskDampener = 1\<rparr>"

text \<open>The thresholds of a check, the first breach first.\<close>

definition evaluateBreaker :: "breakerConfig \<Rightarrow> ms \<Rightarrow> breakerInput \<Rightarrow> breaker \<Rightarrow> breakerVerdict \<times> breaker" where
  "evaluateBreaker cfg now inp b =
     (if computeDailyLossPct (bi_account inp) \<ge> cb_maxDailyLossPct cfg
      then (blocked (Some MAX_DAILY_LOSS), tripBreaker cfg MAX_DAILY_LOSS now b)
      else if drawdownPct (bk_peakEquity b) (a_equity (bi_account inp)) \<ge> cb_maxDrawdownPct cfg
      then (blocked (Some MAX_DRAWDOWN), tripBreaker cfg MAX_DRAWDOWN now b)
      else if cb_requireHealthyMarket cfg \<and> \<not> bi_healthy inp \<and> length (bi_issues inp) > 0
      then (blocked (Some MARKET_UNHEALTHY), tripBreaker cfg MARKET_UNHEALTHY now b)
      else (\<lparr>bv_allowEntries = True, bv_reason = None,
             bv_riskDampener = (if bi_consecutiveLosses inp \<ge> cb_maxConsecutiveLosses cfg
               then coalesce (cb_consecutiveLossDampener cfg) (1 / 2) else 1)\<rparr>, b))"

definition checkBreaker :: "breakerConfig \<Rightarrow> ms \<Rightarrow> breakerInput \<Rightarrow> breaker \<Rightarrow> breakerVerdict \<times> breaker" where
  "checkBreaker cfg now inp b =
     (if bk_tripped b \<and> \<not> now \<ge> bk_cooldownEndsAt b then (blocked (bk_reason b), b)
      else (let b1 = (if bk_tripped b then clearBreaker now b else b) in
            evaluateBreaker cfg now inp (raisePeak (a_equity (bi_account inp)) b1)))"

definition forceTrip :: "breakerConfig \<Rightarrow> breakerReason option \<Rightarrow> ms \<Rightarrow> breaker \<Rightarrow> breaker" where
  "forceTrip cfg reason now b = tripBreaker cfg (coalesce reason OPERATOR_OVERRIDE) now b"

definition forceClear :: "ms \<Rightarrow> breaker \<Rightarrow> breaker" where
  "forceClear now b = clearBreaker now b"

subsection \<open>The breaker as a component\<close>

datatype breakerOp = CheckB breakerInput | ForceTripB "breakerReason option" | ForceClearB

definition breakerStep :: "breakerConfig \<Rightarrow> breakerOp \<times> ms \<Rightarrow> breaker \<Rightarrow> breaker" where
  "breakerStep cfg x b = (case x of
       (CheckB inp, now) \<Rightarrow> snd (checkBreaker cfg now inp b)
     | (ForceTripB reason, now) \<Rightarrow> forceTrip cfg reason now b
     | (ForceClearB, now) \<Rightarrow> forceClear now b)"

lemma trip_frame [simp]: "bk_peakEquity (tripBreaker cfg r now b) = bk_peakEquity b"
  "bk_peakEquity (clearBreaker now b) = bk_peakEquity b" "bk_tripped (tripBreaker cfg r now b)"
  "\<not> bk_tripped (clearBreaker now b)" "bk_totalTrips (clearBreaker now b) = bk_totalTrips b"
  by (simp_all add: tripBreaker_def clearBreaker_def)

lemma raisePeak_frame [simp]: "bk_peakEquity (raisePeak x b) = max (bk_peakEquity b) x"
  "bk_tripped (raisePeak x b) = bk_tripped b"
  by (simp_all add: raisePeak_def max_def)

lemma evaluate_peak [simp]: "bk_peakEquity (snd (evaluateBreaker cfg now inp b)) = bk_peakEquity b"
  by (simp add: evaluateBreaker_def)

lemma drawdown_breach:
  "0 < m \<Longrightarrow> drawdownPct peak equity \<ge> m \<longleftrightarrow> peak > 0 \<and> equity \<le> (1 - m) * peak"
  by (auto simp: drawdownPct_def le_max_iff_disj pos_le_divide_eq algebra_simps)

lemma step_peak: "bk_peakEquity b \<le> bk_peakEquity (breakerStep cfg x b)"
  by (auto simp: breakerStep_def checkBreaker_def Let_def forceTrip_def forceClear_def split: breakerOp.splits prod.splits)

lemma run_peak: "bk_peakEquity b \<le> bk_peakEquity (fold (breakerStep cfg) ops b)"
  by (induction ops arbitrary: b) (auto intro: order_trans [OF step_peak])

text \<open>C29. The verdict of a check, in one formula: entries are allowed exactly when no cooldown is running, the daily
  loss and the fall from the highest equity seen are below their limits and the market is not reported
  unhealthy. A losing streak of whatever length only scales the size.\<close>

theorem breaker_verdict:
  assumes "0 < cb_maxDrawdownPct cfg" "peak = max (bk_peakEquity b) (a_equity (bi_account inp))"
  shows "(bv_allowEntries (fst (checkBreaker cfg now inp b)) \<longleftrightarrow>
      (\<not> bk_tripped b \<or> bk_cooldownEndsAt b \<le> now)
      \<and> computeDailyLossPct (bi_account inp) < cb_maxDailyLossPct cfg
      \<and> (peak \<le> 0 \<or> (1 - cb_maxDrawdownPct cfg) * peak < a_equity (bi_account inp))
      \<and> (\<not> cb_requireHealthyMarket cfg \<or> bi_healthy inp \<or> bi_issues inp = []))
    \<and> (\<not> bv_allowEntries (fst (checkBreaker cfg now inp b)) \<longleftrightarrow> bk_tripped (snd (checkBreaker cfg now inp b)))"
  using drawdown_breach [OF assms(1), of peak "a_equity (bi_account inp)"]
  by (auto simp: checkBreaker_def evaluateBreaker_def Let_def blocked_def assms(2) not_le not_less)

definition sampleBreakerAccount :: "number \<Rightarrow> accountState" where
  "sampleBreakerAccount equity = \<lparr>a_walletBalance = equity, a_unrealizedPnl = 0, a_equity = equity, a_initialMargin = 0,
     a_maintenanceMargin = 0, a_availableBalance = equity, a_marginRatio = None, a_totalFees = 0, a_totalFunding = 0,
     a_totalRealizedPnl = 0, a_openPositionsCount = 0, a_openOrdersCount = 0, a_dailyRealizedPnl = None,
     a_peakEquity = None, a_drawdown = None, a_liquidations = 0\<rparr>"

definition sampleBreakerInput :: "number \<Rightarrow> breakerInput" where
  "sampleBreakerInput equity = \<lparr>bi_account = sampleBreakerAccount equity, bi_consecutiveLosses = 9, bi_healthy = True, bi_issues = []\<rparr>"

definition sampleBreakerConfig :: breakerConfig where
  "sampleBreakerConfig = \<lparr>cb_maxDailyLossPct = 3 / 100, cb_maxConsecutiveLosses = 4, cb_maxDrawdownPct = 1 / 10,
     cb_cooldownMs = 900000, cb_requireHealthyMarket = True, cb_consecutiveLossDampener = None\<rparr>"

lemmas breaker_eval = sampleBreakerAccount_def sampleBreakerInput_def sampleBreakerConfig_def newBreaker_def coalesce_def
  computeDailyLossPct_def

text \<open>Nine losses in a row, and entries are allowed.\<close>

theorem breaker_verdict_witness:
  "bv_allowEntries (fst (checkBreaker sampleBreakerConfig 5 (sampleBreakerInput 950) (newBreaker (sampleBreakerAccount 1000))))"
  using breaker_verdict [of sampleBreakerConfig 1000 "newBreaker (sampleBreakerAccount 1000)" "sampleBreakerInput 950" 5]
  by (simp add: breaker_eval)

subsection \<open>Runs\<close>

primrec breakerVerdicts :: "breakerConfig \<Rightarrow> (breakerOp \<times> ms) list \<Rightarrow> breaker \<Rightarrow> breakerVerdict list" where
  "breakerVerdicts cfg [] b = []"
| "breakerVerdicts cfg (x # ops) b =
     (case x of (CheckB inp, now) \<Rightarrow> [fst (checkBreaker cfg now inp b)] | _ \<Rightarrow> [])
     @ breakerVerdicts cfg ops (breakerStep cfg x b)"

lemma tripped_frozen:
  "bk_tripped b \<Longrightarrow> fst x \<noteq> ForceClearB \<Longrightarrow> snd x < bk_cooldownEndsAt b \<Longrightarrow> breakerStep cfg x b = b"
  by (auto simp: breakerStep_def checkBreaker_def forceTrip_def tripBreaker_def split: breakerOp.splits prod.splits)

lemma tripped_refuses:
  "bk_tripped b \<Longrightarrow> now < bk_cooldownEndsAt b \<Longrightarrow> fst (checkBreaker cfg now inp b) = blocked (bk_reason b)"
  by (simp add: checkBreaker_def)

lemma tripped_run:
  "bk_tripped b \<Longrightarrow> \<forall>x \<in> set ops. fst x \<noteq> ForceClearB \<and> snd x < bk_cooldownEndsAt b \<Longrightarrow>
    set (breakerVerdicts cfg ops b) \<subseteq> {blocked (bk_reason b)} \<and> fold (breakerStep cfg) ops b = b"
  by (induction ops) (auto simp: tripped_frozen tripped_refuses split: breakerOp.splits prod.splits)

lemma step_trips:
  "\<not> bk_tripped b \<Longrightarrow> bk_tripped (breakerStep cfg (opn, now) b) \<Longrightarrow>
    bk_cooldownEndsAt (breakerStep cfg (opn, now) b) = now + cb_cooldownMs cfg \<and> bk_reason (breakerStep cfg (opn, now) b) \<noteq> None"
  by (auto simp: breakerStep_def checkBreaker_def evaluateBreaker_def forceTrip_def forceClear_def tripBreaker_def
      clearBreaker_def raisePeak_def Let_def split: breakerOp.splits if_splits)

text \<open>Once tripped, by a check or by the operator, the breaker refuses every entry for the configured cooldown with
  the reason it tripped for, whatever the account, the streak and the health do meanwhile; a second trip
  changes nothing. Only the operator's clear ends the cooldown early.\<close>

theorem breaker_blocks_for_cooldown:
  assumes "\<not> bk_tripped b" "b1 = breakerStep cfg (opn, t) b" "bk_tripped b1"
    "\<forall>x \<in> set ops. fst x \<noteq> ForceClearB \<and> snd x < t + cb_cooldownMs cfg"
  shows "set (breakerVerdicts cfg ops b1) \<subseteq> {blocked (bk_reason b1)} \<and> bk_reason b1 \<noteq> None
    \<and> fold (breakerStep cfg) ops b1 = b1"
proof -
  have "bk_cooldownEndsAt b1 = t + cb_cooldownMs cfg \<and> bk_reason b1 \<noteq> None"
    using step_trips assms(1-3) by simp
  then show ?thesis using tripped_run [OF assms(3), of ops cfg] assms(4) by simp
qed

theorem breaker_blocks_for_cooldown_witness:
  "breakerVerdicts sampleBreakerConfig [(CheckB (sampleBreakerInput 1000), 7), (ForceTripB None, 8), (CheckB (sampleBreakerInput 2000), 900004)]
     (breakerStep sampleBreakerConfig (CheckB (sampleBreakerInput 900), 5) (newBreaker (sampleBreakerAccount 1000)))
   = [blocked (Some MAX_DRAWDOWN), blocked (Some MAX_DRAWDOWN)]"
proof -
  let ?b = "newBreaker (sampleBreakerAccount 1000)" and ?x = "CheckB (sampleBreakerInput 900)"
  let ?ops = "[(CheckB (sampleBreakerInput 1000), 7), (ForceTripB None, 8), (CheckB (sampleBreakerInput 2000), 900004)]"
  let ?vs = "breakerVerdicts sampleBreakerConfig ?ops (breakerStep sampleBreakerConfig (?x, 5) ?b)"
  have st: "\<not> bk_tripped ?b" "bk_tripped (breakerStep sampleBreakerConfig (?x, 5) ?b)"
    "bk_reason (breakerStep sampleBreakerConfig (?x, 5) ?b) = Some MAX_DRAWDOWN"
    by (simp_all add: breakerStep_def checkBreaker_def evaluateBreaker_def raisePeak_def breaker_eval drawdownPct_def tripBreaker_def)
  have "\<forall>x \<in> set ?ops. fst x \<noteq> ForceClearB \<and> snd x < 5 + cb_cooldownMs sampleBreakerConfig"
    by (simp add: sampleBreakerConfig_def)
  then have "set ?vs \<subseteq> {blocked (Some MAX_DRAWDOWN)}"
    using breaker_blocks_for_cooldown [OF st(1) refl st(2)] unfolding st(3) by blast
  moreover have "length ?vs = 2" by (simp del: fun_upd_apply)
  ultimately show ?thesis by (auto simp: numeral_2_eq_2 length_Suc_conv simp del: breakerVerdicts.simps)
qed

text \<open>C30. A drawdown outlasts the cooldown and the operator: the highest equity seen is never forgotten, so that after
  any run of checks, trips and clears, however late, a check refuses and trips again as long as the
  equity has not come back to within the limit of that peak, which without entries it can reach only
  through the positions still open.\<close>

theorem drawdown_outlasts_override:
  assumes "0 < cb_maxDrawdownPct cfg" "cb_maxDrawdownPct cfg \<le> 1" "0 < bk_peakEquity b"
    "a_equity (bi_account inp) \<le> (1 - cb_maxDrawdownPct cfg) * bk_peakEquity b"
    "checkBreaker cfg now inp (fold (breakerStep cfg) ops b) = (verdict, b1)"
  shows "\<not> bv_allowEntries verdict \<and> bk_tripped b1"
proof -
  let ?b = "fold (breakerStep cfg) ops b"
  have peak: "bk_peakEquity b \<le> bk_peakEquity ?b" by (rule run_peak)
  then have "(1 - cb_maxDrawdownPct cfg) * bk_peakEquity b \<le> (1 - cb_maxDrawdownPct cfg) * bk_peakEquity ?b"
    using assms(2) by (intro mult_left_mono) simp_all
  moreover have "(1 - cb_maxDrawdownPct cfg) * bk_peakEquity ?b
      \<le> (1 - cb_maxDrawdownPct cfg) * max (bk_peakEquity ?b) (a_equity (bi_account inp))"
    using assms(2) by (intro mult_left_mono) simp_all
  ultimately have "drawdownPct (max (bk_peakEquity ?b) (a_equity (bi_account inp))) (a_equity (bi_account inp)) \<ge> cb_maxDrawdownPct cfg"
    using peak assms(3,4) by (subst drawdown_breach [OF assms(1)]) auto
  then show ?thesis
    using assms(5) by (auto simp: checkBreaker_def evaluateBreaker_def Let_def blocked_def split: if_splits)
qed

text \<open>The breaker trips, its cooldown elapses, the operator clears it, and a day later it trips again.\<close>

theorem drawdown_outlasts_override_witness:
  "\<not> bv_allowEntries (fst (checkBreaker sampleBreakerConfig 86400000 (sampleBreakerInput 900) (fold (breakerStep sampleBreakerConfig)
     [(CheckB (sampleBreakerInput 900), 5), (CheckB (sampleBreakerInput 900), 900005), (ForceClearB, 1000000)]
     (newBreaker (sampleBreakerAccount 1000)))))"
proof -
  let ?ops = "[(CheckB (sampleBreakerInput 900), 5), (CheckB (sampleBreakerInput 900), 900005), (ForceClearB, 1000000)]"
  obtain verdict b1 where c: "checkBreaker sampleBreakerConfig 86400000 (sampleBreakerInput 900)
      (fold (breakerStep sampleBreakerConfig) ?ops (newBreaker (sampleBreakerAccount 1000))) = (verdict, b1)" by fastforce
  show ?thesis
    using drawdown_outlasts_override [OF _ _ _ _ c] unfolding c by (simp add: breaker_eval)
qed

end
