(* ===== verification/Provider_Supervisor.thy ===== *)
theory Provider_Supervisor
  imports Execution_Gateway
begin

section \<open>The market data supervisor (src/market/supervisor)\<close>

text \<open>
  Two providers feed the system. The health manager remembers when each was last heard of, the divergence
  guard what each last said a symbol costs, and the supervisor decides on every tick which of the two is
  active. \<open>Date.now()\<close> is an argument; the numbers of a provider's price are those of the model.
\<close>

subsection \<open>Provider health\<close>

datatype providerHealthStatus = HEALTHY_PH | DEGRADED_PH | STALE_PH | DISCONNECTED_PH | RECOVERING_PH

record providerHealthState =
  ph_provider :: dataProvider
  ph_status :: providerHealthStatus
  ph_lastTickTimeMs :: ms
  ph_latencyMs :: number
  ph_stale :: bool
  ph_consecutiveMisses :: nat

record healthManager =
  hm_staleThresholdMs :: ms
  hm_degradedThresholdMs :: ms
  hm_providerStates :: "(dataProvider, providerHealthState) jsmap"

definition newHealthManager :: "ms option \<Rightarrow> ms option \<Rightarrow> healthManager" where
  "newHealthManager staleThresholdMs degradedThresholdMs =
     \<lparr>hm_staleThresholdMs = coalesce staleThresholdMs 5000, hm_degradedThresholdMs = coalesce degradedThresholdMs 2500,
      hm_providerStates = []\<rparr>"

definition recordTick :: "dataProvider \<Rightarrow> ms \<Rightarrow> number \<Rightarrow> healthManager \<Rightarrow> healthManager" where
  "recordTick provider tickTimeMs latencyMs h =
     h\<lparr>hm_providerStates := mset provider
       \<lparr>ph_provider = provider, ph_status = HEALTHY_PH, ph_lastTickTimeMs = tickTimeMs, ph_latencyMs = latencyMs,
        ph_stale = False, ph_consecutiveMisses = 0\<rparr> (hm_providerStates h)\<rparr>"

definition getHealth :: "dataProvider \<Rightarrow> ms \<Rightarrow> healthManager \<Rightarrow> providerHealthState" where
  "getHealth provider nowMs h =
     (case mget (hm_providerStates h) provider of
        None \<Rightarrow> \<lparr>ph_provider = provider, ph_status = DISCONNECTED_PH, ph_lastTickTimeMs = 0, ph_latencyMs = 0,
          ph_stale = True, ph_consecutiveMisses = 1\<rparr>
      | Some state \<Rightarrow>
          if ph_status state = DISCONNECTED_PH then state
          else (let elapsed = nowMs - ph_lastTickTimeMs state in
            if elapsed > hm_staleThresholdMs h then state\<lparr>ph_status := STALE_PH, ph_stale := True\<rparr>
            else if elapsed > hm_degradedThresholdMs h then state\<lparr>ph_status := DEGRADED_PH, ph_stale := False\<rparr>
            else state\<lparr>ph_status := HEALTHY_PH, ph_stale := False\<rparr>))"

definition recordDisconnect :: "dataProvider \<Rightarrow> ms \<Rightarrow> healthManager \<Rightarrow> healthManager" where
  "recordDisconnect provider nowMs h =
     (let existing = getHealth provider nowMs h in
      h\<lparr>hm_providerStates := mset provider
        (existing\<lparr>ph_status := DISCONNECTED_PH, ph_stale := True, ph_consecutiveMisses := ph_consecutiveMisses existing + 1\<rparr>)
        (hm_providerStates h)\<rparr>)"

definition isHealthy :: "dataProvider \<Rightarrow> ms \<Rightarrow> healthManager \<Rightarrow> bool" where
  "isHealthy provider nowMs h \<longleftrightarrow>
     (let health = getHealth provider nowMs h in ph_status health = HEALTHY_PH \<and> \<not> ph_stale health)"

subsection \<open>Price divergence\<close>

record priceDivergenceResult =
  pd_symbol :: string
  pd_binancePrice :: "number option"
  pd_coindcxPrice :: "number option"
  pd_divergenceBps :: int
  pd_isDivergent :: bool

record divergenceGuard =
  dg_maxDivergenceBps :: number
  dg_prices :: "(string, (dataProvider, number) jsmap) jsmap"

definition newDivergenceGuard :: "number option \<Rightarrow> divergenceGuard" where
  "newDivergenceGuard maxDivergenceBps = \<lparr>dg_maxDivergenceBps = coalesce maxDivergenceBps 50, dg_prices = []\<rparr>"

definition divergenceBps :: "number \<Rightarrow> number \<Rightarrow> int" where
  "divergenceBps binancePrice coindcxPrice = math_round (\<bar>binancePrice - coindcxPrice\<bar> / binancePrice * 10000)"

definition checkDivergence :: "string \<Rightarrow> divergenceGuard \<Rightarrow> priceDivergenceResult" where
  "checkDivergence symbol g =
     (case mget (dg_prices g) symbol of
        None \<Rightarrow> \<lparr>pd_symbol = symbol, pd_binancePrice = None, pd_coindcxPrice = None, pd_divergenceBps = 0, pd_isDivergent = False\<rparr>
      | Some symbolMap \<Rightarrow>
          (let binancePrice = mget symbolMap BINANCE; coindcxPrice = mget symbolMap COINDCX;
               none = \<lparr>pd_symbol = symbol, pd_binancePrice = binancePrice, pd_coindcxPrice = coindcxPrice,
                 pd_divergenceBps = 0, pd_isDivergent = False\<rparr> in
           case (binancePrice, coindcxPrice) of
             (Some p, Some q) \<Rightarrow>
               if p \<le> 0 then none
               else none\<lparr>pd_divergenceBps := divergenceBps p q,
                 pd_isDivergent := (of_int (divergenceBps p q) > dg_maxDivergenceBps g)\<rparr>
           | _ \<Rightarrow> none))"

definition recordPrice :: "string \<Rightarrow> dataProvider \<Rightarrow> number \<Rightarrow> divergenceGuard \<Rightarrow> priceDivergenceResult \<times> divergenceGuard" where
  "recordPrice symbol provider price g =
     (let symbolMap = coalesce (mget (dg_prices g) symbol) [];
          g1 = g\<lparr>dg_prices := mset symbol (mset provider price symbolMap) (dg_prices g)\<rparr> in
      (checkDivergence symbol g1, g1))"

definition shouldHaltNewEntries :: "string \<Rightarrow> divergenceGuard \<Rightarrow> bool" where
  "shouldHaltNewEntries symbol g = pd_isDivergent (checkDivergence symbol g)"

subsection \<open>The supervisor\<close>

record supervisor =
  su_primary :: dataProvider
  su_fallback :: dataProvider
  su_active :: dataProvider
  su_health :: healthManager
  su_divergence :: divergenceGuard

record supervisorTickResult =
  tr_activeProvider :: dataProvider
  tr_switched :: bool
  tr_reason :: "string option"
  tr_divergent :: bool

definition newSupervisor ::
  "dataProvider option \<Rightarrow> dataProvider option \<Rightarrow> healthManager option \<Rightarrow> divergenceGuard option \<Rightarrow> supervisor" where
  "newSupervisor primary fallback health divergence =
     \<lparr>su_primary = coalesce primary BINANCE, su_fallback = coalesce fallback COINDCX, su_active = coalesce primary BINANCE,
      su_health = coalesce health (newHealthManager None None),
      su_divergence = coalesce divergence (newDivergenceGuard None)\<rparr>"

definition providerName :: "dataProvider \<Rightarrow> string" where
  "providerName p = (case p of BINANCE \<Rightarrow> ''BINANCE'' | COINDCX \<Rightarrow> ''COINDCX'')"

text \<open>\<open>None\<close> when the fallback may take over, otherwise the reason it may not.\<close>

definition validateFailover :: "string \<Rightarrow> ms \<Rightarrow> supervisor \<Rightarrow> string option" where
  "validateFailover symbol nowMs s =
     (if \<not> isHealthy (su_fallback s) nowMs (su_health s)
      then Some (''Fallback provider '' @ providerName (su_fallback s) @ '' is not healthy'')
      else (let d = checkDivergence symbol (su_divergence s) in
        if pd_isDivergent d then Some (''Price divergence too high ('' @ showInt (pd_divergenceBps d) @ '' bps)'') else None))"

definition processTick ::
  "dataProvider \<Rightarrow> string \<Rightarrow> number \<Rightarrow> ms \<Rightarrow> number \<Rightarrow> supervisor \<Rightarrow> supervisorTickResult \<times> supervisor" where
  "processTick provider symbol price tickTimeMs latencyMs s =
     (let h = recordTick provider tickTimeMs latencyMs (su_health s);
          (d, g) = recordPrice symbol provider price (su_divergence s);
          s1 = s\<lparr>su_health := h, su_divergence := g\<rparr>;
          (reason, active) =
            (if su_active s1 = su_primary s1 \<and> \<not> isHealthy (su_primary s1) tickTimeMs h
             then if validateFailover symbol tickTimeMs s1 = None
               then (Some (''Primary provider '' @ providerName (su_primary s1) @ '' unhealthy; switched to ''
                   @ providerName (su_fallback s1)), su_fallback s1)
               else (None, su_active s1)
             else if su_active s1 = su_fallback s1 \<and> isHealthy (su_primary s1) tickTimeMs h
             then (Some (''Primary provider '' @ providerName (su_primary s1) @ '' recovered; restored as active''), su_primary s1)
             else (None, su_active s1)) in
      (\<lparr>tr_activeProvider = active, tr_switched = (reason \<noteq> None), tr_reason = reason, tr_divergent = pd_isDivergent d\<rparr>,
       s1\<lparr>su_active := active\<rparr>))"

datatype supervisorOp = TickS dataProvider string number number | DisconnectS dataProvider

definition supervisorStep :: "supervisorOp \<times> ms \<Rightarrow> supervisor \<Rightarrow> supervisor" where
  "supervisorStep x s = (case x of
       (TickS provider symbol price latency, now) \<Rightarrow> snd (processTick provider symbol price now latency s)
     | (DisconnectS provider, now) \<Rightarrow> s\<lparr>su_health := recordDisconnect provider now (su_health s)\<rparr>)"

subsection \<open>Who is active\<close>

lemma processTick_frame [simp]:
  "su_primary (snd (processTick provider symbol price now latency s)) = su_primary s"
  "su_fallback (snd (processTick provider symbol price now latency s)) = su_fallback s"
  "su_health (snd (processTick provider symbol price now latency s)) = recordTick provider now latency (su_health s)"
  "su_divergence (snd (processTick provider symbol price now latency s)) = snd (recordPrice symbol provider price (su_divergence s))"
  by (simp_all add: processTick_def Let_def split_beta)

lemma active_after_tick:
  assumes "su_active s \<in> {su_primary s, su_fallback s}" "su_primary s \<noteq> su_fallback s"
    "s1 = snd (processTick provider symbol price now latency s)"
  shows "su_active s1 = (if isHealthy (su_primary s) now (su_health s1) then su_primary s
    else if su_active s = su_fallback s
      \<or> isHealthy (su_fallback s) now (su_health s1) \<and> \<not> pd_isDivergent (checkDivergence symbol (su_divergence s1))
    then su_fallback s else su_primary s)"
  using assms by (auto simp: processTick_def validateFailover_def Let_def split_beta)

lemma active_known_tick:
  "su_active s \<in> {su_primary s, su_fallback s} \<Longrightarrow>
    su_active (snd (processTick provider symbol price now latency s)) \<in> {su_primary s, su_fallback s}"
  by (auto simp: processTick_def Let_def split_beta)

interpretation supervision: component supervisorStep
  "\<lambda>s. su_primary s = p \<and> su_fallback s = f \<and> su_active s \<in> {p, f}" for p f
proof (unfold_locales, goal_cases)
  case (1 s x)
  then show ?case using active_known_tick [of s] by (cases x; cases "fst x") (auto simp: supervisorStep_def)
qed

text \<open>Failover is justified and prompt: in any run of ticks and disconnects the active provider after a tick is the
  primary whenever that is healthy; otherwise it is the fallback exactly when it already was or when the fallback is
  healthy and the two prices of the tick's symbol agree up to the limit; and a switch is reported exactly when
  the active provider changed.\<close>

theorem failover_justified:
  assumes "p \<noteq> f" "s = fold supervisorStep ops (newSupervisor (Some p) (Some f) health divergence)"
    "processTick provider symbol price now latency s = (result, s1)"
  shows "su_active s1 = (if isHealthy p now (su_health s1) then p
      else if su_active s = f
        \<or> isHealthy f now (su_health s1) \<and> \<not> pd_isDivergent (checkDivergence symbol (su_divergence s1))
      then f else p)
    \<and> tr_activeProvider result = su_active s1 \<and> (tr_switched result \<longleftrightarrow> su_active s1 \<noteq> su_active s)"
proof -
  have s: "su_primary s = p" "su_fallback s = f" "su_active s \<in> {p, f}"
    using supervision.inv_run [where p = p and f = f and s = "newSupervisor (Some p) (Some f) health divergence" and xs = ops]
    unfolding assms(2) by (simp_all add: newSupervisor_def coalesce_def)
  have "tr_activeProvider result = su_active s1 \<and> (tr_switched result \<longleftrightarrow> su_active s1 \<noteq> su_active s)"
    using assms(1,3) s by (auto simp: processTick_def Let_def split_beta split: if_splits)
  then show ?thesis using active_after_tick [of s s1 provider symbol price now latency] assms(1,3) s by simp
qed

definition sampleFeed :: "(supervisorOp \<times> ms) list" where
  "sampleFeed = [(TickS BINANCE ''B'' 100 1, 1000), (TickS COINDCX ''B'' 100 1, 4000)]"

lemmas supervisor_eval = sampleFeed_def supervisorStep_def processTick_def newSupervisor_def coalesce_def newHealthManager_def
  newDivergenceGuard_def recordTick_def recordPrice_def checkDivergence_def isHealthy_def getHealth_def validateFailover_def
  mget_def mset_def Let_def

text \<open>The primary is silent for three seconds: the fallback takes over, and gives way at the primary's next tick.\<close>

theorem failover_justified_witness:
  "su_active (fold supervisorStep sampleFeed (newSupervisor (Some BINANCE) (Some COINDCX) None None)) = COINDCX
   \<and> su_active (snd (processTick BINANCE ''B'' 101 4001 1
       (fold supervisorStep sampleFeed (newSupervisor (Some BINANCE) (Some COINDCX) None None)))) = BINANCE"
proof -
  let ?s = "fold supervisorStep sampleFeed (newSupervisor (Some BINANCE) (Some COINDCX) None None)"
  have "su_active ?s = COINDCX" by (simp add: supervisor_eval divergenceBps_def math_round_def)
  moreover obtain result s1 where t: "processTick BINANCE ''B'' 101 4001 1 ?s = (result, s1)" by fastforce
  moreover have "su_health s1 = recordTick BINANCE 4001 1 (su_health ?s)"
    using processTick_frame(3) [of BINANCE "''B''" 101 4001 1 ?s] by (simp add: t)
  then have "isHealthy BINANCE 4001 (su_health s1)" by (simp add: supervisor_eval)
  ultimately show ?thesis using failover_justified [OF _ refl t] by (simp add: t)
qed

text \<open>C31. A dead primary can veto its own replacement: the guard keeps the primary's last price for ever, so as long as the
  fallback's ticks are of that symbol and differ from that price by more than the limit, no run of them makes the fallback active, however long the primary has been silent and however healthy the
  fallback is.\<close>

theorem stale_price_blocks_failover:
  assumes "su_primary s = BINANCE" "su_fallback s = COINDCX" "su_active s = BINANCE"
    "mget (dg_prices (su_divergence s)) symbol = Some m" "mget m BINANCE = Some lastPrice" "0 < lastPrice"
    "\<forall>tick \<in> set ticks. dg_maxDivergenceBps (su_divergence s) < of_int (divergenceBps lastPrice (fst tick))"
  shows "su_active (fold (\<lambda>tick. supervisorStep (TickS COINDCX symbol (fst tick) 0, snd tick)) ticks s) = BINANCE"
  using assms
proof (induction ticks arbitrary: s m)
  case Nil
  then show ?case by simp
next
  case (Cons tick ticks)
  let ?s = "snd (processTick COINDCX symbol (fst tick) (snd tick) 0 s)"
  have g: "su_divergence ?s = (su_divergence s)\<lparr>dg_prices := mset symbol (mset COINDCX (fst tick) m) (dg_prices (su_divergence s))\<rparr>"
    using Cons.prems(4) by (simp add: recordPrice_def coalesce_def Let_def)
  then have "pd_isDivergent (checkDivergence symbol (su_divergence ?s))"
    using Cons.prems(5,6,7) by (simp add: checkDivergence_def Let_def)
  then have "su_active ?s = BINANCE"
    using active_after_tick [of s ?s COINDCX symbol "fst tick" "snd tick" 0] Cons.prems(1,2,3) by (auto split: if_splits)
  then have "su_active (fold (\<lambda>tick. supervisorStep (TickS COINDCX symbol (fst tick) 0, snd tick)) ticks ?s) = BINANCE"
    using Cons.prems g by (intro Cons.IH [of ?s "mset COINDCX (fst tick) m"]) simp_all
  moreover have "supervisorStep (TickS COINDCX symbol (fst tick) 0, snd tick) s = ?s" by (simp add: supervisorStep_def)
  ultimately show ?case by simp
qed

text \<open>Binance dies at 100; an hour later CoinDCX is alive at 101 and 102, and Binance stays the active provider.\<close>

theorem stale_price_blocks_failover_witness:
  "su_active (fold (\<lambda>tick. supervisorStep (TickS COINDCX ''B'' (fst tick) 0, snd tick)) [(101, 3600000), (102, 3600500)]
     (supervisorStep (TickS BINANCE ''B'' 100 1, 1000) (newSupervisor None None None None))) = BINANCE"
  by (rule stale_price_blocks_failover [where m = "[(BINANCE, 100)]" and lastPrice = 100])
    (simp_all add: supervisor_eval divergenceBps_def math_round_def)

end
