(* ===== verification/Api_Limits.thy ===== *)
theory Api_Limits
  imports Prelude
begin

section \<open>The rate limiter of the API (src/api/RateLimiter.ts)\<close>

text \<open>
  A token bucket per client and scope, in a map that is swept when it grows. The bucket a check works on
  is the object in the map, so what a check takes from it after the sweep is lost when the sweep
  removed it. \<open>Date.now()\<close> is an argument.
\<close>

record rateLimitTier =
  rt_capacity :: number
  rt_refillPerSec :: number

record rateLimiterOptions =
  ro_read :: rateLimitTier
  ro_control :: rateLimitTier
  ro_idleEvictionMs :: "ms option"
  ro_maxTrackedClients :: "nat option"

text \<open>A wait of \<open>Math.ceil\<close> of a quotient, which is infinite where nothing is refilled.\<close>

datatype retryWait = Seconds int | Never

record rateLimitDecision =
  rd_allowed :: bool
  rd_retryAfterSec :: "retryWait option"
  rd_remaining :: int

definition DEFAULT_RATE_LIMITS :: rateLimiterOptions where
  "DEFAULT_RATE_LIMITS =
     \<lparr>ro_read = \<lparr>rt_capacity = 120, rt_refillPerSec = 10\<rparr>, ro_control = \<lparr>rt_capacity = 20, rt_refillPerSec = 1\<rparr>,
      ro_idleEvictionMs = Some 600000, ro_maxTrackedClients = Some 10000\<rparr>"

record bucket =
  bu_tokens :: number
  bu_lastRefillMs :: ms
  bu_lastSeenMs :: ms

datatype rateLimitScope = READ_SCOPE | CONTROL_SCOPE

type_synonym buckets = "(string, bucket) jsmap"

definition tierOf :: "rateLimiterOptions \<Rightarrow> rateLimitScope \<Rightarrow> rateLimitTier" where
  "tierOf opts scope = (if scope = CONTROL_SCOPE then ro_control opts else ro_read opts)"

definition bucketKey :: "rateLimitScope \<Rightarrow> string \<Rightarrow> string" where
  "bucketKey scope key = (case scope of READ_SCOPE \<Rightarrow> ''read'' | CONTROL_SCOPE \<Rightarrow> ''control'') @ '':'' @ key"

definition idleMsOf :: "rateLimiterOptions \<Rightarrow> ms" where
  "idleMsOf opts = coalesce (ro_idleEvictionMs opts) 600000"

definition maxClientsOf :: "rateLimiterOptions \<Rightarrow> nat" where
  "maxClientsOf opts = coalesce (ro_maxTrackedClients opts) 10000"

definition evictIdle :: "rateLimiterOptions \<Rightarrow> ms \<Rightarrow> buckets \<Rightarrow> buckets" where
  "evictIdle opts nowMs m =
     (if length m \<le> maxClientsOf opts \<and> length m < 128 then m
      else
        (let m1 = filter (\<lambda>(key, b). \<not> nowMs - bu_lastSeenMs b > idleMsOf opts) m in
         if length m1 > maxClientsOf opts
         then (let byAge = sort_key (\<lambda>kv. bu_lastSeenMs (snd kv)) m1; excess = length m1 - maxClientsOf opts in
               fold (\<lambda>kv. mdel (fst kv)) (take excess byAge) m1)
         else m1))"

definition refilled :: "rateLimitTier \<Rightarrow> ms \<Rightarrow> bucket \<Rightarrow> number" where
  "refilled tier nowMs b =
     min (rt_capacity tier) (bu_tokens b + max 0 (of_int (nowMs - bu_lastRefillMs b) / 1000) * rt_refillPerSec tier)"

definition retryAfter :: "rateLimitTier \<Rightarrow> number \<Rightarrow> retryWait" where
  "retryAfter tier tokens =
     (if rt_refillPerSec tier = 0 then Never else Seconds (max 1 \<lceil>(1 - tokens) / rt_refillPerSec tier\<rceil>))"

definition checkRate ::
  "rateLimiterOptions \<Rightarrow> string \<Rightarrow> rateLimitScope \<Rightarrow> ms \<Rightarrow> buckets \<Rightarrow> rateLimitDecision \<times> buckets" where
  "checkRate opts key scope nowMs m =
     (let tier = tierOf opts scope; k = bucketKey scope key;
          b = coalesce (mget m k) \<lparr>bu_tokens = rt_capacity tier, bu_lastRefillMs = nowMs, bu_lastSeenMs = nowMs\<rparr>;
          tokens = refilled tier nowMs b;
          m1 = evictIdle opts nowMs (mset k \<lparr>bu_tokens = tokens, bu_lastRefillMs = nowMs, bu_lastSeenMs = nowMs\<rparr> m) in
      if tokens \<ge> 1
      then (\<lparr>rd_allowed = True, rd_retryAfterSec = None, rd_remaining = \<lfloor>tokens - 1\<rfloor>\<rparr>,
            if mget m1 k = None then m1
            else mset k \<lparr>bu_tokens = tokens - 1, bu_lastRefillMs = nowMs, bu_lastSeenMs = nowMs\<rparr> m1)
      else (\<lparr>rd_allowed = False, rd_retryAfterSec = Some (retryAfter tier tokens), rd_remaining = 0\<rparr>, m1))"

subsection \<open>Runs of checks\<close>

record rateCheck =
  rq_key :: string
  rq_scope :: rateLimitScope
  rq_at :: ms

definition checkKey :: "rateCheck \<Rightarrow> string" where
  "checkKey q = bucketKey (rq_scope q) (rq_key q)"

definition rateStep :: "rateLimiterOptions \<Rightarrow> rateCheck \<Rightarrow> buckets \<Rightarrow> buckets" where
  "rateStep opts q m = snd (checkRate opts (rq_key q) (rq_scope q) (rq_at q) m)"

primrec admissions :: "rateLimiterOptions \<Rightarrow> string \<Rightarrow> rateCheck list \<Rightarrow> buckets \<Rightarrow> nat" where
  "admissions opts k [] m = 0"
| "admissions opts k (q # qs) m =
     (if checkKey q = k \<and> rd_allowed (fst (checkRate opts (rq_key q) (rq_scope q) (rq_at q) m)) then 1 else 0)
     + admissions opts k qs (rateStep opts q m)"

lemma bucketKey_inject: "bucketKey s k = bucketKey s' k' \<longleftrightarrow> s = s' \<and> k = k'"
  by (auto simp: bucketKey_def split: rateLimitScope.splits)

subsection \<open>The map stays bounded\<close>

lemma mdel_keys: "mkeys (mdel k m) = filter (\<lambda>x. x \<noteq> k) (mkeys m)"
  by (induction m) (auto simp: mkeys_def mdel_def)

lemma delete_all:
  "mkeys (fold (\<lambda>kv. mdel (fst kv)) kvs m) = filter (\<lambda>x. x \<notin> fst ` set kvs) (mkeys m)"
  by (induction kvs arbitrary: m) (auto simp: mdel_keys intro: filter_cong)

lemma mkeys_filter: "set (mkeys (filter P m)) \<subseteq> set (mkeys m)"
  by (auto simp: mkeys_def)

lemma filter_distinct_keys: "distinct (mkeys m) \<Longrightarrow> distinct (mkeys (filter P m))"
  by (induction m) (auto simp: mkeys_def)

lemma length_delete_all:
  assumes "distinct (mkeys m)" "distinct (map fst kvs)" "fst ` set kvs \<subseteq> set (mkeys m)"
  shows "length (fold (\<lambda>kv. mdel (fst kv)) kvs m) = length m - length kvs"
proof -
  let ?rest = "filter (\<lambda>x. x \<notin> fst ` set kvs) (mkeys m)"
  have "length (fold (\<lambda>kv. mdel (fst kv)) kvs m) = length ?rest"
    using delete_all [of kvs m] by (metis length_map mkeys_def)
  also have "\<dots> = card (set (mkeys m) - fst ` set kvs)"
    using assms(1) by (subst distinct_card [symmetric]) (auto simp: set_diff_eq intro: arg_cong [where f = card])
  also have "\<dots> = card (set (mkeys m)) - card (fst ` set kvs)" using assms(3) by (intro card_Diff_subset) simp_all
  also have "card (fst ` set kvs) = length kvs" using assms(2) distinct_card by fastforce
  also have "card (set (mkeys m)) = length m" using assms(1) distinct_card by (fastforce simp: mkeys_def)
  finally show ?thesis .
qed

lemma evict_keys: "set (mkeys (evictIdle opts now m)) \<subseteq> set (mkeys m)"
  using mkeys_filter [of "\<lambda>(key, b). \<not> now - bu_lastSeenMs b > idleMsOf opts" m]
  by (auto simp: evictIdle_def Let_def delete_all simp del: not_less)

lemma evict_distinct: "distinct (mkeys m) \<Longrightarrow> distinct (mkeys (evictIdle opts now m))"
  by (auto simp: evictIdle_def Let_def delete_all filter_distinct_keys)

lemma evict_bounded: "distinct (mkeys m) \<Longrightarrow> length (evictIdle opts now m) \<le> maxClientsOf opts"
proof -
  assume d: "distinct (mkeys m)"
  let ?m1 = "filter (\<lambda>(key, b). \<not> now - bu_lastSeenMs b > idleMsOf opts) m"
  let ?kvs = "take (length ?m1 - maxClientsOf opts) (sort_key (\<lambda>kv. bu_lastSeenMs (snd kv)) ?m1)"
  have d1: "distinct (mkeys ?m1)" by (rule filter_distinct_keys [OF d])
  then have "distinct (map fst (sort_key (\<lambda>kv. bu_lastSeenMs (snd kv)) ?m1))"
    by (simp add: mkeys_def distinct_map)
  then have "distinct (map fst ?kvs)" by (simp add: take_map [symmetric] distinct_take)
  moreover have "fst ` set ?kvs \<subseteq> set (mkeys ?m1)" by (auto simp: mkeys_def dest!: in_set_takeD)
  ultimately have "length (fold (\<lambda>kv. mdel (fst kv)) ?kvs ?m1) = length ?m1 - length ?kvs"
    by (rule length_delete_all [OF d1])
  then show ?thesis by (auto simp: evictIdle_def Let_def)
qed

lemma mset_length_present: "mget m k \<noteq> None \<Longrightarrow> length (mset k v m) = length m"
  by (metis length_map mkeys_def mkeys_mset_present not_None_eq)

lemma rateStep_bounded:
  assumes "distinct (mkeys m)"
  shows "distinct (mkeys (rateStep opts q m)) \<and> length (rateStep opts q m) \<le> maxClientsOf opts
    \<and> set (mkeys (rateStep opts q m)) \<subseteq> insert (checkKey q) (set (mkeys m))"
proof -
  let ?k = "checkKey q"
  have d: "distinct (mkeys (mset ?k v m))" for v using assms by simp
  have keys: "set (mkeys (mset k v m')) = insert k (set (mkeys m'))" for k v and m' :: buckets
    by (auto simp: mkeys_def mset_def dom_update set_map [symmetric] update_keys simp del: set_map split: if_splits)
  show ?thesis
    using evict_bounded [OF d] evict_distinct [OF d] evict_keys keys
    by (auto simp: rateStep_def checkRate_def Let_def checkKey_def [symmetric] mset_length_present) fastforce+
qed

interpretation clients: component "rateStep opts" "\<lambda>m. distinct (mkeys m) \<and> length m \<le> maxClientsOf opts" for opts
  by unfold_locales (use rateStep_bounded in blast)

subsection \<open>How much is admitted\<close>

text \<open>What a client may still consume at a time, and the facts about its bucket this rests on.\<close>

definition budget :: "rateLimitTier \<Rightarrow> ms \<Rightarrow> bucket option \<Rightarrow> number" where
  "budget tier now b = (case b of None \<Rightarrow> rt_capacity tier
     | Some b \<Rightarrow> min (rt_capacity tier) (bu_tokens b + of_int (now - bu_lastRefillMs b) / 1000 * rt_refillPerSec tier))"

definition soundBucket :: "ms \<Rightarrow> bucket option \<Rightarrow> bool" where
  "soundBucket now b \<longleftrightarrow> (case b of None \<Rightarrow> True
     | Some b \<Rightarrow> 0 \<le> bu_tokens b \<and> bu_lastRefillMs b = bu_lastSeenMs b \<and> bu_lastSeenMs b \<le> now)"

definition refillsWhileIdle :: "rateLimiterOptions \<Rightarrow> rateLimitTier \<Rightarrow> bool" where
  "refillsWhileIdle opts tier \<longleftrightarrow> 0 \<le> rt_capacity tier \<and> 0 \<le> rt_refillPerSec tier \<and> 0 \<le> idleMsOf opts
     \<and> rt_capacity tier \<le> of_int (idleMsOf opts) / 1000 * rt_refillPerSec tier"

lemma budget_time:
  assumes "0 \<le> rt_refillPerSec tier" "now \<le> later"
  shows "budget tier later b \<le> budget tier now b + of_int (later - now) / 1000 * rt_refillPerSec tier"
proof -
  have "0 \<le> of_int (later - now) / 1000 * rt_refillPerSec tier" using assms by simp
  then show ?thesis by (auto simp: budget_def algebra_simps diff_divide_distrib min_def split: option.split)
qed

lemma soundBucket_time: "soundBucket now b \<Longrightarrow> now \<le> later \<Longrightarrow> soundBucket later b"
  by (auto simp: soundBucket_def split: option.splits)

lemma mget_sweep:
  "distinct (mkeys m) \<Longrightarrow> mget (filter (\<lambda>(key, b). P b) m) k = (case mget m k of None \<Rightarrow> None | Some b \<Rightarrow> if P b then Some b else None)"
  by (induction m) (auto simp: mget_def mkeys_def map_of_eq_None_iff image_iff split: option.split)

lemma evict_uncrowded:
  assumes "distinct (mkeys m)" "length m \<le> maxClientsOf opts"
  shows "mget (evictIdle opts now m) k = mget m k
    \<or> mget (evictIdle opts now m) k = None \<and> (\<exists>b. mget m k = Some b \<and> now - bu_lastSeenMs b > idleMsOf opts)"
proof -
  have "length (filter (\<lambda>(key, b). \<not> now - bu_lastSeenMs b > idleMsOf opts) m) \<le> maxClientsOf opts"
    using length_filter_le assms(2) by (rule order_trans)
  then show ?thesis
    using mget_sweep [OF assms(1), of "\<lambda>b. \<not> now - bu_lastSeenMs b > idleMsOf opts" k]
    by (auto simp: evictIdle_def split: option.splits)
qed

lemma idle_budget:
  assumes "refillsWhileIdle opts tier" "soundBucket now (Some b)" "now - bu_lastSeenMs b > idleMsOf opts"
  shows "budget tier now (Some b) = rt_capacity tier"
proof -
  have "of_int (idleMsOf opts) / 1000 * rt_refillPerSec tier \<le> of_int (now - bu_lastSeenMs b) / 1000 * rt_refillPerSec tier"
    using assms by (intro mult_right_mono) (auto simp: refillsWhileIdle_def divide_right_mono)
  then show ?thesis using assms(1,2) by (simp add: refillsWhileIdle_def soundBucket_def budget_def)
qed

lemma evict_budget:
  assumes "refillsWhileIdle opts tier" "distinct (mkeys m)" "length m \<le> maxClientsOf opts" "soundBucket now (mget m k)"
  shows "budget tier now (mget (evictIdle opts now m) k) = budget tier now (mget m k) \<and> soundBucket now (mget (evictIdle opts now m) k)"
  using evict_uncrowded [OF assms(2,3), of now k] idle_budget [OF assms(1)] assms(4)
  by (auto simp: soundBucket_def budget_def)

lemma length_in_card: "distinct (mkeys m) \<Longrightarrow> set (mkeys m) \<subseteq> K \<Longrightarrow> finite K \<Longrightarrow> length m \<le> card K"
  by (metis card_mono distinct_card length_map mkeys_def)

lemma mset_keys: "set (mkeys (mset k v m)) = insert k (set (mkeys m))"
  by (auto simp: mkeys_def mset_def update_keys set_map [symmetric] simp del: set_map split: if_splits)

lemma rateStep_budget:
  assumes tier: "refillsWhileIdle opts tier" "tier = tierOf opts scope" "k = bucketKey scope key"
    and m: "distinct (mkeys m)" "insert (checkKey q) (set (mkeys m)) \<subseteq> K" "finite K" "card K \<le> maxClientsOf opts"
    and b: "soundBucket (rq_at q) (mget m k)"
  shows "(if checkKey q = k \<and> rd_allowed (fst (checkRate opts (rq_key q) (rq_scope q) (rq_at q) m)) then 1 else 0)
      + budget tier (rq_at q) (mget (rateStep opts q m) k) \<le> budget tier (rq_at q) (mget m k)
    \<and> soundBucket (rq_at q) (mget (rateStep opts q m) k)"
proof -
  let ?now = "rq_at q" and ?q = "checkKey q"
  define fresh where "fresh = \<lparr>bu_tokens = rt_capacity (tierOf opts (rq_scope q)), bu_lastRefillMs = ?now, bu_lastSeenMs = ?now\<rparr>"
  define tokens where "tokens = refilled (tierOf opts (rq_scope q)) ?now (coalesce (mget m ?q) fresh)"
  define m1 where "m1 = mset ?q \<lparr>bu_tokens = tokens, bu_lastRefillMs = ?now, bu_lastSeenMs = ?now\<rparr> m"
  have m1: "distinct (mkeys m1)" "length m1 \<le> maxClientsOf opts"
  proof -
    show d: "distinct (mkeys m1)" using m(1) by (simp add: m1_def)
    have "set (mkeys m1) \<subseteq> K" using m(2) by (simp add: m1_def mset_keys)
    then show "length m1 \<le> maxClientsOf opts" using length_in_card [OF d _ m(3)] m(4) by simp
  qed
  have step: "checkRate opts (rq_key q) (rq_scope q) ?now m =
      (if tokens \<ge> 1
       then (\<lparr>rd_allowed = True, rd_retryAfterSec = None, rd_remaining = \<lfloor>tokens - 1\<rfloor>\<rparr>,
         if mget (evictIdle opts ?now m1) ?q = None then evictIdle opts ?now m1
         else mset ?q \<lparr>bu_tokens = tokens - 1, bu_lastRefillMs = ?now, bu_lastSeenMs = ?now\<rparr> (evictIdle opts ?now m1))
       else (\<lparr>rd_allowed = False, rd_retryAfterSec = Some (retryAfter (tierOf opts (rq_scope q)) tokens), rd_remaining = 0\<rparr>,
         evictIdle opts ?now m1))"
    by (simp add: checkRate_def Let_def m1_def tokens_def fresh_def checkKey_def)
  show ?thesis
  proof (cases "?q = k")
    case True
    then have scope: "tierOf opts (rq_scope q) = tier" using tier(2,3) by (simp add: checkKey_def bucketKey_inject)
    have tk: "tokens = budget tier ?now (mget m k)" "0 \<le> tokens" "tokens \<le> rt_capacity tier"
      using b tier(1) True scope
      by (auto simp: tokens_def refilled_def fresh_def budget_def soundBucket_def coalesce_def refillsWhileIdle_def split: option.splits)
    have live: "mget (evictIdle opts ?now m1) k = Some \<lparr>bu_tokens = tokens, bu_lastRefillMs = ?now, bu_lastSeenMs = ?now\<rparr>"
      using evict_uncrowded [OF m1, of ?now k] tier(1) True by (auto simp: m1_def refillsWhileIdle_def)
    show ?thesis
      using tk live True by (auto simp: step rateStep_def budget_def soundBucket_def)
  next
    case False
    then have "mget m1 k = mget m k" by (simp add: m1_def)
    then have e: "budget tier ?now (mget (evictIdle opts ?now m1) k) = budget tier ?now (mget m k)"
      "soundBucket ?now (mget (evictIdle opts ?now m1) k)"
      using evict_budget [OF tier(1) m1, of ?now k] b by simp_all
    show ?thesis using e False by (simp add: step rateStep_def)
  qed
qed

lemma budget_le: "budget tier now b \<le> rt_capacity tier"
  by (simp add: budget_def split: option.split)

lemma admissions_run:
  assumes "refillsWhileIdle opts tier" "tier = tierOf opts scope" "k = bucketKey scope key" "finite K" "card K \<le> maxClientsOf opts"
    "distinct (mkeys m)" "set (mkeys m) \<union> checkKey ` set qs \<subseteq> K" "soundBucket now (mget m k)"
    "sorted (now # map rq_at qs)" "\<forall>q \<in> set qs. rq_at q \<le> till" "now \<le> till"
  shows "of_nat (admissions opts k qs m) \<le> budget tier now (mget m k) + of_int (till - now) / 1000 * rt_refillPerSec tier
    \<and> (qs \<noteq> [] \<longrightarrow> soundBucket (rq_at (last qs)) (mget (fold (rateStep opts) qs m) k))"
  using assms(6-)
proof (induction qs arbitrary: m now)
  case Nil
  have "0 \<le> of_int (till - now) / 1000 * rt_refillPerSec tier" using assms(1) Nil.prems(6) by (simp add: refillsWhileIdle_def)
  moreover have "0 \<le> budget tier now (mget m k)"
    using assms(1) Nil.prems(3) by (auto simp: budget_def soundBucket_def refillsWhileIdle_def split: option.splits)
  ultimately show ?case by simp
next
  case (Cons q qs)
  let ?t = "rq_at q" and ?m = "rateStep opts q m"
  have t: "now \<le> ?t" "?t \<le> till" using Cons.prems(4,5) by simp_all
  have sound: "soundBucket ?t (mget m k)" using soundBucket_time [OF Cons.prems(3) t(1)] .
  have keys: "insert (checkKey q) (set (mkeys m)) \<subseteq> K" using Cons.prems(2) by simp
  note st = rateStep_budget [OF assms(1-3) Cons.prems(1) keys assms(4,5) sound]
  have m: "distinct (mkeys ?m)" "set (mkeys ?m) \<union> checkKey ` set qs \<subseteq> K"
    using rateStep_bounded [OF Cons.prems(1), of opts q] keys Cons.prems(2) by auto
  have ih: "of_nat (admissions opts k qs ?m) \<le> budget tier ?t (mget ?m k) + of_int (till - ?t) / 1000 * rt_refillPerSec tier
    \<and> (qs \<noteq> [] \<longrightarrow> soundBucket (rq_at (last qs)) (mget (fold (rateStep opts) qs ?m) k))"
    using Cons.prems(4,5) t st by (intro Cons.IH [OF m]) simp_all
  have "budget tier ?t (mget m k) \<le> budget tier now (mget m k) + of_int (?t - now) / 1000 * rt_refillPerSec tier"
    using assms(1) t(1) by (intro budget_time) (simp_all add: refillsWhileIdle_def)
  moreover have "of_int (?t - now) / 1000 * rt_refillPerSec tier + of_int (till - ?t) / 1000 * rt_refillPerSec tier
      = of_int (till - now) / 1000 * rt_refillPerSec tier" by (simp add: algebra_simps diff_divide_distrib)
  ultimately show ?case using ih st by (cases "qs = []") (auto split: if_splits)
qed

text \<open>What becomes of a bucket at a check of another client: nothing, or it is swept.\<close>

lemma mget_delete_all: "mget (fold (\<lambda>kv. mdel (fst kv)) kvs m) k = (if k \<in> fst ` set kvs then None else mget m k)"
  by (induction kvs arbitrary: m) auto

lemma evict_keeps:
  "distinct (mkeys m) \<Longrightarrow> mget (evictIdle opts now m) k = mget m k \<or> mget (evictIdle opts now m) k = None"
  using mget_sweep [of m "\<lambda>b. \<not> now - bu_lastSeenMs b > idleMsOf opts" k]
  by (auto simp: evictIdle_def Let_def mget_delete_all split: option.splits if_splits)

lemma other_check:
  assumes "distinct (mkeys m)" "checkKey q \<noteq> k"
  shows "mget (rateStep opts q m) k = mget m k \<or> mget (rateStep opts q m) k = None"
proof -
  have "distinct (mkeys (mset (checkKey q) v m))" for v using assms(1) by simp
  from evict_keeps [OF this, of opts "rq_at q" _ k] show ?thesis
    using assms(2) by (simp add: rateStep_def checkRate_def Let_def checkKey_def [symmetric])
qed

lemma other_checks:
  assumes "distinct (mkeys m)" "\<forall>q \<in> set qs. checkKey q \<noteq> k"
  shows "mget (fold (rateStep opts) qs m) k = mget m k \<or> mget (fold (rateStep opts) qs m) k = None"
  using assms
proof (induction qs arbitrary: m)
  case (Cons q qs)
  have "distinct (mkeys (rateStep opts q m))" using rateStep_bounded [OF Cons.prems(1)] by blast
  moreover have "\<forall>x \<in> set qs. checkKey x \<noteq> k" "checkKey q \<noteq> k" using Cons.prems(2) by simp_all
  ultimately show ?case
    using Cons.IH [of "rateStep opts q m"] other_check [OF Cons.prems(1), of q k opts] by simp metis
qed simp

lemma allowed_iff:
  "rd_allowed (fst (checkRate opts key scope now m)) \<longleftrightarrow> 1 \<le> refilled (tierOf opts scope) now
     (coalesce (mget m (bucketKey scope key)) \<lparr>bu_tokens = rt_capacity (tierOf opts scope), bu_lastRefillMs = now, bu_lastSeenMs = now\<rparr>)"
  by (simp add: checkRate_def Let_def)

lemma refused_waits:
  assumes "distinct (mkeys m)" "1 \<le> rt_capacity (tierOf opts scope)" "0 \<le> rt_refillPerSec (tierOf opts scope)"
    "rd_retryAfterSec (fst (checkRate opts key scope now m)) = Some (Seconds s)"
    "\<forall>q \<in> set others. checkKey q \<noteq> bucketKey scope key" "now + 1000 * s \<le> t"
  shows "rd_allowed (fst (checkRate opts key scope t (fold (rateStep opts) others (snd (checkRate opts key scope now m)))))"
proof -
  let ?tier = "tierOf opts scope" and ?k = "bucketKey scope key"
  let ?m = "snd (checkRate opts key scope now m)"
  define tokens where "tokens = refilled ?tier now (coalesce (mget m ?k) \<lparr>bu_tokens = rt_capacity ?tier, bu_lastRefillMs = now, bu_lastSeenMs = now\<rparr>)"
  let ?b = "\<lparr>bu_tokens = tokens, bu_lastRefillMs = now, bu_lastSeenMs = now\<rparr>"
  have refused: "?m = evictIdle opts now (mset ?k ?b m)" "retryAfter ?tier tokens = Seconds s"
    using assms(4) by (auto simp: checkRate_def Let_def tokens_def split: if_splits)
  have "distinct (mkeys (mset ?k ?b m))" using assms(1) by simp
  then have m: "distinct (mkeys ?m)" "mget ?m ?k = Some ?b \<or> mget ?m ?k = None"
    using evict_keeps [of "mset ?k ?b m" opts now ?k] evict_distinct by (auto simp: refused(1))
  have later: "mget (fold (rateStep opts) others ?m) ?k = Some ?b \<or> mget (fold (rateStep opts) others ?m) ?k = None"
    using other_checks [OF m(1) assms(5), of opts] m(2) by metis
  have refill: "0 < rt_refillPerSec ?tier" and wait: "max 1 \<lceil>(1 - tokens) / rt_refillPerSec ?tier\<rceil> = s"
    using refused(2) assms(3) by (auto simp: retryAfter_def split: if_splits)
  have "(1 - tokens) / rt_refillPerSec ?tier \<le> of_int s" using wait by linarith
  also have "of_int s \<le> of_int (t - now) / (1000 :: number)"
  proof -
    have "of_int (1000 * s) \<le> (of_int (t - now) :: number)" using assms(6) by (intro of_int_le_iff [THEN iffD2]) simp
    then show ?thesis by simp
  qed
  finally have "1 \<le> tokens + of_int (t - now) / 1000 * rt_refillPerSec ?tier"
    using refill by (simp add: pos_divide_le_eq)
  moreover have "0 \<le> of_int (t - now) / (1000 :: number)" using wait assms(6) by simp
  ultimately have "1 \<le> refilled ?tier t ?b" using assms(2) by (simp add: refilled_def)
  moreover have "1 \<le> refilled ?tier t \<lparr>bu_tokens = rt_capacity ?tier, bu_lastRefillMs = t, bu_lastSeenMs = t\<rparr>"
    using assms(2) by (simp add: refilled_def)
  ultimately show ?thesis using later unfolding allowed_iff by auto
qed

text \<open>C32. The ceiling holds: in any stretch of checks, after any run of the limiter, a client gets at most the burst
  capacity of its tier plus what the tier refills in the stretch's time, whatever the other clients do and
  however often idle buckets are swept, provided the checks come in the order of their times, the clients
  fit the cap on tracked clients and an idle bucket would have been full again when it is swept. The map never
  holds more clients than the cap. And a refusal is honest: a client of a tier with a capacity of at
  least one that is told to wait and makes no check before that time has passed is admitted then, whatever the
  others do in between.\<close>

theorem admissions_bounded:
  assumes "refillsWhileIdle opts (tierOf opts scope)" "sorted (map rq_at (before @ qs))"
    "card (checkKey ` set (before @ qs)) \<le> maxClientsOf opts" "\<forall>q \<in> set qs. since \<le> rq_at q \<and> rq_at q \<le> till" "since \<le> till"
  shows "of_nat (admissions opts (bucketKey scope key) qs (fold (rateStep opts) before []))
      \<le> rt_capacity (tierOf opts scope) + of_int (till - since) / 1000 * rt_refillPerSec (tierOf opts scope)
    \<and> length (fold (rateStep opts) (before @ qs) []) \<le> maxClientsOf opts
    \<and> (\<forall>now s others t. 1 \<le> rt_capacity (tierOf opts scope)
        \<and> rd_retryAfterSec (fst (checkRate opts key scope now (fold (rateStep opts) before []))) = Some (Seconds s)
        \<and> (\<forall>q \<in> set others. checkKey q \<noteq> bucketKey scope key) \<and> now + 1000 * s \<le> t \<longrightarrow>
        rd_allowed (fst (checkRate opts key scope t
          (fold (rateStep opts) others (snd (checkRate opts key scope now (fold (rateStep opts) before [])))))))"
proof -
  let ?K = "checkKey ` set (before @ qs)" and ?k = "bucketKey scope key" and ?m = "fold (rateStep opts) before []"
  have empty: "distinct (mkeys ([] :: buckets))" "mget ([] :: buckets) ?k = None" by (simp_all add: mkeys_def mget_def)
  have reached: "distinct (mkeys (fold (rateStep opts) xs m)) \<and>
      set (mkeys (fold (rateStep opts) xs m)) \<subseteq> set (mkeys m) \<union> checkKey ` set xs" if "distinct (mkeys m)" for xs m
    using that
  proof (induction xs arbitrary: m)
    case Nil
    then show ?case by simp
  next
    case (Cons x xs)
    then show ?case using rateStep_bounded [OF Cons.prems, of opts x] by fastforce
  qed
  have bound: "length (fold (rateStep opts) (before @ qs) []) \<le> maxClientsOf opts"
    using clients.inv_run [where s = "[]" and xs = "before @ qs" and opts = opts] empty by simp
  have waits: "\<forall>now s others t. 1 \<le> rt_capacity (tierOf opts scope)
        \<and> rd_retryAfterSec (fst (checkRate opts key scope now ?m)) = Some (Seconds s)
        \<and> (\<forall>q \<in> set others. checkKey q \<noteq> ?k) \<and> now + 1000 * s \<le> t \<longrightarrow>
        rd_allowed (fst (checkRate opts key scope t (fold (rateStep opts) others (snd (checkRate opts key scope now ?m)))))"
    using refused_waits [of ?m opts scope key] reached [OF empty(1), of before] assms(1) by (simp add: refillsWhileIdle_def)
  show ?thesis
  proof (cases "qs = []")
    case True
    have "0 \<le> of_int (till - since) / 1000 * rt_refillPerSec (tierOf opts scope)" using assms(1,5) by (simp add: refillsWhileIdle_def)
    then show ?thesis using True bound waits assms(1) by (simp add: refillsWhileIdle_def)
  next
    case False
    then obtain q qs' where qs: "qs = q # qs'" by (cases qs) auto
    let ?now = "rq_at q"
    have "soundBucket ?now (mget ?m ?k)"
    proof (cases "before = []")
      case True
      then show ?thesis using empty by (simp add: soundBucket_def)
    next
      case nonempty: False
      then obtain p ps where before: "before = p # ps" by (cases before) auto
      have le: "\<forall>x \<in> set before. rq_at x \<le> ?now" using assms(2) qs by (simp add: sorted_append)
      have "sorted (rq_at p # map rq_at before)" using assms(2) before by (simp add: sorted_append)
      moreover have "set (mkeys ([] :: buckets)) \<union> checkKey ` set before \<subseteq> ?K" by (auto simp: mkeys_def)
      moreover have "soundBucket (rq_at p) (mget [] ?k)" using empty(2) by (simp add: soundBucket_def)
      moreover have "rq_at p \<le> ?now" using le before by simp
      ultimately have "soundBucket (rq_at (last before)) (mget ?m ?k)"
        using conjunct2 [OF admissions_run [OF assms(1) refl refl _ assms(3) empty(1), where qs = before and now = "rq_at p"
            and till = ?now and key = key]] le nonempty by blast
      then show ?thesis using le nonempty soundBucket_time last_in_set by blast
    qed
    moreover have "set (mkeys ?m) \<union> checkKey ` set qs \<subseteq> ?K" "distinct (mkeys ?m)"
      using reached [OF empty(1), of before] by (auto simp: mkeys_def)
    ultimately have "of_nat (admissions opts ?k qs ?m)
        \<le> budget (tierOf opts scope) ?now (mget ?m ?k) + of_int (till - ?now) / 1000 * rt_refillPerSec (tierOf opts scope)"
      using admissions_run [OF assms(1) refl refl, where K = ?K and m = ?m and qs = qs and now = ?now and till = till and key = key] assms(2,3,4) qs by (simp add: sorted_append)
    moreover have "of_int (till - ?now) / 1000 * rt_refillPerSec (tierOf opts scope)
        \<le> of_int (till - since) / 1000 * rt_refillPerSec (tierOf opts scope)"
      using assms(1,4) qs by (intro mult_right_mono) (simp_all add: refillsWhileIdle_def divide_right_mono)
    ultimately show ?thesis using bound waits budget_le [of "tierOf opts scope" ?now "mget ?m ?k"] by simp
  qed
qed

text \<open>Thirty orders within a second from one address, with the limits shipped: no more than 21 pass.\<close>

theorem admissions_bounded_witness:
  "of_nat (admissions DEFAULT_RATE_LIMITS (bucketKey CONTROL_SCOPE ''ip'')
     (map (\<lambda>n. \<lparr>rq_key = ''ip'', rq_scope = CONTROL_SCOPE, rq_at = 33 * int n\<rparr>) [0..<30]) []) \<le> (21 :: number)"
proof -
  let ?qs = "map (\<lambda>n. \<lparr>rq_key = ''ip'', rq_scope = CONTROL_SCOPE, rq_at = 33 * int n\<rparr>) [0..<30]"
  have "refillsWhileIdle DEFAULT_RATE_LIMITS (tierOf DEFAULT_RATE_LIMITS CONTROL_SCOPE)"
    by (simp add: refillsWhileIdle_def DEFAULT_RATE_LIMITS_def tierOf_def idleMsOf_def)
  moreover have "sorted (map rq_at ([] @ ?qs))" by (simp add: sorted_iff_nth_mono)
  moreover have "checkKey ` set ([] @ ?qs) = {bucketKey CONTROL_SCOPE ''ip''}" by (auto simp: checkKey_def image_iff less_Suc_eq_0_disj intro!: exI [where P = "\<lambda>n :: nat. n < 30" and x = 0])
  ultimately have "of_nat (admissions DEFAULT_RATE_LIMITS (bucketKey CONTROL_SCOPE ''ip'') ?qs (fold (rateStep DEFAULT_RATE_LIMITS) [] []))
      \<le> rt_capacity (tierOf DEFAULT_RATE_LIMITS CONTROL_SCOPE) + of_int (1000 - 0) / 1000 * rt_refillPerSec (tierOf DEFAULT_RATE_LIMITS CONTROL_SCOPE)"
    by (intro conjunct1 [OF admissions_bounded]) (auto simp: maxClientsOf_def DEFAULT_RATE_LIMITS_def)
  then show ?thesis by (simp add: DEFAULT_RATE_LIMITS_def tierOf_def del: map_map)
qed

end
