(* ===== verification/Strategy_Performance.thy ===== *)
theory Strategy_Performance
  imports Prelude
begin

section \<open>Strategy performance and quarantine (src/strategy/StrategyPerformanceTracker.ts)\<close>

text \<open>
  The tracker keeps the realised outcomes of each strategy and quarantines a strategy that breaches its
  limits. The texts of the reasons are represented by the figures they are made of, the calls of the
  quarantine listener by a sequence.
\<close>

record performanceThresholds =
  pt_minTradesBeforeAction :: nat
  pt_maxDrawdownUsdt :: number
  pt_minWinRate :: number

datatype quarantineReason = DRAWDOWN_EXCEEDED number number | WIN_RATE_BELOW_FLOOR number number

record mutableStats =
  ms_trades :: nat
  ms_wins :: nat
  ms_losses :: nat
  ms_realizedPnl :: number
  ms_peakPnl :: number
  ms_quarantined :: bool
  ms_quarantineReason :: "quarantineReason option"
  ms_lastTradeAtUtc :: "string option"

record strategyStats =
  ss_strategyId :: string
  ss_trades :: nat
  ss_wins :: nat
  ss_losses :: nat
  ss_winRate :: number
  ss_realizedPnl :: number
  ss_peakPnl :: number
  ss_drawdown :: number
  ss_quarantined :: bool
  ss_quarantineReason :: "quarantineReason option"
  ss_lastTradeAtUtc :: "string option"

record performanceTracker =
  pf_thresholds :: performanceThresholds
  pf_stats :: "(string, mutableStats) jsmap"
  pf_quarantines :: "(string \<times> quarantineReason \<times> strategyStats) list"

definition DEFAULT_STRATEGY_THRESHOLDS :: performanceThresholds where
  "DEFAULT_STRATEGY_THRESHOLDS = \<lparr>pt_minTradesBeforeAction = 20, pt_maxDrawdownUsdt = 500, pt_minWinRate = 3 / 10\<rparr>"

definition newTracker :: "performanceThresholds \<Rightarrow> performanceTracker" where
  "newTracker th = \<lparr>pf_thresholds = th, pf_stats = [], pf_quarantines = []\<rparr>"

definition winRateOf :: "mutableStats \<Rightarrow> number" where
  "winRateOf st = (if ms_trades st = 0 then 0 else of_nat (ms_wins st) / of_nat (ms_trades st))"

definition toPublic :: "string \<Rightarrow> mutableStats \<Rightarrow> strategyStats" where
  "toPublic strategyId st =
     \<lparr>ss_strategyId = strategyId, ss_trades = ms_trades st, ss_wins = ms_wins st, ss_losses = ms_losses st,
      ss_winRate = winRateOf st, ss_realizedPnl = ms_realizedPnl st, ss_peakPnl = ms_peakPnl st,
      ss_drawdown = ms_peakPnl st - ms_realizedPnl st, ss_quarantined = ms_quarantined st,
      ss_quarantineReason = ms_quarantineReason st, ss_lastTradeAtUtc = ms_lastTradeAtUtc st\<rparr>"

definition freshStats :: mutableStats where
  "freshStats = \<lparr>ms_trades = 0, ms_wins = 0, ms_losses = 0, ms_realizedPnl = 0, ms_peakPnl = 0, ms_quarantined = False,
     ms_quarantineReason = None, ms_lastTradeAtUtc = None\<rparr>"

text \<open>The breach of the limits, if any, the drawdown first.\<close>

definition breachOf :: "performanceThresholds \<Rightarrow> mutableStats \<Rightarrow> quarantineReason option" where
  "breachOf th st =
     (let drawdown = ms_peakPnl st - ms_realizedPnl st in
      if drawdown > pt_maxDrawdownUsdt th then Some (DRAWDOWN_EXCEEDED drawdown (pt_maxDrawdownUsdt th))
      else if winRateOf st < pt_minWinRate th then Some (WIN_RATE_BELOW_FLOOR (winRateOf st) (pt_minWinRate th))
      else None)"

definition evaluateStats ::
  "performanceThresholds \<Rightarrow> string \<Rightarrow> mutableStats \<Rightarrow> mutableStats \<times> (string \<times> quarantineReason \<times> strategyStats) list" where
  "evaluateStats th strategyId st =
     (if ms_quarantined st \<or> ms_trades st < pt_minTradesBeforeAction th then (st, [])
      else (case breachOf th st of
          None \<Rightarrow> (st, [])
        | Some reason \<Rightarrow>
            (let st1 = st\<lparr>ms_quarantined := True, ms_quarantineReason := Some reason\<rparr> in
             (st1, [(strategyId, reason, toPublic strategyId st1)]))))"

definition bookOutcome :: "number \<Rightarrow> string \<Rightarrow> mutableStats \<Rightarrow> mutableStats" where
  "bookOutcome pnl atUtc st =
     st\<lparr>ms_trades := ms_trades st + 1, ms_wins := (if pnl > 0 then ms_wins st + 1 else ms_wins st),
        ms_losses := (if pnl > 0 then ms_losses st else ms_losses st + 1),
        ms_realizedPnl := ms_realizedPnl st + pnl, ms_peakPnl := max (ms_peakPnl st) (ms_realizedPnl st + pnl),
        ms_lastTradeAtUtc := Some atUtc\<rparr>"

definition recordRealizedPnl :: "string \<Rightarrow> number \<Rightarrow> string \<Rightarrow> performanceTracker \<Rightarrow> performanceTracker" where
  "recordRealizedPnl strategyId pnl atUtc t =
     (if strategyId = [] \<or> pnl = 0 then t
      else
        (let st = bookOutcome pnl atUtc (coalesce (mget (pf_stats t) strategyId) freshStats);
             (st1, quarantines) = evaluateStats (pf_thresholds t) strategyId st in
         t\<lparr>pf_stats := mset strategyId st1 (pf_stats t), pf_quarantines := pf_quarantines t @ quarantines\<rparr>))"

definition isQuarantined :: "string \<Rightarrow> performanceTracker \<Rightarrow> bool" where
  "isQuarantined strategyId t = (case mget (pf_stats t) strategyId of None \<Rightarrow> False | Some st \<Rightarrow> ms_quarantined st)"

definition getStats :: "string \<Rightarrow> performanceTracker \<Rightarrow> strategyStats option" where
  "getStats strategyId t = map_option (toPublic strategyId) (mget (pf_stats t) strategyId)"

definition listStats :: "performanceTracker \<Rightarrow> strategyStats list" where
  "listStats t = map (\<lambda>(strategyId, st). toPublic strategyId st) (pf_stats t)"

definition releaseStrategy :: "string \<Rightarrow> performanceTracker \<Rightarrow> bool \<times> performanceTracker" where
  "releaseStrategy strategyId t =
     (case mget (pf_stats t) strategyId of
        None \<Rightarrow> (False, t)
      | Some st \<Rightarrow>
          if \<not> ms_quarantined st then (False, t)
          else (True, t\<lparr>pf_stats := mset strategyId (st\<lparr>ms_quarantined := False, ms_quarantineReason := None,
            ms_peakPnl := ms_realizedPnl st\<rparr>) (pf_stats t)\<rparr>))"

definition restoreEntry :: "strategyStats \<Rightarrow> performanceTracker \<Rightarrow> performanceTracker" where
  "restoreEntry entry t =
     t\<lparr>pf_stats := mset (ss_strategyId entry)
       \<lparr>ms_trades = ss_trades entry, ms_wins = ss_wins entry, ms_losses = ss_losses entry,
        ms_realizedPnl = ss_realizedPnl entry, ms_peakPnl = ss_peakPnl entry, ms_quarantined = ss_quarantined entry,
        ms_quarantineReason = ss_quarantineReason entry, ms_lastTradeAtUtc = ss_lastTradeAtUtc entry\<rparr> (pf_stats t)\<rparr>"

definition restoreStats :: "strategyStats list \<Rightarrow> performanceTracker \<Rightarrow> performanceTracker" where
  "restoreStats snapshot t = fold restoreEntry snapshot t"

subsection \<open>The tracker as a component\<close>

datatype performanceOp = OutcomeP string number string | ReleaseP string | RestoreP "strategyStats list"

definition performanceStep :: "performanceOp \<Rightarrow> performanceTracker \<Rightarrow> performanceTracker" where
  "performanceStep x t = (case x of
       OutcomeP strategyId pnl atUtc \<Rightarrow> recordRealizedPnl strategyId pnl atUtc t
     | ReleaseP strategyId \<Rightarrow> snd (releaseStrategy strategyId t)
     | RestoreP snapshot \<Rightarrow> restoreStats snapshot t)"

lemma restore_distinct: "distinct (mkeys (pf_stats t)) \<Longrightarrow> distinct (mkeys (pf_stats (restoreStats snapshot t)))"
  by (induction snapshot arbitrary: t) (simp_all add: restoreStats_def restoreEntry_def)

interpretation performance: component performanceStep "\<lambda>t. distinct (mkeys (pf_stats t))"
  by unfold_locales
    (auto simp: performanceStep_def recordRealizedPnl_def releaseStrategy_def restore_distinct Let_def
      split: performanceOp.split option.splits prod.split)

lemma restore_listed:
  assumes "distinct (map fst kvs)"
  shows "mget (pf_stats (restoreStats (map (\<lambda>(strategyId, st). toPublic strategyId st) kvs) t)) k
    = (case map_of kvs k of Some st \<Rightarrow> Some st | None \<Rightarrow> mget (pf_stats t) k)"
  using assms
proof (induction kvs arbitrary: t)
  case Nil
  then show ?case by (simp add: restoreStats_def)
next
  case (Cons kv kvs)
  obtain s st where kv: "kv = (s, st)" by fastforce
  have "map_of kvs s = None" using Cons.prems kv by (simp add: map_of_eq_None_iff)
  then show ?case
    using Cons.IH [of "restoreEntry (toPublic s st) t"] Cons.prems kv
    by (auto simp: restoreStats_def restoreEntry_def toPublic_def split: option.splits)
qed

text \<open>A restart loses nothing: after any run, restoring the listed statistics into a new tracker gives every
  strategy the figures, the drawdown baseline and the quarantine it had, so that both trackers answer every
  later outcome alike.\<close>

theorem performance_survives_restart:
  fixes th :: performanceThresholds
  defines "t \<equiv> \<lambda>ops. fold performanceStep ops (newTracker th)"
  shows "mget (pf_stats (restoreStats (listStats (t ops)) (newTracker th))) = mget (pf_stats (t ops))"
proof
  fix k
  have "distinct (mkeys (pf_stats (t ops)))"
    unfolding t_def by (rule performance.inv_run) (simp add: newTracker_def mkeys_def)
  then show "mget (pf_stats (restoreStats (listStats (t ops)) (newTracker th))) k = mget (pf_stats (t ops)) k"
    unfolding listStats_def by (subst restore_listed) (simp_all add: mkeys_def newTracker_def mget_def split: option.split)
qed

subsection \<open>Quarantine\<close>

text \<open>The outcomes of one strategy in a run, and the figures they amount to.\<close>

definition outcomesOfStrategy :: "string \<Rightarrow> performanceOp list \<Rightarrow> number list" where
  "outcomesOfStrategy s ops = List.map_filter (\<lambda>x. case x of OutcomeP t pnl _ \<Rightarrow> if t = s \<and> pnl \<noteq> 0 then Some pnl else None | _ \<Rightarrow> None) ops"

definition peakSum :: "number list \<Rightarrow> number" where
  "peakSum xs = Max ((\<lambda>n. sum_list (take n xs)) ` {0..length xs})"

definition breaches :: "performanceThresholds \<Rightarrow> number list \<Rightarrow> bool" where
  "breaches th xs \<longleftrightarrow> pt_minTradesBeforeAction th \<le> length xs \<and>
     (peakSum xs - sum_list xs > pt_maxDrawdownUsdt th
      \<or> of_nat (length (filter (\<lambda>x. x > 0) xs)) / of_nat (length xs) < pt_minWinRate th)"

lemma outcomesOfStrategy_simps [simp]: "outcomesOfStrategy s [] = []"
  "outcomesOfStrategy s (ops @ [OutcomeP t pnl a]) = outcomesOfStrategy s ops @ (if t = s \<and> pnl \<noteq> 0 then [pnl] else [])"
  by (simp_all add: outcomesOfStrategy_def map_filter_def)

lemma peakSum_Nil [simp]: "peakSum [] = 0"
  by (simp add: peakSum_def)

lemma peakSum_snoc [simp]: "peakSum (xs @ [x]) = max (peakSum xs) (sum_list xs + x)"
proof -
  have "(\<lambda>n. sum_list (take n (xs @ [x]))) ` {0..length xs} = (\<lambda>n. sum_list (take n xs)) ` {0..length xs}"
    by (intro image_cong) simp_all
  then have "(\<lambda>n. sum_list (take n (xs @ [x]))) ` {0..length (xs @ [x])}
      = insert (sum_list xs + x) ((\<lambda>n. sum_list (take n xs)) ` {0..length xs})"
    by (simp add: atLeastAtMostSuc_conv)
  then show ?thesis unfolding peakSum_def by (simp add: max.commute)
qed

definition everBreached :: "performanceThresholds \<Rightarrow> number list \<Rightarrow> bool" where
  "everBreached th xs \<longleftrightarrow> (\<exists>n \<in> {1..length xs}. breaches th (take n xs))"

lemma everBreached_snoc: "everBreached th (xs @ [x]) \<longleftrightarrow> everBreached th xs \<or> breaches th (xs @ [x])"
proof -
  have "{1..length (xs @ [x])} = insert (length (xs @ [x])) {1..length xs}" by auto
  then show ?thesis unfolding everBreached_def by auto
qed

definition statsMatch :: "performanceThresholds \<Rightarrow> number list \<Rightarrow> mutableStats option \<Rightarrow> bool" where
  "statsMatch th xs st \<longleftrightarrow> (case st of
       None \<Rightarrow> xs = []
     | Some st \<Rightarrow> xs \<noteq> [] \<and> ms_trades st = length xs \<and> ms_wins st = length (filter (\<lambda>x. x > 0) xs)
         \<and> ms_realizedPnl st = sum_list xs \<and> ms_peakPnl st = peakSum xs \<and> (ms_quarantined st \<longleftrightarrow> everBreached th xs))"

lemma evaluate_figures [simp]: "ms_trades (fst (evaluateStats th s st)) = ms_trades st" "ms_wins (fst (evaluateStats th s st)) = ms_wins st"
  "ms_realizedPnl (fst (evaluateStats th s st)) = ms_realizedPnl st" "ms_peakPnl (fst (evaluateStats th s st)) = ms_peakPnl st"
  by (auto simp: evaluateStats_def Let_def split: option.split)

lemma statsMatch_outcome:
  assumes "statsMatch th xs st" "pnl \<noteq> 0"
  shows "statsMatch th (xs @ [pnl]) (Some (fst (evaluateStats th s (bookOutcome pnl a (coalesce st freshStats)))))"
proof -
  let ?st = "bookOutcome pnl a (coalesce st freshStats)"
  have figures: "ms_trades ?st = Suc (length xs)" "ms_wins ?st = length (filter (\<lambda>x. x > 0) (xs @ [pnl]))"
    "ms_realizedPnl ?st = sum_list (xs @ [pnl])" "ms_peakPnl ?st = peakSum (xs @ [pnl])"
    "ms_quarantined ?st \<longleftrightarrow> everBreached th xs"
    using assms(1) by (auto simp: statsMatch_def bookOutcome_def freshStats_def coalesce_def everBreached_def split: option.splits)
  have "winRateOf ?st = of_nat (length (filter (\<lambda>x. x > 0) (xs @ [pnl]))) / of_nat (length (xs @ [pnl]))"
    using figures by (simp add: winRateOf_def)
  then have "breachOf th ?st \<noteq> None \<and> pt_minTradesBeforeAction th \<le> ms_trades ?st \<longleftrightarrow> breaches th (xs @ [pnl])"
    using figures by (auto simp: breachOf_def breaches_def Let_def)
  then have "ms_quarantined (fst (evaluateStats th s ?st)) \<longleftrightarrow> everBreached th (xs @ [pnl])"
    using figures(5) unfolding everBreached_snoc by (auto simp: evaluateStats_def Let_def split: option.splits)
  then show ?thesis using figures unfolding statsMatch_def by simp
qed

text \<open>C33. Quarantine follows the record: in any run of outcomes without a release or a restore a strategy is quarantined
  exactly when at some moment it had enough trades and had lost more than the allowed drawdown from its peak,
  or won too rarely; what it does afterwards and what other strategies do does not matter.\<close>

theorem quarantine_matches_record:
  assumes "\<forall>x \<in> set ops. \<exists>s pnl a. x = OutcomeP s pnl a" "strategyId \<noteq> []"
  shows "isQuarantined strategyId (fold performanceStep ops (newTracker th)) \<longleftrightarrow> everBreached th (outcomesOfStrategy strategyId ops)"
proof -
  have "pf_thresholds (fold performanceStep ops (newTracker th)) = th \<and>
    statsMatch th (outcomesOfStrategy strategyId ops) (mget (pf_stats (fold performanceStep ops (newTracker th))) strategyId)"
    using assms(1)
  proof (induction ops rule: rev_induct)
    case Nil
    then show ?case by (simp add: newTracker_def statsMatch_def mget_def)
  next
    case (snoc x ops)
    obtain s pnl a where x: "x = OutcomeP s pnl a" using snoc.prems by auto
    let ?t = "fold performanceStep ops (newTracker th)"
    have step: "performanceStep (OutcomeP s pnl a) t = recordRealizedPnl s pnl a t" for t by (simp add: performanceStep_def)
    have ih: "pf_thresholds ?t = th" "statsMatch th (outcomesOfStrategy strategyId ops) (mget (pf_stats ?t) strategyId)"
      using snoc by simp_all
    show ?case
      using ih statsMatch_outcome [OF ih(2), of pnl strategyId a] assms(2)
      by (auto simp: x step recordRealizedPnl_def split_beta Let_def)
  qed
  then show ?thesis by (auto simp: isQuarantined_def statsMatch_def everBreached_def split: option.splits)
qed

definition sampleThresholds :: performanceThresholds where
  "sampleThresholds = \<lparr>pt_minTradesBeforeAction = 2, pt_maxDrawdownUsdt = 50, pt_minWinRate = 3 / 10\<rparr>"

theorem quarantine_matches_record_witness:
  "isQuarantined ''s'' (fold performanceStep [OutcomeP ''s'' 40 ''t'', OutcomeP ''u'' 5 ''t'', OutcomeP ''s'' (- 60) ''t'', OutcomeP ''s'' 90 ''t'']
     (newTracker sampleThresholds))"
  by (subst quarantine_matches_record)
    (auto simp: outcomesOfStrategy_def map_filter_def everBreached_def breaches_def sampleThresholds_def peakSum_def
      atLeast0AtMost atMost_nat_numeral atMost_Suc intro!: bexI [of _ 2])

end
