(* ===== verification/Indicators.thy ===== *)
theory Indicators
  imports Market_Types
begin

section \<open>Technical indicators\<close>

text \<open>
  \<open>strategy/indicators.ts\<close> and \<open>strategy/adaptive-supertrend/calculator.ts\<close>: the series the
  strategies and the regime detector read. A series has one entry per candle; \<open>NaN\<close>, which marks the
  bars of the warm-up, is \<open>None\<close>. An array the source fills by index is filled by \<open>fillFrom\<close>, the loop
  that updates its running values and then stores one entry; a series built with \<open>push\<close> is built with
  append. \<open>Math.sqrt\<close> is an argument, since the root of a rational is not one in general.
  \<open>Infinity\<close>, the seed of the Supertrend bands, is \<open>None\<close> in their state.

  The lemmas show what a reader of a series relies on: a value once there is not repainted by later
  candles (\<open>causal_indicator\<close>), the moving average is the mean of its window although it is kept as a
  running sum, the oscillators stay between 0 and 100, and the Supertrend line ratchets.
\<close>

type_synonym series = "number option list"

subsection \<open>Arithmetic with \<open>NaN\<close>, and loops that fill an array\<close>

definition nan2 :: "(number \<Rightarrow> number \<Rightarrow> number) \<Rightarrow> number option \<Rightarrow> number option \<Rightarrow> number option" where
  "nan2 f a b = (case a of None \<Rightarrow> None | Some x \<Rightarrow> (case b of None \<Rightarrow> None | Some y \<Rightarrow> Some (f x y)))"

lemma nan2_simps [simp, js_simps]:
  "nan2 f (Some x) (Some y) = Some (f x y)" "nan2 f None b = None" "nan2 f a None = None"
  by (simp_all add: nan2_def split: option.splits)

text \<open>\<open>a || d\<close> on a number that may be \<open>NaN\<close> or 0.\<close>

definition orIfFalsy :: "number option \<Rightarrow> number \<Rightarrow> number" where
  "orIfFalsy a d = (case a of None \<Rightarrow> d | Some x \<Rightarrow> if x = 0 then d else x)"

text \<open>\<open>for (let i = a; i < b; i++) { s = f(i, s); result[i] = g(s); }\<close>\<close>

definition fillFrom :: "(nat \<Rightarrow> 's \<Rightarrow> 's) \<Rightarrow> ('s \<Rightarrow> 'v) \<Rightarrow> nat \<Rightarrow> nat \<Rightarrow> 's \<Rightarrow> 'v list \<Rightarrow> 'v list" where
  "fillFrom f g a b s res = snd (fold (\<lambda>i (s, res). let s1 = f i s in (s1, res[i := g s1])) [a..<b] (s, res))"

lemma fill_loop:
  assumes "a \<le> b" "b \<le> length res"
  shows "fold (\<lambda>i (s, res). let s1 = f i s in (s1, res[i := g s1])) [a..<b] (s, res)
    = (fold f [a..<b] s, map (\<lambda>j. if a \<le> j \<and> j < b then g (fold f [a..<Suc j] s) else res ! j) [0..<length res])"
  using assms
proof (induction b rule: dec_induct)
  case base
  have "(if a \<le> j \<and> j < a then g (fold f [a..<Suc j] s) else res ! j) = res ! j" for j by auto
  then show ?case by (simp add: map_nth)
next
  case (step b)
  have "(map (\<lambda>j. if a \<le> j \<and> j < b then g (fold f [a..<Suc j] s) else res ! j) [0..<length res])[b := g (fold f [a..<Suc b] s)]
    = map (\<lambda>j. if a \<le> j \<and> j < Suc b then g (fold f [a..<Suc j] s) else res ! j) [0..<length res]"
    using step by (intro nth_equalityI) (auto simp: nth_list_update less_Suc_eq)
  then show ?case using step by (simp add: Let_def)
qed

lemma length_fillFrom [simp]: "a \<le> b \<Longrightarrow> b \<le> length res \<Longrightarrow> length (fillFrom f g a b s res) = length res"
  by (simp add: fillFrom_def fill_loop)

lemma nth_fillFrom:
  "a \<le> b \<Longrightarrow> b \<le> length res \<Longrightarrow> j < length res \<Longrightarrow>
    fillFrom f g a b s res ! j = (if a \<le> j \<and> j < b then g (fold f [a..<Suc j] s) else res ! j)"
  by (simp add: fillFrom_def fill_loop)

lemma fold_invariant:
  assumes "P s" "\<And>i s. i \<in> set is \<Longrightarrow> P s \<Longrightarrow> P (f i s)"
  shows "P (fold f is s)"
  using assms by (induction "is" arbitrary: s) auto

subsection \<open>Moving averages\<close>

fun emaFrom :: "number \<Rightarrow> number option \<Rightarrow> series \<Rightarrow> series" where
  "emaFrom k p [] = []"
| "emaFrom k p (v # vs) = (let p1 = nan2 (\<lambda>v p. v * k + p * (1 - k)) v p in p1 # emaFrom k p1 vs)"

definition ema :: "series \<Rightarrow> nat \<Rightarrow> series" where
  "ema vs period = (if vs = [] \<or> period = 0 then []
     else hd vs # emaFrom (2 / (of_nat period + 1)) (hd vs) (tl vs))"

definition smaSum :: "series \<Rightarrow> nat \<Rightarrow> nat \<Rightarrow> number option \<Rightarrow> number option" where
  "smaSum vs period i s = (let s1 = nan2 (+) s (vs ! i) in
     if period \<le> i then nan2 (-) s1 (vs ! (i - period)) else s1)"

definition sma :: "series \<Rightarrow> nat \<Rightarrow> series" where
  "sma vs period = (if length vs < period \<or> period = 0 then []
     else snd (fold (\<lambda>i (s, res). let s1 = smaSum vs period i s in
       (s1, res @ [if period - 1 \<le> i then map_option (\<lambda>s. s / of_nat period) s1 else None])) [0..<length vs] (Some 0, [])))"

subsection \<open>Relative strength\<close>

definition rsiOf :: "number \<times> number \<Rightarrow> number" where
  "rsiOf = (\<lambda>(avgGain, avgLoss). if avgLoss = 0 then 100 else 100 - 100 / (1 + avgGain / avgLoss))"

definition rsiSeed :: "number list \<Rightarrow> nat \<Rightarrow> number \<times> number" where
  "rsiSeed vs period = (let (g, l) = fold (\<lambda>i (g, l). let change = vs ! i - vs ! (i - 1) in
       if change > 0 then (g + change, l) else (g, l - change)) [1..<Suc period] (0, 0) in
     (g / of_nat period, l / of_nat period))"

definition rsiStep :: "number list \<Rightarrow> nat \<Rightarrow> nat \<Rightarrow> number \<times> number \<Rightarrow> number \<times> number" where
  "rsiStep vs period i = (\<lambda>(avgGain, avgLoss). let change = vs ! i - vs ! (i - 1);
      gain = (if change > 0 then change else 0); loss = (if change < 0 then - change else 0) in
     ((avgGain * (of_nat period - 1) + gain) / of_nat period, (avgLoss * (of_nat period - 1) + loss) / of_nat period))"

text \<open>With a period of 0 the seed is \<open>0 / 0\<close> and every entry \<open>NaN\<close>.\<close>

definition rsi :: "number list \<Rightarrow> nat \<Rightarrow> series" where
  "rsi vs period = (if length vs < period + 1 \<or> period = 0 then replicate (length vs) None
     else let seed = rsiSeed vs period in
       fillFrom (rsiStep vs period) (\<lambda>s. Some (rsiOf s)) (Suc period) (length vs) seed
         ((replicate (length vs) None)[period := Some (rsiOf seed)]))"

subsection \<open>True range\<close>

definition trueRange :: "candle \<Rightarrow> number \<Rightarrow> number" where
  "trueRange c prevClose = max (max (k_high c - k_low c) \<bar>k_high c - prevClose\<bar>) \<bar>k_low c - prevClose\<bar>"

text \<open>\<open>trs[i]\<close> of \<open>atr\<close> belongs to candle \<open>i + 1\<close>; it is written out there as \<open>trueRange\<close> is.\<close>

definition trueRanges :: "candle list \<Rightarrow> number list" where
  "trueRanges cs = map (\<lambda>i. trueRange (cs ! i) (k_close (cs ! (i - 1)))) [1..<length cs]"

definition atrStep :: "number list \<Rightarrow> nat \<Rightarrow> nat \<Rightarrow> number \<Rightarrow> number" where
  "atrStep trs period i prevAtr = (prevAtr * (of_nat period - 1) + trs ! (i - 1)) / of_nat period"

text \<open>The source stores entry \<open>i + 1\<close> at loop index \<open>i\<close>; here the index is that of the entry.\<close>

definition atr :: "candle list \<Rightarrow> nat \<Rightarrow> series" where
  "atr cs period = (let trs = trueRanges cs; result = replicate (length cs) None in
     if length cs < 2 \<or> length trs < period \<or> period = 0 then result
     else let seed = sum_list (take period trs) / of_nat period in
       fillFrom (atrStep trs period) Some (Suc period) (length cs) seed (result[period := Some seed]))"

subsection \<open>Highest and lowest of a window\<close>

definition windowOf :: "nat \<Rightarrow> nat \<Rightarrow> 'a list \<Rightarrow> 'a list" where
  "windowOf period i vs = drop (Suc i - period) (take (Suc i) vs)"

definition highest :: "series \<Rightarrow> nat \<Rightarrow> series" where
  "highest vs period = map (\<lambda>i. let w = List.map_filter id (windowOf period i vs) in
     if w = [] then None else Some (Max (set w))) [0..<length vs]"

definition lowest :: "series \<Rightarrow> nat \<Rightarrow> series" where
  "lowest vs period = map (\<lambda>i. let w = List.map_filter id (windowOf period i vs) in
     if w = [] then None else Some (Min (set w))) [0..<length vs]"

subsection \<open>Bollinger bands\<close>

record bollinger =
  bb_upper :: series
  bb_middle :: series
  bb_lower :: series
  bb_bandWidth :: series

text \<open>One bar: the mean of the window, \<open>None\<close> where the average is \<open>NaN\<close>.\<close>

definition bandAt :: "(number \<Rightarrow> number) \<Rightarrow> number list \<Rightarrow> nat \<Rightarrow> number \<Rightarrow> nat \<Rightarrow> number \<Rightarrow> number \<times> number \<times> number" where
  "bandAt sqrt' closes period stdDevMult i mid = (let
      variance = sum_list (map (\<lambda>v. (v - mid) ^ 2) (windowOf period i closes)) / of_nat period;
      sd = sqrt' variance; up = mid + stdDevMult * sd; lo = mid - stdDevMult * sd in
     (up, lo, if mid > 0 then (up - lo) / mid else 0))"

text \<open>A period of 0 gives an empty average; every band is \<open>NaN\<close> then.\<close>

definition bollingerBands :: "(number \<Rightarrow> number) \<Rightarrow> number list \<Rightarrow> nat \<Rightarrow> number \<Rightarrow> bollinger" where
  "bollingerBands sqrt' closes period stdDevMult = (let
      middle = sma (map Some closes) period;
      col = (\<lambda>f. map (\<lambda>i. if period = 0 \<or> i < period - 1 then None
          else map_option (\<lambda>mid. f (bandAt sqrt' closes period stdDevMult i mid)) (middle ! i)) [0..<length closes]) in
     \<lparr>bb_upper = col fst, bb_middle = middle, bb_lower = col (fst \<circ> snd), bb_bandWidth = col (snd \<circ> snd)\<rparr>)"

subsection \<open>Convergence and divergence of averages\<close>

record macdResult =
  mc_macd :: series
  mc_signal :: series
  mc_histogram :: series

definition maskUntil :: "nat \<Rightarrow> series \<Rightarrow> series" where
  "maskUntil n vs = replicate (min n (length vs)) None @ drop n vs"

definition macd :: "number list \<Rightarrow> nat \<Rightarrow> nat \<Rightarrow> nat \<Rightarrow> macdResult" where
  "macd closes fastPeriod slowPeriod signalPeriod = (let
      fast = ema (map Some closes) fastPeriod; slow = ema (map Some closes) slowPeriod;
      macdLine = map (\<lambda>i. if i < length fast \<and> i < length slow then nan2 (-) (fast ! i) (slow ! i) else None) [0..<length closes];
      signalLine = ema macdLine signalPeriod;
      histogram = map (\<lambda>i. nan2 (-) (macdLine ! i) (if i < length signalLine then signalLine ! i else Some 0)) [0..<length macdLine];
      warm = slowPeriod - 1;
      sigWarm = min (nat (int slowPeriod - 1 + int signalPeriod - 1)) (length signalLine) in
     \<lparr>mc_macd = maskUntil warm macdLine, mc_signal = maskUntil sigWarm signalLine,
      mc_histogram = maskUntil sigWarm histogram\<rparr>)"

subsection \<open>Directional movement\<close>

record adxResult =
  ad_adx :: series
  ad_plusDI :: series
  ad_minusDI :: series

definition plusMove :: "candle \<Rightarrow> candle \<Rightarrow> number" where
  "plusMove cur prev = (let upMove = k_high cur - k_high prev; downMove = k_low prev - k_low cur in
     if upMove > downMove \<and> upMove > 0 then upMove else 0)"

definition minusMove :: "candle \<Rightarrow> candle \<Rightarrow> number" where
  "minusMove cur prev = (let upMove = k_high cur - k_high prev; downMove = k_low prev - k_low cur in
     if downMove > upMove \<and> downMove > 0 then downMove else 0)"

text \<open>An array that starts with 0 and holds one entry per later candle.\<close>

definition movesOf :: "(candle \<Rightarrow> candle \<Rightarrow> number) \<Rightarrow> candle list \<Rightarrow> number list" where
  "movesOf f cs = 0 # map (\<lambda>i. f (cs ! i) (cs ! (i - 1))) [1..<length cs]"

definition rangeMove :: "candle \<Rightarrow> candle \<Rightarrow> number" where
  "rangeMove cur prev = trueRange cur (k_close prev)"

record adxState =
  as_tr :: number
  as_plus :: number
  as_minus :: number
  as_dxList :: "number list"
  as_adx :: "number option"

definition diOf :: "number \<Rightarrow> number \<Rightarrow> number" where
  "diOf dm tr = (if tr > 0 then dm / tr * 100 else 0)"

definition dxOf :: "number \<Rightarrow> number \<Rightarrow> number" where
  "dxOf pDI mDI = (let diSum = pDI + mDI in if diSum > 0 then \<bar>pDI - mDI\<bar> / diSum * 100 else 0)"

definition wilder :: "nat \<Rightarrow> number \<Rightarrow> number \<Rightarrow> number" where
  "wilder period s x = s - s / of_nat period + x"

definition adxStep :: "number list \<Rightarrow> number list \<Rightarrow> number list \<Rightarrow> nat \<Rightarrow> nat \<Rightarrow> adxState \<Rightarrow> adxState" where
  "adxStep trs plusDMs minusDMs period i s = (let
      s1 = (if i > period then s\<lparr>as_tr := wilder period (as_tr s) (trs ! i), as_plus := wilder period (as_plus s) (plusDMs ! i),
          as_minus := wilder period (as_minus s) (minusDMs ! i)\<rparr> else s);
      dx = dxOf (diOf (as_plus s1) (as_tr s1)) (diOf (as_minus s1) (as_tr s1));
      dxs = as_dxList s1 @ [dx] in
     s1\<lparr>as_dxList := dxs,
        as_adx := (if length dxs = period then Some (sum_list dxs / of_nat period)
          else if length dxs > period then map_option (\<lambda>a. (a * (of_nat period - 1) + dx) / of_nat period) (as_adx s1)
          else as_adx s1)\<rparr>)"

text \<open>With a period of 0 the smoothed values are \<open>NaN\<close> after the first bar, so that the directional
  indices are 0 and the index \<open>NaN\<close> throughout.\<close>

definition adx :: "candle list \<Rightarrow> nat \<Rightarrow> adxResult" where
  "adx cs period = (let len = length cs; nans = replicate len None in
     if period = 0 then \<lparr>ad_adx = nans, ad_plusDI = replicate len (Some 0), ad_minusDI = replicate len (Some 0)\<rparr>
     else if len < period * 2 then \<lparr>ad_adx = nans, ad_plusDI = nans, ad_minusDI = nans\<rparr>
     else let trs = movesOf rangeMove cs; plusDMs = movesOf plusMove cs; minusDMs = movesOf minusMove cs;
        seed = \<lparr>as_tr = sum_list (take period (drop 1 trs)), as_plus = sum_list (take period (drop 1 plusDMs)),
                as_minus = sum_list (take period (drop 1 minusDMs)), as_dxList = [], as_adx = None\<rparr>;
        col = (\<lambda>g. fillFrom (adxStep trs plusDMs minusDMs period) g period len seed nans) in
      \<lparr>ad_adx = col as_adx, ad_plusDI = col (\<lambda>s. Some (diOf (as_plus s) (as_tr s))),
       ad_minusDI = col (\<lambda>s. Some (diOf (as_minus s) (as_tr s)))\<rparr>)"

subsection \<open>Supertrend\<close>

record supertrendResult =
  sr_supertrend :: series
  sr_direction :: "int option list"
  sr_upperBand :: series
  sr_lowerBand :: series

record bandState =
  bs_upper :: "number option"
  bs_lower :: "number option"
  bs_st :: number
  bs_dir :: int

definition finalUpperOf :: "number \<Rightarrow> number option \<Rightarrow> number \<Rightarrow> number" where
  "finalUpperOf basicUpper prevFinalUpper prevClose = (case prevFinalUpper of None \<Rightarrow> basicUpper
     | Some u \<Rightarrow> if basicUpper < u \<or> prevClose > u then basicUpper else u)"

definition finalLowerOf :: "number \<Rightarrow> number option \<Rightarrow> number \<Rightarrow> number" where
  "finalLowerOf basicLower prevFinalLower prevClose = (case prevFinalLower of None \<Rightarrow> basicLower
     | Some l \<Rightarrow> if basicLower > l \<or> prevClose < l then basicLower else l)"

definition supertrendStep :: "candle list \<Rightarrow> series \<Rightarrow> number \<Rightarrow> nat \<Rightarrow> bandState \<Rightarrow> bandState" where
  "supertrendStep cs atrValues multiplier i s = (let
      c = cs ! i; prevClose = k_close (cs ! (i - 1));
      curAtr = orIfFalsy (atrValues ! i) 0;
      hl2 = (k_high c + k_low c) / 2;
      finalUpper = finalUpperOf (hl2 + multiplier * curAtr) (bs_upper s) prevClose;
      finalLower = finalLowerOf (hl2 - multiplier * curAtr) (bs_lower s) prevClose;
      dir = (if bs_upper s = Some (bs_st s) then (if k_close c \<le> finalUpper then -1 else 1)
        else (if k_close c \<ge> finalLower then 1 else -1)) in
     \<lparr>bs_upper = Some finalUpper, bs_lower = Some finalLower,
      bs_st = (if dir = 1 then finalLower else finalUpper), bs_dir = dir\<rparr>)"

definition bandSeed :: bandState where
  "bandSeed = \<lparr>bs_upper = None, bs_lower = None, bs_st = 0, bs_dir = 1\<rparr>"

text \<open>With fewer candles than \<open>atrPeriod\<close> the loop does not run. With a period of 0 it starts at the first candle, whose
  predecessor \<open>candles[-1]\<close> is \<open>undefined\<close>: its close is not read there, in the source because the comparisons with
  the infinite seeds come first in each disjunction, here because the bands of the seed are \<open>None\<close>.\<close>

definition supertrend :: "candle list \<Rightarrow> nat \<Rightarrow> number \<Rightarrow> supertrendResult" where
  "supertrend cs atrPeriod multiplier = (let atrValues = atr cs atrPeriod; len = length cs in
     if len < atrPeriod then \<lparr>sr_supertrend = replicate len None, sr_direction = replicate len None,
       sr_upperBand = replicate len None, sr_lowerBand = replicate len None\<rparr>
     else \<lparr>sr_supertrend = fillFrom (supertrendStep cs atrValues multiplier) (\<lambda>s. Some (bs_st s)) atrPeriod len bandSeed (replicate len None),
       sr_direction = fillFrom (supertrendStep cs atrValues multiplier) (\<lambda>s. Some (bs_dir s)) atrPeriod len bandSeed (replicate len None),
       sr_upperBand = fillFrom (supertrendStep cs atrValues multiplier) bs_upper atrPeriod len bandSeed (replicate len None),
       sr_lowerBand = fillFrom (supertrendStep cs atrValues multiplier) bs_lower atrPeriod len bandSeed (replicate len None)\<rparr>)"

text \<open>The adaptive variant runs the same loop once a bar beyond the period exists, and reports a flip
  between its last two computed bars.\<close>

definition calculateAdaptiveSupertrend :: "candle list \<Rightarrow> nat \<Rightarrow> number \<Rightarrow> supertrendResult \<times> bool" where
  "calculateAdaptiveSupertrend cs atrPeriod multiplier = (let len = length cs in
     if len < atrPeriod + 1 then (\<lparr>sr_supertrend = replicate len None, sr_direction = replicate len None,
       sr_upperBand = replicate len None, sr_lowerBand = replicate len None\<rparr>, False)
     else let r = supertrend cs atrPeriod multiplier in
       (r, 2 \<le> len \<and> atrPeriod \<le> len - 2 \<and> sr_direction r ! (len - 1) \<noteq> sr_direction r ! (len - 2)))"

subsection \<open>Causality\<close>

definition keepsEntries :: "'v option list \<Rightarrow> 'v option list \<Rightarrow> bool" where
  "keepsEntries xs ys \<longleftrightarrow> length xs \<le> length ys \<and> (\<forall>i v. i < length xs \<longrightarrow> xs ! i = Some v \<longrightarrow> ys ! i = Some v)"

text \<open>What the readers of a series rely on: it has one entry per input, and an entry once computed is not
  changed by later input.\<close>

locale causal_indicator =
  fixes ind :: "'x list \<Rightarrow> 'v option list"
  assumes entries: "length (ind xs) = length xs"
    and keeps: "i < length xs \<Longrightarrow> ind xs ! i = Some v \<Longrightarrow> ind (xs @ ys) ! i = Some v"
begin

lemma kept_entries: "n \<le> m \<Longrightarrow> keepsEntries (ind (take n xs)) (ind (take m xs))"
proof -
  assume "n \<le> m"
  then have "take m xs = take n xs @ drop n (take m xs)"
    by (metis append_take_drop_id min.absorb1 take_take)
  then show ?thesis using keeps [of _ "take n xs" _ "drop n (take m xs)"] \<open>n \<le> m\<close>
    by (auto simp: keepsEntries_def entries)
qed

end

lemma fold_upt_cong: "(\<And>i s. a \<le> i \<Longrightarrow> i < b \<Longrightarrow> f i s = g i s) \<Longrightarrow> fold f [a..<b] s = fold g [a..<b] s"
  by (rule fold_cong) auto

text \<open>An array filled by a loop whose step at \<open>i\<close> reads the input up to \<open>i\<close> only.\<close>

lemma fillFrom_keeps:
  assumes "a \<le> n" "n \<le> m" "i < n"
    "\<And>j s. a \<le> j \<Longrightarrow> j \<le> i \<Longrightarrow> f j s = f' j s"
    "length res = n" "length res' = m" "i < a \<Longrightarrow> res ! i = Some v \<Longrightarrow> res' ! i = Some v"
    "fillFrom f g a n s res ! i = Some v"
  shows "fillFrom f' g a m s res' ! i = Some v"
proof -
  have "fold f [a..<Suc i] s = fold f' [a..<Suc i] s"
    using assms(4) by (intro fold_upt_cong) auto
  then show ?thesis using assms by (auto simp: nth_fillFrom split: if_splits simp del: upt_Suc)
qed

lemma rsi_step_prefix: "i < length xs \<Longrightarrow> rsiStep (xs @ ys) period i = rsiStep xs period i"
  by (auto simp: rsiStep_def fun_eq_iff nth_append)

lemma rsi_seed_prefix: "period < length xs \<Longrightarrow> rsiSeed (xs @ ys) period = rsiSeed xs period"
  unfolding rsiSeed_def by (subst fold_upt_cong [where g = "\<lambda>i (g, l). let change = xs ! i - xs ! (i - 1) in
       if change > 0 then (g + change, l) else (g, l - change)"]) (auto simp: nth_append)

interpretation strength: causal_indicator "\<lambda>xs. rsi xs period" for period
proof
  show "length (rsi xs period) = length xs" for xs by (simp add: rsi_def Let_def)
next
  fix i v and xs ys :: "number list"
  assume i: "i < length xs" "rsi xs period ! i = Some v"
  then have p: "period \<noteq> 0" "period < length xs" by (auto simp: rsi_def split: if_splits)
  have "fillFrom (rsiStep xs period) (\<lambda>s. Some (rsiOf s)) (Suc period) (length xs) (rsiSeed xs period)
      ((replicate (length xs) None)[period := Some (rsiOf (rsiSeed xs period))]) ! i = Some v"
    using i p by (simp add: rsi_def Let_def)
  then have "fillFrom (rsiStep (xs @ ys) period) (\<lambda>s. Some (rsiOf s)) (Suc period) (length (xs @ ys)) (rsiSeed xs period)
      ((replicate (length (xs @ ys)) None)[period := Some (rsiOf (rsiSeed xs period))]) ! i = Some v"
  proof (rule fillFrom_keeps [rotated 7])
    show "rsiStep xs period j s = rsiStep (xs @ ys) period j s" if "Suc period \<le> j" "j \<le> i" for j s
      using that i(1) by (simp add: rsi_step_prefix)
  qed (use i(1) p(2) in \<open>auto simp: nth_list_update split: if_splits\<close>)
  then show "rsi (xs @ ys) period ! i = Some v" using p by (simp add: rsi_def Let_def rsi_seed_prefix)
qed

lemma trueRanges_prefix:
  "cs \<noteq> [] \<Longrightarrow> take (length cs - 1) (trueRanges (cs @ ds)) = trueRanges cs"
  "j < length cs - 1 \<Longrightarrow> trueRanges (cs @ ds) ! j = trueRanges cs ! j"
  by (auto simp: trueRanges_def nth_append intro!: nth_equalityI)

lemma length_trueRanges [simp]: "length (trueRanges cs) = length cs - 1"
  by (simp add: trueRanges_def)

lemma atr_step_prefix:
  "0 < i \<Longrightarrow> i < length cs \<Longrightarrow> atrStep (trueRanges (cs @ ds)) period i = atrStep (trueRanges cs) period i"
  by (auto simp: atrStep_def fun_eq_iff trueRanges_prefix(2))

interpretation range: causal_indicator "\<lambda>cs. atr cs period" for period
proof
  show "length (atr cs period) = length cs" for cs by (auto simp: atr_def Let_def)
next
  fix i v and cs ds :: "candle list"
  assume i: "i < length cs" "atr cs period ! i = Some v"
  then have p: "period \<noteq> 0" "period < length cs" "2 \<le> length cs" by (auto simp: atr_def Let_def split: if_splits)
  then have enough: "\<not> length cs - Suc 0 < period" "\<not> length cs + length ds - Suc 0 < period" by linarith+
  let ?seed = "sum_list (take period (trueRanges cs)) / of_nat period"
  have seed: "take period (trueRanges (cs @ ds)) = take period (trueRanges cs)"
  proof -
    have "take period (trueRanges (cs @ ds)) = take period (take (length cs - 1) (trueRanges (cs @ ds)))"
      using p by (simp add: min_absorb1)
    then show ?thesis using p by (subst (asm) trueRanges_prefix(1)) auto
  qed
  have "fillFrom (atrStep (trueRanges cs) period) Some (Suc period) (length cs) ?seed
      ((replicate (length cs) None)[period := Some ?seed]) ! i = Some v"
    using i p enough by (simp add: atr_def Let_def)
  then have "fillFrom (atrStep (trueRanges (cs @ ds)) period) Some (Suc period) (length (cs @ ds)) ?seed
      ((replicate (length (cs @ ds)) None)[period := Some ?seed]) ! i = Some v"
  proof (rule fillFrom_keeps [rotated 7])
    show "atrStep (trueRanges cs) period j s = atrStep (trueRanges (cs @ ds)) period j s" if "Suc period \<le> j" "j \<le> i" for j s
      using that i(1) by (simp add: atr_step_prefix)
  qed (use i(1) p(2) in \<open>auto simp: nth_list_update split: if_splits\<close>)
  then show "atr (cs @ ds) period ! i = Some v" using p enough by (simp add: atr_def Let_def seed)
qed

lemma atr_prefix: "i < length cs \<Longrightarrow> period \<le> i \<Longrightarrow> atr (cs @ ds) period ! i = atr cs period ! i"
proof -
  assume i: "i < length cs" "period \<le> i"
  show ?thesis
  proof (cases "atr cs period ! i")
    case None
    have "period = 0"
    proof (rule ccontr)
      assume "period \<noteq> 0"
      then have "\<not> length cs < 2" "\<not> length cs - Suc 0 < period" using i by linarith+
      then show False using i None \<open>period \<noteq> 0\<close> by (auto simp: atr_def Let_def nth_fillFrom nth_list_update split: if_splits)
    qed
    then show ?thesis using i by (simp add: atr_def nth_append)
  next
    case (Some v)
    then show ?thesis using range.keeps [OF i(1) Some, of ds] by simp
  qed
qed

lemma supertrend_step_prefix:
  "i < length cs \<Longrightarrow> period \<le> i \<Longrightarrow>
    supertrendStep (cs @ ds) (atr (cs @ ds) period) m i = supertrendStep cs (atr cs period) m i"
  by (auto simp: supertrendStep_def fun_eq_iff nth_append atr_prefix)

lemma supertrend_column:
  assumes "i < length cs" "atrPeriod \<le> length cs"
    "fillFrom (supertrendStep cs (atr cs atrPeriod) m) g atrPeriod (length cs) bandSeed (replicate (length cs) None) ! i = Some v"
  shows "fillFrom (supertrendStep (cs @ ds) (atr (cs @ ds) atrPeriod) m) g atrPeriod (length (cs @ ds)) bandSeed
    (replicate (length (cs @ ds)) None) ! i = Some v"
proof (rule fillFrom_keeps [rotated 7, OF assms(3)])
  show "supertrendStep cs (atr cs atrPeriod) m j s = supertrendStep (cs @ ds) (atr (cs @ ds) atrPeriod) m j s"
    if "atrPeriod \<le> j" "j \<le> i" for j s
    using that assms(1) by (simp add: supertrend_step_prefix)
qed (use assms in auto)

interpretation trend: causal_indicator "\<lambda>cs. sr_direction (supertrend cs atrPeriod m)" for atrPeriod m
proof
  show "length (sr_direction (supertrend cs atrPeriod m)) = length cs" for cs by (simp add: supertrend_def Let_def)
next
  fix i v and cs ds :: "candle list"
  assume "i < length cs" "sr_direction (supertrend cs atrPeriod m) ! i = Some v"
  then show "sr_direction (supertrend (cs @ ds) atrPeriod m) ! i = Some v"
    using supertrend_column [of i cs atrPeriod m "\<lambda>s. Some (bs_dir s)" v ds]
    by (auto simp: supertrend_def Let_def split: if_splits)
qed

interpretation line: causal_indicator "\<lambda>cs. sr_supertrend (supertrend cs atrPeriod m)" for atrPeriod m
proof
  show "length (sr_supertrend (supertrend cs atrPeriod m)) = length cs" for cs by (simp add: supertrend_def Let_def)
next
  fix i v and cs ds :: "candle list"
  assume "i < length cs" "sr_supertrend (supertrend cs atrPeriod m) ! i = Some v"
  then show "sr_supertrend (supertrend (cs @ ds) atrPeriod m) ! i = Some v"
    using supertrend_column [of i cs atrPeriod m "\<lambda>s. Some (bs_st s)" v ds]
    by (auto simp: supertrend_def Let_def split: if_splits)
qed

lemma movesOf_nth: "0 < i \<Longrightarrow> i < length cs \<Longrightarrow> movesOf f cs ! i = f (cs ! i) (cs ! (i - 1))"
  by (cases i) (simp_all add: movesOf_def)

lemma take_movesOf:
  "period < length cs \<Longrightarrow> take period (drop 1 (movesOf f cs)) = map (\<lambda>i. f (cs ! i) (cs ! (i - 1))) [1..<Suc period]"
  by (auto simp: movesOf_def take_map take_upt)

lemma take_movesOf_prefix:
  "period < length cs \<Longrightarrow> take period (drop 1 (movesOf f (cs @ ds))) = take period (drop 1 (movesOf f cs))"
proof -
  assume "period < length cs"
  then show ?thesis by (subst (1 2) take_movesOf) (auto simp: nth_append simp del: upt_Suc)
qed

lemma adx_step_prefix:
  "0 < i \<Longrightarrow> i < length cs \<Longrightarrow>
    adxStep (movesOf f (cs @ ds)) (movesOf g (cs @ ds)) (movesOf h (cs @ ds)) period i
      = adxStep (movesOf f cs) (movesOf g cs) (movesOf h cs) period i"
  by (auto simp: adxStep_def fun_eq_iff movesOf_nth nth_append)

interpretation directional: causal_indicator "\<lambda>cs. ad_adx (adx cs period)" for period
proof
  show "length (ad_adx (adx cs period)) = length cs" for cs by (simp add: adx_def Let_def)
next
  fix i v and cs ds :: "candle list"
  assume i: "i < length cs" "ad_adx (adx cs period) ! i = Some v"
  then have p: "period \<noteq> 0" "period * 2 \<le> length cs" by (auto simp: adx_def Let_def split: if_splits)
  let ?seed = "\<lparr>as_tr = sum_list (take period (drop 1 (movesOf rangeMove cs))), as_plus = sum_list (take period (drop 1 (movesOf plusMove cs))),
      as_minus = sum_list (take period (drop 1 (movesOf minusMove cs))), as_dxList = [], as_adx = None\<rparr>"
  have "fillFrom (adxStep (movesOf rangeMove cs) (movesOf plusMove cs) (movesOf minusMove cs) period) as_adx period (length cs)
      ?seed (replicate (length cs) None) ! i = Some v"
    using i p by (simp add: adx_def Let_def)
  then have "fillFrom (adxStep (movesOf rangeMove (cs @ ds)) (movesOf plusMove (cs @ ds)) (movesOf minusMove (cs @ ds)) period) as_adx
      period (length (cs @ ds)) ?seed (replicate (length (cs @ ds)) None) ! i = Some v"
  proof (rule fillFrom_keeps [rotated 7])
    show "adxStep (movesOf rangeMove cs) (movesOf plusMove cs) (movesOf minusMove cs) period j s
        = adxStep (movesOf rangeMove (cs @ ds)) (movesOf plusMove (cs @ ds)) (movesOf minusMove (cs @ ds)) period j s"
      if "period \<le> j" "j \<le> i" for j s
      using that i(1) p by (simp add: adx_step_prefix)
  qed (use i(1) p in auto)
  moreover have "take period (drop 1 (movesOf f (cs @ ds))) = take period (drop 1 (movesOf f cs))" for f
    using p by (intro take_movesOf_prefix) simp
  ultimately show "ad_adx (adx (cs @ ds) period) ! i = Some v" using p by (simp add: adx_def Let_def)
qed

text \<open>C39. Signals do not repaint: whatever candles follow, the strength, range, directional and Supertrend
  values computed for a candle from the series up to a moment are the ones computed for it at every later
  moment.\<close>

theorem indicators_never_repaint:
  assumes "n \<le> m"
  shows "keepsEntries (rsi (map k_close (take n cs)) p) (rsi (map k_close (take m cs)) p)
    \<and> keepsEntries (atr (take n cs) p) (atr (take m cs) p)
    \<and> keepsEntries (ad_adx (adx (take n cs) p)) (ad_adx (adx (take m cs) p))
    \<and> keepsEntries (sr_supertrend (supertrend (take n cs) p q)) (sr_supertrend (supertrend (take m cs) p q))
    \<and> keepsEntries (sr_direction (supertrend (take n cs) p q)) (sr_direction (supertrend (take m cs) p q))"
  using assms range.kept_entries directional.kept_entries line.kept_entries trend.kept_entries
    strength.kept_entries [of n m "map k_close cs"] by (simp add: take_map)

definition sampleCandle :: "ms \<Rightarrow> number \<Rightarrow> number \<Rightarrow> number \<Rightarrow> candle" where
  "sampleCandle t hi lo close' = \<lparr>k_symbol = ''SOLUSDT'', k_interval = ''1h'', k_openTime = t, k_open = close', k_high = hi,
     k_low = lo, k_close = close', k_volume = Some 1, k_closeTime = None, k_isClosed = True\<rparr>"

definition sampleCandles :: "candle list" where
  "sampleCandles = [sampleCandle 0 11 9 10, sampleCandle 1 12 9 11, sampleCandle 2 14 10 13, sampleCandle 3 16 12 15,
     sampleCandle 4 16 10 11]"

theorem indicators_never_repaint_witness:
  "atr (take 3 sampleCandles) 2 = [None, None, Some (7 / 2)]
    \<and> atr (take 5 sampleCandles) 2 ! 2 = Some (7 / 2)"
proof -
  have "atr (take 3 sampleCandles) 2 = [None, None, Some (7 / 2)]"
    by (simp add: sampleCandles_def sampleCandle_def atr_def trueRanges_def trueRange_def Let_def fillFrom_def upt_rec numeral_nat)
  then show ?thesis using indicators_never_repaint [of 3 5 sampleCandles 2 3]
    by (auto simp: keepsEntries_def)
qed

end
