(* ===== verification/Market_Regime.thy ===== *)
theory Market_Regime
  imports Indicators Mtf_State
begin

section \<open>Market regimes\<close>

text \<open>
  \<open>strategy/adaptive-supertrend/types.ts\<close> and \<open>regime.ts\<close> (the feature vector), and
  \<open>analysis/MarketRegimeDetector.ts\<close> (its six labels, the confidence, the adaptation of the risk
  parameters and the number of observations a change of regime needs), with the part of
  \<open>agent/AutonomousTradingAgent.ts\<close> that commits a change (\<open>trackRegime\<close>). The rationale texts of the
  adaptations are left out; \<open>Math.sqrt\<close> is the argument of the Bollinger bands.
\<close>

subsection \<open>Features\<close>

datatype marketVolatility = LOW_VOL | MEDIUM_VOL | HIGH_VOL

datatype trendStrength = WEAK_TREND | MEDIUM_TREND | STRONG_TREND

datatype marketMomentum = OVERSOLD | NEUTRAL | OVERBOUGHT

record marketFeatures =
  mf_volatility :: marketVolatility
  mf_trendStrength :: trendStrength
  mf_momentum :: marketMomentum
  mf_adx :: number
  mf_bandWidth :: number
  mf_rsi :: number
  mf_macdHist :: number
  mf_volumeRatio :: "number option"
  mf_atr :: number

definition lastEntry :: "series \<Rightarrow> number option" where
  "lastEntry vs = (if vs = [] then None else last vs)"

definition extractMarketFeatures :: "(number \<Rightarrow> number) \<Rightarrow> candle list \<Rightarrow> marketFeatures option" where
  "extractMarketFeatures sqrt' cs = (if length cs < 35 then None
     else let closes = map k_close cs; volumes = map k_volume cs;
       curBw = orIfFalsy (lastEntry (bb_bandWidth (bollingerBands sqrt' closes 20 2))) (3 / 100);
       curAdx = orIfFalsy (lastEntry (ad_adx (adx cs 14))) 15;
       curRsi = orIfFalsy (lastEntry (rsi closes 14)) 50;
       curMacdHist = orIfFalsy (lastEntry (mc_histogram (macd closes 12 26 9))) 0;
       curAtr = orIfFalsy (lastEntry (atr cs 14)) (last closes * (1 / 100));
       curVolSma = orIfFalsy (lastEntry (sma volumes 20)) (orIfFalsy (last volumes) 1);
       volRatio = (if curVolSma > 0 then map_option (\<lambda>v. v / curVolSma) (last volumes) else Some 1) in
     Some \<lparr>mf_volatility = (if curBw < 25 / 1000 then LOW_VOL else if curBw < 6 / 100 then MEDIUM_VOL else HIGH_VOL),
       mf_trendStrength = (if curAdx < 20 then WEAK_TREND else if curAdx < 35 then MEDIUM_TREND else STRONG_TREND),
       mf_momentum = (if curRsi < 32 then OVERSOLD else if curRsi > 68 then OVERBOUGHT else NEUTRAL),
       mf_adx = curAdx, mf_bandWidth = curBw, mf_rsi = curRsi, mf_macdHist = curMacdHist,
       mf_volumeRatio = volRatio, mf_atr = curAtr\<rparr>)"

fun volatilityName :: "marketVolatility \<Rightarrow> string" where
  "volatilityName LOW_VOL = ''low''"
| "volatilityName MEDIUM_VOL = ''medium''"
| "volatilityName HIGH_VOL = ''high''"

fun trendStrengthName :: "trendStrength \<Rightarrow> string" where
  "trendStrengthName WEAK_TREND = ''weak''"
| "trendStrengthName MEDIUM_TREND = ''medium''"
| "trendStrengthName STRONG_TREND = ''strong''"

fun momentumName :: "marketMomentum \<Rightarrow> string" where
  "momentumName OVERSOLD = ''oversold''"
| "momentumName NEUTRAL = ''neutral''"
| "momentumName OVERBOUGHT = ''overbought''"

definition formatRegimeKey :: "marketFeatures \<Rightarrow> string" where
  "formatRegimeKey f = volatilityName (mf_volatility f) @ ''_'' @ trendStrengthName (mf_trendStrength f) @ ''_'' @
     momentumName (mf_momentum f)"

subsection \<open>Labels\<close>

datatype marketRegime =
  TRENDING_STRONG | TRENDING_NORMAL | RANGING_LOW_VOL | RANGING_HIGH_VOL | VOLATILE_BREAKOUT | TRANSITIONING

record regimeSnapshot =
  rg_symbol :: string
  rg_asOf :: ms
  rg_regime :: marketRegime
  rg_features :: marketFeatures
  rg_regimeKey :: string
  rg_htfTrend :: "marketTrend option"
  rg_mtfTrend :: "marketTrend option"
  rg_confidence :: number

record regimeAdaptation =
  rd_regime :: marketRegime
  rd_riskMultiplier :: number
  rd_stopAtrMultiplier :: number
  rd_targetAtrMultiplier :: number
  rd_minRR :: number
  rd_trailingActivationPct :: number
  rd_trailingDistancePct :: number
  rd_breakevenTriggerPct :: number
  rd_maxLeverage :: number

text \<open>A comparison with \<open>NaN\<close> is false.\<close>

definition above :: "number option \<Rightarrow> number \<Rightarrow> bool" where
  "above a x = (case a of None \<Rightarrow> False | Some v \<Rightarrow> v > x)"

definition classify :: "marketFeatures \<Rightarrow> marketRegime" where
  "classify f = (if mf_trendStrength f = STRONG_TREND \<and> (mf_adx f \<ge> 30 \<or> mf_momentum f \<noteq> NEUTRAL) then TRENDING_STRONG
     else if mf_trendStrength f = MEDIUM_TREND \<and> mf_volatility f \<noteq> HIGH_VOL then TRENDING_NORMAL
     else if mf_volatility f = HIGH_VOL \<and> (mf_bandWidth f > 6 / 100 \<or> above (mf_volumeRatio f) (14 / 10)) then VOLATILE_BREAKOUT
     else if mf_volatility f = LOW_VOL \<and> mf_trendStrength f = WEAK_TREND then RANGING_LOW_VOL
     else if mf_volatility f = HIGH_VOL \<and> mf_trendStrength f = WEAK_TREND then RANGING_HIGH_VOL
     else TRANSITIONING)"

fun baseConfidence :: "marketRegime \<Rightarrow> number" where
  "baseConfidence TRENDING_STRONG = 75"
| "baseConfidence TRENDING_NORMAL = 65"
| "baseConfidence VOLATILE_BREAKOUT = 60"
| "baseConfidence RANGING_LOW_VOL = 60"
| "baseConfidence RANGING_HIGH_VOL = 55"
| "baseConfidence TRANSITIONING = 35"

definition confidenceFor :: "marketFeatures \<Rightarrow> marketRegime \<Rightarrow> number" where
  "confidenceFor f regime = (let b1 = baseConfidence regime;
      b2 = (if mf_adx f \<ge> 25 then b1 + 10 else b1);
      b3 = (if mf_adx f < 18 then b2 - 10 else b2);
      b4 = (if \<exists>v. mf_volumeRatio f = Some v \<and> v \<ge> 12 / 10 then b3 + 5 else b3) in
     max 0 (min 100 b4))"

fun getAdaptation :: "marketRegime \<Rightarrow> regimeAdaptation" where
  "getAdaptation TRENDING_STRONG = \<lparr>rd_regime = TRENDING_STRONG, rd_riskMultiplier = 12 / 10, rd_stopAtrMultiplier = 2,
     rd_targetAtrMultiplier = 6, rd_minRR = 25 / 10, rd_trailingActivationPct = 15 / 1000, rd_trailingDistancePct = 12 / 1000,
     rd_breakevenTriggerPct = 1 / 100, rd_maxLeverage = 10\<rparr>"
| "getAdaptation TRENDING_NORMAL = \<lparr>rd_regime = TRENDING_NORMAL, rd_riskMultiplier = 1, rd_stopAtrMultiplier = 175 / 100,
     rd_targetAtrMultiplier = 45 / 10, rd_minRR = 2, rd_trailingActivationPct = 2 / 100, rd_trailingDistancePct = 15 / 1000,
     rd_breakevenTriggerPct = 1 / 100, rd_maxLeverage = 8\<rparr>"
| "getAdaptation RANGING_LOW_VOL = \<lparr>rd_regime = RANGING_LOW_VOL, rd_riskMultiplier = 7 / 10, rd_stopAtrMultiplier = 125 / 100,
     rd_targetAtrMultiplier = 25 / 10, rd_minRR = 15 / 10, rd_trailingActivationPct = 12 / 1000, rd_trailingDistancePct = 8 / 1000,
     rd_breakevenTriggerPct = 8 / 1000, rd_maxLeverage = 5\<rparr>"
| "getAdaptation RANGING_HIGH_VOL = \<lparr>rd_regime = RANGING_HIGH_VOL, rd_riskMultiplier = 5 / 10, rd_stopAtrMultiplier = 175 / 100,
     rd_targetAtrMultiplier = 3, rd_minRR = 15 / 10, rd_trailingActivationPct = 18 / 1000, rd_trailingDistancePct = 14 / 1000,
     rd_breakevenTriggerPct = 12 / 1000, rd_maxLeverage = 3\<rparr>"
| "getAdaptation VOLATILE_BREAKOUT = \<lparr>rd_regime = VOLATILE_BREAKOUT, rd_riskMultiplier = 8 / 10, rd_stopAtrMultiplier = 25 / 10,
     rd_targetAtrMultiplier = 55 / 10, rd_minRR = 2, rd_trailingActivationPct = 25 / 1000, rd_trailingDistancePct = 2 / 100,
     rd_breakevenTriggerPct = 15 / 1000, rd_maxLeverage = 6\<rparr>"
| "getAdaptation TRANSITIONING = \<lparr>rd_regime = TRANSITIONING, rd_riskMultiplier = 6 / 10, rd_stopAtrMultiplier = 15 / 10,
     rd_targetAtrMultiplier = 3, rd_minRR = 18 / 10, rd_trailingActivationPct = 15 / 1000, rd_trailingDistancePct = 12 / 1000,
     rd_breakevenTriggerPct = 1 / 100, rd_maxLeverage = 4\<rparr>"

subsection \<open>Detection\<close>

text \<open>The change over the last ten closes. A first close of 0 makes the quotient infinite or \<open>NaN\<close>.\<close>

definition getTrendFromCandles :: "candle list \<Rightarrow> marketTrend option" where
  "getTrendFromCandles cs = (if length cs < 10 then None
     else let recent = drop (length cs - 10) cs; fst' = k_close (hd recent); lst = k_close (last recent) in
       if fst' = 0 then Some (if lst > 0 then BULLISH else if lst < 0 then BEARISH else RANGE)
       else let change = (lst - fst') / fst' in
         Some (if change > 5 / 1000 then BULLISH else if change < - (5 / 1000) then BEARISH else RANGE))"

definition detectRegime ::
  "(number \<Rightarrow> number) \<Rightarrow> (string \<Rightarrow> nat \<Rightarrow> candle list) \<Rightarrow> (string \<Rightarrow> marketTrend option) \<Rightarrow> string \<Rightarrow> mtfState option \<Rightarrow> ms
    \<Rightarrow> regimeSnapshot option" where
  "detectRegime sqrt' getHtfCandles getMtfTrend symbol mtf asOf =
     (case extractMarketFeatures sqrt' (getHtfCandles symbol 100) of None \<Rightarrow> None
      | Some features \<Rightarrow> let regime = classify features in
        Some \<lparr>rg_symbol = symbol, rg_asOf = asOf, rg_regime = regime, rg_features = features,
          rg_regimeKey = formatRegimeKey features,
          rg_htfTrend = (case mtf of None \<Rightarrow> None | Some m \<Rightarrow>
            (case tx_lastClosedCandle (mt_timeframes m TF_4h) of None \<Rightarrow> None
             | Some c \<Rightarrow> getTrendFromCandles (tx_closedCandles (mt_timeframes m TF_4h)))),
          rg_mtfTrend = getMtfTrend symbol,
          rg_confidence = confidenceFor features regime\<rparr>)"

subsection \<open>Committing a change of regime\<close>

fun noiseOffset :: "marketRegime \<Rightarrow> int" where
  "noiseOffset RANGING_LOW_VOL = -1"
| "noiseOffset TRENDING_STRONG = 0"
| "noiseOffset TRENDING_NORMAL = 0"
| "noiseOffset RANGING_HIGH_VOL = 1"
| "noiseOffset TRANSITIONING = 1"
| "noiseOffset VOLATILE_BREAKOUT = 2"

definition regimeConfirmationBarsFor ::
  "marketRegime option \<Rightarrow> marketRegime \<Rightarrow> int \<Rightarrow> (marketRegime \<Rightarrow> number option) \<Rightarrow> int" where
  "regimeConfirmationBarsFor prev next' base overrides =
     (if next' = TRANSITIONING then base
      else case (case prev of None \<Rightarrow> None | Some p \<Rightarrow> overrides p) of
        Some n \<Rightarrow> max 1 (math_round n)
      | None \<Rightarrow> max 1 (base + (case prev of None \<Rightarrow> 0 | Some p \<Rightarrow> noiseOffset p)))"

record regimeTrack =
  tk_regime :: "regimeSnapshot option"
  tk_changedAt :: ms
  tk_observations :: int

definition newTrack :: regimeTrack where
  "newTrack = \<lparr>tk_regime = None, tk_changedAt = 0, tk_observations = 0\<rparr>"

text \<open>Step 7 of a cycle for one symbol; the event and the broadcast of a change are left out.\<close>

definition trackRegime :: "int \<Rightarrow> (marketRegime \<Rightarrow> number option) \<Rightarrow> ms \<Rightarrow> regimeSnapshot option \<Rightarrow> regimeTrack \<Rightarrow> regimeTrack" where
  "trackRegime base overrides now seen t = (case seen of None \<Rightarrow> t
     | Some r \<Rightarrow> (case tk_regime t of
         None \<Rightarrow> t\<lparr>tk_regime := Some r, tk_changedAt := now\<rparr>
       | Some prev \<Rightarrow>
           if rg_regime prev \<noteq> rg_regime r then
             (let n = tk_observations t + 1 in
              if regimeConfirmationBarsFor (Some (rg_regime prev)) (rg_regime r) base overrides \<le> n
              then t\<lparr>tk_regime := Some r, tk_changedAt := now, tk_observations := 0\<rparr>
              else t\<lparr>tk_observations := n\<rparr>)
           else t\<lparr>tk_observations := max 0 (tk_observations t - 1), tk_regime := Some r\<rparr>))"

text \<open>Step 8: what the cycle trades by.\<close>

definition currentRegime :: "regimeTrack \<Rightarrow> marketRegime" where
  "currentRegime t = (case tk_regime t of None \<Rightarrow> TRANSITIONING | Some r \<Rightarrow> rg_regime r)"

definition isTradeable :: "marketRegime \<Rightarrow> bool" where
  "isTradeable regime \<longleftrightarrow> regime \<noteq> TRANSITIONING"

subsection \<open>What the tracking guarantees\<close>

definition observe :: "int \<Rightarrow> (marketRegime \<Rightarrow> number option) \<Rightarrow> (ms \<times> regimeSnapshot option) list \<Rightarrow> regimeTrack \<Rightarrow> regimeTrack" where
  "observe base overrides = fold (\<lambda>(now, seen). trackRegime base overrides now seen)"

definition dissent :: "marketRegime \<Rightarrow> (ms \<times> regimeSnapshot option) list \<Rightarrow> int" where
  "dissent p seen = int (length (filter (\<lambda>(now, r). r \<noteq> None \<and> rg_regime (the r) \<noteq> p) seen))"

lemma dissent_simps [simp]:
  "dissent p [] = 0"
  "dissent p ((now, None) # seen) = dissent p seen"
  "dissent p ((now, Some r) # seen) = (if rg_regime r = p then 0 else 1) + dissent p seen"
  by (simp_all add: dissent_def)

lemma dissent_nonneg [simp]: "0 \<le> dissent p seen"
  by (simp add: dissent_def)

lemma stays_committed:
  assumes "tk_regime t = Some r" "rg_regime r = p" "0 \<le> tk_observations t"
    "\<forall>n. k \<le> regimeConfirmationBarsFor (Some p) n base overrides"
    "tk_observations t + dissent p seen < k"
  shows "currentRegime (observe base overrides seen t) = p"
  using assms
proof (induction seen arbitrary: t r)
  case Nil
  then show ?case by (simp add: observe_def currentRegime_def)
next
  case (Cons x seen)
  obtain now s where x: "x = (now, s)" by fastforce
  show ?case
  proof (cases s)
    case None
    then show ?thesis using Cons x by (simp add: observe_def trackRegime_def)
  next
    case (Some q)
    show ?thesis
    proof (cases "rg_regime q = p")
      case True
      let ?t = "trackRegime base overrides now s t"
      have "tk_regime ?t = Some q" "tk_observations ?t = max 0 (tk_observations t - 1)"
        using Cons.prems True Some by (simp_all add: trackRegime_def)
      moreover have "dissent p (x # seen) = dissent p seen" using True Some x by simp
      ultimately have "currentRegime (observe base overrides seen ?t) = p"
        using Cons.IH [of ?t q] Cons.prems True by auto
      then show ?thesis by (simp add: observe_def x)
    next
      case False
      let ?t = "trackRegime base overrides now s t"
      have d: "dissent p (x # seen) = 1 + dissent p seen" using False Some x by simp
      then have "tk_observations t + 1 < k" using Cons.prems(5) dissent_nonneg [of p seen] by linarith
      then have few: "\<not> regimeConfirmationBarsFor (Some p) (rg_regime q) base overrides \<le> tk_observations t + 1"
        using Cons.prems(4) by (metis dual_order.trans leD)
      then have "tk_regime ?t = Some r" "tk_observations ?t = tk_observations t + 1"
        using Cons.prems(1,2) False Some by (auto simp: trackRegime_def Let_def)
      then have "currentRegime (observe base overrides seen ?t) = p"
        using Cons.IH [of ?t r] Cons.prems d by simp
      then show ?thesis by (simp add: observe_def x)
    qed
  qed
qed

text \<open>C37. A change of regime needs evidence: while fewer observations than every transition out of the committed
  regime requires have disagreed with it, however they are spread over the run, it stays committed.\<close>

theorem regime_change_needs_dissent:
  assumes "tk_regime t = Some r" "tk_observations t = 0"
    "\<forall>n. k \<le> regimeConfirmationBarsFor (Some (rg_regime r)) n base overrides" "dissent (rg_regime r) seen < k"
  shows "currentRegime (observe base overrides seen t) = rg_regime r"
  using assms by (intro stays_committed [where r = r and k = k]) auto

definition sampleFeatures :: marketFeatures where
  "sampleFeatures = \<lparr>mf_volatility = LOW_VOL, mf_trendStrength = STRONG_TREND, mf_momentum = NEUTRAL, mf_adx = 40,
     mf_bandWidth = 2 / 100, mf_rsi = 50, mf_macdHist = 0, mf_volumeRatio = None, mf_atr = 1\<rparr>"

definition sampleSnapshot :: "marketRegime \<Rightarrow> regimeSnapshot" where
  "sampleSnapshot g = \<lparr>rg_symbol = ''SOLUSDT'', rg_asOf = 0, rg_regime = g, rg_features = sampleFeatures,
     rg_regimeKey = formatRegimeKey sampleFeatures, rg_htfTrend = None, rg_mtfTrend = None, rg_confidence = 75\<rparr>"

definition sampleTrack :: regimeTrack where
  "sampleTrack = trackRegime 3 (\<lambda>_. None) 0 (Some (sampleSnapshot TRENDING_STRONG)) newTrack"

lemma sampleTrack_simps:
  "tk_regime sampleTrack = Some (sampleSnapshot TRENDING_STRONG)" "tk_observations sampleTrack = 0"
  by (simp_all add: sampleTrack_def trackRegime_def newTrack_def)

theorem regime_change_needs_dissent_witness:
  "currentRegime (observe 3 (\<lambda>_. None) [(1, Some (sampleSnapshot VOLATILE_BREAKOUT)), (2, None),
     (3, Some (sampleSnapshot TRENDING_STRONG)), (4, Some (sampleSnapshot VOLATILE_BREAKOUT))] sampleTrack) = TRENDING_STRONG"
proof -
  have "3 \<le> regimeConfirmationBarsFor (Some TRENDING_STRONG) n 3 (\<lambda>_. None)" for n
    by (simp add: regimeConfirmationBarsFor_def)
  then show ?thesis
    using regime_change_needs_dissent [of sampleTrack "sampleSnapshot TRENDING_STRONG" 3 3 "\<lambda>_. None"
      "[(1, Some (sampleSnapshot VOLATILE_BREAKOUT)), (2, None), (3, Some (sampleSnapshot TRENDING_STRONG)), (4, Some (sampleSnapshot VOLATILE_BREAKOUT))]"]
    by (simp add: sampleTrack_simps sampleSnapshot_def)
qed

lemma observations_count:
  assumes "tk_regime t = Some r" "rg_regime r = p"
    "\<forall>x \<in> set seen. \<exists>now q. x = (now, Some q) \<and> rg_regime q \<noteq> p
      \<and> tk_observations t + int (length seen) < regimeConfirmationBarsFor (Some p) (rg_regime q) base overrides"
  shows "tk_regime (observe base overrides seen t) = Some r
    \<and> tk_observations (observe base overrides seen t) = tk_observations t + int (length seen)"
  using assms
proof (induction seen arbitrary: t)
  case Nil
  then show ?case by (simp add: observe_def)
next
  case (Cons x seen)
  then obtain now q where x: "x = (now, Some q)" "rg_regime q \<noteq> p"
    "tk_observations t + 1 + int (length seen) < regimeConfirmationBarsFor (Some p) (rg_regime q) base overrides" by auto
  let ?t = "trackRegime base overrides now (Some q) t"
  have t: "tk_regime ?t = Some r" "tk_observations ?t = tk_observations t + 1"
    using Cons.prems(1,2) x by (auto simp: trackRegime_def Let_def)
  have "tk_regime (observe base overrides seen ?t) = Some r
    \<and> tk_observations (observe base overrides seen ?t) = tk_observations ?t + int (length seen)"
    using Cons.prems t by (intro Cons.IH) (auto simp: algebra_simps)
  then show ?case using t by (simp add: observe_def x)
qed

text \<open>C38. But the evidence need not agree: when the number required for the regime seen last is reached it is
  committed at once, whatever other regimes the earlier dissenting observations were of. And an observation
  that the market is in transition is held back like the others: until it completes the number, the symbol
  stays tradeable in the regime it has left.\<close>

theorem mixed_observations_commit:
  assumes "tk_regime t = Some r" "tk_observations t = 0" "rg_regime q \<noteq> rg_regime r"
    "\<forall>x \<in> set seen. \<exists>now o'. x = (now, Some o') \<and> rg_regime o' \<noteq> rg_regime r
      \<and> int (length seen) < regimeConfirmationBarsFor (Some (rg_regime r)) (rg_regime o') base overrides"
  shows "currentRegime (observe base overrides (seen @ [(now, Some q)]) t) =
    (if regimeConfirmationBarsFor (Some (rg_regime r)) (rg_regime q) base overrides \<le> int (length seen) + 1
     then rg_regime q else rg_regime r)"
proof -
  have "tk_regime (observe base overrides seen t) = Some r \<and> tk_observations (observe base overrides seen t) = int (length seen)"
    using observations_count [of t r "rg_regime r" seen base overrides] assms by auto
  then show ?thesis using assms(3) by (auto simp: observe_def trackRegime_def currentRegime_def Let_def)
qed

text \<open>Three observations of three regimes commit the last; and the first sign of transition out of a strong
  trend leaves it tradeable, although one out of a quiet range to a trend would need fewer observations.\<close>

theorem mixed_observations_commit_witness:
  "currentRegime (observe 3 (\<lambda>_. None) ([(1, Some (sampleSnapshot VOLATILE_BREAKOUT)), (2, Some (sampleSnapshot RANGING_HIGH_VOL))]
      @ [(3, Some (sampleSnapshot TRENDING_NORMAL))]) sampleTrack) = TRENDING_NORMAL
    \<and> isTradeable (currentRegime (observe 3 (\<lambda>_. None) ([] @ [(1, Some (sampleSnapshot TRANSITIONING))]) sampleTrack))"
proof -
  have bars: "regimeConfirmationBarsFor (Some TRENDING_STRONG) n 3 (\<lambda>_. None) = 3" for n
    by (simp add: regimeConfirmationBarsFor_def)
  have "currentRegime (observe 3 (\<lambda>_. None) ([(1, Some (sampleSnapshot VOLATILE_BREAKOUT)), (2, Some (sampleSnapshot RANGING_HIGH_VOL))]
      @ [(3, Some (sampleSnapshot TRENDING_NORMAL))]) sampleTrack) = TRENDING_NORMAL"
    by (subst mixed_observations_commit [where r = "sampleSnapshot TRENDING_STRONG"])
      (simp_all add: sampleTrack_simps bars, simp_all add: sampleSnapshot_def bars)
  moreover have "isTradeable (currentRegime (observe 3 (\<lambda>_. None) ([] @ [(1, Some (sampleSnapshot TRANSITIONING))]) sampleTrack))"
    by (subst mixed_observations_commit [where r = "sampleSnapshot TRENDING_STRONG"])
      (simp_all add: sampleTrack_simps isTradeable_def sampleSnapshot_def bars)
  ultimately show ?thesis by blast
qed

end
