(* ===== verification/Portfolio_Risk.thy ===== *)
theory Portfolio_Risk
  imports Market_Regime Signal_Execution Smc_Models
begin

section \<open>Portfolio risk\<close>

text \<open>
  \<open>risk/AdaptiveRiskManager.ts\<close>, which turns a regime, the candles and the structure of a setup into
  stop, target, leverage and size of a trade, and \<open>risk/PortfolioCorrelationGuard.ts\<close>, which caps the
  margin the account may have in positions that move together. What the two are handed (equity, prices,
  candles, the statistics of a regime) are functions of a record or arguments. \<open>Math.log\<close> and
  \<open>Math.sqrt\<close> are arguments; the reason texts of the guard are left out.
\<close>

subsection \<open>Trade plans (risk/AdaptiveRiskManager.ts)\<close>

record tradePlan =
  tpl_adaptation :: regimeAdaptation
  tpl_stopLossPrice :: number
  tpl_takeProfitPrice :: number
  tpl_leverage :: number
  tpl_riskMultiplier :: number
  tpl_regimeBias :: number
  tpl_rr :: number
  tpl_netRR :: number
  tpl_roundTripCost :: number
  tpl_atr :: number
  tpl_entryPrice :: number
  tpl_direction :: direction
  tpl_structuralStopUsed :: bool
  tpl_stopReason :: "string option"

record regimeStats =
  rst_trades :: nat
  rst_winRate :: number

record structuralContext =
  sc_entryPrice :: "number option"
  sc_stopPrice :: "number option"
  sc_takeProfitPrice :: "number option"
  sc_stopReason :: "string option"

record riskManagerDeps =
  rmd_riskPerTradePct :: number
  rmd_maxLeverage :: number
  rmd_getLastPrice :: "string \<Rightarrow> number option"
  rmd_getCandles :: "string \<Rightarrow> string \<Rightarrow> nat \<Rightarrow> candle list"
  rmd_getRegimeStats :: "marketRegime \<Rightarrow> regimeStats option"
  rmd_roundTripCostBps :: "number option"
  rmd_minStopCostMultiple :: "number option"

text \<open>The structural stop counts when it is a positive price on the losing side of the entry and not closer
  than a quarter of the range; the structural target when it is on the winning side.\<close>

definition stopDistanceOf :: "direction \<Rightarrow> number \<Rightarrow> number \<Rightarrow> number \<Rightarrow> number option \<Rightarrow> number \<times> bool" where
  "stopDistanceOf dir entry atrVal atrStopDistance stopPrice = (case stopPrice of
       None \<Rightarrow> (atrStopDistance, False)
     | Some s \<Rightarrow> if s > 0 then
         (let structuralDistance = \<bar>entry - s\<bar>; wrongSide = (if dir = LONG then s \<ge> entry else s \<le> entry) in
          if \<not> wrongSide \<and> structuralDistance \<ge> atrVal * (25 / 100) then (structuralDistance, True)
          else (atrStopDistance, False))
       else (atrStopDistance, False))"

definition targetDistanceOf :: "direction \<Rightarrow> number \<Rightarrow> number \<Rightarrow> number option \<Rightarrow> number" where
  "targetDistanceOf dir entry atrTarget takeProfitPrice = (case takeProfitPrice of
       None \<Rightarrow> atrTarget
     | Some t \<Rightarrow> if t > 0 then
         (if (if dir = LONG then t > entry else t < entry) \<and> \<bar>t - entry\<bar> > 0 then \<bar>t - entry\<bar> else atrTarget)
       else atrTarget)"

definition regimeBiasOf :: "regimeStats option \<Rightarrow> number" where
  "regimeBiasOf stats = (case stats of None \<Rightarrow> 1
     | Some s \<Rightarrow> of_int (math_round (max (5 / 10) (min (15 / 10) (rst_winRate s / (5 / 10))) * 1000)) / 1000)"

definition computeTradePlan ::
  "riskManagerDeps \<Rightarrow> string \<Rightarrow> direction \<Rightarrow> regimeAdaptation \<Rightarrow> string \<Rightarrow> structuralContext option \<Rightarrow> tradePlan option" where
  "computeTradePlan deps symbol dir adaptation timeframe structural =
     (let cs = rmd_getCandles deps symbol timeframe 50 in
      if length cs < 15 then None
      else let
        lastClose = k_close (last cs);
        atrVal = (case lastEntry (atr cs 14) of None \<Rightarrow> lastClose * (1 / 100)
                  | Some a \<Rightarrow> if a > 0 then a else lastClose * (1 / 100));
        entry = coalesce (orElse (Option.bind structural sc_entryPrice) (rmd_getLastPrice deps symbol)) lastClose in
      if entry \<le> 0 then None
      else let
        (stopDistance, structuralStopUsed) =
          stopDistanceOf dir entry atrVal (atrVal * rd_stopAtrMultiplier adaptation) (Option.bind structural sc_stopPrice);
        targetDistance = targetDistanceOf dir entry (atrVal * rd_targetAtrMultiplier adaptation) (Option.bind structural sc_takeProfitPrice);
        stopLossPrice = (if dir = LONG then entry - stopDistance else entry + stopDistance);
        takeProfitPrice = (if dir = LONG then entry + targetDistance else entry - targetDistance) in
      if stopDistance \<le> 0 then None
      else let
        rr = targetDistance / stopDistance;
        roundTripCost = entry * (coalesce (rmd_roundTripCostBps deps) 8 / 10000) in
      if stopDistance < coalesce (rmd_minStopCostMultiple deps) 4 * roundTripCost then None
      else let netRR = (targetDistance - roundTripCost) / (stopDistance + roundTripCost) in
      if netRR < rd_minRR adaptation then None
      else let
        leverage = min (rd_maxLeverage adaptation) (rmd_maxLeverage deps);
        regimeBias = regimeBiasOf (rmd_getRegimeStats deps (rd_regime adaptation));
        riskMultiplier = max (1 / 10) (rd_riskMultiplier adaptation * regimeBias) in
      Some \<lparr>tpl_adaptation = adaptation, tpl_stopLossPrice = stopLossPrice, tpl_takeProfitPrice = takeProfitPrice,
        tpl_leverage = leverage, tpl_riskMultiplier = riskMultiplier, tpl_regimeBias = regimeBias, tpl_rr = rr,
        tpl_netRR = netRR, tpl_roundTripCost = roundTripCost, tpl_atr = atrVal, tpl_entryPrice = entry,
        tpl_direction = dir, tpl_structuralStopUsed = structuralStopUsed,
        tpl_stopReason = (if structuralStopUsed then Option.bind structural sc_stopReason else None)\<rparr>)"

fun regimeName :: "marketRegime \<Rightarrow> string" where
  "regimeName TRENDING_STRONG = ''TRENDING_STRONG''"
| "regimeName TRENDING_NORMAL = ''TRENDING_NORMAL''"
| "regimeName RANGING_LOW_VOL = ''RANGING_LOW_VOL''"
| "regimeName RANGING_HIGH_VOL = ''RANGING_HIGH_VOL''"
| "regimeName VOLATILE_BREAKOUT = ''VOLATILE_BREAKOUT''"
| "regimeName TRANSITIONING = ''TRANSITIONING''"

definition planToFeatures :: "riskManagerDeps \<Rightarrow> tradePlan \<Rightarrow> features" where
  "planToFeatures deps plan = (let a = tpl_adaptation plan in
     [(''leverage'', FNum (tpl_leverage plan)),
      (''sizePct'', FNum (rmd_riskPerTradePct deps * tpl_riskMultiplier plan)),
      (''riskMultiplier'', FNum (tpl_riskMultiplier plan)), (''regimeBias'', FNum (tpl_regimeBias plan)),
      (''atr'', FNum (tpl_atr plan)), (''rr'', FNum (tpl_rr plan)), (''regime'', FStr (regimeName (rd_regime a))),
      (''stopAtrMultiplier'', FNum (rd_stopAtrMultiplier a)), (''targetAtrMultiplier'', FNum (rd_targetAtrMultiplier a)),
      (''trailingActivationPct'', FNum (rd_trailingActivationPct a)),
      (''trailingDistancePct'', FNum (rd_trailingDistancePct a)), (''breakevenTriggerPct'', FNum (rd_breakevenTriggerPct a))])"

subsection \<open>Correlated exposure (risk/PortfolioCorrelationGuard.ts)\<close>

record correlationConfig =
  co_enabled :: bool
  co_correlationFloor :: number
  co_maxCorrelatedExposurePct :: number
  co_lookbackCandles :: nat
  co_timeframe :: string
  co_minCandlesForEstimate :: nat

definition DEFAULT_CORRELATION_GUARD_CONFIG :: correlationConfig where
  "DEFAULT_CORRELATION_GUARD_CONFIG = \<lparr>co_enabled = True, co_correlationFloor = 7 / 10, co_maxCorrelatedExposurePct = 25 / 100,
     co_lookbackCandles = 50, co_timeframe = ''1h'', co_minCandlesForEstimate = 30\<rparr>"

record correlatedPosition =
  cp_symbol :: string
  cp_correlation :: number
  cp_direction :: direction
  cp_exposurePct :: number

record correlationCheck =
  ck_allowed :: bool
  ck_correlatedExposurePct :: number
  ck_capPct :: number
  ck_correlatedPositions :: "correlatedPosition list"
  ck_candidateExposurePct :: number
  ck_insufficientData :: bool

record correlationCandidate =
  cc_symbol :: string
  cc_direction :: direction
  cc_notional :: number
  cc_leverage :: number

text \<open>The mathematical functions and the candle source; a source that throws counts as one without candles.\<close>

record correlationDeps =
  cd_sqrt :: "number \<Rightarrow> number"
  cd_log :: "number \<Rightarrow> number"
  cd_getCandles :: "string \<Rightarrow> string \<Rightarrow> nat \<Rightarrow> candle list option"

definition lastN :: "nat \<Rightarrow> 'a list \<Rightarrow> 'a list" where
  "lastN n xs = drop (length xs - n) xs"

definition pearson :: "(number \<Rightarrow> number) \<Rightarrow> number list \<Rightarrow> number list \<Rightarrow> number" where
  "pearson sqrt' a b = (let n = min (length a) (length b) in
     if n < 2 then 0
     else let xs = lastN n a; ys = lastN n b;
       mx = sum_list xs / of_nat n; my = sum_list ys / of_nat n;
       num = sum_list (map2 (\<lambda>x y. (x - mx) * (y - my)) xs ys);
       dx = sum_list (map (\<lambda>x. (x - mx) * (x - mx)) xs); dy = sum_list (map (\<lambda>y. (y - my) * (y - my)) ys);
       denom = sqrt' (dx * dy) in
     if denom \<le> 0 then 0 else max (-1) (min 1 (num / denom)))"

definition returnsFor :: "correlationConfig \<Rightarrow> correlationDeps \<Rightarrow> string \<Rightarrow> number list" where
  "returnsFor cfg deps symbol = (case cd_getCandles deps symbol (co_timeframe cfg) (co_lookbackCandles cfg) of
       None \<Rightarrow> []
     | Some all \<Rightarrow> let closes = map k_close (filter k_isClosed all) in
       List.map_filter (\<lambda>(prev, cur). if prev > 0 \<and> cur > 0 then Some (cd_log deps (cur / prev)) else None)
         (zip closes (drop 1 closes)))"

definition positionDirection :: "position \<Rightarrow> direction" where
  "positionDirection pos = (if p_positionSide pos = SHORT_SIDE \<or> p_qty pos < 0 then SHORT else LONG)"

definition committedMargin :: "position \<Rightarrow> number" where
  "committedMargin pos = (if p_initialMargin pos > 0 then p_initialMargin pos
     else \<bar>p_qty pos\<bar> * p_entryPrice pos / max 1 (p_leverage pos))"

text \<open>The correlation of a position with the candidate: \<open>None\<close> for one that does not enter the comparison,
  \<open>Some None\<close> for one without enough history.\<close>

definition correlationWith ::
  "correlationConfig \<Rightarrow> correlationDeps \<Rightarrow> correlationCandidate \<Rightarrow> bool \<Rightarrow> number list \<Rightarrow> position \<Rightarrow> number option option" where
  "correlationWith cfg deps cand includeSameSymbol candidateReturns pos =
     (if p_status pos \<noteq> OPEN then None
      else if p_symbol pos = cc_symbol cand then (if includeSameSymbol then Some (Some 1) else None)
      else let otherReturns = returnsFor cfg deps (p_symbol pos) in
        if length candidateReturns < co_minCandlesForEstimate cfg \<or> length otherReturns < co_minCandlesForEstimate cfg
        then Some None else Some (Some (pearson (cd_sqrt deps) candidateReturns otherReturns)))"

record clusterState =
  cl_exposure :: number
  cl_positions :: "correlatedPosition list"
  cl_insufficient :: bool

definition clusterStep ::
  "correlationConfig \<Rightarrow> correlationDeps \<Rightarrow> correlationCandidate \<Rightarrow> bool \<Rightarrow> number list \<Rightarrow> number \<Rightarrow> position \<Rightarrow> clusterState \<Rightarrow> clusterState" where
  "clusterStep cfg deps cand includeSameSymbol candidateReturns equity pos s =
     (case correlationWith cfg deps cand includeSameSymbol candidateReturns pos of
        None \<Rightarrow> s
      | Some None \<Rightarrow> s\<lparr>cl_insufficient := True\<rparr>
      | Some (Some correlation) \<Rightarrow>
          (let dir = positionDirection pos; agreement = (if dir = cc_direction cand then 1 else -1) in
           if agreement * correlation < co_correlationFloor cfg then s
           else (let exposurePct = committedMargin pos / equity in
             s\<lparr>cl_exposure := cl_exposure s + exposurePct,
               cl_positions := cl_positions s @ [\<lparr>cp_symbol = p_symbol pos, cp_correlation = correlation,
                 cp_direction = dir, cp_exposurePct = exposurePct\<rparr>]\<rparr>)))"

definition passCheck :: "correlationConfig \<Rightarrow> correlationCheck" where
  "passCheck cfg = \<lparr>ck_allowed = True, ck_correlatedExposurePct = 0, ck_capPct = co_maxCorrelatedExposurePct cfg,
     ck_correlatedPositions = [], ck_candidateExposurePct = 0, ck_insufficientData = False\<rparr>"

definition evaluateCorrelation ::
  "correlationConfig \<Rightarrow> correlationDeps \<Rightarrow> correlationCandidate \<Rightarrow> position list \<Rightarrow> number \<Rightarrow> bool \<Rightarrow> correlationCheck" where
  "evaluateCorrelation cfg deps cand openPositions equity includeSameSymbol =
     (if \<not> co_enabled cfg then passCheck cfg
      else if equity \<le> 0 \<or> cc_leverage cand \<le> 0 then passCheck cfg
      else let candidateExposurePct = cc_notional cand / cc_leverage cand / equity;
        candidateReturns = returnsFor cfg deps (cc_symbol cand);
        s = fold (clusterStep cfg deps cand includeSameSymbol candidateReturns equity) openPositions
          \<lparr>cl_exposure = candidateExposurePct, cl_positions = [], cl_insufficient = False\<rparr> in
      \<lparr>ck_allowed = (cl_exposure s \<le> co_maxCorrelatedExposurePct cfg + 1 / 10 ^ 9), ck_correlatedExposurePct = cl_exposure s,
       ck_capPct = co_maxCorrelatedExposurePct cfg, ck_correlatedPositions = cl_positions s,
       ck_candidateExposurePct = candidateExposurePct, ck_insufficientData = cl_insufficient s\<rparr>)"

end
