(* ===== verification/Exit_Manager.thy ===== *)
theory Exit_Manager
  imports Portfolio_Risk Setup_Types Strategy_Engine
begin

section \<open>Exits and scaling of the autonomous agent\<close>

text \<open>
  \<open>agent/ExitManager.ts\<close> and the state of \<open>agent/types.ts\<close> it reads: for every open position the manager
  holds, closes, or closes a part once, and it adds to winners within a budget. Signals go to the strategy
  engine, an operation on a world \<open>'w\<close>; one that throws is caught. Logs, metrics and broadcasts are left
  out, as are the reasoning texts. A position is keyed by its symbol and opening time, or its entry price.
\<close>

subsection \<open>State\<close>

datatype agentState = MONITORING | SEEKING_ENTRY | IN_POSITION | STAND_ASIDE_ST

text \<open>A setup with what the intelligence layer adds to it: the hierarchical score, the verdict of the
  qualification and the zones of its plan.\<close>

record agentSetup = setupCandidate +
  ag_hierarchicalScore :: "number option"
  ag_rejected :: bool
  ag_stopZone :: "(number \<times> string) option"
  ag_entryZone :: "priceZone option"
  ag_targetZones :: "number list"

record symbolState =
  sy_symbol :: string
  sy_state :: agentState
  sy_track :: regimeTrack
  sy_lastEntryAttemptAt :: ms
  sy_trackingSetup :: "agentSetup option"
  sy_trackingPlan :: "tradePlan option"

datatype agentExitReason = REGIME_FLIP | UNREALIZED_LOSS_BREACH | SETUP_INVALIDATED | TRAILING_STOP_RECOMMENDED | DOWNSIDE_DERISK

datatype exitAction = EXIT_NOW | HOLD_POSITION | SCALE_OUT

record exitDecision =
  xc_symbol :: string
  xc_action :: exitAction
  xc_reason :: "agentExitReason option"
  xc_confidence :: number

record scalingConfig =
  sk_enabled :: bool
  sk_scaleInMinProfitPct :: number
  sk_scaleInSizeFraction :: number
  sk_scaleInMaxAdds :: nat
  sk_scaleInCooldownMs :: ms
  sk_scaleOutTriggerPct :: number
  sk_scaleOutCloseFraction :: number

record exitConfig =
  em_exitOnRegimeFlip :: bool
  em_maxUnrealizedLossPct :: number
  em_strategyId :: string
  em_scaling :: "scalingConfig option"

record exitState =
  xs_scaleInTracker :: "(string, nat \<times> ms) jsmap"
  xs_scaledOutPositions :: "string list"

text \<open>What the agent's parts are given; prices, candles and detection are read from the world.\<close>

record 'w agentWorld =
  aw_submitSignal :: "signalInput \<Rightarrow> ms \<Rightarrow> 'w \<Rightarrow> (string + signal option) \<times> 'w"
  aw_getPositions :: "'w \<Rightarrow> position list"
  aw_getEquity :: "'w \<Rightarrow> number"
  aw_getLastPrice :: "string \<Rightarrow> 'w \<Rightarrow> number option"
  aw_detect :: "string \<Rightarrow> mtfState option \<Rightarrow> ms \<Rightarrow> 'w \<Rightarrow> regimeSnapshot option"
  aw_forgetTrailingStop :: "string \<Rightarrow> 'w \<Rightarrow> 'w"
  aw_isoDate :: "ms \<Rightarrow> string"
  aw_showNumber :: "number \<Rightarrow> string"

definition positionKey :: "'w agentWorld \<Rightarrow> position \<Rightarrow> string" where
  "positionKey aw pos = p_symbol pos @ ''@'' @ (case p_openedAtUtc pos of Some t \<Rightarrow> aw_isoDate aw t
     | None \<Rightarrow> ''entry-'' @ aw_showNumber aw (p_entryPrice pos))"

subsection \<open>Decisions\<close>

definition computeUnrealizedPct :: "position \<Rightarrow> number \<Rightarrow> number \<Rightarrow> number" where
  "computeUnrealizedPct pos lst equity = (if equity \<le> 0 then 0
     else (if p_qty pos > 0 then lst - p_entryPrice pos else p_entryPrice pos - lst) * \<bar>p_qty pos\<bar> / equity)"

definition holdPosition :: "string \<Rightarrow> exitDecision" where
  "holdPosition symbol = \<lparr>xc_symbol = symbol, xc_action = HOLD_POSITION, xc_reason = None, xc_confidence = 0\<rparr>"

definition exitNow :: "string \<Rightarrow> agentExitReason \<Rightarrow> number \<Rightarrow> exitDecision" where
  "exitNow symbol reason confidence = \<lparr>xc_symbol = symbol, xc_action = EXIT_NOW, xc_reason = Some reason, xc_confidence = confidence\<rparr>"

text \<open>\<open>last\<close> of the source is missing when it is \<open>undefined\<close> or 0.\<close>

definition lossBreached :: "exitConfig \<Rightarrow> position \<Rightarrow> number \<Rightarrow> number \<Rightarrow> bool" where
  "lossBreached cfg pos lst equity \<longleftrightarrow> em_maxUnrealizedLossPct cfg > 0 \<and> equity > 0
     \<and> computeUnrealizedPct pos lst equity \<le> - em_maxUnrealizedLossPct cfg"

text \<open>The regime the source calls the entry regime is the one committed for the symbol now.\<close>

definition regimeFlipped :: "marketRegime \<Rightarrow> regimeSnapshot option \<Rightarrow> position \<Rightarrow> bool" where
  "regimeFlipped entryRegime current pos = (let
      currentRegime = (case current of None \<Rightarrow> entryRegime | Some r \<Rightarrow> rg_regime r);
      riskMultDrop = rd_riskMultiplier (getAdaptation entryRegime) - rd_riskMultiplier (getAdaptation currentRegime);
      directionLong = p_qty pos > 0;
      enteredTrend = (entryRegime = TRENDING_STRONG \<or> entryRegime = TRENDING_NORMAL);
      nowChoppy = (currentRegime = RANGING_HIGH_VOL \<or> currentRegime = TRANSITIONING);
      nowTrend = (currentRegime = TRENDING_STRONG \<or> currentRegime = TRENDING_NORMAL);
      currentHtfTrend = Option.bind current rg_htfTrend;
      directionMismatch = (directionLong \<and> currentRegime = RANGING_HIGH_VOL
        \<or> directionLong \<and> nowTrend \<and> currentHtfTrend = Some BEARISH
        \<or> \<not> directionLong \<and> nowTrend \<and> currentHtfTrend = Some BULLISH) in
     riskMultDrop \<ge> 3 / 10 \<or> enteredTrend \<and> nowChoppy \<or> directionMismatch)"

definition setupDead :: "symbolState option \<Rightarrow> bool" where
  "setupDead symState \<longleftrightarrow> (case Option.bind symState sy_trackingSetup of None \<Rightarrow> False
     | Some s \<Rightarrow> su_state s = INVALIDATED \<or> su_state s = EXPIRED_ST)"

definition deriskDue :: "exitConfig \<Rightarrow> exitState \<Rightarrow> string \<Rightarrow> position \<Rightarrow> number \<Rightarrow> number \<Rightarrow> bool" where
  "deriskDue cfg xs posKey pos lst equity \<longleftrightarrow> (case em_scaling cfg of None \<Rightarrow> False
     | Some scaling \<Rightarrow> sk_enabled scaling \<and> sk_scaleOutTriggerPct scaling > 0 \<and> equity > 0
        \<and> computeUnrealizedPct pos lst equity \<le> - sk_scaleOutTriggerPct scaling \<and> posKey \<notin> set (xs_scaledOutPositions xs))"

definition evaluateOne ::
  "exitConfig \<Rightarrow> 'w agentWorld \<Rightarrow> exitState \<Rightarrow> position \<Rightarrow> (string, symbolState) jsmap \<Rightarrow> number \<Rightarrow> ms \<Rightarrow> 'w \<Rightarrow> exitDecision" where
  "evaluateOne cfg aw xs pos perSymbol equity now w =
     (let symbol = p_symbol pos; symState = mget perSymbol symbol in
      case aw_getLastPrice aw symbol w of
        None \<Rightarrow> holdPosition symbol
      | Some lst \<Rightarrow>
          if lst = 0 then holdPosition symbol
          else if lossBreached cfg pos lst equity then exitNow symbol UNREALIZED_LOSS_BREACH (95 / 100)
          else if (case symState of None \<Rightarrow> False | Some s \<Rightarrow> em_exitOnRegimeFlip cfg
              \<and> regimeFlipped (currentRegime (sy_track s)) (aw_detect aw symbol None now w) pos)
          then exitNow symbol REGIME_FLIP (9 / 10)
          else if setupDead symState then exitNow symbol SETUP_INVALIDATED (9 / 10)
          else if deriskDue cfg xs (positionKey aw pos) pos lst equity
          then \<lparr>xc_symbol = symbol, xc_action = SCALE_OUT, xc_reason = Some DOWNSIDE_DERISK, xc_confidence = 7 / 10\<rparr>
          else holdPosition symbol)"

subsection \<open>Closing\<close>

definition acceptedSubmission :: "string + signal option \<Rightarrow> bool" where
  "acceptedSubmission r \<longleftrightarrow> (case r of Inr (Some sig) \<Rightarrow> sg_status sig = EXECUTED_SG \<or> sg_status sig = ACCEPTED_SG | _ \<Rightarrow> False)"

definition closeSignal :: "exitConfig \<Rightarrow> position \<Rightarrow> number \<Rightarrow> features \<Rightarrow> signalInput" where
  "closeSignal cfg pos confidence feats =
     \<lparr>si_strategyId = em_strategyId cfg, si_symbol = p_symbol pos, si_action = (if p_qty pos > 0 then CLOSE_LONG else CLOSE_SHORT),
      si_confidence = confidence, si_stopLossPrice = None, si_takeProfitPrice = None, si_ttlMs = 30000, si_features = feats,
      si_reasoning = None\<rparr>"

definition submitClose :: "exitConfig \<Rightarrow> 'w agentWorld \<Rightarrow> position \<Rightarrow> exitDecision \<Rightarrow> ms \<Rightarrow> 'w \<Rightarrow> bool \<times> 'w" where
  "submitClose cfg aw pos decision now w =
     (let (r, w1) = aw_submitSignal aw (closeSignal cfg pos (xc_confidence decision) [(''cooldownMs'', FNum 0)]) now w in
      (acceptedSubmission r, w1))"

definition scaleOutSignal :: "exitConfig \<Rightarrow> scalingConfig \<Rightarrow> position \<Rightarrow> number \<Rightarrow> string \<Rightarrow> signalInput" where
  "scaleOutSignal cfg scaling pos confidence posKey = closeSignal cfg pos confidence
     [(''cooldownMs'', FNum 0), (''closeFraction'', FNum (sk_scaleOutCloseFraction scaling)),
      (''dedupKey'', FStr (''scale-out:'' @ posKey)), (''scaleOut'', FBool True)]"

definition submitScaleOut ::
  "exitConfig \<Rightarrow> 'w agentWorld \<Rightarrow> position \<Rightarrow> exitDecision \<Rightarrow> ms \<Rightarrow> exitState \<Rightarrow> 'w \<Rightarrow> exitState \<times> 'w" where
  "submitScaleOut cfg aw pos decision now xs w = (case em_scaling cfg of None \<Rightarrow> (xs, w)
     | Some scaling \<Rightarrow>
        (let posKey = positionKey aw pos;
             (r, w1) = aw_submitSignal aw (scaleOutSignal cfg scaling pos (xc_confidence decision) posKey) now w in
         (if acceptedSubmission r \<and> posKey \<notin> set (xs_scaledOutPositions xs)
          then xs\<lparr>xs_scaledOutPositions := xs_scaledOutPositions xs @ [posKey]\<rparr> else xs, w1)))"

definition isLive :: "position \<Rightarrow> bool" where
  "isLive pos \<longleftrightarrow> p_status pos = OPEN \<and> p_qty pos \<noteq> 0"

definition exitStep ::
  "exitConfig \<Rightarrow> 'w agentWorld \<Rightarrow> (string, symbolState) jsmap \<Rightarrow> number \<Rightarrow> ms \<Rightarrow> position \<Rightarrow> exitState \<times> 'w \<Rightarrow> exitState \<times> 'w" where
  "exitStep cfg aw perSymbol equity now pos = (\<lambda>(xs, w).
     if \<not> isLive pos then (xs, w)
     else let decision = evaluateOne cfg aw xs pos perSymbol equity now w in
       case xc_action decision of
         EXIT_NOW \<Rightarrow> (let (ok, w1) = submitClose cfg aw pos decision now w in
           (xs, if ok then aw_forgetTrailingStop aw (p_symbol pos) w1 else w1))
       | SCALE_OUT \<Rightarrow> submitScaleOut cfg aw pos decision now xs w
       | HOLD_POSITION \<Rightarrow> (xs, w))"

text \<open>The positions and the account are read once; the state of positions that are gone is dropped.\<close>

definition forgetGone :: "string list \<Rightarrow> exitState \<Rightarrow> exitState" where
  "forgetGone live xs = xs\<lparr>xs_scaleInTracker := filter (\<lambda>(k, v). k \<in> set live) (xs_scaleInTracker xs),
     xs_scaledOutPositions := filter (\<lambda>k. k \<in> set live) (xs_scaledOutPositions xs)\<rparr>"

definition evaluateExits :: "exitConfig \<Rightarrow> 'w agentWorld \<Rightarrow> (string, symbolState) jsmap \<Rightarrow> ms \<Rightarrow> exitState \<Rightarrow> 'w \<Rightarrow> exitState \<times> 'w" where
  "evaluateExits cfg aw perSymbol now xs w =
     (let positions = aw_getPositions aw w;
          (xs1, w1) = fold (exitStep cfg aw perSymbol (aw_getEquity aw w) now) positions (xs, w) in
      (forgetGone (map (positionKey aw) (filter isLive positions)) xs1, w1))"

subsection \<open>Adding to a winner\<close>

datatype scaleInReason =
    NoPriceOrAccount | BreakerTripped | NotProfitable | NoAlignedSetup | PlanRejected | BudgetExhausted | AddCooldown
  | ZeroAdd | CorrelationCap | AddSubmitted | AddRejected | SubmissionThrew

record scaleInDecision =
  sd_submitted :: bool
  sd_reason :: scaleInReason
  sd_addQty :: number
  sd_addsTaken :: nat

definition noAdd :: "scaleInReason \<Rightarrow> nat \<Rightarrow> scaleInDecision" where
  "noAdd reason adds = \<lparr>sd_submitted = False, sd_reason = reason, sd_addQty = 0, sd_addsTaken = adds\<rparr>"

definition bestAligned :: "agentSetup list \<Rightarrow> bool \<Rightarrow> agentSetup option" where
  "bestAligned setups long = (case sort_key (\<lambda>s. - cb_totalScore (su_confluence s))
       (filter (\<lambda>s. su_status s = READY_SS \<and> su_direction s = (if long then LONG_D else SHORT_D)) setups) of
       [] \<Rightarrow> None | s # _ \<Rightarrow> Some s)"

definition addSignal :: "exitConfig \<Rightarrow> scalingConfig \<Rightarrow> position \<Rightarrow> tradePlan \<Rightarrow> agentSetup \<Rightarrow> number \<Rightarrow> string \<Rightarrow> nat \<Rightarrow> number \<Rightarrow> signalInput" where
  "addSignal cfg scaling pos plan best addQty posKey addNumber runtimeRiskMultiplier =
     \<lparr>si_strategyId = em_strategyId cfg, si_symbol = p_symbol pos, si_action = (if p_qty pos > 0 then OPEN_LONG else OPEN_SHORT),
      si_confidence = max (55 / 100) (min (95 / 100) (1 / 2 + cb_totalScore (su_confluence best) / 200)),
      si_stopLossPrice = Some (showFixed 8 (tpl_stopLossPrice plan)), si_takeProfitPrice = Some (showFixed 8 (tpl_takeProfitPrice plan)),
      si_ttlMs = 30000,
      si_features = [(''quantity'', FNum addQty), (''leverage'', FNum (tpl_leverage plan)), (''cooldownMs'', FNum 0),
        (''pyramid'', FBool True), (''scaleIn'', FBool True),
        (''dedupKey'', FStr (''scale-in:'' @ posKey @ '':'' @ showNat addNumber)),
        (''runtimeRiskMultiplier'', FNum runtimeRiskMultiplier), (''regimeBias'', FNum (tpl_regimeBias plan))],
      si_reasoning = None\<rparr>"

definition submitAdd ::
  "exitConfig \<Rightarrow> scalingConfig \<Rightarrow> 'w agentWorld \<Rightarrow> position \<Rightarrow> tradePlan \<Rightarrow> agentSetup \<Rightarrow> number \<Rightarrow> nat \<Rightarrow> number \<Rightarrow> ms
    \<Rightarrow> exitState \<Rightarrow> 'w \<Rightarrow> scaleInDecision \<times> exitState \<times> 'w" where
  "submitAdd cfg scaling aw pos plan best addQty adds runtimeRiskMultiplier now xs w =
     (let posKey = positionKey aw pos;
          (r, w1) = aw_submitSignal aw (addSignal cfg scaling pos plan best addQty posKey (adds + 1) runtimeRiskMultiplier) now w in
      case r of
        Inl msg \<Rightarrow> (noAdd SubmissionThrew adds, xs, w1)
      | Inr _ \<Rightarrow>
          (let accepted = acceptedSubmission r; xs1 = xs\<lparr>xs_scaleInTracker :=
             mset posKey (if accepted then adds + 1 else adds, now) (xs_scaleInTracker xs)\<rparr> in
           (\<lparr>sd_submitted = accepted, sd_reason = (if accepted then AddSubmitted else AddRejected),
             sd_addQty = (if accepted then addQty else 0), sd_addsTaken = (if accepted then adds + 1 else adds)\<rparr>, xs1, w1)))"

text \<open>The gates of \<open>evaluateScaleIn\<close> in their order; \<open>None\<close> when scaling is off.\<close>

definition evaluateScaleIn ::
  "exitConfig \<Rightarrow> 'w agentWorld \<Rightarrow> position \<Rightarrow> agentSetup list \<Rightarrow> tradePlan option \<Rightarrow> bool \<Rightarrow> number \<Rightarrow> number
    \<Rightarrow> (number \<Rightarrow> number \<Rightarrow> bool) option \<Rightarrow> ms \<Rightarrow> exitState \<Rightarrow> 'w \<Rightarrow> scaleInDecision option \<times> exitState \<times> 'w" where
  "evaluateScaleIn cfg aw pos setups plan allowNewEntries minConfluence runtimeRiskMultiplier correlationAllows now xs w =
     (case em_scaling cfg of
        None \<Rightarrow> (None, xs, w)
      | Some scaling \<Rightarrow>
          if \<not> sk_enabled scaling then (None, xs, w)
          else (let (adds, lastAt) = coalesce (mget (xs_scaleInTracker xs) (positionKey aw pos)) (0, 0);
              lst = coalesce (aw_getLastPrice aw (p_symbol pos) w) 0; equity = aw_getEquity aw w;
              hold = (\<lambda>reason. (Some (noAdd reason adds), xs, w)) in
            if lst = 0 \<or> equity \<le> 0 then hold NoPriceOrAccount
            else if \<not> allowNewEntries then hold BreakerTripped
            else if computeUnrealizedPct pos lst equity < sk_scaleInMinProfitPct scaling then hold NotProfitable
            else case bestAligned setups (p_qty pos > 0) of
              None \<Rightarrow> hold NoAlignedSetup
            | Some best \<Rightarrow>
                if cb_totalScore (su_confluence best) < minConfluence then hold NoAlignedSetup
                else (case plan of
                  None \<Rightarrow> hold PlanRejected
                | Some pl \<Rightarrow>
                    if adds \<ge> sk_scaleInMaxAdds scaling then hold BudgetExhausted
                    else if lastAt > 0 \<and> now - lastAt < sk_scaleInCooldownMs scaling then hold AddCooldown
                    else let addQty = \<bar>p_qty pos\<bar> * sk_scaleInSizeFraction scaling in
                    if addQty \<le> 0 then hold ZeroAdd
                    else if (case correlationAllows of None \<Rightarrow> False | Some allows \<Rightarrow> \<not> allows (addQty * lst) (tpl_leverage pl))
                    then hold CorrelationCap
                    else (case submitAdd cfg scaling aw pos pl best addQty adds runtimeRiskMultiplier now xs w of
                        (decision, xs1, w1) \<Rightarrow> (Some decision, xs1, w1)))))"

end
