(* ===== verification/Autonomous_Agent.thy ===== *)
theory Autonomous_Agent
  imports Exit_Manager Setup_Lifecycle
begin

section \<open>The autonomous agent\<close>

text \<open>
  \<open>agent/AutonomousTradingAgent.ts\<close>: one cycle of the agent, which takes the learned size multiplier and the
  verdict of the circuit breaker, lets the exit manager act, and then screens every symbol through its gates
  until at most one entry signal is built and submitted. What it delegates is a function of the world: the
  setups and the thesis of the intelligence layer, the regime detector, the risk manager's inputs, the
  correlation guard's, the language-model answers and the strategy engine. Events, broadcasts, metrics,
  the summary's counters and the reason texts are left out. A submission that throws ends the cycle, as the
  guard around it logs.
\<close>

subsection \<open>Configuration and state\<close>

record agentConfig =
  ac_symbols :: "string list"
  ac_cycleMs :: ms
  ac_minConfluence :: number
  ac_minRR :: number
  ac_maxOpenPositions :: nat
  ac_cooldownMs :: ms
  ac_strategyId :: string
  ac_minConfidence :: number
  ac_regimeConfirmationBars :: int
  ac_regimeConfirmationBarsByRegime :: "marketRegime \<Rightarrow> number option"
  ac_llmVetoEnabled :: bool
  ac_htfAlignmentWeighted :: bool
  ac_htfRangeWeight :: number
  ac_htfCounterTrendWeight :: number
  ac_exits :: exitConfig

text \<open>The answer of the debate: degraded, an exception, or the trader's action (\<open>None\<close> for neutral) with its
  confidence.\<close>

datatype consultation = Degraded | ConsultationThrew | Verdict "direction option" number

record 'w agentDeps =
  ad_world :: "'w agentWorld"
  ad_mtf :: "string \<Rightarrow> ms \<Rightarrow> 'w \<Rightarrow> mtfState"
  ad_thesis :: "string \<Rightarrow> ms \<Rightarrow> 'w \<Rightarrow> thesisType option"
  ad_setups :: "string \<Rightarrow> ms \<Rightarrow> 'w \<Rightarrow> agentSetup list"
  ad_discovered :: "string \<Rightarrow> ms \<Rightarrow> 'w \<Rightarrow> agentSetup list"
  ad_risk :: "'w \<Rightarrow> riskManagerDeps"
  ad_correlation :: "('w \<Rightarrow> correlationConfig \<times> correlationDeps) option"
  ad_consult :: "(agentSetup \<Rightarrow> tradePlan \<Rightarrow> direction \<Rightarrow> 'w \<Rightarrow> consultation) option"
  ad_modelConfidence :: "agentSetup \<Rightarrow> tradePlan \<Rightarrow> direction \<Rightarrow> number \<Rightarrow> 'w \<Rightarrow> number option"
  ad_getSymbolLock :: "string \<Rightarrow> ms \<Rightarrow> 'w \<Rightarrow> symbolLock option \<times> 'w"

datatype agentAction = ENTRY_SUBMITTED | SCALE_IN_SUBMITTED | REJECTED_BY_AGENT | STAND_ASIDE | MONITOR | IN_POSITION_ACTION

datatype agentReason =
    AlreadyInPosition "scaleInReason option" | BreakerOpen | RegimeTransitioning | CooldownActive | PortfolioFull | NoReadySetup
  | ThesisAgainst thesisType | AlignmentTooWeak number | LockedByStrategy string | NotActionable | PlanBelowCost
  | ExposureCapped | ModelVeto | ConfidenceTooLow number | SubmittedEntry string | RefusedEntry "string option"

record agentDecision =
  dn_symbol :: string
  dn_state :: agentState
  dn_action :: agentAction
  dn_reason :: agentReason

record agent =
  at_perSymbol :: "(string, symbolState) jsmap"
  at_exits :: exitState
  at_runtimeRiskMultiplier :: number
  at_lossStreakDampener :: number
  at_decisions :: "agentDecision list"

definition newSymbolState :: "string \<Rightarrow> symbolState" where
  "newSymbolState symbol = \<lparr>sy_symbol = symbol, sy_state = MONITORING, sy_track = newTrack, sy_lastEntryAttemptAt = 0,
     sy_trackingSetup = None, sy_trackingPlan = None\<rparr>"

definition newAgent :: "agentConfig \<Rightarrow> agent" where
  "newAgent cfg = \<lparr>at_perSymbol = fold (\<lambda>s. mset s (newSymbolState s)) (ac_symbols cfg) [],
     at_exits = \<lparr>xs_scaleInTracker = [], xs_scaledOutPositions = []\<rparr>, at_runtimeRiskMultiplier = 1,
     at_lossStreakDampener = 1, at_decisions = []\<rparr>"

definition decide :: "string \<Rightarrow> agentState \<Rightarrow> agentAction \<Rightarrow> agentReason \<Rightarrow> agent \<Rightarrow> agent" where
  "decide symbol state action reason a = a\<lparr>
     at_perSymbol := mupd symbol (\<lambda>s. s\<lparr>sy_state := state\<rparr>) (at_perSymbol a),
     at_decisions := at_decisions a @ [\<lparr>dn_symbol = symbol, dn_state = state, dn_action = action, dn_reason = reason\<rparr>]\<rparr>"

subsection \<open>Sizing and alignment\<close>

text \<open>The fraction of equity at risk and the quantity: \<open>equity * sizePct / stopDistance\<close>.\<close>

definition positionSizing :: "riskManagerDeps \<Rightarrow> tradePlan \<Rightarrow> agent \<Rightarrow> number \<Rightarrow> number \<times> number" where
  "positionSizing rd plan a equity = (let
      baseSizePct = coalesce (Option.bind (mget (planToFeatures rd plan) ''sizePct'') featureNumber) 0;
      sizePct = baseSizePct * at_runtimeRiskMultiplier a * at_lossStreakDampener a;
      stopDistance = \<bar>tpl_entryPrice plan - tpl_stopLossPrice plan\<bar> in
     (sizePct, if stopDistance > 0 then equity * sizePct / stopDistance else 0))"

definition alignmentWeightFor :: "agentConfig \<Rightarrow> setupDirection \<Rightarrow> marketTrend \<Rightarrow> bool \<Rightarrow> number" where
  "alignmentWeightFor cfg dir htfTrend isReversal =
     (if \<not> ac_htfAlignmentWeighted cfg then
        (if dir = LONG_D \<and> htfTrend = BULLISH \<or> dir = SHORT_D \<and> htfTrend = BEARISH
           \<or> isReversal \<and> (htfTrend = RANGE \<or> htfTrend = UNKNOWN) then 1 else 0)
      else if htfTrend = (if dir = LONG_D then BULLISH else BEARISH) then 1
      else if htfTrend = (if dir = LONG_D then BEARISH else BULLISH) then
        (if isReversal then ac_htfRangeWeight cfg else ac_htfCounterTrendWeight cfg)
      else ac_htfRangeWeight cfg)"

definition isReversalSetup :: "setupArchetype \<Rightarrow> bool" where
  "isReversalSetup t \<longleftrightarrow> t = SSL_SWEEP_REVERSAL_LONG \<or> t = BSL_SWEEP_REVERSAL_SHORT"

definition scoreOf :: "agentSetup \<Rightarrow> number" where
  "scoreOf s = coalesce (ag_hierarchicalScore s) (cb_totalScore (su_confluence s))"

definition bestReady :: "agentSetup list \<Rightarrow> agentSetup option" where
  "bestReady setups = (case sort_key (\<lambda>s. - scoreOf s) (filter (\<lambda>s. su_status s = READY_SS \<and> \<not> ag_rejected s) setups) of
       [] \<Rightarrow> None | s # _ \<Rightarrow> Some s)"

definition structuralRiskOf :: "agentSetup \<Rightarrow> structuralContext option" where
  "structuralRiskOf s = (case ag_stopZone s of None \<Rightarrow> None
     | Some (price, reason) \<Rightarrow> Some \<lparr>sc_entryPrice = map_option (\<lambda>z. (z_upper z + z_lower z) / 2) (ag_entryZone s),
         sc_stopPrice = Some price,
         sc_takeProfitPrice = (if ag_targetZones s = [] then None else Some (last (ag_targetZones s))),
         sc_stopReason = Some reason\<rparr>)"

subsection \<open>Confidence\<close>

definition deterministicConfidence :: "number \<Rightarrow> tradePlan \<Rightarrow> number" where
  "deterministicConfidence effectiveConfluence plan =
     max 0 (min 1 (min 1 (effectiveConfluence / 100) + min (1 / 10) (max 0 ((tpl_rr plan - 15 / 10) / 10))))"

text \<open>\<open>None\<close> is a veto.\<close>

definition probeEntryConfidence ::
  "agentConfig \<Rightarrow> 'w agentDeps \<Rightarrow> agentSetup \<Rightarrow> tradePlan \<Rightarrow> direction \<Rightarrow> number \<Rightarrow> 'w \<Rightarrow> number option" where
  "probeEntryConfidence cfg ad setup plan dir effectiveConfluence w =
     (let deterministic = deterministicConfidence effectiveConfluence plan in
      case (if ac_llmVetoEnabled cfg then ad_consult ad else None) of
        Some consult \<Rightarrow> (case consult setup plan dir w of
            Degraded \<Rightarrow> Some deterministic
          | ConsultationThrew \<Rightarrow> Some deterministic
          | Verdict action confidence \<Rightarrow> if action \<noteq> Some dir then None
              else Some (6 / 10 * max 0 (min 1 confidence) + 4 / 10 * deterministic))
      | None \<Rightarrow> (case ad_modelConfidence ad setup plan dir effectiveConfluence w of
            Some c \<Rightarrow> if 0 \<le> c \<and> c \<le> 1 then Some (6 / 10 * c + 4 / 10 * deterministic) else Some deterministic
          | None \<Rightarrow> Some deterministic))"

subsection \<open>The gates of an entry\<close>

definition directionOf :: "setupDirection \<Rightarrow> direction option" where
  "directionOf d = (case d of LONG_D \<Rightarrow> Some LONG | SHORT_D \<Rightarrow> Some SHORT | AVOID_D \<Rightarrow> None)"

text \<open>Steps 10 to 12: the breaker, the regime, the cooldown and the number of positions.\<close>

definition screenMarket :: "agentConfig \<Rightarrow> bool \<Rightarrow> position list \<Rightarrow> symbolState \<Rightarrow> ms \<Rightarrow> (agentState \<times> agentAction \<times> agentReason) option" where
  "screenMarket cfg breakerTripped openPositions s now =
     (if breakerTripped then Some (STAND_ASIDE_ST, STAND_ASIDE, BreakerOpen)
      else if \<not> isTradeable (currentRegime (sy_track s)) then Some (STAND_ASIDE_ST, STAND_ASIDE, RegimeTransitioning)
      else if now - sy_lastEntryAttemptAt s < ac_cooldownMs cfg then Some (MONITORING, MONITOR, CooldownActive)
      else if ac_maxOpenPositions cfg \<le> length openPositions then Some (MONITORING, MONITOR, PortfolioFull)
      else None)"

text \<open>Steps 13 to 15: the best ready setup, the thesis and the weighted alignment with the 4h trend.\<close>

definition effectiveScore :: "agentConfig \<Rightarrow> agentSetup \<Rightarrow> number" where
  "effectiveScore cfg best = of_int (math_round (scoreOf best *
     alignmentWeightFor cfg (su_direction best) (tf_regime4h (su_timeframes best)) (isReversalSetup (su_setupType best))))"

definition screenSetup ::
  "agentConfig \<Rightarrow> agentSetup list \<Rightarrow> thesisType option \<Rightarrow> (agentState \<times> agentAction \<times> agentReason) + agentSetup" where
  "screenSetup cfg setups thesis = (case bestReady setups of
       None \<Rightarrow> Inl (MONITORING, MONITOR, NoReadySetup)
     | Some best \<Rightarrow>
         if thesis \<noteq> None \<and> the thesis \<notin> {BULLISH_CONTINUATION, BULLISH_REVERSAL, BEARISH_CONTINUATION, BEARISH_REVERSAL}
         then Inl (MONITORING, MONITOR, ThesisAgainst (the thesis))
         else if effectiveScore cfg best < ac_minConfluence cfg then Inl (MONITORING, MONITOR, AlignmentTooWeak (effectiveScore cfg best))
         else Inr best)"

definition correlationAdmits :: "'w agentDeps \<Rightarrow> correlationCandidate \<Rightarrow> position list \<Rightarrow> number \<Rightarrow> bool \<Rightarrow> 'w \<Rightarrow> bool" where
  "correlationAdmits ad cand heldPositions equity includeSameSymbol w = (case ad_correlation ad of None \<Rightarrow> True
     | Some f \<Rightarrow> ck_allowed (evaluateCorrelation (fst (f w)) (snd (f w)) cand heldPositions equity includeSameSymbol))"

text \<open>Steps 17 and 17.5, after the lock: the plan and the correlated exposure.\<close>

definition screenPlan ::
  "'w agentDeps \<Rightarrow> agent \<Rightarrow> string \<Rightarrow> agentSetup \<Rightarrow> regimeAdaptation \<Rightarrow> number \<Rightarrow> position list \<Rightarrow> 'w
    \<Rightarrow> (agentState \<times> agentAction \<times> agentReason) + direction \<times> tradePlan" where
  "screenPlan ad a symbol best adaptation equity openPositions w = (case directionOf (su_direction best) of
       None \<Rightarrow> Inl (MONITORING, REJECTED_BY_AGENT, NotActionable)
     | Some dir \<Rightarrow> (case computeTradePlan (ad_risk ad w) symbol dir adaptation ''1h'' (structuralRiskOf best) of
         None \<Rightarrow> Inl (MONITORING, REJECTED_BY_AGENT, PlanBelowCost)
       | Some plan \<Rightarrow>
           if \<not> correlationAdmits ad \<lparr>cc_symbol = symbol, cc_direction = dir,
               cc_notional = snd (positionSizing (ad_risk ad w) plan a equity) * tpl_entryPrice plan,
               cc_leverage = tpl_leverage plan\<rparr> openPositions equity False w
           then Inl (MONITORING, REJECTED_BY_AGENT, ExposureCapped)
           else Inr (dir, plan)))"

subsection \<open>Submission\<close>

definition entrySignal :: "agentConfig \<Rightarrow> riskManagerDeps \<Rightarrow> agent \<Rightarrow> string \<Rightarrow> direction \<Rightarrow> tradePlan \<Rightarrow> agentSetup \<Rightarrow> number \<Rightarrow> number \<Rightarrow> signalInput" where
  "entrySignal cfg rd a symbol dir plan best confidence equity = (let (sizePct, quantity) = positionSizing rd plan a equity in
     \<lparr>si_strategyId = ac_strategyId cfg, si_symbol = symbol, si_action = (if dir = LONG then OPEN_LONG else OPEN_SHORT),
      si_confidence = confidence, si_stopLossPrice = Some (showFixed 8 (tpl_stopLossPrice plan)),
      si_takeProfitPrice = Some (showFixed 8 (tpl_takeProfitPrice plan)), si_ttlMs = of_int (ac_cycleMs cfg * 2),
      si_features = fold (\<lambda>(k, v). mset k v)
        [(''sizePct'', FNum sizePct), (''runtimeRiskMultiplier'', FNum (at_runtimeRiskMultiplier a)),
         (''quantity'', FNum quantity), (''cooldownMs'', FNum (of_int (ac_cooldownMs cfg))),
         (''alignmentWeight'', FNum (alignmentWeightFor cfg (su_direction best) (tf_regime4h (su_timeframes best)) (isReversalSetup (su_setupType best)))),
         (''effectiveConfluence'', FNum (effectiveScore cfg best))] (planToFeatures rd plan),
      si_reasoning = None\<rparr>)"

type_synonym 'w cycleState = "agent \<times> 'w"

text \<open>Steps 18 and 19.\<close>

definition submitEntry ::
  "agentConfig \<Rightarrow> 'w agentDeps \<Rightarrow> string \<Rightarrow> agentSetup \<Rightarrow> direction \<Rightarrow> tradePlan \<Rightarrow> number \<Rightarrow> ms \<Rightarrow> agent \<Rightarrow> 'w
    \<Rightarrow> ('w cycleState, 'w cycleState) outcome" where
  "submitEntry cfg ad symbol best dir plan equity now a w =
     (case probeEntryConfidence cfg ad best plan dir (effectiveScore cfg best) w of
        None \<Rightarrow> Inr (decide symbol MONITORING REJECTED_BY_AGENT ModelVeto a, w)
      | Some confidence \<Rightarrow>
          if confidence < ac_minConfidence cfg then Inr (decide symbol MONITORING REJECTED_BY_AGENT (ConfidenceTooLow confidence) a, w)
          else (let a1 = a\<lparr>at_perSymbol := mupd symbol (\<lambda>s. s\<lparr>sy_trackingSetup := Some best, sy_trackingPlan := Some plan,
                  sy_state := SEEKING_ENTRY, sy_lastEntryAttemptAt := now\<rparr>) (at_perSymbol a)\<rparr> in
            case aw_submitSignal (ad_world ad) (entrySignal cfg (ad_risk ad w) a symbol dir plan best confidence equity) now w of
              (Inl msg, w1) \<Rightarrow> Inl (msg, (a1, w1))
            | (Inr None, w1) \<Rightarrow> Inr (decide symbol SEEKING_ENTRY REJECTED_BY_AGENT (RefusedEntry None) a1, w1)
            | (Inr (Some sig), w1) \<Rightarrow>
                Inr (if sg_status sig = EXECUTED_SG \<or> sg_status sig = ACCEPTED_SG
                     then decide symbol SEEKING_ENTRY ENTRY_SUBMITTED (SubmittedEntry (sg_id sig)) a1
                     else decide symbol SEEKING_ENTRY REJECTED_BY_AGENT (RefusedEntry (sg_rejectReason sig)) a1, w1)))"

text \<open>Step 9: a symbol with a position; the tracked setup is refreshed from the discovered ones.\<close>

definition evaluateScaleInForPosition ::
  "agentConfig \<Rightarrow> 'w agentDeps \<Rightarrow> position \<Rightarrow> regimeAdaptation \<Rightarrow> bool \<Rightarrow> ms \<Rightarrow> agent \<Rightarrow> 'w \<Rightarrow> scaleInDecision option \<times> agent \<times> 'w" where
  "evaluateScaleInForPosition cfg ad pos adaptation breakerTripped now a w =
     (let dir = (if p_qty pos > 0 then LONG else SHORT);
          plan = computeTradePlan (ad_risk ad w) (p_symbol pos) dir adaptation ''1h'' None;
          setups = ad_discovered ad (p_symbol pos) now w;
          refresh = (\<lambda>s. case sy_trackingSetup s of None \<Rightarrow> s
            | Some t \<Rightarrow> (case find (\<lambda>x. su_id x = su_id t) setups of None \<Rightarrow> s | Some x \<Rightarrow> s\<lparr>sy_trackingSetup := Some x\<rparr>));
          a1 = a\<lparr>at_perSymbol := mupd (p_symbol pos) refresh (at_perSymbol a)\<rparr>;
          corr = map_option (\<lambda>_. (\<lambda>addNotional leverage. correlationAdmits ad \<lparr>cc_symbol = p_symbol pos, cc_direction = dir, cc_notional = addNotional,
              cc_leverage = leverage\<rparr> (aw_getPositions (ad_world ad) w) (aw_getEquity (ad_world ad) w) True w)) (ad_correlation ad);
          (decision, xs1, w1) = evaluateScaleIn (ac_exits cfg) (ad_world ad) pos setups plan (\<not> breakerTripped) (ac_minConfluence cfg)
            (at_runtimeRiskMultiplier a) corr now (at_exits a1) w in
      (decision, a1\<lparr>at_exits := xs1\<rparr>, w1))"

subsection \<open>A cycle\<close>

definition screenEntry ::
  "agentConfig \<Rightarrow> 'w agentDeps \<Rightarrow> bool \<Rightarrow> position list \<Rightarrow> number \<Rightarrow> ms \<Rightarrow> string \<Rightarrow> symbolState \<Rightarrow> agent \<Rightarrow> 'w
    \<Rightarrow> ('w cycleState, 'w cycleState) outcome" where
  "screenEntry cfg ad breakerTripped openPositions equity now symbol s a w =
     (case screenMarket cfg breakerTripped openPositions s now of
        Some (state, action, reason) \<Rightarrow> Inr (decide symbol state action reason a, w)
      | None \<Rightarrow> (case screenSetup cfg (ad_setups ad symbol now w) (ad_thesis ad symbol now w) of
          Inl (state, action, reason) \<Rightarrow> Inr (decide symbol state action reason a, w)
        | Inr best \<Rightarrow> (case ad_getSymbolLock ad symbol now w of (lock, w1) \<Rightarrow>
            (case (case lock of None \<Rightarrow> None | Some l \<Rightarrow> if sl_strategyId l \<noteq> ac_strategyId cfg then Some l else None) of
               Some l \<Rightarrow> Inr (decide symbol STAND_ASIDE_ST STAND_ASIDE (LockedByStrategy (sl_strategyId l)) a, w1)
             | None \<Rightarrow> (case screenPlan ad a symbol best (getAdaptation (currentRegime (sy_track s))) equity openPositions w1 of
                 Inl (state, action, reason) \<Rightarrow> Inr (decide symbol state action reason a, w1)
               | Inr (dir, plan) \<Rightarrow> submitEntry cfg ad symbol best dir plan equity now a w1)))))"

definition trackSymbol :: "agentConfig \<Rightarrow> 'w agentDeps \<Rightarrow> ms \<Rightarrow> string \<Rightarrow> 'w \<Rightarrow> symbolState \<Rightarrow> symbolState" where
  "trackSymbol cfg ad now symbol w s = s\<lparr>sy_track := trackRegime (ac_regimeConfirmationBars cfg) (ac_regimeConfirmationBarsByRegime cfg) now
     (aw_detect (ad_world ad) symbol (Some (ad_mtf ad symbol now w)) now w) (sy_track s)\<rparr>"

definition cycleSymbol ::
  "agentConfig \<Rightarrow> 'w agentDeps \<Rightarrow> bool \<Rightarrow> position list \<Rightarrow> number \<Rightarrow> ms \<Rightarrow> string \<Rightarrow> 'w cycleState \<Rightarrow> ('w cycleState, 'w cycleState) outcome" where
  "cycleSymbol cfg ad breakerTripped openPositions equity now symbol = (\<lambda>(a0, w).
     let a = a0\<lparr>at_perSymbol := mupd symbol (trackSymbol cfg ad now symbol w) (at_perSymbol a0)\<rparr>;
         s = coalesce (mget (at_perSymbol a) symbol) (newSymbolState symbol) in
     case find (\<lambda>p. p_symbol p = symbol \<and> p_status p = OPEN) openPositions of
       Some pos \<Rightarrow> (case evaluateScaleInForPosition cfg ad pos (getAdaptation (currentRegime (sy_track s))) breakerTripped now a w of
           (decision, a1, w1) \<Rightarrow> Inr (decide symbol IN_POSITION
             (if (case decision of None \<Rightarrow> False | Some d \<Rightarrow> sd_submitted d) then SCALE_IN_SUBMITTED else IN_POSITION_ACTION)
             (AlreadyInPosition (map_option sd_reason decision)) a1, w1))
     | None \<Rightarrow> screenEntry cfg ad breakerTripped openPositions equity now symbol s a w)"

text \<open>What the delegates of a cycle say: the learned multiplier and the breaker's verdict.\<close>

record cycleInput =
  ci_learnedRiskMultiplier :: number
  ci_allowEntries :: bool
  ci_riskDampener :: number

definition runAgentCycle :: "agentConfig \<Rightarrow> 'w agentDeps \<Rightarrow> cycleInput \<Rightarrow> ms \<Rightarrow> 'w cycleState \<Rightarrow> ('w cycleState, 'w cycleState) outcome" where
  "runAgentCycle cfg ad inp now = (\<lambda>(a0, w0).
     let a1 = a0\<lparr>at_decisions := [],
           at_runtimeRiskMultiplier := (if \<bar>ci_learnedRiskMultiplier inp - at_runtimeRiskMultiplier a0\<bar> > 1 / 1000
             then ci_learnedRiskMultiplier inp else at_runtimeRiskMultiplier a0),
           at_lossStreakDampener := ci_riskDampener inp\<rparr>;
         (xs, w) = evaluateExits (ac_exits cfg) (ad_world ad) (at_perSymbol a1) now (at_exits a1) w0;
         equity = aw_getEquity (ad_world ad) w;
         openPositions = filter isLive (aw_getPositions (ad_world ad) w) in
     foldR (cycleSymbol cfg ad (\<not> ci_allowEntries inp) openPositions equity now) (ac_symbols cfg) (a1\<lparr>at_exits := xs\<rparr>, w))"

end
