(* ===== verification/Portfolio_Guarantees.thy ===== *)
theory Portfolio_Guarantees
  imports Portfolio_Risk
begin

section \<open>What the portfolio risk layer guarantees\<close>

text \<open>
  A plan of the risk manager is on the right sides of its entry, pays for its costs and stays below both
  leverage ceilings; the correlation guard admits exactly the candidates whose margin fits the cap together
  with the margins of the open positions that move with them.
\<close>

subsection \<open>Trade plans\<close>

lemma regimeBias_range: "5 / 10 \<le> regimeBiasOf stats \<and> regimeBiasOf stats \<le> 15 / 10"
proof (cases stats)
  case None
  then show ?thesis by (simp add: regimeBiasOf_def)
next
  case (Some s)
  let ?x = "max (5 / 10) (min (15 / 10) (rst_winRate s / (5 / 10))) * 1000 :: number"
  have "500 \<le> ?x" "?x \<le> 1500" by (simp_all add: max_def min_def)
  then have "500 \<le> math_round ?x" "math_round ?x \<le> 1500" unfolding math_round_def by linarith+
  then show ?thesis using Some by (simp add: regimeBiasOf_def)
qed

lemma structural_stop_side:
  "stopDistanceOf dir entry a d stop = (sd, used) \<Longrightarrow> used \<Longrightarrow>
    \<exists>s. stop = Some s \<and> s > 0 \<and> sd = \<bar>entry - s\<bar> \<and> (if dir = LONG then s < entry else entry < s) \<and> a * (25 / 100) \<le> sd"
  by (auto simp: stopDistanceOf_def Let_def split: option.splits if_splits)

lemma plan_sound:
  assumes "computeTradePlan deps symbol dir adaptation tf structural = Some plan"
    "0 < rd_minRR adaptation" "0 \<le> coalesce (rmd_roundTripCostBps deps) 8" "0 \<le> rd_riskMultiplier adaptation"
  shows "(if dir = LONG then tpl_stopLossPrice plan < tpl_entryPrice plan \<and> tpl_entryPrice plan < tpl_takeProfitPrice plan
          else tpl_takeProfitPrice plan < tpl_entryPrice plan \<and> tpl_entryPrice plan < tpl_stopLossPrice plan)
    \<and> coalesce (rmd_minStopCostMultiple deps) 4 * tpl_roundTripCost plan \<le> \<bar>tpl_entryPrice plan - tpl_stopLossPrice plan\<bar>
    \<and> rd_minRR adaptation * (\<bar>tpl_entryPrice plan - tpl_stopLossPrice plan\<bar> + tpl_roundTripCost plan)
        \<le> \<bar>tpl_takeProfitPrice plan - tpl_entryPrice plan\<bar> - tpl_roundTripCost plan
    \<and> tpl_leverage plan \<le> rd_maxLeverage adaptation \<and> tpl_leverage plan \<le> rmd_maxLeverage deps
    \<and> 1 / 10 \<le> tpl_riskMultiplier plan \<and> tpl_riskMultiplier plan \<le> max (1 / 10) (rd_riskMultiplier adaptation * (15 / 10))
    \<and> (tpl_structuralStopUsed plan \<longrightarrow> Option.bind structural sc_stopPrice = Some (tpl_stopLossPrice plan))"
proof -
  define entry sd td cost used where "entry = tpl_entryPrice plan" and "sd = \<bar>entry - tpl_stopLossPrice plan\<bar>"
    and "td = \<bar>tpl_takeProfitPrice plan - entry\<bar>" and "cost = tpl_roundTripCost plan" and "used = tpl_structuralStopUsed plan"
  define a where "a = (case lastEntry (atr (rmd_getCandles deps symbol tf 50) 14) of
      None \<Rightarrow> k_close (last (rmd_getCandles deps symbol tf 50)) * (1 / 100)
    | Some a \<Rightarrow> if a > 0 then a else k_close (last (rmd_getCandles deps symbol tf 50)) * (1 / 100))"
  define e where "e = coalesce (orElse (Option.bind structural sc_entryPrice) (rmd_getLastPrice deps symbol))
    (k_close (last (rmd_getCandles deps symbol tf 50)))"
  define w where "w = targetDistanceOf dir e (a * rd_targetAtrMultiplier adaptation) (Option.bind structural sc_takeProfitPrice)"
  obtain t u where t: "stopDistanceOf dir e a (a * rd_stopAtrMultiplier adaptation) (Option.bind structural sc_stopPrice) = (t, u)"
    by fastforce
  note plan = assms(1) [unfolded computeTradePlan_def, simplified Let_def, folded a_def, folded e_def, folded w_def,
    unfolded t split_conv, simplified Let_def]
  have c: "stopDistanceOf dir entry a (a * rd_stopAtrMultiplier adaptation) (Option.bind structural sc_stopPrice) = (t, used)"
      "0 < t" "0 < entry" "cost = entry * (coalesce (rmd_roundTripCostBps deps) 8 / 10000)"
      "coalesce (rmd_minStopCostMultiple deps) 4 * cost \<le> t"
      "tpl_stopLossPrice plan = (if dir = LONG then entry - t else entry + t)"
      "tpl_leverage plan = min (rd_maxLeverage adaptation) (rmd_maxLeverage deps)"
      "tpl_riskMultiplier plan = max (1 / 10) (rd_riskMultiplier adaptation * regimeBiasOf (rmd_getRegimeStats deps (rd_regime adaptation)))"
    and w: "rd_minRR adaptation \<le> (w - cost) / (t + cost)" "tpl_takeProfitPrice plan = (if dir = LONG then entry + w else entry - w)"
    using plan t unfolding entry_def cost_def used_def by (auto split: if_splits)
  have cost: "0 \<le> cost" unfolding c(4) using c(3) assms(3) by (intro mult_nonneg_nonneg divide_nonneg_nonneg) simp_all
  then have pos: "0 < t + cost" using c(2) by simp
  have rr: "rd_minRR adaptation * (t + cost) \<le> w - cost" using w(1) pos by (simp add: le_divide_eq)
  then have "0 < w" using mult_pos_pos [OF assms(2) pos] cost by linarith
  have sd: "sd = t" using c(2,6) unfolding sd_def by auto
  have td: "td = w" using \<open>0 < w\<close> w(2) unfolding td_def by auto
  have bias: "rd_riskMultiplier adaptation * regimeBiasOf s \<le> rd_riskMultiplier adaptation * (15 / 10)" for s
    using regimeBias_range [of s] assms(4) by (intro mult_left_mono) auto
  have "tpl_riskMultiplier plan \<le> max (1 / 10) (rd_riskMultiplier adaptation * (15 / 10))"
    unfolding c(8) using bias by (intro max.mono) simp_all
  moreover have "Option.bind structural sc_stopPrice = Some (tpl_stopLossPrice plan)" if "used"
    using structural_stop_side [OF c(1) that] c(6) by (auto split: if_splits)
  moreover have "1 / 10 \<le> tpl_riskMultiplier plan" unfolding c(8) by simp
  moreover have "tpl_leverage plan \<le> rd_maxLeverage adaptation" "tpl_leverage plan \<le> rmd_maxLeverage deps" unfolding c(7) by simp_all
  moreover have "if dir = LONG then tpl_stopLossPrice plan < entry \<and> entry < tpl_takeProfitPrice plan
      else tpl_takeProfitPrice plan < entry \<and> entry < tpl_stopLossPrice plan"
    using c(2,6) w(2) \<open>0 < w\<close> by auto
  ultimately show ?thesis using c(5) rr sd td
    unfolding entry_def [symmetric] sd_def [symmetric] td_def [symmetric] cost_def [symmetric] used_def [symmetric] by auto
qed

text \<open>C16. What a plan of the risk manager promises: the stop is on the losing side of the entry and the target on
  the winning side; the stop is at least the configured multiple of the round-trip cost away; the reward less
  the cost is at least \<open>minRR\<close> times the risk plus the cost; the leverage is below the ceiling of the
  regime and of the configuration; what past results add to the size of the regime is between half and one
  and a half times; and a structural stop is used at the price the setup gave, if at all.\<close>

theorem trade_plan_sound:
  assumes "computeTradePlan deps symbol dir adaptation tf structural = Some plan"
    "0 < rd_minRR adaptation" "0 \<le> coalesce (rmd_roundTripCostBps deps) 8" "0 \<le> rd_riskMultiplier adaptation"
  shows "(if dir = LONG then tpl_stopLossPrice plan < tpl_entryPrice plan \<and> tpl_entryPrice plan < tpl_takeProfitPrice plan
          else tpl_takeProfitPrice plan < tpl_entryPrice plan \<and> tpl_entryPrice plan < tpl_stopLossPrice plan)
    \<and> coalesce (rmd_minStopCostMultiple deps) 4 * tpl_roundTripCost plan \<le> \<bar>tpl_entryPrice plan - tpl_stopLossPrice plan\<bar>
    \<and> rd_minRR adaptation * (\<bar>tpl_entryPrice plan - tpl_stopLossPrice plan\<bar> + tpl_roundTripCost plan)
        \<le> \<bar>tpl_takeProfitPrice plan - tpl_entryPrice plan\<bar> - tpl_roundTripCost plan
    \<and> tpl_leverage plan \<le> rd_maxLeverage adaptation \<and> tpl_leverage plan \<le> rmd_maxLeverage deps
    \<and> 1 / 10 \<le> tpl_riskMultiplier plan \<and> tpl_riskMultiplier plan \<le> max (1 / 10) (rd_riskMultiplier adaptation * (15 / 10))
    \<and> (tpl_structuralStopUsed plan \<longrightarrow> Option.bind structural sc_stopPrice = Some (tpl_stopLossPrice plan))"
  using plan_sound [OF assms] .

definition sampleRiskDeps :: riskManagerDeps where
  "sampleRiskDeps = \<lparr>rmd_riskPerTradePct = 1 / 100, rmd_maxLeverage = 5, rmd_getLastPrice = (\<lambda>_. Some 100),
     rmd_getCandles = (\<lambda>_ _ _. map (\<lambda>i. sampleCandle (int i) 101 99 100) [0..<15]), rmd_getRegimeStats = (\<lambda>_. None),
     rmd_roundTripCostBps = None, rmd_minStopCostMultiple = None\<rparr>"

definition samplePlan :: tradePlan where
  "samplePlan = \<lparr>tpl_adaptation = getAdaptation TRENDING_STRONG, tpl_stopLossPrice = 97, tpl_takeProfitPrice = 112,
     tpl_leverage = 5, tpl_riskMultiplier = 12 / 10, tpl_regimeBias = 1, tpl_rr = 4, tpl_netRR = 298 / 77,
     tpl_roundTripCost = 8 / 100, tpl_atr = 2, tpl_entryPrice = 100, tpl_direction = LONG,
     tpl_structuralStopUsed = True, tpl_stopReason = Some ''zone low''\<rparr>"

lemma samplePlan_computed:
  "computeTradePlan sampleRiskDeps ''SOLUSDT'' LONG (getAdaptation TRENDING_STRONG) ''1h''
     (Some \<lparr>sc_entryPrice = None, sc_stopPrice = Some 97, sc_takeProfitPrice = None, sc_stopReason = Some ''zone low''\<rparr>) = Some samplePlan"
proof -
  have "atr (map (\<lambda>i. sampleCandle (int i) 101 99 100) [0..<15]) 14 = replicate 14 None @ [Some 2]"
    by (simp add: atr_def trueRanges_def trueRange_def sampleCandle_def Let_def fillFrom_def upt_rec numeral_nat)
  then show ?thesis
    by (simp add: computeTradePlan_def sampleRiskDeps_def samplePlan_def stopDistanceOf_def targetDistanceOf_def regimeBiasOf_def
      lastEntry_def sampleCandle_def Let_def)
qed

theorem trade_plan_sound_witness:
  "tpl_stopLossPrice samplePlan < tpl_entryPrice samplePlan \<and> tpl_entryPrice samplePlan < tpl_takeProfitPrice samplePlan
    \<and> (25 / 10) * (\<bar>tpl_entryPrice samplePlan - tpl_stopLossPrice samplePlan\<bar> + tpl_roundTripCost samplePlan)
        \<le> \<bar>tpl_takeProfitPrice samplePlan - tpl_entryPrice samplePlan\<bar> - tpl_roundTripCost samplePlan"
  using trade_plan_sound [OF samplePlan_computed] by (simp add: sampleRiskDeps_def) (simp add: samplePlan_def)

subsection \<open>Correlated exposure\<close>

text \<open>The open positions that count into the candidate's cluster.\<close>

definition correlatedWith :: "correlationConfig \<Rightarrow> correlationDeps \<Rightarrow> correlationCandidate \<Rightarrow> bool \<Rightarrow> position \<Rightarrow> bool" where
  "correlatedWith cfg deps cand includeSameSymbol pos \<longleftrightarrow>
     (case correlationWith cfg deps cand includeSameSymbol (returnsFor cfg deps (cc_symbol cand)) pos of
        Some (Some c) \<Rightarrow> co_correlationFloor cfg \<le> (if positionDirection pos = cc_direction cand then c else - c)
      | _ \<Rightarrow> False)"

lemma cluster_step:
  "cl_exposure (clusterStep cfg deps cand inc (returnsFor cfg deps (cc_symbol cand)) equity p s)
    = cl_exposure s + (if correlatedWith cfg deps cand inc p then committedMargin p / equity else 0)"
proof (cases "correlationWith cfg deps cand inc (returnsFor cfg deps (cc_symbol cand)) p")
  case None
  then show ?thesis by (simp add: clusterStep_def correlatedWith_def)
next
  case (Some r)
  then show ?thesis by (cases r) (simp_all add: clusterStep_def correlatedWith_def Let_def not_le)
qed

lemma cluster_fold:
  "cl_exposure (fold (clusterStep cfg deps cand inc (returnsFor cfg deps (cc_symbol cand)) equity) ps s)
    = cl_exposure s + sum_list (map (\<lambda>p. committedMargin p / equity) (filter (correlatedWith cfg deps cand inc) ps))"
  by (induction ps arbitrary: s) (simp_all add: cluster_step)

lemma sum_list_divide: "sum_list (map (\<lambda>x. f x / c) xs) = sum_list (map f xs) / (c :: number)"
  by (induction xs) (simp_all add: add_divide_distrib)

text \<open>C15. The cap holds in money: an enabled guard admits a candidate exactly when its margin and the margins of the
  open positions that lose together with it stay within the cap on the equity, up to a billionth. With a
  positive floor a position in the opposite direction of a symbol that moves alike, or in the same direction
  of one that moves against it, is not among them.\<close>

theorem correlation_cap_exact:
  assumes "co_enabled cfg" "0 < equity" "0 < cc_leverage cand"
  shows "(ck_allowed (evaluateCorrelation cfg deps cand ps equity inc) \<longleftrightarrow>
      cc_notional cand / cc_leverage cand + sum_list (map committedMargin (filter (correlatedWith cfg deps cand inc) ps))
        \<le> (co_maxCorrelatedExposurePct cfg + 1 / 10 ^ 9) * equity)
    \<and> (\<forall>p c. 0 < co_correlationFloor cfg \<and> correlatedWith cfg deps cand inc p \<and>
        correlationWith cfg deps cand inc (returnsFor cfg deps (cc_symbol cand)) p = Some (Some c) \<longrightarrow>
        p_status p = OPEN \<and> c \<noteq> 0 \<and> (positionDirection p = cc_direction cand \<longleftrightarrow> 0 < c))"
proof
  have "cl_exposure (fold (clusterStep cfg deps cand inc (returnsFor cfg deps (cc_symbol cand)) equity) ps
      \<lparr>cl_exposure = cc_notional cand / cc_leverage cand / equity, cl_positions = [], cl_insufficient = False\<rparr>)
    = (cc_notional cand / cc_leverage cand + sum_list (map committedMargin (filter (correlatedWith cfg deps cand inc) ps))) / equity"
    by (simp add: cluster_fold sum_list_divide add_divide_distrib)
  then show "ck_allowed (evaluateCorrelation cfg deps cand ps equity inc) \<longleftrightarrow>
      cc_notional cand / cc_leverage cand + sum_list (map committedMargin (filter (correlatedWith cfg deps cand inc) ps))
        \<le> (co_maxCorrelatedExposurePct cfg + 1 / 10 ^ 9) * equity"
    using assms by (simp add: evaluateCorrelation_def Let_def pos_divide_le_eq)
next
  show "\<forall>p c. 0 < co_correlationFloor cfg \<and> correlatedWith cfg deps cand inc p \<and>
      correlationWith cfg deps cand inc (returnsFor cfg deps (cc_symbol cand)) p = Some (Some c) \<longrightarrow>
      p_status p = OPEN \<and> c \<noteq> 0 \<and> (positionDirection p = cc_direction cand \<longleftrightarrow> 0 < c)"
    by (auto simp: correlatedWith_def correlationWith_def Let_def split: if_splits)
qed

definition samplePosition :: "string \<Rightarrow> number \<Rightarrow> number \<Rightarrow> position" where
  "samplePosition symbol qty margin = \<lparr>p_accountId = ''a'', p_symbol = symbol, p_positionSide = BOTH, p_status = OPEN, p_qty = qty,
     p_entryPrice = 100, p_markPrice = None, p_unrealizedPnl = 0, p_realizedPnl = 0, p_leverage = 10, p_initialMargin = margin,
     p_maintenanceMargin = 0, p_maintenanceMarginRate = 0, p_totalFees = 0, p_totalFunding = 0, p_openedAtUtc = None,
     p_updatedAtUtc = 0, p_closedAtUtc = None\<rparr>"

text \<open>Adding to an open position: with 200 of 1000 committed, another 100 would exceed a quarter.\<close>

theorem correlation_cap_exact_witness:
  "\<not> ck_allowed (evaluateCorrelation DEFAULT_CORRELATION_GUARD_CONFIG \<lparr>cd_sqrt = id, cd_log = id, cd_getCandles = (\<lambda>_ _ _. None)\<rparr>
     \<lparr>cc_symbol = ''SOLUSDT'', cc_direction = LONG, cc_notional = 1000, cc_leverage = 10\<rparr> [samplePosition ''SOLUSDT'' 20 200] 1000 True)"
  by (subst conjunct1 [OF correlation_cap_exact])
    (simp_all add: DEFAULT_CORRELATION_GUARD_CONFIG_def correlatedWith_def correlationWith_def samplePosition_def committedMargin_def
      positionDirection_def)

end
