(* ===== verification/Agent_Guarantees.thy ===== *)
theory Agent_Guarantees
  imports Autonomous_Agent Portfolio_Guarantees
begin

section \<open>What the autonomous agent guarantees\<close>

text \<open>
  What a cycle may do to the world is what its signals do: \<open>cycleSymbol_keeps\<close> collects them. An entry signal is
  sound (\<open>entrySound\<close>) at the turn of its symbol: the state the symbol has there, the setups the world offers there
  and the plan computed there have passed every gate, and the signal is the one built from them. A tripped breaker
  leaves only closing signals. The cap on open positions is read once per cycle.
\<close>

subsection \<open>Sizing\<close>

definition agentRisk :: "riskManagerDeps \<Rightarrow> agent \<Rightarrow> number" where
  "agentRisk rd a = 18 / 10 * rmd_riskPerTradePct rd * at_runtimeRiskMultiplier a * at_lossStreakDampener a"

text \<open>Stop and target on their sides of the entry, the leverage below both ceilings, and the loss at the stop.\<close>

definition entryBounded :: "riskManagerDeps \<Rightarrow> agent \<Rightarrow> number \<Rightarrow> marketRegime \<Rightarrow> direction \<Rightarrow> tradePlan \<Rightarrow> signalInput \<Rightarrow> bool" where
  "entryBounded rd a equity r dir plan i \<longleftrightarrow>
     si_action i = (if dir = LONG then OPEN_LONG else OPEN_SHORT)
     \<and> si_stopLossPrice i = Some (showFixed 8 (tpl_stopLossPrice plan))
     \<and> si_takeProfitPrice i = Some (showFixed 8 (tpl_takeProfitPrice plan))
     \<and> (if dir = LONG then tpl_stopLossPrice plan < tpl_entryPrice plan \<and> tpl_entryPrice plan < tpl_takeProfitPrice plan
        else tpl_takeProfitPrice plan < tpl_entryPrice plan \<and> tpl_entryPrice plan < tpl_stopLossPrice plan)
     \<and> mget (si_features i) ''leverage'' = Some (FNum (tpl_leverage plan))
     \<and> tpl_leverage plan \<le> rmd_maxLeverage rd \<and> tpl_leverage plan \<le> rd_maxLeverage (getAdaptation r)
     \<and> (\<exists>q. mget (si_features i) ''quantity'' = Some (FNum q)
          \<and> 0 \<le> q \<and> q * \<bar>tpl_entryPrice plan - tpl_stopLossPrice plan\<bar> \<le> equity * agentRisk rd a)"

text \<open>The state of a symbol at its turn, after the regime observation of the turn.\<close>

definition trackedState :: "agentConfig \<Rightarrow> 'w agentDeps \<Rightarrow> ms \<Rightarrow> string \<Rightarrow> agent \<Rightarrow> 'w \<Rightarrow> symbolState" where
  "trackedState cfg ad now symbol a w =
     coalesce (map_option (trackSymbol cfg ad now symbol w) (mget (at_perSymbol a) symbol)) (newSymbolState symbol)"

text \<open>What makes the signal \<open>i\<close> a justified entry at the turn of \<open>symbol\<close> with the agent \<open>a\<close> in the world \<open>w\<close>.\<close>

definition entrySound ::
  "agentConfig \<Rightarrow> 'w agentDeps \<Rightarrow> position list \<Rightarrow> number \<Rightarrow> ms \<Rightarrow> string \<Rightarrow> agent \<Rightarrow> 'w \<Rightarrow> signalInput \<Rightarrow> bool" where
  "entrySound cfg ad openPositions equity now symbol a w i \<longleftrightarrow>
     (let s = trackedState cfg ad now symbol a w; r = currentRegime (sy_track s); thesis = ad_thesis ad symbol now w;
          ready = filter (\<lambda>x. su_status x = READY_SS \<and> \<not> ag_rejected x) (ad_setups ad symbol now w);
          lock = fst (ad_getSymbolLock ad symbol now w); w1 = snd (ad_getSymbolLock ad symbol now w); rd = ad_risk ad w1 in
      r \<noteq> TRANSITIONING
      \<and> ac_cooldownMs cfg \<le> now - sy_lastEntryAttemptAt s
      \<and> length openPositions < ac_maxOpenPositions cfg
      \<and> (\<forall>p \<in> set openPositions. p_symbol p = symbol \<longrightarrow> p_status p \<noteq> OPEN)
      \<and> (thesis = None \<or> the thesis \<in> {BULLISH_CONTINUATION, BULLISH_REVERSAL, BEARISH_CONTINUATION, BEARISH_REVERSAL})
      \<and> (lock = None \<or> sl_strategyId (the lock) = ac_strategyId cfg)
      \<and> (\<exists>best \<in> set ready. \<exists>dir plan c. (\<forall>x \<in> set ready. scoreOf x \<le> scoreOf best)
          \<and> directionOf (su_direction best) = Some dir
          \<and> ac_minConfluence cfg \<le> effectiveScore cfg best
          \<and> computeTradePlan rd symbol dir (getAdaptation r) ''1h'' (structuralRiskOf best) = Some plan
          \<and> correlationAdmits ad \<lparr>cc_symbol = symbol, cc_direction = dir,
               cc_notional = snd (positionSizing rd plan a equity) * tpl_entryPrice plan, cc_leverage = tpl_leverage plan\<rparr>
               openPositions equity False w1
          \<and> probeEntryConfidence cfg ad best plan dir (effectiveScore cfg best) w1 = Some c \<and> ac_minConfidence cfg \<le> c
          \<and> i = entrySignal cfg rd a symbol dir plan best c equity
          \<and> entryBounded rd a equity r dir plan i))"

lemma adaptation_range: "0 < rd_minRR (getAdaptation r)" "0 \<le> rd_riskMultiplier (getAdaptation r)"
  "rd_riskMultiplier (getAdaptation r) \<le> 12 / 10"
  by (cases r; simp)+

lemma sizePct_feature: "mget (planToFeatures rd plan) ''sizePct'' = Some (FNum (rmd_riskPerTradePct rd * tpl_riskMultiplier plan))"
  by (simp add: planToFeatures_def mget_def Let_def)

lemma leverage_feature: "mget (planToFeatures rd plan) ''leverage'' = Some (FNum (tpl_leverage plan))"
  by (simp add: planToFeatures_def mget_def Let_def)

lemma sizing_formula:
  "positionSizing rd plan a equity = (let sizePct = rmd_riskPerTradePct rd * tpl_riskMultiplier plan * at_runtimeRiskMultiplier a * at_lossStreakDampener a in
     (sizePct, if 0 < \<bar>tpl_entryPrice plan - tpl_stopLossPrice plan\<bar> then equity * sizePct / \<bar>tpl_entryPrice plan - tpl_stopLossPrice plan\<bar> else 0))"
  by (simp add: positionSizing_def sizePct_feature featureNumber_def Let_def)

text \<open>The inputs under which a size makes sense.\<close>

definition sensible :: "riskManagerDeps \<Rightarrow> agent \<Rightarrow> number \<Rightarrow> bool" where
  "sensible rd a equity \<longleftrightarrow> 0 \<le> rmd_riskPerTradePct rd \<and> 0 \<le> coalesce (rmd_roundTripCostBps rd) 8
     \<and> 0 \<le> at_runtimeRiskMultiplier a \<and> 0 \<le> at_lossStreakDampener a \<and> 0 \<le> equity"

lemma quantity_at_risk:
  assumes "computeTradePlan rd symbol dir (getAdaptation r) tf st = Some plan" "sensible rd a equity"
  shows "0 \<le> snd (positionSizing rd plan a equity)
    \<and> snd (positionSizing rd plan a equity) * \<bar>tpl_entryPrice plan - tpl_stopLossPrice plan\<bar> \<le> equity * agentRisk rd a"
proof -
  let ?size = "rmd_riskPerTradePct rd * tpl_riskMultiplier plan * at_runtimeRiskMultiplier a * at_lossStreakDampener a"
  note p = plan_sound [OF assms(1) adaptation_range(1) _ adaptation_range(2)]
  have mult: "0 \<le> tpl_riskMultiplier plan" "tpl_riskMultiplier plan \<le> 18 / 10"
    using p assms(2) adaptation_range(3) [of r] by (auto simp: sensible_def max_def split: if_splits)
  have base: "0 \<le> rmd_riskPerTradePct rd * at_runtimeRiskMultiplier a * at_lossStreakDampener a"
    using assms(2) by (simp add: sensible_def)
  have "?size = tpl_riskMultiplier plan * (rmd_riskPerTradePct rd * at_runtimeRiskMultiplier a * at_lossStreakDampener a)" by simp
  also have "\<dots> \<le> 18 / 10 * (rmd_riskPerTradePct rd * at_runtimeRiskMultiplier a * at_lossStreakDampener a)"
    by (rule mult_right_mono [OF mult(2) base])
  also have "\<dots> = agentRisk rd a" by (simp add: agentRisk_def)
  finally have size: "?size \<le> agentRisk rd a" .
  have nonneg: "0 \<le> ?size" using mult(1) base mult_nonneg_nonneg [OF mult(1) base] by (simp add: ac_simps)
  have "0 < \<bar>tpl_entryPrice plan - tpl_stopLossPrice plan\<bar>"
    using p assms(2) by (auto simp: sensible_def split: if_splits)
  then have "snd (positionSizing rd plan a equity) * \<bar>tpl_entryPrice plan - tpl_stopLossPrice plan\<bar> = equity * ?size"
    "snd (positionSizing rd plan a equity) = equity * ?size / \<bar>tpl_entryPrice plan - tpl_stopLossPrice plan\<bar>"
    by (simp_all add: sizing_formula Let_def)
  moreover have "equity * ?size \<le> equity * agentRisk rd a" "0 \<le> equity * ?size"
    using assms(2) size nonneg by (auto simp: sensible_def intro: mult_left_mono)
  ultimately show ?thesis by (metis abs_ge_zero divide_nonneg_nonneg)
qed

lemma entry_features:
  "mget (si_features (entrySignal cfg rd a symbol dir plan best c equity)) ''quantity'' = Some (FNum (snd (positionSizing rd plan a equity)))"
  "mget (si_features (entrySignal cfg rd a symbol dir plan best c equity)) ''leverage'' = Some (FNum (tpl_leverage plan))"
  by (simp_all add: entrySignal_def split_beta leverage_feature)

lemma entrySignal_bounded:
  assumes "computeTradePlan rd symbol dir (getAdaptation r) tf st = Some plan" "sensible rd a equity"
  shows "entryBounded rd a equity r dir plan (entrySignal cfg rd a symbol dir plan best c equity)"
  unfolding entryBounded_def
  using quantity_at_risk [OF assms(1,2)] plan_sound [OF assms(1) adaptation_range(1) _ adaptation_range(2)] assms(2)
  by (simp add: entry_features leverage_feature entrySignal_def split_beta sensible_def)

lemma sized_same [simp]: "positionSizing rd plan (a\<lparr>at_perSymbol := m\<rparr>) equity = positionSizing rd plan a equity"
  "entrySignal cfg rd (a\<lparr>at_perSymbol := m\<rparr>) symbol dir plan best c equity = entrySignal cfg rd a symbol dir plan best c equity"
  by (simp_all add: positionSizing_def entrySignal_def)

lemma bestReady_top:
  assumes "bestReady setups = Some best"
  shows "best \<in> set (filter (\<lambda>s. su_status s = READY_SS \<and> \<not> ag_rejected s) setups)"
    "\<forall>x \<in> set (filter (\<lambda>s. su_status s = READY_SS \<and> \<not> ag_rejected s) setups). scoreOf x \<le> scoreOf best"
proof -
  let ?ready = "filter (\<lambda>s. su_status s = READY_SS \<and> \<not> ag_rejected s) setups"
  obtain rest where b: "sort_key (\<lambda>s. - scoreOf s) ?ready = best # rest"
    using assms by (auto simp: bestReady_def split: list.splits)
  have "sorted (map (\<lambda>s. - scoreOf s) (best # rest))" unfolding b [symmetric] by (rule sorted_sort_key)
  moreover have same: "set ?ready = set (best # rest)" unfolding b [symmetric] by (rule set_sort [symmetric])
  ultimately show "\<forall>x \<in> set ?ready. scoreOf x \<le> scoreOf best" by auto
  show "best \<in> set ?ready" by (simp only: same list.set_intros(1))
qed

subsection \<open>What a cycle does to the world\<close>

text \<open>A closing signal is for a live position of those the pass has read, on its side.\<close>

definition closesPosition :: "position list \<Rightarrow> signalInput \<Rightarrow> bool" where
  "closesPosition held i \<longleftrightarrow>
     (\<exists>p \<in> set held. isLive p \<and> si_symbol i = p_symbol p \<and> si_action i = (if p_qty p > 0 then CLOSE_LONG else CLOSE_SHORT))"

lemma evaluateExits_world:
  assumes "W w" "\<And>i v. W v \<Longrightarrow> closesPosition (aw_getPositions aw w) i \<Longrightarrow> W (snd (aw_submitSignal aw i now v))"
    "\<And>s w. W w \<Longrightarrow> W (aw_forgetTrailingStop aw s w)"
  shows "W (snd (evaluateExits cfg aw perSymbol now xs w))"
proof -
  let ?held = "aw_getPositions aw w"
  have step: "W (snd (exitStep cfg aw perSymbol equity now pos (xs, v)))" if v: "W v" and pos: "pos \<in> set ?held" for equity pos xs v
  proof (cases "isLive pos")
    case False
    then show ?thesis using v by (simp add: exitStep_def)
  next
    case True
    let ?d = "evaluateOne cfg aw xs pos perSymbol equity now v"
    have closing: "closesPosition ?held (closeSignal cfg pos c f)" for c f
      using True pos by (auto simp: closesPosition_def closeSignal_def)
    have "W (snd (submitClose cfg aw pos ?d now v))"
      using assms(2) [OF v closing] by (simp add: submitClose_def Let_def split_beta)
    moreover have "W (snd (submitScaleOut cfg aw pos ?d now xs v))"
      using assms(2) [OF v closing] v
      by (cases "em_scaling cfg") (simp_all add: submitScaleOut_def scaleOutSignal_def Let_def split_beta)
    ultimately show ?thesis using v assms(3)
      by (cases "xc_action ?d") (auto simp: exitStep_def Let_def split_beta)
  qed
  have "W (snd (fold (exitStep cfg aw perSymbol equity now) ps xw))" if "W (snd xw)" "set ps \<subseteq> set ?held" for equity ps xw
    using that
  proof (induction ps arbitrary: xw)
    case (Cons p ps)
    then show ?case using step [of "snd xw" p equity "fst xw"] by simp
  qed simp
  from this [of "(xs, w)" ?held] show ?thesis using assms(1) by (simp add: evaluateExits_def Let_def split_beta)
qed

definition isAddSignal :: "signalInput \<Rightarrow> bool" where
  "isAddSignal i \<longleftrightarrow> isOpenAction (si_action i) \<and> mget (si_features i) ''scaleIn'' = Some (FBool True)"

text \<open>An addition is for an open position, on its side.\<close>

definition addsToPosition :: "position list \<Rightarrow> signalInput \<Rightarrow> bool" where
  "addsToPosition openPositions i \<longleftrightarrow> isAddSignal i \<and>
     (\<exists>p \<in> set openPositions. p_status p = OPEN \<and> si_symbol i = p_symbol p \<and> si_action i = (if p_qty p > 0 then OPEN_LONG else OPEN_SHORT))"

lemma addSignal_adds:
  assumes "pos \<in> set openPositions" "p_status pos = OPEN"
  shows "addsToPosition openPositions (addSignal cfg sc pos plan best q k n m)"
  using assms by (auto simp: addsToPosition_def isAddSignal_def addSignal_def isOpenAction_def mget_def)

lemma evaluateScaleIn_world:
  assumes "W w" "pos \<in> set openPositions" "p_status pos = OPEN"
    "\<And>i. addsToPosition openPositions i \<Longrightarrow> allow \<Longrightarrow> W (snd (aw_submitSignal aw i now w))"
  shows "W (snd (snd (evaluateScaleIn cfg aw pos setups plan allow minC mult corr now xs w)))"
proof -
  have "W (snd (snd (submitAdd cfg sc aw pos pl best q adds mult now xs w)))" if allow for sc pl best q adds
    using assms(4) [OF addSignal_adds [OF assms(2,3)] that] by (simp add: submitAdd_def Let_def split_beta split: sum.split)
  then show ?thesis using assms(1)
    by (auto simp: evaluateScaleIn_def Let_def split_beta split: option.splits)
qed

lemma decide_world [simp]: "at_runtimeRiskMultiplier (decide symbol st ac r a) = at_runtimeRiskMultiplier a"
  "at_lossStreakDampener (decide symbol st ac r a) = at_lossStreakDampener a"
  by (simp_all add: decide_def)

text \<open>The gates that an entry has passed, and the one signal it then submits.\<close>

lemma screenEntry_world:
  fixes symbol a0 w cfg ad now
  defines "s \<equiv> trackedState cfg ad now symbol a0 w"
  defines "a \<equiv> a0\<lparr>at_perSymbol := mupd symbol (trackSymbol cfg ad now symbol w) (at_perSymbol a0)\<rparr>"
  assumes W: "W w" "W (snd (ad_getSymbolLock ad symbol now w))"
    and free: "find (\<lambda>p. p_symbol p = symbol \<and> p_status p = OPEN) openPositions = None"
    and entry: "\<And>i. \<not> breakerTripped \<Longrightarrow> entrySound cfg ad openPositions equity now symbol a0 w i \<Longrightarrow>
      W (snd (aw_submitSignal (ad_world ad) i now (snd (ad_getSymbolLock ad symbol now w))))"
    and sensible: "sensible (ad_risk ad (snd (ad_getSymbolLock ad symbol now w))) a0 equity"
  shows "W (snd (left (screenEntry cfg ad breakerTripped openPositions equity now symbol s a w)))"
proof (cases "screenMarket cfg breakerTripped openPositions s now")
  case (Some x)
  then show ?thesis using W(1) by (cases x) (simp add: screenEntry_def)
next
  case None
  then have gates: "\<not> breakerTripped" "currentRegime (sy_track s) \<noteq> TRANSITIONING" "ac_cooldownMs cfg \<le> now - sy_lastEntryAttemptAt s"
    "length openPositions < ac_maxOpenPositions cfg"
    by (auto simp: screenMarket_def isTradeable_def split: if_splits)
  show ?thesis
  proof (cases "screenSetup cfg (ad_setups ad symbol now w) (ad_thesis ad symbol now w)")
    case (Inl x)
    then show ?thesis using W(1) None by (cases x) (simp add: screenEntry_def)
  next
    case (Inr best)
    then have b: "bestReady (ad_setups ad symbol now w) = Some best" "ac_minConfluence cfg \<le> effectiveScore cfg best"
      "ad_thesis ad symbol now w = None \<or>
        the (ad_thesis ad symbol now w) \<in> {BULLISH_CONTINUATION, BULLISH_REVERSAL, BEARISH_CONTINUATION, BEARISH_REVERSAL}"
      by (auto simp: screenSetup_def split: option.splits if_splits)
    note top = bestReady_top [OF b(1)]
    obtain lock w1 where lock: "ad_getSymbolLock ad symbol now w = (lock, w1)" by fastforce
    have w1: "W w1" using W(2) lock by simp
    let ?foreign = "case lock of None \<Rightarrow> None | Some l \<Rightarrow> if sl_strategyId l \<noteq> ac_strategyId cfg then Some l else None"
    let ?screen = "screenPlan ad a symbol best (getAdaptation (currentRegime (sy_track s))) equity openPositions w1"
    show ?thesis
    proof (cases "?foreign = None \<and> (\<exists>dp. ?screen = Inr dp)")
      case False
      then show ?thesis using w1 None Inr lock
        by (cases ?foreign; cases ?screen) (auto simp: screenEntry_def split: prod.splits)
    next
      case True
      then obtain dir plan where plan: "?screen = Inr (dir, plan)" by auto
      have own: "lock = None \<or> sl_strategyId (the lock) = ac_strategyId cfg" using True by (auto split: option.splits if_splits)
      have p: "directionOf (su_direction best) = Some dir"
        "computeTradePlan (ad_risk ad w1) symbol dir (getAdaptation (currentRegime (sy_track s))) ''1h'' (structuralRiskOf best) = Some plan"
        "correlationAdmits ad \<lparr>cc_symbol = symbol, cc_direction = dir,
           cc_notional = snd (positionSizing (ad_risk ad w1) plan a0 equity) * tpl_entryPrice plan, cc_leverage = tpl_leverage plan\<rparr>
           openPositions equity False w1"
        using plan by (auto simp: screenPlan_def a_def split: option.splits if_splits)
      have "W (snd (left (submitEntry cfg ad symbol best dir plan equity now a w1)))"
      proof (cases "probeEntryConfidence cfg ad best plan dir (effectiveScore cfg best) w1")
        case None
        then show ?thesis using w1 by (simp add: submitEntry_def)
      next
        case (Some c)
        show ?thesis
        proof (cases "c < ac_minConfidence cfg")
          case True
          then show ?thesis using w1 Some by (simp add: submitEntry_def)
        next
          case False
          let ?i = "entrySignal cfg (ad_risk ad w1) a0 symbol dir plan best c equity"
          have nopos: "\<forall>p \<in> set openPositions. p_symbol p = symbol \<longrightarrow> p_status p \<noteq> OPEN"
            using free by (auto simp: find_None_iff)
          have "entryBounded (ad_risk ad w1) a0 equity (currentRegime (sy_track s)) dir plan ?i"
            using sensible lock by (intro entrySignal_bounded [OF p(2)]) simp
          then have "entrySound cfg ad openPositions equity now symbol a0 w ?i"
            unfolding entrySound_def Let_def s_def [symmetric] lock fst_conv snd_conv
            using gates(2-4) nopos b(2,3) own top p Some False by (intro conjI bexI [of _ best] exI [of _ dir] exI [of _ plan] exI [of _ c]) simp_all
          then have "W (snd (aw_submitSignal (ad_world ad) ?i now w1))"
            using entry gates(1) lock by simp
          then show ?thesis using Some False
            by (auto simp: submitEntry_def a_def Let_def split: prod.splits sum.splits option.splits)
        qed
      qed
      then show ?thesis using True plan None Inr lock by (simp add: screenEntry_def)
    qed
  qed
qed

lemma cycleSymbol_keeps:
  assumes W: "W w" "W (snd (ad_getSymbolLock ad symbol now w))"
    and entry: "\<And>i. \<not> breakerTripped \<Longrightarrow> entrySound cfg ad openPositions equity now symbol a0 w i \<Longrightarrow>
      W (snd (aw_submitSignal (ad_world ad) i now (snd (ad_getSymbolLock ad symbol now w))))"
    and add: "\<And>i. \<not> breakerTripped \<Longrightarrow> addsToPosition openPositions i \<Longrightarrow> W (snd (aw_submitSignal (ad_world ad) i now w))"
    and sensible: "sensible (ad_risk ad (snd (ad_getSymbolLock ad symbol now w))) a0 equity"
  shows "W (snd (left (cycleSymbol cfg ad breakerTripped openPositions equity now symbol (a0, w))))"
proof (cases "find (\<lambda>p. p_symbol p = symbol \<and> p_status p = OPEN) openPositions")
  case None
  from screenEntry_world [where W = W, OF W None entry sensible] None show ?thesis
    by (simp add: cycleSymbol_def trackedState_def Let_def)
next
  case (Some pos)
  then have pos: "pos \<in> set openPositions" "p_status pos = OPEN" by (auto simp: find_Some_iff)
  have "W (snd (snd (evaluateScaleInForPosition cfg ad pos ra breakerTripped now a w)))" for ra a
    using evaluateScaleIn_world [where W = W, OF W(1) pos, of "\<not> breakerTripped"] add
    by (simp add: evaluateScaleInForPosition_def Let_def split_beta)
  then show ?thesis using Some by (simp add: cycleSymbol_def Let_def split_beta)
qed

lemma submitEntry_factors:
  "at_runtimeRiskMultiplier (fst (left (submitEntry cfg ad symbol best dir plan equity now a w))) = at_runtimeRiskMultiplier a
    \<and> at_lossStreakDampener (fst (left (submitEntry cfg ad symbol best dir plan equity now a w))) = at_lossStreakDampener a"
  by (auto simp: submitEntry_def Let_def split: option.splits prod.splits sum.splits)

lemma cycleSymbol_factors:
  "at_runtimeRiskMultiplier (fst (left (cycleSymbol cfg ad bt ops equity now symbol aw))) = at_runtimeRiskMultiplier (fst aw)
    \<and> at_lossStreakDampener (fst (left (cycleSymbol cfg ad bt ops equity now symbol aw))) = at_lossStreakDampener (fst aw)"
proof -
  have screen: "at_runtimeRiskMultiplier (fst (left (screenEntry cfg ad bt ops equity now symbol s a w))) = at_runtimeRiskMultiplier a
      \<and> at_lossStreakDampener (fst (left (screenEntry cfg ad bt ops equity now symbol s a w))) = at_lossStreakDampener a" for s a w
    by (auto simp: screenEntry_def submitEntry_factors split: option.splits sum.splits prod.splits)
  have scale: "at_runtimeRiskMultiplier (fst (snd (evaluateScaleInForPosition cfg ad pos ra bt now a w))) = at_runtimeRiskMultiplier a
      \<and> at_lossStreakDampener (fst (snd (evaluateScaleInForPosition cfg ad pos ra bt now a w))) = at_lossStreakDampener a" for pos ra a w
    by (simp add: evaluateScaleInForPosition_def Let_def split_beta)
  show ?thesis
    using screen scale by (cases aw) (auto simp: cycleSymbol_def Let_def split_beta split: option.splits)
qed

subsection \<open>A whole cycle\<close>

lemma foldR_append: "foldR f (xs @ ys) s = bindR (foldR f xs s) (foldR f ys)"
  by (induction xs arbitrary: s) (auto simp: bindR_def split: sum.split)

lemma left_foldR_at:
  assumes "\<And>before x rest s. xs = before @ x # rest \<Longrightarrow> foldR f before s0 = Inr s \<Longrightarrow> P s \<Longrightarrow> P (left (f x s))" and "P s0"
  shows "P (left (foldR f xs s0))"
proof -
  have "P (left (foldR f rest s))" if "xs = before @ rest" "foldR f before s0 = Inr s" "P s" for before rest s
    using that
  proof (induction rest arbitrary: before s)
    case Nil
    then show ?case by (simp add: left_def)
  next
    case (Cons x rest)
    have P: "P (left (f x s))" using assms(1) Cons.prems by blast
    show ?case
    proof (cases "f x s")
      case (Inl e)
      then show ?thesis using P by simp
    next
      case (Inr s1)
      then have "foldR f (before @ [x]) s0 = Inr s1" using Cons.prems(2) by (simp add: foldR_append)
      from Cons.IH [OF _ this] show ?thesis using Cons.prems(1) P Inr by (simp add: left_def)
    qed
  qed
  from this [of "[]" xs s0] assms(2) show ?thesis by simp
qed

text \<open>A cycle after its exits: the live positions and the equity it goes by, the agent and the world.\<close>

definition cycleOpening :: "agentConfig \<Rightarrow> 'w agentDeps \<Rightarrow> cycleInput \<Rightarrow> ms \<Rightarrow> 'w cycleState \<Rightarrow> position list \<times> number \<times> 'w cycleState" where
  "cycleOpening cfg ad inp now aw =
     (let a1 = (fst aw)\<lparr>at_decisions := [], at_runtimeRiskMultiplier :=
            (if \<bar>ci_learnedRiskMultiplier inp - at_runtimeRiskMultiplier (fst aw)\<bar> > 1 / 1000
             then ci_learnedRiskMultiplier inp else at_runtimeRiskMultiplier (fst aw)), at_lossStreakDampener := ci_riskDampener inp\<rparr>;
          (xs, w) = evaluateExits (ac_exits cfg) (ad_world ad) (at_perSymbol a1) now (at_exits a1) (snd aw) in
      (filter isLive (aw_getPositions (ad_world ad) w), aw_getEquity (ad_world ad) w, (a1\<lparr>at_exits := xs\<rparr>, w)))"

text \<open>The agent and the world when the cycle comes to a symbol.\<close>

definition atTurn :: "agentConfig \<Rightarrow> 'w agentDeps \<Rightarrow> cycleInput \<Rightarrow> ms \<Rightarrow> 'w cycleState \<Rightarrow> string \<Rightarrow> 'w cycleState \<Rightarrow> bool" where
  "atTurn cfg ad inp now aw symbol turn \<longleftrightarrow> (case cycleOpening cfg ad inp now aw of (openPositions, equity, opening) \<Rightarrow>
     (\<exists>before rest. ac_symbols cfg = before @ symbol # rest \<and>
        foldR (cycleSymbol cfg ad (\<not> ci_allowEntries inp) openPositions equity now) before opening = Inr turn))"

lemma runAgentCycle_opening:
  "runAgentCycle cfg ad inp now aw = (case cycleOpening cfg ad inp now aw of (openPositions, equity, opening) \<Rightarrow>
     foldR (cycleSymbol cfg ad (\<not> ci_allowEntries inp) openPositions equity now) (ac_symbols cfg) opening)"
  by (cases aw) (simp add: runAgentCycle_def cycleOpening_def Let_def split_beta)

text \<open>C11. Every signal of the agent is justified. Whatever holds of the world and is kept by the signals below is kept
  by a whole cycle, so the cycle submits no other signals: signals that close a position the exit manager has read, on its
  side; and, when the breaker allows entries, additions to an open position on its side, and entries that are
  sound at the turn of their symbol. A sound entry is the signal built from the best-scored of the setups the world
  offers for the symbol at that turn that are ready and not rejected, and from the plan the risk manager computes there under
  the symbol's tracked regime, which is not transitioning; the cooldown, the cap on positions, the lock,
  the thesis, the minimal weighted score, the correlated exposure and the minimal confidence have admitted it; its stop and
  target are on their sides of the entry, its leverage is below both ceilings, and what it loses at its stop is at most 1.8
  times the configured fraction of the equity, scaled by the learned multiplier and the loss-streak dampener.\<close>

theorem agent_signals_justified:
  fixes cfg :: agentConfig and ad :: "'w agentDeps"
  assumes "cycleOpening cfg ad inp now (a0, w0) = (openPositions, equity, opening)"
    and "W w0" "\<And>s w. W w \<Longrightarrow> W (snd (ad_getSymbolLock ad s now w))" "\<And>s w. W w \<Longrightarrow> W (aw_forgetTrailingStop (ad_world ad) s w)"
    and "\<And>i w. W w \<Longrightarrow> closesPosition (aw_getPositions (ad_world ad) w0) i \<Longrightarrow> W (snd (aw_submitSignal (ad_world ad) i now w))"
    and "\<And>i w. W w \<Longrightarrow> ci_allowEntries inp \<Longrightarrow> addsToPosition openPositions i \<Longrightarrow> W (snd (aw_submitSignal (ad_world ad) i now w))"
    and "\<And>i symbol a w. W w \<Longrightarrow> ci_allowEntries inp \<Longrightarrow> atTurn cfg ad inp now (a0, w0) symbol (a, w) \<Longrightarrow>
      entrySound cfg ad openPositions equity now symbol a w i \<Longrightarrow>
      W (snd (aw_submitSignal (ad_world ad) i now (snd (ad_getSymbolLock ad symbol now w))))"
    and "\<And>w. sensible (ad_risk ad w) (fst opening) equity"
  shows "W (snd (left (runAgentCycle cfg ad inp now (a0, w0))))"
proof -
  let ?f = "cycleSymbol cfg ad (\<not> ci_allowEntries inp) openPositions equity now"
  let ?P = "\<lambda>aw :: 'w cycleState. W (snd aw) \<and> at_runtimeRiskMultiplier (fst aw) = at_runtimeRiskMultiplier (fst opening)
    \<and> at_lossStreakDampener (fst aw) = at_lossStreakDampener (fst opening)"
  have "W (snd opening)"
    using evaluateExits_world [of W w0 "ad_world ad" now "ac_exits cfg" _ _] assms(1,2,4,5)
    by (auto simp: cycleOpening_def Let_def split_beta)
  then have "?P opening" by simp
  then have "?P (left (foldR ?f (ac_symbols cfg) opening))"
  proof (rule left_foldR_at [where P = ?P, rotated])
    fix before symbol rest and turn :: "'w cycleState"
    assume split: "ac_symbols cfg = before @ symbol # rest" "foldR ?f before opening = Inr turn" and P: "?P turn"
    obtain a w where turn: "turn = (a, w)" by fastforce
    have here: "atTurn cfg ad inp now (a0, w0) symbol (a, w)"
      using split turn by (auto simp: atTurn_def assms(1))
    have "sensible (ad_risk ad (snd (ad_getSymbolLock ad symbol now w))) a equity"
      using assms(8) P turn by (simp add: sensible_def)
    have w: "W w" using P turn by simp
    have "W (snd (left (?f symbol (a, w))))"
    proof (rule cycleSymbol_keeps [where W = W, OF w assms(3) [OF w]])
      show "W (snd (aw_submitSignal (ad_world ad) i now (snd (ad_getSymbolLock ad symbol now w))))"
        if "\<not> \<not> ci_allowEntries inp" "entrySound cfg ad openPositions equity now symbol a w i" for i
        using assms(7) [OF w _ here that(2)] that(1) by simp
      show "W (snd (aw_submitSignal (ad_world ad) i now w))"
        if "\<not> \<not> ci_allowEntries inp" "addsToPosition openPositions i" for i
        using assms(6) [OF w _ that(2)] that(1) by simp
    qed fact
    then show "?P (left (?f symbol turn))"
      using P turn cycleSymbol_factors [of cfg ad "\<not> ci_allowEntries inp" openPositions equity now symbol turn] by simp
  qed
  then show ?thesis by (simp add: runAgentCycle_opening assms(1))
qed

definition loggingWorld :: "signalInput list agentWorld" where
  "loggingWorld = \<lparr>aw_submitSignal = (\<lambda>i now log. (Inr (Some ((toSignal i now ''id'')\<lparr>sg_status := EXECUTED_SG\<rparr>)), log @ [i])),
     aw_getPositions = (\<lambda>_. [samplePosition ''ETHUSDT'' 20 200]), aw_getEquity = (\<lambda>_. 1000), aw_getLastPrice = (\<lambda>_ _. Some 100),
     aw_detect = (\<lambda>_ _ _ _. Some (sampleSnapshot TRENDING_STRONG)), aw_forgetTrailingStop = (\<lambda>_ w. w), aw_isoDate = showInt,
     aw_showNumber = showFixed 2\<rparr>"

definition loggingDeps :: "agentSetup list \<Rightarrow> signalInput list agentDeps" where
  "loggingDeps setups = \<lparr>ad_world = loggingWorld, ad_mtf = (\<lambda>s t _. computeState (newKlineStore 500) None s t), ad_thesis = (\<lambda>_ _ _. Some BULLISH_CONTINUATION),
     ad_setups = (\<lambda>_ _ _. setups), ad_discovered = (\<lambda>_ _ _. setups), ad_risk = (\<lambda>_. sampleRiskDeps), ad_correlation = None,
     ad_consult = None, ad_modelConfidence = (\<lambda>_ _ _ _ _. None), ad_getSymbolLock = (\<lambda>_ _ w. (None, w))\<rparr>"

definition sampleAgentConfig :: agentConfig where
  "sampleAgentConfig = \<lparr>ac_symbols = [''SOLUSDT'', ''ETHUSDT''], ac_cycleMs = 30000, ac_minConfluence = 65, ac_minRR = 2,
     ac_maxOpenPositions = 3, ac_cooldownMs = 60000, ac_strategyId = ''agent'', ac_minConfidence = 1 / 2,
     ac_regimeConfirmationBars = 3, ac_regimeConfirmationBarsByRegime = (\<lambda>_. None), ac_llmVetoEnabled = True,
     ac_htfAlignmentWeighted = True, ac_htfRangeWeight = 7 / 10, ac_htfCounterTrendWeight = 3 / 10,
     ac_exits = \<lparr>em_exitOnRegimeFlip = True, em_maxUnrealizedLossPct = 8 / 100, em_strategyId = ''agent'', em_scaling = None\<rparr>\<rparr>"

definition sampleReady :: agentSetup where
  "sampleReady = \<lparr>su_id = ''s'', su_symbol = ''SOLUSDT'', su_direction = LONG_D, su_setupType = BULLISH_BOS_CONTINUATION_LONG,
     su_state = READY, su_createdAt = 0, su_updatedAt = 0, su_confirmedAt = None, su_invalidatedAt = None, su_expiresAt = 10 ^ 9,
     su_timeframes = \<lparr>tf_regime4h = BULLISH, tf_structure2h = None, tf_bias1h = BULLISH, tf_structure15m = BULLISH, tf_trigger5m = BULLISH\<rparr>,
     su_structureEvidence = None, su_sweepEvidence = None, su_fvgEvidence = None, su_orderBlockEvidence = None,
     su_retestEvidence = None, su_triggerEvidence = None, su_confluence = emptyConfluence, su_invalidationReason = None,
     su_status = READY_SS, su_sourceCandleTimes = [], su_sourceEventIds = [], su_planZone = None,
     ag_hierarchicalScore = Some 80, ag_rejected = False, ag_stopZone = Some (97, ''zone low''), ag_entryZone = None,
     ag_targetZones = []\<rparr>"

text \<open>A cycle over two symbols, one held and one with a ready setup, whose world is the log of its signals.\<close>

definition sampleCycleInput :: cycleInput where
  "sampleCycleInput = \<lparr>ci_learnedRiskMultiplier = 1, ci_allowEntries = True, ci_riskDampener = 1\<rparr>"

definition sampleOpened :: agent where
  "sampleOpened = newAgent sampleAgentConfig"

lemma sample_opening:
  "cycleOpening sampleAgentConfig (loggingDeps [sampleReady]) sampleCycleInput 100000 (newAgent sampleAgentConfig, [])
    = ([samplePosition ''ETHUSDT'' 20 200], 1000, (sampleOpened, []))"
  by (simp add: cycleOpening_def sampleOpened_def sampleAgentConfig_def loggingDeps_def loggingWorld_def sampleCycleInput_def newAgent_def evaluateExits_def exitStep_def
      isLive_def samplePosition_def evaluateOne_def lossBreached_def computeUnrealizedPct_def regimeFlipped_def newSymbolState_def
      newTrack_def currentRegime_def setupDead_def deriskDue_def holdPosition_def forgetGone_def sampleSnapshot_def mset_def mget_def Let_def)

lemma sample_screens:
  defines "s \<equiv> trackedState sampleAgentConfig (loggingDeps [sampleReady]) 100000 ''SOLUSDT'' sampleOpened []"
  shows "currentRegime (sy_track s) = TRENDING_STRONG"
    "screenMarket sampleAgentConfig False [samplePosition ''ETHUSDT'' 20 200] s 100000 = None"
    "screenSetup sampleAgentConfig [sampleReady] (Some BULLISH_CONTINUATION) = Inr sampleReady"
    "screenPlan (loggingDeps [sampleReady]) a ''SOLUSDT'' sampleReady (getAdaptation TRENDING_STRONG) 1000 ops [] = Inr (LONG, samplePlan)"
    "effectiveScore sampleAgentConfig sampleReady = 80"
proof -
  show r: "currentRegime (sy_track s) = TRENDING_STRONG"
    by (simp add: s_def trackedState_def trackSymbol_def sampleOpened_def newAgent_def sampleAgentConfig_def loggingDeps_def loggingWorld_def
      newSymbolState_def newTrack_def trackRegime_def currentRegime_def sampleSnapshot_def mset_def mget_def coalesce_def)
  have "sy_lastEntryAttemptAt s = 0"
    by (simp add: s_def trackedState_def trackSymbol_def sampleOpened_def newAgent_def sampleAgentConfig_def newSymbolState_def mset_def mget_def coalesce_def)
  then show "screenMarket sampleAgentConfig False [samplePosition ''ETHUSDT'' 20 200] s 100000 = None"
    by (simp add: screenMarket_def r isTradeable_def sampleAgentConfig_def)
  show score: "effectiveScore sampleAgentConfig sampleReady = 80"
    by (simp add: effectiveScore_def scoreOf_def alignmentWeightFor_def sampleAgentConfig_def sampleReady_def coalesce_def math_round_def)
  show "screenSetup sampleAgentConfig [sampleReady] (Some BULLISH_CONTINUATION) = Inr sampleReady"
    using score by (simp add: screenSetup_def bestReady_def) (simp add: sampleReady_def sampleAgentConfig_def)
  have "structuralRiskOf sampleReady
      = Some \<lparr>sc_entryPrice = None, sc_stopPrice = Some 97, sc_takeProfitPrice = None, sc_stopReason = Some ''zone low''\<rparr>"
    "directionOf (su_direction sampleReady) = Some LONG"
    by (simp_all add: structuralRiskOf_def sampleReady_def directionOf_def)
  then show "screenPlan (loggingDeps [sampleReady]) a ''SOLUSDT'' sampleReady (getAdaptation TRENDING_STRONG) 1000 ops [] = Inr (LONG, samplePlan)"
    using samplePlan_computed by (simp add: screenPlan_def loggingDeps_def correlationAdmits_def)
qed

lemma sample_entry:
  "\<exists>a c. cycleSymbol sampleAgentConfig (loggingDeps [sampleReady]) False [samplePosition ''ETHUSDT'' 20 200] 1000 100000 ''SOLUSDT'' (sampleOpened, [])
    = Inr (a, [entrySignal sampleAgentConfig sampleRiskDeps sampleOpened ''SOLUSDT'' LONG samplePlan sampleReady c 1000])"
proof -
  define a where "a = sampleOpened\<lparr>at_perSymbol := mupd ''SOLUSDT''
    (trackSymbol sampleAgentConfig (loggingDeps [sampleReady]) 100000 ''SOLUSDT'' []) (at_perSymbol sampleOpened)\<rparr>"
  have same: "entrySignal sampleAgentConfig sampleRiskDeps a ''SOLUSDT'' LONG samplePlan sampleReady c 1000
      = entrySignal sampleAgentConfig sampleRiskDeps sampleOpened ''SOLUSDT'' LONG samplePlan sampleReady c 1000" for c
    by (simp add: a_def)
  have deps: "ad_getSymbolLock (loggingDeps [sampleReady]) ''SOLUSDT'' 100000 [] = (None, [])" "ad_setups (loggingDeps [sampleReady]) ''SOLUSDT'' 100000 [] = [sampleReady]"
    "ad_thesis (loggingDeps [sampleReady]) ''SOLUSDT'' 100000 [] = Some BULLISH_CONTINUATION"
    "ad_risk (loggingDeps [sampleReady]) [] = sampleRiskDeps" "ad_consult (loggingDeps [sampleReady]) = None"
    "ad_modelConfidence (loggingDeps [sampleReady]) x y z u v = None" for x y z u v
    by (simp_all add: loggingDeps_def)
  have sub: "\<exists>sig. aw_submitSignal (ad_world (loggingDeps [sampleReady])) i now log = (Inr (Some sig), log @ [i]) \<and> sg_status sig = EXECUTED_SG" for i now log
    by (simp add: loggingDeps_def loggingWorld_def)
  have minConf: "\<not> 9 / 10 < ac_minConfidence sampleAgentConfig" by (simp add: sampleAgentConfig_def)
  have conf: "probeEntryConfidence sampleAgentConfig (loggingDeps [sampleReady]) sampleReady samplePlan LONG 80 [] = Some (9 / 10)"
    by (simp add: probeEntryConfidence_def deps deterministicConfidence_def samplePlan_def min_def max_def)
  have "\<exists>a'. submitEntry sampleAgentConfig (loggingDeps [sampleReady]) ''SOLUSDT'' sampleReady LONG samplePlan 1000 100000 a []
      = Inr (a', [entrySignal sampleAgentConfig sampleRiskDeps sampleOpened ''SOLUSDT'' LONG samplePlan sampleReady (9 / 10) 1000])"
    using sub [of "entrySignal sampleAgentConfig sampleRiskDeps a ''SOLUSDT'' LONG samplePlan sampleReady (9 / 10) 1000" 100000 "[]"]
      minConf by (auto simp: submitEntry_def sample_screens(5) conf deps(4) same Let_def)
  moreover let ?s = "trackedState sampleAgentConfig (loggingDeps [sampleReady]) 100000 ''SOLUSDT'' sampleOpened []"
  have pl: "screenPlan (loggingDeps [sampleReady]) a ''SOLUSDT'' sampleReady (getAdaptation (currentRegime (sy_track ?s))) 1000 ops []
      = Inr (LONG, samplePlan)" for ops
    by (simp only: sample_screens(1,4))
  have "cycleSymbol sampleAgentConfig (loggingDeps [sampleReady]) False [samplePosition ''ETHUSDT'' 20 200] 1000 100000 ''SOLUSDT'' (sampleOpened, [])
      = screenEntry sampleAgentConfig (loggingDeps [sampleReady]) False [samplePosition ''ETHUSDT'' 20 200] 1000 100000 ''SOLUSDT'' ?s a []"
    by (simp add: cycleSymbol_def a_def [symmetric] trackedState_def samplePosition_def Let_def)
  ultimately show ?thesis
    by (auto simp: screenEntry_def sample_screens(2,3) pl deps)
qed

lemma sample_held:
  "\<exists>a'. cycleSymbol sampleAgentConfig (loggingDeps [sampleReady]) False [samplePosition ''ETHUSDT'' 20 200] 1000 100000 ''ETHUSDT'' (a, sent)
    = Inr (a', sent)"
  by (simp add: cycleSymbol_def samplePosition_def evaluateScaleInForPosition_def evaluateScaleIn_def sampleAgentConfig_def Let_def)

text \<open>It submits one signal, the entry; and like any signal of this cycle that one closes, adds or is sound at its turn.\<close>

theorem agent_signals_justified_witness:
  "\<exists>i. snd (left (runAgentCycle sampleAgentConfig (loggingDeps [sampleReady]) sampleCycleInput 100000 (newAgent sampleAgentConfig, []))) = [i]
     \<and> si_action i = OPEN_LONG \<and> si_symbol i = ''SOLUSDT''
     \<and> (closesPosition [samplePosition ''ETHUSDT'' 20 200] i \<or> addsToPosition [samplePosition ''ETHUSDT'' 20 200] i
       \<or> (\<exists>symbol a w. atTurn sampleAgentConfig (loggingDeps [sampleReady]) sampleCycleInput 100000 (newAgent sampleAgentConfig, []) symbol (a, w)
            \<and> entrySound sampleAgentConfig (loggingDeps [sampleReady]) [samplePosition ''ETHUSDT'' 20 200] 1000 100000 symbol a w i))"
proof -
  let ?cfg = sampleAgentConfig and ?ad = "loggingDeps [sampleReady]" and ?start = "(newAgent sampleAgentConfig, [])"
  let ?ops = "[samplePosition ''ETHUSDT'' 20 200]"
  let ?ok = "\<lambda>i. closesPosition ?ops i \<or> addsToPosition ?ops i
    \<or> (\<exists>symbol a w. atTurn ?cfg ?ad sampleCycleInput 100000 ?start symbol (a, w) \<and> entrySound ?cfg ?ad ?ops 1000 100000 symbol a w i)"
  have world: "snd (ad_getSymbolLock ?ad s t w) = w" "aw_forgetTrailingStop (ad_world ?ad) s w = w"
    "snd (aw_submitSignal (ad_world ?ad) i t w) = w @ [i]" "aw_getPositions (ad_world ?ad) w = ?ops" "ad_risk ?ad w = sampleRiskDeps" for s t w i
    by (simp_all add: loggingDeps_def loggingWorld_def)
  have sensible: "sensible sampleRiskDeps sampleOpened 1000"
    by (simp add: sensible_def sampleRiskDeps_def sampleOpened_def newAgent_def)
  have all: "list_all ?ok (snd (left (runAgentCycle ?cfg ?ad sampleCycleInput 100000 ?start)))"
    by (rule agent_signals_justified [where W = "list_all ?ok", OF sample_opening]) (use sensible in \<open>auto simp: world\<close>)
  obtain a c where e: "cycleSymbol ?cfg ?ad False ?ops 1000 100000 ''SOLUSDT'' (sampleOpened, [])
      = Inr (a, [entrySignal ?cfg sampleRiskDeps sampleOpened ''SOLUSDT'' LONG samplePlan sampleReady c 1000])"
    using sample_entry by blast
  obtain a' where e': "cycleSymbol ?cfg ?ad False ?ops 1000 100000 ''ETHUSDT''
      (a, [entrySignal ?cfg sampleRiskDeps sampleOpened ''SOLUSDT'' LONG samplePlan sampleReady c 1000])
      = Inr (a', [entrySignal ?cfg sampleRiskDeps sampleOpened ''SOLUSDT'' LONG samplePlan sampleReady c 1000])"
    using sample_held by blast
  have "ac_symbols ?cfg = [''SOLUSDT'', ''ETHUSDT'']" "ci_allowEntries sampleCycleInput"
    by (simp_all add: sampleAgentConfig_def sampleCycleInput_def)
  then have "snd (left (runAgentCycle ?cfg ?ad sampleCycleInput 100000 ?start))
      = [entrySignal ?cfg sampleRiskDeps sampleOpened ''SOLUSDT'' LONG samplePlan sampleReady c 1000]"
    by (simp add: runAgentCycle_opening sample_opening e e' left_def)
  moreover from this have "?ok (entrySignal ?cfg sampleRiskDeps sampleOpened ''SOLUSDT'' LONG samplePlan sampleReady c 1000)"
    using all by simp
  ultimately show ?thesis by (intro exI conjI) (assumption, simp_all add: entrySignal_def split_beta)
qed

subsection \<open>Which size counts\<close>

text \<open>C36. The size a plan or a language-model decision puts into the feature \<open>sizePct\<close> is never read: the
  executor does with a signal exactly what it does without the feature.\<close>

theorem size_feature_ignored:
  "execute L xd (sig\<lparr>si_features := mset ''sizePct'' v (si_features sig)\<rparr>) now x = execute L xd sig now x"
proof -
  let ?sig = "sig\<lparr>si_features := mset ''sizePct'' v (si_features sig)\<rparr>"
  have fields: "si_symbol ?sig = si_symbol sig" "si_action ?sig = si_action sig" "si_stopLossPrice ?sig = si_stopLossPrice sig" by simp_all
  have feature: "featureOr ?sig name d = featureOr sig name d" if "name \<noteq> ''sizePct''" for name d
    using that by (simp add: featureOr_def)
  have orders: "bareCommand ?sig q l side type ro = bareCommand sig q l side type ro"
    "refuseSignal ?sig r y = refuseSignal sig r y" "updateStatus ?sig st oid r y = updateStatus sig st oid r y" for q l side type ro r y st oid
    by (simp_all add: bareCommand_def refuseSignal_def updateStatus_def)
  have built: "buildSignalOrder d ?sig q l = buildSignalOrder d sig q l" "fallbackCommand ?sig q l = fallbackCommand sig q l"
    "protectiveOrder d ?sig q l type p = protectiveOrder d sig q l type p" for d q l type p
    by (simp_all add: buildSignalOrder_def fallbackCommand_def protectiveOrder_def orders Let_def split: signalAction.split)
  have protective: "buildStopLossOrder d ?sig q l = buildStopLossOrder d sig q l" "buildTakeProfitOrder d ?sig q l = buildTakeProfitOrder d sig q l" for d q l
    by (simp_all add: buildStopLossOrder_def buildTakeProfitOrder_def built)
  have protections: "submitProtections xd ?sig q l now s = submitProtections xd sig q l now s" for q l s
    unfolding submitProtections_def protective by simp
  have sized: "executeSized xd ?sig q now y = executeSized xd sig q now y" for q y
    unfolding executeSized_def built orders protections feature [of "''leverage''", simplified] ..
  have size: "resolveOpenSize L xd ?sig e s = resolveOpenSize L xd sig e s" for e s
    unfolding resolveOpenSize_def fields ..
  have quantities: "openQty L xd ?sig e s = openQty L xd sig e s" "closeQty ?sig pos = closeQty sig pos" for e s pos
    unfolding openQty_def closeQty_def closeFraction_def fields size
      feature [of "''quantity''", simplified] feature [of "''closeFraction''", simplified] by (rule refl)+
  show ?thesis
    unfolding execute_def fields quantities orders sized ..
qed

subsection \<open>The cap on positions\<close>

definition decisionsKeep :: "(agentDecision \<Rightarrow> bool) \<Rightarrow> agent \<Rightarrow> bool" where
  "decisionsKeep Q a \<longleftrightarrow> list_all Q (at_decisions a)"

lemma decisionsKeep_decide [simp]:
  "decisionsKeep Q (decide symbol st ac r a) \<longleftrightarrow> decisionsKeep Q a \<and> Q \<lparr>dn_symbol = symbol, dn_state = st, dn_action = ac, dn_reason = r\<rparr>"
  by (simp add: decisionsKeep_def decide_def)

lemma decisionsKeep_perSymbol [simp]: "decisionsKeep Q (a\<lparr>at_perSymbol := m\<rparr>) = decisionsKeep Q a" "decisionsKeep Q (a\<lparr>at_exits := x\<rparr>) = decisionsKeep Q a"
  by (simp_all add: decisionsKeep_def)

definition capVerdict :: "agentConfig \<Rightarrow> position list \<Rightarrow> agentDecision \<Rightarrow> bool" where
  "capVerdict cfg openPositions d \<longleftrightarrow>
     (if ac_maxOpenPositions cfg \<le> length openPositions then dn_action d \<noteq> ENTRY_SUBMITTED else dn_reason d \<noteq> PortfolioFull)"

lemma submitEntry_decisions:
  assumes "decisionsKeep (capVerdict cfg ops) a" "\<not> ac_maxOpenPositions cfg \<le> length ops"
  shows "decisionsKeep (capVerdict cfg ops) (fst (left (submitEntry cfg ad symbol best dir plan equity now a w)))"
  using assms by (auto simp: submitEntry_def capVerdict_def Let_def split: option.splits prod.splits sum.splits)

lemma cycleSymbol_decisions:
  assumes "decisionsKeep (capVerdict cfg ops) (fst aw)"
  shows "decisionsKeep (capVerdict cfg ops) (fst (left (cycleSymbol cfg ad bt ops equity now symbol aw)))"
proof -
  have screen: "decisionsKeep (capVerdict cfg ops) (fst (left (screenEntry cfg ad bt ops equity now symbol s a w)))"
    if keep: "decisionsKeep (capVerdict cfg ops) a" for s a w
  proof (cases "screenMarket cfg bt ops s now")
    case (Some x)
    then show ?thesis using keep
      by (cases x) (auto simp: screenEntry_def screenMarket_def capVerdict_def split: if_splits)
  next
    case None
    then have free: "\<not> ac_maxOpenPositions cfg \<le> length ops" by (auto simp: screenMarket_def split: if_splits)
    have onSetup: "ac \<noteq> ENTRY_SUBMITTED \<and> r \<noteq> PortfolioFull" if "screenSetup cfg ss th = Inl (st, ac, r)" for ss th st ac r
      using that by (auto simp: screenSetup_def split: option.splits if_splits)
    have onPlan: "ac \<noteq> ENTRY_SUBMITTED \<and> r \<noteq> PortfolioFull" if "screenPlan ad a symbol b ra equity ops w1 = Inl (st, ac, r)" for b ra w1 st ac r
      using that by (auto simp: screenPlan_def split: option.splits if_splits)
    show ?thesis
      using keep free None onSetup onPlan submitEntry_decisions [OF keep free]
      by (auto simp: screenEntry_def capVerdict_def split: option.splits sum.splits prod.splits)
  qed
  obtain a0 w where aw: "aw = (a0, w)" by fastforce
  define a where "a = a0\<lparr>at_perSymbol := mupd symbol (trackSymbol cfg ad now symbol w) (at_perSymbol a0)\<rparr>"
  have keep: "decisionsKeep (capVerdict cfg ops) a" using assms by (simp add: a_def aw)
  show ?thesis
  proof (cases "find (\<lambda>p. p_symbol p = symbol \<and> p_status p = OPEN) ops")
    case None
    then show ?thesis using screen [OF keep] by (simp add: cycleSymbol_def aw a_def)
  next
    case (Some pos)
    have "decisionsKeep (capVerdict cfg ops) (fst (snd (evaluateScaleInForPosition cfg ad pos ra bt now a w)))" for ra
      using keep by (simp add: evaluateScaleInForPosition_def Let_def split_beta)
    then show ?thesis using Some by (simp add: cycleSymbol_def aw a_def Let_def split_beta capVerdict_def)
  qed
qed

text \<open>C35. The cap on open positions is a cap on the positions at the start of a cycle. A cycle that starts at the
  cap, after its exits, submits no entry; but in a cycle that starts below it no symbol is ever refused for a
  full portfolio, however many entries the cycle has already submitted.\<close>

theorem position_cap_per_cycle:
  fixes cfg :: agentConfig and ad :: "'w agentDeps"
  defines "afterExits \<equiv> \<lambda>now a0 w0. snd (evaluateExits (ac_exits cfg) (ad_world ad) (at_perSymbol a0) now (at_exits a0) w0)"
  shows "list_all (capVerdict cfg (filter isLive (aw_getPositions (ad_world ad) (afterExits now a0 w0))))
    (at_decisions (fst (left (runAgentCycle cfg ad inp now (a0, w0)))))"
proof -
  let ?a1 = "a0\<lparr>at_decisions := [], at_runtimeRiskMultiplier := (if \<bar>ci_learnedRiskMultiplier inp - at_runtimeRiskMultiplier a0\<bar> > 1 / 1000
    then ci_learnedRiskMultiplier inp else at_runtimeRiskMultiplier a0), at_lossStreakDampener := ci_riskDampener inp\<rparr>"
  obtain xs w where exits: "evaluateExits (ac_exits cfg) (ad_world ad) (at_perSymbol a0) now (at_exits a0) w0 = (xs, w)" by fastforce
  let ?ops = "filter isLive (aw_getPositions (ad_world ad) w)"
  let ?P = "\<lambda>aw :: 'w cycleState. decisionsKeep (capVerdict cfg ?ops) (fst aw)"
  have "?P (left (foldR (cycleSymbol cfg ad (\<not> ci_allowEntries inp) ?ops (aw_getEquity (ad_world ad) w) now) (ac_symbols cfg)
      (?a1\<lparr>at_exits := xs\<rparr>, w)))"
    by (rule left_foldR [where P = ?P]) (rule cycleSymbol_decisions, assumption, simp add: decisionsKeep_def)
  then show ?thesis
    using exits by (simp add: runAgentCycle_def decisionsKeep_def afterExits_def)
qed

end
