(* ===== verification/Exit_Guarantees.thy ===== *)
theory Exit_Guarantees
  imports Exit_Manager
begin

section \<open>What the exit manager guarantees\<close>

text \<open>
  A run of the manager interleaves its passes over the open positions, its additions to single positions and
  anything that happens to the world in between. The budget of additions and the one partial close hold per
  position over every run.
\<close>

datatype 'w exitOp =
    ExitPass "(string, symbolState) jsmap" ms
  | AddPass position "agentSetup list" "tradePlan option" bool number number "(number \<Rightarrow> number \<Rightarrow> bool) option" ms
  | Elsewhere "'w \<Rightarrow> 'w"

definition exitOpStep :: "exitConfig \<Rightarrow> 'w agentWorld \<Rightarrow> 'w exitOp \<Rightarrow> exitState \<times> 'w \<Rightarrow> exitState \<times> 'w" where
  "exitOpStep cfg aw opn = (\<lambda>(xs, w). case opn of
     ExitPass perSymbol now \<Rightarrow> evaluateExits cfg aw perSymbol now xs w
   | AddPass pos setups plan allow minC mult corr now \<Rightarrow> snd (evaluateScaleIn cfg aw pos setups plan allow minC mult corr now xs w)
   | Elsewhere f \<Rightarrow> (xs, f w))"

definition newExitState :: exitState where
  "newExitState = \<lparr>xs_scaleInTracker = [], xs_scaledOutPositions = []\<rparr>"

definition exitRun :: "exitConfig \<Rightarrow> 'w agentWorld \<Rightarrow> 'w exitOp list \<Rightarrow> exitState \<times> 'w \<Rightarrow> exitState \<times> 'w" where
  "exitRun cfg aw ops = fold (exitOpStep cfg aw) ops"

text \<open>Every pass of the run finds a position with the key open.\<close>

fun keyLives :: "exitConfig \<Rightarrow> 'w agentWorld \<Rightarrow> string \<Rightarrow> 'w exitOp list \<Rightarrow> exitState \<times> 'w \<Rightarrow> bool" where
  "keyLives cfg aw key [] xw = True"
| "keyLives cfg aw key (opn # ops) xw \<longleftrightarrow>
     (case opn of ExitPass perSymbol now \<Rightarrow> key \<in> positionKey aw ` set (filter isLive (aw_getPositions aw (snd xw))) | _ \<Rightarrow> True)
     \<and> keyLives cfg aw key ops (exitOpStep cfg aw opn xw)"

subsection \<open>The budget of additions\<close>

definition addsOf :: "string \<Rightarrow> exitState \<Rightarrow> nat" where
  "addsOf key xs = fst (coalesce (mget (xs_scaleInTracker xs) key) (0, 0))"

definition lastAddOf :: "string \<Rightarrow> exitState \<Rightarrow> ms" where
  "lastAddOf key xs = snd (coalesce (mget (xs_scaleInTracker xs) key) (0, 0))"

text \<open>The additions to a position that the engine accepted in a run, counted on the decisions and not on the tracker.\<close>

definition acceptedBy :: "exitConfig \<Rightarrow> 'w agentWorld \<Rightarrow> string \<Rightarrow> 'w exitOp \<Rightarrow> exitState \<times> 'w \<Rightarrow> nat" where
  "acceptedBy cfg aw key opn xw = (case opn of
     AddPass pos setups plan allow minC mult corr now \<Rightarrow>
       (case fst (evaluateScaleIn cfg aw pos setups plan allow minC mult corr now (fst xw) (snd xw)) of
          Some d \<Rightarrow> if sd_submitted d \<and> positionKey aw pos = key then 1 else 0
        | None \<Rightarrow> 0)
   | _ \<Rightarrow> 0)"

fun acceptedAdds :: "exitConfig \<Rightarrow> 'w agentWorld \<Rightarrow> string \<Rightarrow> 'w exitOp list \<Rightarrow> exitState \<times> 'w \<Rightarrow> nat" where
  "acceptedAdds cfg aw key [] xw = 0"
| "acceptedAdds cfg aw key (opn # ops) xw = acceptedBy cfg aw key opn xw + acceptedAdds cfg aw key ops (exitOpStep cfg aw opn xw)"

definition withinBudget :: "nat \<Rightarrow> exitState \<Rightarrow> bool" where
  "withinBudget n xs \<longleftrightarrow> (\<forall>(k, a, t) \<in> set (xs_scaleInTracker xs). a \<le> n)"

lemma mset_entries: "set (mset k v m) \<subseteq> insert (k, v) (set m)"
  by (induction m) (auto simp: mset_def split: if_splits)

lemma withinBudget_addsOf: "withinBudget n xs \<Longrightarrow> addsOf key xs \<le> n"
  by (auto simp: withinBudget_def addsOf_def mget_def dest!: map_of_SomeD split: option.splits
      simp: coalesce_def)

lemma exitStep_tracker: "xs_scaleInTracker (fst (exitStep cfg aw perSymbol equity now pos (xs, w))) = xs_scaleInTracker xs"
  by (auto simp: exitStep_def submitScaleOut_def Let_def split: exitAction.splits option.splits prod.splits)

lemma exitSteps_tracker: "xs_scaleInTracker (fst (fold (exitStep cfg aw perSymbol equity now) ps xw)) = xs_scaleInTracker (fst xw)"
proof (induction ps arbitrary: xw)
  case (Cons p ps)
  then show ?case using exitStep_tracker [of cfg aw perSymbol equity now p "fst xw" "snd xw"] by simp
qed simp

lemma submitAdd_budget:
  assumes "withinBudget n xs" "adds < n"
  shows "withinBudget n (fst (snd (submitAdd cfg sc aw pos pl best q adds mult now xs w)))"
proof -
  obtain r w1 where r: "aw_submitSignal aw (addSignal cfg sc pos pl best q (positionKey aw pos) (adds + 1) mult) now w = (r, w1)"
    by fastforce
  have "withinBudget n (xs\<lparr>xs_scaleInTracker := mset k (a, t) (xs_scaleInTracker xs)\<rparr>)" if "a \<le> n" for k a t
    using assms(1) that mset_entries [of k "(a, t)" "xs_scaleInTracker xs"] by (auto simp: withinBudget_def)
  then show ?thesis using assms unfolding submitAdd_def Let_def r prod.case by (cases r) auto
qed

lemma submitAdd_records:
  fixes cfg sc aw pos pl best q mult now xs w
  defines "res \<equiv> submitAdd cfg sc aw pos pl best q (addsOf (positionKey aw pos) xs) mult now xs w"
  shows "addsOf key (fst (snd res)) = addsOf key xs + (if sd_submitted (fst res) \<and> positionKey aw pos = key then 1 else 0)"
    "sd_submitted (fst res) \<Longrightarrow> lastAddOf (positionKey aw pos) (fst (snd res)) = now"
  by (auto simp: res_def submitAdd_def noAdd_def addsOf_def lastAddOf_def coalesce_def Let_def split_beta split: sum.splits)

lemma submitAdd_qty:
  "sd_submitted (fst (submitAdd cfg sc aw pos pl best q adds mult now xs w)) \<Longrightarrow>
    sd_addQty (fst (submitAdd cfg sc aw pos pl best q adds mult now xs w)) = q"
  by (auto simp: submitAdd_def noAdd_def Let_def split_beta split: sum.splits)

text \<open>What an addition needed: every gate passed.\<close>

lemma evaluateScaleIn_cases:
  fixes cfg aw pos setups plan allow minC mult corr now xs w
  defines "res \<equiv> evaluateScaleIn cfg aw pos setups plan allow minC mult corr now xs w"
  assumes "em_scaling cfg = Some sc"
  obtains "snd res = (xs, w)" "\<And>d. fst res = Some d \<Longrightarrow> \<not> sd_submitted d"
  | pl best where "plan = Some pl" "bestAligned setups (p_qty pos > 0) = Some best" "allow"
      "minC \<le> cb_totalScore (su_confluence best)" "addsOf (positionKey aw pos) xs < sk_scaleInMaxAdds sc"
      "sk_enabled sc \<and> coalesce (aw_getLastPrice aw (p_symbol pos) w) 0 \<noteq> 0 \<and> 0 < aw_getEquity aw w
        \<and> (0 < lastAddOf (positionKey aw pos) xs \<longrightarrow> sk_scaleInCooldownMs sc \<le> now - lastAddOf (positionKey aw pos) xs)"
      "sk_scaleInMinProfitPct sc \<le> computeUnrealizedPct pos (coalesce (aw_getLastPrice aw (p_symbol pos) w) 0) (aw_getEquity aw w)"
      "0 < \<bar>p_qty pos\<bar> * sk_scaleInSizeFraction sc"
      "case corr of None \<Rightarrow> True | Some allows \<Rightarrow>
        allows (\<bar>p_qty pos\<bar> * sk_scaleInSizeFraction sc * coalesce (aw_getLastPrice aw (p_symbol pos) w) 0) (tpl_leverage pl)"
      "snd res = snd (submitAdd cfg sc aw pos pl best (\<bar>p_qty pos\<bar> * sk_scaleInSizeFraction sc)
        (addsOf (positionKey aw pos) xs) mult now xs w)"
      "fst res = Some (fst (submitAdd cfg sc aw pos pl best (\<bar>p_qty pos\<bar> * sk_scaleInSizeFraction sc)
        (addsOf (positionKey aw pos) xs) mult now xs w))"
proof -
  obtain adds lastAt where t: "coalesce (mget (xs_scaleInTracker xs) (positionKey aw pos)) (0, 0) = (adds, lastAt)" by fastforce
  let ?lst = "coalesce (aw_getLastPrice aw (p_symbol pos) w) 0"
  let ?q = "\<bar>p_qty pos\<bar> * sk_scaleInSizeFraction sc"
  have adds: "addsOf (positionKey aw pos) xs = adds" "lastAddOf (positionKey aw pos) xs = lastAt"
    by (simp_all add: addsOf_def lastAddOf_def t)
  note res = res_def evaluateScaleIn_def assms(2) option.case Let_def t prod.case
  show ?thesis
  proof (cases "sk_enabled sc \<and> \<not> (?lst = 0 \<or> aw_getEquity aw w \<le> 0) \<and> allow
      \<and> \<not> computeUnrealizedPct pos ?lst (aw_getEquity aw w) < sk_scaleInMinProfitPct sc")
    case False
    then have "snd res = (xs, w) \<and> (\<forall>d. fst res = Some d \<longrightarrow> \<not> sd_submitted d)"
      by (auto simp: res noAdd_def)
    then show ?thesis using that(1) by blast
  next
    case gates: True
    show ?thesis
    proof (cases "bestAligned setups (p_qty pos > 0)")
      case None
      then have "snd res = (xs, w) \<and> (\<forall>d. fst res = Some d \<longrightarrow> \<not> sd_submitted d)"
        using gates by (auto simp: res noAdd_def)
      then show ?thesis using that(1) by blast
    next
      case (Some best)
      show ?thesis
      proof (cases "\<exists>pl. plan = Some pl \<and> minC \<le> cb_totalScore (su_confluence best) \<and> adds < sk_scaleInMaxAdds sc
          \<and> \<not> (lastAt > 0 \<and> now - lastAt < sk_scaleInCooldownMs sc) \<and> 0 < ?q
          \<and> (case corr of None \<Rightarrow> True | Some allows \<Rightarrow> allows (?q * ?lst) (tpl_leverage pl))")
        case False
        then have "snd res = (xs, w) \<and> (\<forall>d. fst res = Some d \<longrightarrow> \<not> sd_submitted d)"
          using gates Some by (cases plan; cases corr) (auto simp: res noAdd_def)
        then show ?thesis using that(1) by blast
      next
        case True
        then obtain pl where pl: "plan = Some pl" "minC \<le> cb_totalScore (su_confluence best)" "adds < sk_scaleInMaxAdds sc"
          "\<not> (lastAt > 0 \<and> now - lastAt < sk_scaleInCooldownMs sc)" "0 < ?q"
          "case corr of None \<Rightarrow> True | Some allows \<Rightarrow> allows (?q * ?lst) (tpl_leverage pl)" by blast
        obtain d xs1 w1 where sub: "submitAdd cfg sc aw pos pl best ?q adds mult now xs w = (d, xs1, w1)" by (rule prod_cases3)
        have "res = (Some d, xs1, w1)"
          using gates Some pl sub unfolding res by (cases corr) auto
        then show ?thesis using that(2) [of pl best] gates Some pl sub adds by auto
      qed
    qed
  qed
qed

lemma exitOp_budget:
  assumes "em_scaling cfg = Some sc" "withinBudget (sk_scaleInMaxAdds sc) (fst xw)"
  shows "withinBudget (sk_scaleInMaxAdds sc) (fst (exitOpStep cfg aw opn xw))"
proof (cases opn)
  case (ExitPass perSymbol now)
  then show ?thesis
    using assms(2) exitSteps_tracker [of cfg aw perSymbol "aw_getEquity aw (snd xw)" now "aw_getPositions aw (snd xw)" "xw"]
    by (auto simp: exitOpStep_def evaluateExits_def forgetGone_def withinBudget_def Let_def split_beta)
next
  case (AddPass pos setups plan allow minC mult corr now)
  show ?thesis
  proof (rule evaluateScaleIn_cases [OF assms(1), where aw = aw and pos = pos and setups = setups and plan = plan and allow = allow
      and minC = minC and mult = mult and corr = corr and now = now and xs = "fst xw" and w = "snd xw"], goal_cases)
    case 1
    then show ?thesis using assms(2) AddPass by (simp add: exitOpStep_def split_beta)
  next
    case (2 pl best)
    then show ?thesis using AddPass submitAdd_budget [OF assms(2), of "addsOf (positionKey aw pos) (fst xw)"]
      by (simp add: exitOpStep_def split_beta)
  qed
next
  case (Elsewhere f)
  then show ?thesis using assms(2) by (simp add: exitOpStep_def split_beta)
qed

lemma exitRun_budget:
  assumes "em_scaling cfg = Some sc" "withinBudget (sk_scaleInMaxAdds sc) (fst xw)"
  shows "withinBudget (sk_scaleInMaxAdds sc) (fst (exitRun cfg aw ops xw))"
  using assms(2) by (induction ops arbitrary: xw) (auto simp: exitRun_def exitOp_budget [OF assms(1)])

text \<open>The conditions of an addition.\<close>

definition addJustified ::
  "scalingConfig \<Rightarrow> 'w agentWorld \<Rightarrow> position \<Rightarrow> agentSetup list \<Rightarrow> tradePlan option \<Rightarrow> bool \<Rightarrow> number
    \<Rightarrow> (number \<Rightarrow> number \<Rightarrow> bool) option \<Rightarrow> ms \<Rightarrow> exitState \<Rightarrow> 'w \<Rightarrow> scaleInDecision \<Rightarrow> bool" where
  "addJustified sc aw pos setups plan allow minC corr now xs w d \<longleftrightarrow>
     (let key = positionKey aw pos; lst = coalesce (aw_getLastPrice aw (p_symbol pos) w) 0; equity = aw_getEquity aw w in
      sk_enabled sc \<and> lst \<noteq> 0 \<and> 0 < equity \<and> allow
      \<and> addsOf key xs < sk_scaleInMaxAdds sc
      \<and> (0 < lastAddOf key xs \<longrightarrow> sk_scaleInCooldownMs sc \<le> now - lastAddOf key xs)
      \<and> sk_scaleInMinProfitPct sc \<le> computeUnrealizedPct pos lst equity
      \<and> (\<exists>best pl. bestAligned setups (p_qty pos > 0) = Some best \<and> minC \<le> cb_totalScore (su_confluence best) \<and> plan = Some pl
          \<and> (case corr of None \<Rightarrow> True | Some allows \<Rightarrow> allows (sd_addQty d * lst) (tpl_leverage pl)))
      \<and> sd_addQty d = \<bar>p_qty pos\<bar> * sk_scaleInSizeFraction sc \<and> 0 < sd_addQty d)"

lemma submitted_gates:
  assumes "em_scaling cfg = Some sc" "fst (evaluateScaleIn cfg aw pos setups plan allow minC mult corr now xs w) = Some d" "sd_submitted d"
  shows "addJustified sc aw pos setups plan allow minC corr now xs w d"
    "lastAddOf (positionKey aw pos) (fst (snd (evaluateScaleIn cfg aw pos setups plan allow minC mult corr now xs w))) = now"
proof (atomize (full), rule evaluateScaleIn_cases [OF assms(1), where aw = aw and pos = pos and setups = setups and plan = plan and allow = allow
    and minC = minC and mult = mult and corr = corr and now = now and xs = xs and w = w], goal_cases)
  case 1
  then show ?case using assms(2,3) by blast
next
  case (2 pl best)
  let ?q = "\<bar>p_qty pos\<bar> * sk_scaleInSizeFraction sc"
  have d: "fst (submitAdd cfg sc aw pos pl best ?q (addsOf (positionKey aw pos) xs) mult now xs w) = d"
    using 2(11) assms(2) by simp
  have "sd_addQty d = ?q"
    using submitAdd_qty [of cfg sc aw pos pl best ?q] d assms(3) by metis
  then show ?case
    using 2(1-9) submitAdd_records(2) [of cfg sc aw pos pl best ?q xs mult now w] d assms(3) 2(10)
    by (cases corr) (simp_all add: addJustified_def Let_def)
qed

text \<open>An operation records exactly the additions that were accepted.\<close>

lemma mget_live: "key \<in> S \<Longrightarrow> mget (filter (\<lambda>(k, v). k \<in> S) m) key = mget m key"
  by (induction m) (auto simp: mget_def)

lemma exitOp_records:
  assumes "em_scaling cfg = Some sc" "keyLives cfg aw key [opn] xw"
  shows "addsOf key (fst (exitOpStep cfg aw opn xw)) = addsOf key (fst xw) + acceptedBy cfg aw key opn xw"
proof (cases opn)
  case (ExitPass perSymbol now)
  then show ?thesis
    using assms(2) exitSteps_tracker [of cfg aw perSymbol "aw_getEquity aw (snd xw)" now "aw_getPositions aw (snd xw)" "xw"]
    by (simp add: exitOpStep_def evaluateExits_def forgetGone_def addsOf_def acceptedBy_def mget_live Let_def split_beta)
next
  case (AddPass pos setups plan allow minC mult corr now)
  show ?thesis
  proof (rule evaluateScaleIn_cases [OF assms(1), where aw = aw and pos = pos and setups = setups and plan = plan and allow = allow
      and minC = minC and mult = mult and corr = corr and now = now and xs = "fst xw" and w = "snd xw"], goal_cases)
    case 1
    then show ?thesis using AddPass by (auto simp: exitOpStep_def acceptedBy_def split_beta split: option.split)
  next
    case (2 pl best)
    then show ?thesis
      using AddPass submitAdd_records(1) [of key cfg sc aw pos pl best "\<bar>p_qty pos\<bar> * sk_scaleInSizeFraction sc" "fst xw" mult now "snd xw"]
      by (simp add: exitOpStep_def acceptedBy_def split_beta)
  qed
next
  case (Elsewhere f)
  then show ?thesis by (simp add: exitOpStep_def acceptedBy_def split_beta)
qed

lemma exitRun_records:
  assumes "em_scaling cfg = Some sc" "keyLives cfg aw key ops xw"
  shows "addsOf key (fst (exitRun cfg aw ops xw)) = addsOf key (fst xw) + acceptedAdds cfg aw key ops xw"
  using assms(2)
proof (induction ops arbitrary: xw)
  case Nil
  then show ?case by (simp add: exitRun_def)
next
  case (Cons opn ops)
  have "keyLives cfg aw key [opn] xw" using Cons.prems by simp
  from exitOp_records [OF assms(1) this] show ?case using Cons by (simp add: exitRun_def)
qed

text \<open>C17. A pyramid is bounded. After any run from a fresh manager, as long as every pass finds a position with the key
  open, the engine accepts at most as many additions to it as the budget leaves, and every accepted
  one is recorded. An addition is accepted only when scaling is on, price and equity are known, entries are allowed,
  the budget is not used up, the cooldown since the last recorded addition is over, the profit has reached the
  threshold, a ready setup in the position's direction scores enough, a new plan exists and the correlation
  guard, where one is asked, has admitted the added notional; its size is the fraction of the position, and it
  starts the cooldown anew.\<close>

theorem pyramid_bounded:
  fixes cfg aw before ops w0 pos setups plan allow minC mult corr now
  defines "s0 \<equiv> exitRun cfg aw before (newExitState, w0)"
  defines "s \<equiv> exitRun cfg aw ops s0"
  defines "res \<equiv> evaluateScaleIn cfg aw pos setups plan allow minC mult corr now (fst s) (snd s)"
  assumes "em_scaling cfg = Some sc" "keyLives cfg aw key ops s0"
  shows "addsOf key (fst s0) + acceptedAdds cfg aw key ops s0 \<le> sk_scaleInMaxAdds sc
    \<and> addsOf key (fst s) = addsOf key (fst s0) + acceptedAdds cfg aw key ops s0
    \<and> (\<forall>d. fst res = Some d \<and> sd_submitted d \<longrightarrow>
        addJustified sc aw pos setups plan allow minC corr now (fst s) (snd s) d
        \<and> lastAddOf (positionKey aw pos) (fst (snd res)) = now)"
proof -
  have "withinBudget (sk_scaleInMaxAdds sc) (fst s0)"
    unfolding s0_def by (rule exitRun_budget [OF assms(4)]) (simp add: withinBudget_def newExitState_def)
  then have "withinBudget (sk_scaleInMaxAdds sc) (fst s)"
    unfolding s_def by (rule exitRun_budget [OF assms(4)])
  then have "addsOf key (fst s) \<le> sk_scaleInMaxAdds sc" by (rule withinBudget_addsOf)
  then show ?thesis
    using exitRun_records [OF assms(4,5)] submitted_gates [OF assms(4)] by (auto simp: s_def res_def)
qed

subsection \<open>The partial close\<close>

lemma exitStep_scaledOut: "key \<in> set (xs_scaledOutPositions (fst xw)) \<Longrightarrow>
    key \<in> set (xs_scaledOutPositions (fst (exitStep cfg aw perSymbol equity now pos xw)))"
  by (cases xw) (auto simp: exitStep_def submitScaleOut_def Let_def split: exitAction.splits option.splits prod.splits)

lemma exitSteps_scaledOut: "key \<in> set (xs_scaledOutPositions (fst xw)) \<Longrightarrow>
    key \<in> set (xs_scaledOutPositions (fst (fold (exitStep cfg aw perSymbol equity now) ps xw)))"
proof (induction ps arbitrary: xw)
  case (Cons p ps)
  then show ?case using Cons.IH [OF exitStep_scaledOut [OF Cons.prems]] by simp
qed simp

lemma submitAdd_scaledOut: "xs_scaledOutPositions (fst (snd (submitAdd cfg sc aw pos pl best q adds mult now xs w))) = xs_scaledOutPositions xs"
  by (auto simp: submitAdd_def Let_def split_beta split: sum.splits)

lemma evaluateScaleIn_scaledOut:
  "xs_scaledOutPositions (fst (snd (evaluateScaleIn cfg aw pos setups plan allow minC mult corr now xs w))) = xs_scaledOutPositions xs"
proof (cases "em_scaling cfg")
  case None
  then show ?thesis by (simp add: evaluateScaleIn_def)
next
  case (Some sc)
  show ?thesis
    by (rule evaluateScaleIn_cases [OF Some, where aw = aw and pos = pos and setups = setups and plan = plan and allow = allow
      and minC = minC and mult = mult and corr = corr and now = now and xs = xs and w = w]) (simp_all add: submitAdd_scaledOut)
qed

lemma scaledOut_stays:
  assumes "key \<in> set (xs_scaledOutPositions (fst xw))" "keyLives cfg aw key ops xw"
  shows "key \<in> set (xs_scaledOutPositions (fst (exitRun cfg aw ops xw)))"
  using assms
proof (induction ops arbitrary: xw)
  case Nil
  then show ?case by (simp add: exitRun_def)
next
  case (Cons opn ops)
  have "key \<in> set (xs_scaledOutPositions (fst (exitOpStep cfg aw opn xw)))"
  proof (cases opn)
    case (ExitPass perSymbol now)
    then show ?thesis
      using Cons.prems exitSteps_scaledOut [OF Cons.prems(1), of cfg aw perSymbol "aw_getEquity aw (snd xw)" now "aw_getPositions aw (snd xw)"]
      by (auto simp: exitOpStep_def evaluateExits_def forgetGone_def Let_def split_beta)
  qed (use Cons.prems in \<open>auto simp: exitOpStep_def split_beta evaluateScaleIn_scaledOut\<close>)
  then show ?case using Cons.IH Cons.prems by (simp add: exitRun_def)
qed

text \<open>C34. A loser is cut down once: after the engine has accepted a partial close of a position, no pass decides
  another partial close of it, whatever happens in between, as long as every pass still finds it open. A later
  full exit is not affected.\<close>

theorem derisked_once:
  assumes "em_scaling cfg = Some sc"
    "acceptedSubmission (fst (aw_submitSignal aw (scaleOutSignal cfg sc pos (xc_confidence d) (positionKey aw pos)) now w))"
    "keyLives cfg aw (positionKey aw pos) ops (submitScaleOut cfg aw pos d now xs w)"
    "positionKey aw pos' = positionKey aw pos"
  shows "xc_action (evaluateOne cfg aw (fst (exitRun cfg aw ops (submitScaleOut cfg aw pos d now xs w))) pos' perSymbol equity later w') \<noteq> SCALE_OUT"
proof -
  have "positionKey aw pos \<in> set (xs_scaledOutPositions (fst (submitScaleOut cfg aw pos d now xs w)))"
    using assms(1,2) by (simp add: submitScaleOut_def Let_def split_beta)
  from scaledOut_stays [OF this assms(3)]
  show ?thesis
    using assms(1,4) by (auto simp: evaluateOne_def Let_def deriskDue_def exitNow_def holdPosition_def split: option.splits)
qed

definition sampleAgentWorld :: "position list agentWorld" where
  "sampleAgentWorld = \<lparr>aw_submitSignal = (\<lambda>i now w. (Inr (Some ((toSignal i now ''id'')\<lparr>sg_status := EXECUTED_SG\<rparr>)), w)),
     aw_getPositions = id, aw_getEquity = (\<lambda>_. 1000), aw_getLastPrice = (\<lambda>_ _. Some 98), aw_detect = (\<lambda>_ _ _ _. None),
     aw_forgetTrailingStop = (\<lambda>_ w. w), aw_isoDate = showInt, aw_showNumber = showFixed 2\<rparr>"

definition sampleScaling :: scalingConfig where
  "sampleScaling = \<lparr>sk_enabled = True, sk_scaleInMinProfitPct = 1 / 100, sk_scaleInSizeFraction = 1 / 2, sk_scaleInMaxAdds = 2,
     sk_scaleInCooldownMs = 60000, sk_scaleOutTriggerPct = 3 / 100, sk_scaleOutCloseFraction = 1 / 2\<rparr>"

definition sampleExitConfig :: exitConfig where
  "sampleExitConfig = \<lparr>em_exitOnRegimeFlip = True, em_maxUnrealizedLossPct = 8 / 100, em_strategyId = ''agent'',
     em_scaling = Some sampleScaling\<rparr>"

definition sampleHeld :: position where
  "sampleHeld = \<lparr>p_accountId = ''a'', p_symbol = ''SOLUSDT'', p_positionSide = BOTH, p_status = OPEN, p_qty = 20,
     p_entryPrice = 100, p_markPrice = None, p_unrealizedPnl = 0, p_realizedPnl = 0, p_leverage = 10, p_initialMargin = 200,
     p_maintenanceMargin = 0, p_maintenanceMarginRate = 0, p_totalFees = 0, p_totalFunding = 0, p_openedAtUtc = Some 5,
     p_updatedAtUtc = 0, p_closedAtUtc = None\<rparr>"

definition sampleDecision :: exitDecision where
  "sampleDecision = evaluateOne sampleExitConfig sampleAgentWorld newExitState sampleHeld [] 1000 0 [sampleHeld]"

text \<open>A position 4 percent of equity under water is due a partial close; after it, and a pass, no other.\<close>

theorem derisked_once_witness:
  "xc_action sampleDecision = SCALE_OUT
    \<and> xc_action (evaluateOne sampleExitConfig sampleAgentWorld
        (fst (exitRun sampleExitConfig sampleAgentWorld [ExitPass [] 1]
          (submitScaleOut sampleExitConfig sampleAgentWorld sampleHeld sampleDecision 0 newExitState [sampleHeld])))
        sampleHeld [] 1000 2 [sampleHeld]) \<noteq> SCALE_OUT"
proof
  show "xc_action sampleDecision = SCALE_OUT"
    by (simp add: sampleDecision_def evaluateOne_def sampleExitConfig_def sampleAgentWorld_def newExitState_def sampleHeld_def
      lossBreached_def computeUnrealizedPct_def setupDead_def deriskDue_def sampleScaling_def Let_def)
  have "snd (submitScaleOut sampleExitConfig sampleAgentWorld sampleHeld sampleDecision 0 newExitState [sampleHeld]) = [sampleHeld]"
    by (simp add: submitScaleOut_def sampleExitConfig_def sampleAgentWorld_def Let_def)
  then have "keyLives sampleExitConfig sampleAgentWorld (positionKey sampleAgentWorld sampleHeld) [ExitPass [] 1]
      (submitScaleOut sampleExitConfig sampleAgentWorld sampleHeld sampleDecision 0 newExitState [sampleHeld])"
    by (simp add: sampleAgentWorld_def isLive_def sampleHeld_def)
  then show "xc_action (evaluateOne sampleExitConfig sampleAgentWorld
        (fst (exitRun sampleExitConfig sampleAgentWorld [ExitPass [] 1]
          (submitScaleOut sampleExitConfig sampleAgentWorld sampleHeld sampleDecision 0 newExitState [sampleHeld])))
        sampleHeld [] 1000 2 [sampleHeld]) \<noteq> SCALE_OUT"
    by (intro derisked_once [where sc = sampleScaling])
      (simp_all add: sampleExitConfig_def, simp_all add: sampleAgentWorld_def acceptedSubmission_def)
qed

text \<open>A winner with a ready setup and a plan is added to twice; the third time the budget is used up.\<close>

definition winningWorld :: "position list agentWorld" where
  "winningWorld = sampleAgentWorld\<lparr>aw_getLastPrice := (\<lambda>_ _. Some 110)\<rparr>"

definition readyAdd :: agentSetup where
  "readyAdd = \<lparr>su_id = ''r'', su_symbol = ''SOLUSDT'', su_direction = LONG_D, su_setupType = BULLISH_BOS_CONTINUATION_LONG, su_state = TRIGGERED,
     su_createdAt = 0, su_updatedAt = 0, su_confirmedAt = None, su_invalidatedAt = None, su_expiresAt = 0,
     su_timeframes = \<lparr>tf_regime4h = BULLISH, tf_structure2h = None, tf_bias1h = BULLISH, tf_structure15m = BULLISH, tf_trigger5m = BULLISH\<rparr>,
     su_structureEvidence = None, su_sweepEvidence = None, su_fvgEvidence = None, su_orderBlockEvidence = None,
     su_retestEvidence = None, su_triggerEvidence = None,
     su_confluence = \<lparr>cb_htfAlignmentScore = 0, cb_structureScore = 0, cb_liquiditySweepScore = 0, cb_fvgScore = 0, cb_orderBlockScore = 0,
       cb_retestScore = 0, cb_triggerScore = 0, cb_dataQualityScore = 0, cb_totalScore = 80, cb_maxScore = 100\<rparr>,
     su_invalidationReason = None, su_status = READY_SS, su_sourceCandleTimes = [], su_sourceEventIds = [], su_planZone = None,
     ag_hierarchicalScore = None, ag_rejected = False, ag_stopZone = None, ag_entryZone = None, ag_targetZones = []\<rparr>"

definition addPlan :: tradePlan where
  "addPlan = \<lparr>tpl_adaptation = getAdaptation TRENDING_NORMAL, tpl_stopLossPrice = 105, tpl_takeProfitPrice = 120, tpl_leverage = 5,
     tpl_riskMultiplier = 1, tpl_regimeBias = 0, tpl_rr = 2, tpl_netRR = 2, tpl_roundTripCost = 0, tpl_atr = 1, tpl_entryPrice = 110,
     tpl_direction = LONG, tpl_structuralStopUsed = False, tpl_stopReason = None\<rparr>"

definition addAt :: "ms \<Rightarrow> position list exitOp" where
  "addAt t = AddPass sampleHeld [readyAdd] (Some addPlan) True 50 1 None t"

lemma winner_add:
  "evaluateScaleIn sampleExitConfig winningWorld sampleHeld [readyAdd] (Some addPlan) True 50 1 None t xs [sampleHeld] =
     (if addsOf (positionKey winningWorld sampleHeld) xs \<ge> 2
      then (Some (noAdd BudgetExhausted (addsOf (positionKey winningWorld sampleHeld) xs)), xs, [sampleHeld])
      else if lastAddOf (positionKey winningWorld sampleHeld) xs > 0 \<and> t - lastAddOf (positionKey winningWorld sampleHeld) xs < 60000
      then (Some (noAdd AddCooldown (addsOf (positionKey winningWorld sampleHeld) xs)), xs, [sampleHeld])
      else (Some \<lparr>sd_submitted = True, sd_reason = AddSubmitted, sd_addQty = 10,
          sd_addsTaken = addsOf (positionKey winningWorld sampleHeld) xs + 1\<rparr>,
        xs\<lparr>xs_scaleInTracker := mset (positionKey winningWorld sampleHeld) (addsOf (positionKey winningWorld sampleHeld) xs + 1, t)
          (xs_scaleInTracker xs)\<rparr>, [sampleHeld]))"
proof -
  have "bestAligned [readyAdd] True = Some readyAdd" "cb_totalScore (su_confluence readyAdd) = 80"
    by (simp_all add: bestAligned_def readyAdd_def)
  then show ?thesis
    by (simp add: evaluateScaleIn_def submitAdd_def winningWorld_def sampleAgentWorld_def sampleExitConfig_def sampleScaling_def
      sampleHeld_def computeUnrealizedPct_def acceptedSubmission_def addsOf_def lastAddOf_def Let_def split_beta)
qed

lemma winner_pass:
  "evaluateExits sampleExitConfig winningWorld [] t xs [sampleHeld]
    = (forgetGone [positionKey winningWorld sampleHeld] xs, [sampleHeld])"
  by (simp add: evaluateExits_def exitStep_def evaluateOne_def isLive_def winningWorld_def sampleAgentWorld_def sampleExitConfig_def
    sampleScaling_def sampleHeld_def lossBreached_def deriskDue_def setupDead_def computeUnrealizedPct_def holdPosition_def Let_def mget_def)

theorem pyramid_bounded_witness:
  "acceptedAdds sampleExitConfig winningWorld (positionKey winningWorld sampleHeld) [addAt 1, ExitPass [] 2, addAt 60001]
     (newExitState, [sampleHeld]) = 2
   \<and> acceptedAdds sampleExitConfig winningWorld (positionKey winningWorld sampleHeld) [addAt 1, ExitPass [] 2, addAt 60001, addAt 120001]
     (newExitState, [sampleHeld]) \<le> 2"
proof
  let ?K = "positionKey winningWorld sampleHeld"
  have start: "addsOf ?K newExitState = 0" "lastAddOf ?K newExitState = 0"
    by (simp_all add: addsOf_def lastAddOf_def newExitState_def mget_def coalesce_def)
  show "acceptedAdds sampleExitConfig winningWorld ?K [addAt 1, ExitPass [] 2, addAt 60001] (newExitState, [sampleHeld]) = 2"
    by (simp add: addAt_def acceptedBy_def exitOpStep_def winner_add winner_pass start)
      (simp add: addsOf_def lastAddOf_def forgetGone_def newExitState_def mget_def mset_def)
  have live: "keyLives sampleExitConfig winningWorld ?K [addAt 1, ExitPass [] 2, addAt 60001, addAt 120001]
      (exitRun sampleExitConfig winningWorld [] (newExitState, [sampleHeld]))"
    by (simp add: exitRun_def addAt_def exitOpStep_def winner_add)
      (simp add: winningWorld_def sampleAgentWorld_def isLive_def sampleHeld_def)
  show "acceptedAdds sampleExitConfig winningWorld ?K [addAt 1, ExitPass [] 2, addAt 60001, addAt 120001] (newExitState, [sampleHeld]) \<le> 2"
    using pyramid_bounded [OF _ live, of sampleScaling] start(1) by (simp add: sampleExitConfig_def sampleScaling_def exitRun_def)
qed

end
