(* ===== verification/Indicator_Guarantees.thy ===== *)
theory Indicator_Guarantees
  imports Indicators
begin

section \<open>What the indicators guarantee\<close>

text \<open>
  The moving average against the mean of its window, the ranges of the oscillators and the ratchet of the
  Supertrend line.
\<close>

subsection \<open>The running sum\<close>

lemma window_slides:
  assumes "Suc i < length vs" "0 < period"
  shows "sum_list (windowOf period (Suc i) vs) = sum_list (windowOf period i vs) + vs ! Suc i
    - (if period \<le> Suc i then vs ! (Suc i - period) else (0 :: number))"
proof -
  have take: "take (Suc (Suc i)) vs = take (Suc i) vs @ [vs ! Suc i]" using assms(1) by (rule take_Suc_conv_app_nth)
  show ?thesis
  proof (cases "period \<le> Suc i")
    case False
    then show ?thesis by (simp add: windowOf_def take)
  next
    case True
    then have "Suc i - period < length (take (Suc i) vs)" using assms by auto
    then have "drop (Suc i - period) (take (Suc i) vs) = vs ! (Suc i - period) # drop (Suc (Suc i - period)) (take (Suc i) vs)"
      using assms True by (subst Cons_nth_drop_Suc [symmetric]) auto
    moreover have "Suc (Suc i) - period = Suc (Suc i - period)" using True by simp
    ultimately show ?thesis using True assms by (simp add: windowOf_def take)
  qed
qed

lemma sma_loop:
  assumes "n \<le> length vs" "0 < period"
  shows "fold (\<lambda>i (s, res). let s1 = smaSum (map Some vs) period i s in
      (s1, res @ [if period - 1 \<le> i then map_option (\<lambda>s. s / of_nat period) s1 else None])) [0..<n] (Some 0, [])
    = (Some (if n = 0 then 0 else sum_list (windowOf period (n - 1) vs)),
       map (\<lambda>i. if period - 1 \<le> i then Some (sum_list (windowOf period i vs) / of_nat period) else None) [0..<n])"
  using assms(1)
proof (induction n)
  case 0
  then show ?case by simp
next
  case (Suc n)
  have "smaSum (map Some vs) period n (Some (if n = 0 then 0 else sum_list (windowOf period (n - 1) vs)))
      = Some (sum_list (windowOf period n vs))"
  proof (cases n)
    case 0
    obtain v ws where "vs = v # ws" using Suc.prems 0 by (cases vs) auto
    then show ?thesis using 0 assms(2) by (simp add: smaSum_def windowOf_def Let_def)
  next
    case (Suc k)
    then show ?thesis using window_slides [of k vs period] Suc.prems assms(2) by (simp add: smaSum_def Let_def)
  qed
  then show ?case using Suc by simp
qed

text \<open>The moving average, kept as a running sum that adds the newest and takes off the oldest value, is at
  every bar from the period on the mean of the last \<open>period\<close> values, and \<open>NaN\<close> before.\<close>

theorem sma_is_window_mean:
  "sma (map Some vs) period = (if length vs < period \<or> period = 0 then []
     else map (\<lambda>i. if period - 1 \<le> i then Some (sum_list (windowOf period i vs) / of_nat period) else None) [0..<length vs])"
  by (simp add: sma_def sma_loop del: One_nat_def)

subsection \<open>The oscillators\<close>

definition entriesWithin :: "number \<Rightarrow> number \<Rightarrow> series \<Rightarrow> bool" where
  "entriesWithin lo hi vs \<longleftrightarrow> list_all (\<lambda>v. case v of None \<Rightarrow> True | Some x \<Rightarrow> lo \<le> x \<and> x \<le> hi) vs"

lemma entriesWithin_replicate [simp]: "entriesWithin lo hi (replicate n None)"
  by (simp add: entriesWithin_def list_all_iff)

text \<open>A filled array stays in a range that the running values keep.\<close>

lemma fillFrom_within:
  assumes "a \<le> b" "b \<le> length res" "entriesWithin lo hi res" "P s"
    "\<And>i s. a \<le> i \<Longrightarrow> i < b \<Longrightarrow> P s \<Longrightarrow> P (f i s)"
    "\<And>s v. P s \<Longrightarrow> g s = Some v \<Longrightarrow> lo \<le> v \<and> v \<le> hi"
  shows "entriesWithin lo hi (fillFrom f g a b s res)"
proof -
  have inv: "P (fold f [a..<Suc j] s)" if "j < b" for j
  proof (rule fold_invariant [where P = P])
    show "P (f i s)" if "i \<in> set [a..<Suc j]" "P s" for i s
      using that \<open>j < b\<close> by (intro assms(5)) auto
  qed (rule assms(4))
  show ?thesis unfolding entriesWithin_def list_all_length
  proof (intro allI impI)
    fix j
    assume j: "j < length (fillFrom f g a b s res)"
    then have len: "j < length res" using assms(1,2) by simp
    show "case fillFrom f g a b s res ! j of None \<Rightarrow> True | Some x \<Rightarrow> lo \<le> x \<and> x \<le> hi"
    proof (cases "a \<le> j \<and> j < b")
      case True
      then have "fillFrom f g a b s res ! j = g (fold f [a..<Suc j] s)" by (simp add: nth_fillFrom [OF assms(1,2) len])
      then show ?thesis using assms(6) [OF inv [of j]] True by (simp only: split: option.split) blast
    next
      case False
      then have "fillFrom f g a b s res ! j = res ! j" using nth_fillFrom [OF assms(1,2) len] by (simp only: if_False)
      then show ?thesis using assms(3) len by (simp add: entriesWithin_def list_all_length)
    qed
  qed
qed

lemma entriesWithin_update: "entriesWithin lo hi vs \<Longrightarrow> lo \<le> v \<Longrightarrow> v \<le> hi \<Longrightarrow> entriesWithin lo hi (vs[i := Some v])"
  unfolding entriesWithin_def list_all_iff by (auto dest!: subsetD [OF set_update_subset_insert])

lemma rsiOf_range: "0 \<le> g \<Longrightarrow> 0 \<le> l \<Longrightarrow> 0 \<le> rsiOf (g, l) \<and> rsiOf (g, l) \<le> 100"
proof (cases "l = 0")
  case False
  assume "0 \<le> g" "0 \<le> l"
  then have "0 \<le> g / l" by simp
  moreover have "0 \<le> 100 / (1 + h) \<and> 100 / (1 + h) \<le> 100" if "0 \<le> h" for h :: number
    using that by (simp add: divide_le_eq)
  ultimately have "0 \<le> 100 / (1 + g / l) \<and> 100 / (1 + g / l) \<le> 100" by blast
  then show ?thesis using False unfolding rsiOf_def by simp
qed (simp add: rsiOf_def)

lemma rsi_seed_nonneg: "case rsiSeed vs period of (g, l) \<Rightarrow> 0 \<le> g \<and> 0 \<le> l"
proof -
  have "case fold (\<lambda>i (g, l). let change = vs ! i - vs ! (i - 1) in
      if change > 0 then (g + change, l) else (g, l - change)) [1..<Suc period] (0, 0) of (g, l) \<Rightarrow> 0 \<le> g \<and> 0 \<le> l"
    by (rule fold_invariant [where P = "\<lambda>(g, l). 0 \<le> g \<and> 0 \<le> l"]) (auto simp: Let_def split: if_splits)
  then show ?thesis unfolding rsiSeed_def by (auto simp: Let_def split: prod.splits)
qed

lemma rsi_range: "entriesWithin 0 100 (rsi vs period)"
proof (cases "length vs < period + 1 \<or> period = 0")
  case True
  then show ?thesis by (auto simp: rsi_def)
next
  case False
  let ?P = "\<lambda>(g, l). 0 \<le> g \<and> 0 \<le> (l :: number)"
  have seed: "?P (rsiSeed vs period)" by (rule rsi_seed_nonneg)
  have val: "0 \<le> v \<and> v \<le> 100" if "?P s" "Some (rsiOf s) = Some v" for s v
    using that rsiOf_range [of "fst s" "snd s"] by (auto split: prod.splits)
  have step: "?P (rsiStep vs period i s)" if "?P s" for i s
    using that False by (auto simp: rsiStep_def Let_def intro!: divide_nonneg_nonneg add_nonneg_nonneg mult_nonneg_nonneg)
  have init: "entriesWithin 0 100 ((replicate (length vs) None)[period := Some (rsiOf (rsiSeed vs period))])"
    using val [OF seed] by (intro entriesWithin_update) auto
  have "entriesWithin 0 100 (fillFrom (rsiStep vs period) (\<lambda>s. Some (rsiOf s)) (Suc period) (length vs) (rsiSeed vs period)
      ((replicate (length vs) None)[period := Some (rsiOf (rsiSeed vs period))]))"
  proof (rule fillFrom_within [where P = ?P, OF _ _ init seed])
    show "?P (rsiStep vs period i s)" if "?P s" for i s using that by (rule step)
    show "0 \<le> v \<and> v \<le> 100" if "?P s" "Some (rsiOf s) = Some v" for s v using that by (rule val)
  qed (use False in simp_all)
  then show ?thesis using False by (simp add: rsi_def Let_def)
qed

definition wellShaped :: "candle \<Rightarrow> bool" where
  "wellShaped c \<longleftrightarrow> k_low c \<le> k_close c \<and> k_close c \<le> k_high c"

lemma moves_below_range:
  "wellShaped cur \<Longrightarrow> wellShaped prev \<Longrightarrow> plusMove cur prev \<le> rangeMove cur prev \<and> minusMove cur prev \<le> rangeMove cur prev
    \<and> 0 \<le> plusMove cur prev \<and> 0 \<le> minusMove cur prev"
  by (auto simp: wellShaped_def plusMove_def minusMove_def rangeMove_def trueRange_def Let_def max_def abs_if)

definition adxSane :: "nat \<Rightarrow> adxState \<Rightarrow> bool" where
  "adxSane period s \<longleftrightarrow> 0 \<le> as_plus s \<and> as_plus s \<le> as_tr s \<and> 0 \<le> as_minus s \<and> as_minus s \<le> as_tr s
    \<and> (\<forall>x \<in> set (as_dxList s). 0 \<le> x \<and> x \<le> 100) \<and> (\<forall>a. as_adx s = Some a \<longrightarrow> 0 \<le> a \<and> a \<le> 100)"

lemma diOf_range: "0 \<le> dm \<Longrightarrow> dm \<le> tr \<Longrightarrow> 0 \<le> diOf dm tr \<and> diOf dm tr \<le> 100"
  by (auto simp: diOf_def divide_le_eq)

lemma dxOf_range: "0 \<le> p \<Longrightarrow> 0 \<le> m \<Longrightarrow> 0 \<le> dxOf p m \<and> dxOf p m \<le> 100"
proof -
  assume "0 \<le> p" "0 \<le> m"
  then have "\<bar>p - m\<bar> \<le> p + m" by linarith
  then show ?thesis using \<open>0 \<le> p\<close> \<open>0 \<le> m\<close> by (auto simp: dxOf_def Let_def divide_le_eq)
qed

lemma wilder_mono: "0 < period \<Longrightarrow> s \<le> t \<Longrightarrow> x \<le> y \<Longrightarrow> wilder period s x \<le> wilder period t y"
proof -
  assume p: "0 < period" and st: "s \<le> t" and xy: "x \<le> y"
  have eq: "wilder period u z = u * (1 - 1 / of_nat period) + z" for u z by (simp add: wilder_def algebra_simps)
  have "1 / of_nat period \<le> (1 :: number)" using p by (simp add: divide_le_eq)
  then show ?thesis unfolding eq using st xy by (intro add_mono mult_right_mono) simp_all
qed

lemma wilder_nonneg: "0 < period \<Longrightarrow> 0 \<le> s \<Longrightarrow> 0 \<le> x \<Longrightarrow> 0 \<le> wilder period s x"
  using wilder_mono [of period 0 s 0 x] by (simp add: wilder_def)

lemma sum_list_within: "\<forall>x \<in> set xs. 0 \<le> x \<and> x \<le> (100 :: number) \<Longrightarrow> 0 \<le> sum_list xs \<and> sum_list xs \<le> 100 * of_nat (length xs)"
  by (induction xs) (auto simp: algebra_simps)

lemma mean_within: "0 < n \<Longrightarrow> 0 \<le> x \<Longrightarrow> x \<le> 100 * of_nat n \<Longrightarrow> 0 \<le> x / of_nat n \<and> x / of_nat n \<le> (100 :: number)"
  by (simp add: divide_le_eq)

lemma adx_step_sane:
  assumes "0 < period" "adxSane period s" "i < length cs" "0 < i" "\<forall>c \<in> set cs. wellShaped c"
  shows "adxSane period (adxStep (movesOf rangeMove cs) (movesOf plusMove cs) (movesOf minusMove cs) period i s)"
proof -
  define s1 where "s1 = (if i > period then s\<lparr>as_tr := wilder period (as_tr s) (movesOf rangeMove cs ! i),
      as_plus := wilder period (as_plus s) (movesOf plusMove cs ! i),
      as_minus := wilder period (as_minus s) (movesOf minusMove cs ! i)\<rparr> else s)"
  have moves: "plusMove (cs ! i) (cs ! (i - 1)) \<le> rangeMove (cs ! i) (cs ! (i - 1))"
    "minusMove (cs ! i) (cs ! (i - 1)) \<le> rangeMove (cs ! i) (cs ! (i - 1))"
    "0 \<le> plusMove (cs ! i) (cs ! (i - 1))" "0 \<le> minusMove (cs ! i) (cs ! (i - 1))"
    using moves_below_range [of "cs ! i" "cs ! (i - 1)"] assms(3-5) by auto
  have s1: "adxSane period s1" unfolding s1_def
    using assms moves by (auto simp: adxSane_def movesOf_nth intro: wilder_mono wilder_nonneg)
  define dx where "dx = dxOf (diOf (as_plus s1) (as_tr s1)) (diOf (as_minus s1) (as_tr s1))"
  have dx: "0 \<le> dx" "dx \<le> 100"
    unfolding dx_def using s1 dxOf_range diOf_range by (simp_all add: adxSane_def)
  have avg: "0 \<le> (a * (of_nat period - 1) + dx) / of_nat period \<and> (a * (of_nat period - 1) + dx) / of_nat period \<le> 100"
    if "0 \<le> a" "a \<le> 100" for a
  proof -
    have p: "(0 :: number) \<le> of_nat period - 1" using assms(1) by (simp add: Suc_leI)
    have "a * (of_nat period - 1) \<le> 100 * (of_nat period - 1)" "0 \<le> a * (of_nat period - 1)"
      using mult_right_mono [OF that(2) p] mult_nonneg_nonneg [OF that(1) p] by simp_all
    then show ?thesis using assms(1) dx by (intro mean_within) (auto simp: right_diff_distrib)
  qed
  have sums: "0 \<le> sum_list (as_dxList s1 @ [dx]) / of_nat period \<and> sum_list (as_dxList s1 @ [dx]) / of_nat period \<le> 100"
    if "length (as_dxList s1 @ [dx]) = period"
    using that assms(1) s1 dx sum_list_within [of "as_dxList s1 @ [dx]"] by (intro mean_within) (auto simp: adxSane_def)
  have "adxStep (movesOf rangeMove cs) (movesOf plusMove cs) (movesOf minusMove cs) period i s
    = s1\<lparr>as_dxList := as_dxList s1 @ [dx],
        as_adx := (if length (as_dxList s1 @ [dx]) = period then Some (sum_list (as_dxList s1 @ [dx]) / of_nat period)
          else if length (as_dxList s1 @ [dx]) > period then map_option (\<lambda>a. (a * (of_nat period - 1) + dx) / of_nat period) (as_adx s1)
          else as_adx s1)\<rparr>"
    by (simp add: adxStep_def s1_def dx_def Let_def)
  then show ?thesis using s1 dx avg sums by (auto simp: adxSane_def split: if_splits)
qed

lemma adx_ranges:
  assumes "\<forall>c \<in> set cs. wellShaped c"
  shows "entriesWithin 0 100 (ad_adx (adx cs period)) \<and> entriesWithin 0 100 (ad_plusDI (adx cs period))
    \<and> entriesWithin 0 100 (ad_minusDI (adx cs period))"
proof (cases "period = 0 \<or> length cs < period * 2")
  case True
  then show ?thesis by (auto simp: adx_def Let_def entriesWithin_def list_all_iff)
next
  case False
  let ?seed = "\<lparr>as_tr = sum_list (take period (drop 1 (movesOf rangeMove cs))), as_plus = sum_list (take period (drop 1 (movesOf plusMove cs))),
      as_minus = sum_list (take period (drop 1 (movesOf minusMove cs))), as_dxList = [], as_adx = None\<rparr>"
  have len: "0 < period" "period < length cs" using False by auto
  have moves: "plusMove (cs ! i) (cs ! (i - 1)) \<le> rangeMove (cs ! i) (cs ! (i - 1)) \<and> minusMove (cs ! i) (cs ! (i - 1)) \<le> rangeMove (cs ! i) (cs ! (i - 1))
      \<and> 0 \<le> plusMove (cs ! i) (cs ! (i - 1)) \<and> 0 \<le> minusMove (cs ! i) (cs ! (i - 1))" if "i \<in> set [1..<Suc period]" for i
    using that len assms by (intro moves_below_range) auto
  have seed: "adxSane period ?seed"
    unfolding adxSane_def take_movesOf [OF len(2)]
    using moves by (auto intro!: sum_list_mono sum_list_nonneg simp del: upt_Suc)
  have col: "entriesWithin 0 100 (fillFrom (adxStep (movesOf rangeMove cs) (movesOf plusMove cs) (movesOf minusMove cs) period) g period
      (length cs) ?seed (replicate (length cs) None))" if "\<And>s v. adxSane period s \<Longrightarrow> g s = Some v \<Longrightarrow> 0 \<le> v \<and> v \<le> 100" for g
  proof (rule fillFrom_within [where P = "adxSane period", OF _ _ _ seed])
    show "adxSane period (adxStep (movesOf rangeMove cs) (movesOf plusMove cs) (movesOf minusMove cs) period i s)"
      if "period \<le> i" "i < length cs" "adxSane period s" for i s
      using that len assms by (intro adx_step_sane) auto
    show "0 \<le> v \<and> v \<le> 100" if "adxSane period s" "g s = Some v" for s v using that \<open>\<And>s v. adxSane period s \<Longrightarrow> g s = Some v \<Longrightarrow> 0 \<le> v \<and> v \<le> 100\<close> by blast
  qed (use len in simp_all)
  have eqs: "entriesWithin 0 100 (ad_adx (adx cs period)) = entriesWithin 0 100 (fillFrom (adxStep (movesOf rangeMove cs) (movesOf plusMove cs)
      (movesOf minusMove cs) period) as_adx period (length cs) ?seed (replicate (length cs) None))"
    "entriesWithin 0 100 (ad_plusDI (adx cs period)) = entriesWithin 0 100 (fillFrom (adxStep (movesOf rangeMove cs) (movesOf plusMove cs)
      (movesOf minusMove cs) period) (\<lambda>s. Some (diOf (as_plus s) (as_tr s))) period (length cs) ?seed (replicate (length cs) None))"
    "entriesWithin 0 100 (ad_minusDI (adx cs period)) = entriesWithin 0 100 (fillFrom (adxStep (movesOf rangeMove cs) (movesOf plusMove cs)
      (movesOf minusMove cs) period) (\<lambda>s. Some (diOf (as_minus s) (as_tr s))) period (length cs) ?seed (replicate (length cs) None))"
    using False by (simp_all add: adx_def Let_def)
  have v1: "0 \<le> v \<and> v \<le> 100" if "adxSane period s" "as_adx s = Some v" for s v
    using that by (simp add: adxSane_def)
  have v2: "0 \<le> v \<and> v \<le> 100" if "adxSane period s" "Some (diOf (as_plus s) (as_tr s)) = Some v" for s v
    using that diOf_range [of "as_plus s" "as_tr s"] by (simp add: adxSane_def)
  have v3: "0 \<le> v \<and> v \<le> 100" if "adxSane period s" "Some (diOf (as_minus s) (as_tr s)) = Some v" for s v
    using that diOf_range [of "as_minus s" "as_tr s"] by (simp add: adxSane_def)
  show ?thesis unfolding eqs by (intro conjI col [OF v1] col [OF v2] col [OF v3])
qed

text \<open>The oscillators stay on their scale: every computed entry of the strength index, whatever the prices,
  and of the directional indices, for candles that close between their low and high, is between 0 and 100.\<close>

theorem oscillators_bounded:
  assumes "\<forall>c \<in> set cs. wellShaped c"
  shows "entriesWithin 0 100 (rsi (map k_close cs) period) \<and> entriesWithin 0 100 (ad_adx (adx cs period))
    \<and> entriesWithin 0 100 (ad_plusDI (adx cs period)) \<and> entriesWithin 0 100 (ad_minusDI (adx cs period))"
  using rsi_range adx_ranges [OF assms] by blast

theorem oscillators_bounded_witness:
  "entriesWithin 0 100 (rsi (map k_close sampleCandles) 2) \<and> entriesWithin 0 100 (ad_adx (adx sampleCandles 2))"
  using oscillators_bounded [of sampleCandles 2]
  by (simp add: sampleCandles_def sampleCandle_def wellShaped_def)

subsection \<open>The Supertrend line\<close>

text \<open>What one bar of a computed Supertrend says: its line, direction and bands.\<close>

definition trendBar :: "supertrendResult \<Rightarrow> nat \<Rightarrow> number \<Rightarrow> int \<Rightarrow> number \<Rightarrow> number \<Rightarrow> bool" where
  "trendBar r i line dir up lo \<longleftrightarrow> sr_supertrend r ! i = Some line \<and> sr_direction r ! i = Some dir
    \<and> sr_upperBand r ! i = Some up \<and> sr_lowerBand r ! i = Some lo"

definition trendState :: "candle list \<Rightarrow> nat \<Rightarrow> number \<Rightarrow> nat \<Rightarrow> bandState" where
  "trendState cs p m i = fold (supertrendStep cs (atr cs p) m) [p..<Suc i] bandSeed"

lemma trendBar_state:
  "p \<le> i \<Longrightarrow> i < length cs \<Longrightarrow> trendBar (supertrend cs p m) i line dir up lo \<longleftrightarrow>
    trendState cs p m i = \<lparr>bs_upper = Some up, bs_lower = Some lo, bs_st = line, bs_dir = dir\<rparr>"
  by (cases "trendState cs p m i")
    (auto simp: trendBar_def supertrend_def Let_def nth_fillFrom trendState_def simp del: upt_Suc)

lemma trendState_Suc: "p \<le> i \<Longrightarrow> trendState cs p m (Suc i) = supertrendStep cs (atr cs p) m (Suc i) (trendState cs p m i)"
  by (simp add: trendState_def)

lemma trendState_line:
  "p \<le> i \<Longrightarrow> trendState cs p m i = \<lparr>bs_upper = Some up, bs_lower = Some lo, bs_st = line, bs_dir = dir\<rparr> \<Longrightarrow>
    dir = 1 \<and> line = lo \<or> dir = -1 \<and> line = up"
  by (auto simp: trendState_def supertrendStep_def Let_def split: if_splits)

text \<open>C40. When the Supertrend turns and when its line ratchets. Where the line is the upper band, in a downtrend or in an
  uptrend whose two bands coincide, the next bar is an uptrend exactly when it closes above its upper band;
  in any other uptrend exactly when it closes at or above its lower band. And while the trend lasts, the line of an
  uptrend does not fall provided the last bar closed at or above it, and that of a downtrend does not rise
  provided the last bar closed at or below it. A bar of an uptrend can close below its line, after a gap in which
  the bands cross, and then the line may fall.\<close>

theorem supertrend_ratchets:
  assumes "p \<le> i" "Suc i < length cs"
    "trendBar (supertrend cs p m) i line dir up lo" "trendBar (supertrend cs p m) (Suc i) line' dir' up' lo'"
  shows "(dir = 1 \<or> dir = -1)
    \<and> (dir = -1 \<longrightarrow> (dir' = 1 \<longleftrightarrow> up' < k_close (cs ! Suc i)))
    \<and> (dir = 1 \<and> lo = up \<longrightarrow> (dir' = 1 \<longleftrightarrow> up' < k_close (cs ! Suc i)))
    \<and> (dir = 1 \<and> lo \<noteq> up \<longrightarrow> (dir' = 1 \<longleftrightarrow> lo' \<le> k_close (cs ! Suc i)))
    \<and> (dir = 1 \<and> dir' = 1 \<and> line \<le> k_close (cs ! i) \<longrightarrow> line \<le> line')
    \<and> (dir = -1 \<and> dir' = -1 \<and> k_close (cs ! i) \<le> line \<longrightarrow> line' \<le> line)"
proof -
  have now: "trendState cs p m i = \<lparr>bs_upper = Some up, bs_lower = Some lo, bs_st = line, bs_dir = dir\<rparr>"
    using assms by (simp add: trendBar_state)
  have "trendState cs p m (Suc i) = \<lparr>bs_upper = Some up', bs_lower = Some lo', bs_st = line', bs_dir = dir'\<rparr>"
    using assms by (simp add: trendBar_state)
  then have step: "supertrendStep cs (atr cs p) m (Suc i) \<lparr>bs_upper = Some up, bs_lower = Some lo, bs_st = line, bs_dir = dir\<rparr>
      = \<lparr>bs_upper = Some up', bs_lower = Some lo', bs_st = line', bs_dir = dir'\<rparr>"
    using assms(1) by (simp add: trendState_Suc now)
  have side: "dir = 1 \<and> line = lo \<or> dir = -1 \<and> line = up" using trendState_line [OF assms(1) now] .
  have lower: "lo \<le> lo'" if "lo \<le> k_close (cs ! i)"
    using step that by (auto simp: supertrendStep_def finalLowerOf_def Let_def split: if_splits)
  have upper: "up' \<le> up" if "k_close (cs ! i) \<le> up"
    using step that by (auto simp: supertrendStep_def finalUpperOf_def Let_def split: if_splits)
  have dir: "dir' = (if up = line then if k_close (cs ! Suc i) \<le> up' then -1 else 1 else if lo' \<le> k_close (cs ! Suc i) then 1 else -1)"
    "line' = (if dir' = 1 then lo' else up')"
    using step by (auto simp: supertrendStep_def Let_def)
  show ?thesis using side lower upper dir by (auto split: if_splits)
qed

text \<open>An uptrend over two bars, whose line rises from 8.5 to 10.25.\<close>

theorem supertrend_ratchets_witness:
  "trendBar (supertrend sampleCandles 2 1) 3 (41 / 4) 1 (31 / 2) (41 / 4) \<and> (17 / 2 :: number) \<le> 41 / 4"
proof -
  have bars: "trendBar (supertrend sampleCandles 2 1) 2 (17 / 2) 1 (31 / 2) (17 / 2)"
    "trendBar (supertrend sampleCandles 2 1) 3 (41 / 4) 1 (31 / 2) (41 / 4)"
    by (simp_all add: trendBar_def sampleCandles_def sampleCandle_def supertrend_def supertrendStep_def finalUpperOf_def
      finalLowerOf_def bandSeed_def atr_def atrStep_def trueRanges_def trueRange_def orIfFalsy_def Let_def fillFrom_def upt_rec numeral_nat)
  then show ?thesis
    using supertrend_ratchets [of 2 2 sampleCandles 1 "17 / 2" 1 "31 / 2" "17 / 2" "41 / 4" 1 "31 / 2" "41 / 4"]
    by (simp add: sampleCandles_def sampleCandle_def numeral_nat)
qed

end
