(* ===== verification/Spec2Isabelle.thy ===== *)
theory Spec2Isabelle
  imports Paper_Broker_Restart Mtf_State Market_State Pipeline_Guarantees Gateway_Guarantees
    Trailing_Guarantees Protection_Guarantees Trading_Chain Circuit_Breaker Provider_Supervisor Api_Limits
    Strategy_Performance Agent_Guarantees Exit_Guarantees Indicator_Guarantees
begin

text \<open>
  This library models the trading core of paper-broker, a simulated futures exchange with the machinery that trades on it:
  market data, structure and setup detection, plans, strategies, an autonomous agent, execution and risk. File names
  below are under \<open>src/\<close> of the repository.

  \<^bold>\<open>The parts and how they interact.\<close> Market data (\<open>market/\<close>) keeps candles, quotes and multi-timeframe states. From them the
  structure and zone detectors find swings, breaks, gaps, order blocks and liquidity, the setup engine scores and tracks
  candidates, and the plan engine turns a ready candidate into entry, stop and targets. Two traders use this. The SMC pipeline
  (\<open>trading/\<close>, \<open>broker/paper/\<close>) checks a plan against risk limits and profit goals, sizes it, and trades it on the SMC exchange,
  which fills candle by candle. The strategy side (\<open>strategy/\<close>, \<open>agent/\<close>) lets strategies and the agent submit signals to
  the strategy engine; the engine filters them and hands them to the executor, which sizes them and submits orders over the
  execution router (\<open>execution/\<close>) to the paper broker (\<open>broker/PaperBroker.ts\<close>) or, when armed, to a live venue. Trailing
  stops replace resting orders, the circuit breaker and the exit manager restrain the agent, and the provider supervisor
  chooses the feed.

  \<^bold>\<open>Theories and sources.\<close>
  \<^item> \<open>Prelude\<close>: numbers, JavaScript conventions (\<open>??\<close>, truthiness, rounding, \<open>toFixed\<close>), maps, outcomes, loops that may throw, and the
    locales \<open>rounding\<close>, \<open>keyed_store\<close>, \<open>component\<close>, \<open>guarded_component\<close> and \<open>accounting\<close>.
  \<^item> \<open>Broker_Types\<close>, \<open>Paper_Broker\<close>: \<open>broker/types.ts\<close> and \<open>broker/PaperBroker.ts\<close>; the record \<open>broker\<close> holds the fields of the class, and
    \<open>perform\<close> is one of its operations. \<open>Paper_Broker_Frames\<close>, \<open>_Ledger\<close>, \<open>_Positions\<close>, \<open>_Fills\<close>, \<open>_Orders\<close>, \<open>_Guarantees\<close>, \<open>_Accounts\<close> and
    \<open>_Restart\<close> prove its books, the effect of a fill, the finality of orders, the limits, liquidation, and what a restart recovers.
    \<open>Broker_Instances\<close> holds concrete brokers.
  \<^item> \<open>Smc_Models\<close>, \<open>Smc_Broker\<close>, \<open>Smc_Guarantees\<close>: \<open>broker/paper/\<close>, the exchange of the SMC pipeline, its books and the life of a position.
  \<^item> \<open>Market_Types\<close>, \<open>Klines\<close>, \<open>Market_State\<close>, \<open>Mtf_State\<close>: \<open>market/Klines.ts\<close>, \<open>MarketState.ts\<close>, \<open>MtfStateEngine.ts\<close>.
  \<^item> \<open>Swing_Structure\<close>, \<open>Structure_Guarantees\<close>, \<open>Smc_Zones\<close>, \<open>Zone_Guarantees\<close>: \<open>market/structure/\<close> and \<open>market/smc/\<close>; no repainting, the
    meaning of a zone's status, the bounded cache.
  \<^item> \<open>Setup_Types\<close>, \<open>Setup_Lifecycle\<close>, \<open>Execution_Plans\<close>, \<open>Plan_Guarantees\<close>: \<open>market/setup/\<close> and \<open>market/execution/\<close>.
  \<^item> \<open>Profit_Goals\<close>, \<open>Trading_Risk\<close>, \<open>Risk_Guarantees\<close>, \<open>Pipeline_Guarantees\<close>: \<open>trading/\<close>; the last composes plan, intent, entry and fill.
  \<^item> \<open>Signals\<close>, \<open>Strategy_Engine\<close>, \<open>Engine_Guarantees\<close>, \<open>Signal_Execution\<close>, \<open>Execution_Guarantees\<close>, \<open>Strategy_Performance\<close>: \<open>strategy/\<close>; locks,
    deduplication, sizing, the report of an execution, quarantine.
  \<^item> \<open>Execution_Gateway\<close>, \<open>Gateway_Guarantees\<close>, \<open>Trading_Chain\<close>: \<open>execution/\<close> and \<open>config/modes/\<close>; \<open>port\<close> is the interface \<open>ExecutionBroker\<close>, and the
    chain is engine, executor and router composed.
  \<^item> \<open>Trailing_Stops\<close>, \<open>Trailing_Guarantees\<close>, \<open>Protection_Guarantees\<close>: \<open>trading/risk/Trailing*.ts\<close>, and the protective orders of the executor over
    the paper broker.
  \<^item> \<open>Indicators\<close>, \<open>Indicator_Guarantees\<close>, \<open>Market_Regime\<close>, \<open>Portfolio_Risk\<close>, \<open>Portfolio_Guarantees\<close>: \<open>strategy/indicators.ts\<close>,
    \<open>strategy/adaptive-supertrend/\<close>, \<open>analysis/MarketRegimeDetector.ts\<close> and \<open>risk/\<close>.
  \<^item> \<open>Circuit_Breaker\<close>, \<open>Exit_Manager\<close>, \<open>Exit_Guarantees\<close>, \<open>Autonomous_Agent\<close>, \<open>Agent_Guarantees\<close>: \<open>agent/\<close>.
  \<^item> \<open>Provider_Supervisor\<close>: \<open>market/supervisor/\<close>. \<open>Api_Limits\<close>: \<open>api/RateLimiter.ts\<close>.

  \<^bold>\<open>What the lemmas show.\<close> Every component with state has a step function over its operations, an invariant every operation
  keeps, and an interpretation of \<open>component\<close> or \<open>guarded_component\<close>, from which the statements about whole runs follow.
  \<open>accounting\<close> gives the cash identity of the paper broker; \<open>order_desk\<close> states what trailing stops and protections rely on of a
  broker and is interpreted on the paper broker; \<open>engine_contract\<close> carries invariants of the engine through its
  callbacks (interpreted for the symbol locks and for stored rejections), \<open>engine_world\<close> those of the world behind it; \<open>causal_indicator\<close>
  is the prefix property of an indicator series. Several properties state what the code does where it falls short of
  its comments; they say so.

  \<^bold>\<open>Decisions.\<close> JavaScript numbers and \<open>Decimal\<close> values are rational numbers: floating-point error is not modelled; \<open>NaN\<close>, \<open>undefined\<close> and \<open>null\<close> are \<open>None\<close>. Rounding is
  written out. The third-party \<open>decimal.js\<close> and \<open>ulid\<close> are fields of the record \<open>lib\<close>; the hypotheses \<open>decimal_exact\<close> and \<open>ulid_fresh\<close>
  say that the arithmetic is exact and that identifiers do not repeat, and \<open>exactLib\<close> shows both can hold. Square root and logarithm are
  arguments. A \<open>Map\<close> or object with string keys is an association list in insertion order (\<open>jsmap\<close>). What throws
  returns a sum that keeps the state reached. \<open>Date.now()\<close> is an argument. Calls of the persister, the event log and
  listeners are sequences in the state. An awaited call is one step, except in the trailing controller, whose pass is
  split at its awaits so that two passes can overlap.
  Loops over lists are structural recursion or folds; loops that scan forward are bounded by the list they scan, so no
  definition takes fuel and every function is total.

  \<^bold>\<open>Not modelled.\<close> The heuristics of the single strategies and their learning, the language-model agents, the HTTP and WebSocket
  interface but for the rate limiter, exchange connectivity, persistence, notifications, telemetry, backtest and research
  tooling, the screener, the liquidity map, the scenario and thesis engines, the dashboard and the process wiring: input and output,
  presentation, or code whose result is an argument of what is modelled.
\<close>

end
